(* ===== verification/Prelude.thy ===== *)
theory Prelude
  imports Main "HOL-Library.Word" "HOL-Library.Multiset" "HOL-Library.Signed_Division"
begin

text \<open>
  The shared vocabulary of the development: Go's machine integers and time values, the
  string functions of Go's standard library the program calls, early returns, and the
  generic lemmas on lists and multisets that the components share.

  A Go string is a sequence of bytes, so it is a \<open>char list\<close> here, one \<open>char\<close> per byte.
  A \<open>time.Time\<close> is an \<open>int\<close>: nanoseconds relative to the Unix epoch. A \<open>time.Duration\<close>
  is an \<open>int\<close> that stays in the range of Go's \<open>int64\<close>: every multiplication of durations
  goes through \<open>wrap64\<close>, which is two's-complement wrap-around. A \<open>uint32\<close> is a
  \<open>32 word\<close>.
\<close>

named_theorems go_simps \<open>rewrite rules for the Go string and time functions\<close>
named_theorems store_specs \<open>the specification lemmas of the store operations\<close>

type_synonym gotime = int
type_synonym duration = int
type_synonym u32 = "32 word"

section \<open>Machine integers and time\<close>

definition wrap64 :: "int \<Rightarrow> int" where
  "wrap64 x = (x + 2 ^ 63) mod 2 ^ 64 - 2 ^ 63"

definition max_int64 :: int where
  "max_int64 = 2 ^ 63 - 1"

definition min_int64 :: int where
  "min_int64 = - (2 ^ 63)"

lemma wrap64_id: "min_int64 \<le> x \<Longrightarrow> x \<le> max_int64 \<Longrightarrow> wrap64 x = x"
  by (simp add: wrap64_def max_int64_def min_int64_def)

lemma wrap64_range: "min_int64 \<le> wrap64 x \<and> wrap64 x \<le> max_int64"
proof -
  have "0 \<le> (x + 2 ^ 63) mod 2 ^ 64" "(x + 2 ^ 63) mod 2 ^ 64 < (2 ^ 64 :: int)"
    by simp_all
  then show ?thesis by (simp add: wrap64_def max_int64_def min_int64_def)
qed

text \<open>\<open>time.Time.Sub\<close> saturates at the ends of the \<open>int64\<close> range.\<close>

definition time_sub :: "gotime \<Rightarrow> gotime \<Rightarrow> duration" where
  "time_sub t u = max min_int64 (min max_int64 (t - u))"

lemma time_sub_pos [go_simps]: "0 < time_sub t u \<longleftrightarrow> u < t"
  by (auto simp: time_sub_def min_int64_def max_int64_def)

definition Second :: duration where "Second = 1000000000"
definition Minute :: duration where "Minute = 60 * Second"
definition Hour :: duration where "Hour = 60 * Minute"

lemmas time_units = Second_def Minute_def Hour_def

text \<open>\<open>Duration.Milliseconds\<close>, which truncates.\<close>

definition milliseconds :: "duration \<Rightarrow> int" where
  "milliseconds d = (if d < 0 then - (- d div 1000000) else d div 1000000)"

text \<open>The zero value of \<open>time.Time\<close> is midnight of January 1 of year 1.\<close>

definition zero_time :: gotime where
  "zero_time = - 62135596800 * 1000000000"

section \<open>Strings\<close>

definition has_prefix :: "string \<Rightarrow> string \<Rightarrow> bool" where
  "has_prefix s p \<longleftrightarrow> take (length p) s = p"

definition has_suffix :: "string \<Rightarrow> string \<Rightarrow> bool" where
  "has_suffix s p \<longleftrightarrow> length p \<le> length s \<and> drop (length s - length p) s = p"

fun contains :: "string \<Rightarrow> string \<Rightarrow> bool" where
  "contains [] sub = (sub = [])"
| "contains (c # cs) sub = (has_prefix (c # cs) sub \<or> contains cs sub)"

definition trim_suffix :: "string \<Rightarrow> string \<Rightarrow> string" where
  "trim_suffix s p = (if has_suffix s p then take (length s - length p) s else s)"

definition trim_prefix :: "string \<Rightarrow> string \<Rightarrow> string" where
  "trim_prefix s p = (if has_prefix s p then drop (length p) s else s)"

text \<open>\<open>strings.Split\<close> with a one-byte separator: always at least one piece.\<close>

fun split_on :: "char \<Rightarrow> string \<Rightarrow> string list" where
  "split_on sep [] = [[]]"
| "split_on sep (c # cs) =
     (if c = sep then [] # split_on sep cs
      else (case split_on sep cs of [] \<Rightarrow> [[c]] | p # ps \<Rightarrow> (c # p) # ps))"

text \<open>\<open>strings.Cut\<close> with a one-byte separator.\<close>

fun cut_on :: "char \<Rightarrow> string \<Rightarrow> (string \<times> string) option" where
  "cut_on sep [] = None"
| "cut_on sep (c # cs) =
     (if c = sep then Some ([], cs)
      else map_option (\<lambda>(b, a). (c # b, a)) (cut_on sep cs))"

text \<open>
  The UTF-8 encodings of the code points that \<open>unicode.IsSpace\<close> accepts, which
  \<open>strings.TrimSpace\<close> removes from both ends.
\<close>

definition space_runes :: "string list" where
  "space_runes =
     [[CHR 0x09], [CHR 0x0A], [CHR 0x0B],
      [CHR 0x0C], [CHR 0x0D], [CHR 0x20],
      [CHR 0xC2, CHR 0x85], [CHR 0xC2, CHR 0xA0], [CHR 0xE1, CHR 0x9A, CHR 0x80],
      [CHR 0xE2, CHR 0x80, CHR 0x80], [CHR 0xE2, CHR 0x80, CHR 0x81], [CHR 0xE2, CHR 0x80, CHR 0x82],
      [CHR 0xE2, CHR 0x80, CHR 0x83], [CHR 0xE2, CHR 0x80, CHR 0x84], [CHR 0xE2, CHR 0x80, CHR 0x85],
      [CHR 0xE2, CHR 0x80, CHR 0x86], [CHR 0xE2, CHR 0x80, CHR 0x87], [CHR 0xE2, CHR 0x80, CHR 0x88],
      [CHR 0xE2, CHR 0x80, CHR 0x89], [CHR 0xE2, CHR 0x80, CHR 0x8A], [CHR 0xE2, CHR 0x80, CHR 0xA8],
      [CHR 0xE2, CHR 0x80, CHR 0xA9], [CHR 0xE2, CHR 0x80, CHR 0xAF], [CHR 0xE2, CHR 0x81, CHR 0x9F],
      [CHR 0xE3, CHR 0x80, CHR 0x80]]"

fun strip_front :: "string list \<Rightarrow> string \<Rightarrow> string option" where
  "strip_front [] s = None"
| "strip_front (p # ps) s =
     (if p \<noteq> [] \<and> has_prefix s p then Some (drop (length p) s) else strip_front ps s)"

text \<open>Every removed prefix is non-empty, so the length of the string bounds the rounds.\<close>

primrec trim_rounds :: "nat \<Rightarrow> string list \<Rightarrow> string \<Rightarrow> string" where
  "trim_rounds 0 ps s = s"
| "trim_rounds (Suc n) ps s =
     (case strip_front ps s of None \<Rightarrow> s | Some t \<Rightarrow> trim_rounds n ps t)"

definition trim_front :: "string list \<Rightarrow> string \<Rightarrow> string" where
  "trim_front ps s = trim_rounds (length s) ps s"

lemma strip_front_shorter: "strip_front ps s = Some t \<Longrightarrow> length t < length s"
proof (induction ps)
  case Nil
  then show ?case by simp
next
  case (Cons p ps)
  show ?case
  proof (cases "p \<noteq> [] \<and> has_prefix s p")
    case True
    then have "0 < length p" "length p \<le> length s"
      by (auto simp: has_prefix_def) (metis length_take min.cobounded1)
    moreover have "t = drop (length p) s" using True Cons.prems by simp
    ultimately show ?thesis by (metis diff_less length_drop order_less_le_trans)
  next
    case False
    with Cons show ?thesis by (simp split: if_splits)
  qed
qed

lemma trim_rounds_enough: "length s \<le> n \<Longrightarrow> strip_front ps (trim_rounds n ps s) = None"
proof (induction n arbitrary: s)
  case 0
  then show ?case using strip_front_shorter [of ps s] by (cases "strip_front ps s") auto
next
  case (Suc n)
  show ?case
  proof (cases "strip_front ps s")
    case (Some t)
    then have "length t \<le> n" using strip_front_shorter [OF Some] Suc.prems by simp
    with Some Suc.IH show ?thesis by simp
  qed simp
qed

lemma trim_front_trimmed: "strip_front ps (trim_front ps s) = None"
  by (simp add: trim_front_def trim_rounds_enough)

definition trim_space :: "string \<Rightarrow> string" where
  "trim_space s =
     rev (trim_front (map rev space_runes) (rev (trim_front space_runes s)))"

lemma strip_front_none: "strip_front ps s = None \<longleftrightarrow> (\<forall>p \<in> set ps. p \<noteq> [] \<longrightarrow> \<not> has_prefix s p)"
  by (induction ps) auto

lemma has_prefix_append: "has_prefix a p \<Longrightarrow> has_prefix (a @ b) p"
  unfolding has_prefix_def by (metis append_take_drop_id append_assoc append_eq_conv_conj)

lemma strip_front_prefix: "strip_front ps (a @ b) = None \<Longrightarrow> strip_front ps a = None"
  unfolding strip_front_none using has_prefix_append by blast

lemma strip_front_suffix: "strip_front ps s = Some t \<Longrightarrow> \<exists>a. s = a @ t"
  by (induction ps) (auto split: if_splits, metis append_take_drop_id)

lemma trim_rounds_suffix: "\<exists>a. s = a @ trim_rounds n ps s"
proof (induction n arbitrary: s)
  case (Suc n)
  show ?case
  proof (cases "strip_front ps s")
    case (Some t)
    then obtain a where "s = a @ t" using strip_front_suffix by blast
    moreover obtain b where "t = b @ trim_rounds n ps t" using Suc by blast
    ultimately show ?thesis using Some by (metis append_assoc option.simps(5) trim_rounds.simps(2))
  qed simp
qed simp

lemma trim_front_id: "strip_front ps s = None \<Longrightarrow> trim_front ps s = s"
  unfolding trim_front_def by (cases "length s") simp_all

lemma trim_space_idem [simp]: "trim_space (trim_space s) = trim_space s"
proof -
  let ?front = "trim_front space_runes s" and ?rear = "map rev space_runes"
  obtain a where a: "rev ?front = a @ trim_front ?rear (rev ?front)"
    unfolding trim_front_def [of ?rear] using trim_rounds_suffix by blast
  then have "?front = trim_space s @ rev a" by (simp add: trim_space_def) (metis rev_append rev_rev_ident)
  then have "strip_front space_runes (trim_space s) = None"
    using trim_front_trimmed [of space_runes s] strip_front_prefix by metis
  moreover have "strip_front ?rear (rev (trim_space s)) = None"
    by (simp add: trim_space_def trim_front_trimmed)
  ultimately show ?thesis by (simp add: trim_space_def [of "trim_space s"] trim_front_id)
qed

text \<open>
  \<open>strings.ToLower\<close>: the ASCII letters byte by byte when the string is ASCII; for other
  strings Go consults the Unicode tables, which are the parameter \<open>ul\<close>.
\<close>

definition is_ascii :: "string \<Rightarrow> bool" where
  "is_ascii s \<longleftrightarrow> (\<forall>c \<in> set s. of_char c < (128 :: nat))"

definition lower_char :: "char \<Rightarrow> char" where
  "lower_char c =
     (let n = of_char c :: nat in if 65 \<le> n \<and> n \<le> 90 then char_of (n + 32) else c)"

definition to_lower :: "(string \<Rightarrow> string) \<Rightarrow> string \<Rightarrow> string" where
  "to_lower ul s = (if is_ascii s then map lower_char s else ul s)"

text \<open>
  \<open>strings.EqualFold\<close> against a pattern of ASCII letters other than k and s (whose case folding has no
  members outside ASCII), or of an ASCII string.
\<close>

definition equal_fold :: "string \<Rightarrow> string \<Rightarrow> bool" where
  "equal_fold s t \<longleftrightarrow> map lower_char s = map lower_char t"

text \<open>\<open>strconv.ParseUint(s, 10, 32)\<close> and \<open>strconv.ParseInt(s, 10, 64)\<close>; \<open>None\<close> is an error.\<close>

definition digit_val :: "char \<Rightarrow> nat option" where
  "digit_val c = (let n = of_char c :: nat in if 48 \<le> n \<and> n \<le> 57 then Some (n - 48) else None)"

fun parse_digits :: "nat \<Rightarrow> string \<Rightarrow> nat option" where
  "parse_digits acc [] = Some acc"
| "parse_digits acc (c # cs) =
     (case digit_val c of None \<Rightarrow> None | Some d \<Rightarrow> parse_digits (10 * acc + d) cs)"

definition parse_uint32 :: "string \<Rightarrow> nat option" where
  "parse_uint32 s =
     (if s = [] then None
      else case parse_digits 0 s of
             None \<Rightarrow> None
           | Some n \<Rightarrow> if n < 2 ^ 32 then Some n else None)"

definition parse_int64 :: "string \<Rightarrow> int option" where
  "parse_int64 s =
     (let (neg, ds) = (case s of
          c # cs \<Rightarrow> if c = CHR ''-'' then (True, cs) else if c = CHR ''+'' then (False, cs)
                    else (False, s)
        | [] \<Rightarrow> (False, []))
      in if ds = [] then None
         else case parse_digits 0 ds of
                None \<Rightarrow> None
              | Some n \<Rightarrow>
                  if neg then (if n \<le> 2 ^ 63 then Some (- int n) else None)
                  else (if n < 2 ^ 63 then Some (int n) else None))"

text \<open>\<open>strconv.FormatInt(n, 10)\<close> for a number that is not negative.\<close>

fun format_nat :: "nat \<Rightarrow> string" where
  "format_nat n =
     (if n < 10 then [char_of (48 + n)] else format_nat (n div 10) @ [char_of (48 + n mod 10)])"

declare format_nat.simps [simp del]

definition format_int :: "int \<Rightarrow> string" where
  "format_int i = (if i < 0 then CHR ''-'' # format_nat (nat (- i)) else format_nat (nat i))"

subsection \<open>Facts about the string functions\<close>

lemma digit_val_char_of [go_simps]: "d < 10 \<Longrightarrow> digit_val (char_of (48 + d)) = Some d"
  by (simp add: digit_val_def Let_def)

lemma parse_digits_append:
  "parse_digits acc (xs @ ys) =
     (case parse_digits acc xs of None \<Rightarrow> None | Some n \<Rightarrow> parse_digits n ys)"
  by (induction xs arbitrary: acc) (auto split: option.splits)

lemma format_nat_nonempty [simp]: "format_nat n \<noteq> []"
  by (subst format_nat.simps) simp

lemma parse_digits_format: "parse_digits 0 (format_nat n) = Some n"
proof (induction n rule: format_nat.induct)
  case (1 n)
  show ?case
  proof (cases "n < 10")
    case True
    then show ?thesis by (subst format_nat.simps) (simp add: digit_val_char_of)
  next
    case False
    with 1 have "parse_digits 0 (format_nat (n div 10)) = Some (n div 10)" by simp
    with False show ?thesis
      by (subst format_nat.simps) (simp add: parse_digits_append digit_val_char_of)
  qed
qed

lemma format_nat_first_digit:
  "\<exists>d cs. d < (10 :: nat) \<and> format_nat n = char_of (48 + d) # cs"
proof (induction n rule: format_nat.induct)
  case (1 n)
  show ?case
  proof (cases "n < 10")
    case True
    then show ?thesis by (subst format_nat.simps) auto
  next
    case False
    with 1 obtain d :: nat and cs where "d < 10" "format_nat (n div 10) = char_of (48 + d) # cs"
      by blast
    with False show ?thesis by (subst format_nat.simps) auto
  qed
qed

lemma digit_not_sign:
  "d < (10 :: nat) \<Longrightarrow> char_of (48 + d) \<noteq> CHR ''-'' \<and> char_of (48 + d) \<noteq> CHR ''+''"
proof
  assume d: "d < 10"
  then have n: "of_char (char_of (48 + d) :: char) = 48 + d" by simp
  show "char_of (48 + d) \<noteq> CHR ''-''"
  proof
    assume "char_of (48 + d) = CHR ''-''"
    then have "48 + d = of_char CHR ''-''" using n by simp
    then show False by simp
  qed
  show "char_of (48 + d) \<noteq> CHR ''+''"
  proof
    assume "char_of (48 + d) = CHR ''+''"
    then have "48 + d = of_char CHR ''+''" using n by simp
    then show False by simp
  qed
qed

lemma parse_int64_format:
  assumes "0 \<le> i" and "i \<le> max_int64"
  shows "parse_int64 (format_int i) = Some i"
proof -
  obtain d :: nat and cs where d: "d < 10" and eq: "format_nat (nat i) = char_of (48 + d) # cs"
    using format_nat_first_digit by blast
  have "nat i < 2 ^ 63" using assms by (simp add: max_int64_def nat_less_iff)
  then show ?thesis
    using assms(1) parse_digits_format [of "nat i"] eq digit_not_sign [OF d]
    by (simp add: parse_int64_def format_int_def)
qed

lemma contains_iff: "contains s sub \<longleftrightarrow> (\<exists>a b. s = a @ sub @ b)"
proof (induction s)
  case Nil
  then show ?case by simp
next
  case (Cons c cs)
  have "has_prefix (c # cs) sub \<longleftrightarrow> (\<exists>b. c # cs = sub @ b)"
    by (auto simp: has_prefix_def) (metis append_take_drop_id)
  moreover have "(\<exists>a b. c # cs = a @ sub @ b) \<longleftrightarrow>
      (\<exists>b. c # cs = sub @ b) \<or> (\<exists>a b. cs = a @ sub @ b)"
    by (metis append_Cons append_Nil list.exhaust list.sel(3) list.distinct(1) list.inject)
  ultimately show ?case using Cons by simp
qed

lemma contains_take: "contains (take n s) sub \<Longrightarrow> contains s sub"
  by (metis append.assoc append_take_drop_id contains_iff)

section \<open>Early returns\<close>

text \<open>
  A store operation takes the database and returns a result and the database. Sequencing two
  of them with \<open>and_then\<close> is Go's \<open>if err != nil { return err }\<close>.
\<close>

definition and_then ::
  "('e + 'a) \<times> 's \<Rightarrow> ('a \<Rightarrow> 's \<Rightarrow> ('e + 'b) \<times> 's) \<Rightarrow> ('e + 'b) \<times> 's" where
  "and_then p k = (case p of (Inl e, s) \<Rightarrow> (Inl e, s) | (Inr a, s) \<Rightarrow> k a s)"

lemma and_then_simps [simp]:
  "and_then (Inl e, s) k = (Inl e, s)"
  "and_then (Inr a, s) k = k a s"
  by (simp_all add: and_then_def)

lemma and_then_eq_iff:
  "and_then p k = (r, s') \<longleftrightarrow>
     (\<exists>e. p = (Inl e, s') \<and> r = Inl e) \<or> (\<exists>a s. p = (Inr a, s) \<and> k a s = (r, s'))"
  by (cases p; cases "fst p") auto

lemma and_thenE:
  assumes "and_then p k = (r, s')"
  obtains (error) e where "p = (Inl e, s')" "r = Inl e"
        | (ok) a s where "p = (Inr a, s)" "k a s = (r, s')"
  using assms by (auto simp: and_then_eq_iff)

section \<open>Multisets of documents\<close>

text \<open>Two distinct occurrences of a multiset always stand in the relation \<open>R\<close>.\<close>

definition pairwise_mset :: "('a \<Rightarrow> 'a \<Rightarrow> bool) \<Rightarrow> 'a multiset \<Rightarrow> bool" where
  "pairwise_mset R M \<longleftrightarrow> (\<forall>x \<in># M. \<forall>y \<in># M - {#x#}. R x y)"

lemma pairwise_mset_empty [simp]: "pairwise_mset R {#}"
  by (simp add: pairwise_mset_def)

lemma pairwise_msetD: "pairwise_mset R M \<Longrightarrow> x \<in># M \<Longrightarrow> y \<in># M - {#x#} \<Longrightarrow> R x y"
  by (simp add: pairwise_mset_def)

lemma pairwise_mset_distinct:
  assumes "pairwise_mset R M" and "x \<in># M" and "y \<in># M" and "x \<noteq> y"
  shows "R x y"
proof -
  from assms(2-4) have "y \<in># M - {#x#}"
    by (metis add_mset_remove_trivial_If insert_DiffM insert_noteq_member)
  with assms(1,2) show ?thesis by (rule pairwise_msetD)
qed

lemma pairwise_mset_add:
  "pairwise_mset R (add_mset x M) \<longleftrightarrow>
     pairwise_mset R M \<and> (\<forall>y \<in># M. R x y \<and> R y x)"
proof
  assume L: "pairwise_mset R (add_mset x M)"
  have x: "R x y" if "y \<in># M" for y
    using pairwise_msetD [OF L, of x y] that by simp
  moreover have "R y x" if "y \<in># M" for y
    using pairwise_msetD [OF L, of y x] that x by (cases "y = x") auto
  moreover have "R u v" if "u \<in># M" "v \<in># M - {#u#}" for u v
    using pairwise_msetD [OF L, of u v] that
    by (metis add_mset_remove_trivial_If diff_union_swap2 insert_iff set_mset_add_mset_insert)
  ultimately show "pairwise_mset R M \<and> (\<forall>y \<in># M. R x y \<and> R y x)"
    by (simp add: pairwise_mset_def)
next
  assume Rt: "pairwise_mset R M \<and> (\<forall>y \<in># M. R x y \<and> R y x)"
  show "pairwise_mset R (add_mset x M)"
    unfolding pairwise_mset_def
  proof (intro ballI)
    fix u v assume u: "u \<in># add_mset x M" and v: "v \<in># add_mset x M - {#u#}"
    show "R u v"
    proof (cases "u = x")
      case True
      with v Rt show ?thesis by simp
    next
      case False
      with u have "u \<in># M" by simp
      with v have "v = x \<or> v \<in># M - {#u#}" by (simp add: diff_union_swap2)
      with Rt \<open>u \<in># M\<close> show ?thesis by (auto dest: pairwise_msetD)
    qed
  qed
qed

lemma pairwise_mset_remove: "pairwise_mset R M \<Longrightarrow> pairwise_mset R (M - {#z#})"
  by (metis diff_single_trivial insert_DiffM pairwise_mset_add)

lemma pairwise_mset_filter: "pairwise_mset R M \<Longrightarrow> pairwise_mset R (filter_mset P M)"
proof (induction M)
  case empty
  then show ?case by simp
next
  case (add x M)
  then show ?case by (auto simp: pairwise_mset_add)
qed

lemma filter_mset_none: "filter_mset P M = {#} \<longleftrightarrow> (\<forall>x \<in># M. \<not> P x)"
  by (induction M) auto

lemma pairwise_mset_single [simp]: "pairwise_mset R {#x#}"
  by (simp add: pairwise_mset_def)

text \<open>Counting documents by a unique key counts keys.\<close>

lemma count_unique_keys:
  assumes "pairwise_mset (\<lambda>x y. key x \<noteq> key y) M" and "finite A"
  shows "size (filter_mset (\<lambda>x. key x \<in> A) M) = card (key ` set_mset M \<inter> A)"
  using assms(1)
proof (induction M)
  case empty
  then show ?case by simp
next
  case (add x M)
  then have new: "key x \<notin> key ` set_mset M" and IH:
    "size (filter_mset (\<lambda>x. key x \<in> A) M) = card (key ` set_mset M \<inter> A)"
    by (auto simp: pairwise_mset_add)
  show ?case
  proof (cases "key x \<in> A")
    case True
    then have "key ` set_mset (add_mset x M) \<inter> A = insert (key x) (key ` set_mset M \<inter> A)" by auto
    with True new IH show ?thesis by simp
  next
    case False
    then have "key ` set_mset (add_mset x M) \<inter> A = key ` set_mset M \<inter> A" by auto
    with False IH show ?thesis by simp
  qed
qed

text \<open>Replacing one document by another.\<close>

lemma pairwise_mset_replace:
  assumes "pairwise_mset R M" and "d \<in># M"
    and "\<And>x. x \<in># M - {#d#} \<Longrightarrow> R x d \<Longrightarrow> R d x \<Longrightarrow> R x d' \<and> R d' x"
  shows "pairwise_mset R (add_mset d' (M - {#d#}))"
proof -
  have "pairwise_mset R (add_mset d (M - {#d#}))" using assms(1,2) by simp
  then show ?thesis using assms(3) by (auto simp: pairwise_mset_add)
qed

end
