(* ===== verification/Errors.thy ===== *)
theory Errors
  imports Prelude
begin

text \<open>
  Go's error values. A sentinel error (\<open>errors.New\<close> at package level) is a constructor with
  the name of its variable, one datatype per package; \<open>Opaque\<close> is any other leaf error with
  its message (the MongoDB driver, the ACME client, an inline \<open>errors.New\<close>). \<open>Annot e fs\<close> is
  \<open>fmt.Errorf("%w: ...", e, ...)\<close>, \<open>Context s e\<close> is \<open>fmt.Errorf("s: %w", e)\<close> and \<open>Staged\<close> is
  the \<open>operationStageError\<close> of internal/certmanager/diagnostics.go. A call that returns
  \<open>(T, error)\<close> returns \<open>err + 'a\<close> here, \<open>Inl\<close> with the error.
\<close>

datatype frag = Lit string | Quoted string | Decimal nat

datatype store_error =
    ErrCertificateAccessTokenNameTaken
  | ErrInvalidCredentials
  | ErrManagedCertificateNameTaken
  | ErrCertificateOperationConflict
  | ErrActiveVersionConflict
  | ErrVersionNotFound
  | ErrVersionRevoked
  | ErrVersionRevokePending
  | ErrManagedCertificateHasServerAssignments
  | ErrManagedCertificateOperationInFlight
  | ErrCertificateResourceReferenced
  | ErrInvalidServerIDs
  | ErrIssuerNotReady_store
  | ErrGroupNameTaken
  | ErrInvalidGroupIDs
  | ErrDNSProviderAccountNameTaken
  | ErrInvalidDNSProvider
  | ErrInvalidPropagationTimeout
  | ErrCertificateIssuerNameTaken
  | ErrInvalidCertificateIssuerCAType
  | ErrCertificateIssuerNotRetryable
  | ErrCertificateIssuerImmutable
  | ErrNotifyGroupNameTaken
  | ErrInvalidNotifyGroupIDs

datatype certmanager_error =
    ErrCertificateNotAuthorized
  | ErrCloudflareTokenInvalid
  | ErrCertificateKeyMismatch
  | ErrCertificateDomainMismatch
  | ErrCertificateChainInvalid
  | ErrCertificateNotYetValid
  | ErrCertificateExpired
  | ErrTokenRequired
  | ErrIssuerNameRequired
  | ErrIssuerEmailRequired
  | ErrTermsOfServiceRequired
  | ErrEABRequired
  | ErrCustomDirectoryRequired
  | ErrInvalidDirectoryURL
  | ErrIssuerRegistrationPending
  | ErrDNSAccountRequired
  | ErrCertificateIssuerRequired
  | ErrManagedCertificateNameRequired
  | ErrInvalidDomains
  | ErrTooManyDomains
  | ErrInvalidKeyType
  | ErrIssuerNotReady
  | ErrIssuerAccountURIRequired
  | ErrIssueFieldsLocked
  | ErrNoActiveVersion
  | ErrIssuanceOperationInFlight
  | ErrInvalidRevocationReason
  | ErrInvalidCertificatePEM
  | ErrBundleNotAvailable

datatype other_error =
    ErrDisabled
  | ErrUnsupportedChannel
  | ErrNilDispatcher
  | ErrInvalidInput

datatype err =
    ErrNoDocuments
  | ErrDuplicateKey
  | Opaque string
  | StoreE store_error
  | CertE certmanager_error
  | OtherE other_error
  | Annot err "frag list"
  | Context string err
  | Staged string err

text \<open>\<open>errors.Unwrap\<close>, and \<open>errors.Is\<close>, which walks the chain of wrapped errors.\<close>

definition unwrap :: "err \<Rightarrow> err option" where
  "unwrap e = (case e of Annot e' fs \<Rightarrow> Some e' | Context s e' \<Rightarrow> Some e' | Staged s e' \<Rightarrow> Some e'
     | _ \<Rightarrow> None)"

lemma unwrap_smaller: "unwrap e = Some e' \<Longrightarrow> size e' < size e"
  by (auto simp: unwrap_def split: err.splits)

function errors_is :: "err \<Rightarrow> err \<Rightarrow> bool" where
  "errors_is e t = (e = t \<or> (case unwrap e of None \<Rightarrow> False | Some e' \<Rightarrow> errors_is e' t))"
  by pat_completeness auto
termination
  by (relation "measure (\<lambda>(e, t). size e)") (auto dest: unwrap_smaller)

declare errors_is.simps [simp del]

lemma errors_is_wrapped [simp]:
  "errors_is (Annot e fs) t = (Annot e fs = t \<or> errors_is e t)"
  "errors_is (Context s e) t = (Context s e = t \<or> errors_is e t)"
  "errors_is (Staged s e) t = (Staged s e = t \<or> errors_is e t)"
  by (subst errors_is.simps, simp add: unwrap_def)+

lemma errors_is_leaf: "unwrap e = None \<Longrightarrow> errors_is e t = (e = t)"
  by (subst errors_is.simps) simp

lemma errors_is_refl [simp]: "errors_is e e"
  by (subst errors_is.simps) simp

text \<open>\<open>store.IsNotFound\<close>.\<close>

definition IsNotFound :: "err \<Rightarrow> bool" where
  "IsNotFound e = errors_is e ErrNoDocuments"

text \<open>\<open>operationStageOf\<close>: the outermost staged error of the chain.\<close>

function operationStageOf :: "err \<Rightarrow> string" where
  "operationStageOf e =
     (case e of Staged stage e' \<Rightarrow> stage
      | _ \<Rightarrow> (case unwrap e of None \<Rightarrow> [] | Some e' \<Rightarrow> operationStageOf e'))"
  by pat_completeness auto
termination
  by (relation "measure size") (auto dest: unwrap_smaller)

declare operationStageOf.simps [simp del]

definition withOperationStage :: "string \<Rightarrow> err \<Rightarrow> err" where
  "withOperationStage stage e = (if operationStageOf e \<noteq> [] then e else Staged stage e)"

lemma withOperationStage_is [simp]:
  "(\<And>s f. t \<noteq> Staged s f) \<Longrightarrow> errors_is (withOperationStage stage e) t = errors_is e t"
  by (auto simp: withOperationStage_def)

text \<open>\<open>err.Error()\<close>; \<open>q\<close> renders Go's \<open>%q\<close> verb.\<close>

fun render_frags :: "(string \<Rightarrow> string) \<Rightarrow> frag list \<Rightarrow> string" where
  "render_frags q [] = []"
| "render_frags q (Lit s # fs) = s @ render_frags q fs"
| "render_frags q (Quoted s # fs) = q s @ render_frags q fs"
| "render_frags q (Decimal n # fs) = format_nat n @ render_frags q fs"

primrec store_error_text :: "store_error \<Rightarrow> string" where
    "store_error_text ErrCertificateAccessTokenNameTaken =
       ''certificate access token name already exists for this server''"
  | "store_error_text ErrInvalidCredentials =
       ''invalid credentials''"
  | "store_error_text ErrManagedCertificateNameTaken =
       ''managed certificate name already exists''"
  | "store_error_text ErrCertificateOperationConflict =
       ''certificate operation state conflict''"
  | "store_error_text ErrActiveVersionConflict =
       ''active certificate version conflict''"
  | "store_error_text ErrVersionNotFound =
       ''certificate version not found''"
  | "store_error_text ErrVersionRevoked =
       ''certificate version is revoked''"
  | "store_error_text ErrVersionRevokePending =
       ''certificate version revoke is already pending''"
  | "store_error_text ErrManagedCertificateHasServerAssignments =
       ''managed certificate still has server assignments''"
  | "store_error_text ErrManagedCertificateOperationInFlight =
       ''managed certificate has a running operation''"
  | "store_error_text ErrCertificateResourceReferenced =
       ''resource is referenced by a managed certificate''"
  | "store_error_text ErrInvalidServerIDs =
       ''one or more server_ids do not exist''"
  | "store_error_text ErrIssuerNotReady_store =
       ''certificate issuer is not ready for issuance''"
  | "store_error_text ErrGroupNameTaken =
       ''monitor group name already exists''"
  | "store_error_text ErrInvalidGroupIDs =
       ''one or more group_ids do not exist''"
  | "store_error_text ErrDNSProviderAccountNameTaken =
       ''dns provider account name already exists''"
  | "store_error_text ErrInvalidDNSProvider =
       ''unsupported dns provider''"
  | "store_error_text ErrInvalidPropagationTimeout =
       ''propagation_timeout_seconds must be between 30 and 900''"
  | "store_error_text ErrCertificateIssuerNameTaken =
       ''certificate issuer name already exists''"
  | "store_error_text ErrInvalidCertificateIssuerCAType =
       ''unsupported certificate issuer ca_type''"
  | "store_error_text ErrCertificateIssuerNotRetryable =
       ''certificate issuer registration is not in failed state''"
  | "store_error_text ErrCertificateIssuerImmutable =
       ''ready certificate issuer identity fields are immutable''"
  | "store_error_text ErrNotifyGroupNameTaken =
       ''notify group name already exists''"
  | "store_error_text ErrInvalidNotifyGroupIDs =
       ''one or more notify_group_ids do not exist''"

primrec certmanager_error_text :: "certmanager_error \<Rightarrow> string" where
    "certmanager_error_text ErrCertificateNotAuthorized =
       ''certificate not found''"
  | "certmanager_error_text ErrCloudflareTokenInvalid =
       ''cloudflare api token verification failed''"
  | "certmanager_error_text ErrCertificateKeyMismatch =
       ''certificate and private key do not match''"
  | "certmanager_error_text ErrCertificateDomainMismatch =
       ''certificate does not cover requested domains''"
  | "certmanager_error_text ErrCertificateChainInvalid =
       ''certificate chain is invalid or incomplete''"
  | "certmanager_error_text ErrCertificateNotYetValid =
       ''certificate is not yet valid''"
  | "certmanager_error_text ErrCertificateExpired =
       ''certificate is expired''"
  | "certmanager_error_text ErrTokenRequired =
       ''api token is required''"
  | "certmanager_error_text ErrIssuerNameRequired =
       ''issuer name is required''"
  | "certmanager_error_text ErrIssuerEmailRequired =
       ''issuer email is required''"
  | "certmanager_error_text ErrTermsOfServiceRequired =
       ''terms of service agreement is required''"
  | "certmanager_error_text ErrEABRequired =
       ''external account binding credentials are required''"
  | "certmanager_error_text ErrCustomDirectoryRequired =
       ''custom directory URL is required''"
  | "certmanager_error_text ErrInvalidDirectoryURL =
       ''invalid custom directory URL''"
  | "certmanager_error_text ErrIssuerRegistrationPending =
       ''issuer registration is still pending''"
  | "certmanager_error_text ErrDNSAccountRequired =
       ''dns provider account is required''"
  | "certmanager_error_text ErrCertificateIssuerRequired =
       ''certificate issuer is required''"
  | "certmanager_error_text ErrManagedCertificateNameRequired =
       ''managed certificate name is required''"
  | "certmanager_error_text ErrInvalidDomains =
       ''invalid domains''"
  | "certmanager_error_text ErrTooManyDomains =
       ''at most 100 domains are allowed''"
  | "certmanager_error_text ErrInvalidKeyType =
       ''invalid certificate key type''"
  | "certmanager_error_text ErrIssuerNotReady =
       ''certificate issuer is not ready for issuance''"
  | "certmanager_error_text ErrIssuerAccountURIRequired =
       ''certificate issuer ACME account URI is missing''"
  | "certmanager_error_text ErrIssueFieldsLocked =
       ''issue fields cannot be changed while an operation is running''"
  | "certmanager_error_text ErrNoActiveVersion =
       ''managed certificate has no active version to renew''"
  | "certmanager_error_text ErrIssuanceOperationInFlight =
       ''another certificate issuance operation is already running''"
  | "certmanager_error_text ErrInvalidRevocationReason =
       ''invalid certificate revocation reason''"
  | "certmanager_error_text ErrInvalidCertificatePEM =
       ''invalid certificate PEM''"
  | "certmanager_error_text ErrBundleNotAvailable =
       ''certificate bundle is not available''"

primrec other_error_text :: "other_error \<Rightarrow> string" where
    "other_error_text ErrDisabled =
       ''ssh is not configured''"
  | "other_error_text ErrUnsupportedChannel =
       ''unsupported notify channel type''"
  | "other_error_text ErrNilDispatcher =
       ''nil certnotify dispatcher''"
  | "other_error_text ErrInvalidInput =
       ''invalid import input''"

primrec error_text :: "(string \<Rightarrow> string) \<Rightarrow> err \<Rightarrow> string" where
  "error_text q ErrNoDocuments = ''mongo: no documents in result''"
| "error_text q ErrDuplicateKey = ''E11000 duplicate key error''"
| "error_text q (Opaque s) = s"
| "error_text q (StoreE e) = store_error_text e"
| "error_text q (CertE e) = certmanager_error_text e"
| "error_text q (OtherE e) = other_error_text e"
| "error_text q (Annot e fs) = error_text q e @ '': '' @ render_frags q fs"
| "error_text q (Context s e) = s @ '': '' @ error_text q e"
| "error_text q (Staged s e) = error_text q e"

end
