(* ===== verification/Documents.thy ===== *)
theory Documents
  imports Errors
begin

text \<open>
  The documents the program keeps in MongoDB, one record per Go struct of
  internal/store. A Go pointer field with \<open>omitempty\<close> is an \<open>option\<close>: the driver decodes a
  missing field and a \<open>null\<close> field to the same nil pointer. Status, type and provider values
  are the Go string constants. The bodies of maps (\<open>map[string]string\<close>) are finite partial
  functions.
\<close>

section \<open>Monitoring\<close>

abbreviation "StatusHealthy \<equiv> ''Healthy''"
abbreviation "StatusWarning \<equiv> ''Warning''"
abbreviation "StatusCritical \<equiv> ''Critical''"
abbreviation "StatusDown \<equiv> ''Down''"
abbreviation "StatusUnknown \<equiv> ''Unknown''"

abbreviation "DefaultTLSWarningDays \<equiv> (21 :: u32)"
abbreviation "DefaultTLSCriticalDays \<equiv> (7 :: u32)"

record ServerSSH =
  ssh_Enabled :: bool
  ssh_Host :: string
  ssh_Port :: u32
  ssh_User :: string

record Server =
  srv_ID :: string
  srv_Name :: string
  srv_Host :: string
  srv_Environment :: string
  srv_Region :: string
  srv_Tags :: "string list"
  srv_SortOrder :: u32
  srv_Enabled :: bool
  srv_HealthStatus :: string
  srv_LastStatusChangeAt :: gotime
  srv_LastCheckAt :: gotime
  srv_SSH :: "ServerSSH option"
  srv_CreatedAt :: gotime
  srv_UpdatedAt :: gotime

record CertificateInfo =
  ci_Subject :: string
  ci_Issuer :: string
  ci_DNSNames :: "string list"
  ci_SerialNumber :: string
  ci_NotBefore :: gotime
  ci_NotAfter :: gotime
  ci_DaysRemaining :: "32 word"

record Monitor =
  mon_ID :: string
  mon_ServerID :: string
  mon_GroupIDs :: "string list"
  mon_Name :: string
  mon_Kind :: string
  mon_Enabled :: bool
  mon_Host :: string
  mon_Port :: u32
  mon_URL :: string
  mon_Method :: string
  mon_Path :: string
  mon_Headers :: "string \<rightharpoonup> string"
  mon_ExpectedStatusCodes :: string
  mon_TLSVerify :: bool
  mon_SNIName :: string
  mon_WarningDays :: u32
  mon_CriticalDays :: u32
  mon_IntervalSeconds :: u32
  mon_TimeoutSeconds :: u32
  mon_Retries :: u32
  mon_Status :: string
  mon_LastCheckAt :: gotime
  mon_LastStatusChangeAt :: gotime
  mon_Certificate :: "CertificateInfo option"
  mon_CreatedAt :: gotime
  mon_UpdatedAt :: gotime

record CheckResult =
  res_ID :: string
  res_ServerID :: string
  res_MonitorID :: string
  res_Status :: string
  res_StartedAt :: gotime
  res_EndedAt :: gotime
  res_DurationMS :: int
  res_ErrorStage :: string
  res_ErrorMessage :: string
  res_RemoteAddress :: string
  res_Port :: u32
  res_HTTPStatusCode :: u32
  res_Certificate :: "CertificateInfo option"

record ServerEvent =
  evt_ID :: string
  evt_ServerID :: string
  evt_PreviousStatus :: string
  evt_CurrentStatus :: string
  evt_Reason :: string
  evt_OccurredAt :: gotime

record ServerHealth =
  sh_ServerID :: string
  sh_Status :: string
  sh_LastStatusChangeAt :: gotime
  sh_LastCheckAt :: gotime
  sh_TotalMonitors :: u32
  sh_HealthyMonitors :: u32
  sh_WarningMonitors :: u32
  sh_CriticalMonitors :: u32
  sh_DownMonitors :: u32
  sh_UnknownMonitors :: u32

record AlertChannel =
  ch_Type :: string
  ch_Target :: string
  ch_Extra :: "string \<rightharpoonup> string"

record NotifyGroup =
  ng_ID :: string
  ng_Name :: string
  ng_Description :: string
  ng_Channels :: "AlertChannel list"
  ng_CreatedAt :: gotime
  ng_UpdatedAt :: gotime

record AlertPolicy =
  ap_Enabled :: bool
  ap_NotifyGroupIDs :: "string list"
  ap_OnDown :: bool
  ap_OnRecover :: bool
  ap_OnWarning :: bool
  ap_OnCritical :: bool
  ap_MinIntervalSeconds :: u32

record MonitorGroup =
  grp_ID :: string
  grp_Name :: string
  grp_Description :: string
  grp_SortOrder :: u32
  grp_AlertPolicy :: AlertPolicy
  grp_CreatedAt :: gotime
  grp_UpdatedAt :: gotime

section \<open>Certificates\<close>

abbreviation "CertKeyTypeECP256 \<equiv> ''ec_p256''"
abbreviation "CertKeyTypeRSA2048 \<equiv> ''rsa_2048''"

abbreviation "CertValidityMissing \<equiv> ''Missing''"
abbreviation "CertValidityValid \<equiv> ''Valid''"
abbreviation "CertValidityRenewalDue \<equiv> ''RenewalDue''"
abbreviation "CertValidityExpired \<equiv> ''Expired''"
abbreviation "CertValidityRevoked \<equiv> ''Revoked''"

abbreviation "DefaultRenewBeforeDays \<equiv> (30 :: u32)"
abbreviation "MaxCertificateDomains \<equiv> (100 :: nat)"

record IssueConfigSnapshot =
  is_Domains :: "string list"
  is_CertificateIssuerID :: string
  is_DNSProviderAccountID :: string
  is_KeyType :: string

record CertificateVersion =
  cv_ID :: string
  cv_ConfigSnapshot :: IssueConfigSnapshot
  cv_FullchainPEM :: string
  cv_PrivateKeyPEM :: string
  cv_LeafFingerprint :: string
  cv_SerialNumber :: string
  cv_IssuerCommonName :: string
  cv_NotBefore :: gotime
  cv_NotAfter :: gotime
  cv_KeyType :: string
  cv_StagingUntrusted :: bool
  cv_CertificateIssuerID :: string
  cv_RevokePending :: bool
  cv_RevokedAt :: "gotime option"
  cv_CreatedAt :: gotime

record CertificateNotificationState =
  ns_HadOperationFailure :: bool
  ns_LastFailNotifiedAt :: "gotime option"
  ns_SevenDayReminderVersionID :: string
  ns_ExpiredNotifiedVersionID :: string
  ns_LastNotificationWarning :: string
  ns_LastNotificationWarningAt :: "gotime option"

record ManagedCertificate =
  mc_ID :: string
  mc_Name :: string
  mc_Domains :: "string list"
  mc_CertificateIssuerID :: string
  mc_DNSProviderAccountID :: string
  mc_KeyType :: string
  mc_AutoRenewEnabled :: bool
  mc_RenewBeforeDays :: u32
  mc_NotifyGroupIDs :: "string list"
  mc_ServerIDs :: "string list"
  mc_NotificationState :: "CertificateNotificationState option"
  mc_ActiveVersion :: "CertificateVersion option"
  mc_PreviousVersion :: "CertificateVersion option"
  mc_CreatedAt :: gotime
  mc_UpdatedAt :: gotime

record ManagedCertificateUpdate =
  mu_Name :: string
  mu_Domains :: "string list"
  mu_CertificateIssuerID :: string
  mu_DNSProviderAccountID :: string
  mu_KeyType :: string
  mu_AutoRenewEnabled :: bool
  mu_RenewBeforeDays :: u32
  mu_NotifyGroupIDs :: "string list"
  mu_ServerIDs :: "string list"

abbreviation "CertOpTypeIssue \<equiv> ''Issue''"
abbreviation "CertOpTypeRenew \<equiv> ''Renew''"
abbreviation "CertOpTypeRevoke \<equiv> ''Revoke''"

abbreviation "CertOpStatusPending \<equiv> ''Pending''"
abbreviation "CertOpStatusRunning \<equiv> ''Running''"
abbreviation "CertOpStatusSucceeded \<equiv> ''Succeeded''"
abbreviation "CertOpStatusFailed \<equiv> ''Failed''"

definition CertOpInFlightStatuses :: "string list" where
  "CertOpInFlightStatuses = [CertOpStatusPending, CertOpStatusRunning]"

definition DefaultOperationLeaseDuration :: duration where
  "DefaultOperationLeaseDuration = 90 * Second"

definition DefaultOperationTotalTimeout :: duration where
  "DefaultOperationTotalTimeout = 72 * Hour"

definition OperationTotalTimeoutSummary :: string where
  "OperationTotalTimeoutSummary = ''operation total timeout exceeded''"

record DNSChallengeRecord =
  dc_Domain :: string
  dc_Token :: string
  dc_KeyAuth :: string

record CertificateOperation =
  op_ID :: string
  op_ManagedCertificateID :: string
  op_Type :: string
  op_Status :: string
  op_AttemptCount :: u32
  op_ConsecutiveFailures :: u32
  op_ConfigSnapshot :: IssueConfigSnapshot
  op_ErrorSummary :: string
  op_Warning :: string
  op_LeaseOwner :: string
  op_LeaseExpiresAt :: "gotime option"
  op_PendingTXTRecords :: "DNSChallengeRecord list"
  op_TargetVersionID :: string
  op_RevokeReason :: u32
  op_StartedAt :: "gotime option"
  op_FinishedAt :: "gotime option"
  op_NextAttemptAt :: "gotime option"
  op_DeadlineAt :: "gotime option"
  op_CreatedAt :: gotime
  op_UpdatedAt :: gotime

record CertificateOperationClaimParams =
  cp_OpID :: string
  cp_Owner :: string
  cp_Now :: gotime
  cp_LeaseExpires :: gotime

abbreviation "CATypeLetsEncryptProduction \<equiv> ''lets_encrypt_production''"
abbreviation "CATypeLetsEncryptStaging \<equiv> ''lets_encrypt_staging''"
abbreviation "CATypeZeroSSL \<equiv> ''zerossl''"
abbreviation "CATypeGooglePublicCA \<equiv> ''google_public_ca''"
abbreviation "CATypeCustom \<equiv> ''custom''"

abbreviation "IssuerRegistrationPending \<equiv> ''Pending''"
abbreviation "IssuerRegistrationReady \<equiv> ''Ready''"
abbreviation "IssuerRegistrationFailed \<equiv> ''Failed''"

record CertificateIssuer =
  iss_ID :: string
  iss_Name :: string
  iss_CAType :: string
  iss_DirectoryURL :: string
  iss_Email :: string
  iss_RegistrationStatus :: string
  iss_RegistrationError :: string
  iss_StagingUntrusted :: bool
  iss_TermsOfServiceURL :: string
  iss_TermsOfServiceAgreed :: "gotime option"
  iss_AccountKeyPEM :: string
  iss_AccountURI :: string
  iss_EABKid :: string
  iss_EABHMAC :: string
  iss_CreatedAt :: gotime
  iss_UpdatedAt :: gotime

abbreviation "DNSProviderCloudflare \<equiv> ''cloudflare''"

record DNSProviderAccount =
  dns_ID :: string
  dns_Name :: string
  dns_Provider :: string
  dns_PropagationTimeoutSeconds :: u32
  dns_APIToken :: string
  dns_TokenLastVerifiedAt :: "gotime option"
  dns_CreatedAt :: gotime
  dns_UpdatedAt :: gotime

section \<open>Access\<close>

record CertificateAccessToken =
  cat_ID :: string
  cat_ServerID :: string
  cat_Name :: string
  cat_TokenHash :: string
  cat_Prefix :: string
  cat_CreatedAt :: gotime
  cat_LastUsedAt :: "gotime option"
  cat_ExpiresAt :: "gotime option"

record McpToken =
  mcp_ID :: string
  mcp_Name :: string
  mcp_TokenHash :: string
  mcp_Prefix :: string
  mcp_CreatedAt :: gotime
  mcp_LastUsedAt :: gotime

abbreviation "RoleAdmin \<equiv> ''admin''"

record User =
  usr_ID :: string
  usr_Email :: string
  usr_PasswordHash :: string
  usr_Role :: string
  usr_CreatedAt :: gotime
  usr_UpdatedAt :: gotime

record Session =
  ses_Token :: string
  ses_UserID :: string
  ses_Email :: string
  ses_Role :: string
  ses_CreatedAt :: gotime
  ses_ExpiresAt :: gotime

end
