(* ===== verification/Mongo.thy ===== *)
theory Mongo
  imports Documents
begin

text \<open>
  The MongoDB driver is not part of the program: a collection is the record \<open>coll\<close> of the
  driver calls the store makes, over a state type \<open>'c\<close> nothing is known about. A filter
  document is a predicate on the Go struct and an update document a function on it.
  \<open>UpdateOne\<close> and \<open>UpdateMany\<close> return the matched count, \<open>DeleteOne\<close> and \<open>DeleteMany\<close> the deleted
  count, \<open>FindOneAndUpdate\<close> the document after the update; \<open>ReplaceOne\<close> is \<open>UpdateOne\<close> with a
  constant function.

  The locale \<open>mongo_collection\<close> states what the store relies on: a single call is atomic, it
  touches one document (or, for the many-variants, possibly only some of the matching ones
  when it fails), a unique index is never violated, and a call that fails may or may not have
  been applied. \<open>reliable_collection\<close> adds that the driver itself does not fail. Both are
  interpreted on \<open>mem_coll\<close>, a collection kept in a list.
\<close>

section \<open>The driver's calls\<close>

record ('c, 'd) coll =
  FindOne :: "('d \<Rightarrow> bool) \<Rightarrow> 'c \<Rightarrow> err + 'd"
  FindOneSorted :: "('d \<Rightarrow> bool) \<Rightarrow> ('d \<Rightarrow> 'd \<Rightarrow> bool) \<Rightarrow> 'c \<Rightarrow> err + 'd"
  FindDocs :: "('d \<Rightarrow> bool) \<Rightarrow> ('d \<Rightarrow> 'd \<Rightarrow> bool) \<Rightarrow> nat \<Rightarrow> nat option \<Rightarrow> 'c \<Rightarrow> err + 'd list"
  CountDocuments :: "('d \<Rightarrow> bool) \<Rightarrow> 'c \<Rightarrow> err + nat"
  InsertOne :: "'d \<Rightarrow> 'c \<Rightarrow> (err + unit) \<times> 'c"
  UpdateOne :: "('d \<Rightarrow> bool) \<Rightarrow> ('d \<Rightarrow> 'd) \<Rightarrow> 'c \<Rightarrow> (err + nat) \<times> 'c"
  UpdateMany :: "('d \<Rightarrow> bool) \<Rightarrow> ('d \<Rightarrow> 'd) \<Rightarrow> 'c \<Rightarrow> (err + nat) \<times> 'c"
  FindOneAndUpdate :: "('d \<Rightarrow> bool) \<Rightarrow> ('d \<Rightarrow> 'd) \<Rightarrow> 'c \<Rightarrow> (err + 'd) \<times> 'c"
  DeleteOne :: "('d \<Rightarrow> bool) \<Rightarrow> 'c \<Rightarrow> (err + nat) \<times> 'c"
  DeleteMany :: "('d \<Rightarrow> bool) \<Rightarrow> 'c \<Rightarrow> (err + nat) \<times> 'c"

text \<open>\<open>mongo.IsDuplicateKeyError\<close>.\<close>

definition IsDuplicateKeyError :: "err \<Rightarrow> bool" where
  "IsDuplicateKeyError e = errors_is e ErrDuplicateKey"

lemma IsDuplicateKeyError_simps [simp]:
  "IsDuplicateKeyError ErrDuplicateKey"
  "\<not> IsDuplicateKeyError ErrNoDocuments"
  "\<not> IsDuplicateKeyError (StoreE e)"
  by (simp_all add: IsDuplicateKeyError_def errors_is_leaf unwrap_def)

lemma IsNotFound_simps [simp]:
  "IsNotFound ErrNoDocuments"
  "\<not> IsNotFound ErrDuplicateKey"
  "\<not> IsNotFound (StoreE e)"
  "\<not> IsNotFound (Opaque s)"
  by (simp_all add: IsNotFound_def errors_is_leaf unwrap_def)

section \<open>What the store relies on\<close>

text \<open>One document that satisfies \<open>P\<close> is replaced by its image under \<open>f\<close>.\<close>

definition replaced ::
  "('d \<Rightarrow> bool) \<Rightarrow> ('d \<Rightarrow> 'd) \<Rightarrow> 'd multiset \<Rightarrow> 'd multiset \<Rightarrow> bool" where
  "replaced P f M M' \<longleftrightarrow> (\<exists>d. d \<in># M \<and> P d \<and> M' = add_mset (f d) (M - {#d#}))"

definition removed :: "('d \<Rightarrow> bool) \<Rightarrow> 'd multiset \<Rightarrow> 'd multiset \<Rightarrow> bool" where
  "removed P M M' \<longleftrightarrow> (\<exists>d. d \<in># M \<and> P d \<and> M' = M - {#d#})"

definition no_match :: "('d \<Rightarrow> bool) \<Rightarrow> 'd multiset \<Rightarrow> bool" where
  "no_match P M \<longleftrightarrow> (\<forall>d \<in># M. \<not> P d)"

definition sort_order :: "('d \<Rightarrow> 'd \<Rightarrow> bool) \<Rightarrow> bool" where
  "sort_order le \<longleftrightarrow> (\<forall>x y. le x y \<or> le y x) \<and> (\<forall>x y z. le x y \<longrightarrow> le y z \<longrightarrow> le x z)"

definition page :: "nat \<Rightarrow> nat option \<Rightarrow> 'a list \<Rightarrow> 'a list" where
  "page skip limit xs =
     (case limit of None \<Rightarrow> drop skip xs | Some n \<Rightarrow> take n (drop skip xs))"

locale mongo_collection =
  fixes C :: "('c, 'd) coll"
    and docs :: "'c \<Rightarrow> 'd multiset"
    and clash :: "'d \<Rightarrow> 'd \<Rightarrow> bool"
    and ok :: "'c \<Rightarrow> bool"
  assumes find_one: "ok s \<Longrightarrow> FindOne C P s = Inr d \<Longrightarrow> d \<in># docs s \<and> P d"
    and find_none: "ok s \<Longrightarrow> FindOne C P s = Inl e \<Longrightarrow> IsNotFound e \<Longrightarrow> no_match P (docs s)"
    and find_sorted: "ok s \<Longrightarrow> FindOneSorted C P le s = Inr d \<Longrightarrow> sort_order le \<Longrightarrow>
      d \<in># docs s \<and> P d \<and> (\<forall>x \<in># docs s. P x \<longrightarrow> le d x)"
    and find_sorted_none: "ok s \<Longrightarrow> FindOneSorted C P le s = Inl e \<Longrightarrow> IsNotFound e \<Longrightarrow>
      no_match P (docs s)"
    and find_docs: "ok s \<Longrightarrow> FindDocs C P le k l s = Inr ds \<Longrightarrow> sort_order le \<Longrightarrow>
      \<exists>xs. mset xs = filter_mset P (docs s) \<and> sorted_wrt le xs \<and> ds = page k l xs"
    and count: "ok s \<Longrightarrow> CountDocuments C P s = Inr n \<Longrightarrow> n = size (filter_mset P (docs s))"
    and insert_ok: "ok s \<Longrightarrow> InsertOne C d s = (ri, s') \<Longrightarrow> ok s'"
    and insert_done: "ok s \<Longrightarrow> InsertOne C d s = (Inr u, s') \<Longrightarrow> docs s' = add_mset d (docs s)"
    and insert_error: "ok s \<Longrightarrow> InsertOne C d s = (Inl e, s') \<Longrightarrow>
      docs s' = docs s \<or> docs s' = add_mset d (docs s)"
    and insert_duplicate: "ok s \<Longrightarrow> InsertOne C d s = (Inl e, s') \<Longrightarrow> IsDuplicateKeyError e \<Longrightarrow>
      docs s' = docs s \<and> (\<exists>x \<in># docs s. clash x d)"
    and update_ok: "ok s \<Longrightarrow> UpdateOne C P f s = (r, s') \<Longrightarrow> ok s'"
    and update_done: "ok s \<Longrightarrow> UpdateOne C P f s = (Inr n, s') \<Longrightarrow>
      (if n = 0 then docs s' = docs s \<and> no_match P (docs s) else replaced P f (docs s) (docs s'))"
    and update_error: "ok s \<Longrightarrow> UpdateOne C P f s = (Inl e, s') \<Longrightarrow>
      docs s' = docs s \<or> replaced P f (docs s) (docs s')"
    and update_duplicate: "ok s \<Longrightarrow> UpdateOne C P f s = (Inl e, s') \<Longrightarrow> IsDuplicateKeyError e \<Longrightarrow>
      docs s' = docs s \<and> (\<exists>d \<in># docs s. P d \<and> (\<exists>x \<in># docs s - {#d#}. clash x (f d)))"
    and many_ok: "ok s \<Longrightarrow> UpdateMany C P f s = (r, s') \<Longrightarrow> ok s'"
    and many_done: "ok s \<Longrightarrow> UpdateMany C P f s = (Inr n, s') \<Longrightarrow>
      n = size (filter_mset P (docs s)) \<and>
      docs s' = image_mset f (filter_mset P (docs s)) + filter_mset (\<lambda>d. \<not> P d) (docs s)"
    and many_error: "ok s \<Longrightarrow> UpdateMany C P f s = (Inl e, s') \<Longrightarrow>
      \<exists>A. A \<subseteq># filter_mset P (docs s) \<and> docs s' = image_mset f A + (docs s - A)"
    and find_update_ok: "ok s \<Longrightarrow> FindOneAndUpdate C P f s = (rd, s') \<Longrightarrow> ok s'"
    and find_update_done: "ok s \<Longrightarrow> FindOneAndUpdate C P f s = (Inr d', s') \<Longrightarrow>
      \<exists>d. d \<in># docs s \<and> P d \<and> d' = f d \<and> docs s' = add_mset (f d) (docs s - {#d#})"
    and find_update_error: "ok s \<Longrightarrow> FindOneAndUpdate C P f s = (Inl e, s') \<Longrightarrow>
      docs s' = docs s \<or> replaced P f (docs s) (docs s')"
    and find_update_none: "ok s \<Longrightarrow> FindOneAndUpdate C P f s = (Inl e, s') \<Longrightarrow> IsNotFound e \<Longrightarrow>
      docs s' = docs s \<and> no_match P (docs s)"
    and find_update_duplicate: "ok s \<Longrightarrow> FindOneAndUpdate C P f s = (Inl e, s') \<Longrightarrow>
      IsDuplicateKeyError e \<Longrightarrow>
      docs s' = docs s \<and> (\<exists>d \<in># docs s. P d \<and> (\<exists>x \<in># docs s - {#d#}. clash x (f d)))"
    and delete_ok: "ok s \<Longrightarrow> DeleteOne C P s = (r, s') \<Longrightarrow> ok s'"
    and delete_done: "ok s \<Longrightarrow> DeleteOne C P s = (Inr n, s') \<Longrightarrow>
      (if n = 0 then docs s' = docs s \<and> no_match P (docs s) else removed P (docs s) (docs s'))"
    and delete_error: "ok s \<Longrightarrow> DeleteOne C P s = (Inl e, s') \<Longrightarrow>
      docs s' = docs s \<or> removed P (docs s) (docs s')"
    and delete_many_ok: "ok s \<Longrightarrow> DeleteMany C P s = (r, s') \<Longrightarrow> ok s'"
    and delete_many_done: "ok s \<Longrightarrow> DeleteMany C P s = (Inr n, s') \<Longrightarrow>
      docs s' = filter_mset (\<lambda>d. \<not> P d) (docs s)"
    and delete_many_error: "ok s \<Longrightarrow> DeleteMany C P s = (Inl e, s') \<Longrightarrow>
      \<exists>A. A \<subseteq># filter_mset P (docs s) \<and> docs s' = docs s - A"
    and unique: "ok s \<Longrightarrow> pairwise_mset (\<lambda>x y. \<not> clash x y) (docs s)"

text \<open>Facts every client of a collection uses.\<close>

lemma replacedE:
  assumes "replaced P f M M'"
  obtains d where "d \<in># M" "P d" "M' = add_mset (f d) (M - {#d#})"
  using assms by (auto simp: replaced_def)

lemma removed_subset: "removed P M M' \<Longrightarrow> M' \<subseteq># M"
  by (auto simp: removed_def)

lemma replaced_pred:
  assumes "replaced P f M M'" and "\<forall>d \<in># M. I d" and "\<And>d. P d \<Longrightarrow> I d \<Longrightarrow> I (f d)"
  shows "\<forall>d \<in># M'. I d"
  using assms by (auto simp: replaced_def) (meson in_diffD)

lemma page_subset: "set (page k l xs) \<subseteq> set xs"
  by (auto simp: page_def dest: in_set_dropD in_set_takeD split: option.splits)

context mongo_collection begin

lemma find_docs_set:
  assumes "ok s" and "FindDocs C P le k l s = Inr ds" and "sort_order le"
  shows "\<forall>d \<in> set ds. d \<in># docs s \<and> P d"
proof -
  obtain xs where "mset xs = filter_mset P (docs s)" and ds: "ds = page k l xs"
    using find_docs [OF assms] by blast
  then have "set xs = set_mset (filter_mset P (docs s))" by (metis set_mset_mset)
  then show ?thesis using page_subset [of k l xs] ds by auto
qed

lemma update_cases:
  assumes "ok s" and "UpdateOne C P f s = (r, s')"
  obtains (same) "docs s' = docs s" | (one) "replaced P f (docs s) (docs s')"
  using assms update_done [of s P f _ s'] update_error [of s P f _ s']
  by (cases r) (auto split: if_splits)

lemma find_update_cases:
  assumes "ok s" and "FindOneAndUpdate C P f s = (r, s')"
  obtains (same) "docs s' = docs s" | (one) "replaced P f (docs s) (docs s')"
  using assms find_update_done [of s P f _ s'] find_update_error [of s P f _ s']
  by (cases r) (auto simp: replaced_def)

lemma many_cases:
  assumes "ok s" and "UpdateMany C P f s = (r, s')"
  obtains A where "A \<subseteq># filter_mset P (docs s)" "docs s' = image_mset f A + (docs s - A)"
proof (cases r)
  case (Inl e)
  then show ?thesis using many_error assms that by blast
next
  case (Inr n)
  then have "docs s' = image_mset f (filter_mset P (docs s)) + filter_mset (\<lambda>d. \<not> P d) (docs s)"
    using many_done assms by blast
  moreover have "filter_mset (\<lambda>d. \<not> P d) (docs s) = docs s - filter_mset P (docs s)"
    by (metis add_diff_cancel_left' multiset_partition)
  ultimately show ?thesis using that [of "filter_mset P (docs s)"] by simp
qed

lemma delete_cases:
  assumes "ok s" and "DeleteOne C P s = (r, s')"
  obtains (same) "docs s' = docs s" | (one) "removed P (docs s) (docs s')"
  using assms delete_done [of s P _ s'] delete_error [of s P _ s']
  by (cases r) (auto split: if_splits)

lemma delete_many_cases:
  assumes "ok s" and "DeleteMany C P s = (r, s')"
  obtains A where "A \<subseteq># filter_mset P (docs s)" "docs s' = docs s - A"
proof (cases r)
  case (Inl e)
  then show ?thesis using delete_many_error assms that by blast
next
  case (Inr n)
  then have "docs s' = filter_mset (\<lambda>d. \<not> P d) (docs s)"
    using delete_many_done assms by blast
  moreover have "filter_mset (\<lambda>d. \<not> P d) (docs s) = docs s - filter_mset P (docs s)"
    by (metis add_diff_cancel_left' multiset_partition)
  ultimately show ?thesis using that [of "filter_mset P (docs s)"] by simp
qed

lemma insert_cases:
  assumes "ok s" and "InsertOne C d s = (r, s')"
  obtains (same) "docs s' = docs s" "\<exists>e. r = Inl e" | (one) "docs s' = add_mset d (docs s)"
  using assms insert_done [of s d _ s'] insert_error [of s d _ s'] by (cases r) auto

text \<open>A predicate that every update of the caller preserves holds of every document.\<close>

lemma update_pred:
  assumes "ok s" "UpdateOne C P f s = (r, s')" "\<forall>d \<in># docs s. I d"
    and "\<And>d. P d \<Longrightarrow> I d \<Longrightarrow> I (f d)"
  shows "\<forall>d \<in># docs s'. I d"
  using assms(1,2)
proof (cases rule: update_cases)
  case same
  then show ?thesis using assms(3) by simp
next
  case one
  then show ?thesis using replaced_pred assms(3,4) by blast
qed

lemma find_update_pred:
  assumes "ok s" "FindOneAndUpdate C P f s = (r, s')" "\<forall>d \<in># docs s. I d"
    and "\<And>d. P d \<Longrightarrow> I d \<Longrightarrow> I (f d)"
  shows "\<forall>d \<in># docs s'. I d"
  using assms(1,2)
proof (cases rule: find_update_cases)
  case same
  then show ?thesis using assms(3) by simp
next
  case one
  then show ?thesis using replaced_pred assms(3,4) by blast
qed

lemma many_pred:
  assumes "ok s" "UpdateMany C P f s = (r, s')" "\<forall>d \<in># docs s. I d"
    and "\<And>d. P d \<Longrightarrow> I d \<Longrightarrow> I (f d)"
  shows "\<forall>d \<in># docs s'. I d"
proof -
  obtain A where A: "A \<subseteq># filter_mset P (docs s)" "docs s' = image_mset f A + (docs s - A)"
    using assms(1,2) by (rule many_cases)
  then have "\<forall>d \<in># A. P d \<and> d \<in># docs s" using mset_subset_eqD by fastforce
  with A(2) assms(3,4) show ?thesis by (auto dest: in_diffD)
qed

lemma insert_pred:
  assumes "ok s" "InsertOne C d s = (r, s')" "\<forall>d \<in># docs s. I d" and "I d"
  shows "\<forall>d \<in># docs s'. I d"
  using assms(1,2) by (cases rule: insert_cases) (use assms(3,4) in auto)

lemma delete_pred:
  assumes "ok s" "DeleteOne C P s = (r, s')" "\<forall>d \<in># docs s. I d"
  shows "\<forall>d \<in># docs s'. I d"
  using assms(1,2) by (cases rule: delete_cases)
    (use assms(3) in \<open>auto dest!: removed_subset dest: mset_subset_eqD\<close>)

lemma delete_many_pred:
  assumes "ok s" "DeleteMany C P s = (r, s')" "\<forall>d \<in># docs s. I d"
  shows "\<forall>d \<in># docs s'. I d"
proof -
  obtain A where "docs s' = docs s - A" using assms(1,2) by (rule delete_many_cases)
  with assms(3) show ?thesis by (auto dest: in_diffD)
qed

text \<open>With a unique key, at most one document matches it.\<close>

lemma unique_match:
  assumes "ok s" and "x \<in># docs s" and "y \<in># docs s" and "clash x y" shows "x = y"
  using pairwise_mset_distinct [OF unique [OF assms(1)] assms(2,3)] assms(4) by blast

end

section \<open>A driver that does not fail\<close>

locale reliable_collection = mongo_collection +
  assumes find_total: "ok s \<Longrightarrow> FindOne C P s = Inl e \<Longrightarrow> IsNotFound e"
    and find_sorted_total: "ok s \<Longrightarrow> FindOneSorted C P le s = Inl e \<Longrightarrow> IsNotFound e"
    and find_docs_total: "ok s \<Longrightarrow> \<exists>ds. FindDocs C P le k l s = Inr ds"
    and count_total: "ok s \<Longrightarrow> \<exists>n. CountDocuments C P s = Inr n"
    and insert_total: "ok s \<Longrightarrow> InsertOne C d s = (Inl e, s') \<Longrightarrow> IsDuplicateKeyError e"
    and update_total: "ok s \<Longrightarrow> UpdateOne C P f s = (Inl e, s') \<Longrightarrow> IsDuplicateKeyError e"
    and find_update_total: "ok s \<Longrightarrow> FindOneAndUpdate C P f s = (Inl e, s') \<Longrightarrow>
      IsNotFound e \<or> IsDuplicateKeyError e"
    and delete_total: "ok s \<Longrightarrow> \<exists>n s'. DeleteOne C P s = (Inr n, s')"
    and delete_many_total: "ok s \<Longrightarrow> \<exists>n s'. DeleteMany C P s = (Inr n, s')"

context reliable_collection begin

lemma count_is: "ok s \<Longrightarrow> CountDocuments C P s = Inr (size (filter_mset P (docs s)))"
  using count_total count by metis

lemma update_no_duplicate:
  assumes "ok s" and "\<And>d x. d \<in># docs s \<Longrightarrow> P d \<Longrightarrow> x \<in># docs s - {#d#} \<Longrightarrow> \<not> clash x (f d)"
  shows "\<exists>n s'. UpdateOne C P f s = (Inr n, s')"
proof (cases "UpdateOne C P f s")
  case (Pair r s')
  show ?thesis
  proof (cases r)
    case (Inl e)
    with Pair have "UpdateOne C P f s = (Inl e, s')" by simp
    from update_duplicate [OF assms(1) this update_total [OF assms(1) this]] assms(2)
    show ?thesis by blast
  qed (use Pair in auto)
qed

lemma insert_fresh:
  assumes "ok s" and "\<And>x. x \<in># docs s \<Longrightarrow> \<not> clash x d"
  shows "\<exists>u s'. InsertOne C d s = (Inr u, s')"
proof (cases "InsertOne C d s")
  case (Pair r s')
  show ?thesis
  proof (cases r)
    case (Inl e)
    with Pair have "InsertOne C d s = (Inl e, s')" by simp
    from insert_duplicate [OF assms(1) this insert_total [OF assms(1) this]] assms(2)
    show ?thesis by blast
  qed (use Pair in auto)
qed

end

section \<open>A collection in memory\<close>

text \<open>
  The collections of one database share the state type, a list of the sum type \<open>doc\<close>;
  \<open>inject\<close> and \<open>project\<close> are its constructor for the collection's documents and its partial
  inverse.
\<close>

fun insert_sorted :: "('d \<Rightarrow> 'd \<Rightarrow> bool) \<Rightarrow> 'd \<Rightarrow> 'd list \<Rightarrow> 'd list" where
  "insert_sorted le x [] = [x]"
| "insert_sorted le x (y # ys) = (if le x y then x # y # ys else y # insert_sorted le x ys)"

definition sort_docs :: "('d \<Rightarrow> 'd \<Rightarrow> bool) \<Rightarrow> 'd list \<Rightarrow> 'd list" where
  "sort_docs le xs = foldr (insert_sorted le) xs []"

fun update_each ::
  "('d \<Rightarrow> 'd \<Rightarrow> bool) \<Rightarrow> ('d \<Rightarrow> bool) \<Rightarrow> ('d \<Rightarrow> 'd) \<Rightarrow> 'd list \<Rightarrow> 'd list \<Rightarrow> bool \<times> 'd list" where
  "update_each clash P f acc [] = (True, acc)"
| "update_each clash P f acc (x # xs) =
     (if \<not> P x then update_each clash P f (acc @ [x]) xs
      else if \<exists>y \<in> set (acc @ xs). clash y (f x) then (False, acc @ x # xs)
      else update_each clash P f (acc @ [f x]) xs)"

definition update_first ::
  "('d \<Rightarrow> 'd \<Rightarrow> bool) \<Rightarrow> ('d \<Rightarrow> bool) \<Rightarrow> ('d \<Rightarrow> 'd) \<Rightarrow> 'd list \<Rightarrow> (err + 'd) \<times> 'd list" where
  "update_first clash P f xs =
     (case List.extract P xs of
        None \<Rightarrow> (Inl ErrNoDocuments, xs)
      | Some (a, x, b) \<Rightarrow>
          if \<exists>y \<in> set (a @ b). clash y (f x) then (Inl ErrDuplicateKey, xs)
          else (Inr (f x), a @ f x # b))"

definition view :: "('x \<Rightarrow> 'd option) \<Rightarrow> 'x list \<Rightarrow> 'd list" where
  "view project s = List.map_filter project s"

definition mem_coll ::
  "('d \<Rightarrow> 'x) \<Rightarrow> ('x \<Rightarrow> 'd option) \<Rightarrow> ('d \<Rightarrow> 'd \<Rightarrow> bool) \<Rightarrow> ('x list, 'd) coll" where
  "mem_coll inject project clash =
    \<lparr> FindOne = (\<lambda>P s. case find P (view project s) of None \<Rightarrow> Inl ErrNoDocuments | Some d \<Rightarrow> Inr d),
      FindOneSorted = (\<lambda>P le s. case sort_docs le (filter P (view project s)) of
         [] \<Rightarrow> Inl ErrNoDocuments | d # _ \<Rightarrow> Inr d),
      FindDocs = (\<lambda>P le k l s. Inr (page k l (sort_docs le (filter P (view project s))))),
      CountDocuments = (\<lambda>P s. Inr (length (filter P (view project s)))),
      InsertOne = (\<lambda>d s. if \<exists>x \<in> set (view project s). clash x d then (Inl ErrDuplicateKey, s)
         else (Inr (), s @ [inject d])),
      UpdateOne = (\<lambda>P f s. case update_first clash P f (view project s) of
         (Inr d, xs) \<Rightarrow> (Inr 1, map inject xs)
       | (Inl e, xs) \<Rightarrow> (if e = ErrNoDocuments then Inr 0 else Inl e, s)),
      UpdateMany = (\<lambda>P f s. let n = length (filter P (view project s));
           (b, xs) = update_each clash P f [] (view project s) in
         (if b then Inr n else Inl ErrDuplicateKey, map inject xs)),
      FindOneAndUpdate = (\<lambda>P f s. case update_first clash P f (view project s) of
         (Inr d, xs) \<Rightarrow> (Inr d, map inject xs) | (Inl e, xs) \<Rightarrow> (Inl e, s)),
      DeleteOne = (\<lambda>P s. case List.extract P (view project s) of
         None \<Rightarrow> (Inr 0, s) | Some (a, x, b) \<Rightarrow> (Inr 1, map inject (a @ b))),
      DeleteMany = (\<lambda>P s. let xs = filter (\<lambda>d. \<not> P d) (view project s) in
         (Inr (length (view project s) - length xs), map inject xs)) \<rparr>"

lemma view_inject:
  assumes "\<And>d. project (inject d) = Some d"
  shows "view project (map inject xs) = xs" and "view project (s @ [inject d]) = view project s @ [d]"
  using assms by (induction xs) (simp_all add: view_def List.map_filter_def comp_def)

lemma mset_insert_sorted: "mset (insert_sorted le x xs) = add_mset x (mset xs)"
  by (induction xs) auto

lemma mset_sort_docs [simp]: "mset (sort_docs le xs) = mset xs"
  unfolding sort_docs_def by (induction xs) (auto simp: mset_insert_sorted)

lemma sorted_insert_sorted:
  assumes "sort_order le" and "sorted_wrt le xs" shows "sorted_wrt le (insert_sorted le x xs)"
  using assms(2)
proof (induction xs)
  case (Cons y ys)
  have "set (insert_sorted le x ys) = insert x (set ys)"
    by (metis mset_insert_sorted set_mset_add_mset_insert set_mset_mset)
  with Cons assms(1) show ?case by (auto simp: sort_order_def)
qed simp

lemma sorted_sort_docs: "sort_order le \<Longrightarrow> sorted_wrt le (sort_docs le xs)"
  unfolding sort_docs_def by (induction xs) (auto simp: sorted_insert_sorted)

lemma update_each_spec:
  assumes "update_each clash P f acc xs = (b, ys)"
  shows "\<exists>A. A \<subseteq># filter_mset P (mset xs) \<and> mset ys = mset acc + image_mset f A + (mset xs - A)
    \<and> (b \<longrightarrow> A = filter_mset P (mset xs))"
  using assms
proof (induction xs arbitrary: acc)
  case Nil
  then show ?case by simp
next
  case (Cons x xs)
  consider (skip) "\<not> P x" | (stop) "P x" "\<exists>y \<in> set (acc @ xs). clash y (f x)"
    | (step) "P x" "\<not> (\<exists>y \<in> set (acc @ xs). clash y (f x))" by blast
  then show ?case
  proof cases
    case skip
    then have "update_each clash P f (acc @ [x]) xs = (b, ys)" using Cons.prems by simp
    from Cons.IH [OF this] obtain A where A: "A \<subseteq># filter_mset P (mset xs)"
      "mset ys = mset (acc @ [x]) + image_mset f A + (mset xs - A)"
      "b \<longrightarrow> A = filter_mset P (mset xs)" by blast
    then have "A \<subseteq># mset xs" using multiset_filter_subset subset_mset.order_trans by blast
    then have "mset (x # xs) - A = add_mset x (mset xs - A)"
      using multiset_diff_union_assoc [of A "mset xs" "{#x#}"] by simp
    with A skip show ?thesis by (intro exI [of _ A]) simp
  next
    case stop
    then have "\<not> b \<and> ys = acc @ x # xs" using Cons.prems by auto
    then show ?thesis by (intro exI [of _ "{#}"]) simp
  next
    case step
    then have "update_each clash P f (acc @ [f x]) xs = (b, ys)" using Cons.prems by auto
    from Cons.IH [OF this] obtain A where "A \<subseteq># filter_mset P (mset xs)"
      "mset ys = mset (acc @ [f x]) + image_mset f A + (mset xs - A)"
      "b \<longrightarrow> A = filter_mset P (mset xs)" by blast
    with step show ?thesis by (intro exI [of _ "add_mset x A"]) auto
  qed
qed

lemma update_each_unique:
  assumes "update_each clash P f acc xs = (b, ys)" and "\<forall>x y. clash x y \<longrightarrow> clash y x"
    and "pairwise_mset (\<lambda>x y. \<not> clash x y) (mset (acc @ xs))"
  shows "pairwise_mset (\<lambda>x y. \<not> clash x y) (mset ys)"
  using assms(1,3)
proof (induction xs arbitrary: acc)
  case Nil
  then show ?case by simp
next
  case (Cons x xs)
  consider (skip) "\<not> P x" | (stop) "P x" "\<exists>y \<in> set (acc @ xs). clash y (f x)"
    | (step) "P x" "\<not> (\<exists>y \<in> set (acc @ xs). clash y (f x))" by blast
  then show ?case
  proof cases
    case skip
    with Cons.prems show ?thesis by (intro Cons.IH [of "acc @ [x]"]) auto
  next
    case stop
    then have "ys = acc @ x # xs" using Cons.prems by auto
    with Cons.prems show ?thesis by simp
  next
    case step
    have "pairwise_mset (\<lambda>x y. \<not> clash x y) (mset ((acc @ [f x]) @ xs))"
      using Cons.prems(2) step assms(2) by (auto simp: pairwise_mset_add)
    with Cons.prems step show ?thesis by (intro Cons.IH [of "acc @ [f x]"]) auto
  qed
qed

lemma update_first_cases:
  obtains (none) "update_first clash P f xs = (Inl ErrNoDocuments, xs)" "no_match P (mset xs)"
  | (dup) d x where "update_first clash P f xs = (Inl ErrDuplicateKey, xs)" "d \<in># mset xs" "P d"
      "x \<in># mset xs - {#d#}" "clash x (f d)"
  | (one) a d b where "xs = a @ d # b" "P d" "\<forall>y \<in> set (a @ b). \<not> clash y (f d)"
      "update_first clash P f xs = (Inr (f d), a @ f d # b)"
proof (cases "List.extract P xs")
  case None
  then have "no_match P (mset xs)" by (simp add: extract_None_iff no_match_def)
  moreover have "update_first clash P f xs = (Inl ErrNoDocuments, xs)"
    using None by (simp add: update_first_def)
  ultimately show ?thesis by (intro none)
next
  case (Some p)
  then obtain a d b where p: "List.extract P xs = Some (a, d, b)" by (cases p) auto
  then have xs: "xs = a @ d # b" "P d" by (auto simp: extract_Some_iff)
  show ?thesis
  proof (cases "\<exists>y \<in> set (a @ b). clash y (f d)")
    case True
    then obtain y where "y \<in> set (a @ b)" "clash y (f d)" by blast
    with p xs True show ?thesis by (intro dup [of d y]) (auto simp: update_first_def)
  next
    case False
    with p xs show ?thesis by (intro one [of a d b]) (auto simp: update_first_def)
  qed
qed

abbreviation "mem_docs project s \<equiv> mset (view project s)"

abbreviation "mem_ok clash project s \<equiv> pairwise_mset (\<lambda>x y. \<not> clash x y) (mem_docs project s)"

text \<open>One lemma per call: what it returns and what it leaves in the collection.\<close>

lemma mem_insert_cases:
  assumes "InsertOne (mem_coll inject project clash) d s = (r, s')"
    and "mem_ok clash project s" and emb: "\<And>d. project (inject d) = Some d"
    and sym: "\<forall>x y. clash x y \<longrightarrow> clash y x"
  obtains (dup) x where "r = Inl ErrDuplicateKey" "s' = s" "x \<in># mem_docs project s" "clash x d"
  | (one) "r = Inr ()" "mem_docs project s' = add_mset d (mem_docs project s)"
      "mem_ok clash project s'"
proof (cases "\<exists>x \<in> set (view project s). clash x d")
  case True
  with assms(1) show ?thesis by (auto simp: mem_coll_def intro: dup)
next
  case False
  with assms(1) have eq: "r = Inr ()" "s' = s @ [inject d]" by (auto simp: mem_coll_def)
  with emb have "mem_docs project s' = add_mset d (mem_docs project s)"
    by (simp add: view_inject(2) [of project inject])
  with eq False assms(2) sym show ?thesis by (intro one) (auto simp: pairwise_mset_add)
qed

lemma mem_first_cases:
  assumes "mem_ok clash project s" and emb: "\<And>d. project (inject d) = Some d"
    and sym: "\<forall>x y. clash x y \<longrightarrow> clash y x"
  obtains (none) "update_first clash P f (view project s) = (Inl ErrNoDocuments, view project s)"
      "no_match P (mem_docs project s)"
  | (dup) d x where "update_first clash P f (view project s) = (Inl ErrDuplicateKey, view project s)"
      "d \<in># mem_docs project s" "P d" "x \<in># mem_docs project s - {#d#}" "clash x (f d)"
  | (one) d xs where "update_first clash P f (view project s) = (Inr (f d), xs)"
      "d \<in># mem_docs project s" "P d"
      "mem_docs project (map inject xs) = add_mset (f d) (mem_docs project s - {#d#})"
      "mem_ok clash project (map inject xs)"
proof (cases rule: update_first_cases [of clash P f "view project s"])
  case none
  then show ?thesis by (rule that(1))
next
  case (dup d x)
  then show ?thesis by (rule that(2))
next
  case (one a d b)
  have eq: "mem_docs project (map inject (a @ f d # b)) = add_mset (f d) (mem_docs project s - {#d#})"
    using view_inject(1) [of project inject "a @ f d # b", OF emb] one(1) by simp
  moreover have "mem_ok clash project (map inject (a @ f d # b))"
    unfolding eq using assms(1) one(1,3) sym by (auto simp: pairwise_mset_add)
  ultimately show ?thesis using one that(3) [of d "a @ f d # b"] by simp
qed

lemma mem_update_cases:
  assumes "UpdateOne (mem_coll inject project clash) P f s = (r, s')"
    and "mem_ok clash project s" and emb: "\<And>d. project (inject d) = Some d"
    and sym: "\<forall>x y. clash x y \<longrightarrow> clash y x"
  obtains (none) "r = Inr 0" "s' = s" "no_match P (mem_docs project s)"
  | (dup) d x where "r = Inl ErrDuplicateKey" "s' = s" "d \<in># mem_docs project s" "P d"
      "x \<in># mem_docs project s - {#d#}" "clash x (f d)"
  | (one) d where "r = Inr 1" "d \<in># mem_docs project s" "P d"
      "mem_docs project s' = add_mset (f d) (mem_docs project s - {#d#})" "mem_ok clash project s'"
proof (rule mem_first_cases [OF assms(2) emb sym, where P = P and f = f], goal_cases)
  case 1
  then have "r = Inr 0" "s' = s" using assms(1) by (simp_all add: mem_coll_def)
  then show ?case using 1 by - (rule that(1), assumption+)
next
  case (2 d x)
  then have "r = Inl ErrDuplicateKey" "s' = s" using assms(1) by (simp_all add: mem_coll_def)
  then show ?case using 2 by - (rule that(2), assumption+)
next
  case (3 d xs)
  then have r: "r = Inr 1" and s': "s' = map inject xs" using assms(1) by (simp_all add: mem_coll_def)
  show ?case by (rule that(3) [OF r 3(5,6)]) (use s' 3(7,8) in simp_all)
qed

lemma mem_find_update_cases:
  assumes "FindOneAndUpdate (mem_coll inject project clash) P f s = (r, s')"
    and "mem_ok clash project s" and emb: "\<And>d. project (inject d) = Some d"
    and sym: "\<forall>x y. clash x y \<longrightarrow> clash y x"
  obtains (none) "r = Inl ErrNoDocuments" "s' = s" "no_match P (mem_docs project s)"
  | (dup) d x where "r = Inl ErrDuplicateKey" "s' = s" "d \<in># mem_docs project s" "P d"
      "x \<in># mem_docs project s - {#d#}" "clash x (f d)"
  | (one) d where "r = Inr (f d)" "d \<in># mem_docs project s" "P d"
      "mem_docs project s' = add_mset (f d) (mem_docs project s - {#d#})" "mem_ok clash project s'"
proof (rule mem_first_cases [OF assms(2) emb sym, where P = P and f = f], goal_cases)
  case 1
  then have "r = Inl ErrNoDocuments" "s' = s" using assms(1) by (simp_all add: mem_coll_def)
  then show ?case using 1 by - (rule that(1), assumption+)
next
  case (2 d x)
  then have "r = Inl ErrDuplicateKey" "s' = s" using assms(1) by (simp_all add: mem_coll_def)
  then show ?case using 2 by - (rule that(2), assumption+)
next
  case (3 d xs)
  then have r: "r = Inr (f d)" and s': "s' = map inject xs" using assms(1) by (simp_all add: mem_coll_def)
  show ?case by (rule that(3) [OF r 3(5,6)]) (use s' 3(7,8) in simp_all)
qed

lemma mem_many_cases:
  assumes "UpdateMany (mem_coll inject project clash) P f s = (r, s')"
    and "mem_ok clash project s" and emb: "\<And>d. project (inject d) = Some d"
    and sym: "\<forall>x y. clash x y \<longrightarrow> clash y x"
  obtains A where "A \<subseteq># filter_mset P (mem_docs project s)"
    "mem_docs project s' = image_mset f A + (mem_docs project s - A)" "mem_ok clash project s'"
    "\<And>n. r = Inr n \<Longrightarrow> n = size (filter_mset P (mem_docs project s)) \<and>
      A = filter_mset P (mem_docs project s)"
proof -
  obtain b xs where u: "update_each clash P f [] (view project s) = (b, xs)" by fastforce
  then have r: "r = (if b then Inr (length (filter P (view project s))) else Inl ErrDuplicateKey)"
    and s': "mem_docs project s' = mset xs"
    using assms(1) view_inject(1) [of project inject xs, OF emb] by (auto simp: mem_coll_def)
  obtain A where A: "A \<subseteq># filter_mset P (mem_docs project s)"
    "mset xs = image_mset f A + (mem_docs project s - A)"
    "b \<longrightarrow> A = filter_mset P (mem_docs project s)"
    using update_each_spec [OF u] by auto
  have "mem_ok clash project s'"
    unfolding s' by (rule update_each_unique [OF u sym]) (use assms(2) in auto)
  moreover have "n = size (filter_mset P (mem_docs project s)) \<and>
      A = filter_mset P (mem_docs project s)" if "r = Inr n" for n
  proof -
    have "b" "n = length (filter P (view project s))" using that r by (auto split: if_splits)
    with A(3) show ?thesis by (simp flip: size_mset)
  qed
  ultimately show ?thesis using that [of A] A(1,2) s' by simp
qed

lemma mem_delete_cases:
  assumes "DeleteOne (mem_coll inject project clash) P s = (r, s')"
    and "mem_ok clash project s" and emb: "\<And>d. project (inject d) = Some d"
  obtains (none) "r = Inr 0" "s' = s" "no_match P (mem_docs project s)"
  | (one) d where "r = Inr 1" "d \<in># mem_docs project s" "P d"
      "mem_docs project s' = mem_docs project s - {#d#}" "mem_ok clash project s'"
proof (cases "List.extract P (view project s)")
  case None
  then have "no_match P (mem_docs project s)" by (simp add: extract_None_iff no_match_def)
  moreover have "r = Inr 0" "s' = s" using None assms(1) by (simp_all add: mem_coll_def)
  ultimately show ?thesis by (intro none)
next
  case (Some p)
  then obtain a d b where p: "List.extract P (view project s) = Some (a, d, b)" by (cases p) auto
  then have xs: "view project s = a @ d # b" "P d" by (auto simp: extract_Some_iff)
  have "s' = map inject (a @ b)" "r = Inr 1" using assms(1) p by (auto simp: mem_coll_def)
  moreover from this have "mem_docs project s' = mem_docs project s - {#d#}"
    using view_inject(1) [of project inject "a @ b", OF emb] xs by simp
  moreover from this have "mem_ok clash project s'"
    using pairwise_mset_remove [OF assms(2)] by simp
  ultimately show ?thesis using xs by (intro one [of d]) auto
qed

lemma mem_delete_many:
  assumes "DeleteMany (mem_coll inject project clash) P s = (r, s')"
    and "mem_ok clash project s" and emb: "\<And>d. project (inject d) = Some d"
  shows "(\<exists>n. r = Inr n) \<and> mem_docs project s' = filter_mset (\<lambda>d. \<not> P d) (mem_docs project s)
    \<and> mem_ok clash project s'"
proof -
  have eq: "(\<exists>n. r = Inr n) \<and> mem_docs project s' = filter_mset (\<lambda>d. \<not> P d) (mem_docs project s)"
    using assms(1) view_inject(1) [of project inject, OF emb] by (auto simp: mem_coll_def Let_def)
  with pairwise_mset_filter [OF assms(2)] show ?thesis by simp
qed

lemma mem_find:
  "FindOne (mem_coll inject project clash) P s = Inr d \<Longrightarrow> d \<in># mem_docs project s \<and> P d"
  "FindOne (mem_coll inject project clash) P s = Inl e \<Longrightarrow>
     e = ErrNoDocuments \<and> no_match P (mem_docs project s)"
  by (auto simp: mem_coll_def no_match_def find_Some_iff find_None_iff split: option.splits)

lemma mem_find_sorted:
  assumes "FindOneSorted (mem_coll inject project clash) P le s = r"
  shows "r = Inr d \<Longrightarrow> sort_order le \<Longrightarrow>
      d \<in># mem_docs project s \<and> P d \<and> (\<forall>x \<in># mem_docs project s. P x \<longrightarrow> le d x)"
    and "r = Inl e \<Longrightarrow> e = ErrNoDocuments \<and> no_match P (mem_docs project s)"
proof -
  let ?xs = "sort_docs le (filter P (view project s))"
  have set: "set ?xs = set (filter P (view project s))" by (metis mset_sort_docs set_mset_mset)
  { assume r: "r = Inr d" and le: "sort_order le"
    then obtain ys where ys: "?xs = d # ys" using assms
      by (auto simp: mem_coll_def split: list.splits)
    with sorted_sort_docs [OF le, of "filter P (view project s)"] have "\<forall>x \<in> set ys. le d x" by simp
    moreover have "le d d" using le by (auto simp: sort_order_def)
    ultimately show "d \<in># mem_docs project s \<and> P d \<and> (\<forall>x \<in># mem_docs project s. P x \<longrightarrow> le d x)"
      using set ys by auto }
  { assume "r = Inl e"
    then have "e = ErrNoDocuments" "?xs = []"
      using assms by (auto simp: mem_coll_def split: list.splits)
    with set show "e = ErrNoDocuments \<and> no_match P (mem_docs project s)"
      by (auto simp: no_match_def filter_empty_conv) }
qed

lemma mem_collection:
  assumes emb: "\<And>d. project (inject d) = Some d" and sym: "\<forall>x y. clash x y \<longrightarrow> clash y x"
  shows "reliable_collection (mem_coll inject project clash) (mem_docs project) clash
    (mem_ok clash project)"
proof (unfold_locales, goal_cases)
  case (1 s P d) show ?case using mem_find(1) [OF 1(2)] by simp
next
  case (2 s P e) show ?case using mem_find(2) [OF 2(2)] by simp
next
  case (3 s P le d) show ?case using mem_find_sorted(1) [OF 3(2) refl 3(3)] by simp
next
  case (4 s P le e) show ?case using mem_find_sorted(2) [OF 4(2) refl] by simp
next
  case (5 s P le k l ds)
  then show ?case
    by (intro exI [of _ "sort_docs le (filter P (view project s))"])
      (auto simp: mem_coll_def sorted_sort_docs)
next
  case (6 s P n) then show ?case by (simp add: mem_coll_def flip: size_mset)
next
  case (7 s d r s') then show ?case by (cases rule: mem_insert_cases [OF 7(2,1) emb sym]) simp_all
next
  case (8 s d u s') show ?case by (cases rule: mem_insert_cases [OF 8(2,1) emb sym]) simp_all
next
  case (9 s d e s') then show ?case by (cases rule: mem_insert_cases [OF 9(2,1) emb sym]) simp_all
next
  case (10 s d e s')
  then show ?case by (cases rule: mem_insert_cases [OF 10(2,1) emb sym]) auto
next
  case (11 s P f r s')
  then show ?case by (cases rule: mem_update_cases [OF 11(2,1) emb sym]) simp_all
next
  case (12 s P f n s')
  then show ?case by (cases rule: mem_update_cases [OF 12(2,1) emb sym]) (auto simp: replaced_def)
next
  case (13 s P f e s')
  then show ?case by (cases rule: mem_update_cases [OF 13(2,1) emb sym]) simp_all
next
  case (14 s P f e s')
  then show ?case by (cases rule: mem_update_cases [OF 14(2,1) emb sym]) auto
next
  case (15 s P f r s') then show ?case using mem_many_cases [OF 15(2,1) emb sym] by blast
next
  case (16 s P f n s')
  obtain A where "mem_docs project s' = image_mset f A + (mem_docs project s - A)"
    "n = size (filter_mset P (mem_docs project s))" "A = filter_mset P (mem_docs project s)"
    using mem_many_cases [OF 16(2,1) emb sym] by metis
  moreover have "mem_docs project s - filter_mset P (mem_docs project s) =
      filter_mset (\<lambda>d. \<not> P d) (mem_docs project s)"
    by (metis add_diff_cancel_left' multiset_partition)
  ultimately show ?case by simp
next
  case (17 s P f e s') then show ?case using mem_many_cases [OF 17(2,1) emb sym] by metis
next
  case (18 s P f r s')
  then show ?case by (cases rule: mem_find_update_cases [OF 18(2,1) emb sym]) simp_all
next
  case (19 s P f d' s')
  then show ?case by (cases rule: mem_find_update_cases [OF 19(2,1) emb sym]) auto
next
  case (20 s P f e s')
  then show ?case by (cases rule: mem_find_update_cases [OF 20(2,1) emb sym]) simp_all
next
  case (21 s P f e s')
  then show ?case by (cases rule: mem_find_update_cases [OF 21(2,1) emb sym]) simp_all
next
  case (22 s P f e s')
  then show ?case by (cases rule: mem_find_update_cases [OF 22(2,1) emb sym]) auto
next
  case (23 s P r s') then show ?case by (cases rule: mem_delete_cases [OF 23(2,1) emb]) simp_all
next
  case (24 s P n s')
  then show ?case by (cases rule: mem_delete_cases [OF 24(2,1) emb]) (auto simp: removed_def)
next
  case (25 s P e s') then show ?case by (cases rule: mem_delete_cases [OF 25(2,1) emb]) simp_all
next
  case (26 s P r s') show ?case using mem_delete_many [OF 26(2,1) emb] by blast
next
  case (27 s P n s') then show ?case using mem_delete_many [OF 27(2,1) emb] by simp
next
  case (28 s P e s') then show ?case using mem_delete_many [OF 28(2,1) emb] by simp
next
  case (29 s) then show ?case by simp
next
  case (30 s P e) show ?case using mem_find(2) [OF 30(2)] by simp
next
  case (31 s P le e) show ?case using mem_find_sorted(2) [OF 31(2) refl] by simp
next
  case (32 s P le k l) then show ?case by (simp add: mem_coll_def)
next
  case (33 s P) then show ?case by (simp add: mem_coll_def)
next
  case (34 s d e s')
  then show ?case by (cases rule: mem_insert_cases [OF 34(2,1) emb sym]) simp_all
next
  case (35 s P f e s')
  then show ?case by (cases rule: mem_update_cases [OF 35(2,1) emb sym]) simp_all
next
  case (36 s P f e s')
  then show ?case by (cases rule: mem_find_update_cases [OF 36(2,1) emb sym]) simp_all
next
  case (37 s P) then show ?case by (cases "List.extract P (view project s)") (auto simp: mem_coll_def)
next
  case (38 s P) then show ?case by (simp add: mem_coll_def Let_def)
qed

end
