(* ===== verification/Database.thy ===== *)
theory Database
  imports Mongo
begin

text \<open>
  The store's database: \<open>mongo\<close> is the record of the handles that the accessor methods of
  internal/store return (\<open>s.servers()\<close>, \<open>s.monitors()\<close>, ...), \<open>db\<close> the record of the
  collections' states, and \<open>on_servers\<close>, \<open>on_monitors\<close>, ... run one driver call on its
  collection. The unique indexes that the \<open>Ensure...Indexes\<close> methods create are the clash
  relations. The last section is a whole database in memory.
\<close>

section \<open>The collections\<close>

record 'c mongo =
  servers :: "('c, Server) coll"
  monitors :: "('c, Monitor) coll"
  results :: "('c, CheckResult) coll"
  events :: "('c, ServerEvent) coll"
  groups :: "('c, MonitorGroup) coll"
  notifyGroups :: "('c, NotifyGroup) coll"
  managedCertificates :: "('c, ManagedCertificate) coll"
  certificateOperations :: "('c, CertificateOperation) coll"
  certificateIssuers :: "('c, CertificateIssuer) coll"
  dnsProviderAccounts :: "('c, DNSProviderAccount) coll"
  certificateAccessTokens :: "('c, CertificateAccessToken) coll"
  mcpTokens :: "('c, McpToken) coll"

record 'c db =
  st_servers :: 'c
  st_monitors :: 'c
  st_results :: 'c
  st_events :: 'c
  st_groups :: 'c
  st_notifyGroups :: 'c
  st_managedCertificates :: 'c
  st_certificateOperations :: 'c
  st_certificateIssuers :: 'c
  st_dnsProviderAccounts :: 'c
  st_certificateAccessTokens :: 'c
  st_mcpTokens :: 'c

definition on_servers :: "('c \<Rightarrow> 'r \<times> 'c) \<Rightarrow> 'c db \<Rightarrow> 'r \<times> 'c db" where
  "on_servers f s = (case f (st_servers s) of (r, c) \<Rightarrow> (r, s\<lparr>st_servers := c\<rparr>))"

definition on_monitors :: "('c \<Rightarrow> 'r \<times> 'c) \<Rightarrow> 'c db \<Rightarrow> 'r \<times> 'c db" where
  "on_monitors f s = (case f (st_monitors s) of (r, c) \<Rightarrow> (r, s\<lparr>st_monitors := c\<rparr>))"

definition on_results :: "('c \<Rightarrow> 'r \<times> 'c) \<Rightarrow> 'c db \<Rightarrow> 'r \<times> 'c db" where
  "on_results f s = (case f (st_results s) of (r, c) \<Rightarrow> (r, s\<lparr>st_results := c\<rparr>))"

definition on_events :: "('c \<Rightarrow> 'r \<times> 'c) \<Rightarrow> 'c db \<Rightarrow> 'r \<times> 'c db" where
  "on_events f s = (case f (st_events s) of (r, c) \<Rightarrow> (r, s\<lparr>st_events := c\<rparr>))"

definition on_groups :: "('c \<Rightarrow> 'r \<times> 'c) \<Rightarrow> 'c db \<Rightarrow> 'r \<times> 'c db" where
  "on_groups f s = (case f (st_groups s) of (r, c) \<Rightarrow> (r, s\<lparr>st_groups := c\<rparr>))"

definition on_notifyGroups :: "('c \<Rightarrow> 'r \<times> 'c) \<Rightarrow> 'c db \<Rightarrow> 'r \<times> 'c db" where
  "on_notifyGroups f s = (case f (st_notifyGroups s) of (r, c) \<Rightarrow> (r, s\<lparr>st_notifyGroups := c\<rparr>))"

definition on_managedCertificates :: "('c \<Rightarrow> 'r \<times> 'c) \<Rightarrow> 'c db \<Rightarrow> 'r \<times> 'c db" where
  "on_managedCertificates f s = (case f (st_managedCertificates s) of (r, c) \<Rightarrow> (r, s\<lparr>st_managedCertificates := c\<rparr>))"

definition on_certificateOperations :: "('c \<Rightarrow> 'r \<times> 'c) \<Rightarrow> 'c db \<Rightarrow> 'r \<times> 'c db" where
  "on_certificateOperations f s = (case f (st_certificateOperations s) of (r, c) \<Rightarrow> (r, s\<lparr>st_certificateOperations := c\<rparr>))"

definition on_certificateIssuers :: "('c \<Rightarrow> 'r \<times> 'c) \<Rightarrow> 'c db \<Rightarrow> 'r \<times> 'c db" where
  "on_certificateIssuers f s = (case f (st_certificateIssuers s) of (r, c) \<Rightarrow> (r, s\<lparr>st_certificateIssuers := c\<rparr>))"

definition on_dnsProviderAccounts :: "('c \<Rightarrow> 'r \<times> 'c) \<Rightarrow> 'c db \<Rightarrow> 'r \<times> 'c db" where
  "on_dnsProviderAccounts f s = (case f (st_dnsProviderAccounts s) of (r, c) \<Rightarrow> (r, s\<lparr>st_dnsProviderAccounts := c\<rparr>))"

definition on_certificateAccessTokens :: "('c \<Rightarrow> 'r \<times> 'c) \<Rightarrow> 'c db \<Rightarrow> 'r \<times> 'c db" where
  "on_certificateAccessTokens f s = (case f (st_certificateAccessTokens s) of (r, c) \<Rightarrow> (r, s\<lparr>st_certificateAccessTokens := c\<rparr>))"

definition on_mcpTokens :: "('c \<Rightarrow> 'r \<times> 'c) \<Rightarrow> 'c db \<Rightarrow> 'r \<times> 'c db" where
  "on_mcpTokens f s = (case f (st_mcpTokens s) of (r, c) \<Rightarrow> (r, s\<lparr>st_mcpTokens := c\<rparr>))"

text \<open>One driver call changes the state of its own collection only.\<close>

lemma on_servers_eq_iff:
  "on_servers f s = (r, s') \<longleftrightarrow> (\<exists>c. f (st_servers s) = (r, c) \<and> s' = s\<lparr>st_servers := c\<rparr>)"
  by (cases "f (st_servers s)") (auto simp: on_servers_def)

lemma on_monitors_eq_iff:
  "on_monitors f s = (r, s') \<longleftrightarrow> (\<exists>c. f (st_monitors s) = (r, c) \<and> s' = s\<lparr>st_monitors := c\<rparr>)"
  by (cases "f (st_monitors s)") (auto simp: on_monitors_def)

lemma on_results_eq_iff:
  "on_results f s = (r, s') \<longleftrightarrow> (\<exists>c. f (st_results s) = (r, c) \<and> s' = s\<lparr>st_results := c\<rparr>)"
  by (cases "f (st_results s)") (auto simp: on_results_def)

lemma on_events_eq_iff:
  "on_events f s = (r, s') \<longleftrightarrow> (\<exists>c. f (st_events s) = (r, c) \<and> s' = s\<lparr>st_events := c\<rparr>)"
  by (cases "f (st_events s)") (auto simp: on_events_def)

lemma on_groups_eq_iff:
  "on_groups f s = (r, s') \<longleftrightarrow> (\<exists>c. f (st_groups s) = (r, c) \<and> s' = s\<lparr>st_groups := c\<rparr>)"
  by (cases "f (st_groups s)") (auto simp: on_groups_def)

lemma on_notifyGroups_eq_iff:
  "on_notifyGroups f s = (r, s') \<longleftrightarrow> (\<exists>c. f (st_notifyGroups s) = (r, c) \<and> s' = s\<lparr>st_notifyGroups := c\<rparr>)"
  by (cases "f (st_notifyGroups s)") (auto simp: on_notifyGroups_def)

lemma on_managedCertificates_eq_iff:
  "on_managedCertificates f s = (r, s') \<longleftrightarrow> (\<exists>c. f (st_managedCertificates s) = (r, c) \<and> s' = s\<lparr>st_managedCertificates := c\<rparr>)"
  by (cases "f (st_managedCertificates s)") (auto simp: on_managedCertificates_def)

lemma on_certificateOperations_eq_iff:
  "on_certificateOperations f s = (r, s') \<longleftrightarrow> (\<exists>c. f (st_certificateOperations s) = (r, c) \<and> s' = s\<lparr>st_certificateOperations := c\<rparr>)"
  by (cases "f (st_certificateOperations s)") (auto simp: on_certificateOperations_def)

lemma on_certificateIssuers_eq_iff:
  "on_certificateIssuers f s = (r, s') \<longleftrightarrow> (\<exists>c. f (st_certificateIssuers s) = (r, c) \<and> s' = s\<lparr>st_certificateIssuers := c\<rparr>)"
  by (cases "f (st_certificateIssuers s)") (auto simp: on_certificateIssuers_def)

lemma on_dnsProviderAccounts_eq_iff:
  "on_dnsProviderAccounts f s = (r, s') \<longleftrightarrow> (\<exists>c. f (st_dnsProviderAccounts s) = (r, c) \<and> s' = s\<lparr>st_dnsProviderAccounts := c\<rparr>)"
  by (cases "f (st_dnsProviderAccounts s)") (auto simp: on_dnsProviderAccounts_def)

lemma on_certificateAccessTokens_eq_iff:
  "on_certificateAccessTokens f s = (r, s') \<longleftrightarrow> (\<exists>c. f (st_certificateAccessTokens s) = (r, c) \<and> s' = s\<lparr>st_certificateAccessTokens := c\<rparr>)"
  by (cases "f (st_certificateAccessTokens s)") (auto simp: on_certificateAccessTokens_def)

lemma on_mcpTokens_eq_iff:
  "on_mcpTokens f s = (r, s') \<longleftrightarrow> (\<exists>c. f (st_mcpTokens s) = (r, c) \<and> s' = s\<lparr>st_mcpTokens := c\<rparr>)"
  by (cases "f (st_mcpTokens s)") (auto simp: on_mcpTokens_def)

lemmas on_collection_iffs =
  on_servers_eq_iff
  on_monitors_eq_iff
  on_results_eq_iff
  on_events_eq_iff
  on_groups_eq_iff
  on_notifyGroups_eq_iff
  on_managedCertificates_eq_iff
  on_certificateOperations_eq_iff
  on_certificateIssuers_eq_iff
  on_dnsProviderAccounts_eq_iff
  on_certificateAccessTokens_eq_iff
  on_mcpTokens_eq_iff

section \<open>The unique indexes\<close>

definition op_in_flight :: "CertificateOperation \<Rightarrow> bool" where
  "op_in_flight x \<longleftrightarrow> op_Status x \<in> set CertOpInFlightStatuses"

definition servers_clash :: "Server \<Rightarrow> Server \<Rightarrow> bool" where
  "servers_clash x y \<longleftrightarrow> srv_ID x = srv_ID y"

definition monitors_clash :: "Monitor \<Rightarrow> Monitor \<Rightarrow> bool" where
  "monitors_clash x y \<longleftrightarrow> mon_ServerID x = mon_ServerID y \<and> mon_ID x = mon_ID y"

definition results_clash :: "CheckResult \<Rightarrow> CheckResult \<Rightarrow> bool" where
  "results_clash x y \<longleftrightarrow> False"

definition events_clash :: "ServerEvent \<Rightarrow> ServerEvent \<Rightarrow> bool" where
  "events_clash x y \<longleftrightarrow> False"

definition groups_clash :: "MonitorGroup \<Rightarrow> MonitorGroup \<Rightarrow> bool" where
  "groups_clash x y \<longleftrightarrow> grp_Name x = grp_Name y"

definition notifyGroups_clash :: "NotifyGroup \<Rightarrow> NotifyGroup \<Rightarrow> bool" where
  "notifyGroups_clash x y \<longleftrightarrow> ng_Name x = ng_Name y"

definition managedCertificates_clash :: "ManagedCertificate \<Rightarrow> ManagedCertificate \<Rightarrow> bool" where
  "managedCertificates_clash x y \<longleftrightarrow> mc_ID x = mc_ID y \<or> mc_Name x = mc_Name y"

definition certificateOperations_clash :: "CertificateOperation \<Rightarrow> CertificateOperation \<Rightarrow> bool" where
  "certificateOperations_clash x y \<longleftrightarrow> op_ID x = op_ID y \<or> (op_in_flight x \<and> op_in_flight y \<and>
       op_ManagedCertificateID x = op_ManagedCertificateID y)"

definition certificateIssuers_clash :: "CertificateIssuer \<Rightarrow> CertificateIssuer \<Rightarrow> bool" where
  "certificateIssuers_clash x y \<longleftrightarrow> iss_ID x = iss_ID y \<or> iss_Name x = iss_Name y"

definition dnsProviderAccounts_clash :: "DNSProviderAccount \<Rightarrow> DNSProviderAccount \<Rightarrow> bool" where
  "dnsProviderAccounts_clash x y \<longleftrightarrow> dns_ID x = dns_ID y \<or> dns_Name x = dns_Name y"

definition certificateAccessTokens_clash :: "CertificateAccessToken \<Rightarrow> CertificateAccessToken \<Rightarrow> bool" where
  "certificateAccessTokens_clash x y \<longleftrightarrow> cat_TokenHash x = cat_TokenHash y \<or>
     (cat_ServerID x = cat_ServerID y \<and> cat_Name x = cat_Name y)"

definition mcpTokens_clash :: "McpToken \<Rightarrow> McpToken \<Rightarrow> bool" where
  "mcpTokens_clash x y \<longleftrightarrow> mcp_TokenHash x = mcp_TokenHash y"

lemma clash_sym:
  "\<forall>x y. servers_clash x y \<longrightarrow> servers_clash y x"
  "\<forall>x y. monitors_clash x y \<longrightarrow> monitors_clash y x"
  "\<forall>x y. results_clash x y \<longrightarrow> results_clash y x"
  "\<forall>x y. events_clash x y \<longrightarrow> events_clash y x"
  "\<forall>x y. groups_clash x y \<longrightarrow> groups_clash y x"
  "\<forall>x y. notifyGroups_clash x y \<longrightarrow> notifyGroups_clash y x"
  "\<forall>x y. managedCertificates_clash x y \<longrightarrow> managedCertificates_clash y x"
  "\<forall>x y. certificateOperations_clash x y \<longrightarrow> certificateOperations_clash y x"
  "\<forall>x y. certificateIssuers_clash x y \<longrightarrow> certificateIssuers_clash y x"
  "\<forall>x y. dnsProviderAccounts_clash x y \<longrightarrow> dnsProviderAccounts_clash y x"
  "\<forall>x y. certificateAccessTokens_clash x y \<longrightarrow> certificateAccessTokens_clash y x"
  "\<forall>x y. mcpTokens_clash x y \<longrightarrow> mcpTokens_clash y x"
  by (auto simp: servers_clash_def
    monitors_clash_def
    results_clash_def
    events_clash_def
    groups_clash_def
    notifyGroups_clash_def
    managedCertificates_clash_def
    certificateOperations_clash_def
    certificateIssuers_clash_def
    dnsProviderAccounts_clash_def
    certificateAccessTokens_clash_def
    mcpTokens_clash_def)

section \<open>A database in memory\<close>

datatype doc =
    DServer Server
  | DMonitor Monitor
  | DResult CheckResult
  | DEvent ServerEvent
  | DGroup MonitorGroup
  | DNotify NotifyGroup
  | DCert ManagedCertificate
  | DOp CertificateOperation
  | DIssuer CertificateIssuer
  | DDns DNSProviderAccount
  | DToken CertificateAccessToken
  | DMcp McpToken

definition un_DServer :: "doc \<Rightarrow> Server option" where
  "un_DServer x = (case x of DServer d \<Rightarrow> Some d | _ \<Rightarrow> None)"

definition un_DMonitor :: "doc \<Rightarrow> Monitor option" where
  "un_DMonitor x = (case x of DMonitor d \<Rightarrow> Some d | _ \<Rightarrow> None)"

definition un_DResult :: "doc \<Rightarrow> CheckResult option" where
  "un_DResult x = (case x of DResult d \<Rightarrow> Some d | _ \<Rightarrow> None)"

definition un_DEvent :: "doc \<Rightarrow> ServerEvent option" where
  "un_DEvent x = (case x of DEvent d \<Rightarrow> Some d | _ \<Rightarrow> None)"

definition un_DGroup :: "doc \<Rightarrow> MonitorGroup option" where
  "un_DGroup x = (case x of DGroup d \<Rightarrow> Some d | _ \<Rightarrow> None)"

definition un_DNotify :: "doc \<Rightarrow> NotifyGroup option" where
  "un_DNotify x = (case x of DNotify d \<Rightarrow> Some d | _ \<Rightarrow> None)"

definition un_DCert :: "doc \<Rightarrow> ManagedCertificate option" where
  "un_DCert x = (case x of DCert d \<Rightarrow> Some d | _ \<Rightarrow> None)"

definition un_DOp :: "doc \<Rightarrow> CertificateOperation option" where
  "un_DOp x = (case x of DOp d \<Rightarrow> Some d | _ \<Rightarrow> None)"

definition un_DIssuer :: "doc \<Rightarrow> CertificateIssuer option" where
  "un_DIssuer x = (case x of DIssuer d \<Rightarrow> Some d | _ \<Rightarrow> None)"

definition un_DDns :: "doc \<Rightarrow> DNSProviderAccount option" where
  "un_DDns x = (case x of DDns d \<Rightarrow> Some d | _ \<Rightarrow> None)"

definition un_DToken :: "doc \<Rightarrow> CertificateAccessToken option" where
  "un_DToken x = (case x of DToken d \<Rightarrow> Some d | _ \<Rightarrow> None)"

definition un_DMcp :: "doc \<Rightarrow> McpToken option" where
  "un_DMcp x = (case x of DMcp d \<Rightarrow> Some d | _ \<Rightarrow> None)"

lemma un_doc:
  "\<And>d. un_DServer (DServer d) = Some d"
  "\<And>d. un_DMonitor (DMonitor d) = Some d"
  "\<And>d. un_DResult (DResult d) = Some d"
  "\<And>d. un_DEvent (DEvent d) = Some d"
  "\<And>d. un_DGroup (DGroup d) = Some d"
  "\<And>d. un_DNotify (DNotify d) = Some d"
  "\<And>d. un_DCert (DCert d) = Some d"
  "\<And>d. un_DOp (DOp d) = Some d"
  "\<And>d. un_DIssuer (DIssuer d) = Some d"
  "\<And>d. un_DDns (DDns d) = Some d"
  "\<And>d. un_DToken (DToken d) = Some d"
  "\<And>d. un_DMcp (DMcp d) = Some d"
  by (simp_all add: un_DServer_def un_DMonitor_def un_DResult_def un_DEvent_def un_DGroup_def un_DNotify_def un_DCert_def un_DOp_def un_DIssuer_def un_DDns_def un_DToken_def un_DMcp_def)

definition mem_mongo :: "doc list mongo" where
  "mem_mongo =
    \<lparr> servers = mem_coll DServer un_DServer servers_clash,
      monitors = mem_coll DMonitor un_DMonitor monitors_clash,
      results = mem_coll DResult un_DResult results_clash,
      events = mem_coll DEvent un_DEvent events_clash,
      groups = mem_coll DGroup un_DGroup groups_clash,
      notifyGroups = mem_coll DNotify un_DNotify notifyGroups_clash,
      managedCertificates = mem_coll DCert un_DCert managedCertificates_clash,
      certificateOperations = mem_coll DOp un_DOp certificateOperations_clash,
      certificateIssuers = mem_coll DIssuer un_DIssuer certificateIssuers_clash,
      dnsProviderAccounts = mem_coll DDns un_DDns dnsProviderAccounts_clash,
      certificateAccessTokens = mem_coll DToken un_DToken certificateAccessTokens_clash,
      mcpTokens = mem_coll DMcp un_DMcp mcpTokens_clash \<rparr>"

lemma mem_mongo_sel [simp]:
  "servers mem_mongo = mem_coll DServer un_DServer servers_clash"
  "monitors mem_mongo = mem_coll DMonitor un_DMonitor monitors_clash"
  "results mem_mongo = mem_coll DResult un_DResult results_clash"
  "events mem_mongo = mem_coll DEvent un_DEvent events_clash"
  "groups mem_mongo = mem_coll DGroup un_DGroup groups_clash"
  "notifyGroups mem_mongo = mem_coll DNotify un_DNotify notifyGroups_clash"
  "managedCertificates mem_mongo = mem_coll DCert un_DCert managedCertificates_clash"
  "certificateOperations mem_mongo = mem_coll DOp un_DOp certificateOperations_clash"
  "certificateIssuers mem_mongo = mem_coll DIssuer un_DIssuer certificateIssuers_clash"
  "dnsProviderAccounts mem_mongo = mem_coll DDns un_DDns dnsProviderAccounts_clash"
  "certificateAccessTokens mem_mongo = mem_coll DToken un_DToken certificateAccessTokens_clash"
  "mcpTokens mem_mongo = mem_coll DMcp un_DMcp mcpTokens_clash"
  by (simp_all add: mem_mongo_def)

definition empty_db :: "doc list db" where
  "empty_db = \<lparr> st_servers = [], st_monitors = [], st_results = [], st_events = [], st_groups = [], st_notifyGroups = [], st_managedCertificates = [], st_certificateOperations = [], st_certificateIssuers = [], st_dnsProviderAccounts = [], st_certificateAccessTokens = [], st_mcpTokens = [] \<rparr>"

interpretation mem_servers: reliable_collection "servers mem_mongo" "mem_docs un_DServer" servers_clash
  "mem_ok servers_clash un_DServer"
  unfolding mem_mongo_sel by (rule mem_collection; rule un_doc clash_sym)

interpretation mem_monitors: reliable_collection "monitors mem_mongo" "mem_docs un_DMonitor" monitors_clash
  "mem_ok monitors_clash un_DMonitor"
  unfolding mem_mongo_sel by (rule mem_collection; rule un_doc clash_sym)

interpretation mem_results: reliable_collection "results mem_mongo" "mem_docs un_DResult" results_clash
  "mem_ok results_clash un_DResult"
  unfolding mem_mongo_sel by (rule mem_collection; rule un_doc clash_sym)

interpretation mem_events: reliable_collection "events mem_mongo" "mem_docs un_DEvent" events_clash
  "mem_ok events_clash un_DEvent"
  unfolding mem_mongo_sel by (rule mem_collection; rule un_doc clash_sym)

interpretation mem_groups: reliable_collection "groups mem_mongo" "mem_docs un_DGroup" groups_clash
  "mem_ok groups_clash un_DGroup"
  unfolding mem_mongo_sel by (rule mem_collection; rule un_doc clash_sym)

interpretation mem_notifyGroups: reliable_collection "notifyGroups mem_mongo" "mem_docs un_DNotify" notifyGroups_clash
  "mem_ok notifyGroups_clash un_DNotify"
  unfolding mem_mongo_sel by (rule mem_collection; rule un_doc clash_sym)

interpretation mem_managedCertificates: reliable_collection "managedCertificates mem_mongo" "mem_docs un_DCert" managedCertificates_clash
  "mem_ok managedCertificates_clash un_DCert"
  unfolding mem_mongo_sel by (rule mem_collection; rule un_doc clash_sym)

interpretation mem_certificateOperations: reliable_collection "certificateOperations mem_mongo" "mem_docs un_DOp" certificateOperations_clash
  "mem_ok certificateOperations_clash un_DOp"
  unfolding mem_mongo_sel by (rule mem_collection; rule un_doc clash_sym)

interpretation mem_certificateIssuers: reliable_collection "certificateIssuers mem_mongo" "mem_docs un_DIssuer" certificateIssuers_clash
  "mem_ok certificateIssuers_clash un_DIssuer"
  unfolding mem_mongo_sel by (rule mem_collection; rule un_doc clash_sym)

interpretation mem_dnsProviderAccounts: reliable_collection "dnsProviderAccounts mem_mongo" "mem_docs un_DDns" dnsProviderAccounts_clash
  "mem_ok dnsProviderAccounts_clash un_DDns"
  unfolding mem_mongo_sel by (rule mem_collection; rule un_doc clash_sym)

interpretation mem_certificateAccessTokens: reliable_collection "certificateAccessTokens mem_mongo" "mem_docs un_DToken" certificateAccessTokens_clash
  "mem_ok certificateAccessTokens_clash un_DToken"
  unfolding mem_mongo_sel by (rule mem_collection; rule un_doc clash_sym)

interpretation mem_mcpTokens: reliable_collection "mcpTokens mem_mongo" "mem_docs un_DMcp" mcpTokens_clash
  "mem_ok mcpTokens_clash un_DMcp"
  unfolding mem_mongo_sel by (rule mem_collection; rule un_doc clash_sym)

text \<open>Evaluation of the views.\<close>

lemma view_simps [simp]:
  "view f [] = []"
  "view un_DServer (DServer d0 # xs) = d0 # view un_DServer xs"
  "view un_DServer (map DServer ds0) = ds0"
  "view un_DMonitor (DMonitor d1 # xs) = d1 # view un_DMonitor xs"
  "view un_DMonitor (map DMonitor ds1) = ds1"
  "view un_DResult (DResult d2 # xs) = d2 # view un_DResult xs"
  "view un_DResult (map DResult ds2) = ds2"
  "view un_DEvent (DEvent d3 # xs) = d3 # view un_DEvent xs"
  "view un_DEvent (map DEvent ds3) = ds3"
  "view un_DGroup (DGroup d4 # xs) = d4 # view un_DGroup xs"
  "view un_DGroup (map DGroup ds4) = ds4"
  "view un_DNotify (DNotify d5 # xs) = d5 # view un_DNotify xs"
  "view un_DNotify (map DNotify ds5) = ds5"
  "view un_DCert (DCert d6 # xs) = d6 # view un_DCert xs"
  "view un_DCert (map DCert ds6) = ds6"
  "view un_DOp (DOp d7 # xs) = d7 # view un_DOp xs"
  "view un_DOp (map DOp ds7) = ds7"
  "view un_DIssuer (DIssuer d8 # xs) = d8 # view un_DIssuer xs"
  "view un_DIssuer (map DIssuer ds8) = ds8"
  "view un_DDns (DDns d9 # xs) = d9 # view un_DDns xs"
  "view un_DDns (map DDns ds9) = ds9"
  "view un_DToken (DToken d10 # xs) = d10 # view un_DToken xs"
  "view un_DToken (map DToken ds10) = ds10"
  "view un_DMcp (DMcp d11 # xs) = d11 # view un_DMcp xs"
  "view un_DMcp (map DMcp ds11) = ds11"
  by (simp_all add: view_inject(1) un_doc) (simp_all add: view_def List.map_filter_simps un_doc)

end
