(* ===== verification/Paging.thy ===== *)
theory Paging
  imports Database
begin

text \<open>
  The paged listing of internal/store/store.go: the limit and the page token of a request, and
  \<open>findPage\<close>, which asks the driver for one document more than the page holds to learn whether
  there is a next page. The token of the next page is the decimal number of documents to skip.
\<close>

definition normalizeLimit :: "int \<Rightarrow> int" where
  "normalizeLimit limit = (if limit \<le> 0 then 50 else if limit > 200 then 200 else limit)"

definition parsePageToken :: "string \<Rightarrow> err + int" where
  "parsePageToken token =
     (if token = [] then Inr 0
      else case parse_int64 token of
             None \<Rightarrow> Inl (Opaque ''invalid page_token'')
           | Some skip \<Rightarrow> if skip < 0 then Inl (Opaque ''invalid page_token'') else Inr skip)"

definition findPage ::
  "('c, 'd) coll \<Rightarrow> ('d \<Rightarrow> bool) \<Rightarrow> int \<Rightarrow> string \<Rightarrow> ('d \<Rightarrow> 'd \<Rightarrow> bool) \<Rightarrow> 'c \<Rightarrow>
    err + ('d list \<times> string)" where
  "findPage C P limit pageToken le c =
     (let limit = normalizeLimit limit in
      case parsePageToken pageToken of
        Inl e \<Rightarrow> Inl e
      | Inr skip \<Rightarrow>
          (case FindDocs C P le (nat skip) (Some (nat (limit + 1))) c of
             Inl e \<Rightarrow> Inl e
           | Inr found \<Rightarrow>
               if int (length found) > limit
               then Inr (take (nat limit) found, format_int (wrap64 (skip + limit)))
               else Inr (found, [])))"

lemma normalizeLimit_bounds: "0 < normalizeLimit limit \<and> normalizeLimit limit \<le> 200"
  by (simp add: normalizeLimit_def)

lemma normalizeLimit_idem [simp]: "normalizeLimit (normalizeLimit limit) = normalizeLimit limit"
  by (simp add: normalizeLimit_def)

lemma format_int_nonempty [simp]: "format_int n \<noteq> []"
  by (simp add: format_int_def)

lemma parsePageToken_format:
  "0 \<le> n \<Longrightarrow> n \<le> max_int64 \<Longrightarrow> parsePageToken (format_int n) = Inr n"
  by (simp add: parsePageToken_def parse_int64_format)

lemma parsePageToken_nonneg: "parsePageToken token = Inr skip \<Longrightarrow> 0 \<le> skip"
  by (auto simp: parsePageToken_def split: if_splits option.splits)

text \<open>Sorted listings: the document orders the store uses.\<close>

lemma sort_order_key [simp]:
  fixes k :: "'d \<Rightarrow> 'k :: linorder"
  shows "sort_order (\<lambda>x y. k x \<le> k y)" and "sort_order (\<lambda>x y. k y \<le> k x)"
  by (auto simp: sort_order_def)

text \<open>MongoDB compares strings byte by byte.\<close>

definition string_le :: "string \<Rightarrow> string \<Rightarrow> bool" where
  "string_le s t \<longleftrightarrow> lexordp_eq (map of_char s :: nat list) (map of_char t)"

lemma string_le_total: "string_le s t \<or> string_le t s"
  by (simp add: string_le_def lexordp_eq_linear)

lemma string_le_trans: "string_le s t \<Longrightarrow> string_le t u \<Longrightarrow> string_le s u"
  by (auto simp: string_le_def intro: lexordp_eq_trans)

lemma sort_order_string_key [simp]: "sort_order (\<lambda>x y. string_le (k x) (k y))"
  using string_le_total string_le_trans by (auto simp: sort_order_def)

lemma page_slice:
  assumes "int (length xs) \<ge> 0" "0 < limit"
  shows "take limit (page k (Some (limit + 1)) xs) = take limit (drop k xs)"
    and "length (page k (Some (limit + 1)) xs) > limit \<longleftrightarrow> length xs > k + limit"
  using assms by (auto simp: page_def)

text \<open>
  C9: a page is a slice of the sorted listing: the page at skip \<open>k\<close> holds the documents
  \<open>k ..< k + limit\<close> of a sorted enumeration of exactly the matching documents, the next token
  is empty exactly when the listing ends there, and otherwise it parses to \<open>k + limit\<close>, where the
  next page starts.
\<close>

theorem findPage_slice:
  assumes "mongo_collection C docs clash ok" and "ok c" and "sort_order le"
    and "parsePageToken token = Inr k" and "k + 200 \<le> max_int64"
    and "findPage C P limit token le c = Inr (items, next_token)"
  shows "\<exists>xs. mset xs = filter_mset P (docs c) \<and> sorted_wrt le xs \<and>
    items = take (nat (normalizeLimit limit)) (drop (nat k) xs) \<and>
    (next_token = [] \<longleftrightarrow> int (length xs) \<le> k + normalizeLimit limit) \<and>
    (next_token \<noteq> [] \<longrightarrow> parsePageToken next_token = Inr (k + normalizeLimit limit))"
proof -
  let ?n = "normalizeLimit limit"
  have n: "0 < ?n" "?n \<le> 200" using normalizeLimit_bounds by auto
  have k: "0 \<le> k" by (rule parsePageToken_nonneg [OF assms(4)])
  obtain found where
    f: "FindDocs C P le (nat k) (Some (nat (?n + 1))) c = Inr found" and
    r: "(items, next_token) = (if int (length found) > ?n
          then (take (nat ?n) found, format_int (wrap64 (k + ?n))) else (found, []))"
    using assms(4,6) by (auto simp: findPage_def Let_def split: sum.splits if_splits)
  obtain xs where xs: "mset xs = filter_mset P (docs c)" "sorted_wrt le xs"
    "found = page (nat k) (Some (nat (?n + 1))) xs"
    using mongo_collection.find_docs [OF assms(1,2) f assms(3)] by blast
  have lim: "nat (?n + 1) = nat ?n + 1" using n by simp
  have slice: "take (nat ?n) found = take (nat ?n) (drop (nat k) xs)"
    and len: "length found > nat ?n \<longleftrightarrow> length xs > nat k + nat ?n"
    using page_slice [of xs "nat ?n" "nat k"] n unfolding xs(3) lim by auto
  have w: "wrap64 (k + ?n) = k + ?n" "k + ?n \<le> max_int64" "0 \<le> k + ?n"
    using assms(5) k n by (auto intro!: wrap64_id simp: min_int64_def)
  show ?thesis
  proof (cases "length found > nat ?n")
    case True
    then have "?n < int (length found)" using n by linarith
    then have "items = take (nat ?n) found" "next_token = format_int (k + ?n)"
      using r w(1) by simp_all
    with True len slice xs n k w show ?thesis
      by (intro exI [of _ xs]) (auto simp: parsePageToken_format)
  next
    case False
    then have "\<not> ?n < int (length found)" using n by linarith
    then have "items = found" "next_token = []" "take (nat ?n) found = found"
      using r by simp_all
    with False len slice xs n k show ?thesis by (intro exI [of _ xs]) auto
  qed
qed

definition sample_mcp :: "string \<Rightarrow> int \<Rightarrow> McpToken" where
  "sample_mcp i t = \<lparr>mcp_ID = i, mcp_Name = i, mcp_TokenHash = i, mcp_Prefix = i,
     mcp_CreatedAt = t, mcp_LastUsedAt = 0\<rparr>"

theorem findPage_slice_witness:
  "\<exists>xs. mset xs = {#sample_mcp ''a'' 1, sample_mcp ''b'' 2#} \<and>
     [sample_mcp ''b'' 2] = take 1 (drop 0 xs) \<and> parsePageToken (format_int 1) = Inr 1"
proof -
  let ?le = "\<lambda>x y. mcp_CreatedAt y \<le> mcp_CreatedAt x"
  let ?db = "[DMcp (sample_mcp ''a'' 1), DMcp (sample_mcp ''b'' 2)]"
  have p: "findPage (mcpTokens mem_mongo) (\<lambda>_. True) 1 [] ?le ?db =
      Inr ([sample_mcp ''b'' 2], format_int 1)"
    by (simp add: findPage_def normalizeLimit_def parsePageToken_def mem_coll_def sort_docs_def
        page_def sample_mcp_def wrap64_def)
  have "mem_ok mcpTokens_clash un_DMcp ?db"
    by (simp add: pairwise_mset_add mcpTokens_clash_def sample_mcp_def)
  from findPage_slice [OF mem_mcpTokens.mongo_collection_axioms this _ _ _ p] show ?thesis
    by (fastforce simp: parsePageToken_def max_int64_def normalizeLimit_def)
qed

end
