(* ===== verification/OpStore.thy ===== *)
theory OpStore
  imports Database
begin

text \<open>
  The certificate operations of internal/store: certificate_operations.go and
  certificate_operation_lease.go, one definition per method, and the state machine of one
  operation, \<open>op_step\<close>, whose events are the writes the methods make. The lemmas of
  \<open>op_store\<close> show that a method changes at most one operation and by one step (the sweep of
  expired operations: several, each by one step); the theorems about the state machine then
  speak about every interleaving of the calls of several replicas.
\<close>

section \<open>The methods\<close>

text \<open>\<open>if err != nil { return err }; if res.MatchedCount == 0 { return e }; return nil\<close>.\<close>

definition matched_or :: "err \<Rightarrow> (err + nat) \<times> 's \<Rightarrow> (err + unit) \<times> 's" where
  "matched_or e p = and_then p (\<lambda>n s. if n = 0 then (Inl e, s) else (Inr (), s))"

lemma matched_or_eq_iff:
  "matched_or e p = (r, s') \<longleftrightarrow>
     (\<exists>e'. p = (Inl e', s') \<and> r = Inl e') \<or> (p = (Inr 0, s') \<and> r = Inl e) \<or>
     (\<exists>n. p = (Inr n, s') \<and> n \<noteq> 0 \<and> r = Inr ())"
  by (auto simp: matched_or_def and_then_eq_iff split: if_splits)

definition claimableOperationFilter :: "gotime \<Rightarrow> CertificateOperation \<Rightarrow> bool" where
  "claimableOperationFilter now op \<longleftrightarrow>
     (op_Status op = CertOpStatusPending \<and>
       (case op_NextAttemptAt op of None \<Rightarrow> True | Some t \<Rightarrow> t \<le> now)) \<or>
     (op_Status op = CertOpStatusRunning \<and>
       (case op_LeaseExpiresAt op of None \<Rightarrow> True | Some t \<Rightarrow> t \<le> now))"

definition runningLeaseHeldFilter :: "gotime \<Rightarrow> CertificateOperation \<Rightarrow> bool" where
  "runningLeaseHeldFilter now op \<longleftrightarrow>
     op_Status op = CertOpStatusRunning \<and>
     (case op_LeaseExpiresAt op of None \<Rightarrow> False | Some t \<Rightarrow> now < t)"

definition heldBy :: "string \<Rightarrow> string \<Rightarrow> CertificateOperation \<Rightarrow> bool" where
  "heldBy opID owner op \<longleftrightarrow>
     op_ID op = opID \<and> op_Status op = CertOpStatusRunning \<and> op_LeaseOwner op = owner"

definition created_op :: "gotime \<Rightarrow> string \<Rightarrow> CertificateOperation \<Rightarrow> CertificateOperation" where
  "created_op now uuid op =
     (let op = (if op_ID op = [] then op\<lparr>op_ID := ''cop_'' @ uuid\<rparr> else op);
          op = op\<lparr>op_CreatedAt := now, op_UpdatedAt := now\<rparr>
      in if op_DeadlineAt op = None
         then op\<lparr>op_DeadlineAt := Some (now + DefaultOperationTotalTimeout)\<rparr> else op)"

definition CreateCertificateOperation ::
  "'c mongo \<Rightarrow> gotime \<Rightarrow> string \<Rightarrow> CertificateOperation \<Rightarrow> 'c db \<Rightarrow>
    (err + CertificateOperation) \<times> 'c db" where
  "CreateCertificateOperation M now uuid op s =
     (let op = created_op now uuid op
      in and_then (on_certificateOperations (InsertOne (certificateOperations M) op) s)
           (\<lambda>_ s. (Inr op, s)))"

definition GetCertificateOperation ::
  "'c mongo \<Rightarrow> string \<Rightarrow> 'c db \<Rightarrow> err + CertificateOperation" where
  "GetCertificateOperation M ident s =
     FindOne (certificateOperations M) (\<lambda>op. op_ID op = ident) (st_certificateOperations s)"

definition FindRunningCertificateOperation ::
  "'c mongo \<Rightarrow> string \<Rightarrow> string \<Rightarrow> 'c db \<Rightarrow> err + CertificateOperation" where
  "FindRunningCertificateOperation M managedCertificateID opType s =
     FindOne (certificateOperations M)
       (\<lambda>op. op_ManagedCertificateID op = managedCertificateID \<and> op_Type op = opType \<and>
          op_Status op \<in> set CertOpInFlightStatuses)
       (st_certificateOperations s)"

definition newest_first :: "CertificateOperation \<Rightarrow> CertificateOperation \<Rightarrow> bool" where
  "newest_first x y \<longleftrightarrow> op_CreatedAt y \<le> op_CreatedAt x"

definition ListCertificateOperationsByCertificate ::
  "'c mongo \<Rightarrow> string \<Rightarrow> int \<Rightarrow> 'c db \<Rightarrow> err + CertificateOperation list" where
  "ListCertificateOperationsByCertificate M managedCertificateID limit s =
     (let limit = (if limit \<le> 0 then 20 else limit)
      in FindDocs (certificateOperations M)
           (\<lambda>op. op_ManagedCertificateID op = managedCertificateID) newest_first 0
           (Some (nat limit)) (st_certificateOperations s))"

definition LatestCertificateOperation ::
  "'c mongo \<Rightarrow> string \<Rightarrow> 'c db \<Rightarrow> err + CertificateOperation" where
  "LatestCertificateOperation M managedCertificateID s =
     FindOneSorted (certificateOperations M)
       (\<lambda>op. op_ManagedCertificateID op = managedCertificateID) newest_first
       (st_certificateOperations s)"

definition FindClaimableCertificateOperations ::
  "'c mongo \<Rightarrow> gotime \<Rightarrow> int \<Rightarrow> 'c db \<Rightarrow> err + CertificateOperation list" where
  "FindClaimableCertificateOperations M now limit s =
     (let limit = (if limit \<le> 0 then 20 else limit)
      in FindDocs (certificateOperations M) (claimableOperationFilter now)
           (\<lambda>x y. op_CreatedAt x \<le> op_CreatedAt y) 0 (Some (nat limit))
           (st_certificateOperations s))"

text \<open>The \<open>$set\<close> stage of the claim's update pipeline.\<close>

definition claimed ::
  "CertificateOperationClaimParams \<Rightarrow> CertificateOperation \<Rightarrow> CertificateOperation" where
  "claimed p op = op\<lparr>
     op_Status := CertOpStatusRunning,
     op_LeaseOwner := cp_Owner p,
     op_LeaseExpiresAt := Some (cp_LeaseExpires p),
     op_UpdatedAt := cp_Now p,
     op_FinishedAt := None,
     op_StartedAt := (case op_StartedAt op of None \<Rightarrow> Some (cp_Now p) | Some t \<Rightarrow> Some t),
     op_AttemptCount := op_AttemptCount op + 1\<rparr>"

definition TryClaimCertificateOperation ::
  "'c mongo \<Rightarrow> CertificateOperationClaimParams \<Rightarrow> 'c db \<Rightarrow>
    (err + CertificateOperation) \<times> 'c db" where
  "TryClaimCertificateOperation M p s =
     and_then (GetCertificateOperation M (cp_OpID p) s, s) (\<lambda>target s.
     and_then (CountDocuments (certificateOperations M)
         (\<lambda>op. op_ManagedCertificateID op = op_ManagedCertificateID target \<and>
            op_ID op \<noteq> cp_OpID p \<and> runningLeaseHeldFilter (cp_Now p) op)
         (st_certificateOperations s), s) (\<lambda>conflictCount s.
     if conflictCount > 0 then (Inl (StoreE ErrCertificateOperationConflict), s)
     else on_certificateOperations (FindOneAndUpdate (certificateOperations M)
         (\<lambda>op. op_ID op = cp_OpID p \<and> claimableOperationFilter (cp_Now p) op)
         (claimed p)) s))"

definition lease_renewed :: "gotime \<Rightarrow> gotime \<Rightarrow> CertificateOperation \<Rightarrow> CertificateOperation" where
  "lease_renewed leaseExpires now op =
     op\<lparr>op_LeaseExpiresAt := Some leaseExpires, op_UpdatedAt := now\<rparr>"

definition RenewCertificateOperationLease ::
  "'c mongo \<Rightarrow> string \<Rightarrow> string \<Rightarrow> gotime \<Rightarrow> gotime \<Rightarrow> 'c db \<Rightarrow> (err + unit) \<times> 'c db" where
  "RenewCertificateOperationLease M opID owner leaseExpires now s =
     matched_or (StoreE ErrCertificateOperationConflict)
       (on_certificateOperations (UpdateOne (certificateOperations M)
          (\<lambda>op. heldBy opID owner op \<and>
             (case op_LeaseExpiresAt op of None \<Rightarrow> False | Some t \<Rightarrow> now < t))
          (lease_renewed leaseExpires now)) s)"

text \<open>\<open>$addToSet\<close> on the pending TXT records.\<close>

definition txt_recorded ::
  "DNSChallengeRecord \<Rightarrow> gotime \<Rightarrow> CertificateOperation \<Rightarrow> CertificateOperation" where
  "txt_recorded rec now op =
     op\<lparr>op_PendingTXTRecords :=
          (if rec \<in> set (op_PendingTXTRecords op) then op_PendingTXTRecords op
           else op_PendingTXTRecords op @ [rec]),
        op_UpdatedAt := now\<rparr>"

definition RecordCertificateOperationPendingTXT ::
  "'c mongo \<Rightarrow> gotime \<Rightarrow> string \<Rightarrow> string \<Rightarrow> DNSChallengeRecord \<Rightarrow> 'c db \<Rightarrow>
    (err + unit) \<times> 'c db" where
  "RecordCertificateOperationPendingTXT M now opID owner rec s =
     matched_or (StoreE ErrCertificateOperationConflict)
       (on_certificateOperations (UpdateOne (certificateOperations M) (heldBy opID owner)
          (txt_recorded rec now)) s)"

definition retry_scheduled ::
  "gotime \<Rightarrow> string \<Rightarrow> u32 \<Rightarrow> gotime \<Rightarrow> CertificateOperation \<Rightarrow> CertificateOperation" where
  "retry_scheduled nextAttemptAt errorSummary consecutiveFailures now op =
     op\<lparr>op_Status := CertOpStatusPending,
        op_ErrorSummary := errorSummary,
        op_NextAttemptAt := Some nextAttemptAt,
        op_ConsecutiveFailures := consecutiveFailures,
        op_LeaseOwner := [],
        op_LeaseExpiresAt := None,
        op_UpdatedAt := now\<rparr>"

definition ScheduleCertificateOperationRetry ::
  "'c mongo \<Rightarrow> gotime \<Rightarrow> string \<Rightarrow> string \<Rightarrow> gotime \<Rightarrow> string \<Rightarrow> u32 \<Rightarrow> 'c db \<Rightarrow>
    (err + unit) \<times> 'c db" where
  "ScheduleCertificateOperationRetry M now opID owner nextAttemptAt errorSummary fails s =
     matched_or (StoreE ErrCertificateOperationConflict)
       (on_certificateOperations (UpdateOne (certificateOperations M) (heldBy opID owner)
          (retry_scheduled nextAttemptAt errorSummary fails now)) s)"

definition op_failed :: "string \<Rightarrow> gotime \<Rightarrow> CertificateOperation \<Rightarrow> CertificateOperation" where
  "op_failed errorSummary now op =
     op\<lparr>op_Status := CertOpStatusFailed,
        op_ErrorSummary := errorSummary,
        op_FinishedAt := Some now,
        op_LeaseOwner := [],
        op_LeaseExpiresAt := None,
        op_UpdatedAt := now\<rparr>"

definition MarkCertificateOperationFailed ::
  "'c mongo \<Rightarrow> gotime \<Rightarrow> string \<Rightarrow> string \<Rightarrow> string \<Rightarrow> 'c db \<Rightarrow> (err + unit) \<times> 'c db" where
  "MarkCertificateOperationFailed M now opID owner errorSummary s =
     matched_or (StoreE ErrCertificateOperationConflict)
       (on_certificateOperations (UpdateOne (certificateOperations M) (heldBy opID owner)
          (op_failed errorSummary now)) s)"

definition txt_cleared :: "gotime \<Rightarrow> CertificateOperation \<Rightarrow> CertificateOperation" where
  "txt_cleared now op = op\<lparr>op_PendingTXTRecords := [], op_UpdatedAt := now\<rparr>"

definition ClearCertificateOperationPendingTXT ::
  "'c mongo \<Rightarrow> gotime \<Rightarrow> string \<Rightarrow> 'c db \<Rightarrow> (err + unit) \<times> 'c db" where
  "ClearCertificateOperationPendingTXT M now opID s =
     and_then (on_certificateOperations (UpdateOne (certificateOperations M)
         (\<lambda>op. op_ID op = opID) (txt_cleared now)) s) (\<lambda>_ s. (Inr (), s))"

definition op_expired :: "gotime \<Rightarrow> CertificateOperation \<Rightarrow> bool" where
  "op_expired now op \<longleftrightarrow>
     op_Status op \<in> set CertOpInFlightStatuses \<and>
     (case op_DeadlineAt op of None \<Rightarrow> False | Some t \<Rightarrow> t \<le> now)"

definition FailExpiredCertificateOperations ::
  "'c mongo \<Rightarrow> gotime \<Rightarrow> 'c db \<Rightarrow> (err + nat) \<times> 'c db" where
  "FailExpiredCertificateOperations M now s =
     on_certificateOperations (UpdateMany (certificateOperations M) (op_expired now)
       (op_failed OperationTotalTimeoutSummary now)) s"

definition HasRunningCertificateOperation ::
  "'c mongo \<Rightarrow> string \<Rightarrow> 'c db \<Rightarrow> err + bool" where
  "HasRunningCertificateOperation M managedCertificateID s =
     map_sum id (\<lambda>count. count > 0)
       (CountDocuments (certificateOperations M)
         (\<lambda>op. op_ManagedCertificateID op = managedCertificateID \<and>
            op_Status op \<in> set CertOpInFlightStatuses)
         (st_certificateOperations s))"

text \<open>
  The last write of ActivateFirstIssueVersion, ActivateSubsequentIssueVersion and
  CompleteRevokeVersion (managed_certificates.go) closes the operation as succeeded;
  \<open>clearTXT\<close> is true for the first two, which also reset the pending records.
\<close>

definition op_succeeded ::
  "bool \<Rightarrow> string \<Rightarrow> gotime \<Rightarrow> CertificateOperation \<Rightarrow> CertificateOperation" where
  "op_succeeded clearTXT warning now op =
     op\<lparr>op_Status := CertOpStatusSucceeded,
        op_FinishedAt := Some now,
        op_UpdatedAt := now,
        op_ErrorSummary := [],
        op_NextAttemptAt := None,
        op_ConsecutiveFailures := 0,
        op_LeaseOwner := [],
        op_LeaseExpiresAt := None,
        op_PendingTXTRecords := (if clearTXT then [] else op_PendingTXTRecords op),
        op_Warning := (if warning = [] then op_Warning op else warning)\<rparr>"

definition succeedOperation ::
  "'c mongo \<Rightarrow> bool \<Rightarrow> gotime \<Rightarrow> string \<Rightarrow> string \<Rightarrow> string \<Rightarrow> 'c db \<Rightarrow> (err + unit) \<times> 'c db" where
  "succeedOperation M clearTXT now opID leaseOwner warning s =
     matched_or (StoreE ErrCertificateOperationConflict)
       (on_certificateOperations (UpdateOne (certificateOperations M) (heldBy opID leaseOwner)
          (op_succeeded clearTXT warning now)) s)"

definition countHeld ::
  "'c mongo \<Rightarrow> string \<Rightarrow> string \<Rightarrow> 'c db \<Rightarrow> err + nat" where
  "countHeld M opID leaseOwner s =
     CountDocuments (certificateOperations M) (heldBy opID leaseOwner)
       (st_certificateOperations s)"

section \<open>The state machine of one operation\<close>

datatype op_event =
    Claim CertificateOperationClaimParams
  | RenewLease string gotime gotime
  | RecordTXT string DNSChallengeRecord gotime
  | Retry string gotime string u32 gotime
  | Fail string string gotime
  | ClearTXT gotime
  | Expire gotime
  | Succeed string bool string gotime

inductive op_step :: "op_event \<Rightarrow> CertificateOperation \<Rightarrow> CertificateOperation \<Rightarrow> bool" where
  Claim: "claimableOperationFilter (cp_Now p) op \<Longrightarrow> op_step (Claim p) op (claimed p op)"
| RenewLease: "op_Status op = CertOpStatusRunning \<Longrightarrow> op_LeaseOwner op = owner \<Longrightarrow>
    op_LeaseExpiresAt op = Some t \<Longrightarrow> now < t \<Longrightarrow>
    op_step (RenewLease owner exp now) op (lease_renewed exp now op)"
| RecordTXT: "op_Status op = CertOpStatusRunning \<Longrightarrow> op_LeaseOwner op = owner \<Longrightarrow>
    op_step (RecordTXT owner rec now) op (txt_recorded rec now op)"
| Retry: "op_Status op = CertOpStatusRunning \<Longrightarrow> op_LeaseOwner op = owner \<Longrightarrow>
    op_step (Retry owner next summary fails now) op (retry_scheduled next summary fails now op)"
| Fail: "op_Status op = CertOpStatusRunning \<Longrightarrow> op_LeaseOwner op = owner \<Longrightarrow>
    op_step (Fail owner summary now) op (op_failed summary now op)"
| ClearTXT: "op_step (ClearTXT now) op (txt_cleared now op)"
| Expire: "op_expired now op \<Longrightarrow>
    op_step (Expire now) op (op_failed OperationTotalTimeoutSummary now op)"
| Succeed: "op_Status op = CertOpStatusRunning \<Longrightarrow> op_LeaseOwner op = owner \<Longrightarrow>
    op_step (Succeed owner clear warning now) op (op_succeeded clear warning now op)"

inductive_cases op_stepE: "op_step ev op op'"

text \<open>The writes as functions, and the fields every step keeps.\<close>

lemmas op_updates =
  claimed_def lease_renewed_def txt_recorded_def retry_scheduled_def op_failed_def
  txt_cleared_def op_succeeded_def


definition op_terminal :: "CertificateOperation \<Rightarrow> bool" where
  "op_terminal op \<longleftrightarrow> op_Status op = CertOpStatusSucceeded \<or> op_Status op = CertOpStatusFailed"

text \<open>What an operation was created for never changes.\<close>

definition op_identity where
  "op_identity op = (op_ID op, op_ManagedCertificateID op, op_Type op, op_ConfigSnapshot op,
     op_TargetVersionID op, op_RevokeReason op, op_DeadlineAt op, op_CreatedAt op)"

lemma op_step_identity: "op_step ev op op' \<Longrightarrow> op_identity op' = op_identity op"
  by (auto elim!: op_stepE simp: op_identity_def op_updates)

text \<open>
  The well-formed operations: the status is one of the four, a lease exists exactly while the
  operation runs, and \<open>finished_at\<close> is set exactly in the terminal states.
\<close>

definition op_wf :: "CertificateOperation \<Rightarrow> bool" where
  "op_wf op \<longleftrightarrow>
     (op_in_flight op \<or> op_terminal op) \<and>
     (op_Status op = CertOpStatusRunning \<longrightarrow> op_LeaseExpiresAt op \<noteq> None \<and> op_StartedAt op \<noteq> None) \<and>
     (op_Status op \<noteq> CertOpStatusRunning \<longrightarrow> op_LeaseOwner op = [] \<and> op_LeaseExpiresAt op = None) \<and>
     (op_terminal op \<longleftrightarrow> op_FinishedAt op \<noteq> None) \<and>
     op_DeadlineAt op \<noteq> None"

lemma op_wf_claimed: "op_wf op \<Longrightarrow> op_wf (claimed p op)"
  by (auto simp: op_wf_def claimed_def op_terminal_def op_in_flight_def CertOpInFlightStatuses_def
      split: option.splits)

lemma op_wf_failed: "op_wf op \<Longrightarrow> op_wf (op_failed summary now op)"
  by (auto simp: op_wf_def op_failed_def op_terminal_def op_in_flight_def CertOpInFlightStatuses_def)

lemma op_wf_succeeded: "op_wf op \<Longrightarrow> op_wf (op_succeeded clear warning now op)"
  by (auto simp: op_wf_def op_succeeded_def op_terminal_def op_in_flight_def
      CertOpInFlightStatuses_def)

lemma op_wf_retried:
  "op_wf op \<Longrightarrow> op_Status op = CertOpStatusRunning \<Longrightarrow> op_wf (retry_scheduled t summary n now op)"
  by (auto simp: op_wf_def retry_scheduled_def op_terminal_def op_in_flight_def
      CertOpInFlightStatuses_def)

lemma op_wf_lease_renewed:
  "op_wf op \<Longrightarrow> op_Status op = CertOpStatusRunning \<Longrightarrow> op_wf (lease_renewed exp now op)"
  by (auto simp: op_wf_def lease_renewed_def op_terminal_def op_in_flight_def
      CertOpInFlightStatuses_def)

lemma op_wf_txt: "op_wf op \<Longrightarrow> op_wf (txt_recorded rec now op) \<and> op_wf (txt_cleared now op)"
  by (auto simp: op_wf_def txt_recorded_def txt_cleared_def op_terminal_def op_in_flight_def)

lemma op_step_wf: "op_step ev op op' \<Longrightarrow> op_wf op \<Longrightarrow> op_wf op'"
  by (erule op_stepE) (auto simp: op_wf_claimed op_wf_failed op_wf_succeeded op_wf_retried
      op_wf_lease_renewed op_wf_txt)

lemma op_step_terminal:
  "op_step ev op op' \<Longrightarrow> op_terminal op \<Longrightarrow> \<exists>now. ev = ClearTXT now \<and> op' = txt_cleared now op"
  by (erule op_stepE)
    (auto simp: op_terminal_def claimableOperationFilter_def op_expired_def
      CertOpInFlightStatuses_def)

inductive op_trace :: "CertificateOperation \<Rightarrow> op_event list \<Rightarrow> CertificateOperation \<Rightarrow> bool" where
  Done: "op_trace op [] op"
| Step: "op_step ev op op' \<Longrightarrow> op_trace op' evs op'' \<Longrightarrow> op_trace op (ev # evs) op''"

lemma op_trace_identity: "op_trace op evs op' \<Longrightarrow> op_identity op' = op_identity op"
  by (induction rule: op_trace.induct) (auto dest: op_step_identity)

lemma op_trace_wf: "op_trace op evs op' \<Longrightarrow> op_wf op \<Longrightarrow> op_wf op'"
  by (induction rule: op_trace.induct) (auto dest: op_step_wf)

fun event_time :: "op_event \<Rightarrow> gotime" where
  "event_time (Claim p) = cp_Now p"
| "event_time (RenewLease owner exp now) = now"
| "event_time (RecordTXT owner rec now) = now"
| "event_time (Retry owner next summary fails now) = now"
| "event_time (Fail owner summary now) = now"
| "event_time (ClearTXT now) = now"
| "event_time (Expire now) = now"
| "event_time (Succeed owner clear warning now) = now"

fun event_owner :: "op_event \<Rightarrow> string option" where
  "event_owner (Claim p) = Some (cp_Owner p)"
| "event_owner (RenewLease owner exp now) = Some owner"
| "event_owner (RecordTXT owner rec now) = Some owner"
| "event_owner (Retry owner next summary fails now) = Some owner"
| "event_owner (Fail owner summary now) = Some owner"
| "event_owner (Succeed owner clear warning now) = Some owner"
| "event_owner _ = None"

text \<open>While a lease is valid, a step that is not its owner's only clears TXT records.\<close>

definition leased :: "string \<Rightarrow> gotime \<Rightarrow> gotime \<Rightarrow> CertificateOperation \<Rightarrow> bool" where
  "leased owner until deadline op \<longleftrightarrow>
     op_Status op = CertOpStatusRunning \<and> op_LeaseOwner op = owner \<and>
     op_LeaseExpiresAt op = Some until \<and> op_DeadlineAt op = Some deadline"

lemma leased_step:
  assumes "op_step ev op op'" and "leased owner until deadline op"
    and "event_time ev < until" "event_time ev < deadline" "event_owner ev \<noteq> Some owner"
  shows "(\<exists>now. ev = ClearTXT now) \<and> leased owner until deadline op'"
  using assms
  by (cases rule: op_stepE)
    (auto simp: leased_def claimableOperationFilter_def op_expired_def txt_cleared_def)

section \<open>The store as a whole\<close>

text \<open>Every call of the store that writes operations, with the time the method reads.\<close>

datatype op_call =
    CallCreate gotime string CertificateOperation
  | CallClaim CertificateOperationClaimParams
  | CallRenewLease string string gotime gotime
  | CallRecordTXT gotime string string DNSChallengeRecord
  | CallRetry gotime string string gotime string u32
  | CallFail gotime string string string
  | CallClearTXT gotime string
  | CallExpire gotime
  | CallSucceed bool gotime string string string

fun run_call :: "'c mongo \<Rightarrow> op_call \<Rightarrow> 'c db \<Rightarrow> 'c db" where
  "run_call M (CallCreate now uuid op) s = snd (CreateCertificateOperation M now uuid op s)"
| "run_call M (CallClaim p) s = snd (TryClaimCertificateOperation M p s)"
| "run_call M (CallRenewLease i owner exp now) s =
     snd (RenewCertificateOperationLease M i owner exp now s)"
| "run_call M (CallRecordTXT now i owner rec) s =
     snd (RecordCertificateOperationPendingTXT M now i owner rec s)"
| "run_call M (CallRetry now i owner next summary fails) s =
     snd (ScheduleCertificateOperationRetry M now i owner next summary fails s)"
| "run_call M (CallFail now i owner summary) s =
     snd (MarkCertificateOperationFailed M now i owner summary s)"
| "run_call M (CallClearTXT now i) s = snd (ClearCertificateOperationPendingTXT M now i s)"
| "run_call M (CallExpire now) s = snd (FailExpiredCertificateOperations M now s)"
| "run_call M (CallSucceed clear now i owner warning) s =
     snd (succeedOperation M clear now i owner warning s)"

fun call_event :: "op_call \<Rightarrow> (string \<times> op_event) option" where
  "call_event (CallCreate now uuid op) = None"
| "call_event (CallClaim p) = Some (cp_OpID p, Claim p)"
| "call_event (CallRenewLease i owner exp now) = Some (i, RenewLease owner exp now)"
| "call_event (CallRecordTXT now i owner rec) = Some (i, RecordTXT owner rec now)"
| "call_event (CallRetry now i owner next summary fails) =
     Some (i, Retry owner next summary fails now)"
| "call_event (CallFail now i owner summary) = Some (i, Fail owner summary now)"
| "call_event (CallClearTXT now i) = Some (i, ClearTXT now)"
| "call_event (CallExpire now) = None"
| "call_event (CallSucceed clear now i owner warning) =
     Some (i, Succeed owner clear warning now)"

text \<open>
  What a call may do to the operations: nothing, or one step of the operation it names, or,
  for the two calls that name none, insert the new operation or expire some of the overdue ones.
\<close>

definition call_effect ::
  "op_call \<Rightarrow> CertificateOperation multiset \<Rightarrow> CertificateOperation multiset \<Rightarrow> bool" where
  "call_effect c X Y \<longleftrightarrow>
     Y = X \<or>
     (case call_event c of
        Some (i, ev) \<Rightarrow> (\<exists>d d'. d \<in># X \<and> op_ID d = i \<and> op_step ev d d' \<and>
           Y = add_mset d' (X - {#d#}))
      | None \<Rightarrow>
          (case c of
             CallCreate now uuid op \<Rightarrow> Y = add_mset (created_op now uuid op) X
           | CallExpire now \<Rightarrow> (\<exists>A. A \<subseteq># filter_mset (op_expired now) X \<and>
               Y = image_mset (op_failed OperationTotalTimeoutSummary now) A + (X - A))
           | _ \<Rightarrow> False))"

locale op_store =
  ops: mongo_collection "certificateOperations M" docs certificateOperations_clash ok
  for M :: "'c mongo" and docs :: "'c \<Rightarrow> CertificateOperation multiset" and ok :: "'c \<Rightarrow> bool"

context op_store begin

abbreviation "op_docs s \<equiv> docs (st_certificateOperations s)"

abbreviation "op_ok s \<equiv> ok (st_certificateOperations s)"

lemma update_effect:
  assumes "op_ok s"
    and "on_certificateOperations (UpdateOne (certificateOperations M) P f) s = (r, s')"
    and "\<And>d. P d \<Longrightarrow> op_ID d = i \<and> op_step ev d (f d)"
  shows "op_ok s' \<and> (op_docs s' = op_docs s \<or> (\<exists>d d'. d \<in># op_docs s \<and> op_ID d = i \<and>
    op_step ev d d' \<and> op_docs s' = add_mset d' (op_docs s - {#d#})))"
proof -
  obtain c where c: "UpdateOne (certificateOperations M) P f (st_certificateOperations s) = (r, c)"
    "s' = s\<lparr>st_certificateOperations := c\<rparr>"
    using assms(2) by (auto simp: on_certificateOperations_eq_iff)
  from assms(1) c(1) show ?thesis
  proof (cases rule: ops.update_cases)
    case same
    then show ?thesis using ops.update_ok [OF assms(1) c(1)] c(2) by simp
  next
    case one
    then obtain d where "d \<in># op_docs s" "P d" "docs c = add_mset (f d) (op_docs s - {#d#})"
      by (rule replacedE)
    then show ?thesis using ops.update_ok [OF assms(1) c(1)] c(2) assms(3) by auto
  qed
qed

lemma update_effect_matched:
  assumes "op_ok s"
    and "\<And>d. P d \<Longrightarrow> op_ID d = i \<and> op_step ev d (f d)"
    and "matched_or e (on_certificateOperations (UpdateOne (certificateOperations M) P f) s) =
      (r, s')"
  shows "op_ok s' \<and> (op_docs s' = op_docs s \<or> (\<exists>d d'. d \<in># op_docs s \<and> op_ID d = i \<and>
    op_step ev d d' \<and> op_docs s' = add_mset d' (op_docs s - {#d#})))"
proof -
  obtain r' where "on_certificateOperations (UpdateOne (certificateOperations M) P f) s = (r', s')"
    using assms(3) by (auto simp: matched_or_eq_iff)
  from update_effect [OF assms(1) this assms(2)] show ?thesis .
qed

lemma heldBy_steps:
  "heldBy i owner d \<Longrightarrow> op_ID d = i \<and> op_step (RecordTXT owner rec now) d (txt_recorded rec now d)"
  "heldBy i owner d \<Longrightarrow> op_ID d = i \<and>
     op_step (Retry owner next summary fails now) d (retry_scheduled next summary fails now d)"
  "heldBy i owner d \<Longrightarrow> op_ID d = i \<and> op_step (Fail owner summary now) d (op_failed summary now d)"
  "heldBy i owner d \<Longrightarrow> op_ID d = i \<and>
     op_step (Succeed owner clear warning now) d (op_succeeded clear warning now d)"
  "heldBy i owner d \<and> (case op_LeaseExpiresAt d of None \<Rightarrow> False | Some t \<Rightarrow> now < t) \<Longrightarrow>
     op_ID d = i \<and> op_step (RenewLease owner exp now) d (lease_renewed exp now d)"
  by (auto simp: heldBy_def split: option.splits intro: op_step.intros)

lemma claim_effect:
  assumes "op_ok s" and "TryClaimCertificateOperation M p s = (r, s')"
  shows "op_ok s' \<and> call_effect (CallClaim p) (op_docs s) (op_docs s')"
proof -
  let ?P = "\<lambda>op. op_ID op = cp_OpID p \<and> claimableOperationFilter (cp_Now p) op"
  consider (same) "s' = s"
    | (upd) "on_certificateOperations (FindOneAndUpdate (certificateOperations M) ?P (claimed p)) s
        = (r, s')"
    using assms(2)
    by (auto simp: TryClaimCertificateOperation_def and_then_eq_iff split: if_splits)
  then show ?thesis
  proof cases
    case same
    with assms(1) show ?thesis by (simp add: call_effect_def)
  next
    case upd
    then obtain c where c: "FindOneAndUpdate (certificateOperations M) ?P (claimed p)
        (st_certificateOperations s) = (r, c)" "s' = s\<lparr>st_certificateOperations := c\<rparr>"
      by (auto simp: on_certificateOperations_eq_iff)
    note ok = ops.find_update_ok [OF assms(1) c(1)]
    from assms(1) c(1) show ?thesis
    proof (cases rule: ops.find_update_cases)
      case same
      with ok c(2) show ?thesis by (simp add: call_effect_def)
    next
      case one
      then obtain d where "d \<in># op_docs s" "?P d" "docs c = add_mset (claimed p d) (op_docs s - {#d#})"
        by (rule replacedE)
      with ok c(2) show ?thesis by (auto simp: call_effect_def intro: op_step.Claim)
    qed
  qed
qed

lemma expire_effect:
  assumes "op_ok s" and "FailExpiredCertificateOperations M now s = (r, s')"
  shows "op_ok s' \<and> call_effect (CallExpire now) (op_docs s) (op_docs s')"
proof -
  obtain c where c: "UpdateMany (certificateOperations M) (op_expired now)
      (op_failed OperationTotalTimeoutSummary now) (st_certificateOperations s) = (r, c)"
    "s' = s\<lparr>st_certificateOperations := c\<rparr>"
    using assms(2) by (auto simp: FailExpiredCertificateOperations_def on_certificateOperations_eq_iff)
  note ok = ops.many_ok [OF assms(1) c(1)]
  from ops.many_cases [OF assms(1) c(1)] obtain A where
    "A \<subseteq># filter_mset (op_expired now) (op_docs s)"
    "docs c = image_mset (op_failed OperationTotalTimeoutSummary now) A + (op_docs s - A)" .
  with ok c(2) show ?thesis by (auto simp: call_effect_def)
qed

lemma create_effect:
  assumes "op_ok s" and "CreateCertificateOperation M now uuid op s = (r, s')"
  shows "op_ok s' \<and> call_effect (CallCreate now uuid op) (op_docs s) (op_docs s')"
proof -
  obtain r' c where c: "InsertOne (certificateOperations M) (created_op now uuid op)
      (st_certificateOperations s) = (r', c)" "s' = s\<lparr>st_certificateOperations := c\<rparr>"
    using assms(2) by (auto simp: CreateCertificateOperation_def Let_def and_then_eq_iff
        on_certificateOperations_eq_iff)
  from ops.insert_ok [OF assms(1) c(1)] assms(1) c(1) show ?thesis
    by - (erule (1) ops.insert_cases, auto simp: call_effect_def c(2))
qed

lemma matched_call:
  assumes "op_ok s" and "call_event c = Some (i, ev)"
    and "run_call M c s =
      snd (matched_or e (on_certificateOperations (UpdateOne (certificateOperations M) P f) s))"
    and "\<And>d. P d \<Longrightarrow> op_ID d = i \<and> op_step ev d (f d)"
  shows "op_ok (run_call M c s) \<and> call_effect c (op_docs s) (op_docs (run_call M c s))"
  using update_effect_matched [OF assms(1,4) surjective_pairing, where e = e] assms(2,3)
  by (simp add: call_effect_def)

lemma clear_call:
  assumes "op_ok s"
  shows "op_ok (run_call M (CallClearTXT now i) s) \<and>
    call_effect (CallClearTXT now i) (op_docs s) (op_docs (run_call M (CallClearTXT now i) s))"
proof -
  obtain r s' where u: "on_certificateOperations (UpdateOne (certificateOperations M)
      (\<lambda>op. op_ID op = i) (txt_cleared now)) s = (r, s')" by fastforce
  then have "run_call M (CallClearTXT now i) s = s'"
    by (cases r) (simp_all add: ClearCertificateOperationPendingTXT_def)
  with update_effect [OF assms u, of i "ClearTXT now"] show ?thesis
    by (simp add: call_effect_def op_step.ClearTXT)
qed

lemma run_call_effect:
  assumes "op_ok s"
  shows "op_ok (run_call M c s) \<and> call_effect c (op_docs s) (op_docs (run_call M c s))"
proof (cases c)
  case (CallCreate now uuid op)
  then show ?thesis using create_effect [OF assms surjective_pairing] by simp
next
  case (CallClaim p)
  then show ?thesis using claim_effect [OF assms surjective_pairing] by simp
next
  case (CallExpire now)
  then show ?thesis using expire_effect [OF assms surjective_pairing] by simp
next
  case (CallClearTXT now i)
  then show ?thesis using clear_call [OF assms] by simp
next
  case (CallRenewLease i owner exp now)
  show ?thesis unfolding CallRenewLease
    by (rule matched_call [OF assms call_event.simps(3)],
        simp only: run_call.simps RenewCertificateOperationLease_def, rule heldBy_steps)
next
  case (CallRecordTXT now i owner rec)
  show ?thesis unfolding CallRecordTXT
    by (rule matched_call [OF assms call_event.simps(4)],
        simp only: run_call.simps RecordCertificateOperationPendingTXT_def, rule heldBy_steps)
next
  case (CallRetry now i owner nextAt summary fails)
  show ?thesis unfolding CallRetry
    by (rule matched_call [OF assms call_event.simps(5)],
        simp only: run_call.simps ScheduleCertificateOperationRetry_def, rule heldBy_steps)
next
  case (CallFail now i owner summary)
  show ?thesis unfolding CallFail
    by (rule matched_call [OF assms call_event.simps(6)],
        simp only: run_call.simps MarkCertificateOperationFailed_def, rule heldBy_steps)
next
  case (CallSucceed clear now i owner warning)
  show ?thesis unfolding CallSucceed
    by (rule matched_call [OF assms call_event.simps(9)],
        simp only: run_call.simps succeedOperation_def, rule heldBy_steps)
qed

text \<open>A claim that succeeds took the only lease of its certificate.\<close>

lemma claim_done:
  assumes "op_ok s" and "TryClaimCertificateOperation M p s = (Inr op, s')"
  shows "\<exists>d. d \<in># op_docs s \<and> op_ID d = cp_OpID p \<and> claimableOperationFilter (cp_Now p) d \<and>
    op = claimed p d \<and> op_docs s' = add_mset op (op_docs s - {#d#}) \<and>
    (\<forall>x \<in># op_docs s. op_ManagedCertificateID x = op_ManagedCertificateID op \<longrightarrow>
       \<not> runningLeaseHeldFilter (cp_Now p) x)"
proof -
  let ?P = "\<lambda>op. op_ID op = cp_OpID p \<and> claimableOperationFilter (cp_Now p) op"
  obtain target n c where
    t: "GetCertificateOperation M (cp_OpID p) s = Inr target" and
    n: "CountDocuments (certificateOperations M)
        (\<lambda>op. op_ManagedCertificateID op = op_ManagedCertificateID target \<and>
           op_ID op \<noteq> cp_OpID p \<and> runningLeaseHeldFilter (cp_Now p) op)
        (st_certificateOperations s) = Inr (n :: nat)" "n = 0" and
    c: "FindOneAndUpdate (certificateOperations M) ?P (claimed p)
        (st_certificateOperations s) = (Inr op, c)" "s' = s\<lparr>st_certificateOperations := c\<rparr>"
    using assms(2) by (auto simp: TryClaimCertificateOperation_def and_then_eq_iff
        on_certificateOperations_eq_iff split: if_splits)
  from ops.find_update_done [OF assms(1) c(1)] obtain d where
    d: "d \<in># op_docs s" "?P d" "op = claimed p d" "docs c = add_mset op (op_docs s - {#d#})"
    by auto
  have "target \<in># op_docs s" "op_ID target = cp_OpID p"
    using ops.find_one [OF assms(1)] t by (auto simp: GetCertificateOperation_def)
  with d(1,2) have "target = d"
    by (intro ops.unique_match [OF assms(1)]) (auto simp: certificateOperations_clash_def)
  then have others: "\<not> runningLeaseHeldFilter (cp_Now p) x"
    if "x \<in># op_docs s" "op_ManagedCertificateID x = op_ManagedCertificateID d"
      "op_ID x \<noteq> cp_OpID p" for x
    using ops.count [OF assms(1) n(1)] n(2) that by (auto simp: filter_mset_none)
  have self: "\<not> runningLeaseHeldFilter (cp_Now p) d"
    using d(2) by (auto simp: claimableOperationFilter_def runningLeaseHeldFilter_def
        split: option.splits)
  have only: "x = d" if "x \<in># op_docs s" "op_ID x = cp_OpID p" for x
    using that d(1,2) by (intro ops.unique_match [OF assms(1)])
      (auto simp: certificateOperations_clash_def)
  have cert: "op_ManagedCertificateID op = op_ManagedCertificateID d"
    by (simp add: d(3) claimed_def)
  have "\<forall>x \<in># op_docs s. op_ManagedCertificateID x = op_ManagedCertificateID op \<longrightarrow>
      \<not> runningLeaseHeldFilter (cp_Now p) x"
    unfolding cert using others only self by blast
  moreover have "op_docs s' = add_mset op (op_docs s - {#d#})" using d(4) c(2) by simp
  ultimately show ?thesis using d(1-3) by blast
qed

lemma in_flight_unique:
  assumes "op_ok s" "x \<in># op_docs s" "y \<in># op_docs s" "op_in_flight x" "op_in_flight y"
    and "op_ManagedCertificateID x = op_ManagedCertificateID y"
  shows "x = y"
  using ops.unique_match [OF assms(1-3)] assms(4-6) by (simp add: certificateOperations_clash_def)

lemma expire_done:
  assumes "op_ok s" and "FailExpiredCertificateOperations M now s = (Inr n, s')"
  shows "n = size (filter_mset (op_expired now) (op_docs s)) \<and> no_match (op_expired now) (op_docs s') \<and>
    filter_mset op_in_flight (op_docs s') = filter_mset (\<lambda>d. op_in_flight d \<and> \<not> op_expired now d) (op_docs s)"
proof -
  obtain c where c: "UpdateMany (certificateOperations M) (op_expired now)
      (op_failed OperationTotalTimeoutSummary now) (st_certificateOperations s) = (Inr n, c)"
    "s' = s\<lparr>st_certificateOperations := c\<rparr>"
    using assms(2) by (auto simp: FailExpiredCertificateOperations_def on_certificateOperations_eq_iff)
  note many = ops.many_done [OF assms(1) c(1)]
  let ?f = "op_failed OperationTotalTimeoutSummary now"
  have f: "\<not> op_in_flight (?f d)" "\<not> op_expired now (?f d)" for d
    by (simp_all add: op_failed_def op_in_flight_def op_expired_def CertOpInFlightStatuses_def)
  have eq: "op_docs s' = image_mset ?f (filter_mset (op_expired now) (op_docs s)) +
      filter_mset (\<lambda>d. \<not> op_expired now d) (op_docs s)"
    using many c(2) by simp
  have "filter_mset op_in_flight (image_mset ?f A) = {#}" for A
    by (auto simp: filter_mset_none f)
  then show ?thesis
    using many f unfolding eq no_match_def
    by (auto simp: filter_filter_mset conj_commute)
qed

end

text \<open>With a driver that works, an unleased claimable operation can be claimed.\<close>

locale reliable_op_store =
  ops: reliable_collection "certificateOperations M" docs certificateOperations_clash ok
  for M :: "'c mongo" and docs :: "'c \<Rightarrow> CertificateOperation multiset" and ok :: "'c \<Rightarrow> bool"

sublocale reliable_op_store \<subseteq> op_store by unfold_locales

context reliable_op_store begin

lemma claim_succeeds:
  assumes ok: "op_ok s" and d: "d \<in># op_docs s" "op_ID d = cp_OpID p"
    "claimableOperationFilter (cp_Now p) d"
    and free: "\<And>x. x \<in># op_docs s \<Longrightarrow> op_ManagedCertificateID x = op_ManagedCertificateID d \<Longrightarrow>
      \<not> runningLeaseHeldFilter (cp_Now p) x"
  shows "\<exists>op s'. TryClaimCertificateOperation M p s = (Inr op, s')"
proof -
  let ?P = "\<lambda>op. op_ID op = cp_OpID p \<and> claimableOperationFilter (cp_Now p) op"
  have flight: "op_in_flight d" using d(3)
    by (auto simp: claimableOperationFilter_def op_in_flight_def CertOpInFlightStatuses_def)
  have only: "x = d" if "x \<in># op_docs s" "op_ID x = cp_OpID p" for x
    using that d by (intro ops.unique_match [OF ok]) (auto simp: certificateOperations_clash_def)
  have get: "GetCertificateOperation M (cp_OpID p) s = Inr d"
  proof (cases "GetCertificateOperation M (cp_OpID p) s")
    case (Inl e)
    then have "no_match (\<lambda>op. op_ID op = cp_OpID p) (op_docs s)"
      using ops.find_none [OF ok] ops.find_total [OF ok] by (auto simp: GetCertificateOperation_def)
    with d show ?thesis by (auto simp: no_match_def)
  next
    case (Inr t)
    then have "t = d" using ops.find_one [OF ok] only by (auto simp: GetCertificateOperation_def)
    with Inr show ?thesis by simp
  qed
  have count: "CountDocuments (certificateOperations M)
      (\<lambda>op. op_ManagedCertificateID op = op_ManagedCertificateID d \<and>
         op_ID op \<noteq> cp_OpID p \<and> runningLeaseHeldFilter (cp_Now p) op)
      (st_certificateOperations s) = Inr 0"
    using ops.count_is [OF ok] free by (auto simp: filter_mset_none)
  obtain r c where u: "FindOneAndUpdate (certificateOperations M) ?P (claimed p)
      (st_certificateOperations s) = (r, c)" by fastforce
  have "\<exists>op. r = Inr op"
  proof (cases r)
    case (Inl e)
    note e = u [unfolded Inl]
    from ops.find_update_total [OF ok e] show ?thesis
    proof
      assume "IsNotFound e"
      with ops.find_update_none [OF ok e] d show ?thesis by (auto simp: no_match_def)
    next
      assume "IsDuplicateKeyError e"
      then obtain d' x where "d' \<in># op_docs s" "?P d'" "x \<in># op_docs s - {#d'#}"
        "certificateOperations_clash x (claimed p d')"
        using ops.find_update_duplicate [OF ok e] by auto
      moreover from this only have "d' = d" by blast
      ultimately have "certificateOperations_clash x d" "x \<in># op_docs s - {#d#}"
        using flight by (auto simp: certificateOperations_clash_def claimed_def op_in_flight_def)
      with pairwise_msetD [OF ops.unique [OF ok] d(1)] clash_sym(8) show ?thesis by blast
    qed
  qed blast
  with get count u show ?thesis
    by (auto simp: TryClaimCertificateOperation_def on_certificateOperations_def)
qed

end

section \<open>The operations under every interleaving of calls\<close>

fun run_calls :: "'c mongo \<Rightarrow> op_call list \<Rightarrow> 'c db \<Rightarrow> 'c db" where
  "run_calls M [] s = s"
| "run_calls M (c # cs) s = run_calls M cs (run_call M c s)"

text \<open>The operations that are submitted: pending and never attempted.\<close>

definition fresh_op :: "CertificateOperation \<Rightarrow> bool" where
  "fresh_op op \<longleftrightarrow> op_Status op = CertOpStatusPending \<and> op_LeaseOwner op = [] \<and>
     op_LeaseExpiresAt op = None \<and> op_FinishedAt op = None"

lemma created_op_wf: "fresh_op op \<Longrightarrow> op_wf (created_op now uuid op)"
  by (auto simp: fresh_op_def created_op_def Let_def op_wf_def op_in_flight_def op_terminal_def
      CertOpInFlightStatuses_def)

lemma call_effect_wf:
  assumes "call_effect c X Y" and X: "\<forall>d \<in># X. op_wf d"
    and "\<And>now uuid op. c = CallCreate now uuid op \<Longrightarrow> fresh_op op"
  shows "\<forall>d \<in># Y. op_wf d"
proof -
  consider "Y = X"
    | (step) d d' ev where "d \<in># X" "op_step ev d d'" "Y = add_mset d' (X - {#d#})"
    | (create) now uuid op where "c = CallCreate now uuid op" "Y = add_mset (created_op now uuid op) X"
    | (sweep) now A where "A \<subseteq># filter_mset (op_expired now) X"
        "Y = image_mset (op_failed OperationTotalTimeoutSummary now) A + (X - A)"
    using assms(1) by (auto simp: call_effect_def split: option.splits op_call.splits)
  then show ?thesis
  proof cases
    case step
    then have "op_wf d'" using X op_step_wf by blast
    with step(3) X show ?thesis by (auto dest: in_diffD)
  next
    case create
    with X assms(3) show ?thesis by (auto simp: created_op_wf)
  next
    case sweep
    then have "\<forall>d \<in># A. op_wf d" using X mset_subset_eqD by fastforce
    with sweep(2) X show ?thesis by (auto simp: op_wf_failed dest: in_diffD)
  qed (use X in simp)
qed

context op_store begin

lemma run_calls_invariant:
  assumes "op_ok s" and "\<forall>d \<in># op_docs s. op_wf d"
    and "\<And>now uuid op. CallCreate now uuid op \<in> set cs \<Longrightarrow> fresh_op op"
  shows "op_ok (run_calls M cs s) \<and> (\<forall>d \<in># op_docs (run_calls M cs s). op_wf d)"
  using assms
proof (induction cs arbitrary: s)
  case Nil
  then show ?case by simp
next
  case (Cons c cs)
  note eff = run_call_effect [OF Cons.prems(1), of c]
  have "\<forall>d \<in># op_docs (run_call M c s). op_wf d"
    using call_effect_wf [of c "op_docs s" "op_docs (run_call M c s)"] eff Cons.prems(2,3) by auto
  moreover have "\<And>now uuid op. CallCreate now uuid op \<in> set cs \<Longrightarrow> fresh_op op"
    using Cons.prems(3) by (meson list.set_intros(2))
  ultimately show ?case using Cons.IH [of "run_call M c s"] eff by simp
qed

end

interpretation mem_op_store: reliable_op_store mem_mongo "mem_docs un_DOp"
  "mem_ok certificateOperations_clash un_DOp"
  by unfold_locales

definition sample_op :: CertificateOperation where
  "sample_op = \<lparr>op_ID = ''cop_1'', op_ManagedCertificateID = ''mcert_1'', op_Type = CertOpTypeIssue,
     op_Status = CertOpStatusPending, op_AttemptCount = 0, op_ConsecutiveFailures = 0,
     op_ConfigSnapshot = \<lparr>is_Domains = [''example.com''], is_CertificateIssuerID = ''iss_1'',
       is_DNSProviderAccountID = ''dns_1'', is_KeyType = CertKeyTypeECP256\<rparr>,
     op_ErrorSummary = [], op_Warning = [], op_LeaseOwner = [], op_LeaseExpiresAt = None,
     op_PendingTXTRecords = [], op_TargetVersionID = [], op_RevokeReason = 0,
     op_StartedAt = None, op_FinishedAt = None, op_NextAttemptAt = None,
     op_DeadlineAt = Some 1000, op_CreatedAt = 0, op_UpdatedAt = 0\<rparr>"

definition sample_claim :: CertificateOperationClaimParams where
  "sample_claim = \<lparr>cp_OpID = ''cop_1'', cp_Owner = ''a'', cp_Now = 10, cp_LeaseExpires = 100\<rparr>"

definition sample_ops_db :: "CertificateOperation list \<Rightarrow> doc list db" where
  "sample_ops_db xs = empty_db\<lparr>st_certificateOperations := map DOp xs\<rparr>"

lemma sample_ops_db_view [simp]:
  "mem_docs un_DOp (st_certificateOperations (sample_ops_db xs)) = mset xs"
  by (simp add: sample_ops_db_def)

text \<open>
  C2: from a store without operations, whatever sequence of store calls the replicas make with
  operations submitted as pending, every operation stays well-formed (a lease exactly while it
  runs, a finish time exactly when it is terminal, a deadline always) and no certificate ever
  has two operations in flight.
\<close>

theorem op_calls_invariant:
  assumes "op_store M docs ok" and "ok (st_certificateOperations s)"
    and "docs (st_certificateOperations s) = {#}"
    and "\<And>now uuid op. CallCreate now uuid op \<in> set cs \<Longrightarrow> fresh_op op"
  defines "D \<equiv> docs (st_certificateOperations (run_calls M cs s))"
  shows "(\<forall>d \<in># D. op_wf d) \<and>
    (\<forall>x \<in># D. \<forall>y \<in># D. op_in_flight x \<and> op_in_flight y \<and>
       op_ManagedCertificateID x = op_ManagedCertificateID y \<longrightarrow> x = y)"
proof -
  have inv: "ok (st_certificateOperations (run_calls M cs s)) \<and> (\<forall>d \<in># D. op_wf d)"
    using op_store.run_calls_invariant [OF assms(1,2)] assms(3,4) unfolding D_def by auto
  with op_store.in_flight_unique [OF assms(1)] show ?thesis unfolding D_def by blast
qed

theorem op_calls_invariant_witness:
  "filter_mset (\<lambda>d. \<not> op_wf d) (mem_docs un_DOp (st_certificateOperations
      (run_calls mem_mongo [CallCreate 0 ''u'' sample_op, CallClaim sample_claim] (sample_ops_db [])))) = {#}"
proof -
  have "fresh_op op" if "CallCreate now uuid op \<in> set [CallCreate 0 ''u'' sample_op,
      CallClaim sample_claim]" for now uuid op
    using that by (simp add: fresh_op_def sample_op_def)
  then show ?thesis
    using op_calls_invariant [OF mem_op_store.op_store_axioms, of "sample_ops_db []"
        "[CallCreate 0 ''u'' sample_op, CallClaim sample_claim]"] by (simp add: filter_mset_none)
qed

text \<open>
  C3: every call of the store that writes operations is one step of the state machine of the
  operation it names, or changes nothing; only creation adds an operation and only the deadline
  sweep changes several, each by its Expire step.
\<close>

theorem store_call_refines_state_machine:
  assumes "op_store M docs ok" and "ok (st_certificateOperations s)"
  shows "ok (st_certificateOperations (run_call M c s)) \<and>
    call_effect c (docs (st_certificateOperations s)) (docs (st_certificateOperations (run_call M c s)))"
  by (rule op_store.run_call_effect [OF assms])

theorem store_call_refines_state_machine_witness:
  "call_effect (CallClaim sample_claim) {#sample_op#}
     (mem_docs un_DOp (st_certificateOperations
        (run_call mem_mongo (CallClaim sample_claim) (sample_ops_db [sample_op]))))"
  using store_call_refines_state_machine [OF mem_op_store.op_store_axioms,
      of "sample_ops_db [sample_op]" "CallClaim sample_claim"]
  by (simp add: pairwise_mset_add)



text \<open>
  A terminal operation is final: no sequence of steps changes its outcome, its error
  summary, its finish time or its attempt count; only its TXT records can still be cleared.
  And no step at all changes what an operation was created for.
\<close>

theorem terminal_is_final:
  assumes "op_trace op evs op'"
  shows "op_identity op' = op_identity op \<and>
    (op_terminal op \<longrightarrow>
       op' = op\<lparr>op_PendingTXTRecords := op_PendingTXTRecords op', op_UpdatedAt := op_UpdatedAt op'\<rparr> \<and>
       (op_PendingTXTRecords op' = op_PendingTXTRecords op \<or> op_PendingTXTRecords op' = []))"
  using assms
proof (induction rule: op_trace.induct)
  case (Done op)
  then show ?case by simp
next
  case (Step ev op op' evs op'')
  have "op_terminal op \<Longrightarrow> \<exists>now. op' = txt_cleared now op" using Step(1) op_step_terminal by blast
  then show ?case using Step.IH op_step_identity [OF Step(1)]
    by (auto simp: txt_cleared_def op_terminal_def)
qed

theorem terminal_is_final_witness:
  "op_identity (txt_cleared 9 (op_failed ''x'' 8 sample_op)) = op_identity (op_failed ''x'' 8 sample_op)"
proof -
  have "op_trace (op_failed ''x'' 8 sample_op) [ClearTXT 9] (txt_cleared 9 (op_failed ''x'' 8 sample_op))"
    by (rule op_trace.Step [OF op_step.ClearTXT op_trace.Done])
  from terminal_is_final [OF this] show ?thesis by simp
qed

text \<open>
  A claim that succeeds returns the stored operation: it was claimable, it is now running
  under the caller with one more attempt, and at the time of the claim no operation of the
  certificate had a valid lease.
\<close>

theorem claim_takes_the_only_lease:
  assumes "op_store M docs ok" and "ok (st_certificateOperations s)"
    and "TryClaimCertificateOperation M p s = (Inr op, s')"
  shows "op_Status op = CertOpStatusRunning \<and> op_LeaseOwner op = cp_Owner p \<and>
    op_LeaseExpiresAt op = Some (cp_LeaseExpires p) \<and>
    (\<exists>d \<in># docs (st_certificateOperations s). op_ID d = cp_OpID p \<and>
       claimableOperationFilter (cp_Now p) d \<and> op_AttemptCount op = op_AttemptCount d + 1 \<and>
       docs (st_certificateOperations s') = add_mset op (docs (st_certificateOperations s) - {#d#})) \<and>
    (\<forall>x \<in># docs (st_certificateOperations s).
       op_ManagedCertificateID x = op_ManagedCertificateID op \<longrightarrow>
       \<not> runningLeaseHeldFilter (cp_Now p) x)"
  using op_store.claim_done [OF assms] by (auto simp: claimed_def)

theorem claim_takes_the_only_lease_witness:
  "op_LeaseOwner (claimed sample_claim sample_op) = ''a''"
proof -
  have "TryClaimCertificateOperation mem_mongo sample_claim (sample_ops_db [sample_op]) =
      (Inr (claimed sample_claim sample_op), sample_ops_db [claimed sample_claim sample_op])"
    by (simp add: TryClaimCertificateOperation_def GetCertificateOperation_def mem_coll_def
        sample_ops_db_def on_certificateOperations_def update_first_def List.extract_def
        claimableOperationFilter_def sample_claim_def sample_op_def)
  from claim_takes_the_only_lease [OF mem_op_store.op_store_axioms _ this] show ?thesis
    by (simp add: sample_claim_def pairwise_mset_add)
qed

text \<open>
  No operation is stuck with a replica that died: with a working database, an operation
  whose lease or retry time has passed, on a certificate without another valid lease, can be
  claimed by any replica.
\<close>

theorem expired_lease_can_be_taken_over:
  assumes "reliable_op_store M docs ok" and "ok (st_certificateOperations s)"
    and "d \<in># docs (st_certificateOperations s)" "op_ID d = cp_OpID p"
    and "claimableOperationFilter (cp_Now p) d"
    and "\<forall>x \<in># docs (st_certificateOperations s).
      op_ManagedCertificateID x = op_ManagedCertificateID d \<longrightarrow> \<not> runningLeaseHeldFilter (cp_Now p) x"
  shows "\<exists>op s'. TryClaimCertificateOperation M p s = (Inr op, s') \<and>
    op_LeaseOwner op = cp_Owner p \<and> op_LeaseExpiresAt op = Some (cp_LeaseExpires p)"
proof -
  obtain op s' where c: "TryClaimCertificateOperation M p s = (Inr op, s')"
    using reliable_op_store.claim_succeeds [OF assms(1-5)] assms(6) by blast
  have "op_store M docs ok"
    using assms(1) by (simp add: reliable_op_store_def op_store_def reliable_collection_def)
  from op_store.claim_done [OF this assms(2) c] c show ?thesis by (auto simp: claimed_def)
qed

theorem expired_lease_can_be_taken_over_witness:
  "\<exists>op s'. TryClaimCertificateOperation mem_mongo (sample_claim\<lparr>cp_Now := 200, cp_Owner := ''b''\<rparr>)
     (sample_ops_db [claimed sample_claim sample_op]) = (Inr op, s') \<and> op_LeaseOwner op = ''b''"
  using expired_lease_can_be_taken_over [OF mem_op_store.reliable_op_store_axioms,
      of "sample_ops_db [claimed sample_claim sample_op]" "claimed sample_claim sample_op"
      "sample_claim\<lparr>cp_Now := 200, cp_Owner := ''b''\<rparr>"]
  by (auto simp: pairwise_mset_add claimed_def sample_claim_def sample_op_def
      claimableOperationFilter_def runningLeaseHeldFilter_def)

text \<open>
  The deadline sweep, when it returns, has failed exactly the in-flight operations whose
  deadline has passed: it returns their number, none is left in flight, and every other
  in-flight operation is untouched.
\<close>

theorem deadline_sweep_complete:
  assumes "op_store M docs ok" and "ok (st_certificateOperations s)"
    and "FailExpiredCertificateOperations M now s = (Inr n, s')"
  shows "n = size (filter_mset (op_expired now) (docs (st_certificateOperations s))) \<and>
    (\<forall>d \<in># docs (st_certificateOperations s'). \<not> op_expired now d) \<and>
    filter_mset op_in_flight (docs (st_certificateOperations s')) =
      filter_mset (\<lambda>d. op_in_flight d \<and> \<not> op_expired now d) (docs (st_certificateOperations s))"
  using op_store.expire_done [OF assms] by (simp add: no_match_def)

theorem deadline_sweep_complete_witness:
  "filter_mset (op_expired 2000) {#op_failed OperationTotalTimeoutSummary 2000 sample_op#} = {#}"
proof -
  have "FailExpiredCertificateOperations mem_mongo 2000 (sample_ops_db [sample_op]) =
      (Inr 1, sample_ops_db [op_failed OperationTotalTimeoutSummary 2000 sample_op])"
    by (simp add: FailExpiredCertificateOperations_def mem_coll_def sample_ops_db_def
        on_certificateOperations_def op_expired_def sample_op_def CertOpInFlightStatuses_def)
  from deadline_sweep_complete [OF mem_op_store.op_store_axioms _ this] show ?thesis
    by (simp add: pairwise_mset_add)
qed

end
