(* ===== verification/CertStore.thy ===== *)
theory CertStore
  imports OpStore Paging
begin

text \<open>
  The managed certificates of internal/store/managed_certificates.go: the container of the
  desired configuration and of the active and previous versions, and the guarded writes that
  rotate versions, revoke them and delete the container.
\<close>

section \<open>The methods\<close>

definition cert_newest_first :: "ManagedCertificate \<Rightarrow> ManagedCertificate \<Rightarrow> bool" where
  "cert_newest_first x y \<longleftrightarrow> mc_CreatedAt y \<le> mc_CreatedAt x"

definition cert_by_name :: "ManagedCertificate \<Rightarrow> ManagedCertificate \<Rightarrow> bool" where
  "cert_by_name x y \<longleftrightarrow> string_le (mc_Name x) (mc_Name y)"

definition ListManagedCertificates ::
  "'c mongo \<Rightarrow> int \<Rightarrow> string \<Rightarrow> 'c db \<Rightarrow> err + (ManagedCertificate list \<times> string)" where
  "ListManagedCertificates M limit pageToken s =
     findPage (managedCertificates M) (\<lambda>_. True) limit pageToken cert_newest_first
       (st_managedCertificates s)"

definition CreateManagedCertificate ::
  "'c mongo \<Rightarrow> gotime \<Rightarrow> string \<Rightarrow> ManagedCertificate \<Rightarrow> 'c db \<Rightarrow> (err + ManagedCertificate) \<times> 'c db" where
  "CreateManagedCertificate M now uuid cert s =
     (let cert = (if mc_ID cert = [] then cert\<lparr>mc_ID := ''mcert_'' @ uuid\<rparr> else cert);
          cert = cert\<lparr>mc_CreatedAt := now, mc_UpdatedAt := now\<rparr>
      in case on_managedCertificates (InsertOne (managedCertificates M) cert) s of
           (Inl e, s) \<Rightarrow>
             (Inl (if IsDuplicateKeyError e then StoreE ErrManagedCertificateNameTaken else e), s)
         | (Inr _, s) \<Rightarrow> (Inr cert, s))"

definition GetManagedCertificate ::
  "'c mongo \<Rightarrow> string \<Rightarrow> 'c db \<Rightarrow> err + ManagedCertificate" where
  "GetManagedCertificate M ident s =
     FindOne (managedCertificates M) (\<lambda>c. mc_ID c = ident) (st_managedCertificates s)"

definition ListManagedCertificatesByServer ::
  "'c mongo \<Rightarrow> string \<Rightarrow> 'c db \<Rightarrow> err + ManagedCertificate list" where
  "ListManagedCertificatesByServer M serverID s =
     (if serverID = [] then Inl (StoreE ErrInvalidServerIDs)
      else FindDocs (managedCertificates M) (\<lambda>c. serverID \<in> set (mc_ServerIDs c)) cert_by_name 0 None
             (st_managedCertificates s))"

definition ListAutoRenewManagedCertificates ::
  "'c mongo \<Rightarrow> 'c db \<Rightarrow> err + ManagedCertificate list" where
  "ListAutoRenewManagedCertificates M s =
     FindDocs (managedCertificates M) (\<lambda>c. mc_AutoRenewEnabled c \<and> mc_ActiveVersion c \<noteq> None)
       cert_by_name 0 None (st_managedCertificates s)"

definition managedCertificateUpdateDocument ::
  "ManagedCertificateUpdate \<Rightarrow> gotime \<Rightarrow> ManagedCertificate \<Rightarrow> ManagedCertificate" where
  "managedCertificateUpdateDocument update now cert = cert\<lparr>
     mc_Name := mu_Name update,
     mc_Domains := mu_Domains update,
     mc_CertificateIssuerID := mu_CertificateIssuerID update,
     mc_DNSProviderAccountID := mu_DNSProviderAccountID update,
     mc_KeyType := mu_KeyType update,
     mc_AutoRenewEnabled := mu_AutoRenewEnabled update,
     mc_RenewBeforeDays := mu_RenewBeforeDays update,
     mc_UpdatedAt := now,
     mc_NotifyGroupIDs := mu_NotifyGroupIDs update,
     mc_ServerIDs := mu_ServerIDs update\<rparr>"

definition UpdateManagedCertificate ::
  "'c mongo \<Rightarrow> gotime \<Rightarrow> string \<Rightarrow> ManagedCertificateUpdate \<Rightarrow> 'c db \<Rightarrow>
    (err + ManagedCertificate) \<times> 'c db" where
  "UpdateManagedCertificate M now ident update s =
     (case on_managedCertificates (FindOneAndUpdate (managedCertificates M) (\<lambda>c. mc_ID c = ident)
             (managedCertificateUpdateDocument update now)) s of
        (Inl e, s) \<Rightarrow>
          (Inl (if IsDuplicateKeyError e then StoreE ErrManagedCertificateNameTaken else e), s)
      | (Inr cert, s) \<Rightarrow> (Inr cert, s))"

definition active_id_is :: "string \<Rightarrow> ManagedCertificate \<Rightarrow> bool" where
  "active_id_is versionID c \<longleftrightarrow>
     (case mc_ActiveVersion c of None \<Rightarrow> False | Some v \<Rightarrow> cv_ID v = versionID)"

definition previous_id_is :: "string \<Rightarrow> ManagedCertificate \<Rightarrow> bool" where
  "previous_id_is versionID c \<longleftrightarrow>
     (case mc_PreviousVersion c of None \<Rightarrow> False | Some v \<Rightarrow> cv_ID v = versionID)"

definition ActivateFirstIssueVersion ::
  "'c mongo \<Rightarrow> gotime \<Rightarrow> string \<Rightarrow> CertificateVersion \<Rightarrow> string \<Rightarrow> string \<Rightarrow> string \<Rightarrow> 'c db \<Rightarrow>
    (err + unit) \<times> 'c db" where
  "ActivateFirstIssueVersion M now managedCertID version opID leaseOwner warning s =
     and_then (countHeld M opID leaseOwner s, s) (\<lambda>held s.
     if held = 0 then (Inl (StoreE ErrCertificateOperationConflict), s)
     else and_then (matched_or (StoreE ErrActiveVersionConflict)
       (on_managedCertificates (UpdateOne (managedCertificates M)
          (\<lambda>c. mc_ID c = managedCertID \<and> mc_ActiveVersion c = None)
          (\<lambda>c. c\<lparr>mc_ActiveVersion := Some version, mc_UpdatedAt := now\<rparr>)) s)) (\<lambda>_ s.
     succeedOperation M True now opID leaseOwner warning s))"

definition rotated ::
  "CertificateVersion \<Rightarrow> CertificateVersion \<Rightarrow> gotime \<Rightarrow> ManagedCertificate \<Rightarrow> ManagedCertificate" where
  "rotated version previous now c =
     c\<lparr>mc_ActiveVersion := Some version, mc_PreviousVersion := Some previous, mc_UpdatedAt := now\<rparr>"

definition ActivateSubsequentIssueVersion ::
  "'c mongo \<Rightarrow> gotime \<Rightarrow> string \<Rightarrow> CertificateVersion \<Rightarrow> string \<Rightarrow> string \<Rightarrow> string \<Rightarrow> string \<Rightarrow> 'c db \<Rightarrow>
    (err + unit) \<times> 'c db" where
  "ActivateSubsequentIssueVersion M now managedCertID version expectedActiveID opID leaseOwner warning s =
     and_then (countHeld M opID leaseOwner s, s) (\<lambda>held s.
     if held = 0 then (Inl (StoreE ErrCertificateOperationConflict), s)
     else and_then (GetManagedCertificate M managedCertID s, s) (\<lambda>cert s.
     case mc_ActiveVersion cert of
       None \<Rightarrow> (Inl (StoreE ErrActiveVersionConflict), s)
     | Some previous \<Rightarrow>
         if cv_ID previous \<noteq> expectedActiveID then (Inl (StoreE ErrActiveVersionConflict), s)
         else and_then (matched_or (StoreE ErrActiveVersionConflict)
           (on_managedCertificates (UpdateOne (managedCertificates M)
              (\<lambda>c. mc_ID c = managedCertID \<and> active_id_is expectedActiveID c)
              (rotated version previous now)) s)) (\<lambda>_ s.
         succeedOperation M True now opID leaseOwner warning s)))"

text \<open>\<open>previous_version.id = versionID\<close> and \<open>previous_version.revoked_at\<close> does not exist.\<close>

definition previous_unrevoked :: "string \<Rightarrow> ManagedCertificate \<Rightarrow> bool" where
  "previous_unrevoked versionID c \<longleftrightarrow> previous_id_is versionID c \<and>
     (case mc_PreviousVersion c of None \<Rightarrow> True | Some v \<Rightarrow> cv_RevokedAt v = None)"

definition ActivatePreviousVersion ::
  "'c mongo \<Rightarrow> gotime \<Rightarrow> string \<Rightarrow> string \<Rightarrow> 'c db \<Rightarrow> (err + unit) \<times> 'c db" where
  "ActivatePreviousVersion M now managedCertID versionID s =
     and_then (GetManagedCertificate M managedCertID s, s) (\<lambda>cert s.
     case mc_PreviousVersion cert of
       None \<Rightarrow> (Inl (StoreE ErrVersionNotFound), s)
     | Some newActive \<Rightarrow>
         if cv_ID newActive \<noteq> versionID then (Inl (StoreE ErrVersionNotFound), s)
         else if cv_RevokedAt newActive \<noteq> None then (Inl (StoreE ErrVersionRevoked), s)
         else matched_or (StoreE ErrActiveVersionConflict)
           (on_managedCertificates (UpdateOne (managedCertificates M)
              (\<lambda>c. mc_ID c = managedCertID \<and> previous_unrevoked versionID c)
              (\<lambda>c. c\<lparr>mc_ActiveVersion := Some newActive,
                      mc_PreviousVersion := mc_ActiveVersion cert,
                      mc_UpdatedAt := now\<rparr>)) s))"

datatype version_slot = active_version | previous_version

fun slot_version :: "version_slot \<Rightarrow> ManagedCertificate \<Rightarrow> CertificateVersion option" where
  "slot_version active_version c = mc_ActiveVersion c"
| "slot_version previous_version c = mc_PreviousVersion c"

fun slot_update ::
  "version_slot \<Rightarrow> (CertificateVersion \<Rightarrow> CertificateVersion) \<Rightarrow> ManagedCertificate \<Rightarrow> ManagedCertificate" where
  "slot_update active_version f c = c\<lparr>mc_ActiveVersion := map_option f (mc_ActiveVersion c)\<rparr>"
| "slot_update previous_version f c = c\<lparr>mc_PreviousVersion := map_option f (mc_PreviousVersion c)\<rparr>"

definition slot_id_is :: "version_slot \<Rightarrow> string \<Rightarrow> ManagedCertificate \<Rightarrow> bool" where
  "slot_id_is slot versionID c \<longleftrightarrow>
     (case slot_version slot c of None \<Rightarrow> False | Some v \<Rightarrow> cv_ID v = versionID)"

definition slot_unrevoked :: "version_slot \<Rightarrow> string \<Rightarrow> ManagedCertificate \<Rightarrow> bool" where
  "slot_unrevoked slot versionID c \<longleftrightarrow> slot_id_is slot versionID c \<and>
     (case slot_version slot c of None \<Rightarrow> True | Some v \<Rightarrow> cv_RevokedAt v = None)"

definition versionSlotField :: "string \<Rightarrow> ManagedCertificate \<Rightarrow> err + version_slot" where
  "versionSlotField versionID cert =
     (if active_id_is versionID cert then Inr active_version
      else if previous_id_is versionID cert then Inr previous_version
      else Inl (StoreE ErrVersionNotFound))"

definition MarkVersionRevokePending ::
  "'c mongo \<Rightarrow> gotime \<Rightarrow> string \<Rightarrow> string \<Rightarrow> 'c db \<Rightarrow> (err + unit) \<times> 'c db" where
  "MarkVersionRevokePending M now managedCertID versionID s =
     and_then (GetManagedCertificate M managedCertID s, s) (\<lambda>cert s.
     and_then (versionSlotField versionID cert, s) (\<lambda>slot s.
     case slot_version slot cert of
       None \<Rightarrow> (Inl (StoreE ErrVersionNotFound), s)
     | Some v \<Rightarrow>
         if cv_RevokedAt v \<noteq> None then (Inl (StoreE ErrVersionRevoked), s)
         else if cv_RevokePending v then (Inl (StoreE ErrVersionRevokePending), s)
         else matched_or (StoreE ErrActiveVersionConflict)
           (on_managedCertificates (UpdateOne (managedCertificates M)
              (\<lambda>c. mc_ID c = managedCertID \<and> slot_unrevoked slot versionID c)
              (\<lambda>c. (slot_update slot (\<lambda>v. v\<lparr>cv_RevokePending := True\<rparr>) c)\<lparr>mc_UpdatedAt := now\<rparr>)) s)))"

definition ClearVersionRevokePending ::
  "'c mongo \<Rightarrow> gotime \<Rightarrow> string \<Rightarrow> string \<Rightarrow> 'c db \<Rightarrow> (err + unit) \<times> 'c db" where
  "ClearVersionRevokePending M now managedCertID versionID s =
     and_then (GetManagedCertificate M managedCertID s, s) (\<lambda>cert s.
     and_then (versionSlotField versionID cert, s) (\<lambda>slot s.
     and_then (on_managedCertificates (UpdateOne (managedCertificates M)
         (\<lambda>c. mc_ID c = managedCertID \<and> slot_id_is slot versionID c)
         (\<lambda>c. (slot_update slot (\<lambda>v. v\<lparr>cv_RevokePending := False\<rparr>) c)\<lparr>mc_UpdatedAt := now\<rparr>)) s)
       (\<lambda>_ s. (Inr (), s))))"

definition CompleteRevokeVersion ::
  "'c mongo \<Rightarrow> gotime \<Rightarrow> string \<Rightarrow> string \<Rightarrow> string \<Rightarrow> string \<Rightarrow> gotime \<Rightarrow> 'c db \<Rightarrow>
    (err + unit) \<times> 'c db" where
  "CompleteRevokeVersion M now managedCertID versionID opID leaseOwner revokedAt s =
     and_then (countHeld M opID leaseOwner s, s) (\<lambda>held s.
     if held = 0 then (Inl (StoreE ErrCertificateOperationConflict), s)
     else and_then (GetManagedCertificate M managedCertID s, s) (\<lambda>cert s.
     and_then (versionSlotField versionID cert, s) (\<lambda>slot s.
     and_then (matched_or (StoreE ErrActiveVersionConflict)
       (on_managedCertificates (UpdateOne (managedCertificates M)
          (\<lambda>c. mc_ID c = managedCertID \<and> slot_id_is slot versionID c)
          (\<lambda>c. (slot_update slot (\<lambda>v. v\<lparr>cv_RevokedAt := Some revokedAt, cv_RevokePending := False\<rparr>) c)
             \<lparr>mc_UpdatedAt := now\<rparr>)) s)) (\<lambda>_ s.
     succeedOperation M False now opID leaseOwner [] s))))"

text \<open>\<open>DeletedCount == 0\<close> is reported as \<open>mongo.ErrNoDocuments\<close>.\<close>

definition DeleteManagedCertificate :: "'c mongo \<Rightarrow> string \<Rightarrow> 'c db \<Rightarrow> (err + unit) \<times> 'c db" where
  "DeleteManagedCertificate M ident s =
     and_then (GetManagedCertificate M ident s, s) (\<lambda>cert s.
     if mc_ServerIDs cert \<noteq> [] then (Inl (StoreE ErrManagedCertificateHasServerAssignments), s)
     else and_then (HasRunningCertificateOperation M ident s, s) (\<lambda>running s.
     if running then (Inl (StoreE ErrManagedCertificateOperationInFlight), s)
     else and_then (on_certificateOperations (DeleteMany (certificateOperations M)
         (\<lambda>op. op_ManagedCertificateID op = ident)) s) (\<lambda>_ s.
     matched_or ErrNoDocuments
       (on_managedCertificates (DeleteOne (managedCertificates M) (\<lambda>c. mc_ID c = ident)) s))))"

definition version_refers :: "(IssueConfigSnapshot \<Rightarrow> string) \<Rightarrow> string \<Rightarrow> CertificateVersion option \<Rightarrow> bool" where
  "version_refers field i v \<longleftrightarrow>
     (case v of None \<Rightarrow> False | Some v \<Rightarrow> field (cv_ConfigSnapshot v) = i)"

definition managedCertReferencesIssuerFilter :: "string \<Rightarrow> ManagedCertificate \<Rightarrow> bool" where
  "managedCertReferencesIssuerFilter issuerID c \<longleftrightarrow>
     mc_CertificateIssuerID c = issuerID \<or>
     version_refers is_CertificateIssuerID issuerID (mc_ActiveVersion c) \<or>
     (case mc_ActiveVersion c of None \<Rightarrow> False | Some v \<Rightarrow> cv_CertificateIssuerID v = issuerID) \<or>
     version_refers is_CertificateIssuerID issuerID (mc_PreviousVersion c) \<or>
     (case mc_PreviousVersion c of None \<Rightarrow> False | Some v \<Rightarrow> cv_CertificateIssuerID v = issuerID)"

definition managedCertReferencesDNSFilter :: "string \<Rightarrow> ManagedCertificate \<Rightarrow> bool" where
  "managedCertReferencesDNSFilter dnsID c \<longleftrightarrow>
     mc_DNSProviderAccountID c = dnsID \<or>
     version_refers is_DNSProviderAccountID dnsID (mc_ActiveVersion c) \<or>
     version_refers is_DNSProviderAccountID dnsID (mc_PreviousVersion c)"

definition CountManagedCertificatesReferencingIssuer ::
  "'c mongo \<Rightarrow> string \<Rightarrow> 'c db \<Rightarrow> err + nat" where
  "CountManagedCertificatesReferencingIssuer M issuerID s =
     CountDocuments (managedCertificates M) (managedCertReferencesIssuerFilter issuerID)
       (st_managedCertificates s)"

definition CountManagedCertificatesReferencingDNSAccount ::
  "'c mongo \<Rightarrow> string \<Rightarrow> 'c db \<Rightarrow> err + nat" where
  "CountManagedCertificatesReferencingDNSAccount M dnsID s =
     CountDocuments (managedCertificates M) (managedCertReferencesDNSFilter dnsID)
       (st_managedCertificates s)"

fun uniqueStrings_from :: "string set \<Rightarrow> string list \<Rightarrow> string list" where
  "uniqueStrings_from seen [] = []"
| "uniqueStrings_from seen (x # xs) =
     (if x \<in> seen then uniqueStrings_from seen xs
      else x # uniqueStrings_from (insert x seen) xs)"

definition uniqueStrings :: "string list \<Rightarrow> string list" where
  "uniqueStrings xs = uniqueStrings_from {} xs"

definition validateServerIDs :: "'c mongo \<Rightarrow> string list \<Rightarrow> 'c db \<Rightarrow> err + unit" where
  "validateServerIDs M ids s =
     (if ids = [] then Inr ()
      else let distinct_ids = uniqueStrings ids in
        if [] \<in> set distinct_ids then Inl (StoreE ErrInvalidServerIDs)
        else case CountDocuments (servers M) (\<lambda>x. srv_ID x \<in> set distinct_ids) (st_servers s) of
               Inl e \<Rightarrow> Inl e
             | Inr n \<Rightarrow> if n \<noteq> length distinct_ids then Inl (StoreE ErrInvalidServerIDs) else Inr ())"

lemma uniqueStrings_from_set:
  "set (uniqueStrings_from seen xs) = set xs - seen \<and> distinct (uniqueStrings_from seen xs)"
  by (induction xs arbitrary: seen) auto

lemma uniqueStrings_set [simp]: "set (uniqueStrings xs) = set xs" "distinct (uniqueStrings xs)"
  using uniqueStrings_from_set [of "{}" xs] by (simp_all add: uniqueStrings_def)

lemma slot_after_versionSlotField:
  "versionSlotField versionID cert = Inr slot \<Longrightarrow>
     \<exists>v. slot_version slot cert = Some v \<and> cv_ID v = versionID"
  by (auto simp: versionSlotField_def active_id_is_def previous_id_is_def
      split: if_splits option.splits)

section \<open>Certificates and operations together\<close>

locale cert_store =
  op_store M odocs ook +
  certs: mongo_collection "managedCertificates M" cdocs managedCertificates_clash cok
  for M :: "'c mongo" and odocs :: "'c \<Rightarrow> CertificateOperation multiset" and ook :: "'c \<Rightarrow> bool"
    and cdocs :: "'c \<Rightarrow> ManagedCertificate multiset" and cok :: "'c \<Rightarrow> bool"

context cert_store begin

abbreviation "cert_docs s \<equiv> cdocs (st_managedCertificates s)"

abbreviation "db_ok s \<equiv> ook (st_certificateOperations s) \<and> cok (st_managedCertificates s)"

lemma cert_unique:
  "db_ok s \<Longrightarrow> x \<in># cert_docs s \<Longrightarrow> y \<in># cert_docs s \<Longrightarrow> mc_ID x = mc_ID y \<Longrightarrow> x = y"
  by (rule certs.unique_match) (auto simp: managedCertificates_clash_def)

lemma get_cert:
  "db_ok s \<Longrightarrow> GetManagedCertificate M i s = Inr cert \<Longrightarrow> cert \<in># cert_docs s \<and> mc_ID cert = i"
  using certs.find_one by (auto simp: GetManagedCertificate_def)

lemma op_unique:
  "db_ok s \<Longrightarrow> x \<in># odocs (st_certificateOperations s) \<Longrightarrow> y \<in># odocs (st_certificateOperations s) \<Longrightarrow>
     op_ID x = op_ID y \<Longrightarrow> x = y"
  by (rule ops.unique_match) (auto simp: certificateOperations_clash_def)

text \<open>A matched update of the certificate \<open>i\<close> rewrites that certificate only.\<close>

lemma cert_update_done:
  assumes ok: "db_ok s"
    and upd: "matched_or e (on_managedCertificates (UpdateOne (managedCertificates M) P f) s) = (Inr u, s')"
  shows "\<exists>d. d \<in># cert_docs s \<and> P d \<and> cert_docs s' = add_mset (f d) (cert_docs s - {#d#}) \<and>
    db_ok s' \<and> st_certificateOperations s' = st_certificateOperations s"
proof -
  obtain n c where c: "UpdateOne (managedCertificates M) P f (st_managedCertificates s) = (Inr n, c)"
    "n \<noteq> 0" "s' = s\<lparr>st_managedCertificates := c\<rparr>"
    using upd by (auto simp: matched_or_eq_iff on_managedCertificates_eq_iff)
  have "replaced P f (cert_docs s) (cdocs c)"
    using certs.update_done [OF _ c(1)] ok c(2) by simp
  then obtain d where "d \<in># cert_docs s" "P d" "cdocs c = add_mset (f d) (cert_docs s - {#d#})"
    by (rule replacedE)
  with c(3) ok certs.update_ok [OF _ c(1)] show ?thesis by auto
qed

lemma succeed_done:
  assumes ok: "db_ok s" and suc: "succeedOperation M clear now opID owner warning s = (Inr u, s')"
  shows "\<exists>d. d \<in># op_docs s \<and> heldBy opID owner d \<and>
    op_docs s' = add_mset (op_succeeded clear warning now d) (op_docs s - {#d#}) \<and>
    db_ok s' \<and> st_managedCertificates s' = st_managedCertificates s"
proof -
  obtain n c where c: "UpdateOne (certificateOperations M) (heldBy opID owner)
      (op_succeeded clear warning now) (st_certificateOperations s) = (Inr n, c)"
    "n \<noteq> 0" "s' = s\<lparr>st_certificateOperations := c\<rparr>"
    using suc by (auto simp: succeedOperation_def matched_or_eq_iff on_certificateOperations_eq_iff)
  have "replaced (heldBy opID owner) (op_succeeded clear warning now) (op_docs s) (odocs c)"
    using ops.update_done [OF _ c(1)] ok c(2) by simp
  then obtain d where "d \<in># op_docs s" "heldBy opID owner d"
    "odocs c = add_mset (op_succeeded clear warning now d) (op_docs s - {#d#})"
    by (rule replacedE)
  with c(3) ok ops.update_ok [OF _ c(1)] show ?thesis by auto
qed

lemma held_none:
  "db_ok s \<Longrightarrow> countHeld M opID owner s = Inr 0 \<Longrightarrow> no_match (heldBy opID owner) (op_docs s)"
  using ops.count [of "st_certificateOperations s" "heldBy opID owner" 0]
  by (auto simp: countHeld_def no_match_def filter_mset_none)

lemma activate_subsequent_done:
  assumes ok: "db_ok s"
    and act: "ActivateSubsequentIssueVersion M now i version expected opID owner warning s = (Inr u, s')"
  shows "\<exists>cert previous op. cert \<in># cert_docs s \<and> mc_ID cert = i \<and>
    mc_ActiveVersion cert = Some previous \<and> cv_ID previous = expected \<and>
    op \<in># op_docs s \<and> heldBy opID owner op \<and>
    cert_docs s' = add_mset (rotated version previous now cert) (cert_docs s - {#cert#}) \<and>
    op_docs s' = add_mset (op_succeeded True warning now op) (op_docs s - {#op#}) \<and> db_ok s'"
proof -
  obtain cert previous s1 where
    g: "GetManagedCertificate M i s = Inr cert" "mc_ActiveVersion cert = Some previous"
      "cv_ID previous = expected" and
    m: "matched_or (StoreE ErrActiveVersionConflict)
        (on_managedCertificates (UpdateOne (managedCertificates M)
           (\<lambda>c. mc_ID c = i \<and> active_id_is expected c) (rotated version previous now)) s) = (Inr (), s1)" and
    suc: "succeedOperation M True now opID owner warning s1 = (Inr u, s')"
  proof -
    obtain cert where "GetManagedCertificate M i s = Inr cert"
      using act by (auto simp: ActivateSubsequentIssueVersion_def and_then_eq_iff split: if_splits)
    moreover from this act obtain previous where "mc_ActiveVersion cert = Some previous"
      by (cases "mc_ActiveVersion cert")
        (auto simp: ActivateSubsequentIssueVersion_def and_then_eq_iff split: if_splits)
    ultimately show ?thesis
      using act that
      by (auto simp: ActivateSubsequentIssueVersion_def and_then_eq_iff split: if_splits)
  qed
  from cert_update_done [OF ok m] obtain d where d: "d \<in># cert_docs s" "mc_ID d = i"
    "cert_docs s1 = add_mset (rotated version previous now d) (cert_docs s - {#d#})" "db_ok s1"
    "st_certificateOperations s1 = st_certificateOperations s" by blast
  have "d = cert" using cert_unique [OF ok] get_cert [OF ok g(1)] d(1,2) by blast
  moreover from succeed_done [OF d(4) suc] obtain op where "op \<in># op_docs s1"
    "heldBy opID owner op"
    "op_docs s' = add_mset (op_succeeded True warning now op) (op_docs s1 - {#op#})"
    "db_ok s'" "st_managedCertificates s' = st_managedCertificates s1" by blast
  ultimately show ?thesis using d g
    by (intro exI [of _ cert] exI [of _ previous] exI [of _ op]) simp
qed

lemma activate_first_done:
  assumes ok: "db_ok s"
    and act: "ActivateFirstIssueVersion M now i version opID owner warning s = (Inr u, s')"
  shows "\<exists>cert op. cert \<in># cert_docs s \<and> mc_ID cert = i \<and> mc_ActiveVersion cert = None \<and>
    op \<in># op_docs s \<and> heldBy opID owner op \<and>
    cert_docs s' = add_mset (cert\<lparr>mc_ActiveVersion := Some version, mc_UpdatedAt := now\<rparr>)
      (cert_docs s - {#cert#}) \<and>
    op_docs s' = add_mset (op_succeeded True warning now op) (op_docs s - {#op#}) \<and> db_ok s'"
proof -
  obtain s1 where
    m: "matched_or (StoreE ErrActiveVersionConflict)
        (on_managedCertificates (UpdateOne (managedCertificates M)
           (\<lambda>c. mc_ID c = i \<and> mc_ActiveVersion c = None)
           (\<lambda>c. c\<lparr>mc_ActiveVersion := Some version, mc_UpdatedAt := now\<rparr>)) s) = (Inr (), s1)" and
    suc: "succeedOperation M True now opID owner warning s1 = (Inr u, s')"
    using act by (auto simp: ActivateFirstIssueVersion_def and_then_eq_iff split: if_splits)
  from cert_update_done [OF ok m] obtain d where d: "d \<in># cert_docs s" "mc_ID d = i"
    "mc_ActiveVersion d = None"
    "cert_docs s1 = add_mset (d\<lparr>mc_ActiveVersion := Some version, mc_UpdatedAt := now\<rparr>)
       (cert_docs s - {#d#})" "db_ok s1"
    "st_certificateOperations s1 = st_certificateOperations s" by blast
  from succeed_done [OF d(5) suc] obtain op where "op \<in># op_docs s1" "heldBy opID owner op"
    "op_docs s' = add_mset (op_succeeded True warning now op) (op_docs s1 - {#op#})"
    "db_ok s'" "st_managedCertificates s' = st_managedCertificates s1" by blast
  with d show ?thesis by (intro exI [of _ d] exI [of _ op]) simp
qed

lemma activate_previous_done:
  assumes ok: "db_ok s" and act: "ActivatePreviousVersion M now i versionID s = (Inr u, s')"
  shows "\<exists>cert v. cert \<in># cert_docs s \<and> mc_ID cert = i \<and> mc_PreviousVersion cert = Some v \<and>
    cv_ID v = versionID \<and> cv_RevokedAt v = None \<and>
    cert_docs s' = add_mset (cert\<lparr>mc_ActiveVersion := Some v,
      mc_PreviousVersion := mc_ActiveVersion cert, mc_UpdatedAt := now\<rparr>) (cert_docs s - {#cert#}) \<and>
    st_certificateOperations s' = st_certificateOperations s"
proof -
  obtain cert v where
    g: "GetManagedCertificate M i s = Inr cert" "mc_PreviousVersion cert = Some v" "cv_ID v = versionID"
      "cv_RevokedAt v = None" and
    m: "matched_or (StoreE ErrActiveVersionConflict)
        (on_managedCertificates (UpdateOne (managedCertificates M)
           (\<lambda>c. mc_ID c = i \<and> previous_unrevoked versionID c)
           (\<lambda>c. c\<lparr>mc_ActiveVersion := Some v, mc_PreviousVersion := mc_ActiveVersion cert,
                   mc_UpdatedAt := now\<rparr>)) s) = (Inr u, s')"
  proof -
    obtain cert where "GetManagedCertificate M i s = Inr cert"
      using act by (auto simp: ActivatePreviousVersion_def and_then_eq_iff)
    moreover from this act obtain v where "mc_PreviousVersion cert = Some v"
      by (cases "mc_PreviousVersion cert") (auto simp: ActivatePreviousVersion_def)
    ultimately show ?thesis
      using act that by (auto simp: ActivatePreviousVersion_def split: if_splits)
  qed
  from cert_update_done [OF ok m] obtain d where d: "d \<in># cert_docs s" "mc_ID d = i"
    "cert_docs s' = add_mset (d\<lparr>mc_ActiveVersion := Some v, mc_PreviousVersion := mc_ActiveVersion cert,
       mc_UpdatedAt := now\<rparr>) (cert_docs s - {#d#})"
    "st_certificateOperations s' = st_certificateOperations s" by blast
  have "d = cert" using cert_unique [OF ok] get_cert [OF ok g(1)] d(1,2) by blast
  with d g show ?thesis by (intro exI [of _ cert] exI [of _ v]) simp
qed

lemma delete_done:
  assumes ok: "db_ok s" and del: "DeleteManagedCertificate M i s = (Inr u, s')"
  shows "\<exists>cert. cert \<in># cert_docs s \<and> mc_ID cert = i \<and> mc_ServerIDs cert = [] \<and>
    (\<forall>op \<in># op_docs s. op_ManagedCertificateID op = i \<longrightarrow> \<not> op_in_flight op) \<and>
    cert_docs s' = cert_docs s - {#cert#} \<and>
    op_docs s' = filter_mset (\<lambda>op. op_ManagedCertificateID op \<noteq> i) (op_docs s)"
proof -
  obtain cert n s1 s2 where
    g: "GetManagedCertificate M i s = Inr cert" "mc_ServerIDs cert = []" and
    h: "HasRunningCertificateOperation M i s = Inr False" and
    o: "on_certificateOperations (DeleteMany (certificateOperations M)
         (\<lambda>op. op_ManagedCertificateID op = i)) s = (Inr n, s1)" and
    m: "matched_or ErrNoDocuments
        (on_managedCertificates (DeleteOne (managedCertificates M) (\<lambda>c. mc_ID c = i)) s1) = (Inr u, s')"
    using del by (auto simp: DeleteManagedCertificate_def and_then_eq_iff split: if_splits)
  have idle: "\<forall>op \<in># op_docs s. op_ManagedCertificateID op = i \<longrightarrow> \<not> op_in_flight op"
  proof -
    obtain k where "CountDocuments (certificateOperations M)
        (\<lambda>op. op_ManagedCertificateID op = i \<and> op_Status op \<in> set CertOpInFlightStatuses)
        (st_certificateOperations s) = Inr (k :: nat)" "\<not> 0 < k"
      using h by (auto simp: HasRunningCertificateOperation_def map_sum_def split: sum.splits)
    with ops.count [OF conjunct1 [OF ok]] have "filter_mset (\<lambda>op. op_ManagedCertificateID op = i \<and>
        op_Status op \<in> set CertOpInFlightStatuses) (op_docs s) = {#}" by fastforce
    then show ?thesis by (simp add: filter_mset_none op_in_flight_def)
  qed
  obtain c1 where c1: "DeleteMany (certificateOperations M) (\<lambda>op. op_ManagedCertificateID op = i)
      (st_certificateOperations s) = (Inr n, c1)" "s1 = s\<lparr>st_certificateOperations := c1\<rparr>"
    using o by (auto simp: on_certificateOperations_eq_iff)
  obtain k c2 where c2: "DeleteOne (managedCertificates M) (\<lambda>c. mc_ID c = i)
      (st_managedCertificates s) = (Inr k, c2)" "k \<noteq> 0" "s' = s1\<lparr>st_managedCertificates := c2\<rparr>"
    using m c1(2) by (auto simp: matched_or_eq_iff on_managedCertificates_eq_iff)
  have "removed (\<lambda>c. mc_ID c = i) (cert_docs s) (cdocs c2)"
    using certs.delete_done [OF _ c2(1)] ok c2(2) by simp
  then obtain d where d: "d \<in># cert_docs s" "mc_ID d = i" "cdocs c2 = cert_docs s - {#d#}"
    by (auto simp: removed_def)
  have "d = cert" using cert_unique [OF ok] get_cert [OF ok g(1)] d(1,2) by blast
  moreover have "odocs c1 = filter_mset (\<lambda>op. op_ManagedCertificateID op \<noteq> i) (op_docs s)"
    using ops.delete_many_done [OF _ c1(1)] ok by simp
  ultimately show ?thesis using d g idle c1(2) c2(3) by (intro exI [of _ cert]) simp
qed

lemma complete_revoke_done:
  assumes ok: "db_ok s"
    and rev: "CompleteRevokeVersion M now i versionID opID owner revokedAt s = (Inr u, s')"
  shows "\<exists>cert slot v op. cert \<in># cert_docs s \<and> mc_ID cert = i \<and>
    slot_version slot cert = Some v \<and> cv_ID v = versionID \<and>
    op \<in># op_docs s \<and> heldBy opID owner op \<and>
    cert_docs s' = add_mset ((slot_update slot
        (\<lambda>v. v\<lparr>cv_RevokedAt := Some revokedAt, cv_RevokePending := False\<rparr>) cert)\<lparr>mc_UpdatedAt := now\<rparr>)
      (cert_docs s - {#cert#}) \<and>
    op_docs s' = add_mset (op_succeeded False [] now op) (op_docs s - {#op#})"
proof -
  let ?f = "\<lambda>v. v\<lparr>cv_RevokedAt := Some revokedAt, cv_RevokePending := False\<rparr>"
  obtain cert slot s1 where
    g: "GetManagedCertificate M i s = Inr cert" "versionSlotField versionID cert = Inr slot" and
    m: "matched_or (StoreE ErrActiveVersionConflict)
        (on_managedCertificates (UpdateOne (managedCertificates M)
           (\<lambda>c. mc_ID c = i \<and> slot_id_is slot versionID c)
           (\<lambda>c. (slot_update slot ?f c)\<lparr>mc_UpdatedAt := now\<rparr>)) s) = (Inr (), s1)" and
    suc: "succeedOperation M False now opID owner [] s1 = (Inr u, s')"
    using rev by (auto simp: CompleteRevokeVersion_def and_then_eq_iff split: if_splits)
  from cert_update_done [OF ok m] obtain d where d: "d \<in># cert_docs s" "mc_ID d = i"
    "cert_docs s1 = add_mset ((slot_update slot ?f d)\<lparr>mc_UpdatedAt := now\<rparr>) (cert_docs s - {#d#})"
    "db_ok s1" "st_certificateOperations s1 = st_certificateOperations s" by blast
  have "d = cert" using cert_unique [OF ok] get_cert [OF ok g(1)] d(1,2) by blast
  moreover obtain v where "slot_version slot cert = Some v" "cv_ID v = versionID"
    using slot_after_versionSlotField [OF g(2)] by blast
  moreover from succeed_done [OF d(4) suc] obtain op where "op \<in># op_docs s1" "heldBy opID owner op"
    "op_docs s' = add_mset (op_succeeded False [] now op) (op_docs s1 - {#op#})"
    "st_managedCertificates s' = st_managedCertificates s1" by blast
  ultimately show ?thesis using d
    by (intro exI [of _ cert] exI [of _ slot] exI [of _ v] exI [of _ op]) simp
qed

text \<open>A replica that lost its lease cannot activate or revoke: its call changes nothing.\<close>

lemma count_held_lost:
  assumes "db_ok s" and "no_match (heldBy opID owner) (op_docs s)"
  shows "countHeld M opID owner s = Inr 0 \<or> (\<exists>e. countHeld M opID owner s = Inl e)"
  using assms ops.count [of "st_certificateOperations s" "heldBy opID owner"]
  by (cases "countHeld M opID owner s") (auto simp: countHeld_def no_match_def filter_mset_none)

lemma lost_lease_changes_nothing:
  assumes "db_ok s" and "no_match (heldBy opID owner) (op_docs s)"
  shows "\<exists>e. ActivateFirstIssueVersion M now i version opID owner warning s = (Inl e, s)"
    and "\<exists>e. ActivateSubsequentIssueVersion M now i version expected opID owner warning s = (Inl e, s)"
    and "\<exists>e. CompleteRevokeVersion M now i versionID opID owner revokedAt s = (Inl e, s)"
  using count_held_lost [OF assms]
  by (auto simp: ActivateFirstIssueVersion_def ActivateSubsequentIssueVersion_def
      CompleteRevokeVersion_def)

lemma delete_guarded:
  assumes ok: "db_ok s" and cert: "cert \<in># cert_docs s" "mc_ID cert = i"
    and guard: "mc_ServerIDs cert \<noteq> [] \<or>
      (\<exists>op \<in># op_docs s. op_ManagedCertificateID op = i \<and> op_in_flight op)"
  shows "\<exists>e. DeleteManagedCertificate M i s = (Inl e, s)"
proof (cases "GetManagedCertificate M i s")
  case (Inl e)
  then show ?thesis by (simp add: DeleteManagedCertificate_def)
next
  case (Inr c)
  then have c: "c = cert" using get_cert [OF ok Inr] cert_unique [OF ok] cert by blast
  show ?thesis
  proof (cases "mc_ServerIDs cert \<noteq> []")
    case True
    with Inr c show ?thesis by (simp add: DeleteManagedCertificate_def)
  next
    case False
    with guard obtain op where op: "op \<in># op_docs s" "op_ManagedCertificateID op = i"
      "op_Status op \<in> set CertOpInFlightStatuses" by (auto simp: op_in_flight_def)
    have "HasRunningCertificateOperation M i s \<noteq> Inr False"
    proof
      assume h: "HasRunningCertificateOperation M i s = Inr False"
      then obtain k where "CountDocuments (certificateOperations M)
          (\<lambda>op. op_ManagedCertificateID op = i \<and> op_Status op \<in> set CertOpInFlightStatuses)
          (st_certificateOperations s) = Inr (k :: nat)" "\<not> 0 < k"
        by (auto simp: HasRunningCertificateOperation_def map_sum_def split: sum.splits)
      with ops.count [OF conjunct1 [OF ok]] have "filter_mset (\<lambda>op. op_ManagedCertificateID op = i \<and>
          op_Status op \<in> set CertOpInFlightStatuses) (op_docs s) = {#}" by fastforce
      with op show False by (simp add: filter_mset_none)
    qed
    then have "(\<exists>e. HasRunningCertificateOperation M i s = Inl e) \<or>
        HasRunningCertificateOperation M i s = Inr True"
      by (cases "HasRunningCertificateOperation M i s") auto
    with Inr c False show ?thesis by (auto simp: DeleteManagedCertificate_def)
  qed
qed

lemma update_done:
  assumes ok: "db_ok s" and upd: "UpdateManagedCertificate M now i update s = (Inr cert, s')"
  shows "\<exists>d. d \<in># cert_docs s \<and> mc_ID d = i \<and> cert = managedCertificateUpdateDocument update now d \<and>
    cert_docs s' = add_mset cert (cert_docs s - {#d#})"
proof -
  obtain c where c: "FindOneAndUpdate (managedCertificates M) (\<lambda>c. mc_ID c = i)
      (managedCertificateUpdateDocument update now) (st_managedCertificates s) = (Inr cert, c)"
    "s' = s\<lparr>st_managedCertificates := c\<rparr>"
    using upd by (auto simp: UpdateManagedCertificate_def on_managedCertificates_eq_iff
        split: prod.splits sum.splits)
  with certs.find_update_done [OF _ c(1)] ok show ?thesis by auto
qed

end

interpretation mem_cert_store: cert_store mem_mongo "mem_docs un_DOp"
  "mem_ok certificateOperations_clash un_DOp" "mem_docs un_DCert"
  "mem_ok managedCertificates_clash un_DCert"
  by unfold_locales

section \<open>Properties\<close>

definition sample_version :: "string \<Rightarrow> CertificateVersion" where
  "sample_version i = \<lparr>cv_ID = i, cv_ConfigSnapshot = op_ConfigSnapshot sample_op,
     cv_FullchainPEM = ''chain'', cv_PrivateKeyPEM = ''key'', cv_LeafFingerprint = ''ab'',
     cv_SerialNumber = ''1'', cv_IssuerCommonName = ''CA'', cv_NotBefore = 0,
     cv_NotAfter = 90 * 24 * Hour, cv_KeyType = CertKeyTypeECP256, cv_StagingUntrusted = False,
     cv_CertificateIssuerID = ''iss_1'', cv_RevokePending = False, cv_RevokedAt = None,
     cv_CreatedAt = 0\<rparr>"

definition sample_cert :: "CertificateVersion option \<Rightarrow> CertificateVersion option \<Rightarrow> ManagedCertificate" where
  "sample_cert active previous = \<lparr>mc_ID = ''mcert_1'', mc_Name = ''web'',
     mc_Domains = [''example.com''], mc_CertificateIssuerID = ''iss_1'',
     mc_DNSProviderAccountID = ''dns_1'', mc_KeyType = CertKeyTypeECP256,
     mc_AutoRenewEnabled = True, mc_RenewBeforeDays = 30, mc_NotifyGroupIDs = [],
     mc_ServerIDs = [], mc_NotificationState = None, mc_ActiveVersion = active,
     mc_PreviousVersion = previous, mc_CreatedAt = 0, mc_UpdatedAt = 0\<rparr>"

definition sample_db :: "ManagedCertificate list \<Rightarrow> CertificateOperation list \<Rightarrow> doc list db" where
  "sample_db cs xs = empty_db\<lparr>st_managedCertificates := map DCert cs,
     st_certificateOperations := map DOp xs\<rparr>"

definition sample_running :: CertificateOperation where
  "sample_running = claimed sample_claim sample_op"

lemmas sample_defs = sample_db_def sample_cert_def sample_version_def sample_running_def
  sample_op_def sample_claim_def claimed_def

lemmas mem_eval = mem_coll_def update_first_def List.extract_def on_managedCertificates_def
  on_certificateOperations_def matched_or_def

lemma sample_db_ok [simp]:
  "mem_ok managedCertificates_clash un_DCert (st_managedCertificates (sample_db [c] xs))"
  "mem_ok certificateOperations_clash un_DOp (st_certificateOperations (sample_db cs [x]))"
  "mem_ok certificateOperations_clash un_DOp (st_certificateOperations (sample_db cs []))"
  by (simp_all add: sample_db_def pairwise_mset_add)

lemma sample_db_docs [simp]:
  "mem_docs un_DCert (st_managedCertificates (sample_db cs xs)) = mset cs"
  "mem_docs un_DOp (st_certificateOperations (sample_db cs xs)) = mset xs"
  by (simp_all add: sample_db_def)

text \<open>
  When ActivateSubsequentIssueVersion returns without error, the certificate's old active
  version, which was the expected one, has become the previous version and the new version the
  active one, nothing else of the certificate but its update time has changed, the caller held
  the operation's lease, and the operation is succeeded with its lease released.
\<close>

theorem renewal_rotates_versions:
  assumes "cert_store M odocs ook cdocs cok"
    and "ook (st_certificateOperations s)" "cok (st_managedCertificates s)"
    and "ActivateSubsequentIssueVersion M now i version expected opID owner warning s = (Inr u, s')"
  shows "\<exists>cert previous op. cert \<in># cdocs (st_managedCertificates s) \<and> mc_ID cert = i \<and>
    mc_ActiveVersion cert = Some previous \<and> cv_ID previous = expected \<and>
    op \<in># odocs (st_certificateOperations s) \<and> heldBy opID owner op \<and>
    cdocs (st_managedCertificates s') = add_mset (cert\<lparr>mc_ActiveVersion := Some version,
        mc_PreviousVersion := Some previous, mc_UpdatedAt := now\<rparr>)
      (cdocs (st_managedCertificates s) - {#cert#}) \<and>
    odocs (st_certificateOperations s') =
      add_mset (op_succeeded True warning now op) (odocs (st_certificateOperations s) - {#op#})"
  using cert_store.activate_subsequent_done [OF assms(1) conjI [OF assms(2,3)] assms(4)]
  unfolding rotated_def by blast

theorem renewal_rotates_versions_witness:
  "\<exists>cert \<in># {#sample_cert (Some (sample_version ''v1'')) None#}. mc_ID cert = ''mcert_1''"
proof -
  have "ActivateSubsequentIssueVersion mem_mongo 50 ''mcert_1'' (sample_version ''v2'') ''v1'' ''cop_1''
      ''a'' [] (sample_db [sample_cert (Some (sample_version ''v1'')) None] [sample_running]) =
    (Inr (), sample_db [sample_cert (Some (sample_version ''v2'')) (Some (sample_version ''v1''))
        \<lparr>mc_UpdatedAt := 50\<rparr>] [op_succeeded True [] 50 sample_running])"
    by (simp add: ActivateSubsequentIssueVersion_def GetManagedCertificate_def countHeld_def
        succeedOperation_def heldBy_def active_id_is_def rotated_def mem_eval sample_defs)
  from renewal_rotates_versions [OF mem_cert_store.cert_store_axioms _ _ this] show ?thesis
    by auto
qed



text \<open>
  A first issuance, a rollback and a revocation, when they return without error: the first
  version becomes active only where there was none; the rollback swaps the previous version,
  which has the requested id and is not revoked, with the active one; the revocation marks the
  version with the requested id revoked and closes the operation the caller holds.
\<close>

theorem version_writes_done:
  assumes "cert_store M odocs ook cdocs cok"
    and "ook (st_certificateOperations s)" "cok (st_managedCertificates s)"
  shows "(ActivateFirstIssueVersion M now i version opID owner warning s = (Inr u, s') \<longrightarrow>
      (\<exists>cert op. cert \<in># cdocs (st_managedCertificates s) \<and> mc_ID cert = i \<and>
        mc_ActiveVersion cert = None \<and> op \<in># odocs (st_certificateOperations s) \<and>
        heldBy opID owner op \<and>
        cdocs (st_managedCertificates s') = add_mset (cert\<lparr>mc_ActiveVersion := Some version,
          mc_UpdatedAt := now\<rparr>) (cdocs (st_managedCertificates s) - {#cert#}))) \<and>
    (ActivatePreviousVersion M now i versionID s = (Inr u, s') \<longrightarrow>
      (\<exists>cert v. cert \<in># cdocs (st_managedCertificates s) \<and> mc_ID cert = i \<and>
        mc_PreviousVersion cert = Some v \<and> cv_ID v = versionID \<and> cv_RevokedAt v = None \<and>
        cdocs (st_managedCertificates s') = add_mset (cert\<lparr>mc_ActiveVersion := Some v,
          mc_PreviousVersion := mc_ActiveVersion cert, mc_UpdatedAt := now\<rparr>)
          (cdocs (st_managedCertificates s) - {#cert#}))) \<and>
    (CompleteRevokeVersion M now i versionID opID owner revokedAt s = (Inr u, s') \<longrightarrow>
      (\<exists>cert slot v op. cert \<in># cdocs (st_managedCertificates s) \<and> mc_ID cert = i \<and>
        slot_version slot cert = Some v \<and> cv_ID v = versionID \<and>
        op \<in># odocs (st_certificateOperations s) \<and> heldBy opID owner op \<and>
        cdocs (st_managedCertificates s') = add_mset ((slot_update slot
          (\<lambda>v. v\<lparr>cv_RevokedAt := Some revokedAt, cv_RevokePending := False\<rparr>) cert)\<lparr>mc_UpdatedAt := now\<rparr>)
          (cdocs (st_managedCertificates s) - {#cert#})))"
proof (intro conjI impI, goal_cases)
  case 1
  from cert_store.activate_first_done [OF assms(1) conjI [OF assms(2,3)] 1] show ?case by blast
next
  case 2
  from cert_store.activate_previous_done [OF assms(1) conjI [OF assms(2,3)] 2] show ?case by blast
next
  case 3
  from cert_store.complete_revoke_done [OF assms(1) conjI [OF assms(2,3)] 3] show ?case by blast
qed

theorem version_writes_done_witness:
  "\<exists>cert v. cert \<in># {#sample_cert (Some (sample_version ''v2'')) (Some (sample_version ''v1''))#} \<and>
     mc_PreviousVersion cert = Some v \<and> cv_ID v = ''v1''"
proof -
  have "ActivatePreviousVersion mem_mongo 50 ''mcert_1'' ''v1''
      (sample_db [sample_cert (Some (sample_version ''v2'')) (Some (sample_version ''v1''))] []) =
    (Inr (), sample_db [sample_cert (Some (sample_version ''v1'')) (Some (sample_version ''v2''))
        \<lparr>mc_UpdatedAt := 50\<rparr>] [])"
    by (simp add: ActivatePreviousVersion_def GetManagedCertificate_def previous_unrevoked_def
        previous_id_is_def mem_eval sample_defs)
  with version_writes_done [OF mem_cert_store.cert_store_axioms, of
      "sample_db [sample_cert (Some (sample_version ''v2'')) (Some (sample_version ''v1''))] []"
      50 "''mcert_1''" _ _ _ _ "()" _ "''v1''"]
  show ?thesis by (simp add: sample_db_ok) blast
qed

text \<open>
  Deleting a managed certificate is guarded: while it is assigned to a server or has an
  operation in flight, the call returns an error and changes nothing; when the call returns
  without error, the certificate and exactly its operations are gone.
\<close>

theorem delete_is_guarded:
  assumes "cert_store M odocs ook cdocs cok"
    and "ook (st_certificateOperations s)" "cok (st_managedCertificates s)"
    and "cert \<in># cdocs (st_managedCertificates s)" "mc_ID cert = i"
  shows "(mc_ServerIDs cert \<noteq> [] \<or> (\<exists>op \<in># odocs (st_certificateOperations s).
        op_ManagedCertificateID op = i \<and> op_in_flight op) \<longrightarrow>
      (\<exists>e. DeleteManagedCertificate M i s = (Inl e, s))) \<and>
    (DeleteManagedCertificate M i s = (Inr u, s') \<longrightarrow>
      cdocs (st_managedCertificates s') = cdocs (st_managedCertificates s) - {#cert#} \<and>
      odocs (st_certificateOperations s') =
        filter_mset (\<lambda>op. op_ManagedCertificateID op \<noteq> i) (odocs (st_certificateOperations s)))"
proof -
  note ok = conjI [OF assms(2,3)]
  have "cert' = cert" if "cert' \<in># cdocs (st_managedCertificates s)" "mc_ID cert' = i" for cert'
    using cert_store.cert_unique [OF assms(1) ok that(1) assms(4)] that(2) assms(5) by simp
  with cert_store.delete_done [OF assms(1) ok, of i u s']
    cert_store.delete_guarded [OF assms(1) ok assms(4,5)] show ?thesis by blast
qed

theorem delete_is_guarded_witness:
  "\<exists>e. DeleteManagedCertificate mem_mongo ''mcert_1'' (sample_db [sample_cert None None] [sample_running]) =
     (Inl e, sample_db [sample_cert None None] [sample_running])"
proof -
  have "op_ManagedCertificateID sample_running = ''mcert_1''" "op_in_flight sample_running"
    by (simp_all add: sample_defs op_in_flight_def CertOpInFlightStatuses_def)
  moreover have "mc_ID (sample_cert None None) = ''mcert_1''" by (simp add: sample_defs)
  ultimately show ?thesis
    using delete_is_guarded [OF mem_cert_store.cert_store_axioms,
        of "sample_db [sample_cert None None] [sample_running]" "sample_cert None None" "''mcert_1''"]
    by simp
qed

text \<open>
  An administrator's update replaces exactly the editable fields: the version container, the
  notification markers, the id and the creation time of the stored certificate survive, whatever
  ran in between.
\<close>

theorem update_keeps_runtime_state:
  assumes "cert_store M odocs ook cdocs cok"
    and "ook (st_certificateOperations s)" "cok (st_managedCertificates s)"
    and "UpdateManagedCertificate M now i update s = (Inr cert, s')"
  shows "\<exists>d \<in># cdocs (st_managedCertificates s). mc_ID d = i \<and>
    cdocs (st_managedCertificates s') = add_mset cert (cdocs (st_managedCertificates s) - {#d#}) \<and>
    mc_ID cert = i \<and> mc_ActiveVersion cert = mc_ActiveVersion d \<and>
    mc_PreviousVersion cert = mc_PreviousVersion d \<and>
    mc_NotificationState cert = mc_NotificationState d \<and> mc_CreatedAt cert = mc_CreatedAt d \<and>
    mc_Name cert = mu_Name update \<and> mc_Domains cert = mu_Domains update \<and>
    mc_ServerIDs cert = mu_ServerIDs update \<and> mc_NotifyGroupIDs cert = mu_NotifyGroupIDs update"
  using cert_store.update_done [OF assms(1) conjI [OF assms(2,3)] assms(4)]
  by (auto simp: managedCertificateUpdateDocument_def)

definition sample_update :: ManagedCertificateUpdate where
  "sample_update = \<lparr>mu_Name = ''site'', mu_Domains = [''example.com''],
     mu_CertificateIssuerID = ''iss_1'', mu_DNSProviderAccountID = ''dns_1'',
     mu_KeyType = CertKeyTypeRSA2048, mu_AutoRenewEnabled = False, mu_RenewBeforeDays = 20,
     mu_NotifyGroupIDs = [], mu_ServerIDs = [''srv_1'']\<rparr>"

theorem update_keeps_runtime_state_witness:
  "\<exists>d \<in># {#sample_cert (Some (sample_version ''v1'')) None#}. mc_ID d = ''mcert_1''"
proof -
  let ?s = "sample_db [sample_cert (Some (sample_version ''v1'')) None] []"
  have "UpdateManagedCertificate mem_mongo 50 ''mcert_1'' sample_update ?s =
    (Inr (managedCertificateUpdateDocument sample_update 50
        (sample_cert (Some (sample_version ''v1'')) None)),
     sample_db [managedCertificateUpdateDocument sample_update 50
        (sample_cert (Some (sample_version ''v1'')) None)] [])"
    by (simp add: UpdateManagedCertificate_def mem_eval sample_defs)
  from update_keeps_runtime_state [OF mem_cert_store.cert_store_axioms _ _ this]
  show ?thesis by auto
qed

end
