(* ===== verification/Validity.thy ===== *)
theory Validity
  imports Documents
begin

text \<open>
  internal/certstate/validity.go: the validity of a certificate version at a time and the
  renewal window, the smaller of the configured days and a third of the certificate's lifetime.
  Durations are Go's \<open>int64\<close> nanoseconds, so the configured window wraps around.
\<close>

definition VersionDistributable :: "CertificateVersion option \<Rightarrow> bool" where
  "VersionDistributable v \<longleftrightarrow>
     (case v of None \<Rightarrow> False | Some v \<Rightarrow> \<not> cv_RevokePending v \<and> cv_RevokedAt v = None)"

definition EffectiveRenewalWindow :: "gotime \<Rightarrow> gotime \<Rightarrow> u32 \<Rightarrow> duration" where
  "EffectiveRenewalWindow notBefore notAfter renewBeforeDays =
     (let configured = wrap64 (wrap64 (uint renewBeforeDays * 24) * Hour);
          lifetime = time_sub notAfter notBefore
      in if lifetime \<le> 0 then configured
         else let third = lifetime div 3 in if third < configured then third else configured)"

definition EffectiveRenewalWindowDays :: "gotime \<Rightarrow> gotime \<Rightarrow> u32 \<Rightarrow> u32" where
  "EffectiveRenewalWindowDays notBefore notAfter renewBeforeDays =
     (let window = EffectiveRenewalWindow notBefore notAfter renewBeforeDays;
          days = window sdiv (24 * Hour)
      in if days = 0 \<and> window > 0 then 1 else word_of_int days)"

definition ComputeVersionValidity ::
  "CertificateVersion option \<Rightarrow> u32 \<Rightarrow> gotime \<Rightarrow> string \<times> bool" where
  "ComputeVersionValidity v renewBeforeDays now =
     (case v of
        None \<Rightarrow> (CertValidityMissing, False)
      | Some ver \<Rightarrow>
          if \<not> VersionDistributable v then (CertValidityRevoked, False)
          else if cv_NotAfter ver < now then (CertValidityExpired, True)
          else if cv_NotBefore ver \<le> now \<and>
               cv_NotAfter ver - EffectiveRenewalWindow (cv_NotBefore ver) (cv_NotAfter ver) renewBeforeDays \<le> now
          then (CertValidityRenewalDue, True)
          else (CertValidityValid, True))"

definition ComputeValidity :: "ManagedCertificate \<Rightarrow> gotime \<Rightarrow> string \<times> bool" where
  "ComputeValidity cert now = ComputeVersionValidity (mc_ActiveVersion cert) (mc_RenewBeforeDays cert) now"

text \<open>
  The largest configured window that fits the \<open>int64\<close> of a duration is 106751 days; the API
  accepts every \<open>uint32\<close>.
\<close>

lemma configured_window:
  assumes "uint d \<le> 106751"
  shows "wrap64 (wrap64 (uint d * 24) * Hour) = uint d * 24 * Hour"
  using assms uint_lt_0 [of d] by (simp add: wrap64_def Hour_def Minute_def Second_def)

lemma window_is_min:
  assumes "uint d \<le> 106751" and "nb < na" and "na - nb \<le> max_int64"
  shows "EffectiveRenewalWindow nb na d = min (uint d * 24 * Hour) ((na - nb) div 3)"
proof -
  have "time_sub na nb = na - nb"
    using assms(2,3) by (simp add: time_sub_def min_int64_def)
  with assms show ?thesis
    by (simp add: EffectiveRenewalWindow_def configured_window Let_def min_def)
qed

definition sample_ver :: "gotime \<Rightarrow> gotime \<Rightarrow> CertificateVersion" where
  "sample_ver nb na = \<lparr>cv_ID = ''v'', cv_ConfigSnapshot = \<lparr>is_Domains = [], is_CertificateIssuerID = [],
     is_DNSProviderAccountID = [], is_KeyType = []\<rparr>, cv_FullchainPEM = [], cv_PrivateKeyPEM = [],
     cv_LeafFingerprint = [], cv_SerialNumber = [], cv_IssuerCommonName = [], cv_NotBefore = nb,
     cv_NotAfter = na, cv_KeyType = [], cv_StagingUntrusted = False, cv_CertificateIssuerID = [],
     cv_RevokePending = False, cv_RevokedAt = None, cv_CreatedAt = nb\<rparr>"

text \<open>
  C15: the validity of a distributable version, for every configured window that fits a duration:
  it is Expired after \<open>NotAfter\<close>, RenewalDue in the last part of its lifetime, whose length is the
  smaller of the configured days and a third of the lifetime, and Valid before; a version that
  is missing, revoked or being revoked is never offered. The renewal window is never empty and
  always starts after \<open>NotBefore\<close>.
\<close>

theorem validity_timeline:
  assumes "uint d \<le> 106751" and "0 < uint d" and "cv_NotBefore v + 2 < cv_NotAfter v"
    and "cv_NotAfter v - cv_NotBefore v \<le> max_int64"
  defines "due \<equiv> cv_NotAfter v -
    min (uint d * 24 * Hour) ((cv_NotAfter v - cv_NotBefore v) div 3)"
  shows "cv_NotBefore v < due \<and> due < cv_NotAfter v \<and>
    ComputeVersionValidity (Some v) d now =
      (if cv_RevokePending v \<or> cv_RevokedAt v \<noteq> None then (CertValidityRevoked, False)
       else if now < due then (CertValidityValid, True)
       else if now \<le> cv_NotAfter v then (CertValidityRenewalDue, True)
       else (CertValidityExpired, True))"
proof -
  let ?l = "cv_NotAfter v - cv_NotBefore v"
  have pos: "0 < uint d * 24 * Hour" using assms(2) by (simp add: time_units)
  have third: "1 \<le> ?l div 3" "?l div 3 < ?l" using assms(3) by simp_all
  have due: "cv_NotBefore v < due" "due < cv_NotAfter v"
    using pos third unfolding due_def by (simp_all add: min_def)
  have win: "EffectiveRenewalWindow (cv_NotBefore v) (cv_NotAfter v) d = cv_NotAfter v - due"
    using window_is_min [OF assms(1) _ assms(4)] assms(3) by (simp add: due_def)
  show ?thesis
    using due by (auto simp: ComputeVersionValidity_def VersionDistributable_def win)
qed

theorem validity_timeline_witness:
  "ComputeVersionValidity (Some (sample_ver 0 (90 * 24 * Hour))) 30 (65 * 24 * Hour) =
     (CertValidityRenewalDue, True)"
  using validity_timeline [of 30 "sample_ver 0 (90 * 24 * Hour)" "65 * 24 * Hour"]
  by (simp add: sample_ver_def time_units max_int64_def)

text \<open>
  A configured window of 106752 days or more overflows the duration: for a certificate of 90
  days the effective window is then negative, and the certificate is reported Valid up to and
  including its last instant, so that it never becomes due for renewal.
\<close>

theorem renewal_window_overflow:
  "EffectiveRenewalWindow 0 (90 * 24 * Hour) 106752 < 0 \<and>
   (\<forall>now \<le> 90 * 24 * Hour.
      ComputeVersionValidity (Some (sample_ver 0 (90 * 24 * Hour))) 106752 now = (CertValidityValid, True))"
proof -
  have neg: "EffectiveRenewalWindow 0 (90 * 24 * Hour) 106752 < 0"
    by (simp add: EffectiveRenewalWindow_def wrap64_def time_units time_sub_def max_int64_def
        min_int64_def Let_def)
  then show ?thesis
    by (auto simp: ComputeVersionValidity_def VersionDistributable_def sample_ver_def)
qed

theorem renewal_window_overflow_witness:
  "ComputeVersionValidity (Some (sample_ver 0 (90 * 24 * Hour))) 106752 (90 * 24 * Hour) =
     (CertValidityValid, True)"
  using renewal_window_overflow by simp

end
