(* ===== verification/Domains.thy ===== *)
theory Domains
  imports Documents
begin

text \<open>
  internal/certmanager/domains.go: the normalisation and validation of requested domains. The
  Unicode lower-casing tables \<open>ul\<close> and the conversion \<open>idna\<close> of golang.org/x/net/idna (None for an
  error) are parameters. \<open>valid_domain\<close> is an independent description of the accepted names.
\<close>

abbreviation invalid_domains :: "frag list \<Rightarrow> err" where
  "invalid_domains fs \<equiv> Annot (CertE ErrInvalidDomains) fs"

definition label_char :: "char \<Rightarrow> bool" where
  "label_char c \<longleftrightarrow> (let n = of_char c :: nat in (97 \<le> n \<and> n \<le> 122) \<or> (48 \<le> n \<and> n \<le> 57) \<or> c = CHR ''-'')"

text \<open>
  The last check of the source, \<open>utf8.ValidString\<close>, cannot fail: the bytes that reach it are ASCII.
\<close>

definition validateDomainLabel :: "string \<Rightarrow> err + unit" where
  "validateDomainLabel label =
     (if label = [] \<or> length label > 63
      then Inl (invalid_domains [Lit ''invalid label '', Quoted label])
      else if hd label = CHR ''-'' \<or> last label = CHR ''-''
      then Inl (invalid_domains [Lit ''label '', Quoted label, Lit '' cannot start or end with hyphen''])
      else if \<not> list_all label_char label
      then Inl (invalid_domains [Lit ''label '', Quoted label, Lit '' contains invalid character''])
      else Inr ())"

fun validateDomainLabels :: "string list \<Rightarrow> err + unit" where
  "validateDomainLabels [] = Inr ()"
| "validateDomainLabels (l # ls) =
     (case validateDomainLabel l of Inl e \<Rightarrow> Inl e | Inr _ \<Rightarrow> validateDomainLabels ls)"

definition validateDomainSyntax :: "string \<Rightarrow> err + unit" where
  "validateDomainSyntax domain =
     (if domain = [] \<or> length domain > 253 then Inl (invalid_domains [Quoted domain])
      else if contains domain ''..''
      then Inl (invalid_domains [Quoted domain, Lit '' contains empty label''])
      else if has_prefix domain ''.'' \<or> has_suffix domain ''.''
      then Inl (invalid_domains [Quoted domain, Lit '' has invalid dot placement''])
      else let isWildcard = has_prefix domain ''*.'' in
        if isWildcard \<and> (domain = ''*.'' \<or> domain = ''*'')
        then Inl (invalid_domains [Lit ''wildcard domain must be *.example.com form''])
        else if isWildcard \<and> contains (drop 2 domain) ''*''
        then Inl (invalid_domains [Lit ''wildcard is only allowed in the leftmost label''])
        else if isWildcard \<and> drop 2 domain = []
        then Inl (invalid_domains [Lit ''wildcard domain must include a suffix''])
        else if \<not> isWildcard \<and> contains domain ''*''
        then Inl (invalid_domains [Lit ''wildcard is only allowed in the leftmost label''])
        else let domain = (if isWildcard then drop 2 domain else domain);
                 labels = split_on (CHR ''.'') domain
             in if length labels < 2
                then Inl (invalid_domains [Quoted domain, Lit '' must contain at least two labels''])
                else validateDomainLabels labels)"

definition normalizeDomain ::
  "(string \<Rightarrow> string) \<Rightarrow> (string \<Rightarrow> string option) \<Rightarrow> string \<Rightarrow> err + string" where
  "normalizeDomain ul idna raw =
     (let s = trim_space raw in
      if s = [] then Inl (invalid_domains [Lit ''empty domain''])
      else let s = to_lower ul (trim_suffix s ''.'') in
        if s = [] then Inl (invalid_domains [Lit ''empty domain''])
        else if has_prefix s ''*.'' \<and> drop 2 s = []
        then Inl (invalid_domains [Lit ''wildcard domain must be *.example.com form''])
        else case (if has_prefix s ''*.'' then map_option (\<lambda>c. ''*.'' @ c) (idna (drop 2 s)) else idna s) of
          None \<Rightarrow> Inl (invalid_domains [Quoted raw, Lit '' is not a valid domain name''])
        | Some ascii \<Rightarrow>
            (case validateDomainSyntax ascii of Inl e \<Rightarrow> Inl e | Inr _ \<Rightarrow> Inr ascii))"

fun normalize_each ::
  "(string \<Rightarrow> err + string) \<Rightarrow> string list \<Rightarrow> string list \<Rightarrow> err + string list" where
  "normalize_each norm out [] = Inr out"
| "normalize_each norm out (item # items) =
     (case norm item of
        Inl e \<Rightarrow> Inl e
      | Inr d \<Rightarrow> normalize_each norm (if d \<in> set out then out else out @ [d]) items)"

definition NormalizeDomains ::
  "(string \<Rightarrow> string) \<Rightarrow> (string \<Rightarrow> string option) \<Rightarrow> string list \<Rightarrow> err + string list" where
  "NormalizeDomains ul idna raw =
     (if raw = [] then Inl (invalid_domains [Lit ''at least one domain is required''])
      else if length raw > MaxCertificateDomains then Inl (CertE ErrTooManyDomains)
      else case normalize_each (normalizeDomain ul idna) [] raw of
             Inl e \<Rightarrow> Inl e
           | Inr out \<Rightarrow>
               if out = [] then Inl (invalid_domains [Lit ''at least one domain is required''])
               else if length out > MaxCertificateDomains then Inl (CertE ErrTooManyDomains)
               else Inr out)"

definition normalizeKeyType :: "(string \<Rightarrow> string) \<Rightarrow> string \<Rightarrow> err + string" where
  "normalizeKeyType ul raw =
     (let s = trim_space (to_lower ul raw) in
      if s \<in> {[], ''ec_p256'', ''ec-p256'', ''ec p-256''} then Inr CertKeyTypeECP256
      else if s \<in> {''rsa_2048'', ''rsa-2048'', ''rsa 2048''} then Inr CertKeyTypeRSA2048
      else Inl (CertE ErrInvalidKeyType))"

section \<open>The accepted names\<close>

definition valid_label :: "string \<Rightarrow> bool" where
  "valid_label l \<longleftrightarrow> l \<noteq> [] \<and> length l \<le> 63 \<and> hd l \<noteq> CHR ''-'' \<and> last l \<noteq> CHR ''-'' \<and>
     list_all label_char l"

fun join_dots :: "string list \<Rightarrow> string" where
  "join_dots [] = []"
| "join_dots [l] = l"
| "join_dots (l # ls) = l @ CHR ''.'' # join_dots ls"

definition valid_domain :: "string \<Rightarrow> bool" where
  "valid_domain d \<longleftrightarrow> length d \<le> 253 \<and>
     (\<exists>ls. 2 \<le> length ls \<and> list_all valid_label ls \<and> (d = join_dots ls \<or> d = ''*.'' @ join_dots ls))"

lemma validateDomainLabel_iff: "validateDomainLabel l = Inr u \<longleftrightarrow> valid_label l"
  by (auto simp: validateDomainLabel_def valid_label_def)

lemma validateDomainLabels_iff: "validateDomainLabels ls = Inr u \<longleftrightarrow> list_all valid_label ls"
proof (induction ls)
  case (Cons l ls)
  show ?case
  proof (cases "validateDomainLabel l")
    case (Inl e)
    then have "\<not> valid_label l" using validateDomainLabel_iff [of l "()"] by simp
    with Inl show ?thesis by simp
  next
    case (Inr v)
    then have "valid_label l" using validateDomainLabel_iff [of l v] by simp
    with Inr Cons show ?thesis by simp
  qed
qed simp

lemma label_chars: "label_char c \<Longrightarrow> c \<noteq> CHR ''.'' \<and> c \<noteq> CHR ''*''"
  by (auto simp: label_char_def)

lemma valid_label_chars: "valid_label l \<Longrightarrow> CHR ''.'' \<notin> set l \<and> CHR ''*'' \<notin> set l"
  using label_chars by (fastforce simp: valid_label_def list_all_iff)

lemma split_on_no_sep: "c \<notin> set l \<Longrightarrow> split_on c l = [l]"
  by (induction l) auto

lemma split_on_append: "c \<notin> set l \<Longrightarrow> split_on c (l @ c # r) = l # split_on c r"
  by (induction l) auto

lemma split_on_nonempty [simp]: "split_on c s \<noteq> []"
  by (induction s) (auto split: list.splits)

lemma split_on_join:
  "ls \<noteq> [] \<Longrightarrow> list_all valid_label ls \<Longrightarrow> split_on (CHR ''.'') (join_dots ls) = ls"
proof (induction ls rule: join_dots.induct)
  case (3 l l' ls)
  then show ?case using valid_label_chars [of l] by (simp add: split_on_append)
qed (auto dest: valid_label_chars intro: split_on_no_sep)

lemma join_split_on: "join_dots (split_on (CHR ''.'') s) = s"
proof (induction s)
  case (Cons c s)
  obtain p ps where ps: "split_on (CHR ''.'') s = p # ps"
    using split_on_nonempty by (meson neq_Nil_conv)
  with Cons show ?case by (cases ps) auto
qed simp

lemma contains_char: "contains s [c] \<longleftrightarrow> c \<in> set s"
  by (induction s) (auto simp: has_prefix_def)

lemma join_dots_chars:
  "list_all valid_label ls \<Longrightarrow> CHR ''*'' \<notin> set (join_dots ls)"
  by (induction ls rule: join_dots.induct) (auto dest: valid_label_chars)

lemma join_dots_shape:
  assumes "ls \<noteq> []" and "list_all valid_label ls"
  shows "join_dots ls \<noteq> [] \<and> hd (join_dots ls) \<noteq> CHR ''.'' \<and> last (join_dots ls) \<noteq> CHR ''.'' \<and>
    \<not> contains (join_dots ls) ''..''"
  using assms
proof (induction ls rule: join_dots.induct)
  case 1
  then show ?case by simp
next
  case (2 l)
  then have l: "l \<noteq> []" "CHR ''.'' \<notin> set l" using valid_label_chars by (auto simp: valid_label_def)
  then have "hd l \<noteq> CHR ''.''" "last l \<noteq> CHR ''.''"
    by (metis hd_in_set, metis last_in_set)
  moreover have "\<not> contains l ''..''" using l(2) by (auto simp: contains_iff)
  ultimately show ?case using l by simp
next
  case (3 l l' ls)
  let ?r = "join_dots (l' # ls)"
  have IH: "?r \<noteq> []" "hd ?r \<noteq> CHR ''.''" "last ?r \<noteq> CHR ''.''" "\<not> contains ?r ''..''"
    using 3 by auto
  have l: "l \<noteq> []" "CHR ''.'' \<notin> set l" using 3 valid_label_chars by (auto simp: valid_label_def)
  then have "hd l \<noteq> CHR ''.''" by (metis hd_in_set)
  moreover have "\<not> contains (l @ CHR ''.'' # ?r) ''..''"
  proof -
    have "\<not> has_prefix (CHR ''.'' # ?r) ''..''"
      using IH(1,2) by (cases ?r) (auto simp: has_prefix_def)
    with IH(4) have "\<not> contains (CHR ''.'' # ?r) ''..''" by simp
    moreover have "contains (l @ CHR ''.'' # ?r) ''..'' = contains (CHR ''.'' # ?r) ''..''"
      using l(2) by (induction l) (auto simp: has_prefix_def)
    ultimately show ?thesis by simp
  qed
  ultimately show ?case using l IH by simp
qed

lemma has_prefix_dot: "has_prefix d ''.'' \<longleftrightarrow> d \<noteq> [] \<and> hd d = CHR ''.''"
  by (cases d) (auto simp: has_prefix_def)

lemma has_suffix_dot: "has_suffix d ''.'' \<longleftrightarrow> d \<noteq> [] \<and> last d = CHR ''.''"
  by (cases d rule: rev_cases) (auto simp: has_suffix_def)

lemma has_prefix_drop: "has_prefix s p \<longleftrightarrow> s = p @ drop (length p) s"
  by (metis append_eq_conv_conj append_take_drop_id has_prefix_def)

lemma has_prefix_star: "has_prefix d ''*.'' \<longleftrightarrow> d = ''*.'' @ drop 2 d"
  using has_prefix_drop [of d "''*.''"] by (simp add: numeral_2_eq_2)

lemma star_prefix_star: "has_prefix d ''*.'' \<Longrightarrow> CHR ''*'' \<in> set d"
  by (cases d) (auto simp: has_prefix_def)

lemma plain_domain_ok:
  assumes ls: "2 \<le> length ls" "list_all valid_label ls" and len: "length (join_dots ls) \<le> 253"
  shows "validateDomainSyntax (join_dots ls) = Inr ()"
proof -
  let ?d = "join_dots ls"
  have "ls \<noteq> []" using ls(1) by auto
  note shape = join_dots_shape [OF this ls(2)]
  have "CHR ''*'' \<notin> set ?d" by (rule join_dots_chars [OF ls(2)])
  then have "\<not> has_prefix ?d ''*.''" "\<not> contains ?d ''*''"
    using star_prefix_star [of ?d] contains_char [of ?d] by blast+
  moreover have "validateDomainLabels (split_on (CHR ''.'') ?d) = Inr ()"
    using ls \<open>ls \<noteq> []\<close> by (simp add: split_on_join validateDomainLabels_iff)
  moreover have "\<not> length (split_on (CHR ''.'') ?d) < 2"
    using ls \<open>ls \<noteq> []\<close> by (simp add: split_on_join)
  ultimately show ?thesis
    using shape len
    by (simp add: validateDomainSyntax_def has_prefix_dot has_suffix_dot Let_def)
qed

lemma wildcard_domain_ok:
  assumes ls: "2 \<le> length ls" "list_all valid_label ls" and len: "length (''*.'' @ join_dots ls) \<le> 253"
  shows "validateDomainSyntax (''*.'' @ join_dots ls) = Inr ()"
proof -
  let ?d = "join_dots ls"
  have "ls \<noteq> []" using ls(1) by auto
  note shape = join_dots_shape [OF this ls(2)]
  have star: "\<not> contains ?d ''*''" using join_dots_chars [OF ls(2)] by (simp add: contains_char)
  have "\<not> contains (''*.'' @ ?d) ''..''"
    using shape by (cases ?d) (auto simp: has_prefix_def)
  moreover have "has_prefix (''*.'' @ ?d) ''*.''" by (simp add: has_prefix_def)
  moreover have "validateDomainLabels (split_on (CHR ''.'') ?d) = Inr ()"
    using ls \<open>ls \<noteq> []\<close> by (simp add: split_on_join validateDomainLabels_iff)
  moreover have "\<not> length (split_on (CHR ''.'') ?d) < 2"
    using ls \<open>ls \<noteq> []\<close> by (simp add: split_on_join)
  ultimately show ?thesis
    using shape star len
    by (simp add: validateDomainSyntax_def has_prefix_dot has_suffix_dot Let_def)
qed

text \<open>
  C13: the domain check accepts exactly the names of at most 253 bytes made of at least two labels
  of lower-case letters, digits and inner hyphens, each of 1 to 63 bytes, with an optional
  wildcard as one more leftmost label.
\<close>

theorem validateDomainSyntax_exact: "validateDomainSyntax d = Inr () \<longleftrightarrow> valid_domain d"
proof
  assume v: "validateDomainSyntax d = Inr ()"
  let ?r = "if has_prefix d ''*.'' then drop 2 d else d"
  let ?ls = "split_on (CHR ''.'') ?r"
  have "length d \<le> 253" "2 \<le> length ?ls" "validateDomainLabels ?ls = Inr ()"
    using v by (auto simp: validateDomainSyntax_def Let_def split: if_splits)
  moreover have "d = join_dots ?ls \<or> d = ''*.'' @ join_dots ?ls"
    using has_prefix_star [of d] by (simp add: join_split_on)
  ultimately show "valid_domain d"
    unfolding valid_domain_def validateDomainLabels_iff by blast
next
  assume "valid_domain d"
  then obtain ls where "length d \<le> 253" "2 \<le> length ls" "list_all valid_label ls"
    "d = join_dots ls \<or> d = ''*.'' @ join_dots ls"
    by (auto simp: valid_domain_def)
  then show "validateDomainSyntax d = Inr ()"
    using plain_domain_ok wildcard_domain_ok by blast
qed

lemma normalizeDomain_valid:
  assumes "normalizeDomain ul idna raw = Inr d" shows "valid_domain d"
proof -
  have "\<exists>u. validateDomainSyntax d = Inr u"
    using assms by (auto simp: normalizeDomain_def Let_def split: if_splits option.splits sum.splits)
  then show ?thesis using validateDomainSyntax_exact [of d] by simp
qed

lemma normalize_each_spec:
  assumes "normalize_each norm out items = Inr res" and "distinct out"
  shows "distinct res \<and> set res = set out \<union> {d. \<exists>item \<in> set items. norm item = Inr d} \<and>
    (\<forall>item \<in> set items. \<exists>d. norm item = Inr d) \<and> length res \<le> length out + length items \<and>
    take (length out) res = out"
  using assms
proof (induction items arbitrary: out)
  case Nil
  then show ?case by simp
next
  case (Cons item items)
  then obtain d where d: "norm item = Inr d"
    "normalize_each norm (if d \<in> set out then out else out @ [d]) items = Inr res"
    by (auto split: sum.splits)
  let ?o = "if d \<in> set out then out else out @ [d]"
  have "distinct ?o" using Cons.prems(2) by simp
  note IH = Cons.IH [OF d(2) this]
  have "take (length out) res = out"
  proof (cases "d \<in> set out")
    case False
    then have "take (length (out @ [d])) res = out @ [d]" using IH by simp
    then show ?thesis by (metis append_eq_conv_conj take_take min.absorb1 length_append le_add1)
  qed (use IH in simp)
  with IH d(1) show ?case by (auto split: if_splits)
qed

text \<open>
  NormalizeDomains, when it accepts a request, returns between 1 and 100 distinct names, each
  of them valid, exactly the normal forms of the requested items, with the first item's normal
  form first; and every item of the request was acceptable.
\<close>

theorem NormalizeDomains_result:
  assumes "NormalizeDomains ul idna raw = Inr out"
  shows "out \<noteq> [] \<and> length out \<le> 100 \<and> distinct out \<and> list_all valid_domain out \<and>
    set (map Inr out) = normalizeDomain ul idna ` set raw \<and>
    normalizeDomain ul idna (hd raw) = Inr (hd out)"
proof -
  let ?n = "normalizeDomain ul idna"
  have raw: "raw \<noteq> []" and e: "normalize_each ?n [] raw = Inr out" and out: "out \<noteq> []" "length out \<le> 100"
    using assms by (auto simp: NormalizeDomains_def split: if_splits sum.splits)
  note spec = normalize_each_spec [OF e distinct.simps(1) [THEN iffD2, OF TrueI]]
  then have valid: "list_all valid_domain out"
    using normalizeDomain_valid [of ul idna] by (auto simp: list_all_iff)
  obtain r rs where r: "raw = r # rs" using raw by (cases raw) auto
  with e obtain d where d: "?n r = Inr d" "normalize_each ?n [d] rs = Inr out"
    by (auto split: sum.splits)
  with normalize_each_spec [OF d(2)] have "take 1 out = [d]" by simp
  then have "hd out = d" by (cases out) auto
  moreover have "Inr ` set out = ?n ` set raw"
  proof (intro subset_antisym subsetI)
    fix x :: "err + string" assume "x \<in> Inr ` set out"
    then show "x \<in> ?n ` set raw" using spec by force
  next
    fix x assume "x \<in> ?n ` set raw"
    then obtain item d where "item \<in> set raw" "x = Inr d" "?n item = Inr d"
      using spec by fastforce
    then show "x \<in> Inr ` set out" using spec by auto
  qed
  ultimately show ?thesis
    using out spec valid d(1) r by auto
qed

lemma example_trim_space: "trim_space ''a.b'' = ''a.b''"
  by code_simp

theorem NormalizeDomains_result_witness:
  "valid_domain ''a.b'' \<and> NormalizeDomains id Some [''a.b'', ''a.b''] = Inr [''a.b'']"
proof -
  have "normalizeDomain id Some ''a.b'' = Inr ''a.b''"
    by (simp add: normalizeDomain_def example_trim_space trim_suffix_def has_suffix_def to_lower_def
        is_ascii_def lower_char_def has_prefix_def validateDomainSyntax_def validateDomainLabel_def
        label_char_def Let_def)
  then have n: "NormalizeDomains id Some [''a.b'', ''a.b''] = Inr [''a.b'']"
    by (simp add: NormalizeDomains_def)
  with NormalizeDomains_result [OF n] show ?thesis by simp
qed

end
