(* ===== verification/Sanitize.thy ===== *)
theory Sanitize
  imports Documents
begin

text \<open>
  internal/certmanager/sanitize.go: the error text that is stored on operations and issuers and
  shown to administrators. A text that contains a sensitive marker or one of the given secrets
  is replaced by a fixed fallback; the rest is cut to 500 bytes. \<open>ul\<close> is Go's Unicode lower-casing
  of non-ASCII strings and \<open>q\<close> the \<open>%q\<close> verb.
\<close>

definition maxCertificateErrorSummaryLength :: nat where
  "maxCertificateErrorSummaryLength = 500"

definition sensitiveCertificateErrorMarkers :: "string list" where
  "sensitiveCertificateErrorMarkers =
     [''token'', ''pem'', ''eab'', ''external account binding'', ''hmac'', ''api key'', ''private key'',
      ''account key'', ''authorization:'', ''bearer '', ''order url'', ''new-order'', ''/order/'',
      ''account url'', ''account uri'', ''/account/'', ''/acct/'', ''acme-staging'', ''directory'']"

definition sanitizeCertificateError ::
  "(string \<Rightarrow> string) \<Rightarrow> (string \<Rightarrow> string) \<Rightarrow> err option \<Rightarrow> string \<Rightarrow> string list \<Rightarrow> string" where
  "sanitizeCertificateError ul q e fallback secretValues =
     (case e of
        None \<Rightarrow> []
      | Some e \<Rightarrow>
          if errors_is e (CertE ErrIssuerAccountURIRequired)
          then error_text q (CertE ErrIssuerAccountURIRequired)
          else let msg = error_text q e; lower = to_lower ul msg in
            if list_ex (contains lower) sensitiveCertificateErrorMarkers then fallback
            else if list_ex (\<lambda>secret. let secret = trim_space secret in secret \<noteq> [] \<and> contains msg secret)
                      secretValues
            then fallback
            else take maxCertificateErrorSummaryLength msg)"

definition sanitizeIssueError :: "(string \<Rightarrow> string) \<Rightarrow> (string \<Rightarrow> string) \<Rightarrow> err \<Rightarrow> string" where
  "sanitizeIssueError ul q e =
     sanitizeCertificateError ul q (Some e) ''certificate issuance failed'' []"

definition sanitizeRegistrationError ::
  "(string \<Rightarrow> string) \<Rightarrow> (string \<Rightarrow> string) \<Rightarrow> err \<Rightarrow> string list \<Rightarrow> string" where
  "sanitizeRegistrationError ul q e secretValues =
     sanitizeCertificateError ul q (Some e) ''certificate issuer registration failed'' secretValues"

definition sanitizeRevokeError :: "(string \<Rightarrow> string) \<Rightarrow> (string \<Rightarrow> string) \<Rightarrow> err \<Rightarrow> string" where
  "sanitizeRevokeError ul q e = sanitizeIssueError ul q e"

text \<open>A text without markers, and without the (trimmed, non-empty) secrets.\<close>

definition discloses :: "string list \<Rightarrow> string \<Rightarrow> bool" where
  "discloses secretValues s \<longleftrightarrow>
     (\<exists>m \<in> set sensitiveCertificateErrorMarkers. contains (map lower_char s) m) \<or>
     (\<exists>x \<in> set secretValues. trim_space x \<noteq> [] \<and> contains s (trim_space x))"

lemma fallbacks_have_no_marker:
  "\<not> list_ex (contains (map lower_char ''certificate issuance failed'')) sensitiveCertificateErrorMarkers"
  "\<not> list_ex (contains (map lower_char ''certificate issuer registration failed''))
     sensitiveCertificateErrorMarkers"
  by code_simp+

lemma clean_prefix: "\<not> discloses secrets s \<Longrightarrow> \<not> discloses secrets (take n s)"
  unfolding discloses_def using contains_take by (metis take_map)



end
