(* ===== verification/ResourceStore.thy ===== *)
theory ResourceStore
  imports CertStore
begin

text \<open>
  The named resources of internal/store: monitor groups, notify groups, ACME issuers, DNS
  provider accounts and the two kinds of API tokens. Names are unique, so a duplicate key error
  of the driver is reported as the resource's name-taken error. Times, UUIDs, random bytes (as
  the hexadecimal string \<open>secretHex\<close>) and the SHA-256 digest \<open>hash\<close> are arguments.
\<close>

text \<open>\<open>if mongo.IsDuplicateKeyError(err) { return taken }\<close>.\<close>

definition name_taken :: "err \<Rightarrow> (err + 'a) \<times> 's \<Rightarrow> (err + 'a) \<times> 's" where
  "name_taken taken p =
     (case p of (Inl e, s) \<Rightarrow> (Inl (if IsDuplicateKeyError e then taken else e), s) | ok \<Rightarrow> ok)"

lemma name_taken_Inr: "name_taken e p = (Inr a, s) \<longleftrightarrow> p = (Inr a, s)"
  by (cases p; cases "fst p") (auto simp: name_taken_def)

section \<open>Monitor groups and notify groups\<close>

text \<open>
  The two validations count the documents whose id is in the set of the requested ids; the
  order in which Go enumerates its map of distinct ids does not matter to the count.
\<close>

definition validate_ids :: "err \<Rightarrow> (string set \<Rightarrow> err + nat) \<Rightarrow> string list \<Rightarrow> err + unit" where
  "validate_ids invalid found ids =
     (if ids = [] then Inr ()
      else if [] \<in> set ids then Inl (Annot invalid [Lit ''empty id''])
      else case found (set ids) of
             Inl e \<Rightarrow> Inl e
           | Inr n \<Rightarrow>
               if n \<noteq> card (set ids)
               then Inl (Annot invalid [Lit ''expected '', Decimal (card (set ids)), Lit '', found '', Decimal n])
               else Inr ())"

definition validateGroupIDs :: "'c mongo \<Rightarrow> string list \<Rightarrow> 'c db \<Rightarrow> err + unit" where
  "validateGroupIDs M ids s =
     validate_ids (StoreE ErrInvalidGroupIDs)
       (\<lambda>wanted. CountDocuments (groups M) (\<lambda>g. grp_ID g \<in> wanted) (st_groups s)) ids"

definition validateNotifyGroupIDs :: "'c mongo \<Rightarrow> string list \<Rightarrow> 'c db \<Rightarrow> err + unit" where
  "validateNotifyGroupIDs M ids s =
     validate_ids (StoreE ErrInvalidNotifyGroupIDs)
       (\<lambda>wanted. CountDocuments (notifyGroups M) (\<lambda>g. ng_ID g \<in> wanted) (st_notifyGroups s)) ids"

definition ListMonitorGroups ::
  "'c mongo \<Rightarrow> int \<Rightarrow> string \<Rightarrow> 'c db \<Rightarrow> err + (MonitorGroup list \<times> string)" where
  "ListMonitorGroups M limit pageToken s =
     findPage (groups M) (\<lambda>_. True) limit pageToken
       (\<lambda>x y. grp_SortOrder x < grp_SortOrder y \<or>
          (grp_SortOrder x = grp_SortOrder y \<and> grp_CreatedAt y \<le> grp_CreatedAt x))
       (st_groups s)"

definition CreateMonitorGroup ::
  "'c mongo \<Rightarrow> gotime \<Rightarrow> string \<Rightarrow> MonitorGroup \<Rightarrow> 'c db \<Rightarrow> (err + MonitorGroup) \<times> 'c db" where
  "CreateMonitorGroup M now uuid grp s =
     and_then (validateNotifyGroupIDs M (ap_NotifyGroupIDs (grp_AlertPolicy grp)) s, s) (\<lambda>_ s.
     let grp = (if grp_ID grp = [] then grp\<lparr>grp_ID := ''grp_'' @ uuid\<rparr> else grp);
         grp = grp\<lparr>grp_CreatedAt := now, grp_UpdatedAt := now\<rparr>
     in and_then (name_taken (StoreE ErrGroupNameTaken)
          (on_groups (InsertOne (groups M) grp) s)) (\<lambda>_ s. (Inr grp, s)))"

definition GetMonitorGroup :: "'c mongo \<Rightarrow> string \<Rightarrow> 'c db \<Rightarrow> err + MonitorGroup" where
  "GetMonitorGroup M ident s = FindOne (groups M) (\<lambda>g. grp_ID g = ident) (st_groups s)"

definition UpdateMonitorGroup ::
  "'c mongo \<Rightarrow> gotime \<Rightarrow> string \<Rightarrow> MonitorGroup \<Rightarrow> 'c db \<Rightarrow> (err + MonitorGroup) \<times> 'c db" where
  "UpdateMonitorGroup M now ident grp s =
     and_then (validateNotifyGroupIDs M (ap_NotifyGroupIDs (grp_AlertPolicy grp)) s, s) (\<lambda>_ s.
     and_then (GetMonitorGroup M ident s, s) (\<lambda>existing s.
     let grp = grp\<lparr>grp_ID := ident, grp_CreatedAt := grp_CreatedAt existing, grp_UpdatedAt := now\<rparr>
     in and_then (name_taken (StoreE ErrGroupNameTaken)
          (on_groups (UpdateOne (groups M) (\<lambda>g. grp_ID g = ident) (\<lambda>_. grp)) s))
          (\<lambda>_ s. (Inr grp, s))))"

text \<open>\<open>$pull\<close> removes every occurrence of the id.\<close>

definition pull :: "string \<Rightarrow> string list \<Rightarrow> string list" where
  "pull ident xs = filter (\<lambda>x. x \<noteq> ident) xs"

definition DeleteMonitorGroup :: "'c mongo \<Rightarrow> string \<Rightarrow> 'c db \<Rightarrow> (err + unit) \<times> 'c db" where
  "DeleteMonitorGroup M ident s =
     and_then (matched_or ErrNoDocuments
       (on_groups (DeleteOne (groups M) (\<lambda>g. grp_ID g = ident)) s)) (\<lambda>_ s.
     and_then (on_monitors (UpdateMany (monitors M) (\<lambda>m. ident \<in> set (mon_GroupIDs m))
         (\<lambda>m. m\<lparr>mon_GroupIDs := pull ident (mon_GroupIDs m)\<rparr>)) s) (\<lambda>_ s. (Inr (), s)))"

definition ListMonitorsByGroup ::
  "'c mongo \<Rightarrow> string \<Rightarrow> int \<Rightarrow> string \<Rightarrow> 'c db \<Rightarrow> err + (Monitor list \<times> string)" where
  "ListMonitorsByGroup M groupID limit pageToken s =
     findPage (monitors M) (\<lambda>m. groupID \<in> set (mon_GroupIDs m)) limit pageToken
       (\<lambda>x y. mon_CreatedAt y \<le> mon_CreatedAt x) (st_monitors s)"

definition ListGroupsForMonitor :: "'c mongo \<Rightarrow> string \<Rightarrow> 'c db \<Rightarrow> err + MonitorGroup list" where
  "ListGroupsForMonitor M monitorID s =
     (case FindOne (monitors M) (\<lambda>m. mon_ID m = monitorID) (st_monitors s) of
        Inl e \<Rightarrow> Inl e
      | Inr monitor \<Rightarrow>
          if mon_GroupIDs monitor = [] then Inr []
          else FindDocs (groups M) (\<lambda>g. grp_ID g \<in> set (mon_GroupIDs monitor)) (\<lambda>_ _. True) 0 None
                 (st_groups s))"

definition ListNotifyGroups ::
  "'c mongo \<Rightarrow> int \<Rightarrow> string \<Rightarrow> 'c db \<Rightarrow> err + (NotifyGroup list \<times> string)" where
  "ListNotifyGroups M limit pageToken s =
     findPage (notifyGroups M) (\<lambda>_. True) limit pageToken
       (\<lambda>x y. ng_CreatedAt y \<le> ng_CreatedAt x) (st_notifyGroups s)"

definition DeleteNotifyGroup :: "'c mongo \<Rightarrow> string \<Rightarrow> 'c db \<Rightarrow> (err + unit) \<times> 'c db" where
  "DeleteNotifyGroup M ident s =
     and_then (matched_or ErrNoDocuments
       (on_notifyGroups (DeleteOne (notifyGroups M) (\<lambda>g. ng_ID g = ident)) s)) (\<lambda>_ s.
     and_then (on_groups (UpdateMany (groups M)
         (\<lambda>g. ident \<in> set (ap_NotifyGroupIDs (grp_AlertPolicy g)))
         (\<lambda>g. g\<lparr>grp_AlertPolicy := (grp_AlertPolicy g)
            \<lparr>ap_NotifyGroupIDs := pull ident (ap_NotifyGroupIDs (grp_AlertPolicy g))\<rparr>\<rparr>)) s) (\<lambda>_ s.
     and_then (on_managedCertificates (UpdateMany (managedCertificates M)
         (\<lambda>c. ident \<in> set (mc_NotifyGroupIDs c))
         (\<lambda>c. c\<lparr>mc_NotifyGroupIDs := pull ident (mc_NotifyGroupIDs c)\<rparr>)) s) (\<lambda>_ s. (Inr (), s))))"

definition CreateNotifyGroup ::
  "'c mongo \<Rightarrow> gotime \<Rightarrow> string \<Rightarrow> NotifyGroup \<Rightarrow> 'c db \<Rightarrow> (err + NotifyGroup) \<times> 'c db" where
  "CreateNotifyGroup M now uuid grp s =
     (let grp = (if ng_ID grp = [] then grp\<lparr>ng_ID := ''ntf_'' @ uuid\<rparr> else grp);
          grp = grp\<lparr>ng_CreatedAt := now, ng_UpdatedAt := now\<rparr>
      in and_then (name_taken (StoreE ErrNotifyGroupNameTaken)
           (on_notifyGroups (InsertOne (notifyGroups M) grp) s)) (\<lambda>_ s. (Inr grp, s)))"

definition GetNotifyGroup :: "'c mongo \<Rightarrow> string \<Rightarrow> 'c db \<Rightarrow> err + NotifyGroup" where
  "GetNotifyGroup M ident s = FindOne (notifyGroups M) (\<lambda>x. ng_ID x = ident) (st_notifyGroups s)"

definition UpdateNotifyGroup ::
  "'c mongo \<Rightarrow> gotime \<Rightarrow> string \<Rightarrow> NotifyGroup \<Rightarrow> 'c db \<Rightarrow> (err + NotifyGroup) \<times> 'c db" where
  "UpdateNotifyGroup M now ident grp s =
     and_then (GetNotifyGroup M ident s, s) (\<lambda>existing s.
     let grp = grp\<lparr>ng_ID := ident, ng_CreatedAt := ng_CreatedAt existing, ng_UpdatedAt := now\<rparr>
     in and_then (name_taken (StoreE ErrNotifyGroupNameTaken)
          (on_notifyGroups (UpdateOne (notifyGroups M) (\<lambda>x. ng_ID x = ident) (\<lambda>_. grp)) s))
          (\<lambda>_ s. (Inr grp, s)))"

section \<open>Issuers and DNS provider accounts\<close>

definition ListCertificateIssuers ::
  "'c mongo \<Rightarrow> int \<Rightarrow> string \<Rightarrow> 'c db \<Rightarrow> err + (CertificateIssuer list \<times> string)" where
  "ListCertificateIssuers M limit pageToken s =
     findPage (certificateIssuers M) (\<lambda>_. True) limit pageToken
       (\<lambda>x y. iss_CreatedAt y \<le> iss_CreatedAt x) (st_certificateIssuers s)"

definition CreateCertificateIssuer ::
  "'c mongo \<Rightarrow> gotime \<Rightarrow> string \<Rightarrow> CertificateIssuer \<Rightarrow> 'c db \<Rightarrow> (err + CertificateIssuer) \<times> 'c db" where
  "CreateCertificateIssuer M now uuid issuer s =
     (let issuer = (if iss_ID issuer = [] then issuer\<lparr>iss_ID := ''iss_'' @ uuid\<rparr> else issuer);
          issuer = issuer\<lparr>iss_CreatedAt := now, iss_UpdatedAt := now\<rparr>
      in and_then (name_taken (StoreE ErrCertificateIssuerNameTaken)
           (on_certificateIssuers (InsertOne (certificateIssuers M) issuer) s)) (\<lambda>_ s. (Inr issuer, s)))"

definition GetCertificateIssuer :: "'c mongo \<Rightarrow> string \<Rightarrow> 'c db \<Rightarrow> err + CertificateIssuer" where
  "GetCertificateIssuer M ident s = FindOne (certificateIssuers M) (\<lambda>x. iss_ID x = ident) (st_certificateIssuers s)"

definition UpdateCertificateIssuer ::
  "'c mongo \<Rightarrow> gotime \<Rightarrow> string \<Rightarrow> CertificateIssuer \<Rightarrow> 'c db \<Rightarrow> (err + CertificateIssuer) \<times> 'c db" where
  "UpdateCertificateIssuer M now ident issuer s =
     and_then (GetCertificateIssuer M ident s, s) (\<lambda>existing s.
     let issuer = issuer\<lparr>iss_ID := ident, iss_CreatedAt := iss_CreatedAt existing, iss_UpdatedAt := now\<rparr>
     in and_then (name_taken (StoreE ErrCertificateIssuerNameTaken)
          (on_certificateIssuers (UpdateOne (certificateIssuers M) (\<lambda>x. iss_ID x = ident) (\<lambda>_. issuer)) s))
          (\<lambda>_ s. (Inr issuer, s)))"

definition DeleteCertificateIssuer :: "'c mongo \<Rightarrow> string \<Rightarrow> 'c db \<Rightarrow> (err + unit) \<times> 'c db" where
  "DeleteCertificateIssuer M ident s =
     matched_or ErrNoDocuments (on_certificateIssuers (DeleteOne (certificateIssuers M) (\<lambda>x. iss_ID x = ident)) s)"

definition ListDNSProviderAccounts ::
  "'c mongo \<Rightarrow> int \<Rightarrow> string \<Rightarrow> 'c db \<Rightarrow> err + (DNSProviderAccount list \<times> string)" where
  "ListDNSProviderAccounts M limit pageToken s =
     findPage (dnsProviderAccounts M) (\<lambda>_. True) limit pageToken
       (\<lambda>x y. dns_CreatedAt y \<le> dns_CreatedAt x) (st_dnsProviderAccounts s)"

definition CreateDNSProviderAccount ::
  "'c mongo \<Rightarrow> gotime \<Rightarrow> string \<Rightarrow> DNSProviderAccount \<Rightarrow> 'c db \<Rightarrow> (err + DNSProviderAccount) \<times> 'c db" where
  "CreateDNSProviderAccount M now uuid account s =
     (let account = (if dns_ID account = [] then account\<lparr>dns_ID := ''dns_'' @ uuid\<rparr> else account);
          account = account\<lparr>dns_CreatedAt := now, dns_UpdatedAt := now\<rparr>
      in and_then (name_taken (StoreE ErrDNSProviderAccountNameTaken)
           (on_dnsProviderAccounts (InsertOne (dnsProviderAccounts M) account) s)) (\<lambda>_ s. (Inr account, s)))"

definition GetDNSProviderAccount :: "'c mongo \<Rightarrow> string \<Rightarrow> 'c db \<Rightarrow> err + DNSProviderAccount" where
  "GetDNSProviderAccount M ident s = FindOne (dnsProviderAccounts M) (\<lambda>x. dns_ID x = ident) (st_dnsProviderAccounts s)"

definition UpdateDNSProviderAccount ::
  "'c mongo \<Rightarrow> gotime \<Rightarrow> string \<Rightarrow> DNSProviderAccount \<Rightarrow> 'c db \<Rightarrow> (err + DNSProviderAccount) \<times> 'c db" where
  "UpdateDNSProviderAccount M now ident account s =
     and_then (GetDNSProviderAccount M ident s, s) (\<lambda>existing s.
     let account = account\<lparr>dns_ID := ident, dns_CreatedAt := dns_CreatedAt existing, dns_UpdatedAt := now\<rparr>
     in and_then (name_taken (StoreE ErrDNSProviderAccountNameTaken)
          (on_dnsProviderAccounts (UpdateOne (dnsProviderAccounts M) (\<lambda>x. dns_ID x = ident) (\<lambda>_. account)) s))
          (\<lambda>_ s. (Inr account, s)))"

definition DeleteDNSProviderAccount :: "'c mongo \<Rightarrow> string \<Rightarrow> 'c db \<Rightarrow> (err + unit) \<times> 'c db" where
  "DeleteDNSProviderAccount M ident s =
     matched_or ErrNoDocuments (on_dnsProviderAccounts (DeleteOne (dnsProviderAccounts M) (\<lambda>x. dns_ID x = ident)) s)"

section \<open>Tokens\<close>

definition certAccessTokenSecretPrefix :: string where
  "certAccessTokenSecretPrefix = ''nlct_''"

definition ListCertificateAccessTokensByServer ::
  "'c mongo \<Rightarrow> string \<Rightarrow> 'c db \<Rightarrow> err + CertificateAccessToken list" where
  "ListCertificateAccessTokensByServer M serverID s =
     (if serverID = [] then Inl (StoreE ErrInvalidServerIDs)
      else FindDocs (certificateAccessTokens M) (\<lambda>t. cat_ServerID t = serverID)
             (\<lambda>x y. cat_CreatedAt y \<le> cat_CreatedAt x) 0 None (st_certificateAccessTokens s))"

definition GetServer :: "'c mongo \<Rightarrow> string \<Rightarrow> 'c db \<Rightarrow> err + Server" where
  "GetServer M ident s = FindOne (servers M) (\<lambda>x. srv_ID x = ident) (st_servers s)"

definition CreateCertificateAccessToken ::
  "(string \<Rightarrow> string) \<Rightarrow> 'c mongo \<Rightarrow> gotime \<Rightarrow> string \<Rightarrow> err + string \<Rightarrow> string \<Rightarrow> string \<Rightarrow> gotime option \<Rightarrow>
    'c db \<Rightarrow> (err + CertificateAccessToken \<times> string) \<times> 'c db" where
  "CreateCertificateAccessToken hash M now uuid secretHex serverID name expiresAt s =
     (if serverID = [] then (Inl (StoreE ErrInvalidServerIDs), s)
      else and_then (GetServer M serverID s, s) (\<lambda>_ s.
      and_then (secretHex, s) (\<lambda>hex s.
      let plaintext = certAccessTokenSecretPrefix @ hex;
          token = \<lparr>cat_ID = ''cat_'' @ uuid, cat_ServerID = serverID, cat_Name = name,
            cat_TokenHash = hash plaintext,
            cat_Prefix = take (length certAccessTokenSecretPrefix + 8) plaintext,
            cat_CreatedAt = now, cat_LastUsedAt = None, cat_ExpiresAt = expiresAt\<rparr>
      in and_then (name_taken (StoreE ErrCertificateAccessTokenNameTaken)
           (on_certificateAccessTokens (InsertOne (certificateAccessTokens M) token) s))
           (\<lambda>_ s. (Inr (token, plaintext), s)))))"

definition DeleteCertificateAccessToken ::
  "'c mongo \<Rightarrow> string \<Rightarrow> string \<Rightarrow> 'c db \<Rightarrow> (err + unit) \<times> 'c db" where
  "DeleteCertificateAccessToken M serverID tokenID s =
     (if serverID = [] \<or> tokenID = [] then (Inl ErrNoDocuments, s)
      else matched_or ErrNoDocuments (on_certificateAccessTokens
             (DeleteOne (certificateAccessTokens M)
                (\<lambda>t. cat_ID t = tokenID \<and> cat_ServerID t = serverID)) s))"

definition DeleteCertificateAccessTokensByServer ::
  "'c mongo \<Rightarrow> string \<Rightarrow> 'c db \<Rightarrow> (err + unit) \<times> 'c db" where
  "DeleteCertificateAccessTokensByServer M serverID s =
     and_then (on_certificateAccessTokens (DeleteMany (certificateAccessTokens M)
         (\<lambda>t. cat_ServerID t = serverID)) s) (\<lambda>_ s. (Inr (), s))"

definition RemoveServerFromManagedCertificates ::
  "'c mongo \<Rightarrow> string \<Rightarrow> 'c db \<Rightarrow> (err + unit) \<times> 'c db" where
  "RemoveServerFromManagedCertificates M serverID s =
     and_then (on_managedCertificates (UpdateMany (managedCertificates M) (\<lambda>_. True)
         (\<lambda>c. c\<lparr>mc_ServerIDs := pull serverID (mc_ServerIDs c)\<rparr>)) s) (\<lambda>_ s. (Inr (), s))"

text \<open>A token without an expiry time never expires.\<close>

definition token_live :: "gotime \<Rightarrow> CertificateAccessToken \<Rightarrow> bool" where
  "token_live now t \<longleftrightarrow> (case cat_ExpiresAt t of None \<Rightarrow> True | Some e \<Rightarrow> now < e)"

definition LookupCertificateAccessToken ::
  "(string \<Rightarrow> string) \<Rightarrow> 'c mongo \<Rightarrow> gotime \<Rightarrow> string \<Rightarrow> 'c db \<Rightarrow>
    (err + CertificateAccessToken) \<times> 'c db" where
  "LookupCertificateAccessToken hash M now plaintext s =
     (if plaintext = [] \<or> \<not> has_prefix plaintext certAccessTokenSecretPrefix
      then (Inl ErrNoDocuments, s)
      else on_certificateAccessTokens (FindOneAndUpdate (certificateAccessTokens M)
             (\<lambda>t. cat_TokenHash t = hash plaintext \<and> token_live now t)
             (\<lambda>t. t\<lparr>cat_LastUsedAt := Some now\<rparr>)) s)"

definition ValidateCertificateAccessToken ::
  "(string \<Rightarrow> string) \<Rightarrow> 'c mongo \<Rightarrow> gotime \<Rightarrow> string \<Rightarrow> string \<Rightarrow> 'c db \<Rightarrow> (err + bool) \<times> 'c db" where
  "ValidateCertificateAccessToken hash M now serverID plaintext s =
     (if serverID = [] \<or> plaintext = [] then (Inr False, s)
      else case on_certificateAccessTokens (FindOneAndUpdate (certificateAccessTokens M)
             (\<lambda>t. cat_ServerID t = serverID \<and> cat_TokenHash t = hash plaintext \<and> token_live now t)
             (\<lambda>t. t\<lparr>cat_LastUsedAt := Some now\<rparr>)) s of
           (Inr t, s) \<Rightarrow> (Inr True, s)
         | (Inl e, s) \<Rightarrow> (if IsNotFound e then Inr False else Inl e, s))"

definition mcpTokenPrefix :: string where
  "mcpTokenPrefix = ''mcp_''"

definition ListMcpTokens :: "'c mongo \<Rightarrow> 'c db \<Rightarrow> err + McpToken list" where
  "ListMcpTokens M s =
     FindDocs (mcpTokens M) (\<lambda>_. True) (\<lambda>x y. mcp_CreatedAt y \<le> mcp_CreatedAt x) 0 None (st_mcpTokens s)"

definition CreateMcpToken ::
  "(string \<Rightarrow> string) \<Rightarrow> 'c mongo \<Rightarrow> gotime \<Rightarrow> string \<Rightarrow> err + string \<Rightarrow> string \<Rightarrow> 'c db \<Rightarrow>
    (err + McpToken \<times> string) \<times> 'c db" where
  "CreateMcpToken hash M now uuid secretHex name s =
     and_then (secretHex, s) (\<lambda>hex s.
     let plaintext = mcpTokenPrefix @ hex;
         token = \<lparr>mcp_ID = ''mcp_'' @ uuid, mcp_Name = name, mcp_TokenHash = hash plaintext,
           mcp_Prefix = take (length mcpTokenPrefix + 8) plaintext, mcp_CreatedAt = now,
           mcp_LastUsedAt = zero_time\<rparr>
     in and_then (on_mcpTokens (InsertOne (mcpTokens M) token) s)
          (\<lambda>_ s. (Inr (token, plaintext), s)))"

definition DeleteMcpToken :: "'c mongo \<Rightarrow> string \<Rightarrow> 'c db \<Rightarrow> (err + unit) \<times> 'c db" where
  "DeleteMcpToken M ident s =
     matched_or ErrNoDocuments (on_mcpTokens (DeleteOne (mcpTokens M) (\<lambda>x. mcp_ID x = ident)) s)"

definition CountMcpTokens :: "'c mongo \<Rightarrow> 'c db \<Rightarrow> err + nat" where
  "CountMcpTokens M s = CountDocuments (mcpTokens M) (\<lambda>_. True) (st_mcpTokens s)"

definition ValidateMcpToken ::
  "(string \<Rightarrow> string) \<Rightarrow> 'c mongo \<Rightarrow> gotime \<Rightarrow> string \<Rightarrow> 'c db \<Rightarrow> (err + bool) \<times> 'c db" where
  "ValidateMcpToken hash M now plaintext s =
     (if plaintext = [] then (Inr False, s)
      else case on_mcpTokens (FindOneAndUpdate (mcpTokens M) (\<lambda>t. mcp_TokenHash t = hash plaintext)
             (\<lambda>t. t\<lparr>mcp_LastUsedAt := now\<rparr>)) s of
           (Inr t, s) \<Rightarrow> (Inr True, s)
         | (Inl e, s) \<Rightarrow> (if IsNotFound e then Inr False else Inl e, s))"

section \<open>Referenced resources exist\<close>

locale reliable_servers =
  servers: reliable_collection "servers M" docs servers_clash ok
  for M :: "'c mongo" and docs :: "'c \<Rightarrow> Server multiset" and ok :: "'c \<Rightarrow> bool"

context reliable_servers begin

lemma validateServerIDs_ok:
  assumes ok: "ok (st_servers s)"
  shows "validateServerIDs M ids s = Inr () \<longleftrightarrow>
    (\<forall>i \<in> set ids. i \<noteq> [] \<and> (\<exists>x \<in># docs (st_servers s). srv_ID x = i))"
proof -
  let ?K = "srv_ID ` set_mset (docs (st_servers s))"
  have keys: "pairwise_mset (\<lambda>x y. srv_ID x \<noteq> srv_ID y) (docs (st_servers s))"
    using servers.unique [OF ok] by (simp add: servers_clash_def)
  have count: "CountDocuments (servers M) (\<lambda>x. srv_ID x \<in> set ids) (st_servers s) =
      Inr (card (?K \<inter> set ids))"
    using servers.count_is [OF ok] count_unique_keys [OF keys, of "set ids"] by simp
  have len: "length (uniqueStrings ids) = card (set ids)"
    using distinct_card [of "uniqueStrings ids"] by simp
  have "card (?K \<inter> set ids) = card (set ids) \<longleftrightarrow> set ids \<subseteq> ?K"
  proof
    assume e: "card (?K \<inter> set ids) = card (set ids)"
    have "?K \<inter> set ids = set ids" by (rule card_subset_eq) (use e in auto)
    then show "set ids \<subseteq> ?K" by blast
  qed (simp add: Int_absorb1)
  moreover have "(\<exists>x \<in># docs (st_servers s). srv_ID x = i) \<longleftrightarrow> i \<in> ?K" for i by auto
  ultimately show ?thesis
    using count len by (cases "ids = []") (auto simp: validateServerIDs_def Let_def subset_iff)
qed

end

interpretation mem_reliable_servers: reliable_servers mem_mongo "mem_docs un_DServer"
  "mem_ok servers_clash un_DServer"
  by unfold_locales

section \<open>No dangling references\<close>

lemma size_filter_split: "size (filter_mset P X) + size (filter_mset (\<lambda>x. \<not> P x) X) = size X"
  by (induction X) auto

locale notify_refs =
  grps: mongo_collection "groups M" gdocs groups_clash gok +
  certs: mongo_collection "managedCertificates M" cdocs managedCertificates_clash cok
  for M :: "'c mongo" and gdocs :: "'c \<Rightarrow> MonitorGroup multiset" and gok
    and cdocs :: "'c \<Rightarrow> ManagedCertificate multiset" and cok

context notify_refs begin

lemma delete_notify_group_done:
  assumes ok: "gok (st_groups s)" "cok (st_managedCertificates s)"
    and del: "DeleteNotifyGroup M ident s = (Inr u, s')"
  shows "(\<forall>g \<in># gdocs (st_groups s'). ident \<notin> set (ap_NotifyGroupIDs (grp_AlertPolicy g))) \<and>
    (\<forall>c \<in># cdocs (st_managedCertificates s'). ident \<notin> set (mc_NotifyGroupIDs c)) \<and>
    size (cdocs (st_managedCertificates s')) = size (cdocs (st_managedCertificates s))"
proof -
  let ?pg = "\<lambda>g. g\<lparr>grp_AlertPolicy := (grp_AlertPolicy g)
      \<lparr>ap_NotifyGroupIDs := pull ident (ap_NotifyGroupIDs (grp_AlertPolicy g))\<rparr>\<rparr>"
  let ?pc = "\<lambda>c. c\<lparr>mc_NotifyGroupIDs := pull ident (mc_NotifyGroupIDs c)\<rparr>"
  obtain s1 s2 n1 n2 where
    d: "matched_or ErrNoDocuments (on_notifyGroups (DeleteOne (notifyGroups M) (\<lambda>g. ng_ID g = ident)) s)
          = (Inr (), s1)" and
    g: "on_groups (UpdateMany (groups M) (\<lambda>g. ident \<in> set (ap_NotifyGroupIDs (grp_AlertPolicy g))) ?pg) s1
          = (Inr n1, s2)" and
    c: "on_managedCertificates (UpdateMany (managedCertificates M) (\<lambda>c. ident \<in> set (mc_NotifyGroupIDs c))
          ?pc) s2 = (Inr n2, s')"
    using del unfolding DeleteNotifyGroup_def and_then_eq_iff by auto
  have s1: "st_groups s1 = st_groups s" "st_managedCertificates s1 = st_managedCertificates s"
    using d unfolding matched_or_eq_iff on_notifyGroups_eq_iff by auto
  obtain c1 where
    g: "UpdateMany (groups M) (\<lambda>g. ident \<in> set (ap_NotifyGroupIDs (grp_AlertPolicy g))) ?pg
          (st_groups s) = (Inr n1, c1)" and s2: "s2 = s1\<lparr>st_groups := c1\<rparr>"
    using g unfolding on_groups_eq_iff s1 by blast
  obtain c2 where
    c: "UpdateMany (managedCertificates M) (\<lambda>c. ident \<in> set (mc_NotifyGroupIDs c)) ?pc
          (st_managedCertificates s) = (Inr n2, c2)" and s': "s' = s2\<lparr>st_managedCertificates := c2\<rparr>"
    using c unfolding on_managedCertificates_eq_iff s2 by (auto simp: s1)
  have "gdocs c1 = image_mset ?pg (filter_mset (\<lambda>g. ident \<in> set (ap_NotifyGroupIDs (grp_AlertPolicy g)))
      (gdocs (st_groups s))) +
      filter_mset (\<lambda>g. \<not> ident \<in> set (ap_NotifyGroupIDs (grp_AlertPolicy g))) (gdocs (st_groups s))"
    using grps.many_done [OF ok(1) g] by blast
  moreover have cd: "cdocs c2 = image_mset ?pc (filter_mset (\<lambda>c. ident \<in> set (mc_NotifyGroupIDs c))
      (cdocs (st_managedCertificates s))) +
      filter_mset (\<lambda>c. \<not> ident \<in> set (mc_NotifyGroupIDs c)) (cdocs (st_managedCertificates s))"
    using certs.many_done [OF ok(2) c] by blast
  moreover have "size (cdocs c2) = size (cdocs (st_managedCertificates s))"
    unfolding cd by (simp add: size_filter_split)
  ultimately show ?thesis by (auto simp: s' s2 pull_def)
qed

end

interpretation mem_notify_refs: notify_refs mem_mongo "mem_docs un_DGroup"
  "mem_ok groups_clash un_DGroup" "mem_docs un_DCert" "mem_ok managedCertificates_clash un_DCert"
  by unfold_locales

section \<open>Access tokens\<close>

locale token_store =
  tokens: reliable_collection "certificateAccessTokens M" docs certificateAccessTokens_clash ok
  for M :: "'c mongo" and docs :: "'c \<Rightarrow> CertificateAccessToken multiset" and ok :: "'c \<Rightarrow> bool"

context token_store begin

lemma token_unique:
  "ok c \<Longrightarrow> x \<in># docs c \<Longrightarrow> y \<in># docs c \<Longrightarrow> cat_TokenHash x = cat_TokenHash y \<Longrightarrow> x = y"
  by (rule tokens.unique_match) (auto simp: certificateAccessTokens_clash_def)

lemma lookup_stored:
  assumes ok: "ok (st_certificateAccessTokens s)"
    and t: "t \<in># docs (st_certificateAccessTokens s)" "cat_TokenHash t = hash plaintext"
    and p: "has_prefix plaintext certAccessTokenSecretPrefix"
  shows "if token_live now t
    then \<exists>s'. LookupCertificateAccessToken hash M now plaintext s = (Inr (t\<lparr>cat_LastUsedAt := Some now\<rparr>), s')
    else \<exists>e s'. LookupCertificateAccessToken hash M now plaintext s = (Inl e, s') \<and> IsNotFound e"
proof -
  let ?P = "\<lambda>t. cat_TokenHash t = hash plaintext \<and> token_live now t"
  let ?f = "\<lambda>t. t\<lparr>cat_LastUsedAt := Some now\<rparr>"
  obtain r c where u: "FindOneAndUpdate (certificateAccessTokens M) ?P ?f
      (st_certificateAccessTokens s) = (r, c)" by fastforce
  have "plaintext \<noteq> []" using p by (auto simp: has_prefix_def certAccessTokenSecretPrefix_def)
  with p u have L: "LookupCertificateAccessToken hash M now plaintext s =
      (r, s\<lparr>st_certificateAccessTokens := c\<rparr>)"
    by (simp add: LookupCertificateAccessToken_def on_certificateAccessTokens_def)
  have only: "x = t" if "x \<in># docs (st_certificateAccessTokens s)" "cat_TokenHash x = hash plaintext" for x
    using token_unique [OF ok that(1) t(1)] that(2) t(2) by simp
  show ?thesis
  proof (cases r)
    case (Inr t')
    from tokens.find_update_done [OF ok u [unfolded Inr]] obtain d where
      "d \<in># docs (st_certificateAccessTokens s)" "?P d" "t' = ?f d" by blast
    with only [of d] Inr L show ?thesis by auto
  next
    case (Inl e)
    note u = u [unfolded Inl]
    have "\<not> IsDuplicateKeyError e"
    proof
      assume "IsDuplicateKeyError e"
      then obtain d x where d: "d \<in># docs (st_certificateAccessTokens s)" "?P d"
        "x \<in># docs (st_certificateAccessTokens s) - {#d#}" "certificateAccessTokens_clash x (?f d)"
        using tokens.find_update_duplicate [OF ok u] by blast
      then have "certificateAccessTokens_clash d x"
        by (auto simp: certificateAccessTokens_clash_def)
      with pairwise_msetD [OF tokens.unique [OF ok] d(1,3)] show False by simp
    qed
    with tokens.find_update_total [OF ok u] have nf: "IsNotFound e" by blast
    with tokens.find_update_none [OF ok u] t have "\<not> token_live now t" by (auto simp: no_match_def)
    with nf Inl L show ?thesis by auto
  qed
qed

end

interpretation mem_token_store: token_store mem_mongo "mem_docs un_DToken"
  "mem_ok certificateAccessTokens_clash un_DToken"
  by unfold_locales

section \<open>Properties\<close>

text \<open>
  With a working database, a list of server ids is accepted exactly when every id in it is
  non-empty and belongs to a stored server.
\<close>

theorem validateServerIDs_exact:
  assumes "reliable_servers M docs ok" and "ok (st_servers s)"
  shows "validateServerIDs M ids s = Inr () \<longleftrightarrow>
    (\<forall>i \<in> set ids. i \<noteq> [] \<and> (\<exists>x \<in># docs (st_servers s). srv_ID x = i))"
  by (rule reliable_servers.validateServerIDs_ok [OF assms])

theorem validateServerIDs_exact_witness:
  "validateServerIDs mem_mongo [''srv_1''] empty_db \<noteq> Inr ()"
  using validateServerIDs_exact [OF mem_reliable_servers.reliable_servers_axioms,
      of empty_db "[''srv_1'']"]
  by (simp add: empty_db_def)

text \<open>
  Deleting a notify group leaves no reference to it: when the call returns without error, no
  monitor group's alert policy and no managed certificate names it, and no certificate is lost.
\<close>

theorem delete_notify_group_leaves_no_reference:
  assumes "notify_refs M gdocs gok cdocs cok"
    and "gok (st_groups s)" "cok (st_managedCertificates s)"
    and "DeleteNotifyGroup M ident s = (Inr u, s')"
  shows "(\<forall>g \<in># gdocs (st_groups s'). ident \<notin> set (ap_NotifyGroupIDs (grp_AlertPolicy g))) \<and>
    (\<forall>c \<in># cdocs (st_managedCertificates s'). ident \<notin> set (mc_NotifyGroupIDs c)) \<and>
    size (cdocs (st_managedCertificates s')) = size (cdocs (st_managedCertificates s))"
  by (rule notify_refs.delete_notify_group_done [OF assms])

definition sample_notify_db :: "doc list db" where
  "sample_notify_db = empty_db
    \<lparr>st_notifyGroups := [DNotify \<lparr>ng_ID = ''ntf_1'', ng_Name = ''ops'', ng_Description = [],
       ng_Channels = [], ng_CreatedAt = 0, ng_UpdatedAt = 0\<rparr>],
     st_managedCertificates := [DCert ((sample_cert None None)\<lparr>mc_NotifyGroupIDs := [''ntf_1'']\<rparr>)]\<rparr>"

theorem delete_notify_group_leaves_no_reference_witness:
  "\<exists>s'. DeleteNotifyGroup mem_mongo ''ntf_1'' sample_notify_db = (Inr (), s') \<and>
     (\<forall>c \<in># mem_docs un_DCert (st_managedCertificates s'). ''ntf_1'' \<notin> set (mc_NotifyGroupIDs c))"
proof -
  have "\<exists>s'. DeleteNotifyGroup mem_mongo ''ntf_1'' sample_notify_db = (Inr (), s')"
    by (simp add: DeleteNotifyGroup_def sample_notify_db_def empty_db_def mem_eval
        on_notifyGroups_def on_groups_def Let_def)
  then obtain s' where d: "DeleteNotifyGroup mem_mongo ''ntf_1'' sample_notify_db = (Inr (), s')" ..
  have "mem_ok groups_clash un_DGroup (st_groups sample_notify_db)"
    "mem_ok managedCertificates_clash un_DCert (st_managedCertificates sample_notify_db)"
    by (simp_all add: sample_notify_db_def empty_db_def)
  from delete_notify_group_leaves_no_reference [OF mem_notify_refs.notify_refs_axioms this d] d
  show ?thesis by blast
qed

text \<open>
  An access token authenticates exactly while it is stored and not expired: with a working
  database, looking up the plaintext of a stored token returns that token, with its last use
  set to now, before its expiry time (or always, if it has none), and not-found afterwards.
\<close>

theorem stored_token_authenticates_until_expiry:
  assumes "token_store M docs ok" and "ok (st_certificateAccessTokens s)"
    and "t \<in># docs (st_certificateAccessTokens s)" "cat_TokenHash t = hash plaintext"
    and "has_prefix plaintext certAccessTokenSecretPrefix"
  shows "if (case cat_ExpiresAt t of None \<Rightarrow> True | Some e \<Rightarrow> now < e)
    then \<exists>s'. LookupCertificateAccessToken hash M now plaintext s = (Inr (t\<lparr>cat_LastUsedAt := Some now\<rparr>), s')
    else \<exists>e s'. LookupCertificateAccessToken hash M now plaintext s = (Inl e, s') \<and> IsNotFound e"
  using token_store.lookup_stored [where hash = hash and plaintext = plaintext, OF assms]
  unfolding token_live_def .

definition sample_token :: CertificateAccessToken where
  "sample_token = \<lparr>cat_ID = ''cat_1'', cat_ServerID = ''srv_1'', cat_Name = ''t'',
     cat_TokenHash = ''nlct_ab'', cat_Prefix = ''nlct_ab'', cat_CreatedAt = 0, cat_LastUsedAt = None,
     cat_ExpiresAt = Some 100\<rparr>"

theorem stored_token_authenticates_until_expiry_witness:
  "\<exists>e s'. LookupCertificateAccessToken id mem_mongo 100 ''nlct_ab''
     (empty_db\<lparr>st_certificateAccessTokens := [DToken sample_token]\<rparr>) = (Inl e, s') \<and> IsNotFound e"
  using stored_token_authenticates_until_expiry [OF mem_token_store.token_store_axioms,
      of "empty_db\<lparr>st_certificateAccessTokens := [DToken sample_token]\<rparr>" sample_token id "''nlct_ab''" 100]
  by (simp add: sample_token_def has_prefix_def certAccessTokenSecretPrefix_def)

end
