(* ===== verification/CertManager.thy ===== *)
theory CertManager
  imports ResourceStore Validity Domains
begin

text \<open>
  The administrator-facing half of internal/certmanager: managed_certificate.go, renew.go,
  revoke.go, version.go, server_distribution.go, destructive.go and the bundle reads of issue.go.
  A method that ends in \<open>triggerOperation(op.ID)\<close> returns that id as an \<open>option\<close> beside its result
  (the runner of OperationRunner.thy receives it). \<open>ul\<close> and \<open>idna\<close> are as in Domains; every
  \<open>m.clock.Now()\<close> and \<open>time.Now()\<close> is an argument.
\<close>

section \<open>Views\<close>

record PublicOperation =
  po_ID :: string
  po_ManagedCertificateID :: string
  po_Type :: string
  po_Status :: string
  po_AttemptCount :: u32
  po_ConfigSnapshot :: IssueConfigSnapshot
  po_TargetVersionID :: string
  po_RevokeReason :: u32
  po_ErrorSummary :: string
  po_Warning :: string
  po_StartedAt :: "gotime option"
  po_FinishedAt :: "gotime option"
  po_NextAttemptAt :: "gotime option"
  po_CreatedAt :: gotime
  po_UpdatedAt :: gotime

definition publicOperationFromStore :: "CertificateOperation \<Rightarrow> PublicOperation" where
  "publicOperationFromStore op =
     \<lparr>po_ID = op_ID op, po_ManagedCertificateID = op_ManagedCertificateID op, po_Type = op_Type op,
      po_Status = op_Status op, po_AttemptCount = op_AttemptCount op,
      po_ConfigSnapshot = op_ConfigSnapshot op, po_TargetVersionID = op_TargetVersionID op,
      po_RevokeReason = op_RevokeReason op, po_ErrorSummary = op_ErrorSummary op,
      po_Warning = op_Warning op, po_StartedAt = op_StartedAt op, po_FinishedAt = op_FinishedAt op,
      po_NextAttemptAt = op_NextAttemptAt op, po_CreatedAt = op_CreatedAt op,
      po_UpdatedAt = op_UpdatedAt op\<rparr>"

text \<open>\<open>time.Time.Unix\<close>: whole seconds, rounded down.\<close>

definition unix :: "gotime \<Rightarrow> int" where
  "unix t = t div Second"

record PublicCertificateVersion =
  pv_ID :: string
  pv_ConfigSnapshot :: IssueConfigSnapshot
  pv_LeafFingerprint :: string
  pv_SerialNumber :: string
  pv_IssuerCommonName :: string
  pv_NotBefore :: int
  pv_NotAfter :: int
  pv_KeyType :: string
  pv_StagingUntrusted :: bool
  pv_CreatedAt :: int
  pv_RevokedAt :: int
  pv_RevokePending :: bool

definition publicVersionFromStore :: "CertificateVersion option \<Rightarrow> PublicCertificateVersion option" where
  "publicVersionFromStore v = map_option (\<lambda>v.
     \<lparr>pv_ID = cv_ID v, pv_ConfigSnapshot = cv_ConfigSnapshot v,
      pv_LeafFingerprint = cv_LeafFingerprint v, pv_SerialNumber = cv_SerialNumber v,
      pv_IssuerCommonName = cv_IssuerCommonName v, pv_NotBefore = unix (cv_NotBefore v),
      pv_NotAfter = unix (cv_NotAfter v), pv_KeyType = cv_KeyType v,
      pv_StagingUntrusted = cv_StagingUntrusted v, pv_CreatedAt = unix (cv_CreatedAt v),
      pv_RevokedAt = (case cv_RevokedAt v of None \<Rightarrow> 0 | Some t \<Rightarrow> unix t),
      pv_RevokePending = cv_RevokePending v\<rparr>) v"

definition nextRenewalAt :: "CertificateVersion option \<Rightarrow> u32 \<Rightarrow> gotime option" where
  "nextRenewalAt v renewBeforeDays =
     (case v of
        None \<Rightarrow> None
      | Some ver \<Rightarrow>
          if \<not> VersionDistributable v then None
          else Some (cv_NotAfter ver -
                 EffectiveRenewalWindow (cv_NotBefore ver) (cv_NotAfter ver) renewBeforeDays))"

definition renewalMetadata :: "ManagedCertificate \<Rightarrow> gotime \<Rightarrow> u32 \<times> gotime option" where
  "renewalMetadata cert now =
     (case mc_ActiveVersion cert of
        None \<Rightarrow> (0, None)
      | Some v \<Rightarrow>
          let effectiveDays = EffectiveRenewalWindowDays (cv_NotBefore v) (cv_NotAfter v) (mc_RenewBeforeDays cert);
              nextAt = nextRenewalAt (Some v) (mc_RenewBeforeDays cert)
          in if nextAt \<noteq> None \<and> cv_NotAfter v < now then (effectiveDays, None) else (effectiveDays, nextAt))"

definition desiredDiffersFromActive :: "ManagedCertificate \<Rightarrow> bool" where
  "desiredDiffersFromActive cert =
     (case mc_ActiveVersion cert of
        None \<Rightarrow> False
      | Some v \<Rightarrow>
          let snap = cv_ConfigSnapshot v in
          mc_CertificateIssuerID cert \<noteq> is_CertificateIssuerID snap \<or>
          mc_DNSProviderAccountID cert \<noteq> is_DNSProviderAccountID snap \<or>
          mc_KeyType cert \<noteq> is_KeyType snap \<or> mc_Domains cert \<noteq> is_Domains snap)"

definition notificationWarning :: "ManagedCertificate \<Rightarrow> string" where
  "notificationWarning cert =
     (case mc_NotificationState cert of None \<Rightarrow> [] | Some n \<Rightarrow> ns_LastNotificationWarning n)"

definition notificationWarningAt :: "ManagedCertificate \<Rightarrow> gotime option" where
  "notificationWarningAt cert =
     (case mc_NotificationState cert of None \<Rightarrow> None | Some n \<Rightarrow> ns_LastNotificationWarningAt n)"

record PublicManagedCertificate =
  pc_ID :: string
  pc_Name :: string
  pc_Domains :: "string list"
  pc_CertificateIssuerID :: string
  pc_DNSProviderAccountID :: string
  pc_KeyType :: string
  pc_AutoRenewEnabled :: bool
  pc_RenewBeforeDays :: u32
  pc_EffectiveRenewalWindowDays :: u32
  pc_NextRenewalAt :: "gotime option"
  pc_NotifyGroupIDs :: "string list"
  pc_ServerIDs :: "string list"
  pc_ActiveValidity :: string
  pc_BundleAvailable :: bool
  pc_ActiveVersion :: "PublicCertificateVersion option"
  pc_PreviousVersion :: "PublicCertificateVersion option"
  pc_HasUnpublishedDesiredChanges :: bool
  pc_LatestOperation :: "PublicOperation option"
  pc_LastNotificationWarning :: string
  pc_LastNotificationWarningAt :: "gotime option"
  pc_CreatedAt :: gotime
  pc_UpdatedAt :: gotime

definition publicCertFromStore ::
  "ManagedCertificate \<Rightarrow> CertificateOperation option \<Rightarrow> gotime \<Rightarrow> PublicManagedCertificate" where
  "publicCertFromStore cert latest now =
     (let (validity, available) = ComputeValidity cert now;
          (effectiveDays, nextAt) = renewalMetadata cert now
      in \<lparr>pc_ID = mc_ID cert, pc_Name = mc_Name cert, pc_Domains = mc_Domains cert,
          pc_CertificateIssuerID = mc_CertificateIssuerID cert,
          pc_DNSProviderAccountID = mc_DNSProviderAccountID cert, pc_KeyType = mc_KeyType cert,
          pc_AutoRenewEnabled = mc_AutoRenewEnabled cert, pc_RenewBeforeDays = mc_RenewBeforeDays cert,
          pc_EffectiveRenewalWindowDays = effectiveDays, pc_NextRenewalAt = nextAt,
          pc_NotifyGroupIDs = mc_NotifyGroupIDs cert, pc_ServerIDs = mc_ServerIDs cert,
          pc_ActiveValidity = validity, pc_BundleAvailable = available,
          pc_ActiveVersion = publicVersionFromStore (mc_ActiveVersion cert),
          pc_PreviousVersion = publicVersionFromStore (mc_PreviousVersion cert),
          pc_HasUnpublishedDesiredChanges = desiredDiffersFromActive cert,
          pc_LatestOperation = map_option publicOperationFromStore latest,
          pc_LastNotificationWarning = notificationWarning cert,
          pc_LastNotificationWarningAt = notificationWarningAt cert,
          pc_CreatedAt = mc_CreatedAt cert, pc_UpdatedAt = mc_UpdatedAt cert\<rparr>)"

text \<open>\<open>if err != nil && !store.IsNotFound(err) { return err }\<close>: not found is no value.\<close>

definition optional :: "err + 'a \<Rightarrow> err + 'a option" where
  "optional r =
     (case r of Inr a \<Rightarrow> Inr (Some a) | Inl e \<Rightarrow> if IsNotFound e then Inr None else Inl e)"

definition withLatestOperation ::
  "'c mongo \<Rightarrow> gotime \<Rightarrow> ManagedCertificate \<Rightarrow> string \<Rightarrow> 'c db \<Rightarrow> err + PublicManagedCertificate" where
  "withLatestOperation M now cert ident s =
     map_sum id (\<lambda>latest. publicCertFromStore cert latest now)
       (optional (LatestCertificateOperation M ident s))"

definition managerGetCertificate ::
  "'c mongo \<Rightarrow> gotime \<Rightarrow> string \<Rightarrow> 'c db \<Rightarrow> err + PublicManagedCertificate" where
  "managerGetCertificate M now ident s =
     (case GetManagedCertificate M ident s of
        Inl e \<Rightarrow> Inl e
      | Inr cert \<Rightarrow> withLatestOperation M now cert ident s)"

definition managerListCertificates ::
  "'c mongo \<Rightarrow> gotime \<Rightarrow> int \<Rightarrow> string \<Rightarrow> 'c db \<Rightarrow> err + (PublicManagedCertificate list \<times> string)" where
  "managerListCertificates M now limit pageToken s =
     map_sum id (\<lambda>(certs, token). (map (\<lambda>cert. publicCertFromStore cert None now) certs, token))
       (ListManagedCertificates M limit pageToken s)"

definition managerActivatePreviousVersion ::
  "'c mongo \<Rightarrow> gotime \<Rightarrow> string \<Rightarrow> string \<Rightarrow> 'c db \<Rightarrow> (err + PublicManagedCertificate) \<times> 'c db" where
  "managerActivatePreviousVersion M now ident versionID s =
     and_then (ActivatePreviousVersion M now ident versionID s) (\<lambda>_ s.
     (managerGetCertificate M now ident s, s))"

section \<open>Building a certificate from a request\<close>

record ManagedCertificateInput =
  in_Name :: string
  in_Domains :: "string list"
  in_CertificateIssuerID :: string
  in_DNSProviderAccountID :: string
  in_KeyType :: string
  in_AutoRenewEnabled :: "bool option"
  in_RenewBeforeDays :: u32
  in_NotifyGroupIDs :: "string list"
  in_ServerIDs :: "string list"

text \<open>The zero value of the struct, which a create request passes as the existing certificate.\<close>

definition zero_cert :: ManagedCertificate where
  "zero_cert = \<lparr>mc_ID = [], mc_Name = [], mc_Domains = [], mc_CertificateIssuerID = [],
     mc_DNSProviderAccountID = [], mc_KeyType = [], mc_AutoRenewEnabled = False,
     mc_RenewBeforeDays = 0, mc_NotifyGroupIDs = [], mc_ServerIDs = [], mc_NotificationState = None,
     mc_ActiveVersion = None, mc_PreviousVersion = None, mc_CreatedAt = zero_time,
     mc_UpdatedAt = zero_time\<rparr>"

definition buildManagedCertificate ::
  "(string \<Rightarrow> string) \<Rightarrow> (string \<Rightarrow> string option) \<Rightarrow> ManagedCertificateInput \<Rightarrow> ManagedCertificate \<Rightarrow>
    err + ManagedCertificate" where
  "buildManagedCertificate ul idna input existing =
     (let name = trim_space (in_Name input) in
      if name = [] then Inl (CertE ErrManagedCertificateNameRequired)
      else case NormalizeDomains ul idna (in_Domains input) of
        Inl e \<Rightarrow> Inl e
      | Inr domains \<Rightarrow>
          let issuerID = trim_space (in_CertificateIssuerID input);
              dnsID = trim_space (in_DNSProviderAccountID input) in
          if issuerID = [] then Inl (CertE ErrCertificateIssuerRequired)
          else if dnsID = [] then Inl (CertE ErrDNSAccountRequired)
          else case normalizeKeyType ul (in_KeyType input) of
            Inl e \<Rightarrow> Inl e
          | Inr keyType \<Rightarrow>
              let renewBefore =
                    (if in_RenewBeforeDays input = 0
                     then (if mc_RenewBeforeDays existing \<noteq> 0 then mc_RenewBeforeDays existing
                           else DefaultRenewBeforeDays)
                     else in_RenewBeforeDays input);
                  autoRenew = (case in_AutoRenewEnabled input of
                     Some b \<Rightarrow> b
                   | None \<Rightarrow> if mc_ID existing = [] then True else mc_AutoRenewEnabled existing)
              in Inr (zero_cert\<lparr>mc_ID := mc_ID existing, mc_Name := name, mc_Domains := domains,
                   mc_CertificateIssuerID := issuerID, mc_DNSProviderAccountID := dnsID,
                   mc_KeyType := keyType, mc_AutoRenewEnabled := autoRenew,
                   mc_RenewBeforeDays := renewBefore, mc_NotifyGroupIDs := in_NotifyGroupIDs input,
                   mc_ServerIDs := in_ServerIDs input, mc_CreatedAt := mc_CreatedAt existing\<rparr>))"

definition issueFieldsChanged :: "ManagedCertificate \<Rightarrow> ManagedCertificate \<Rightarrow> bool" where
  "issueFieldsChanged before after \<longleftrightarrow>
     mc_CertificateIssuerID before \<noteq> mc_CertificateIssuerID after \<or>
     mc_DNSProviderAccountID before \<noteq> mc_DNSProviderAccountID after \<or>
     mc_KeyType before \<noteq> mc_KeyType after \<or> mc_Domains before \<noteq> mc_Domains after"

definition validateManagedCertificateRefs :: "'c mongo \<Rightarrow> ManagedCertificate \<Rightarrow> 'c db \<Rightarrow> err + unit" where
  "validateManagedCertificateRefs M cert s =
     (case GetCertificateIssuer M (mc_CertificateIssuerID cert) s of
        Inl e \<Rightarrow> Inl (if IsNotFound e then CertE ErrCertificateIssuerRequired else e)
      | Inr issuer \<Rightarrow>
          if iss_RegistrationStatus issuer \<noteq> IssuerRegistrationReady then Inl (CertE ErrIssuerNotReady)
          else if trim_space (iss_AccountURI issuer) = [] then Inl (CertE ErrIssuerAccountURIRequired)
          else case GetDNSProviderAccount M (mc_DNSProviderAccountID cert) s of
            Inl e \<Rightarrow> Inl (if IsNotFound e then CertE ErrDNSAccountRequired else e)
          | Inr _ \<Rightarrow>
              (case validateNotifyGroupIDs M (mc_NotifyGroupIDs cert) s of
                 Inl e \<Rightarrow> Inl e
               | Inr _ \<Rightarrow> validateServerIDs M (mc_ServerIDs cert) s))"

section \<open>Submitting operations\<close>

definition desiredSnapshot :: "ManagedCertificate \<Rightarrow> IssueConfigSnapshot" where
  "desiredSnapshot cert =
     \<lparr>is_Domains = mc_Domains cert, is_CertificateIssuerID = mc_CertificateIssuerID cert,
      is_DNSProviderAccountID = mc_DNSProviderAccountID cert, is_KeyType = mc_KeyType cert\<rparr>"

text \<open>The \<open>store.CertificateOperation\<close> literals of the three submissions.\<close>

definition pendingOperation ::
  "string \<Rightarrow> string \<Rightarrow> IssueConfigSnapshot \<Rightarrow> string \<Rightarrow> u32 \<Rightarrow> CertificateOperation" where
  "pendingOperation certID opType snapshot targetVersionID reason =
     \<lparr>op_ID = [], op_ManagedCertificateID = certID, op_Type = opType,
      op_Status = CertOpStatusPending, op_AttemptCount = 0, op_ConsecutiveFailures = 0,
      op_ConfigSnapshot = snapshot, op_ErrorSummary = [], op_Warning = [], op_LeaseOwner = [],
      op_LeaseExpiresAt = None, op_PendingTXTRecords = [], op_TargetVersionID = targetVersionID,
      op_RevokeReason = reason, op_StartedAt = None, op_FinishedAt = None, op_NextAttemptAt = None,
      op_DeadlineAt = None, op_CreatedAt = zero_time, op_UpdatedAt = zero_time\<rparr>"

text \<open>
  The common start of the three \<open>createPending...Operation\<close> functions: an operation of the same type in
  flight is returned, one of another type is an error.
\<close>

definition createUnlessInFlight ::
  "'c mongo \<Rightarrow> gotime \<Rightarrow> string \<Rightarrow> string \<Rightarrow> string \<Rightarrow> (err + CertificateOperation) \<Rightarrow> 'c db \<Rightarrow>
    (err + CertificateOperation) \<times> 'c db" where
  "createUnlessInFlight M now uuid certID opType new s =
     and_then (optional (FindRunningCertificateOperation M certID opType s), s) (\<lambda>existing s.
     case existing of
       Some op \<Rightarrow> (Inr op, s)
     | None \<Rightarrow>
         and_then (HasRunningCertificateOperation M certID s, s) (\<lambda>running s.
         if running then (Inl (CertE ErrIssuanceOperationInFlight), s)
         else and_then (new, s) (\<lambda>op s. CreateCertificateOperation M now uuid op s)))"

definition createPendingIssueOperation ::
  "'c mongo \<Rightarrow> gotime \<Rightarrow> string \<Rightarrow> ManagedCertificate \<Rightarrow> 'c db \<Rightarrow>
    (err + CertificateOperation) \<times> 'c db" where
  "createPendingIssueOperation M now uuid cert s =
     createUnlessInFlight M now uuid (mc_ID cert) CertOpTypeIssue
       (Inr (pendingOperation (mc_ID cert) CertOpTypeIssue (desiredSnapshot cert) [] 0)) s"

definition createPendingRenewOperation ::
  "'c mongo \<Rightarrow> gotime \<Rightarrow> string \<Rightarrow> ManagedCertificate \<Rightarrow> 'c db \<Rightarrow>
    (err + CertificateOperation) \<times> 'c db" where
  "createPendingRenewOperation M now uuid cert s =
     createUnlessInFlight M now uuid (mc_ID cert) CertOpTypeRenew
       (case mc_ActiveVersion cert of
          None \<Rightarrow> Inl (CertE ErrNoActiveVersion)
        | Some v \<Rightarrow> Inr (pendingOperation (mc_ID cert) CertOpTypeRenew (cv_ConfigSnapshot v) [] 0)) s"

definition createPendingRevokeOperation ::
  "'c mongo \<Rightarrow> gotime \<Rightarrow> string \<Rightarrow> ManagedCertificate \<Rightarrow> string \<Rightarrow> u32 \<Rightarrow> CertificateVersion \<Rightarrow> 'c db \<Rightarrow>
    (err + CertificateOperation) \<times> 'c db" where
  "createPendingRevokeOperation M now uuid cert versionID reason target s =
     createUnlessInFlight M now uuid (mc_ID cert) CertOpTypeRevoke
       (let snapshot = (if is_Domains (cv_ConfigSnapshot target) = [] then desiredSnapshot cert
                        else cv_ConfigSnapshot target)
        in Inr (pendingOperation (mc_ID cert) CertOpTypeRevoke snapshot versionID reason)) s"

fun noneInFlight :: "'c mongo \<Rightarrow> string \<Rightarrow> string \<Rightarrow> string list \<Rightarrow> 'c db \<Rightarrow> err + unit" where
  "noneInFlight M certID selfType [] s = Inr ()"
| "noneInFlight M certID selfType (opType # opTypes) s =
     (if opType = selfType then noneInFlight M certID selfType opTypes s
      else case FindRunningCertificateOperation M certID opType s of
             Inr _ \<Rightarrow> Inl (CertE ErrIssuanceOperationInFlight)
           | Inl e \<Rightarrow> if IsNotFound e then noneInFlight M certID selfType opTypes s else Inl e)"

definition ensureNoConflictingIssuance :: "'c mongo \<Rightarrow> string \<Rightarrow> string \<Rightarrow> 'c db \<Rightarrow> err + unit" where
  "ensureNoConflictingIssuance M certID selfType s =
     (case HasRunningCertificateOperation M certID s of
        Inl e \<Rightarrow> Inl e
      | Inr running \<Rightarrow>
          if \<not> running then Inr ()
          else noneInFlight M certID selfType [CertOpTypeIssue, CertOpTypeRenew, CertOpTypeRevoke] s)"

definition SubmitIssueOperation ::
  "'c mongo \<Rightarrow> gotime \<Rightarrow> string \<Rightarrow> string \<Rightarrow> 'c db \<Rightarrow> (err + PublicOperation \<times> string option) \<times> 'c db" where
  "SubmitIssueOperation M now uuid certID s =
     and_then (optional (FindRunningCertificateOperation M certID CertOpTypeIssue s), s) (\<lambda>existing s.
     case existing of
       Some op \<Rightarrow> (Inr (publicOperationFromStore op, None), s)
     | None \<Rightarrow>
         and_then (ensureNoConflictingIssuance M certID CertOpTypeIssue s, s) (\<lambda>_ s.
         and_then (GetManagedCertificate M certID s, s) (\<lambda>cert s.
         and_then (createPendingIssueOperation M now uuid cert s) (\<lambda>op s.
         (Inr (publicOperationFromStore op, Some (op_ID op)), s)))))"

definition SubmitRenewOperation ::
  "'c mongo \<Rightarrow> gotime \<Rightarrow> string \<Rightarrow> string \<Rightarrow> 'c db \<Rightarrow> (err + PublicOperation \<times> string option) \<times> 'c db" where
  "SubmitRenewOperation M now uuid certID s =
     and_then (optional (FindRunningCertificateOperation M certID CertOpTypeRenew s), s) (\<lambda>existing s.
     case existing of
       Some op \<Rightarrow> (Inr (publicOperationFromStore op, None), s)
     | None \<Rightarrow>
         and_then (ensureNoConflictingIssuance M certID CertOpTypeRenew s, s) (\<lambda>_ s.
         and_then (GetManagedCertificate M certID s, s) (\<lambda>cert s.
         if mc_ActiveVersion cert = None then (Inl (CertE ErrNoActiveVersion), s)
         else and_then (createPendingRenewOperation M now uuid cert s) (\<lambda>op s.
         (Inr (publicOperationFromStore op, Some (op_ID op)), s)))))"

definition maxRevokeReason :: u32 where
  "maxRevokeReason = 10"

definition versionByID :: "ManagedCertificate \<Rightarrow> string \<Rightarrow> err + CertificateVersion" where
  "versionByID cert versionID =
     (case mc_ActiveVersion cert of
        Some v \<Rightarrow> if cv_ID v = versionID then Inr v else
          (case mc_PreviousVersion cert of
             Some p \<Rightarrow> if cv_ID p = versionID then Inr p else Inl (StoreE ErrVersionNotFound)
           | None \<Rightarrow> Inl (StoreE ErrVersionNotFound))
      | None \<Rightarrow>
          (case mc_PreviousVersion cert of
             Some p \<Rightarrow> if cv_ID p = versionID then Inr p else Inl (StoreE ErrVersionNotFound)
           | None \<Rightarrow> Inl (StoreE ErrVersionNotFound)))"

definition SubmitRevokeVersion ::
  "'c mongo \<Rightarrow> gotime \<Rightarrow> string \<Rightarrow> string \<Rightarrow> string \<Rightarrow> u32 \<Rightarrow> 'c db \<Rightarrow>
    (err + PublicOperation \<times> string option) \<times> 'c db" where
  "SubmitRevokeVersion M now uuid certID versionID reason s =
     (if reason > maxRevokeReason then (Inl (CertE ErrInvalidRevocationReason), s)
      else and_then (optional (FindRunningCertificateOperation M certID CertOpTypeRevoke s), s) (\<lambda>existing s.
      case existing of
        Some op \<Rightarrow> (Inr (publicOperationFromStore op, None), s)
      | None \<Rightarrow>
          and_then (ensureNoConflictingIssuance M certID CertOpTypeRevoke s, s) (\<lambda>_ s.
          and_then (GetManagedCertificate M certID s, s) (\<lambda>cert s.
          and_then (versionByID cert versionID, s) (\<lambda>target s.
          if cv_RevokedAt target \<noteq> None then (Inl (StoreE ErrVersionRevoked), s)
          else if cv_RevokePending target then (Inl (StoreE ErrVersionRevokePending), s)
          else and_then (MarkVersionRevokePending M now certID versionID s) (\<lambda>_ s.
          case createPendingRevokeOperation M now uuid cert versionID reason target s of
            (Inl e, s) \<Rightarrow> (Inl e, snd (ClearVersionRevokePending M now certID versionID s))
          | (Inr op, s) \<Rightarrow> (Inr (publicOperationFromStore op, Some (op_ID op)), s)))))))"

section \<open>Creating and updating certificates\<close>

definition managerCreateCertificate ::
  "(string \<Rightarrow> string) \<Rightarrow> (string \<Rightarrow> string option) \<Rightarrow> 'c mongo \<Rightarrow> gotime \<Rightarrow> string \<Rightarrow> string \<Rightarrow>
    ManagedCertificateInput \<Rightarrow> 'c db \<Rightarrow> (err + PublicManagedCertificate \<times> string option) \<times> 'c db" where
  "managerCreateCertificate ul idna M now uuid opUuid input s =
     and_then (buildManagedCertificate ul idna input zero_cert, s) (\<lambda>cert s.
     and_then (validateManagedCertificateRefs M cert s, s) (\<lambda>_ s.
     and_then (CreateManagedCertificate M now uuid cert s) (\<lambda>created s.
     and_then (createPendingIssueOperation M now opUuid created s) (\<lambda>op s.
     (Inr (publicCertFromStore created (Some op) now, Some (op_ID op)), s)))))"

definition updateOf :: "ManagedCertificate \<Rightarrow> ManagedCertificateUpdate" where
  "updateOf c = \<lparr>mu_Name = mc_Name c, mu_Domains = mc_Domains c,
     mu_CertificateIssuerID = mc_CertificateIssuerID c,
     mu_DNSProviderAccountID = mc_DNSProviderAccountID c, mu_KeyType = mc_KeyType c,
     mu_AutoRenewEnabled = mc_AutoRenewEnabled c, mu_RenewBeforeDays = mc_RenewBeforeDays c,
     mu_NotifyGroupIDs = mc_NotifyGroupIDs c, mu_ServerIDs = mc_ServerIDs c\<rparr>"

definition managerUpdateCertificate ::
  "(string \<Rightarrow> string) \<Rightarrow> (string \<Rightarrow> string option) \<Rightarrow> 'c mongo \<Rightarrow> gotime \<Rightarrow> string \<Rightarrow>
    ManagedCertificateInput \<Rightarrow> 'c db \<Rightarrow> (err + PublicManagedCertificate) \<times> 'c db" where
  "managerUpdateCertificate ul idna M now ident input s =
     and_then (GetManagedCertificate M ident s, s) (\<lambda>existing s.
     and_then (buildManagedCertificate ul idna input existing, s) (\<lambda>updated s.
     and_then (validateManagedCertificateRefs M updated s, s) (\<lambda>_ s.
     and_then (optional (FindRunningCertificateOperation M ident CertOpTypeIssue s), s) (\<lambda>issueRunning s.
     and_then (optional (FindRunningCertificateOperation M ident CertOpTypeRenew s), s) (\<lambda>renewRunning s.
     and_then (optional (FindRunningCertificateOperation M ident CertOpTypeRevoke s), s) (\<lambda>revokeRunning s.
     if (issueRunning \<noteq> None \<or> renewRunning \<noteq> None \<or> revokeRunning \<noteq> None) \<and>
        issueFieldsChanged existing updated
     then (Inl (CertE ErrIssueFieldsLocked), s)
     else and_then (UpdateManagedCertificate M now ident (updateOf updated) s) (\<lambda>saved s.
     (withLatestOperation M now saved ident s, s))))))))"

definition ensureIssuerDeletable :: "'c mongo \<Rightarrow> string \<Rightarrow> 'c db \<Rightarrow> err + unit" where
  "ensureIssuerDeletable M issuerID s =
     (case CountManagedCertificatesReferencingIssuer M issuerID s of
        Inl e \<Rightarrow> Inl e
      | Inr n \<Rightarrow> if n > 0 then Inl (StoreE ErrCertificateResourceReferenced) else Inr ())"

definition ensureDNSAccountDeletable :: "'c mongo \<Rightarrow> string \<Rightarrow> 'c db \<Rightarrow> err + unit" where
  "ensureDNSAccountDeletable M dnsID s =
     (case CountManagedCertificatesReferencingDNSAccount M dnsID s of
        Inl e \<Rightarrow> Inl e
      | Inr n \<Rightarrow> if n > 0 then Inl (StoreE ErrCertificateResourceReferenced) else Inr ())"

section \<open>Automatic renewal\<close>

text \<open>
  One certificate of the reconcile loop: the id of the operation it triggers, if any. Every error
  is logged and the loop goes on with the next certificate.
\<close>

definition reconcileOne ::
  "'c mongo \<Rightarrow> gotime \<Rightarrow> string \<Rightarrow> ManagedCertificate \<Rightarrow> 'c db \<Rightarrow> string option \<times> 'c db" where
  "reconcileOne M now uuid cert s =
     (if mc_ActiveVersion cert = None \<or> \<not> mc_AutoRenewEnabled cert then (None, s)
      else if fst (ComputeValidity cert now) \<noteq> CertValidityRenewalDue then (None, s)
      else case optional (FindRunningCertificateOperation M (mc_ID cert) CertOpTypeRenew s) of
        Inl e \<Rightarrow> (None, s)
      | Inr (Some op) \<Rightarrow> (None, s)
      | Inr None \<Rightarrow>
          (case ensureNoConflictingIssuance M (mc_ID cert) CertOpTypeRenew s of
             Inl e \<Rightarrow> (None, s)
           | Inr _ \<Rightarrow>
               (case createPendingRenewOperation M now uuid cert s of
                  (Inl e, s) \<Rightarrow> (None, s)
                | (Inr op, s) \<Rightarrow> (Some (op_ID op), s))))"

text \<open>The uuids of the operations the loop creates are those of \<open>uuids\<close>, one per certificate.\<close>

fun reconcileEach ::
  "'c mongo \<Rightarrow> gotime \<Rightarrow> (ManagedCertificate \<times> string) list \<Rightarrow> 'c db \<Rightarrow> string list \<times> 'c db" where
  "reconcileEach M now [] s = ([], s)"
| "reconcileEach M now ((cert, uuid) # certs) s =
     (let (t, s) = reconcileOne M now uuid cert s;
          (ts, s) = reconcileEach M now certs s
      in ((case t of None \<Rightarrow> ts | Some i \<Rightarrow> i # ts), s))"

definition reconcileAutoRenew ::
  "'c mongo \<Rightarrow> gotime \<Rightarrow> string list \<Rightarrow> 'c db \<Rightarrow> string list \<times> 'c db" where
  "reconcileAutoRenew M now uuids s =
     (case ListAutoRenewManagedCertificates M s of
        Inl e \<Rightarrow> ([], s)
      | Inr certs \<Rightarrow> reconcileEach M now (zip certs uuids) s)"

section \<open>Distribution\<close>

record CertificateBundle =
  cb_ManagedCertificateID :: string
  cb_VersionID :: string
  cb_Domains :: "string list"
  cb_KeyType :: string
  cb_LeafFingerprint :: string
  cb_NotBefore :: int
  cb_NotAfter :: int
  cb_Validity :: string
  cb_StagingUntrusted :: bool
  cb_FullchainPEM :: string
  cb_PrivateKeyPEM :: string

definition VersionSlotPrevious :: string where
  "VersionSlotPrevious = ''previous''"

definition versionFromSlot :: "ManagedCertificate \<Rightarrow> string \<Rightarrow> CertificateVersion option" where
  "versionFromSlot cert slot =
     (if slot = VersionSlotPrevious then mc_PreviousVersion cert else mc_ActiveVersion cert)"

text \<open>The \<open>CertificateBundle\<close> literal of \<open>GetCertificateBundle\<close> and \<open>bundleFromActive\<close>.\<close>

definition bundleOf :: "ManagedCertificate \<Rightarrow> CertificateVersion \<Rightarrow> string \<Rightarrow> CertificateBundle" where
  "bundleOf cert v validity =
     \<lparr>cb_ManagedCertificateID = mc_ID cert, cb_VersionID = cv_ID v,
      cb_Domains = is_Domains (cv_ConfigSnapshot v), cb_KeyType = cv_KeyType v,
      cb_LeafFingerprint = cv_LeafFingerprint v, cb_NotBefore = unix (cv_NotBefore v),
      cb_NotAfter = unix (cv_NotAfter v), cb_Validity = validity,
      cb_StagingUntrusted = cv_StagingUntrusted v, cb_FullchainPEM = cv_FullchainPEM v,
      cb_PrivateKeyPEM = cv_PrivateKeyPEM v\<rparr>"

definition GetCertificateBundle ::
  "'c mongo \<Rightarrow> gotime \<Rightarrow> string \<Rightarrow> string \<Rightarrow> 'c db \<Rightarrow> err + CertificateBundle" where
  "GetCertificateBundle M now certID slot s =
     (case GetManagedCertificate M certID s of
        Inl e \<Rightarrow> Inl e
      | Inr cert \<Rightarrow>
          (case versionFromSlot cert slot of
             None \<Rightarrow> Inl (CertE ErrBundleNotAvailable)
           | Some v \<Rightarrow>
               if \<not> VersionDistributable (Some v) then Inl (CertE ErrBundleNotAvailable)
               else let (validity, available) =
                      ComputeVersionValidity (Some v) (mc_RenewBeforeDays cert) now in
                    if \<not> available then Inl (CertE ErrBundleNotAvailable)
                    else Inr (bundleOf cert v validity)))"

definition serverAssigned :: "ManagedCertificate \<Rightarrow> string \<Rightarrow> bool" where
  "serverAssigned cert serverID \<longleftrightarrow> serverID \<in> set (mc_ServerIDs cert)"

definition GetServerCertificateBundle ::
  "'c mongo \<Rightarrow> gotime \<Rightarrow> string \<Rightarrow> string \<Rightarrow> 'c db \<Rightarrow> err + CertificateBundle" where
  "GetServerCertificateBundle M now serverID certID s =
     (case GetManagedCertificate M certID s of
        Inl e \<Rightarrow> Inl (if IsNotFound e then CertE ErrCertificateNotAuthorized else e)
      | Inr cert \<Rightarrow>
          if \<not> serverAssigned cert serverID then Inl (CertE ErrCertificateNotAuthorized)
          else case mc_ActiveVersion cert of
            None \<Rightarrow> Inl (CertE ErrBundleNotAvailable)
          | Some v \<Rightarrow>
              if \<not> VersionDistributable (Some v) then Inl (CertE ErrBundleNotAvailable)
              else Inr (bundleOf cert v (fst (ComputeValidity cert now))))"

record ServerCertificate =
  sc_ManagedCertificateID :: string
  sc_Name :: string
  sc_Domains :: "string list"
  sc_ActiveVersionID :: string
  sc_Available :: bool
  sc_Validity :: string
  sc_KeyType :: string
  sc_LeafFingerprint :: string
  sc_NotBefore :: int
  sc_NotAfter :: int
  sc_StagingUntrusted :: bool
  sc_ErrorSummary :: string

definition serverCertificateEntry ::
  "'c mongo \<Rightarrow> ManagedCertificate \<Rightarrow> gotime \<Rightarrow> 'c db \<Rightarrow> err + ServerCertificate" where
  "serverCertificateEntry M cert now s =
     (case mc_ActiveVersion cert of
        None \<Rightarrow>
          map_sum id (\<lambda>latest.
            \<lparr>sc_ManagedCertificateID = mc_ID cert, sc_Name = mc_Name cert, sc_Domains = mc_Domains cert,
             sc_ActiveVersionID = [], sc_Available = False, sc_Validity = CertValidityMissing,
             sc_KeyType = [], sc_LeafFingerprint = [], sc_NotBefore = 0, sc_NotAfter = 0,
             sc_StagingUntrusted = False,
             sc_ErrorSummary =
               (case latest of
                  None \<Rightarrow> []
                | Some op \<Rightarrow> if op_Status op = CertOpStatusFailed \<and> op_ErrorSummary op \<noteq> []
                     then op_ErrorSummary op else [])\<rparr>)
            (optional (LatestCertificateOperation M (mc_ID cert) s))
      | Some v \<Rightarrow>
          let (validity, available) = ComputeValidity cert now in
          Inr \<lparr>sc_ManagedCertificateID = mc_ID cert, sc_Name = [],
               sc_Domains = is_Domains (cv_ConfigSnapshot v), sc_ActiveVersionID = cv_ID v,
               sc_Available = available, sc_Validity = validity, sc_KeyType = cv_KeyType v,
               sc_LeafFingerprint = cv_LeafFingerprint v, sc_NotBefore = unix (cv_NotBefore v),
               sc_NotAfter = unix (cv_NotAfter v), sc_StagingUntrusted = cv_StagingUntrusted v,
               sc_ErrorSummary = []\<rparr>)"

fun serverCertificateEntries ::
  "'c mongo \<Rightarrow> gotime \<Rightarrow> ManagedCertificate list \<Rightarrow> 'c db \<Rightarrow> err + ServerCertificate list" where
  "serverCertificateEntries M now [] s = Inr []"
| "serverCertificateEntries M now (cert # certs) s =
     (case serverCertificateEntry M cert now s of
        Inl e \<Rightarrow> Inl e
      | Inr entry \<Rightarrow> map_sum id (Cons entry) (serverCertificateEntries M now certs s))"

definition ListServerCertificates ::
  "'c mongo \<Rightarrow> gotime \<Rightarrow> string \<Rightarrow> 'c db \<Rightarrow> err + ServerCertificate list" where
  "ListServerCertificates M now serverID s =
     (case ListManagedCertificatesByServer M serverID s of
        Inl e \<Rightarrow> Inl e
      | Inr certs \<Rightarrow> serverCertificateEntries M now certs s)"

end
