(* ===== verification/Issuance.thy ===== *)
theory Issuance
  imports CertManager
begin

text \<open>
  What the operations of CertManager guarantee: which configuration a submitted operation runs with,
  what a revocation takes out of distribution, what an update may not change while an operation is in
  flight, which certificates the reconcile loop renews and what a server may fetch. The lemmas extend
  the locales \<open>op_store\<close> and \<open>cert_store\<close>; \<open>reliable_cert_store\<close> adds a driver that does not fail.
\<close>

section \<open>Submissions\<close>

lemma optional_simps:
  "optional r = Inr None \<longleftrightarrow> (\<exists>e. r = Inl e \<and> IsNotFound e)"
  "optional r = Inr (Some a) \<longleftrightarrow> r = Inr a"
  "optional r = Inl e \<longleftrightarrow> r = Inl e \<and> \<not> IsNotFound e"
  by (auto simp: optional_def split: sum.splits)

context op_store begin

lemma find_running:
  assumes "op_ok s" and "FindRunningCertificateOperation M i t s = Inr op"
  shows "op \<in># op_docs s \<and> op_ManagedCertificateID op = i \<and> op_Type op = t \<and> op_in_flight op"
  using ops.find_one [OF assms(1) assms(2) [unfolded FindRunningCertificateOperation_def]]
  by (simp add: op_in_flight_def)

lemma find_running_none:
  assumes "op_ok s" and "FindRunningCertificateOperation M i t s = Inl e" "IsNotFound e"
    and "op \<in># op_docs s" "op_ManagedCertificateID op = i" "op_Type op = t"
  shows "\<not> op_in_flight op"
  using ops.find_none [OF assms(1) assms(2) [unfolded FindRunningCertificateOperation_def] assms(3)] assms(4-6)
  by (auto simp: op_in_flight_def no_match_def)

lemma has_running:
  assumes "op_ok s" and "HasRunningCertificateOperation M i s = Inr b"
  shows "b \<longleftrightarrow> (\<exists>op \<in># op_docs s. op_ManagedCertificateID op = i \<and> op_in_flight op)"
proof -
  let ?P = "\<lambda>op. op_ManagedCertificateID op = i \<and> op_Status op \<in> set CertOpInFlightStatuses"
  obtain n where n: "CountDocuments (certificateOperations M) ?P (st_certificateOperations s) = Inr (n :: nat)"
    "b \<longleftrightarrow> n > 0"
    using assms(2) by (auto simp: HasRunningCertificateOperation_def split: sum.splits
        simp: map_sum_def elim: sum.exhaust)
  have "n = size (filter_mset ?P (op_docs s))" by (rule ops.count [OF assms(1) n(1)])
  then have "n > 0 \<longleftrightarrow> filter_mset ?P (op_docs s) \<noteq> {#}" by (simp only: nonempty_has_size)
  with n(2) show ?thesis unfolding filter_mset_none op_in_flight_def by blast
qed

lemma create_done:
  assumes "op_ok s" and "CreateCertificateOperation M now uuid op0 s = (Inr op, s')"
  shows "op = created_op now uuid op0 \<and> op_docs s' = add_mset op (op_docs s) \<and> op_ok s' \<and>
    st_managedCertificates s' = st_managedCertificates s"
proof -
  obtain r c where c: "InsertOne (certificateOperations M) (created_op now uuid op0)
      (st_certificateOperations s) = (r, c)" by fastforce
  then have "on_certificateOperations (InsertOne (certificateOperations M) (created_op now uuid op0)) s =
      (r, s\<lparr>st_certificateOperations := c\<rparr>)" by (simp add: on_certificateOperations_def)
  with assms(2) have r: "r = Inr ()" "s' = s\<lparr>st_certificateOperations := c\<rparr>"
      "op = created_op now uuid op0"
    by (cases r; simp add: CreateCertificateOperation_def)+
  note c = c [unfolded r(1)]
  from r ops.insert_done [OF assms(1) c] ops.insert_ok [OF assms(1) c] show ?thesis by simp
qed

text \<open>No operation of the certificate \<open>i\<close> is in flight.\<close>

definition idle :: "string \<Rightarrow> 'c db \<Rightarrow> bool" where
  "idle i s \<longleftrightarrow> (\<forall>op \<in># op_docs s. op_ManagedCertificateID op = i \<longrightarrow> \<not> op_in_flight op)"

lemma create_unless_in_flight_done:
  assumes ok: "op_ok s" and "createUnlessInFlight M now uuid i t new s = (Inr op, s')"
  shows "(s' = s \<and> op \<in># op_docs s \<and> op_ManagedCertificateID op = i \<and> op_Type op = t \<and> op_in_flight op) \<or>
    (idle i s \<and> (\<exists>op0. new = Inr op0 \<and> op = created_op now uuid op0) \<and>
      op_docs s' = add_mset op (op_docs s) \<and> op_ok s' \<and>
      st_managedCertificates s' = st_managedCertificates s)"
proof -
  consider (old) "FindRunningCertificateOperation M i t s = Inr op" "s' = s"
    | (new) op0 where "HasRunningCertificateOperation M i s = Inr False" "new = Inr op0"
        "CreateCertificateOperation M now uuid op0 s = (Inr op, s')"
    using assms(2) by (auto simp: createUnlessInFlight_def and_then_eq_iff optional_simps
        split: option.splits if_splits)
  then show ?thesis
  proof cases
    case old
    with find_running [OF ok] show ?thesis by blast
  next
    case new
    with create_done [OF ok new(3)] has_running [OF ok new(1)] show ?thesis by (auto simp: idle_def)
  qed
qed

lemma create_unless_in_flight_new:
  assumes ok: "op_ok s" and "createUnlessInFlight M now uuid i t new s = (Inr op, s')"
    and none: "FindRunningCertificateOperation M i t s = Inl e" "IsNotFound e"
  shows "idle i s \<and> (\<exists>op0. new = Inr op0 \<and> op = created_op now uuid op0) \<and>
    op_docs s' = add_mset op (op_docs s) \<and> op_ok s' \<and>
    st_managedCertificates s' = st_managedCertificates s"
  using create_unless_in_flight_done [OF assms(1,2)] find_running_none [OF ok none] by blast

end

text \<open>The common start of the three submissions.\<close>

lemma submission_cases:
  assumes "and_then (optional (FindRunningCertificateOperation M i opType s), s) (\<lambda>existing s.
      case existing of
        Some op \<Rightarrow> (Inr (publicOperationFromStore op, None), s)
      | None \<Rightarrow>
          and_then (ensureNoConflictingIssuance M i opType s, s) (\<lambda>_ s.
          and_then (GetManagedCertificate M i s, s) (\<lambda>cert s. K cert s))) = (Inr (pub, t), s')"
  obtains (old) op where "FindRunningCertificateOperation M i opType s = Inr op"
      "pub = publicOperationFromStore op" "t = None" "s' = s"
    | (new) e cert where "FindRunningCertificateOperation M i opType s = Inl e" "IsNotFound e"
      "GetManagedCertificate M i s = Inr cert" "K cert s = (Inr (pub, t), s')"
proof (cases "FindRunningCertificateOperation M i opType s")
  case (Inr op)
  with assms show ?thesis by (intro old) (auto simp: optional_def)
next
  case (Inl e)
  with assms obtain cert where "IsNotFound e" "GetManagedCertificate M i s = Inr cert"
    "K cert s = (Inr (pub, t), s')"
    by (auto simp: optional_def and_then_eq_iff split: if_splits)
  with Inl show ?thesis by (rule new)
qed

context cert_store begin

lemma submit_issue_done:
  assumes ok: "db_ok s" and sub: "SubmitIssueOperation M now uuid i s = (Inr (pub, t), s')"
  shows "(t = None \<and> s' = s \<and> (\<exists>op \<in># op_docs s. pub = publicOperationFromStore op \<and>
      op_ManagedCertificateID op = i \<and> op_Type op = CertOpTypeIssue \<and> op_in_flight op)) \<or>
    (idle i s \<and> (\<exists>cert op. cert \<in># cert_docs s \<and> mc_ID cert = i \<and>
      op = created_op now uuid (pendingOperation i CertOpTypeIssue (desiredSnapshot cert) [] 0) \<and>
      pub = publicOperationFromStore op \<and> t = Some (op_ID op) \<and>
      op_docs s' = add_mset op (op_docs s) \<and> db_ok s' \<and> cert_docs s' = cert_docs s))"
  using sub [unfolded SubmitIssueOperation_def]
proof (cases rule: submission_cases)
  case (old op)
  with find_running [OF conjunct1 [OF ok] old(1)] show ?thesis by blast
next
  case (new e cert)
  then obtain op where op: "createPendingIssueOperation M now uuid cert s = (Inr op, s')"
    "pub = publicOperationFromStore op" "t = Some (op_ID op)"
    by (auto simp: and_then_eq_iff)
  note get = get_cert [OF ok new(3)]
  with op(1) have "createUnlessInFlight M now uuid i CertOpTypeIssue
      (Inr (pendingOperation i CertOpTypeIssue (desiredSnapshot cert) [] 0)) s = (Inr op, s')"
    by (simp add: createPendingIssueOperation_def)
  from create_unless_in_flight_new [OF conjunct1 [OF ok] this new(1,2)] get op(2,3) ok
  show ?thesis by auto
qed

lemma submit_renew_done:
  assumes ok: "db_ok s" and sub: "SubmitRenewOperation M now uuid i s = (Inr (pub, t), s')"
  shows "(t = None \<and> s' = s \<and> (\<exists>op \<in># op_docs s. pub = publicOperationFromStore op \<and>
      op_ManagedCertificateID op = i \<and> op_Type op = CertOpTypeRenew \<and> op_in_flight op)) \<or>
    (idle i s \<and> (\<exists>cert v op. cert \<in># cert_docs s \<and> mc_ID cert = i \<and> mc_ActiveVersion cert = Some v \<and>
      op = created_op now uuid (pendingOperation i CertOpTypeRenew (cv_ConfigSnapshot v) [] 0) \<and>
      pub = publicOperationFromStore op \<and> t = Some (op_ID op) \<and>
      op_docs s' = add_mset op (op_docs s) \<and> db_ok s' \<and> cert_docs s' = cert_docs s))"
  using sub [unfolded SubmitRenewOperation_def]
proof (cases rule: submission_cases)
  case (old op)
  with find_running [OF conjunct1 [OF ok] old(1)] show ?thesis by blast
next
  case (new e cert)
  then obtain v op where v: "mc_ActiveVersion cert = Some v" and
    op: "createPendingRenewOperation M now uuid cert s = (Inr op, s')"
    "pub = publicOperationFromStore op" "t = Some (op_ID op)"
    by (auto simp: and_then_eq_iff split: if_splits)
  note get = get_cert [OF ok new(3)]
  with op(1) v have "createUnlessInFlight M now uuid i CertOpTypeRenew
      (Inr (pendingOperation i CertOpTypeRenew (cv_ConfigSnapshot v) [] 0)) s = (Inr op, s')"
    by (simp add: createPendingRenewOperation_def)
  from create_unless_in_flight_new [OF conjunct1 [OF ok] this new(1,2)] get v op(2,3) ok
  show ?thesis by auto
qed

text \<open>A version that is marked, when the mark is written.\<close>

lemma mark_pending_done:
  assumes ok: "db_ok s" and "MarkVersionRevokePending M now i vid s = (Inr u, s')"
  shows "\<exists>d slot v. d \<in># cert_docs s \<and> mc_ID d = i \<and> slot_version slot d = Some v \<and> cv_ID v = vid \<and>
    cv_RevokedAt v = None \<and> (slot = previous_version \<longrightarrow> \<not> active_id_is vid d) \<and>
    cert_docs s' = add_mset ((slot_update slot (\<lambda>v. v\<lparr>cv_RevokePending := True\<rparr>) d)\<lparr>mc_UpdatedAt := now\<rparr>)
      (cert_docs s - {#d#}) \<and>
    db_ok s' \<and> st_certificateOperations s' = st_certificateOperations s"
proof -
  obtain cert slot v where cert: "GetManagedCertificate M i s = Inr cert"
    "versionSlotField vid cert = Inr slot" "slot_version slot cert = Some v" "cv_RevokedAt v = None" and
    upd: "matched_or (StoreE ErrActiveVersionConflict)
      (on_managedCertificates (UpdateOne (managedCertificates M)
        (\<lambda>c. mc_ID c = i \<and> slot_unrevoked slot vid c)
        (\<lambda>c. (slot_update slot (\<lambda>v. v\<lparr>cv_RevokePending := True\<rparr>) c)\<lparr>mc_UpdatedAt := now\<rparr>)) s) = (Inr u, s')"
    using assms(2) unfolding MarkVersionRevokePending_def
    by (elim and_thenE) (auto split: option.splits if_splits)
  from cert_update_done [OF ok upd] obtain d where d: "d \<in># cert_docs s" "mc_ID d = i"
    "cert_docs s' = add_mset ((slot_update slot (\<lambda>v. v\<lparr>cv_RevokePending := True\<rparr>) d)\<lparr>mc_UpdatedAt := now\<rparr>)
      (cert_docs s - {#d#})" "db_ok s'" "st_certificateOperations s' = st_certificateOperations s"
    by blast
  with get_cert [OF ok cert(1)] have "cert = d" using cert_unique [OF ok] by blast
  moreover have "cv_ID v = vid" using slot_after_versionSlotField [OF cert(2)] cert(3) by auto
  moreover have "slot = previous_version \<longrightarrow> \<not> active_id_is vid cert"
    using cert(2) by (auto simp: versionSlotField_def split: if_splits)
  ultimately show ?thesis using d cert(3,4) by blast
qed

lemma submit_revoke_reason:
  "SubmitRevokeVersion M now uuid i vid reason s = (Inr p, s') \<Longrightarrow> \<not> maxRevokeReason < reason"
  by (auto simp: SubmitRevokeVersion_def)

lemma submit_revoke_done:
  assumes ok: "db_ok s" and sub: "SubmitRevokeVersion M now uuid i vid reason s = (Inr (pub, t), s')"
  shows "(t = None \<and> s' = s \<and> (\<exists>op \<in># op_docs s. pub = publicOperationFromStore op \<and>
      op_ManagedCertificateID op = i \<and> op_Type op = CertOpTypeRevoke \<and> op_in_flight op)) \<or>
    (idle i s \<and> (\<exists>d slot v op. d \<in># cert_docs s \<and> mc_ID d = i \<and> slot_version slot d = Some v \<and>
      cv_ID v = vid \<and> cv_RevokedAt v = None \<and> (slot = previous_version \<longrightarrow> \<not> active_id_is vid d) \<and>
      cert_docs s' = add_mset ((slot_update slot (\<lambda>v. v\<lparr>cv_RevokePending := True\<rparr>) d)\<lparr>mc_UpdatedAt := now\<rparr>)
        (cert_docs s - {#d#}) \<and>
      op_ManagedCertificateID op = i \<and> op_Type op = CertOpTypeRevoke \<and> op_Status op = CertOpStatusPending \<and>
      op_TargetVersionID op = vid \<and> op_RevokeReason op = reason \<and>
      pub = publicOperationFromStore op \<and> t = Some (op_ID op) \<and>
      op_docs s' = add_mset op (op_docs s) \<and> db_ok s'))"
  using sub [unfolded SubmitRevokeVersion_def if_not_P [OF submit_revoke_reason [OF sub]]]
proof (cases rule: submission_cases)
  case (old op)
  with find_running [OF conjunct1 [OF ok] old(1)] show ?thesis by blast
next
  case (new e cert)
  then obtain target u s1 op where mark: "MarkVersionRevokePending M now i vid s = (Inr u, s1)" and
    op: "createPendingRevokeOperation M now uuid cert vid reason target s1 = (Inr op, s')"
    "pub = publicOperationFromStore op" "t = Some (op_ID op)"
    by (elim and_thenE) (auto split: if_splits prod.splits sum.splits elim!: and_thenE)
  from mark_pending_done [OF ok mark] obtain d slot v where d: "d \<in># cert_docs s" "mc_ID d = i"
    "slot_version slot d = Some v" "cv_ID v = vid" "cv_RevokedAt v = None"
    "slot = previous_version \<longrightarrow> \<not> active_id_is vid d"
    "cert_docs s1 = add_mset ((slot_update slot (\<lambda>v. v\<lparr>cv_RevokePending := True\<rparr>) d)\<lparr>mc_UpdatedAt := now\<rparr>)
      (cert_docs s - {#d#})" "db_ok s1" "st_certificateOperations s1 = st_certificateOperations s"
    by blast
  note get = get_cert [OF ok new(3)]
  define snapshot where "snapshot = (if is_Domains (cv_ConfigSnapshot target) = [] then desiredSnapshot cert
    else cv_ConfigSnapshot target)"
  have c: "createUnlessInFlight M now uuid i CertOpTypeRevoke
      (Inr (pendingOperation i CertOpTypeRevoke snapshot vid reason)) s1 = (Inr op, s')"
    using op(1) get by (simp add: createPendingRevokeOperation_def Let_def snapshot_def)
  have n: "FindRunningCertificateOperation M i CertOpTypeRevoke s1 = Inl e"
    using new(1) d(9) by (simp add: FindRunningCertificateOperation_def)
  from create_unless_in_flight_new [OF conjunct1 [OF d(8)] c n new(2)] have "idle i s1 \<and>
      op = created_op now uuid (pendingOperation i CertOpTypeRevoke snapshot vid reason) \<and>
      op_docs s' = add_mset op (op_docs s1) \<and> op_ok s' \<and>
      st_managedCertificates s' = st_managedCertificates s1"
    by simp
  then have "idle i s" "op_docs s' = add_mset op (op_docs s)" "db_ok s'" "cert_docs s' = cert_docs s1"
    "op_ManagedCertificateID op = i" "op_Type op = CertOpTypeRevoke" "op_Status op = CertOpStatusPending"
    "op_TargetVersionID op = vid" "op_RevokeReason op = reason"
    using d(8,9) by (simp_all add: idle_def created_op_def pendingOperation_def Let_def)
  with d(1-7) op(2,3) show ?thesis by auto
qed

text \<open>A bundle that is served.\<close>

lemma server_bundle_served:
  assumes ok: "db_ok s" and "GetServerCertificateBundle M now srv i s = Inr b"
  shows "\<exists>cert v. cert \<in># cert_docs s \<and> mc_ID cert = i \<and> srv \<in> set (mc_ServerIDs cert) \<and>
    mc_ActiveVersion cert = Some v \<and> \<not> cv_RevokePending v \<and> cv_RevokedAt v = None \<and>
    b = bundleOf cert v (fst (ComputeValidity cert now))"
proof -
  obtain cert where "GetManagedCertificate M i s = Inr cert" "serverAssigned cert srv"
    "(case mc_ActiveVersion cert of
            None \<Rightarrow> Inl (CertE ErrBundleNotAvailable)
          | Some v \<Rightarrow>
              if \<not> VersionDistributable (Some v) then Inl (CertE ErrBundleNotAvailable)
              else Inr (bundleOf cert v (fst (ComputeValidity cert now)))) = Inr b"
    using assms(2) unfolding GetServerCertificateBundle_def by (auto split: sum.splits if_splits)
  with get_cert [OF ok] show ?thesis
    by (auto simp: serverAssigned_def VersionDistributable_def split: option.splits if_splits)
qed

lemma bundle_served:
  assumes ok: "db_ok s" and "GetCertificateBundle M now i slot s = Inr b"
  shows "\<exists>cert v. cert \<in># cert_docs s \<and> mc_ID cert = i \<and> versionFromSlot cert slot = Some v \<and>
    \<not> cv_RevokePending v \<and> cv_RevokedAt v = None \<and> (\<exists>x. b = bundleOf cert v x)"
proof -
  obtain cert where "GetManagedCertificate M i s = Inr cert"
    "(case versionFromSlot cert slot of
             None \<Rightarrow> Inl (CertE ErrBundleNotAvailable)
           | Some v \<Rightarrow>
               if \<not> VersionDistributable (Some v) then Inl (CertE ErrBundleNotAvailable)
               else let (validity, available) =
                      ComputeVersionValidity (Some v) (mc_RenewBeforeDays cert) now in
                    if \<not> available then Inl (CertE ErrBundleNotAvailable)
                    else Inr (bundleOf cert v validity)) = Inr b"
    using assms(2) unfolding GetCertificateBundle_def by (auto split: sum.splits)
  with get_cert [OF ok] show ?thesis
    by (auto simp: VersionDistributable_def Let_def split: option.splits if_splits prod.splits)
qed

end

section \<open>Automatic renewal\<close>

definition renewal_due :: "ManagedCertificate \<Rightarrow> gotime \<Rightarrow> bool" where
  "renewal_due cert now \<longleftrightarrow> mc_AutoRenewEnabled cert \<and> mc_ActiveVersion cert \<noteq> None \<and>
     fst (ComputeValidity cert now) = CertValidityRenewalDue"

definition issue_fields :: "ManagedCertificate \<Rightarrow> string list \<times> string \<times> string \<times> string" where
  "issue_fields c = (mc_Domains c, mc_CertificateIssuerID c, mc_DNSProviderAccountID c, mc_KeyType c)"

lemma issueFieldsChanged_iff: "issueFieldsChanged a b \<longleftrightarrow> issue_fields a \<noteq> issue_fields b"
  by (auto simp: issueFieldsChanged_def issue_fields_def)

context cert_store begin

lemma create_effect_any:
  assumes ok: "db_ok s" and "createUnlessInFlight M now uuid i t new s = (r, s')"
  shows "db_ok s' \<and> st_managedCertificates s' = st_managedCertificates s \<and>
    (op_docs s' = op_docs s \<or> (idle i s \<and> (\<exists>op0. new = Inr op0 \<and>
       op_docs s' = add_mset (created_op now uuid op0) (op_docs s))))"
proof -
  consider (same) "s' = s" | (new) op0 where "HasRunningCertificateOperation M i s = Inr False" "new = Inr op0"
        "CreateCertificateOperation M now uuid op0 s = (r, s')"
    using assms(2) unfolding createUnlessInFlight_def
    by (elim and_thenE; auto split: option.splits if_splits elim!: and_thenE)
  then show ?thesis
  proof cases
    case new
    have "idle i s" using has_running [OF conjunct1 [OF ok] new(1)] by (auto simp: idle_def)
    moreover obtain r' c where "s' = s\<lparr>st_certificateOperations := c\<rparr>"
      using new(3) by (auto simp: CreateCertificateOperation_def Let_def on_certificateOperations_eq_iff
          elim!: and_thenE)
    ultimately show ?thesis
      using create_effect [OF conjunct1 [OF ok] new(3)] ok new(2) by (auto simp: call_effect_def)
  qed (use ok in simp)
qed

lemma reconcile_one_effect:
  assumes ok: "db_ok s" and r: "reconcileOne M now uuid cert s = (t, s')"
  shows "db_ok s' \<and> st_managedCertificates s' = st_managedCertificates s \<and>
    (op_docs s' = op_docs s \<or> (idle (mc_ID cert) s \<and> renewal_due cert now \<and> (\<exists>v. mc_ActiveVersion cert = Some v \<and>
       op_docs s' = add_mset (created_op now uuid
         (pendingOperation (mc_ID cert) CertOpTypeRenew (cv_ConfigSnapshot v) [] 0)) (op_docs s))))"
proof (cases "s' = s")
  case False
  with r have due: "renewal_due cert now" and "\<exists>x. createPendingRenewOperation M now uuid cert s = (x, s')"
    by (auto simp: reconcileOne_def renewal_due_def split: if_splits sum.splits option.splits prod.splits)
  then obtain x v where c: "createPendingRenewOperation M now uuid cert s = (x, s')" and
    v: "mc_ActiveVersion cert = Some v"
    by (auto simp: renewal_due_def)
  from create_effect_any [OF ok c [unfolded createPendingRenewOperation_def]] v due show ?thesis by auto
qed (use ok in simp)

text \<open>What the loop may have added, from the state \<open>s\<close> it started in.\<close>

definition renewals_added :: "gotime \<Rightarrow> ManagedCertificate set \<Rightarrow> 'c db \<Rightarrow> 'c db \<Rightarrow> bool" where
  "renewals_added now certs s s' \<longleftrightarrow>
     db_ok s' \<and> st_managedCertificates s' = st_managedCertificates s \<and> op_docs s \<subseteq># op_docs s' \<and>
     (\<forall>op \<in># op_docs s'. op \<in># op_docs s \<or> (\<exists>cert \<in> certs. \<exists>v uuid. mc_ActiveVersion cert = Some v \<and>
        idle (mc_ID cert) s \<and> renewal_due cert now \<and>
        op = created_op now uuid (pendingOperation (mc_ID cert) CertOpTypeRenew (cv_ConfigSnapshot v) [] 0)))"

lemma idle_antimono: "op_docs s \<subseteq># op_docs s' \<Longrightarrow> idle i s' \<Longrightarrow> idle i s"
  by (auto simp: idle_def dest: mset_subset_eqD)

lemma renewals_added_refl: "db_ok s \<Longrightarrow> renewals_added now certs s s"
  by (simp add: renewals_added_def)

lemma renewals_added_trans:
  assumes "renewals_added now A s s1" "renewals_added now B s1 s2" "A \<subseteq> C" "B \<subseteq> C"
  shows "renewals_added now C s s2"
  using assms idle_antimono [of s s1] unfolding renewals_added_def
  by (auto intro: subset_mset.order_trans) (meson subsetD)+

lemma renewals_added_mono: "renewals_added now A s s' \<Longrightarrow> A \<subseteq> B \<Longrightarrow> renewals_added now B s s'"
  unfolding renewals_added_def by (meson subsetD)

lemma reconcile_one_adds:
  assumes "db_ok s" and "reconcileOne M now uuid cert s = (t, s')"
  shows "renewals_added now {cert} s s'"
  using reconcile_one_effect [OF assms] by (auto simp: renewals_added_def)

lemma reconcile_each_adds:
  assumes "db_ok s" and "reconcileEach M now certs s = (ts, s')"
  shows "renewals_added now (fst ` set certs) s s'"
  using assms
proof (induction certs arbitrary: s ts)
  case Nil
  then show ?case by (simp add: renewals_added_refl)
next
  case (Cons p certs)
  obtain cert uuid where p: "p = (cert, uuid)" by fastforce
  obtain t s1 ts' where one: "reconcileOne M now uuid cert s = (t, s1)" and
    rest: "reconcileEach M now certs s1 = (ts', s')"
    using Cons.prems(2) p by (auto simp: Let_def split: prod.splits)
  note a = reconcile_one_adds [OF Cons.prems(1) one]
  then have "db_ok s1" unfolding renewals_added_def by blast
  from renewals_added_trans [OF a Cons.IH [OF this rest]] p show ?case by auto
qed

lemma auto_renew_adds:
  assumes ok: "db_ok s" and r: "reconcileAutoRenew M now uuids s = (ts, s')"
  shows "op_docs s \<subseteq># op_docs s' \<and> st_managedCertificates s' = st_managedCertificates s \<and>
    (\<forall>op \<in># op_docs s'. op \<in># op_docs s \<or> (\<exists>cert \<in># cert_docs s. \<exists>v uuid.
       mc_ActiveVersion cert = Some v \<and> idle (mc_ID cert) s \<and> renewal_due cert now \<and>
       op = created_op now uuid (pendingOperation (mc_ID cert) CertOpTypeRenew (cv_ConfigSnapshot v) [] 0)))"
proof (cases "ListAutoRenewManagedCertificates M s")
  case (Inl e)
  with r show ?thesis by (simp add: reconcileAutoRenew_def)
next
  case (Inr certs)
  have "sort_order cert_by_name" unfolding cert_by_name_def by simp
  from certs.find_docs_set [OF conjunct2 [OF ok] Inr [unfolded ListAutoRenewManagedCertificates_def] this]
  have sub: "fst ` set (zip certs uuids) \<subseteq> set_mset (cert_docs s)" by (auto dest: set_zip_leftD)
  have "reconcileEach M now (zip certs uuids) s = (ts, s')"
    using r Inr by (simp add: reconcileAutoRenew_def)
  from renewals_added_mono [OF reconcile_each_adds [OF ok this] sub]
  have "renewals_added now (set_mset (cert_docs s)) s s'" .
  then show ?thesis unfolding renewals_added_def by simp
qed

text \<open>Rejecting a change of the issue fields while an operation is in flight.\<close>

lemma optional_running:
  assumes "op_ok s" and "optional (FindRunningCertificateOperation M i t s) = Inr r"
    and "op \<in># op_docs s" "op_ManagedCertificateID op = i" "op_Type op = t" "op_in_flight op"
  shows "r \<noteq> None"
  using find_running_none [OF assms(1) _ _ assms(3-5)] assms(2,6) by (auto simp: optional_def split: sum.splits if_splits)

lemma update_locked:
  assumes ok: "db_ok s"
    and upd: "managerUpdateCertificate ul idna M now i input s = (Inr pub, s')"
  shows "\<exists>d cert. d \<in># cert_docs s \<and> mc_ID d = i \<and>
    cert_docs s' = add_mset cert (cert_docs s - {#d#}) \<and>
    mc_ActiveVersion cert = mc_ActiveVersion d \<and> mc_PreviousVersion cert = mc_PreviousVersion d \<and>
    ((\<exists>op \<in># op_docs s. op_ManagedCertificateID op = i \<and> op_in_flight op \<and>
       op_Type op \<in> {CertOpTypeIssue, CertOpTypeRenew, CertOpTypeRevoke}) \<longrightarrow>
     issue_fields cert = issue_fields d)"
proof -
  obtain d updated r1 r2 r3 where
    get: "GetManagedCertificate M i s = Inr d" and
    r: "optional (FindRunningCertificateOperation M i CertOpTypeIssue s) = Inr r1"
       "optional (FindRunningCertificateOperation M i CertOpTypeRenew s) = Inr r2"
       "optional (FindRunningCertificateOperation M i CertOpTypeRevoke s) = Inr r3" and
    rest: "(if (r1 \<noteq> None \<or> r2 \<noteq> None \<or> r3 \<noteq> None) \<and> issueFieldsChanged d updated
      then (Inl (CertE ErrIssueFieldsLocked), s)
      else and_then (UpdateManagedCertificate M now i (updateOf updated) s) (\<lambda>saved s.
        (withLatestOperation M now saved i s, s))) = (Inr pub, s')"
    using upd unfolding managerUpdateCertificate_def by (elim and_thenE; simp; blast)
  from rest have lock: "\<not> ((r1 \<noteq> None \<or> r2 \<noteq> None \<or> r3 \<noteq> None) \<and> issueFieldsChanged d updated)"
    by (metis Pair_inject sum.distinct(1))
  from rest [unfolded if_not_P [OF lock]] obtain saved s1 where
    u: "UpdateManagedCertificate M now i (updateOf updated) s = (Inr saved, s1)" "s' = s1"
    by (auto elim!: and_thenE)
  from update_done [OF ok u(1)] obtain d' where d': "d' \<in># cert_docs s" "mc_ID d' = i"
    "saved = managedCertificateUpdateDocument (updateOf updated) now d'"
    "cert_docs s1 = add_mset saved (cert_docs s - {#d'#})" by blast
  have "d' = d" using get_cert [OF ok get] cert_unique [OF ok] d'(1,2) by blast
  moreover have "issue_fields saved = issue_fields updated"
    by (simp add: d'(3) managedCertificateUpdateDocument_def updateOf_def issue_fields_def)
  moreover have "r1 \<noteq> None \<or> r2 \<noteq> None \<or> r3 \<noteq> None"
    if "op \<in># op_docs s" "op_ManagedCertificateID op = i" "op_in_flight op"
      "op_Type op \<in> {CertOpTypeIssue, CertOpTypeRenew, CertOpTypeRevoke}" for op
    using optional_running [OF conjunct1 [OF ok] r(1) that(1,2) _ that(3)]
      optional_running [OF conjunct1 [OF ok] r(2) that(1,2) _ that(3)]
      optional_running [OF conjunct1 [OF ok] r(3) that(1,2) _ that(3)] that(4) by blast
  moreover have "mc_ActiveVersion saved = mc_ActiveVersion d'" "mc_PreviousVersion saved = mc_PreviousVersion d'"
    by (simp_all add: d'(3) managedCertificateUpdateDocument_def)
  ultimately show ?thesis using d'(1,2,4) lock u(2) unfolding issueFieldsChanged_iff by metis
qed

end

text \<open>With a working database.\<close>

locale reliable_cert_store =
  reliable_op_store M odocs ook +
  certs: reliable_collection "managedCertificates M" cdocs managedCertificates_clash cok
  for M :: "'c mongo" and odocs :: "'c \<Rightarrow> CertificateOperation multiset" and ook :: "'c \<Rightarrow> bool"
    and cdocs :: "'c \<Rightarrow> ManagedCertificate multiset" and cok :: "'c \<Rightarrow> bool"

sublocale reliable_cert_store \<subseteq> cert_store
  by unfold_locales

context reliable_cert_store begin

lemma get_cert_iff:
  assumes "db_ok s"
  shows "GetManagedCertificate M i s = Inr cert \<longleftrightarrow> cert \<in># cert_docs s \<and> mc_ID cert = i"
proof
  assume c: "cert \<in># cert_docs s \<and> mc_ID cert = i"
  show "GetManagedCertificate M i s = Inr cert"
  proof (cases "GetManagedCertificate M i s")
    case (Inl e)
    then have "no_match (\<lambda>c. mc_ID c = i) (cert_docs s)"
      using certs.find_none [OF conjunct2 [OF assms]] certs.find_total [OF conjunct2 [OF assms]]
      by (simp add: GetManagedCertificate_def)
    with c show ?thesis by (auto simp: no_match_def)
  next
    case (Inr d)
    with get_cert [OF assms Inr] cert_unique [OF assms] c show ?thesis by blast
  qed
qed (use get_cert [OF assms] in blast)

lemma get_cert_error:
  "db_ok s \<Longrightarrow> GetManagedCertificate M i s = Inl e \<Longrightarrow> IsNotFound e"
  using certs.find_total by (auto simp: GetManagedCertificate_def)

lemma find_running_error:
  "db_ok s \<Longrightarrow> FindRunningCertificateOperation M i t s = Inl e \<Longrightarrow> IsNotFound e"
  using ops.find_total by (auto simp: FindRunningCertificateOperation_def)

lemma none_in_flight_error:
  "db_ok s \<Longrightarrow> noneInFlight M i t ts s = Inl e \<Longrightarrow> \<not> idle i s"
proof (induction ts)
  case (Cons t' ts)
  then show ?case
    using find_running [of s i t'] find_running_error
    by (auto simp: idle_def split: if_splits sum.splits)
qed simp

lemma has_running_total: "db_ok s \<Longrightarrow> \<exists>b. HasRunningCertificateOperation M i s = Inr b"
  by (auto simp: HasRunningCertificateOperation_def ops.count_is)

text \<open>Every due certificate has an operation in flight after its turn.\<close>

lemma reconcile_one_complete:
  assumes ok: "db_ok s" and r: "reconcileOne M now uuid cert s = (t, s')"
    and due: "renewal_due cert now"
    and fresh: "\<forall>op \<in># op_docs s. op_ID op \<noteq> ''cop_'' @ uuid"
  shows "\<not> idle (mc_ID cert) s'"
proof (rule ccontr)
  assume "\<not> \<not> idle (mc_ID cert) s'"
  then have idle': "idle (mc_ID cert) s'" by simp
  from reconcile_one_effect [OF ok r] have "op_docs s \<subseteq># op_docs s'" by auto
  with idle' have idle: "idle (mc_ID cert) s" by (rule idle_antimono [rotated])
  obtain v where v: "mc_ActiveVersion cert = Some v" using due by (auto simp: renewal_due_def)
  obtain e where none: "FindRunningCertificateOperation M (mc_ID cert) CertOpTypeRenew s = Inl e" "IsNotFound e"
    using find_running [OF conjunct1 [OF ok], of "mc_ID cert" CertOpTypeRenew]
      find_running_error [OF ok, of "mc_ID cert" CertOpTypeRenew] idle
    by (cases "FindRunningCertificateOperation M (mc_ID cert) CertOpTypeRenew s") (auto simp: idle_def)
  have hr: "HasRunningCertificateOperation M (mc_ID cert) s = Inr False"
    using has_running_total [OF ok, of "mc_ID cert"] has_running [OF conjunct1 [OF ok], of "mc_ID cert"] idle
    by (fastforce simp: idle_def)
  let ?op = "created_op now uuid (pendingOperation (mc_ID cert) CertOpTypeRenew (cv_ConfigSnapshot v) [] 0)"
  have op: "op_ManagedCertificateID ?op = mc_ID cert" "op_in_flight ?op" "op_ID ?op = ''cop_'' @ uuid"
    by (simp_all add: created_op_def pendingOperation_def Let_def op_in_flight_def CertOpInFlightStatuses_def)
  have "\<not> certificateOperations_clash x ?op" if "x \<in># op_docs s" for x
    using that fresh idle op by (auto simp: certificateOperations_clash_def idle_def)
  then obtain u c where "InsertOne (certificateOperations M) ?op (st_certificateOperations s) = (Inr u, c)"
    using ops.insert_fresh [OF conjunct1 [OF ok]] by blast
  then have "createPendingRenewOperation M now uuid cert s = (Inr ?op, s\<lparr>st_certificateOperations := c\<rparr>)"
    by (simp add: createPendingRenewOperation_def createUnlessInFlight_def none optional_def hr v
        CreateCertificateOperation_def on_certificateOperations_def Let_def)
  then have "reconcileOne M now uuid cert s = (Some (op_ID ?op), s\<lparr>st_certificateOperations := c\<rparr>)"
    using due by (simp add: reconcileOne_def renewal_due_def none optional_def hr
        ensureNoConflictingIssuance_def)
  moreover have "?op \<in># odocs c"
    using ops.insert_done [OF conjunct1 [OF ok]] \<open>InsertOne _ _ _ = _\<close> by simp
  ultimately show False using r idle' op by (auto simp: idle_def)
qed

lemma reconcile_each_complete:
  assumes "db_ok s" and "reconcileEach M now ps s = (ts, s')"
    and "(cert, uuid) \<in> set ps" and "renewal_due cert now" and "distinct (map snd ps)"
    and "\<forall>u \<in> set (map snd ps). \<forall>op \<in># op_docs s. op_ID op \<noteq> ''cop_'' @ u"
  shows "\<not> idle (mc_ID cert) s'"
  using assms
proof (induction ps arbitrary: s ts)
  case (Cons p ps)
  obtain c u where p: "p = (c, u)" by fastforce
  obtain t s1 ts' where one: "reconcileOne M now u c s = (t, s1)" and
    rest: "reconcileEach M now ps s1 = (ts', s')"
    using Cons.prems(2) p by (auto simp: Let_def split: prod.splits)
  note eff = reconcile_one_effect [OF Cons.prems(1) one]
  then have ok1: "db_ok s1" by blast
  show ?case
  proof (cases "(cert, uuid) = p")
    case True
    with p have "\<not> idle (mc_ID cert) s1"
      using reconcile_one_complete [OF Cons.prems(1) one] Cons.prems(4,6) by simp
    moreover have "op_docs s1 \<subseteq># op_docs s'"
      using reconcile_each_adds [OF ok1 rest] unfolding renewals_added_def by blast
    ultimately show ?thesis using idle_antimono by blast
  next
    case False
    have "op_ID op \<noteq> ''cop_'' @ w" if "w \<in> set (map snd ps)" "op \<in># op_docs s1" for w op
    proof -
      have "w \<noteq> u" using that(1) Cons.prems(5) p by auto
      moreover from eff that(2) have "op \<in># op_docs s \<or> op_ID op = ''cop_'' @ u"
        by (auto simp: created_op_def pendingOperation_def Let_def)
      ultimately show ?thesis using Cons.prems(6) that(1) by auto
    qed
    then show ?thesis
      using Cons.IH [OF ok1 rest] Cons.prems(3-5) False by auto
  qed
qed simp

lemma list_auto_renew:
  assumes "db_ok s"
  obtains certs where "ListAutoRenewManagedCertificates M s = Inr certs"
    "mset certs = filter_mset (\<lambda>c. mc_AutoRenewEnabled c \<and> mc_ActiveVersion c \<noteq> None) (cert_docs s)"
proof -
  let ?P = "\<lambda>c. mc_AutoRenewEnabled c \<and> mc_ActiveVersion c \<noteq> None"
  obtain certs where c: "FindDocs (managedCertificates M) ?P cert_by_name 0 None
      (st_managedCertificates s) = Inr certs"
    using certs.find_docs_total [OF conjunct2 [OF assms]] by blast
  have "sort_order cert_by_name" unfolding cert_by_name_def by simp
  from certs.find_docs [OF conjunct2 [OF assms] c this] have
    "mset certs = filter_mset ?P (cert_docs s)" by (auto simp: page_def)
  with c that show ?thesis by (simp add: ListAutoRenewManagedCertificates_def)
qed

lemma auto_renew_completes:
  assumes ok: "db_ok s" and r: "reconcileAutoRenew M now uuids s = (ts, s')"
    and cert: "cert \<in># cert_docs s" and due: "renewal_due cert now"
    and uuids: "distinct uuids" "size (cert_docs s) \<le> length uuids"
      "\<forall>u \<in> set uuids. \<forall>op \<in># op_docs s. op_ID op \<noteq> ''cop_'' @ u"
  shows "\<not> idle (mc_ID cert) s'"
proof -
  obtain certs where certs: "ListAutoRenewManagedCertificates M s = Inr certs"
    "mset certs = filter_mset (\<lambda>c. mc_AutoRenewEnabled c \<and> mc_ActiveVersion c \<noteq> None) (cert_docs s)"
    using list_auto_renew [OF ok] by blast
  have "length certs \<le> size (cert_docs s)"
    using arg_cong [OF certs(2), of size] size_filter_mset_lesseq by simp
  then have len: "length certs \<le> length uuids" using uuids(2) by simp
  have "cert \<in> set certs"
    using cert due arg_cong [OF certs(2), of set_mset] by (auto simp: renewal_due_def)
  then obtain k where "k < length certs" "certs ! k = cert" by (auto simp: in_set_conv_nth)
  then have "(cert, uuids ! k) \<in> set (zip certs uuids)" using len by (auto simp: set_zip)
  moreover have "map snd (zip certs uuids) = take (length certs) uuids"
    using len by (simp add: map_snd_zip_take)
  moreover have "reconcileEach M now (zip certs uuids) s = (ts, s')"
    using r certs(1) by (simp add: reconcileAutoRenew_def)
  moreover have "distinct (map snd (zip certs uuids))"
    "\<forall>u \<in> set (map snd (zip certs uuids)). \<forall>op \<in># op_docs s. op_ID op \<noteq> ''cop_'' @ u"
    using uuids(1,3) calculation(2) by (simp_all only: distinct_take) (blast dest: in_set_takeD)
  ultimately show ?thesis using reconcile_each_complete [OF ok _ _ due] by blast
qed

lemma server_bundle_cases:
  assumes ok: "db_ok s"
  shows "(\<nexists>cert. cert \<in># cert_docs s \<and> mc_ID cert = i \<and> srv \<in> set (mc_ServerIDs cert)) \<Longrightarrow>
      GetServerCertificateBundle M now srv i s = Inl (CertE ErrCertificateNotAuthorized)"
    and "cert \<in># cert_docs s \<Longrightarrow> mc_ID cert = i \<Longrightarrow> srv \<in> set (mc_ServerIDs cert) \<Longrightarrow>
      GetServerCertificateBundle M now srv i s =
        (case mc_ActiveVersion cert of
           Some v \<Rightarrow> if cv_RevokePending v \<or> cv_RevokedAt v \<noteq> None then Inl (CertE ErrBundleNotAvailable)
             else Inr (bundleOf cert v (fst (ComputeValidity cert now)))
         | None \<Rightarrow> Inl (CertE ErrBundleNotAvailable))"
proof -
  assume none: "\<nexists>cert. cert \<in># cert_docs s \<and> mc_ID cert = i \<and> srv \<in> set (mc_ServerIDs cert)"
  show "GetServerCertificateBundle M now srv i s = Inl (CertE ErrCertificateNotAuthorized)"
  proof (cases "GetManagedCertificate M i s")
    case (Inl e)
    with get_cert_error [OF ok Inl] show ?thesis by (simp add: GetServerCertificateBundle_def)
  next
    case (Inr cert)
    with get_cert [OF ok Inr] none show ?thesis
      by (auto simp: GetServerCertificateBundle_def serverAssigned_def)
  qed
next
  assume "cert \<in># cert_docs s" "mc_ID cert = i" "srv \<in> set (mc_ServerIDs cert)"
  then have "GetManagedCertificate M i s = Inr cert" "serverAssigned cert srv"
    using get_cert_iff [OF ok] by (simp_all add: serverAssigned_def)
  then show "GetServerCertificateBundle M now srv i s =
        (case mc_ActiveVersion cert of
           Some v \<Rightarrow> if cv_RevokePending v \<or> cv_RevokedAt v \<noteq> None then Inl (CertE ErrBundleNotAvailable)
             else Inr (bundleOf cert v (fst (ComputeValidity cert now)))
         | None \<Rightarrow> Inl (CertE ErrBundleNotAvailable))"
    by (auto simp: GetServerCertificateBundle_def VersionDistributable_def split: option.splits)
qed

end

interpretation mem_reliable_cert_store: reliable_cert_store mem_mongo "mem_docs un_DOp"
  "mem_ok certificateOperations_clash un_DOp" "mem_docs un_DCert"
  "mem_ok managedCertificates_clash un_DCert"
  by unfold_locales


section \<open>Properties\<close>

text \<open>
  C5: an accepted Issue request runs with the desired configuration of the certificate at that
  time and a Renew request with the configuration of the active version; a new operation is
  created pending, with a deadline, only when no operation of the certificate is in flight, and a
  repeated request returns the operation in flight and changes nothing.
\<close>

theorem submissions_snapshot_once:
  assumes "cert_store M odocs ook cdocs cok"
    and "ook (st_certificateOperations s)" "cok (st_managedCertificates s)"
    and "opType = CertOpTypeIssue \<and> SubmitIssueOperation M now uuid i s = (Inr (pub, t), s') \<or>
      opType = CertOpTypeRenew \<and> SubmitRenewOperation M now uuid i s = (Inr (pub, t), s')"
  shows "(t = None \<and> s' = s \<and> (\<exists>op \<in># odocs (st_certificateOperations s).
      op_ManagedCertificateID op = i \<and> op_Type op = opType \<and> op_in_flight op \<and>
      pub = publicOperationFromStore op)) \<or>
    ((\<forall>op \<in># odocs (st_certificateOperations s). op_ManagedCertificateID op = i \<longrightarrow> \<not> op_in_flight op) \<and>
     (\<exists>cert op. cert \<in># cdocs (st_managedCertificates s) \<and> mc_ID cert = i \<and>
      odocs (st_certificateOperations s') = add_mset op (odocs (st_certificateOperations s)) \<and>
      cdocs (st_managedCertificates s') = cdocs (st_managedCertificates s) \<and>
      op_ManagedCertificateID op = i \<and> op_Type op = opType \<and> op_Status op = CertOpStatusPending \<and>
      op_DeadlineAt op = Some (now + DefaultOperationTotalTimeout) \<and>
      (if opType = CertOpTypeIssue then op_ConfigSnapshot op = desiredSnapshot cert
       else map_option cv_ConfigSnapshot (mc_ActiveVersion cert) = Some (op_ConfigSnapshot op)) \<and>
      pub = publicOperationFromStore op \<and> t = Some (op_ID op)))"
  using assms(4)
proof (elim disjE conjE)
  assume t: "opType = CertOpTypeIssue" and "SubmitIssueOperation M now uuid i s = (Inr (pub, t), s')"
  from cert_store.submit_issue_done [OF assms(1) conjI [OF assms(2,3)] this(2)]
  show ?thesis unfolding t op_store.idle_def [OF cert_store.axioms(1) [OF assms(1)]]
    by (elim disjE conjE bexE exE) (auto simp: created_op_def pendingOperation_def Let_def)
next
  assume t: "opType = CertOpTypeRenew" and "SubmitRenewOperation M now uuid i s = (Inr (pub, t), s')"
  from cert_store.submit_renew_done [OF assms(1) conjI [OF assms(2,3)] this(2)]
  show ?thesis unfolding t op_store.idle_def [OF cert_store.axioms(1) [OF assms(1)]]
    by (elim disjE conjE bexE exE)
      (auto simp: created_op_def pendingOperation_def Let_def)
qed

definition sample_issue :: CertificateOperation where
  "sample_issue = created_op 50 ''u''
     (pendingOperation ''mcert_1'' CertOpTypeIssue (desiredSnapshot (sample_cert None None)) [] 0)"

lemmas submit_eval = optional_def FindRunningCertificateOperation_def HasRunningCertificateOperation_def
  ensureNoConflictingIssuance_def GetManagedCertificate_def CreateCertificateOperation_def
  createUnlessInFlight_def

theorem submissions_snapshot_once_witness:
  "op_ConfigSnapshot sample_issue = desiredSnapshot (sample_cert None None) \<and>
   SubmitIssueOperation mem_mongo 50 ''u'' ''mcert_1'' (sample_db [sample_cert None None] []) =
     (Inr (publicOperationFromStore sample_issue, Some ''cop_u''),
      sample_db [sample_cert None None] [sample_issue])"
proof -
  have "SubmitIssueOperation mem_mongo 50 ''u'' ''mcert_1'' (sample_db [sample_cert None None] []) =
     (Inr (publicOperationFromStore sample_issue, Some ''cop_u''),
      sample_db [sample_cert None None] [sample_issue])"
    by (simp add: SubmitIssueOperation_def createPendingIssueOperation_def submit_eval mem_coll_def
        on_certificateOperations_def sample_db_def sample_issue_def sample_cert_def created_op_def
        pendingOperation_def Let_def)
  from submissions_snapshot_once [OF mem_cert_store.cert_store_axioms _ _ disjI1 [OF conjI [OF refl this]]] this
  show ?thesis by (auto simp: sample_cert_def)
qed



text \<open>
  While an operation of a certificate is in flight an administrator's update cannot change what
  it is issued with: an update that returns without error has left domains, issuer, DNS account and
  key type as they were, and in any case it keeps both versions.
\<close>

theorem issue_fields_locked:
  assumes "cert_store M odocs ook cdocs cok"
    and "ook (st_certificateOperations s)" "cok (st_managedCertificates s)"
    and "op \<in># odocs (st_certificateOperations s)" "op_ManagedCertificateID op = i" "op_in_flight op"
      "op_Type op \<in> {CertOpTypeIssue, CertOpTypeRenew, CertOpTypeRevoke}"
    and "managerUpdateCertificate ul idna M now i input s = (Inr pub, s')"
  shows "\<exists>d cert. d \<in># cdocs (st_managedCertificates s) \<and> mc_ID d = i \<and>
    cdocs (st_managedCertificates s') = add_mset cert (cdocs (st_managedCertificates s) - {#d#}) \<and>
    mc_Domains cert = mc_Domains d \<and> mc_CertificateIssuerID cert = mc_CertificateIssuerID d \<and>
    mc_DNSProviderAccountID cert = mc_DNSProviderAccountID d \<and> mc_KeyType cert = mc_KeyType d \<and>
    mc_ActiveVersion cert = mc_ActiveVersion d \<and> mc_PreviousVersion cert = mc_PreviousVersion d"
proof -
  from cert_store.update_locked [OF assms(1) conjI [OF assms(2,3)] assms(8)] assms(4-7)
  obtain d cert where "d \<in># cdocs (st_managedCertificates s)" "mc_ID d = i"
    "cdocs (st_managedCertificates s') = add_mset cert (cdocs (st_managedCertificates s) - {#d#})"
    "mc_ActiveVersion cert = mc_ActiveVersion d" "mc_PreviousVersion cert = mc_PreviousVersion d"
    "issue_fields cert = issue_fields d" by blast
  then show ?thesis unfolding issue_fields_def by blast
qed

definition sample_issuer :: CertificateIssuer where
  "sample_issuer = \<lparr>iss_ID = ''iss_1'', iss_Name = ''le'', iss_CAType = ''letsencrypt'', iss_DirectoryURL = [],
     iss_Email = [], iss_RegistrationStatus = IssuerRegistrationReady, iss_RegistrationError = [],
     iss_StagingUntrusted = False, iss_TermsOfServiceURL = [], iss_TermsOfServiceAgreed = None,
     iss_AccountKeyPEM = ''key'', iss_AccountURI = ''u'', iss_EABKid = [], iss_EABHMAC = [],
     iss_CreatedAt = 0, iss_UpdatedAt = 0\<rparr>"

definition sample_dns :: DNSProviderAccount where
  "sample_dns = \<lparr>dns_ID = ''dns_1'', dns_Name = ''cf'', dns_Provider = DNSProviderCloudflare,
     dns_PropagationTimeoutSeconds = 0, dns_APIToken = ''t'', dns_TokenLastVerifiedAt = None,
     dns_CreatedAt = 0, dns_UpdatedAt = 0\<rparr>"

definition sample_full_db :: "ManagedCertificate list \<Rightarrow> CertificateOperation list \<Rightarrow> doc list db" where
  "sample_full_db cs xs = (sample_db cs xs)\<lparr>st_certificateIssuers := [DIssuer sample_issuer],
     st_dnsProviderAccounts := [DDns sample_dns]\<rparr>"

definition sample_input :: ManagedCertificateInput where
  "sample_input = \<lparr>in_Name = ''site'', in_Domains = [''example.com''], in_CertificateIssuerID = ''iss_1'',
     in_DNSProviderAccountID = ''dns_1'', in_KeyType = [], in_AutoRenewEnabled = Some False,
     in_RenewBeforeDays = 0, in_NotifyGroupIDs = [], in_ServerIDs = []\<rparr>"

lemma sample_full_db_st [simp]:
  "st_managedCertificates (sample_full_db cs xs) = st_managedCertificates (sample_db cs xs)"
  "st_certificateOperations (sample_full_db cs xs) = st_certificateOperations (sample_db cs xs)"
  by (simp_all add: sample_full_db_def)

definition sample_built :: ManagedCertificate where
  "sample_built = (sample_cert None None)\<lparr>mc_Name := ''site'', mc_AutoRenewEnabled := False,
     mc_UpdatedAt := zero_time\<rparr>"

lemma sample_build:
  "buildManagedCertificate id Some sample_input (sample_cert None None) =
     Inr sample_built"
  by code_simp

lemma sample_refs:
  "validateManagedCertificateRefs mem_mongo
     sample_built
     (sample_full_db cs xs) = Inr ()"
proof -
  have "trim_space (iss_AccountURI sample_issuer) \<noteq> []" by code_simp
  then show ?thesis
    by (simp add: validateManagedCertificateRefs_def GetCertificateIssuer_def GetDNSProviderAccount_def
        mem_coll_def sample_full_db_def sample_db_def sample_built_def sample_cert_def sample_issuer_def sample_dns_def
        validateNotifyGroupIDs_def validate_ids_def validateServerIDs_def)
qed

theorem issue_fields_locked_witness:
  "filter_mset (\<lambda>cert. mc_Domains cert \<noteq> [''example.com'']) (mem_docs un_DCert (st_managedCertificates
      (snd (managerUpdateCertificate id Some mem_mongo 50 ''mcert_1'' sample_input
         (sample_full_db [sample_cert None None] [sample_running]))))) = {#}"
proof -
  let ?s = "sample_full_db [sample_cert None None] [sample_running]"
  let ?d = sample_built
  have ids [simp]: "mc_ID (sample_cert None None) = ''mcert_1''" by (simp add: sample_cert_def)
  have running: "op_ManagedCertificateID sample_running = ''mcert_1''" "op_in_flight sample_running"
    "op_Type sample_running \<in> {CertOpTypeIssue, CertOpTypeRenew, CertOpTypeRevoke}"
    by (simp_all add: sample_defs op_in_flight_def CertOpInFlightStatuses_def)
  have "\<exists>pub. withLatestOperation mem_mongo 50 c ''mcert_1'' s = Inr pub" for c s
    by (auto simp: withLatestOperation_def optional_def LatestCertificateOperation_def mem_coll_def
        split: list.splits)
  then obtain pub where "\<And>c s. withLatestOperation mem_mongo 50 c ''mcert_1'' s = Inr (pub c s)" by metis
  moreover have "\<exists>r. optional (FindRunningCertificateOperation mem_mongo ''mcert_1'' t ?s) = Inr r" for t
    by (auto simp: optional_def FindRunningCertificateOperation_def mem_coll_def split: option.splits)
  then obtain r where
    "\<And>t. optional (FindRunningCertificateOperation mem_mongo ''mcert_1'' t ?s) = Inr (r t)"
    by metis
  moreover have "\<not> issueFieldsChanged (sample_cert None None) ?d"
    by (simp add: issueFieldsChanged_def sample_built_def)
  moreover have "UpdateManagedCertificate mem_mongo 50 ''mcert_1'' (updateOf ?d) ?s =
      (Inr (managedCertificateUpdateDocument (updateOf ?d) 50 (sample_cert None None)),
       sample_full_db [managedCertificateUpdateDocument (updateOf ?d) 50 (sample_cert None None)] [sample_running])"
    by (simp add: UpdateManagedCertificate_def mem_eval sample_full_db_def sample_db_def)
  moreover have "GetManagedCertificate mem_mongo ''mcert_1'' ?s = Inr (sample_cert None None)"
    by (simp add: GetManagedCertificate_def mem_coll_def sample_db_def)
  ultimately obtain p s' where
    "managerUpdateCertificate id Some mem_mongo 50 ''mcert_1'' sample_input ?s = (Inr p, s')"
    using sample_build sample_refs [of "[sample_cert None None]" "[sample_running]"]
    by (auto simp: managerUpdateCertificate_def)
  from issue_fields_locked [OF mem_cert_store.cert_store_axioms _ _ _ running this] this
  show ?thesis by (auto simp: sample_cert_def)
qed

text \<open>
  C7: automatic renewal creates operations for due certificates only: every operation in the store
  after a pass was there before or is a pending Renew, with the configuration of the active version,
  of a certificate that has automatic renewal on, is in its renewal window and had no operation in
  flight; no operation is removed and no certificate changes.
\<close>

theorem auto_renew_only_when_due:
  assumes "cert_store M odocs ook cdocs cok"
    and "ook (st_certificateOperations s)" "cok (st_managedCertificates s)"
    and "reconcileAutoRenew M now uuids s = (ts, s')"
  shows "odocs (st_certificateOperations s) \<subseteq># odocs (st_certificateOperations s') \<and>
    st_managedCertificates s' = st_managedCertificates s \<and>
    (\<forall>op \<in># odocs (st_certificateOperations s'). op \<in># odocs (st_certificateOperations s) \<or>
      (\<exists>cert v. cert \<in># cdocs (st_managedCertificates s) \<and> mc_AutoRenewEnabled cert \<and>
        mc_ActiveVersion cert = Some v \<and> fst (ComputeValidity cert now) = CertValidityRenewalDue \<and>
        (\<forall>x \<in># odocs (st_certificateOperations s).
          op_ManagedCertificateID x = mc_ID cert \<longrightarrow> \<not> op_in_flight x) \<and>
        op_ManagedCertificateID op = mc_ID cert \<and> op_Type op = CertOpTypeRenew \<and>
        op_Status op = CertOpStatusPending \<and> op_ConfigSnapshot op = cv_ConfigSnapshot v))"
proof -
  note adds = cert_store.auto_renew_adds [OF assms(1) conjI [OF assms(2,3)] assms(4),
      unfolded op_store.idle_def [OF cert_store.axioms(1) [OF assms(1)]]]
  have "\<exists>cert v. cert \<in># cdocs (st_managedCertificates s) \<and> mc_AutoRenewEnabled cert \<and>
        mc_ActiveVersion cert = Some v \<and> fst (ComputeValidity cert now) = CertValidityRenewalDue \<and>
        (\<forall>x \<in># odocs (st_certificateOperations s).
          op_ManagedCertificateID x = mc_ID cert \<longrightarrow> \<not> op_in_flight x) \<and>
        op_ManagedCertificateID op = mc_ID cert \<and> op_Type op = CertOpTypeRenew \<and>
        op_Status op = CertOpStatusPending \<and> op_ConfigSnapshot op = cv_ConfigSnapshot v"
    if "op \<in># odocs (st_certificateOperations s')" "op \<notin># odocs (st_certificateOperations s)" for op
  proof -
    from adds that obtain cert v uuid where "cert \<in># cdocs (st_managedCertificates s)"
      "mc_ActiveVersion cert = Some v" "renewal_due cert now"
      "\<forall>x \<in># odocs (st_certificateOperations s). op_ManagedCertificateID x = mc_ID cert \<longrightarrow> \<not> op_in_flight x"
      "op = created_op now uuid (pendingOperation (mc_ID cert) CertOpTypeRenew (cv_ConfigSnapshot v) [] 0)"
      by blast
    then show ?thesis
      by (intro exI [of _ cert] exI [of _ v])
        (simp add: renewal_due_def created_op_def pendingOperation_def Let_def)
  qed
  with adds show ?thesis by blast
qed

definition sample_due :: ManagedCertificate where
  "sample_due = sample_cert (Some (sample_version ''v1'')) None"

lemma sample_due_due: "renewal_due sample_due (80 * 24 * Hour)"
  by (simp add: renewal_due_def sample_due_def sample_cert_def sample_version_def ComputeValidity_def
      ComputeVersionValidity_def VersionDistributable_def EffectiveRenewalWindow_def time_sub_def
      wrap64_def time_units max_int64_def min_int64_def Let_def)

theorem auto_renew_only_when_due_witness:
  "filter_mset (\<lambda>op. op_Type op \<noteq> CertOpTypeRenew) (mem_docs un_DOp (st_certificateOperations
      (snd (reconcileAutoRenew mem_mongo (80 * 24 * Hour) [''u''] (sample_db [sample_due] []))))) = {#}"
  using auto_renew_only_when_due [OF mem_cert_store.cert_store_axioms _ _ surjective_pairing,
      of "sample_db [sample_due] []"] by (fastforce simp: filter_mset_none)

text \<open>
  No due certificate is forgotten: with a working database, a pass over fewer certificates than
  fresh ids leaves every certificate that has automatic renewal on and is in its renewal window with
  an operation in flight.
\<close>

theorem auto_renew_misses_nothing:
  assumes "reliable_cert_store M odocs ook cdocs cok"
    and "ook (st_certificateOperations s)" "cok (st_managedCertificates s)"
    and "cert \<in># cdocs (st_managedCertificates s)" "mc_AutoRenewEnabled cert" "mc_ActiveVersion cert \<noteq> None"
      "fst (ComputeValidity cert now) = CertValidityRenewalDue"
    and "distinct uuids" "size (cdocs (st_managedCertificates s)) \<le> length uuids"
      "\<forall>u \<in> set uuids. \<forall>op \<in># odocs (st_certificateOperations s). op_ID op \<noteq> ''cop_'' @ u"
  shows "\<exists>op \<in># odocs (st_certificateOperations (snd (reconcileAutoRenew M now uuids s))).
    op_ManagedCertificateID op = mc_ID cert \<and> op_in_flight op"
proof -
  have "renewal_due cert now" using assms(5-7) by (simp add: renewal_due_def)
  note complete = reliable_cert_store.auto_renew_completes [OF assms(1) conjI [OF assms(2,3)]
      surjective_pairing assms(4) this assms(8-10)]
  have "op_store M odocs ook"
    by (meson assms(1) reliable_cert_store_def reliable_op_store_def op_store_def reliable_collection_def)
  from complete show ?thesis unfolding op_store.idle_def [OF \<open>op_store M odocs ook\<close>] by blast
qed

theorem auto_renew_misses_nothing_witness:
  "\<exists>op \<in># mem_docs un_DOp (st_certificateOperations (snd (reconcileAutoRenew mem_mongo (80 * 24 * Hour) [''u'']
      (sample_db [sample_due] [])))). op_ManagedCertificateID op = ''mcert_1'' \<and> op_in_flight op"
proof -
  have due: "mc_AutoRenewEnabled sample_due" "mc_ActiveVersion sample_due \<noteq> None"
    "fst (ComputeValidity sample_due (80 * 24 * Hour)) = CertValidityRenewalDue"
    using sample_due_due by (simp_all add: renewal_due_def)
  show ?thesis
    using auto_renew_misses_nothing [OF mem_reliable_cert_store.reliable_cert_store_axioms _ _ _ due,
        of "sample_db [sample_due] []" "[''u'']"]
    by (simp add: sample_due_def) (simp add: sample_cert_def)
qed

text \<open>
  What a server may fetch, with a working database: a certificate that is not assigned to it is
  answered exactly like one that does not exist; an assigned one yields its active version and only
  while that version is neither revoked nor being revoked.
\<close>

theorem server_bundle_authorization:
  assumes "reliable_cert_store M odocs ook cdocs cok"
    and "ook (st_certificateOperations s)" "cok (st_managedCertificates s)"
  shows "((\<forall>cert \<in># cdocs (st_managedCertificates s). mc_ID cert = i \<longrightarrow> srv \<notin> set (mc_ServerIDs cert)) \<longrightarrow>
      GetServerCertificateBundle M now srv i s = Inl (CertE ErrCertificateNotAuthorized)) \<and>
    (\<forall>cert \<in># cdocs (st_managedCertificates s). mc_ID cert = i \<and> srv \<in> set (mc_ServerIDs cert) \<longrightarrow>
      GetServerCertificateBundle M now srv i s =
        (case mc_ActiveVersion cert of
           Some v \<Rightarrow> if cv_RevokePending v \<or> cv_RevokedAt v \<noteq> None then Inl (CertE ErrBundleNotAvailable)
             else Inr (bundleOf cert v (fst (ComputeValidity cert now)))
         | None \<Rightarrow> Inl (CertE ErrBundleNotAvailable)))"
  using reliable_cert_store.server_bundle_cases [OF assms(1) conjI [OF assms(2,3)]] by blast

theorem server_bundle_authorization_witness:
  "GetServerCertificateBundle mem_mongo 0 ''srv_1'' ''mcert_1'' (sample_db [sample_due] []) =
     Inl (CertE ErrCertificateNotAuthorized)"
  using server_bundle_authorization [OF mem_reliable_cert_store.reliable_cert_store_axioms,
      of "sample_db [sample_due] []" "''mcert_1''" "''srv_1''" 0]
  by (simp add: sample_due_def sample_cert_def)

end
