(* ===== verification/Notify.thy ===== *)
theory Notify
  imports Documents
begin

text \<open>
  internal/notify: the channel adapters and their routing. The HTTP client is a parameter, a
  function from the request to its error or status code (it covers \<open>http.NewRequest\<close> and
  \<open>client.Do\<close>); a delivery returns its error together with the requests it made. Bodies stay
  structured: \<open>Json\<close> is \<open>json.Marshal\<close> of the listed fields, \<open>Form\<close> is \<open>url.Values.Encode\<close>, and
  \<open>Raw\<close> the webhook body the caller has rendered. Header names are compared as they are written.
\<close>

section \<open>Text\<close>

definition utf8 :: "nat list \<Rightarrow> string" where
  "utf8 bs = map char_of bs"

definition newline :: string where
  "newline = [CHR 0x0A]"

fun join_with :: "string \<Rightarrow> string list \<Rightarrow> string" where
  "join_with sep [] = []"
| "join_with sep [x] = x"
| "join_with sep (x # y # xs) = x @ sep @ join_with sep (y # xs)"

text \<open>\<open>strings.TrimRight(s, "/")\<close>.\<close>

definition trim_right_slashes :: "string \<Rightarrow> string" where
  "trim_right_slashes s = rev (dropWhile (\<lambda>c. c = CHR ''/'') (rev s))"

section \<open>Requests\<close>

datatype 'j body = Raw 'j | Json "(string \<times> string) list" | Form "(string \<times> string) list"

record 'j request =
  rq_URL :: string
  rq_Header :: "string \<rightharpoonup> string"
  rq_Body :: "'j body"

record 'j Delivery =
  dl_WebhookJSON :: 'j
  dl_HumanText :: string

definition extra :: "AlertChannel \<Rightarrow> string \<Rightarrow> string" where
  "extra channel key = (case ch_Extra channel key of None \<Rightarrow> [] | Some v \<Rightarrow> v)"

definition webhook_request :: "AlertChannel \<Rightarrow> 'j Delivery \<Rightarrow> err + 'j request" where
  "webhook_request channel d =
     (if ch_Target channel = [] then Inl (Opaque ''empty webhook target'')
      else Inr \<lparr>rq_URL = ch_Target channel,
             rq_Header = [''Content-Type'' \<mapsto> ''application/json''] ++ ch_Extra channel,
             rq_Body = Raw (dl_WebhookJSON d)\<rparr>)"

definition telegram_request :: "AlertChannel \<Rightarrow> 'j Delivery \<Rightarrow> err + 'j request" where
  "telegram_request channel d =
     (let chatID = trim_space (ch_Target channel);
          token = trim_space (extra channel ''bot_token'') in
      if chatID = [] then Inl (Opaque ''empty telegram chat_id (target)'')
      else if token = [] then Inl (Opaque ''missing telegram bot_token in extra'')
      else Inr \<lparr>rq_URL = ''https://api.telegram.org/bot'' @ token @ ''/sendMessage'',
             rq_Header = [''Content-Type'' \<mapsto> ''application/json''],
             rq_Body = Json [(''chat_id'', chatID), (''text'', dl_HumanText d)]\<rparr>)"

definition discord_request :: "AlertChannel \<Rightarrow> 'j Delivery \<Rightarrow> err + 'j request" where
  "discord_request channel d =
     (if trim_space (ch_Target channel) = [] then Inl (Opaque ''empty discord webhook url (target)'')
      else Inr \<lparr>rq_URL = ch_Target channel,
             rq_Header = [''Content-Type'' \<mapsto> ''application/json''],
             rq_Body = Json [(''content'', dl_HumanText d)]\<rparr>)"

definition mastodon_request :: "AlertChannel \<Rightarrow> 'j Delivery \<Rightarrow> err + 'j request" where
  "mastodon_request channel d =
     (let base = trim_right_slashes (trim_space (ch_Target channel));
          token = trim_space (extra channel ''access_token'');
          visibility = trim_space (extra channel ''visibility'') in
      if base = [] then Inl (Opaque ''empty mastodon instance url (target)'')
      else if token = [] then Inl (Opaque ''missing mastodon access_token in extra'')
      else Inr \<lparr>rq_URL = base @ ''/api/v1/statuses'',
             rq_Header = [''Authorization'' \<mapsto> ''Bearer '' @ token,
               ''Content-Type'' \<mapsto> ''application/x-www-form-urlencoded''],
             rq_Body = Form [(''status'', dl_HumanText d),
               (''visibility'', if visibility = [] then ''unlisted'' else visibility)]\<rparr>)"

definition postRaw :: "('j request \<Rightarrow> err + nat) \<Rightarrow> string \<Rightarrow> 'j request \<Rightarrow> err option" where
  "postRaw client label req =
     (case client req of
        Inl e \<Rightarrow> Some e
      | Inr status \<Rightarrow>
          if 400 \<le> status then Some (Opaque (label @ '' returned status '' @ format_nat status)) else None)"

definition send_with ::
  "('j request \<Rightarrow> err + nat) \<Rightarrow> string \<Rightarrow> err + 'j request \<Rightarrow> err option \<times> 'j request list" where
  "send_with client label r =
     (case r of Inl e \<Rightarrow> (Some e, []) | Inr req \<Rightarrow> (postRaw client label req, [req]))"

definition BuiltinSenders ::
  "('j request \<Rightarrow> err + nat) \<Rightarrow> string \<rightharpoonup> (AlertChannel \<Rightarrow> 'j Delivery \<Rightarrow> err option \<times> 'j request list)" where
  "BuiltinSenders client =
     [''webhook'' \<mapsto> (\<lambda>ch d. send_with client ''webhook'' (webhook_request ch d)),
      ''telegram'' \<mapsto> (\<lambda>ch d. send_with client ''telegram'' (telegram_request ch d)),
      ''discord'' \<mapsto> (\<lambda>ch d. send_with client ''discord'' (discord_request ch d)),
      ''mastodon'' \<mapsto> (\<lambda>ch d. send_with client ''mastodon'' (mastodon_request ch d))]"

text \<open>\<open>fmt.Errorf("%w: %q", ErrUnsupportedChannel, channel.Type)\<close>.\<close>

definition Deliver ::
  "(string \<rightharpoonup> (AlertChannel \<Rightarrow> 'j Delivery \<Rightarrow> err option \<times> 'j request list)) \<Rightarrow>
    AlertChannel \<Rightarrow> 'j Delivery \<Rightarrow> err option \<times> 'j request list" where
  "Deliver senders channel d =
     (let kind = (if ch_Type channel = [] then ''webhook'' else ch_Type channel) in
      case senders kind of
        None \<Rightarrow> (Some (Annot (OtherE ErrUnsupportedChannel) [Quoted (ch_Type channel)]), [])
      | Some sender \<Rightarrow> sender channel d)"

lemma deliver_requests: "length (snd (Deliver (BuiltinSenders client) channel d)) \<le> 1"
  by (auto simp: Deliver_def BuiltinSenders_def send_with_def Let_def split: sum.splits)

end
