(* ===== verification/CertNotify.thy ===== *)
theory CertNotify
  imports Notify CertManager
begin

text \<open>
  Certificate lifecycle notifications: the markers of internal/store/certificate_notifications.go
  and internal/certnotify. Each claim of a notification slot is one guarded write of the store, so
  that of several replicas one sends. The goroutines of a fan-out run in channel order here; each
  failed delivery writes its warning. \<open>q\<close> is \<open>fmt\<close>'s \<open>%q\<close>, \<open>rfc3339\<close> the time format, \<open>client\<close> the
  HTTP client; a call returns the requests it made and the store it leaves.
\<close>

section \<open>The markers\<close>

definition CertNotificationFailReminderInterval :: duration where
  "CertNotificationFailReminderInterval = 24 * Hour"

definition CertNotificationSevenDayThreshold :: duration where
  "CertNotificationSevenDayThreshold = 7 * 24 * Hour"

definition no_notifications :: CertificateNotificationState where
  "no_notifications = \<lparr>ns_HadOperationFailure = False, ns_LastFailNotifiedAt = None,
     ns_SevenDayReminderVersionID = [], ns_ExpiredNotifiedVersionID = [],
     ns_LastNotificationWarning = [], ns_LastNotificationWarningAt = None\<rparr>"

definition markers :: "ManagedCertificate \<Rightarrow> CertificateNotificationState" where
  "markers c = (case mc_NotificationState c of None \<Rightarrow> no_notifications | Some n \<Rightarrow> n)"

definition set_markers ::
  "(CertificateNotificationState \<Rightarrow> CertificateNotificationState) \<Rightarrow> gotime \<Rightarrow> ManagedCertificate \<Rightarrow>
    ManagedCertificate" where
  "set_markers f now c = c\<lparr>mc_NotificationState := Some (f (markers c)), mc_UpdatedAt := now\<rparr>"

text \<open>\<open>return res.MatchedCount > 0, nil\<close>.\<close>

definition try_record ::
  "'c mongo \<Rightarrow> (ManagedCertificate \<Rightarrow> bool) \<Rightarrow> (ManagedCertificate \<Rightarrow> ManagedCertificate) \<Rightarrow> 'c db \<Rightarrow>
    (err + bool) \<times> 'c db" where
  "try_record M P f s =
     and_then (on_managedCertificates (UpdateOne (managedCertificates M) P f) s) (\<lambda>n s. (Inr (n > 0), s))"

definition ListManagedCertificatesForNotifications :: "'c mongo \<Rightarrow> 'c db \<Rightarrow> err + ManagedCertificate list" where
  "ListManagedCertificatesForNotifications M s =
     FindDocs (managedCertificates M) (\<lambda>c. mc_NotifyGroupIDs c \<noteq> [] \<and> mc_ActiveVersion c \<noteq> None)
       (\<lambda>_ _. True) 0 None (st_managedCertificates s)"

definition failure_recorded :: "gotime \<Rightarrow> CertificateNotificationState \<Rightarrow> CertificateNotificationState" where
  "failure_recorded now n = n\<lparr>ns_HadOperationFailure := True, ns_LastFailNotifiedAt := Some now\<rparr>"

definition TryRecordOperationFailureNotification ::
  "'c mongo \<Rightarrow> string \<Rightarrow> gotime \<Rightarrow> 'c db \<Rightarrow> (err + bool) \<times> 'c db" where
  "TryRecordOperationFailureNotification M certID now =
     try_record M (\<lambda>c. mc_ID c = certID \<and> \<not> ns_HadOperationFailure (markers c))
       (set_markers (failure_recorded now) now)"

definition reminder_due :: "gotime \<Rightarrow> CertificateNotificationState \<Rightarrow> bool" where
  "reminder_due now n \<longleftrightarrow> ns_HadOperationFailure n \<and>
     (case ns_LastFailNotifiedAt n of None \<Rightarrow> False
      | Some t \<Rightarrow> t \<le> now - CertNotificationFailReminderInterval)"

definition TryRecordOperationFailureReminder ::
  "'c mongo \<Rightarrow> string \<Rightarrow> gotime \<Rightarrow> 'c db \<Rightarrow> (err + bool) \<times> 'c db" where
  "TryRecordOperationFailureReminder M certID now =
     try_record M (\<lambda>c. mc_ID c = certID \<and> reminder_due now (markers c))
       (set_markers (\<lambda>n. n\<lparr>ns_LastFailNotifiedAt := Some now\<rparr>) now)"

definition recovery_recorded :: "CertificateNotificationState \<Rightarrow> CertificateNotificationState" where
  "recovery_recorded n = n\<lparr>ns_HadOperationFailure := False, ns_LastFailNotifiedAt := None\<rparr>"

definition TryRecordOperationRecovery ::
  "'c mongo \<Rightarrow> string \<Rightarrow> gotime \<Rightarrow> 'c db \<Rightarrow> (err + bool) \<times> 'c db" where
  "TryRecordOperationRecovery M certID now =
     try_record M (\<lambda>c. mc_ID c = certID \<and> ns_HadOperationFailure (markers c))
       (set_markers recovery_recorded now)"

text \<open>A version with the empty id counts as marked: the field of a fresh certificate is absent.\<close>

definition TryRecordSevenDayReminder ::
  "'c mongo \<Rightarrow> string \<Rightarrow> string \<Rightarrow> gotime \<Rightarrow> 'c db \<Rightarrow> (err + bool) \<times> 'c db" where
  "TryRecordSevenDayReminder M certID versionID now =
     try_record M (\<lambda>c. mc_ID c = certID \<and> active_id_is versionID c \<and>
         (ns_SevenDayReminderVersionID (markers c) = [] \<or> ns_SevenDayReminderVersionID (markers c) \<noteq> versionID))
       (set_markers (\<lambda>n. n\<lparr>ns_SevenDayReminderVersionID := versionID\<rparr>) now)"

definition TryRecordExpiredNotification ::
  "'c mongo \<Rightarrow> string \<Rightarrow> string \<Rightarrow> gotime \<Rightarrow> 'c db \<Rightarrow> (err + bool) \<times> 'c db" where
  "TryRecordExpiredNotification M certID versionID now =
     try_record M (\<lambda>c. mc_ID c = certID \<and> active_id_is versionID c \<and>
         (ns_ExpiredNotifiedVersionID (markers c) = [] \<or> ns_ExpiredNotifiedVersionID (markers c) \<noteq> versionID))
       (set_markers (\<lambda>n. n\<lparr>ns_ExpiredNotifiedVersionID := versionID\<rparr>) now)"

definition SetCertificateNotificationWarning ::
  "'c mongo \<Rightarrow> string \<Rightarrow> string \<Rightarrow> gotime \<Rightarrow> 'c db \<Rightarrow> (err + unit) \<times> 'c db" where
  "SetCertificateNotificationWarning M certID warning at s =
     and_then (on_managedCertificates (UpdateOne (managedCertificates M) (\<lambda>c. mc_ID c = certID)
         (set_markers (\<lambda>n. n\<lparr>ns_LastNotificationWarning := warning,
            ns_LastNotificationWarningAt := Some at\<rparr>) at)) s)
       (\<lambda>_ s. (Inr (), s))"

section \<open>Payloads\<close>

abbreviation "EventOperationFailed \<equiv> ''certificate_operation_failed''"
abbreviation "EventOperationFailedReminder \<equiv> ''certificate_operation_failed_reminder''"
abbreviation "EventOperationRecovered \<equiv> ''certificate_operation_recovered''"
abbreviation "EventExpiringSoon \<equiv> ''certificate_expiring_soon''"
abbreviation "EventExpired \<equiv> ''certificate_expired''"

record Payload =
  pl_EventType :: string
  pl_ManagedCertificateID :: string
  pl_CertificateName :: string
  pl_Domains :: "string list"
  pl_OperationType :: string
  pl_OperationID :: string
  pl_ErrorSummary :: string
  pl_ActiveValidity :: string
  pl_DaysRemaining :: int
  pl_OccurredAt :: gotime

definition eventText :: "Payload \<Rightarrow> string" where
  "eventText p =
     (if pl_EventType p = EventOperationFailed
     then utf8 [0xE7, 0xAD, 0xBE, 0xE5, 0x8F, 0x91] @ ''/'' @ utf8 [0xE7, 0xBB, 0xAD, 0xE6, 0x9C, 0x9F, 0xE5, 0xA4, 0xB1, 0xE8, 0xB4, 0xA5]
     else if pl_EventType p = EventOperationFailedReminder
     then utf8 [0xE7, 0xAD, 0xBE, 0xE5, 0x8F, 0x91] @ ''/'' @ utf8 [0xE7, 0xBB, 0xAD, 0xE6, 0x9C, 0x9F, 0xE6, 0x8C, 0x81, 0xE7, 0xBB, 0xAD, 0xE5, 0xA4, 0xB1, 0xE8, 0xB4, 0xA5, 0xE6, 0x8F, 0x90, 0xE9, 0x86, 0x92]
     else if pl_EventType p = EventOperationRecovered
     then utf8 [0xE7, 0xAD, 0xBE, 0xE5, 0x8F, 0x91] @ ''/'' @ utf8 [0xE7, 0xBB, 0xAD, 0xE6, 0x9C, 0x9F, 0xE5, 0xB7, 0xB2, 0xE6, 0x81, 0xA2, 0xE5, 0xA4, 0x8D]
     else if pl_EventType p = EventExpiringSoon
     then utf8 [0xE8, 0xAF, 0x81, 0xE4, 0xB9, 0xA6, 0xE5, 0x8D, 0xB3, 0xE5, 0xB0, 0x86, 0xE8, 0xBF, 0x87, 0xE6, 0x9C, 0x9F, 0xEF, 0xBC, 0x88] @ ''7 '' @ utf8 [0xE5, 0xA4, 0xA9, 0xE5, 0x86, 0x85, 0xEF, 0xBC, 0x89]
     else if pl_EventType p = EventExpired
     then utf8 [0xE8, 0xAF, 0x81, 0xE4, 0xB9, 0xA6, 0xE5, 0xB7, 0xB2, 0xE8, 0xBF, 0x87, 0xE6, 0x9C, 0x9F]
     else utf8 [0xE8, 0xAF, 0x81, 0xE4, 0xB9, 0xA6, 0xE4, 0xBA, 0x8B, 0xE4, 0xBB, 0xB6])"

definition formatHumanText :: "(gotime \<Rightarrow> string) \<Rightarrow> Payload \<Rightarrow> string" where
  "formatHumanText rfc3339 p =
     ''[neo-line '' @ utf8 [0xE8, 0xAF, 0x81, 0xE4, 0xB9, 0xA6] @ ''] '' @ eventText p
     @ newline @ utf8 [0xE8, 0xAF, 0x81, 0xE4, 0xB9, 0xA6, 0xEF, 0xBC, 0x9A] @ pl_CertificateName p
     @ '' ('' @ pl_ManagedCertificateID p @ '')'' @ newline @ utf8 [0xE5, 0x9F, 0x9F, 0xE5, 0x90, 0x8D, 0xEF, 0xBC, 0x9A]
     @ join_with '', '' (pl_Domains p)
     @ (if pl_OperationType p = [] then [] else newline @ utf8 [0xE6, 0x93, 0x8D, 0xE4, 0xBD, 0x9C, 0xEF, 0xBC, 0x9A] @ pl_OperationType p)
     @ (if pl_OperationID p = [] then [] else newline @ ''Operation ID'' @ utf8 [0xEF, 0xBC, 0x9A] @ pl_OperationID p)
     @ (if pl_ErrorSummary p = [] then [] else newline @ utf8 [0xE9, 0x94, 0x99, 0xE8, 0xAF, 0xAF, 0xEF, 0xBC, 0x9A] @ pl_ErrorSummary p)
     @ newline @ ''Active '' @ utf8 [0xE6, 0x9C, 0x89, 0xE6, 0x95, 0x88, 0xE6, 0x80, 0xA7, 0xEF, 0xBC, 0x9A] @ pl_ActiveValidity p
     @ (if pl_DaysRemaining p \<le> 0 then [] else newline @ utf8 [0xE5, 0x89, 0xA9, 0xE4, 0xBD, 0x99, 0xE5, 0xA4, 0xA9, 0xE6, 0x95, 0xB0, 0xEF, 0xBC, 0x9A] @ format_int (pl_DaysRemaining p))
     @ newline @ utf8 [0xE6, 0x97, 0xB6, 0xE9, 0x97, 0xB4, 0xEF, 0xBC, 0x9A] @ rfc3339 (pl_OccurredAt p)"

text \<open>\<open>int32(remaining / (24 * time.Hour))\<close>; at most 106751, so the conversion is exact.\<close>

definition daysRemaining :: "CertificateVersion \<Rightarrow> gotime \<Rightarrow> int" where
  "daysRemaining v now =
     (if cv_NotAfter v < now then 0
      else let remaining = time_sub (cv_NotAfter v) now;
               days = remaining div (24 * Hour)
           in if days = 0 \<and> remaining > 0 then 1 else days)"

definition channelLabel :: "AlertChannel \<Rightarrow> string" where
  "channelLabel ch =
     (let kind = (if ch_Type ch = [] then ''webhook'' else ch_Type ch)
      in if ch_Target ch \<noteq> [] then kind @ '':'' @ ch_Target ch else kind)"

section \<open>Dispatch\<close>

fun resolveChannels :: "'c mongo \<Rightarrow> string list \<Rightarrow> 'c db \<Rightarrow> AlertChannel list" where
  "resolveChannels M [] s = []"
| "resolveChannels M (i # ids) s =
     (case GetNotifyGroup M i s of
        Inl e \<Rightarrow> resolveChannels M ids s
      | Inr ng \<Rightarrow> ng_Channels ng @ resolveChannels M ids s)"

record notifier =
  nf_q :: "string \<Rightarrow> string"
  nf_rfc3339 :: "gotime \<Rightarrow> string"
  nf_client :: "Payload request \<Rightarrow> err + nat"

definition deliver_one ::
  "'c mongo \<Rightarrow> notifier \<Rightarrow> gotime \<Rightarrow> string \<Rightarrow> Payload \<Rightarrow> AlertChannel \<Rightarrow> 'c db \<Rightarrow>
    Payload request list \<times> 'c db" where
  "deliver_one M N later certID p ch s =
     (case Deliver (BuiltinSenders (nf_client N)) ch
             \<lparr>dl_WebhookJSON = p, dl_HumanText = formatHumanText (nf_rfc3339 N) p\<rparr> of
        (None, reqs) \<Rightarrow> (reqs, s)
      | (Some e, reqs) \<Rightarrow>
          (reqs, snd (SetCertificateNotificationWarning M certID
             (''cert '' @ pl_EventType p @ '' notify '' @ nf_q N (channelLabel ch) @ '' failed: ''
               @ error_text (nf_q N) e) later s)))"

fun deliver_each ::
  "'c mongo \<Rightarrow> notifier \<Rightarrow> gotime \<Rightarrow> string \<Rightarrow> Payload \<Rightarrow> AlertChannel list \<Rightarrow> 'c db \<Rightarrow>
    Payload request list \<times> 'c db" where
  "deliver_each M N later certID p [] s = ([], s)"
| "deliver_each M N later certID p (ch # chs) s =
     (let (reqs, s) = deliver_one M N later certID p ch s;
          (rest, s) = deliver_each M N later certID p chs s
      in (reqs @ rest, s))"

definition deliver ::
  "'c mongo \<Rightarrow> notifier \<Rightarrow> gotime \<Rightarrow> ManagedCertificate \<Rightarrow> Payload \<Rightarrow> 'c db \<Rightarrow>
    Payload request list \<times> 'c db" where
  "deliver M N later cert p s =
     deliver_each M N later (mc_ID cert) p (resolveChannels M (mc_NotifyGroupIDs cert) s) s"

definition operation_payload ::
  "string \<Rightarrow> ManagedCertificate \<Rightarrow> CertificateOperation \<Rightarrow> string \<Rightarrow> gotime \<Rightarrow> Payload" where
  "operation_payload eventType cert op errorSummary now =
     \<lparr>pl_EventType = eventType, pl_ManagedCertificateID = mc_ID cert, pl_CertificateName = mc_Name cert,
      pl_Domains = mc_Domains cert, pl_OperationType = op_Type op, pl_OperationID = op_ID op,
      pl_ErrorSummary = errorSummary, pl_ActiveValidity = fst (ComputeValidity cert now),
      pl_DaysRemaining = 0, pl_OccurredAt = now\<rparr>"

definition OnOperationFailure ::
  "'c mongo \<Rightarrow> notifier \<Rightarrow> gotime \<Rightarrow> gotime \<Rightarrow> ManagedCertificate \<Rightarrow> CertificateOperation \<Rightarrow> string \<Rightarrow>
    'c db \<Rightarrow> Payload request list \<times> 'c db" where
  "OnOperationFailure M N now later cert op errorSummary s =
     (if mc_NotifyGroupIDs cert = [] then ([], s)
      else case TryRecordOperationFailureNotification M (mc_ID cert) now s of
        (Inl e, s) \<Rightarrow> ([], s)
      | (Inr True, s) \<Rightarrow>
          deliver M N later cert (operation_payload EventOperationFailed cert op errorSummary now) s
      | (Inr False, s) \<Rightarrow>
          (case TryRecordOperationFailureReminder M (mc_ID cert) now s of
             (Inr True, s) \<Rightarrow>
               deliver M N later cert
                 (operation_payload EventOperationFailedReminder cert op errorSummary now) s
           | (_, s) \<Rightarrow> ([], s)))"

definition OnOperationSuccess ::
  "'c mongo \<Rightarrow> notifier \<Rightarrow> gotime \<Rightarrow> gotime \<Rightarrow> ManagedCertificate \<Rightarrow> CertificateOperation \<Rightarrow>
    'c db \<Rightarrow> Payload request list \<times> 'c db" where
  "OnOperationSuccess M N now later cert op s =
     (if mc_NotifyGroupIDs cert = [] then ([], s)
      else case TryRecordOperationRecovery M (mc_ID cert) now s of
        (Inr True, s) \<Rightarrow>
          deliver M N later cert (operation_payload EventOperationRecovered cert op [] now) s
      | (_, s) \<Rightarrow> ([], s))"

definition validity_payload ::
  "string \<Rightarrow> ManagedCertificate \<Rightarrow> int \<Rightarrow> gotime \<Rightarrow> Payload" where
  "validity_payload eventType cert days now =
     \<lparr>pl_EventType = eventType, pl_ManagedCertificateID = mc_ID cert, pl_CertificateName = mc_Name cert,
      pl_Domains = mc_Domains cert, pl_OperationType = [], pl_OperationID = [], pl_ErrorSummary = [],
      pl_ActiveValidity = fst (ComputeValidity cert now), pl_DaysRemaining = days, pl_OccurredAt = now\<rparr>"

definition sevenDayReminderBlockedByInFlightOperation ::
  "'c mongo \<Rightarrow> ManagedCertificate \<Rightarrow> 'c db \<Rightarrow> bool" where
  "sevenDayReminderBlockedByInFlightOperation M cert s \<longleftrightarrow>
     (\<exists>t \<in> {CertOpTypeRenew, CertOpTypeIssue}.
        (t = CertOpTypeRenew \<or> mc_ActiveVersion cert \<noteq> None) \<and>
        (case FindRunningCertificateOperation M (mc_ID cert) t s of Inr op \<Rightarrow> True | Inl e \<Rightarrow> False))"

definition scan_one ::
  "'c mongo \<Rightarrow> notifier \<Rightarrow> gotime \<Rightarrow> gotime \<Rightarrow> ManagedCertificate \<Rightarrow> 'c db \<Rightarrow> Payload request list \<times> 'c db" where
  "scan_one M N now later cert s =
     (case mc_ActiveVersion cert of
        None \<Rightarrow> ([], s)
      | Some v \<Rightarrow>
          if mc_NotifyGroupIDs cert = [] then ([], s)
          else if fst (ComputeValidity cert now) = CertValidityExpired then
            (case TryRecordExpiredNotification M (mc_ID cert) (cv_ID v) now s of
               (Inr True, s) \<Rightarrow> deliver M N later cert (validity_payload EventExpired cert 0 now) s
             | (_, s) \<Rightarrow> ([], s))
          else let remaining = time_sub (cv_NotAfter v) now in
            if remaining \<le> CertNotificationSevenDayThreshold \<and> remaining > 0 then
              (if sevenDayReminderBlockedByInFlightOperation M cert s then ([], s)
               else case TryRecordSevenDayReminder M (mc_ID cert) (cv_ID v) now s of
                 (Inr True, s) \<Rightarrow>
                   deliver M N later cert (validity_payload EventExpiringSoon cert (daysRemaining v now) now) s
               | (_, s) \<Rightarrow> ([], s))
            else ([], s))"

fun scan_each ::
  "'c mongo \<Rightarrow> notifier \<Rightarrow> gotime \<Rightarrow> gotime \<Rightarrow> ManagedCertificate list \<Rightarrow> 'c db \<Rightarrow>
    Payload request list \<times> 'c db" where
  "scan_each M N now later [] s = ([], s)"
| "scan_each M N now later (cert # certs) s =
     (let (reqs, s) = scan_one M N now later cert s;
          (rest, s) = scan_each M N now later certs s
      in (reqs @ rest, s))"

definition ScanValidityNotifications ::
  "'c mongo \<Rightarrow> notifier \<Rightarrow> gotime \<Rightarrow> gotime \<Rightarrow> 'c db \<Rightarrow> Payload request list \<times> 'c db" where
  "ScanValidityNotifications M N now later s =
     (case ListManagedCertificatesForNotifications M s of
        Inl e \<Rightarrow> ([], s)
      | Inr certs \<Rightarrow> scan_each M N now later certs s)"

section \<open>What a notification may write\<close>

text \<open>A certificate without the markers and the update time.\<close>

definition core :: "ManagedCertificate \<Rightarrow> ManagedCertificate" where
  "core c = c\<lparr>mc_NotificationState := None, mc_UpdatedAt := 0\<rparr>"

lemma core_set_markers [simp]: "core (set_markers f now c) = core c"
  by (simp add: core_def set_markers_def)

lemma set_markers_sel [simp]: "mc_ID (set_markers f now c) = mc_ID c"
  "markers (set_markers f now c) = f (markers c)"
  by (simp_all add: set_markers_def markers_def)

context cert_store begin

text \<open>\<open>I\<close> is a property of certificates, such as a bound on the markers, that the writes keep.\<close>

definition marked :: "(ManagedCertificate \<Rightarrow> bool) \<Rightarrow> 'c db \<Rightarrow> 'c db \<Rightarrow> bool" where
  "marked I s s' \<longleftrightarrow> db_ok s' \<and> st_certificateOperations s' = st_certificateOperations s \<and>
     image_mset core (cert_docs s') = image_mset core (cert_docs s) \<and>
     ((\<forall>c \<in># cert_docs s. I c) \<longrightarrow> (\<forall>c \<in># cert_docs s'. I c))"

lemma marked_refl: "db_ok s \<Longrightarrow> marked I s s"
  by (simp add: marked_def)

lemma marked_trans: "marked I s s1 \<Longrightarrow> marked I s1 s2 \<Longrightarrow> marked I s s2"
  unfolding marked_def by (elim conjE) simp

lemma marked_ok: "marked I s s' \<Longrightarrow> db_ok s'"
  unfolding marked_def by blast

lemma update_marked:
  assumes ok: "db_ok s" and keep: "\<And>c. P c \<Longrightarrow> I c \<Longrightarrow> I (set_markers f now c)"
    and upd: "on_managedCertificates (UpdateOne (managedCertificates M) P (set_markers f now)) s = (r, s')"
  shows "marked I s s' \<and> (\<forall>n. r = Inr n \<longrightarrow>
    (if n = 0 then cert_docs s' = cert_docs s else replaced P (set_markers f now) (cert_docs s) (cert_docs s')))"
proof -
  obtain c where c: "UpdateOne (managedCertificates M) P (set_markers f now) (st_managedCertificates s) = (r, c)"
    "s' = s\<lparr>st_managedCertificates := c\<rparr>"
    using upd by (auto simp: on_managedCertificates_eq_iff)
  have "image_mset core (cdocs c) = image_mset core (cert_docs s)"
    using conjunct2 [OF ok] c(1)
  proof (cases rule: certs.update_cases)
    case one
    then obtain d where "d \<in># cert_docs s" "cdocs c = add_mset (set_markers f now d) (cert_docs s - {#d#})"
      by (rule replacedE)
    then show ?thesis by (simp add: image_mset_Diff)
  qed simp
  moreover have "(\<forall>d \<in># cert_docs s. I d) \<longrightarrow> (\<forall>d \<in># cdocs c. I d)"
    using certs.update_pred [OF conjunct2 [OF ok] c(1)] keep by blast
  moreover have "\<forall>n. r = Inr n \<longrightarrow>
      (if n = 0 then cdocs c = cert_docs s else replaced P (set_markers f now) (cert_docs s) (cdocs c))"
    using certs.update_done [OF conjunct2 [OF ok]] c(1) by (auto split: if_splits)
  ultimately show ?thesis
    using ok c(2) certs.update_ok [OF conjunct2 [OF ok] c(1)] by (simp add: marked_def)
qed

lemma try_record_marked:
  assumes ok: "db_ok s" and keep: "\<And>c. P c \<Longrightarrow> I c \<Longrightarrow> I (set_markers f now c)"
    and rec: "try_record M P (set_markers f now) s = (r, s')"
  shows "marked I s s' \<and> (r = Inr True \<longrightarrow> replaced P (set_markers f now) (cert_docs s) (cert_docs s')) \<and>
    (r = Inr False \<longrightarrow> cert_docs s' = cert_docs s)"
proof -
  obtain r1 where u: "on_managedCertificates (UpdateOne (managedCertificates M) P (set_markers f now)) s = (r1, s')"
    "\<And>n. r1 = Inr n \<Longrightarrow> r = Inr (n > 0)" "\<And>e. r1 = Inl e \<Longrightarrow> r = Inl e"
    using rec by (auto simp: try_record_def elim!: and_thenE)
  from update_marked [where I = I, OF ok _ u(1)] keep u(2,3) show ?thesis by (cases r1) auto
qed

text \<open>The fan-out writes warnings only.\<close>

definition warning_safe :: "(ManagedCertificate \<Rightarrow> bool) \<Rightarrow> bool" where
  "warning_safe I \<longleftrightarrow> (\<forall>c w at t. I c \<longrightarrow> I (set_markers (\<lambda>n. n\<lparr>ns_LastNotificationWarning := w,
     ns_LastNotificationWarningAt := Some at\<rparr>) t c))"

lemma deliver_one_marked:
  assumes "db_ok s" and "warning_safe I" and "deliver_one M N later i p ch s = (reqs, s')"
  shows "marked I s s'"
proof -
  consider "s' = s" | w where "s' = snd (SetCertificateNotificationWarning M i w later s)"
    using assms(3) by (auto simp: deliver_one_def split: prod.splits option.splits)
  then show ?thesis
  proof cases
    case (2 w)
    obtain r where "on_managedCertificates (UpdateOne (managedCertificates M) (\<lambda>c. mc_ID c = i)
         (set_markers (\<lambda>n. n\<lparr>ns_LastNotificationWarning := w, ns_LastNotificationWarningAt := Some later\<rparr>) later)) s
         = (r, s')"
      using 2 by (auto simp: SetCertificateNotificationWarning_def and_then_def split: prod.splits sum.splits)
    from update_marked [OF assms(1) _ this, of I] assms(2) show ?thesis by (auto simp: warning_safe_def)
  qed (simp add: marked_refl assms(1))
qed

lemma deliver_each_marked:
  "db_ok s \<Longrightarrow> warning_safe I \<Longrightarrow> deliver_each M N later i p chs s = (reqs, s') \<Longrightarrow> marked I s s'"
proof (induction chs arbitrary: s reqs)
  case (Cons ch chs)
  obtain r1 s1 r2 where one: "deliver_one M N later i p ch s = (r1, s1)" and
    rest: "deliver_each M N later i p chs s1 = (r2, s')"
    using Cons.prems(3) by (auto simp: Let_def split: prod.splits)
  note m = deliver_one_marked [OF Cons.prems(1,2) one]
  from marked_trans [OF m Cons.IH [OF marked_ok [OF m] Cons.prems(2) rest]] show ?case .
qed (simp add: marked_refl)

lemma deliver_marked:
  "db_ok s \<Longrightarrow> warning_safe I \<Longrightarrow> deliver M N later cert p s = (reqs, s') \<Longrightarrow> marked I s s'"
  unfolding deliver_def by (rule deliver_each_marked)

lemma failure_marked:
  assumes ok: "db_ok s" and safe: "warning_safe I"
    and keep: "\<And>c. \<not> ns_HadOperationFailure (markers c) \<Longrightarrow> I c \<Longrightarrow> I (set_markers (failure_recorded now) now c)"
      "\<And>c. reminder_due now (markers c) \<Longrightarrow> I c \<Longrightarrow> I (set_markers (\<lambda>n. n\<lparr>ns_LastFailNotifiedAt := Some now\<rparr>) now c)"
    and run: "OnOperationFailure M N now later cert op summary s = (reqs, s')"
  shows "marked I s s'"
proof (cases "mc_NotifyGroupIDs cert = []")
  case True
  then show ?thesis using run marked_refl [OF ok] by (simp add: OnOperationFailure_def)
next
  case False
  obtain r s1 where rec: "TryRecordOperationFailureNotification M (mc_ID cert) now s = (r, s1)" by fastforce
  from try_record_marked [OF ok _ rec [unfolded TryRecordOperationFailureNotification_def], of I] keep(1)
  have m1: "marked I s s1" by blast
  obtain r2 s2 where rec2: "TryRecordOperationFailureReminder M (mc_ID cert) now s1 = (r2, s2)" by fastforce
  from try_record_marked [OF marked_ok [OF m1] _ rec2 [unfolded TryRecordOperationFailureReminder_def], of I] keep(2)
  have m2: "marked I s1 s2" by blast
  consider "s' = s1" | "s' = s2"
    | (first) p where "deliver M N later cert p s1 = (reqs, s')"
    | (second) p where "deliver M N later cert p s2 = (reqs, s')"
    using run rec rec2 False by (auto simp: OnOperationFailure_def split: sum.splits bool.splits)
  then show ?thesis
    using m1 m2 marked_trans deliver_marked [OF _ safe] marked_ok by cases blast+
qed

lemma success_marked:
  assumes ok: "db_ok s" and safe: "warning_safe I"
    and keep: "\<And>c. ns_HadOperationFailure (markers c) \<Longrightarrow> I c \<Longrightarrow> I (set_markers recovery_recorded now c)"
    and run: "OnOperationSuccess M N now later cert op s = (reqs, s')"
  shows "marked I s s'"
proof (cases "mc_NotifyGroupIDs cert = []")
  case True
  then show ?thesis using run marked_refl [OF ok] by (simp add: OnOperationSuccess_def)
next
  case False
  obtain r s1 where rec: "TryRecordOperationRecovery M (mc_ID cert) now s = (r, s1)" by fastforce
  from try_record_marked [OF ok _ rec [unfolded TryRecordOperationRecovery_def], of I] keep
  have m1: "marked I s s1" by blast
  consider "s' = s1" | (first) p where "deliver M N later cert p s1 = (reqs, s')"
    using run rec False by (auto simp: OnOperationSuccess_def split: sum.splits bool.splits)
  then show ?thesis using m1 marked_trans deliver_marked [OF _ safe] marked_ok by cases blast+
qed


text \<open>A failure notification that is sent has just taken its slot.\<close>

lemma recorded_all:
  assumes "db_ok s'" and "replaced P (set_markers f now) (cert_docs s) (cert_docs s')"
    and "\<And>c. P c \<Longrightarrow> mc_ID c = i" and "\<And>c. P c \<Longrightarrow> K (f (markers c))"
  shows "\<forall>c \<in># cert_docs s'. mc_ID c = i \<longrightarrow> K (markers c)"
proof -
  obtain d where d: "P d" "cert_docs s' = add_mset (set_markers f now d) (cert_docs s - {#d#})"
    using assms(2) by (rule replacedE)
  show ?thesis
  proof (intro ballI impI)
    fix c assume "c \<in># cert_docs s'" "mc_ID c = i"
    then have "c = set_markers f now d"
      using d assms(3) [OF d(1)] by (intro cert_unique [OF assms(1)]) auto
    then show "K (markers c)" using assms(4) [OF d(1)] by simp
  qed
qed

definition failure_noted :: "string \<Rightarrow> gotime \<Rightarrow> ManagedCertificate \<Rightarrow> bool" where
  "failure_noted i t c \<longleftrightarrow> mc_ID c = i \<longrightarrow> ns_HadOperationFailure (markers c) \<and>
     (\<exists>u. ns_LastFailNotifiedAt (markers c) = Some u \<and> t \<le> u)"

lemma failure_noted_safe: "warning_safe (failure_noted i t)"
  by (simp add: warning_safe_def failure_noted_def)

lemma failure_sent:
  assumes ok: "db_ok s" and run: "OnOperationFailure M N now later cert op summary s = (reqs, s')"
    and sent: "reqs \<noteq> []"
  shows "(\<exists>c \<in># cert_docs s. mc_ID c = mc_ID cert \<and>
    (\<not> ns_HadOperationFailure (markers c) \<or> reminder_due now (markers c))) \<and>
    (\<forall>c \<in># cert_docs s'. failure_noted (mc_ID cert) now c)"
proof -
  let ?K = "\<lambda>n. ns_HadOperationFailure n \<and> ns_LastFailNotifiedAt n = Some now"
  obtain r s1 where rec: "TryRecordOperationFailureNotification M (mc_ID cert) now s = (r, s1)" by fastforce
  note m1 = try_record_marked [where I = "\<lambda>_. True", OF ok TrueI rec [unfolded TryRecordOperationFailureNotification_def]]
  then have ok1: "db_ok s1" using marked_ok by blast
  obtain r2 s2 where rec2: "TryRecordOperationFailureReminder M (mc_ID cert) now s1 = (r2, s2)" by fastforce
  note m2 = try_record_marked [where I = "\<lambda>_. True", OF ok1 TrueI rec2 [unfolded TryRecordOperationFailureReminder_def]]
  then have ok2: "db_ok s2" using marked_ok by blast
  consider
      (first) p where "r = Inr True" "deliver M N later cert p s1 = (reqs, s')"
    | (second) p where "r = Inr False" "r2 = Inr True" "deliver M N later cert p s2 = (reqs, s')"
    using run rec rec2 sent
    by (auto simp: OnOperationFailure_def split: sum.splits bool.splits if_splits)
  then show ?thesis
  proof cases
    case first
    from m1 first(1) have repl: "replaced (\<lambda>c. mc_ID c = mc_ID cert \<and> \<not> ns_HadOperationFailure (markers c))
        (set_markers (failure_recorded now) now) (cert_docs s) (cert_docs s1)" by simp
    from recorded_all [OF ok1 this, of "mc_ID cert" ?K]
    have "\<forall>c \<in># cert_docs s1. failure_noted (mc_ID cert) now c"
      by (auto simp: failure_recorded_def failure_noted_def)
    moreover have "\<exists>c \<in># cert_docs s. mc_ID c = mc_ID cert \<and> \<not> ns_HadOperationFailure (markers c)"
      using repl by (auto elim!: replacedE)
    ultimately show ?thesis
      using deliver_marked [OF ok1 failure_noted_safe first(2)] unfolding marked_def by blast
  next
    case second
    from m2 second(2) have repl: "replaced (\<lambda>c. mc_ID c = mc_ID cert \<and> reminder_due now (markers c))
        (set_markers (\<lambda>n. n\<lparr>ns_LastFailNotifiedAt := Some now\<rparr>) now) (cert_docs s1) (cert_docs s2)" by simp
    from recorded_all [OF ok2 this, of "mc_ID cert" ?K]
    have "\<forall>c \<in># cert_docs s2. failure_noted (mc_ID cert) now c"
      by (auto simp: failure_noted_def reminder_due_def)
    moreover have "\<exists>c \<in># cert_docs s. mc_ID c = mc_ID cert \<and> reminder_due now (markers c)"
      using repl m1 second(1) by (auto elim!: replacedE)
    ultimately show ?thesis
      using deliver_marked [OF ok2 failure_noted_safe second(3)] unfolding marked_def by blast
  qed
qed

lemma failure_keeps_noted:
  assumes "db_ok s" and "OnOperationFailure M N now later cert op summary s = (reqs, s')"
    and "\<forall>c \<in># cert_docs s. failure_noted i t c"
  shows "db_ok s' \<and> (\<forall>c \<in># cert_docs s'. failure_noted i t c) \<and>
    (reqs \<noteq> [] \<longrightarrow> mc_ID cert = i \<longrightarrow> t + CertNotificationFailReminderInterval \<le> now)"
proof -
  have "marked (failure_noted i t) s s'"
    by (rule failure_marked [OF assms(1) failure_noted_safe _ _ assms(2)])
      (auto simp: failure_noted_def failure_recorded_def reminder_due_def CertNotificationFailReminderInterval_def
        time_units split: option.splits)
  moreover have "t + CertNotificationFailReminderInterval \<le> now" if "reqs \<noteq> []" "mc_ID cert = i"
    using failure_sent [OF assms(1,2) that(1)] assms(3) that(2)
    by (auto simp: failure_noted_def reminder_due_def split: option.splits)
  ultimately show ?thesis using assms(3) unfolding marked_def by blast
qed

lemma scan_one_marked:
  assumes ok: "db_ok s" and run: "scan_one M N now later cert s = (reqs, s')"
  shows "marked (\<lambda>_. True) s s'"
proof -
  have safe: "warning_safe (\<lambda>_. True)" by (simp add: warning_safe_def)
  have expired: "marked (\<lambda>_. True) s s1" if "TryRecordExpiredNotification M i v now s = (r, s1)" for i v r s1
    using try_record_marked [where I = "\<lambda>_. True", OF ok TrueI that [unfolded TryRecordExpiredNotification_def]]
    by blast
  have seven: "marked (\<lambda>_. True) s s1" if "TryRecordSevenDayReminder M i v now s = (r, s1)" for i v r s1
    using try_record_marked [where I = "\<lambda>_. True", OF ok TrueI that [unfolded TryRecordSevenDayReminder_def]]
    by blast
  consider "s' = s"
    | (expired1) i v r where "TryRecordExpiredNotification M i v now s = (r, s')"
    | (expired2) i v r s1 p where "TryRecordExpiredNotification M i v now s = (r, s1)"
        "deliver M N later cert p s1 = (reqs, s')"
    | (seven1) i v r where "TryRecordSevenDayReminder M i v now s = (r, s')"
    | (seven2) i v r s1 p where "TryRecordSevenDayReminder M i v now s = (r, s1)"
        "deliver M N later cert p s1 = (reqs, s')"
    using run
    by (auto simp: scan_one_def Let_def split: option.splits if_splits prod.splits sum.splits bool.splits)
  moreover have after: "marked (\<lambda>_. True) s s'"
    if "marked (\<lambda>_. True) s s1" "deliver M N later cert p s1 = (reqs, s')" for s1 p
    using marked_trans [OF that(1) deliver_marked [OF marked_ok [OF that(1)] safe that(2)]] .
  ultimately show ?thesis
    using expired seven marked_refl [OF ok] by cases (blast intro: after)+
qed

lemma scan_each_marked:
  "db_ok s \<Longrightarrow> scan_each M N now later certs s = (reqs, s') \<Longrightarrow> marked (\<lambda>_. True) s s'"
proof (induction certs arbitrary: s reqs)
  case (Cons cert certs)
  obtain r1 s1 r2 where one: "scan_one M N now later cert s = (r1, s1)" and
    rest: "scan_each M N now later certs s1 = (r2, s')"
    using Cons.prems(2) by (auto simp: Let_def split: prod.splits)
  note m = scan_one_marked [OF Cons.prems(1) one]
  from marked_trans [OF m Cons.IH [OF marked_ok [OF m] rest]] show ?case .
qed (simp add: marked_refl)

lemma notifications_marked:
  assumes "db_ok s"
  shows "marked (\<lambda>_. True) s (snd (OnOperationFailure M N now later cert op summary s))"
    and "marked (\<lambda>_. True) s (snd (OnOperationSuccess M N now later cert op s))"
    and "marked (\<lambda>_. True) s (snd (ScanValidityNotifications M N now later s))"
proof -
  have safe: "warning_safe (\<lambda>_. True)" by (simp add: warning_safe_def)
  show "marked (\<lambda>_. True) s (snd (OnOperationFailure M N now later cert op summary s))"
    by (rule failure_marked [OF assms safe _ _ surjective_pairing]) simp_all
  show "marked (\<lambda>_. True) s (snd (OnOperationSuccess M N now later cert op s))"
    by (rule success_marked [OF assms safe _ surjective_pairing]) simp_all
  show "marked (\<lambda>_. True) s (snd (ScanValidityNotifications M N now later s))"
    using scan_each_marked [OF assms surjective_pairing] marked_refl [OF assms]
    by (auto simp: ScanValidityNotifications_def split: sum.splits)
qed

end

section \<open>Sequences of failures\<close>

text \<open>
  The calls of a sequence of failed attempts, of any certificates, in the order the store serves
  them; the result lists the certificate and the time of each call that sent something.
\<close>

record failure_call =
  fc_now :: gotime
  fc_later :: gotime
  fc_cert :: ManagedCertificate
  fc_op :: CertificateOperation
  fc_summary :: string

fun run_failures :: "'c mongo \<Rightarrow> notifier \<Rightarrow> failure_call list \<Rightarrow> 'c db \<Rightarrow> (string \<times> gotime) list" where
  "run_failures M N [] s = []"
| "run_failures M N (c # cs) s =
     (let (reqs, s) = OnOperationFailure M N (fc_now c) (fc_later c) (fc_cert c) (fc_op c) (fc_summary c) s
      in (if reqs = [] then [] else [(mc_ID (fc_cert c), fc_now c)]) @ run_failures M N cs s)"

context cert_store begin

lemma run_failures_after:
  assumes "db_ok s" and "\<forall>c \<in># cert_docs s. failure_noted i t c" and "(i, u) \<in> set (run_failures M N cs s)"
  shows "t + CertNotificationFailReminderInterval \<le> u"
  using assms
proof (induction cs arbitrary: s)
  case (Cons c cs)
  obtain reqs s1 where run: "OnOperationFailure M N (fc_now c) (fc_later c) (fc_cert c) (fc_op c) (fc_summary c) s = (reqs, s1)"
    by fastforce
  with failure_keeps_noted [OF Cons.prems(1) run Cons.prems(2)] Cons.prems(3) Cons.IH [of s1]
  show ?case by (auto split: if_splits)
qed simp

lemma run_failures_spaced:
  assumes "db_ok s"
  shows "sorted_wrt (\<lambda>(i, t) (j, u). i = j \<longrightarrow> t + CertNotificationFailReminderInterval \<le> u)
    (run_failures M N cs s)"
  using assms
proof (induction cs arbitrary: s)
  case (Cons c cs)
  obtain reqs s1 where run: "OnOperationFailure M N (fc_now c) (fc_later c) (fc_cert c) (fc_op c) (fc_summary c) s = (reqs, s1)"
    by fastforce
  have "marked (\<lambda>_. True) s s1"
    by (rule failure_marked [OF Cons.prems _ _ _ run]) (simp_all add: warning_safe_def)
  then have ok1: "db_ok s1" by (rule marked_ok)
  have "fc_now c + CertNotificationFailReminderInterval \<le> u"
    if "reqs \<noteq> []" "(mc_ID (fc_cert c), u) \<in> set (run_failures M N cs s1)" for u
    using run_failures_after [OF ok1 conjunct2 [OF failure_sent [OF Cons.prems run that(1)]] that(2)] .
  with Cons.IH [OF ok1] run show ?case by auto
qed simp

end

section \<open>Properties\<close>

text \<open>
  C11: a certificate that keeps failing is reported at most once in 24 hours: of any sequence of
  failed attempts, of any certificates and in any order of times, two that send a notification for
  the same certificate are at least the reminder interval apart.
\<close>

theorem failure_notifications_spaced:
  assumes "cert_store M odocs ook cdocs cok"
    and "ook (st_certificateOperations s)" "cok (st_managedCertificates s)"
  shows "sorted_wrt (\<lambda>(i, t) (j, u). i = j \<longrightarrow> t + 24 * Hour \<le> u) (run_failures M N calls s)"
  using cert_store.run_failures_spaced [OF assms(1) conjI [OF assms(2,3)]]
  unfolding CertNotificationFailReminderInterval_def .

definition sample_channel :: AlertChannel where
  "sample_channel = \<lparr>ch_Type = ''discord'', ch_Target = ''https://d'', ch_Extra = Map.empty\<rparr>"

definition sample_notify_group :: NotifyGroup where
  "sample_notify_group = \<lparr>ng_ID = ''ng_1'', ng_Name = ''ops'', ng_Description = [],
     ng_Channels = [sample_channel], ng_CreatedAt = 0, ng_UpdatedAt = 0\<rparr>"

definition sample_watched :: ManagedCertificate where
  "sample_watched = (sample_cert None None)\<lparr>mc_NotifyGroupIDs := [''ng_1'']\<rparr>"

definition sample_notify_state :: "ManagedCertificate \<Rightarrow> doc list db" where
  "sample_notify_state c = (sample_db [c] [])\<lparr>st_notifyGroups := [DNotify sample_notify_group]\<rparr>"

definition sample_notifier :: notifier where
  "sample_notifier = \<lparr>nf_q = id, nf_rfc3339 = (\<lambda>_. []), nf_client = (\<lambda>_. Inr 204)\<rparr>"

definition sample_failure :: "gotime \<Rightarrow> failure_call" where
  "sample_failure t = \<lparr>fc_now = t, fc_later = t, fc_cert = sample_watched, fc_op = sample_op, fc_summary = ''x''\<rparr>"

lemma sample_deliver:
  "\<exists>req. deliver mem_mongo sample_notifier later sample_watched p (sample_notify_state c) =
     ([req], sample_notify_state c)"
proof -
  have "trim_space (ch_Target sample_channel) \<noteq> []" by code_simp
  then have "\<exists>req. Deliver (BuiltinSenders (nf_client sample_notifier)) sample_channel d = (None, [req])"
    for d :: "Payload Delivery"
    by (simp add: Deliver_def BuiltinSenders_def sample_channel_def sample_notifier_def send_with_def
        discord_request_def postRaw_def)
  then obtain req where "\<And>d. Deliver (BuiltinSenders (nf_client sample_notifier)) sample_channel d =
      (None, [req d])" by metis
  then show ?thesis
    by (simp add: deliver_def deliver_one_def sample_watched_def sample_notify_state_def mem_coll_def
        GetNotifyGroup_def sample_notify_group_def)
qed

lemma sample_failure_step:
  assumes "mc_ID c = ''mcert_1''"
  shows "run_failures mem_mongo sample_notifier (sample_failure t # cs) (sample_notify_state c) =
    (if \<not> ns_HadOperationFailure (markers c)
     then (''mcert_1'', t) # run_failures mem_mongo sample_notifier cs
       (sample_notify_state (set_markers (failure_recorded t) t c))
     else if reminder_due t (markers c)
     then (''mcert_1'', t) # run_failures mem_mongo sample_notifier cs
       (sample_notify_state (set_markers (\<lambda>n. n\<lparr>ns_LastFailNotifiedAt := Some t\<rparr>) t c))
     else run_failures mem_mongo sample_notifier cs (sample_notify_state c))"
proof -
  have w [simp]: "mc_ID sample_watched = ''mcert_1''" "mc_NotifyGroupIDs sample_watched \<noteq> []"
    by (simp_all add: sample_watched_def sample_cert_def)
  have try1: "TryRecordOperationFailureNotification mem_mongo ''mcert_1'' t (sample_notify_state c) =
      (if ns_HadOperationFailure (markers c) then (Inr False, sample_notify_state c)
       else (Inr True, sample_notify_state (set_markers (failure_recorded t) t c)))"
    by (simp add: TryRecordOperationFailureNotification_def try_record_def sample_notify_state_def
        sample_db_def mem_eval assms)
  have try2: "TryRecordOperationFailureReminder mem_mongo ''mcert_1'' t (sample_notify_state c) =
      (if reminder_due t (markers c)
       then (Inr True, sample_notify_state (set_markers (\<lambda>n. n\<lparr>ns_LastFailNotifiedAt := Some t\<rparr>) t c))
       else (Inr False, sample_notify_state c))"
    by (simp add: TryRecordOperationFailureReminder_def try_record_def sample_notify_state_def
        sample_db_def mem_eval assms)
  obtain req where "\<And>later p c. deliver mem_mongo sample_notifier later sample_watched p (sample_notify_state c) =
     ([req later p c], sample_notify_state c)"
    using sample_deliver by metis
  then show ?thesis
    by (simp add: sample_failure_def OnOperationFailure_def try1 try2)
qed

lemma sample_failures_run:
  "run_failures mem_mongo sample_notifier [sample_failure 0, sample_failure Hour, sample_failure (24 * Hour)]
     (sample_notify_state sample_watched) = [(''mcert_1'', 0), (''mcert_1'', 24 * Hour)]"
proof -
  have "markers sample_watched = no_notifications" "mc_ID sample_watched = ''mcert_1''"
    by (simp_all add: sample_watched_def sample_cert_def markers_def)
  then show ?thesis
    by (simp add: sample_failure_step no_notifications_def failure_recorded_def reminder_due_def
        CertNotificationFailReminderInterval_def time_units del: run_failures.simps(2))
qed

theorem failure_notifications_spaced_witness:
  "sorted_wrt (\<lambda>(i, t) (j, u). i = j \<longrightarrow> t + 24 * Hour \<le> u) [(''mcert_1'', 0), (''mcert_1'', 24 * Hour)]"
  using failure_notifications_spaced [OF mem_cert_store.cert_store_axioms, of "sample_notify_state sample_watched"
      sample_notifier "[sample_failure 0, sample_failure Hour, sample_failure (24 * Hour)]"]
  by (simp add: sample_failures_run sample_notify_state_def sample_db_ok)

text \<open>
  Notifications are best effort and never change operations or versions: whatever the outcome
  of the deliveries, a failure, a recovery or a scan leaves every operation as it was and changes
  nothing of a certificate but its notification markers and its update time.
\<close>

theorem notifications_only_mark:
  assumes "cert_store M odocs ook cdocs cok"
    and "ook (st_certificateOperations s)" "cok (st_managedCertificates s)"
    and "s' \<in> {snd (OnOperationFailure M N now later cert op summary s),
      snd (OnOperationSuccess M N now later cert op s), snd (ScanValidityNotifications M N now later s)}"
  shows "st_certificateOperations s' = st_certificateOperations s \<and>
    image_mset (\<lambda>c. c\<lparr>mc_NotificationState := None, mc_UpdatedAt := 0\<rparr>) (cdocs (st_managedCertificates s')) =
    image_mset (\<lambda>c. c\<lparr>mc_NotificationState := None, mc_UpdatedAt := 0\<rparr>) (cdocs (st_managedCertificates s))"
proof -
  have "cert_store.marked ook cdocs cok (\<lambda>_. True) s s'"
    using cert_store.notifications_marked [OF assms(1) conjI [OF assms(2,3)]] assms(4) by blast
  then show ?thesis unfolding cert_store.marked_def [OF assms(1)] core_def by blast
qed

theorem notifications_only_mark_witness:
  "st_certificateOperations (snd (ScanValidityNotifications mem_mongo sample_notifier 0 0 (sample_notify_state sample_watched))) = []"
  using notifications_only_mark [OF mem_cert_store.cert_store_axioms, of "sample_notify_state sample_watched"
      "snd (ScanValidityNotifications mem_mongo sample_notifier 0 0 (sample_notify_state sample_watched))" sample_notifier 0 0]
  by (simp add: sample_notify_state_def sample_db_def)

end
