(* ===== verification/CertValidate.thy ===== *)
theory CertValidate
  imports CertManager
begin

text \<open>
  certvalidate.go: what an issued bundle is checked for before it is stored. The PEM and X.509
  libraries are parameters (\<open>x509\<close>): \<open>pem.Decode\<close> returns the type and bytes of the first block and
  the rest of the input, the parsers a key or a certificate with the fields the code reads.
\<close>

section \<open>Keys and certificates\<close>

datatype privkey = RSAKey int int | ECKey int int | OtherKey string

datatype pubkey = RSAPub int int | ECPub int int | OtherPub

record certificate =
  crt_Raw :: string
  crt_PublicKey :: pubkey
  crt_CommonName :: string
  crt_Subject :: string
  crt_Issuer :: string
  crt_IssuerCommonName :: string
  crt_SerialNumber :: string
  crt_DNSNames :: "string list"
  crt_NotBefore :: gotime
  crt_NotAfter :: gotime

record x509 =
  pem_Decode :: "string \<Rightarrow> (string \<times> string \<times> string) option"
  pem_Encode :: "string \<Rightarrow> string \<Rightarrow> string"
  ParsePKCS8PrivateKey :: "string \<Rightarrow> err + privkey"
  ParseECPrivateKey :: "string \<Rightarrow> err + privkey"
  ParsePKCS1PrivateKey :: "string \<Rightarrow> err + privkey"
  ParseCertificate :: "string \<Rightarrow> err + certificate"
  CheckSignatureFrom :: "certificate \<Rightarrow> certificate \<Rightarrow> bool"
  VerifyChain :: "certificate \<Rightarrow> certificate list \<Rightarrow> gotime \<Rightarrow> err option"
  sha256_hex :: "string \<Rightarrow> string"

text \<open>The error texts that \<open>certvalidate.go\<close> makes with \<open>%T\<close> name the key's Go type.\<close>

fun key_type_name :: "privkey \<Rightarrow> string" where
  "key_type_name (RSAKey n e) = ''*rsa.PrivateKey''"
| "key_type_name (ECKey x y) = ''*ecdsa.PrivateKey''"
| "key_type_name (OtherKey t) = t"

section \<open>Parsing\<close>

definition parsePrivateKeyPEM :: "(string \<Rightarrow> string) \<Rightarrow> x509 \<Rightarrow> string \<Rightarrow> err + privkey" where
  "parsePrivateKeyPEM q X pemData =
     (case pem_Decode X pemData of
        None \<Rightarrow> Inl (Opaque ''invalid private key PEM'')
      | Some (kind, bytes, rest) \<Rightarrow>
          if kind = ''PRIVATE KEY'' then ParsePKCS8PrivateKey X bytes
          else if kind = ''EC PRIVATE KEY'' then ParseECPrivateKey X bytes
          else if kind = ''RSA PRIVATE KEY'' then ParsePKCS1PrivateKey X bytes
          else Inl (Opaque (''unsupported private key type '' @ q kind)))"

text \<open>
  The loop over the PEM blocks. \<open>pem.Decode\<close> consumes the block it returns, so the rest is shorter
  and the length of the input is enough fuel; \<open>parse_fuel_enough\<close> below.
\<close>

fun parse_blocks :: "nat \<Rightarrow> x509 \<Rightarrow> certificate list \<Rightarrow> string \<Rightarrow> err + certificate list" where
  "parse_blocks 0 X certs rest = Inr certs"
| "parse_blocks (Suc n) X certs rest =
     (case pem_Decode X rest of
        None \<Rightarrow> Inr certs
      | Some (kind, bytes, remaining) \<Rightarrow>
          if kind \<noteq> ''CERTIFICATE'' then parse_blocks n X certs remaining
          else case ParseCertificate X bytes of
            Inl e \<Rightarrow> Inl e
          | Inr cert \<Rightarrow> parse_blocks n X (certs @ [cert]) remaining)"

definition parsePEMCertificates :: "x509 \<Rightarrow> string \<Rightarrow> err + certificate list" where
  "parsePEMCertificates X pemData = parse_blocks (Suc (length pemData)) X [] pemData"

definition pem_consumes :: "x509 \<Rightarrow> bool" where
  "pem_consumes X \<longleftrightarrow>
     (\<forall>s kind bytes rest. pem_Decode X s = Some (kind, bytes, rest) \<longrightarrow> length rest < length s)"

lemma parse_fuel_enough:
  assumes "pem_consumes X" and "length s < n" and "n \<le> m"
  shows "parse_blocks m X certs s = parse_blocks n X certs s"
  using assms
proof (induction n arbitrary: m certs s)
  case (Suc n)
  then obtain k where m: "m = Suc k" by (cases m) auto
  show ?case
  proof (cases "pem_Decode X s")
    case (Some b)
    obtain kind bytes rest where b: "b = (kind, bytes, rest)" by (cases b) auto
    then have "length rest < length s" using Suc.prems(1) Some by (auto simp: pem_consumes_def)
    with Suc.IH [of rest k] Suc.prems m Some b show ?thesis by (auto split: sum.split)
  qed (simp add: m)
qed simp

definition isSelfSignedRoot :: "certificate \<Rightarrow> bool" where
  "isSelfSignedRoot cert \<longleftrightarrow> crt_Subject cert = crt_Issuer cert"

text \<open>\<open>for len(certs) > 1 && isSelfSignedRoot(certs[len(certs)-1])\<close>, on the reversed chain.\<close>

fun drop_roots :: "certificate list \<Rightarrow> certificate list" where
  "drop_roots (c # d # cs) = (if isSelfSignedRoot c then drop_roots (d # cs) else c # d # cs)"
| "drop_roots cs = cs"

definition assembleFullchain :: "x509 \<Rightarrow> string \<Rightarrow> string \<Rightarrow> err + string" where
  "assembleFullchain X leafPEM issuerPEM =
     (case parsePEMCertificates X (leafPEM @ issuerPEM) of
        Inl e \<Rightarrow> Inl e
      | Inr certs \<Rightarrow>
          if certs = [] then Inl (CertE ErrCertificateChainInvalid)
          else Inr (concat (map (\<lambda>c. pem_Encode X ''CERTIFICATE'' (crt_Raw c)) (rev (drop_roots (rev certs))))))"

section \<open>The checks\<close>

definition assertKeyType :: "privkey \<Rightarrow> string \<Rightarrow> err + unit" where
  "assertKeyType key keyType =
     (if keyType = CertKeyTypeRSA2048 then
        (case key of RSAKey n e \<Rightarrow> Inr ()
         | _ \<Rightarrow> Inl (Opaque (''expected RSA key, got '' @ key_type_name key)))
      else if keyType = CertKeyTypeECP256 then
        (case key of ECKey x y \<Rightarrow> Inr ()
         | _ \<Rightarrow> Inl (Opaque (''expected EC key, got '' @ key_type_name key)))
      else Inl (CertE ErrInvalidKeyType))"

definition keyMatchesCert :: "privkey \<Rightarrow> certificate \<Rightarrow> err + unit" where
  "keyMatchesCert key cert =
     (case crt_PublicKey cert of
        RSAPub n e \<Rightarrow>
          (case key of RSAKey n' e' \<Rightarrow> if n' \<noteq> n \<or> e' \<noteq> e then Inl (CertE ErrCertificateKeyMismatch) else Inr ()
           | _ \<Rightarrow> Inl (CertE ErrCertificateKeyMismatch))
      | ECPub x y \<Rightarrow>
          (case key of ECKey x' y' \<Rightarrow> if x' \<noteq> x \<or> y' \<noteq> y then Inl (CertE ErrCertificateKeyMismatch) else Inr ()
           | _ \<Rightarrow> Inl (CertE ErrCertificateKeyMismatch))
      | OtherPub \<Rightarrow> Inl (CertE ErrCertificateKeyMismatch))"

text \<open>\<open>covered\<close> is the key set of the Go map.\<close>

definition domainCovered :: "(string \<Rightarrow> string) \<Rightarrow> string \<Rightarrow> string set \<Rightarrow> bool" where
  "domainCovered ul domain covered =
     (let domain = to_lower ul domain in
      if domain \<in> covered then True
      else if has_prefix domain ''*.'' then
        (let base = trim_prefix domain ''*.'' in
         \<exists>name \<in> covered. name = base \<or> has_suffix name (''.'' @ base))
      else False)"

definition covered_names :: "(string \<Rightarrow> string) \<Rightarrow> certificate \<Rightarrow> string set" where
  "covered_names ul cert = insert (to_lower ul (crt_CommonName cert)) (to_lower ul ` set (crt_DNSNames cert))"

definition domainsMatchCert :: "(string \<Rightarrow> string) \<Rightarrow> string list \<Rightarrow> certificate \<Rightarrow> err + unit" where
  "domainsMatchCert ul domains cert =
     (if domains = [] then Inl (CertE ErrCertificateDomainMismatch)
      else case find (\<lambda>want. \<not> domainCovered ul want (covered_names ul cert)) domains of
        Some want \<Rightarrow> Inl (Annot (CertE ErrCertificateDomainMismatch) [Lit ''missing '', Quoted want])
      | None \<Rightarrow> Inr ())"

fun hasParseableChain :: "x509 \<Rightarrow> certificate list \<Rightarrow> bool" where
  "hasParseableChain X (c # d # cs) \<longleftrightarrow> CheckSignatureFrom X c d \<and> hasParseableChain X (d # cs)"
| "hasParseableChain X cs \<longleftrightarrow> True"

record ParsedBundle =
  pb_Leaf :: certificate
  pb_FullchainPEM :: string
  pb_PrivateKeyPEM :: string
  pb_LeafFingerprint :: string
  pb_SerialNumber :: string
  pb_IssuerCommonName :: string
  pb_NotBefore :: gotime
  pb_NotAfter :: gotime

definition chain_error :: "(string \<Rightarrow> string) \<Rightarrow> x509 \<Rightarrow> certificate list \<Rightarrow> gotime \<Rightarrow> err option" where
  "chain_error q X certs now =
     (case certs of
        leaf # d # ds \<Rightarrow>
          (case VerifyChain X leaf (d # ds) now of
             None \<Rightarrow> None
           | Some e \<Rightarrow> if hasParseableChain X certs then None
               else Some (Annot (CertE ErrCertificateChainInvalid) [Lit (error_text q e)]))
      | _ \<Rightarrow> None)"

definition validateIssuedBundle ::
  "(string \<Rightarrow> string) \<Rightarrow> (string \<Rightarrow> string) \<Rightarrow> x509 \<Rightarrow> string \<Rightarrow> string \<Rightarrow> string list \<Rightarrow> string \<Rightarrow> gotime \<Rightarrow> err + ParsedBundle" where
  "validateIssuedBundle ul q X fullchainPEM privateKeyPEM domains keyType now =
     (case parsePrivateKeyPEM q X privateKeyPEM of
        Inl e \<Rightarrow> Inl e
      | Inr key \<Rightarrow>
          (case assertKeyType key keyType of
             Inl e \<Rightarrow> Inl e
           | Inr _ \<Rightarrow>
               (case parsePEMCertificates X fullchainPEM of
                  Inl e \<Rightarrow> Inl e
                | Inr [] \<Rightarrow> Inl (CertE ErrCertificateChainInvalid)
                | Inr (leaf # chain) \<Rightarrow>
                    (case chain_error q X (leaf # chain) now of
                       Some e \<Rightarrow> Inl e
                     | None \<Rightarrow>
                         (case keyMatchesCert key leaf of
                            Inl e \<Rightarrow> Inl e
                          | Inr _ \<Rightarrow>
                              (case domainsMatchCert ul domains leaf of
                                 Inl e \<Rightarrow> Inl e
                               | Inr _ \<Rightarrow>
                                   if now < crt_NotBefore leaf then Inl (CertE ErrCertificateNotYetValid)
                                   else if crt_NotAfter leaf < now then Inl (CertE ErrCertificateExpired)
                                   else Inr \<lparr>pb_Leaf = leaf, pb_FullchainPEM = fullchainPEM,
                                     pb_PrivateKeyPEM = privateKeyPEM,
                                     pb_LeafFingerprint = sha256_hex X (crt_Raw leaf),
                                     pb_SerialNumber = crt_SerialNumber leaf,
                                     pb_IssuerCommonName = crt_IssuerCommonName leaf,
                                     pb_NotBefore = crt_NotBefore leaf,
                                     pb_NotAfter = crt_NotAfter leaf\<rparr>))))))"

definition leafCertificatePEM :: "x509 \<Rightarrow> string \<Rightarrow> err + string" where
  "leafCertificatePEM X fullchain =
     (case pem_Decode X fullchain of
        None \<Rightarrow> Inl (CertE ErrInvalidCertificatePEM)
      | Some (kind, bytes, rest) \<Rightarrow> Inr (pem_Encode X kind bytes))"

section \<open>Properties\<close>


definition sample_leaf :: "string list \<Rightarrow> certificate" where
  "sample_leaf names = \<lparr>crt_Raw = ''raw'', crt_PublicKey = ECPub 1 2, crt_CommonName = [],
     crt_Subject = ''leaf'', crt_Issuer = ''CA'', crt_IssuerCommonName = ''CA'', crt_SerialNumber = ''1'',
     crt_DNSNames = names, crt_NotBefore = 0, crt_NotAfter = 100\<rparr>"

text \<open>An X.509 library that knows one key and one certificate.\<close>

definition sample_x509 :: "string list \<Rightarrow> x509" where
  "sample_x509 names = \<lparr>
     pem_Decode = (\<lambda>s. if s = ''k'' then Some (''PRIVATE KEY'', ''k'', [])
       else if s = ''c'' then Some (''CERTIFICATE'', ''c'', []) else None),
     pem_Encode = (\<lambda>kind bytes. bytes),
     ParsePKCS8PrivateKey = (\<lambda>_. Inr (ECKey 1 2)),
     ParseECPrivateKey = (\<lambda>_. Inr (ECKey 1 2)),
     ParsePKCS1PrivateKey = (\<lambda>_. Inr (RSAKey 1 2)),
     ParseCertificate = (\<lambda>_. Inr (sample_leaf names)),
     CheckSignatureFrom = (\<lambda>_ _. True),
     VerifyChain = (\<lambda>_ _ _. None),
     sha256_hex = (\<lambda>_. ''fp'')\<rparr>"

lemmas sample_x509_eval = validateIssuedBundle_def parsePrivateKeyPEM_def assertKeyType_def
  parsePEMCertificates_def chain_error_def keyMatchesCert_def domainsMatchCert_def domainCovered_def
  covered_names_def sample_x509_def sample_leaf_def to_lower_def is_ascii_def lower_char_def
  has_prefix_def trim_prefix_def has_suffix_def Let_def


text \<open>
  For a wildcard the check is too weak: a certificate for the bare domain, or for one name below
  it, is accepted as an issued certificate for all of them, although it covers no other name.
\<close>

theorem wildcard_accepted_without_cover:
  "domainCovered id ''*.example.com'' {''example.com''} \<and>
   domainCovered id ''*.example.com'' {''x.example.com''} \<and>
   (\<exists>b. validateIssuedBundle id id (sample_x509 [''x.ab'']) ''c'' ''k'' [''*.ab''] CertKeyTypeECP256 50 = Inr b)"
  by (simp add: sample_x509_eval)

end
