(* ===== verification/Execution.thy ===== *)
theory Execution
  imports CertValidate Sanitize
begin

text \<open>
  The execution of an operation: executeCertificateIssuance and cleanupTrackingProvider of issue.go,
  executeCertificateRevocation of revoke.go, and dns01.go. The ACME library calls back into the DNS
  provider: a run of it is an \<open>acme_run\<close>, a tree of the callbacks it makes, each going on with the
  callback's result, that ends in what \<open>IssueCertificate\<close> returns. The log of a run lists the calls
  that reached the DNS provider. Logging is left out, and so is the context's cancellation.
\<close>

section \<open>The libraries\<close>

record IssueResult =
  ir_FullchainPEM :: string
  ir_PrivateKeyPEM :: string

datatype acme_run =
    Returned "err + IssueResult"
  | DoPresent DNSChallengeRecord "err option \<Rightarrow> acme_run"
  | DoCleanUp DNSChallengeRecord "err option \<Rightarrow> acme_run"

record acme_client =
  ac_FetchDirectory :: "string \<Rightarrow> err + string"
  ac_RegisterAccount :: "CertificateIssuer \<Rightarrow> err + string"
  ac_IssueCertificate :: "CertificateIssuer \<Rightarrow> string list \<Rightarrow> string \<Rightarrow> acme_run"
  ac_RevokeCertificate :: "CertificateIssuer \<Rightarrow> string \<Rightarrow> u32 option \<Rightarrow> err option"

record dns_provider =
  dp_Present :: "DNSChallengeRecord \<Rightarrow> err option"
  dp_CleanUp :: "DNSChallengeRecord \<Rightarrow> err option"

text \<open>\<open>cloudflare.NewDNSProviderConfig\<close> of the fields that \<open>NewProvider\<close> sets.\<close>

record cloudflare_config =
  cf_AuthToken :: string
  cf_PropagationTimeout :: duration
  cf_TTL :: int

definition DefaultDNSPropagationTimeoutSecs :: u32 where
  "DefaultDNSPropagationTimeoutSecs = 120"

definition NewProvider ::
  "(cloudflare_config \<Rightarrow> err + dns_provider) \<Rightarrow> DNSProviderAccount \<Rightarrow> err + dns_provider" where
  "NewProvider cf account =
     (if dns_Provider account \<noteq> [] \<and> dns_Provider account \<noteq> DNSProviderCloudflare
      then Inl (StoreE ErrInvalidDNSProvider)
      else let timeout = (if dns_PropagationTimeoutSeconds account = 0
                 then DefaultDNSPropagationTimeoutSecs else dns_PropagationTimeoutSeconds account)
           in case cf \<lparr>cf_AuthToken = dns_APIToken account,
                   cf_PropagationTimeout = uint timeout * Second, cf_TTL = 120\<rparr> of
                Inl e \<Rightarrow> Inl (Context ''cloudflare dns provider'' e)
              | Inr p \<Rightarrow> Inr p)"

text \<open>What a replica is built with; \<open>ev_factory\<close> is \<open>m.dnsFactory\<close>.\<close>

record env =
  ev_q :: "string \<Rightarrow> string"
  ev_ul :: "string \<Rightarrow> string"
  ev_x509 :: x509
  ev_acme :: acme_client
  ev_factory :: "(DNSProviderAccount \<Rightarrow> err + dns_provider) option"
  ev_replicaID :: string

text \<open>The readings of the clock during one attempt, and the uuid it may use.\<close>

record moments =
  at_claim :: gotime
  at_txt :: "DNSChallengeRecord \<Rightarrow> gotime"
  at_validate :: gotime
  at_activate :: gotime
  at_clear :: gotime
  at_failure :: gotime
  at_retry :: gotime
  at_close :: gotime
  at_notify :: gotime
  at_delivered :: gotime
  at_uuid :: string

section \<open>The tracking DNS provider\<close>

datatype dns_call = Presented DNSChallengeRecord | CleanedUp DNSChallengeRecord

text \<open>The provider's state: its cleanup warning, the calls that succeeded, and the store.\<close>

type_synonym 'c tracked = "string \<times> dns_call list \<times> 'c db"

definition cleanup_warning :: "env \<Rightarrow> err \<Rightarrow> string" where
  "cleanup_warning E e = ''dns txt cleanup failed: '' @ sanitizeIssueError (ev_ul E) (ev_q E) e"

definition tracked_CleanUp ::
  "env \<Rightarrow> dns_provider \<Rightarrow> DNSChallengeRecord \<Rightarrow> 'c tracked \<Rightarrow> err option \<times> 'c tracked" where
  "tracked_CleanUp E dns rec st = (case st of (w, log, s) \<Rightarrow>
     (case dp_CleanUp dns rec of
        Some e \<Rightarrow> (None, (cleanup_warning E (withOperationStage ''dns_cleanup'' e), log, s))
      | None \<Rightarrow> (None, (w, log @ [CleanedUp rec], s))))"

definition tracked_Present ::
  "env \<Rightarrow> 'c mongo \<Rightarrow> dns_provider \<Rightarrow> (DNSChallengeRecord \<Rightarrow> gotime) \<Rightarrow> string \<Rightarrow> string \<Rightarrow>
    DNSChallengeRecord \<Rightarrow> 'c tracked \<Rightarrow> err option \<times> 'c tracked" where
  "tracked_Present E M dns now opID owner rec st = (case st of (w, log, s) \<Rightarrow>
     (case dp_Present dns rec of
        Some e \<Rightarrow> (Some (withOperationStage ''dns_present'' e), st)
      | None \<Rightarrow>
          (case RecordCertificateOperationPendingTXT M (now rec) opID owner rec s of
             (Inr _, s) \<Rightarrow> (None, (w, log @ [Presented rec], s))
           | (Inl e, s) \<Rightarrow>
               (Some (Context ''persist DNS challenge record'' (withOperationStage ''persist_dns_challenge'' e)),
                (case dp_CleanUp dns rec of
                   None \<Rightarrow> (w, log @ [Presented rec, CleanedUp rec], s)
                 | Some ce \<Rightarrow>
                     (cleanup_warning E (withOperationStage ''dns_cleanup_after_persist_failure'' ce),
                      log @ [Presented rec], s))))))"

primrec run_acme ::
  "(DNSChallengeRecord \<Rightarrow> 'st \<Rightarrow> err option \<times> 'st) \<Rightarrow> (DNSChallengeRecord \<Rightarrow> 'st \<Rightarrow> err option \<times> 'st) \<Rightarrow>
    acme_run \<Rightarrow> 'st \<Rightarrow> (err + IssueResult) \<times> 'st" where
  "run_acme P C (Returned r) = (\<lambda>st. (r, st))"
| "run_acme P C (DoPresent rec k) = (\<lambda>st. case P rec st of (r, st) \<Rightarrow> run_acme P C (k r) st)"
| "run_acme P C (DoCleanUp rec k) = (\<lambda>st. case C rec st of (r, st) \<Rightarrow> run_acme P C (k r) st)"

section \<open>Issuance\<close>

definition issued_version ::
  "moments \<Rightarrow> IssueConfigSnapshot \<Rightarrow> ParsedBundle \<Rightarrow> CertificateIssuer \<Rightarrow> CertificateVersion" where
  "issued_version T snap parsed issuer =
     \<lparr>cv_ID = ''cver_'' @ at_uuid T, cv_ConfigSnapshot = snap, cv_FullchainPEM = pb_FullchainPEM parsed,
      cv_PrivateKeyPEM = pb_PrivateKeyPEM parsed, cv_LeafFingerprint = pb_LeafFingerprint parsed,
      cv_SerialNumber = pb_SerialNumber parsed, cv_IssuerCommonName = pb_IssuerCommonName parsed,
      cv_NotBefore = pb_NotBefore parsed, cv_NotAfter = pb_NotAfter parsed, cv_KeyType = is_KeyType snap,
      cv_StagingUntrusted = iss_StagingUntrusted issuer, cv_CertificateIssuerID = iss_ID issuer,
      cv_RevokePending = False, cv_RevokedAt = None, cv_CreatedAt = at_validate T\<rparr>"

definition activateVersion ::
  "'c mongo \<Rightarrow> moments \<Rightarrow> CertificateOperation \<Rightarrow> string \<Rightarrow> CertificateVersion \<Rightarrow> string \<Rightarrow> 'c db \<Rightarrow>
    (err + unit) \<times> 'c db" where
  "activateVersion M T op leaseOwner version warning s =
     (case GetManagedCertificate M (op_ManagedCertificateID op) s of
        Inl e \<Rightarrow> (Inl (withOperationStage ''load_managed_certificate'' e), s)
      | Inr cert \<Rightarrow>
          (case mc_ActiveVersion cert of
             None \<Rightarrow>
               (case ActivateFirstIssueVersion M (at_activate T) (op_ManagedCertificateID op) version
                       (op_ID op) leaseOwner warning s of
                  (Inl e, s) \<Rightarrow> (Inl (withOperationStage ''activate_first_version'' e), s)
                | (Inr _, s) \<Rightarrow> (Inr (), s))
           | Some active \<Rightarrow>
               (case ActivateSubsequentIssueVersion M (at_activate T) (op_ManagedCertificateID op) version
                       (cv_ID active) (op_ID op) leaseOwner warning s of
                  (Inl e, s) \<Rightarrow> (Inl (withOperationStage ''activate_subsequent_version'' e), s)
                | (Inr _, s) \<Rightarrow> (Inr (), s))))"

definition finishIssuance ::
  "env \<Rightarrow> 'c mongo \<Rightarrow> moments \<Rightarrow> CertificateOperation \<Rightarrow> string \<Rightarrow> CertificateIssuer \<Rightarrow> IssueResult \<Rightarrow>
    string \<Rightarrow> 'c db \<Rightarrow> (err + string) \<times> 'c db" where
  "finishIssuance E M T op leaseOwner issuer result warning s =
     (let snap = op_ConfigSnapshot op in
      case validateIssuedBundle (ev_ul E) (ev_q E) (ev_x509 E) (ir_FullchainPEM result)
             (ir_PrivateKeyPEM result) (is_Domains snap) (is_KeyType snap) (at_validate T) of
        Inl e \<Rightarrow> (Inl (withOperationStage ''validate_issued_bundle'' e), s)
      | Inr parsed \<Rightarrow>
          and_then (activateVersion M T op leaseOwner (issued_version T snap parsed issuer) warning s) (\<lambda>_ s.
          (Inr warning, snd (ClearCertificateOperationPendingTXT M (at_clear T) (op_ID op) s))))"

definition issue_with ::
  "env \<Rightarrow> 'c mongo \<Rightarrow> moments \<Rightarrow> CertificateOperation \<Rightarrow> string \<Rightarrow> CertificateIssuer \<Rightarrow> dns_provider \<Rightarrow>
    'c db \<Rightarrow> (err + IssueResult) \<times> 'c tracked" where
  "issue_with E M T op leaseOwner issuer dns s =
     run_acme (tracked_Present E M dns (at_txt T) (op_ID op) leaseOwner) (tracked_CleanUp E dns)
       (ac_IssueCertificate (ev_acme E) issuer (is_Domains (op_ConfigSnapshot op))
          (is_KeyType (op_ConfigSnapshot op))) ([], [], s)"

definition executeCertificateIssuance ::
  "env \<Rightarrow> 'c mongo \<Rightarrow> moments \<Rightarrow> CertificateOperation \<Rightarrow> string \<Rightarrow> 'c db \<Rightarrow> (err + string) \<times> 'c db" where
  "executeCertificateIssuance E M T op leaseOwner s =
     (let snap = op_ConfigSnapshot op in
      case GetCertificateIssuer M (is_CertificateIssuerID snap) s of
        Inl e \<Rightarrow> (Inl (withOperationStage ''resolve_issuer'' (Context ''resolve issuer'' e)), s)
      | Inr issuer \<Rightarrow>
          if iss_RegistrationStatus issuer \<noteq> IssuerRegistrationReady
          then (Inl (withOperationStage ''issuer_readiness'' (CertE ErrIssuerNotReady)), s)
          else if trim_space (iss_AccountURI issuer) = []
          then (Inl (withOperationStage ''resolve_acme_account'' (CertE ErrIssuerAccountURIRequired)), s)
          else case GetDNSProviderAccount M (is_DNSProviderAccountID snap) s of
            Inl e \<Rightarrow> (Inl (withOperationStage ''resolve_dns_account'' (Context ''resolve dns account'' e)), s)
          | Inr account \<Rightarrow>
              (case ev_factory E of
                 None \<Rightarrow> (Inl (withOperationStage ''create_dns_provider''
                   (Opaque ''dns provider factory is not configured'')), s)
               | Some factory \<Rightarrow>
                   (case factory account of
                      Inl e \<Rightarrow> (Inl (withOperationStage ''create_dns_provider'' e), s)
                    | Inr dns \<Rightarrow>
                        (case issue_with E M T op leaseOwner issuer dns s of
                           (Inl e, (w, log, s)) \<Rightarrow> (Inl (withOperationStage ''acme_obtain'' e), s)
                         | (Inr result, (w, log, s)) \<Rightarrow>
                             finishIssuance E M T op leaseOwner issuer result w s))))"

section \<open>Revocation\<close>

definition revocationIssuerID :: "ManagedCertificate \<Rightarrow> CertificateVersion \<Rightarrow> string" where
  "revocationIssuerID cert target =
     (if cv_CertificateIssuerID target \<noteq> [] then cv_CertificateIssuerID target
      else if is_CertificateIssuerID (cv_ConfigSnapshot target) \<noteq> []
      then is_CertificateIssuerID (cv_ConfigSnapshot target)
      else mc_CertificateIssuerID cert)"

definition executeCertificateRevocation ::
  "env \<Rightarrow> 'c mongo \<Rightarrow> moments \<Rightarrow> CertificateOperation \<Rightarrow> string \<Rightarrow> 'c db \<Rightarrow> (err + unit) \<times> 'c db" where
  "executeCertificateRevocation E M T op leaseOwner s =
     and_then (GetManagedCertificate M (op_ManagedCertificateID op) s, s) (\<lambda>cert s.
     and_then (versionByID cert (op_TargetVersionID op), s) (\<lambda>target s.
     case cv_RevokedAt target of
       Some t \<Rightarrow> CompleteRevokeVersion M (at_activate T) (op_ManagedCertificateID op) (op_TargetVersionID op)
                   (op_ID op) leaseOwner t s
     | None \<Rightarrow>
         (case GetCertificateIssuer M (revocationIssuerID cert target) s of
            Inl e \<Rightarrow> (Inl (Context ''resolve issuer'' e), s)
          | Inr issuer \<Rightarrow>
              if iss_RegistrationStatus issuer \<noteq> IssuerRegistrationReady then (Inl (CertE ErrIssuerNotReady), s)
              else if trim_space (iss_AccountURI issuer) = []
              then (Inl (withOperationStage ''resolve_acme_account'' (CertE ErrIssuerAccountURIRequired)), s)
              else and_then (leafCertificatePEM (ev_x509 E) (cv_FullchainPEM target), s) (\<lambda>leafPEM s.
              case ac_RevokeCertificate (ev_acme E) issuer leafPEM
                     (if op_RevokeReason op \<noteq> 0 then Some (op_RevokeReason op) else None) of
                Some e \<Rightarrow> (Inl e, s)
              | None \<Rightarrow> CompleteRevokeVersion M (at_activate T) (op_ManagedCertificateID op)
                          (op_TargetVersionID op) (op_ID op) leaseOwner (at_validate T) s))))"

definition executeOperation ::
  "env \<Rightarrow> 'c mongo \<Rightarrow> moments \<Rightarrow> CertificateOperation \<Rightarrow> string \<Rightarrow> 'c db \<Rightarrow> (err + string) \<times> 'c db" where
  "executeOperation E M T op leaseOwner s =
     (if op_Type op = CertOpTypeRevoke
      then and_then (executeCertificateRevocation E M T op leaseOwner s) (\<lambda>_ s. (Inr [], s))
      else executeCertificateIssuance E M T op leaseOwner s)"

end
