(* ===== verification/OpRunner.thy ===== *)
theory OpRunner
  imports Execution CertNotify
begin

text \<open>
  operation_lease.go: polling, claiming and running operations, and what becomes of a failed attempt.
  The heartbeat goroutine is the \<open>RenewLease\<close> step of OpStore; here one attempt runs from its claim
  to its end without interruption, and its background task is a call. \<open>certNotifier\<close> is an option, as
  in the code; every run returns the requests of its notifications and the store.
\<close>

section \<open>Retry delay\<close>

definition operationPollInterval :: duration where
  "operationPollInterval = 5 * Second"

definition operationRetryInitial :: duration where
  "operationRetryInitial = 15 * Minute"

definition operationRetryMax :: duration where
  "operationRetryMax = 12 * Hour"

text \<open>The loop \<open>for i := 1; i < consecutiveFailures; i++\<close>, with the iterations left.\<close>

fun retry_loop :: "nat \<Rightarrow> duration \<Rightarrow> duration" where
  "retry_loop 0 delay = delay"
| "retry_loop (Suc n) delay =
     (if delay \<ge> operationRetryMax then operationRetryMax else retry_loop n (delay * 2))"

definition computeRetryDelay :: "u32 \<Rightarrow> (duration \<Rightarrow> duration) \<Rightarrow> duration" where
  "computeRetryDelay consecutiveFailures jitter =
     (let n = (if consecutiveFailures = 0 then 1 else consecutiveFailures);
          delay = retry_loop (unat n - 1) operationRetryInitial;
          delay = (if delay > operationRetryMax then operationRetryMax else delay)
      in delay + jitter delay)"

section \<open>The runner\<close>

definition operationDeadlineExceeded :: "CertificateOperation \<Rightarrow> gotime \<Rightarrow> bool" where
  "operationDeadlineExceeded op now \<longleftrightarrow>
     (case op_DeadlineAt op of None \<Rightarrow> False | Some t \<Rightarrow> t \<le> now)"

definition isPermanentOperationError :: "err \<Rightarrow> bool" where
  "isPermanentOperationError e \<longleftrightarrow>
     errors_is e (CertE ErrIssuerNotReady) \<or> errors_is e (CertE ErrIssuerAccountURIRequired)"

definition notifyOperationSuccess ::
  "'c mongo \<Rightarrow> notifier option \<Rightarrow> moments \<Rightarrow> CertificateOperation \<Rightarrow> 'c db \<Rightarrow> Payload request list \<times> 'c db" where
  "notifyOperationSuccess M N T op s =
     (case N of
        None \<Rightarrow> ([], s)
      | Some n \<Rightarrow>
          (case GetManagedCertificate M (op_ManagedCertificateID op) s of
             Inl e \<Rightarrow> ([], s)
           | Inr cert \<Rightarrow> OnOperationSuccess M n (at_notify T) (at_delivered T) cert op s))"

definition notifyOperationFailure ::
  "'c mongo \<Rightarrow> notifier option \<Rightarrow> moments \<Rightarrow> CertificateOperation \<Rightarrow> string \<Rightarrow> 'c db \<Rightarrow>
    Payload request list \<times> 'c db" where
  "notifyOperationFailure M N T op errorSummary s =
     (case N of
        None \<Rightarrow> ([], s)
      | Some n \<Rightarrow>
          (case GetManagedCertificate M (op_ManagedCertificateID op) s of
             Inl e \<Rightarrow> ([], s)
           | Inr cert \<Rightarrow> OnOperationFailure M n (at_notify T) (at_delivered T) cert op errorSummary s))"

definition failOperationDeadlineExceeded ::
  "env \<Rightarrow> 'c mongo \<Rightarrow> notifier option \<Rightarrow> moments \<Rightarrow> CertificateOperation \<Rightarrow> 'c db \<Rightarrow>
    Payload request list \<times> 'c db" where
  "failOperationDeadlineExceeded E M N T op s =
     notifyOperationFailure M N T op OperationTotalTimeoutSummary
       (snd (MarkCertificateOperationFailed M (at_close T) (op_ID op) (ev_replicaID E)
          OperationTotalTimeoutSummary s))"

definition failureSummary :: "env \<Rightarrow> CertificateOperation \<Rightarrow> err \<Rightarrow> string" where
  "failureSummary E op runErr =
     (if op_Type op = CertOpTypeRevoke then sanitizeRevokeError (ev_ul E) (ev_q E) runErr
      else sanitizeIssueError (ev_ul E) (ev_q E) runErr)"

definition handleOperationFailure ::
  "env \<Rightarrow> 'c mongo \<Rightarrow> notifier option \<Rightarrow> (duration \<Rightarrow> duration) \<Rightarrow> moments \<Rightarrow> CertificateOperation \<Rightarrow> err \<Rightarrow>
    'c db \<Rightarrow> Payload request list \<times> 'c db" where
  "handleOperationFailure E M N jitter T op runErr s =
     (let summary = failureSummary E op runErr;
          deadlineExceeded = operationDeadlineExceeded op (at_failure T) in
      if isPermanentOperationError runErr \<or> deadlineExceeded then
        (let summary = (if deadlineExceeded then OperationTotalTimeoutSummary else summary)
         in notifyOperationFailure M N T op summary
              (snd (MarkCertificateOperationFailed M (at_close T) (op_ID op) (ev_replicaID E) summary s)))
      else
        (let failures = op_ConsecutiveFailures op + 1;
             nextAt = at_retry T + computeRetryDelay failures jitter in
         if operationDeadlineExceeded op nextAt then
           notifyOperationFailure M N T op OperationTotalTimeoutSummary
             (snd (MarkCertificateOperationFailed M (at_close T) (op_ID op) (ev_replicaID E)
                OperationTotalTimeoutSummary s))
         else notifyOperationFailure M N T op summary
             (snd (ScheduleCertificateOperationRetry M (at_close T) (op_ID op) (ev_replicaID E) nextAt
                summary failures s))))"

fun cleanup_each :: "dns_provider \<Rightarrow> DNSChallengeRecord list \<Rightarrow> DNSChallengeRecord list" where
  "cleanup_each dns [] = []"
| "cleanup_each dns (rec # recs) =
     (if dp_CleanUp dns rec = None then rec # cleanup_each dns recs else cleanup_each dns recs)"

text \<open>The second component lists the records the provider has removed.\<close>

definition cleanupPendingTXT ::
  "env \<Rightarrow> 'c mongo \<Rightarrow> moments \<Rightarrow> CertificateOperation \<Rightarrow> 'c db \<Rightarrow> DNSChallengeRecord list \<times> 'c db" where
  "cleanupPendingTXT E M T op s =
     (if op_PendingTXTRecords op = [] then ([], s)
      else case GetDNSProviderAccount M (is_DNSProviderAccountID (op_ConfigSnapshot op)) s of
        Inl e \<Rightarrow> ([], s)
      | Inr account \<Rightarrow>
          (case ev_factory E of
             None \<Rightarrow> ([], s)
           | Some factory \<Rightarrow>
               (case factory account of
                  Inl e \<Rightarrow> ([], s)
                | Inr dns \<Rightarrow>
                    (cleanup_each dns (op_PendingTXTRecords op),
                     snd (ClearCertificateOperationPendingTXT M (at_clear T) (op_ID op) s)))))"

definition operationLeaseDuration :: duration where
  "operationLeaseDuration = DefaultOperationLeaseDuration"

definition runOperation ::
  "env \<Rightarrow> 'c mongo \<Rightarrow> notifier option \<Rightarrow> (duration \<Rightarrow> duration) \<Rightarrow> moments \<Rightarrow> string \<Rightarrow> 'c db \<Rightarrow>
    Payload request list \<times> 'c db" where
  "runOperation E M N jitter T opID s =
     (case TryClaimCertificateOperation M \<lparr>cp_OpID = opID, cp_Owner = ev_replicaID E, cp_Now = at_claim T,
             cp_LeaseExpires = at_claim T + operationLeaseDuration\<rparr> s of
        (Inl e, s) \<Rightarrow> ([], s)
      | (Inr op, s) \<Rightarrow>
          if operationDeadlineExceeded op (at_claim T) then failOperationDeadlineExceeded E M N T op s
          else
            (let s = (if op_AttemptCount op > 1 \<and> op_PendingTXTRecords op \<noteq> []
                      then snd (cleanupPendingTXT E M T op s) else s) in
             case executeOperation E M T op (ev_replicaID E) s of
               (Inr warning, s) \<Rightarrow> notifyOperationSuccess M N T op s
             | (Inl runErr, s) \<Rightarrow> handleOperationFailure E M N jitter T op runErr s))"

text \<open>
  The scheduling of background tasks: \<open>runnerContext\<close> and \<open>launchBackgroundTask\<close> succeed or not, and
  an operation that is already in the in-flight set of the replica is not started again.
\<close>

record runner =
  rn_claimingLeases :: bool
  rn_context :: bool
  rn_tasksClosed :: bool
  rn_opInflight :: "string set"

definition triggerOperation :: "string \<Rightarrow> runner \<Rightarrow> bool \<times> runner" where
  "triggerOperation opID r =
     (if \<not> rn_claimingLeases r \<or> \<not> rn_context r \<or> opID \<in> rn_opInflight r \<or> rn_tasksClosed r
      then (False, r)
      else (True, r\<lparr>rn_opInflight := insert opID (rn_opInflight r)\<rparr>))"

definition operationFinished :: "string \<Rightarrow> runner \<Rightarrow> runner" where
  "operationFinished opID r = r\<lparr>rn_opInflight := rn_opInflight r - {opID}\<rparr>"

fun trigger_each :: "gotime \<Rightarrow> CertificateOperation list \<Rightarrow> runner \<Rightarrow> string list \<times> runner" where
  "trigger_each now [] r = ([], r)"
| "trigger_each now (op # ops) r =
     (if operationDeadlineExceeded op now then trigger_each now ops r
      else let (started, r) = triggerOperation (op_ID op) r;
               (ids, r) = trigger_each now ops r
           in ((if started then [op_ID op] else []) @ ids, r))"

text \<open>The operations a poll starts.\<close>

definition pollClaimableOperations ::
  "'c mongo \<Rightarrow> gotime \<Rightarrow> runner \<Rightarrow> 'c db \<Rightarrow> string list \<times> runner \<times> 'c db" where
  "pollClaimableOperations M now r s =
     (if \<not> rn_claimingLeases r then ([], r, s)
      else let s = snd (FailExpiredCertificateOperations M now s) in
        case FindClaimableCertificateOperations M now 20 s of
          Inl e \<Rightarrow> ([], r, s)
        | Inr ops \<Rightarrow> (case trigger_each now ops r of (ids, r) \<Rightarrow> (ids, r, s)))"

end
