(* ===== verification/Attempts.thy ===== *)
theory Attempts
  imports OpRunner Issuance
begin

text \<open>
  What an attempt at an operation leaves behind: the store stays well-formed, the lease is given back
  on every path, a failed attempt is closed or rescheduled before the deadline, and every DNS record
  that was created for a challenge is accounted for.
\<close>

section \<open>Every step keeps the store well-formed\<close>

context cert_store begin

definition sane :: "'c db \<Rightarrow> bool" where
  "sane s \<longleftrightarrow> db_ok s"

lemma cert_update_sane:
  assumes "matched_or e (on_managedCertificates (UpdateOne (managedCertificates M) P f) s) = (r, s')" and "sane s"
  shows "sane s'"
proof -
  obtain r1 c where c: "UpdateOne (managedCertificates M) P f (st_managedCertificates s) = (r1, c)"
    "s' = s\<lparr>st_managedCertificates := c\<rparr>"
    using assms(1) by (auto simp: matched_or_eq_iff on_managedCertificates_eq_iff)
  with certs.update_ok [OF _ c(1)] assms(2) show ?thesis by (simp add: sane_def)
qed

lemma op_call_sane:
  assumes "sane s" shows "sane (run_call M c s)"
proof -
  have "st_managedCertificates (run_call M c s) = st_managedCertificates s"
    by (cases c) (auto simp: CreateCertificateOperation_def TryClaimCertificateOperation_def
        RenewCertificateOperationLease_def RecordCertificateOperationPendingTXT_def
        ScheduleCertificateOperationRetry_def MarkCertificateOperationFailed_def
        ClearCertificateOperationPendingTXT_def FailExpiredCertificateOperations_def succeedOperation_def
        matched_or_def and_then_def on_certificateOperations_def Let_def split: prod.splits sum.splits)
  with run_call_effect [of s c] assms show ?thesis by (simp add: sane_def)
qed

lemma succeed_sane: "succeedOperation M clear now i owner w s = (r, s') \<Longrightarrow> sane s \<Longrightarrow> sane s'"
  using op_call_sane [of s "CallSucceed clear now i owner w"] by simp

lemma record_txt_sane:
  "RecordCertificateOperationPendingTXT M now i owner rec s = (r, s') \<Longrightarrow> sane s \<Longrightarrow> sane s'"
  using op_call_sane [of s "CallRecordTXT now i owner rec"] by simp

lemma clear_txt_sane: "sane s \<Longrightarrow> sane (snd (ClearCertificateOperationPendingTXT M now i s))"
  using op_call_sane [of s "CallClearTXT now i"] by simp

lemma activate_sane:
  assumes "sane s"
  shows "ActivateFirstIssueVersion M now i version opID owner w s = (r, s') \<Longrightarrow> sane s'"
    and "ActivateSubsequentIssueVersion M now i version expected opID owner w s = (r, s') \<Longrightarrow> sane s'"
    and "CompleteRevokeVersion M now i vid opID owner t s = (r, s') \<Longrightarrow> sane s'"
  using assms unfolding ActivateFirstIssueVersion_def ActivateSubsequentIssueVersion_def CompleteRevokeVersion_def
  by (auto elim!: and_thenE split: if_splits option.splits)
    (blast intro: cert_update_sane succeed_sane)+

section \<open>Giving back a lease\<close>

definition released :: "string \<Rightarrow> string \<Rightarrow> 'c db \<Rightarrow> bool" where
  "released i owner s \<longleftrightarrow> no_match (heldBy i owner) (op_docs s)"

lemma replaced_released:
  assumes "sane s'" and "d \<in># op_docs s" "heldBy i owner d" "op_docs s' = add_mset (f d) (op_docs s - {#d#})"
    and "op_ID (f d) = op_ID d" "\<not> heldBy i owner (f d)"
  shows "released i owner s'"
  unfolding released_def no_match_def
proof
  fix x assume x: "x \<in># op_docs s'"
  show "\<not> heldBy i owner x"
  proof
    assume h: "heldBy i owner x"
    then have "op_ID x = op_ID (f d)" using assms(3,5) by (simp add: heldBy_def)
    then have "x = f d" using op_unique [of s' x "f d"] x assms(1,4) by (simp add: sane_def)
    with h assms(6) show False by simp
  qed
qed

lemma succeed_released:
  assumes "sane s" and "succeedOperation M clear now i owner w s = (Inr u, s')"
  shows "released i owner s'"
proof -
  from succeed_done [OF assms(1) [unfolded sane_def] assms(2)] obtain d where
    d: "d \<in># op_docs s" "heldBy i owner d" "op_docs s' = add_mset (op_succeeded clear w now d) (op_docs s - {#d#})"
      "db_ok s'" by blast
  show ?thesis
    by (rule replaced_released [where f = "op_succeeded clear w now", OF _ d(1-3)]) (use d(4) in \<open>simp_all add: sane_def op_succeeded_def heldBy_def\<close>)
qed

lemma activate_released:
  assumes "sane s"
  shows "ActivateFirstIssueVersion M now i version opID owner w s = (Inr u, s') \<Longrightarrow> released opID owner s'"
    and "ActivateSubsequentIssueVersion M now i version expected opID owner w s = (Inr u, s') \<Longrightarrow>
      released opID owner s'"
    and "CompleteRevokeVersion M now i vid opID owner t s = (Inr u, s') \<Longrightarrow> released opID owner s'"
  using assms unfolding ActivateFirstIssueVersion_def ActivateSubsequentIssueVersion_def CompleteRevokeVersion_def
  by (auto elim!: and_thenE split: if_splits option.splits)
    (blast intro: cert_update_sane succeed_released)+

lemma clear_txt_released:
  assumes "sane s" and "released i owner s"
  shows "released i owner (snd (ClearCertificateOperationPendingTXT M now j s))"
proof -
  let ?s = "run_call M (CallClearTXT now j) s"
  have "op_docs ?s = op_docs s \<or> (\<exists>d. d \<in># op_docs s \<and>
      op_docs ?s = add_mset (txt_cleared now d) (op_docs s - {#d#}))"
    using run_call_effect [of s "CallClearTXT now j"] assms(1)
    by (auto simp: sane_def call_effect_def elim!: op_stepE)
  moreover have "heldBy i owner (txt_cleared now d) = heldBy i owner d" for d
    by (simp add: txt_cleared_def heldBy_def)
  ultimately have "no_match (heldBy i owner) (op_docs ?s)"
    using assms(2) unfolding released_def no_match_def by (metis in_diffD add_mset_remove_trivial insert_DiffM set_mset_add_mset_insert insert_iff)
  then show ?thesis by (simp add: released_def)
qed

section \<open>The executors\<close>

lemma tracked_present_sane:
  "tracked_Present E M dns now i owner rec (w, log, s) = (r, (w', log', s')) \<Longrightarrow> sane s \<Longrightarrow> sane s'"
  by (auto simp: tracked_Present_def split: option.splits prod.splits sum.splits dest: record_txt_sane)

lemma run_acme_sane:
  "run_acme (tracked_Present E M dns now i owner) (tracked_CleanUp E dns) t (w, log, s) = (r, (w', log', s')) \<Longrightarrow>
     sane s \<Longrightarrow> sane s'"
proof (induction t arbitrary: w log s)
  case (DoPresent rec k)
  obtain r1 w1 log1 s1 where one: "tracked_Present E M dns now i owner rec (w, log, s) = (r1, (w1, log1, s1))"
    by (metis prod_cases4)
  with DoPresent.prems(1) have rest: "run_acme (tracked_Present E M dns now i owner) (tracked_CleanUp E dns) (k r1)
      (w1, log1, s1) = (r, (w', log', s'))" by simp
  show ?case by (rule DoPresent.IH [OF _ rest tracked_present_sane [OF one DoPresent.prems(2)]]) simp
next
  case (DoCleanUp rec k)
  obtain r1 w1 log1 where one: "tracked_CleanUp E dns rec (w, log, s) = (r1, (w1, log1, s))"
    by (cases "dp_CleanUp dns rec") (simp_all add: tracked_CleanUp_def)
  with DoCleanUp.prems(1) have rest: "run_acme (tracked_Present E M dns now i owner) (tracked_CleanUp E dns) (k r1)
      (w1, log1, s) = (r, (w', log', s'))" by simp
  show ?case by (rule DoCleanUp.IH [OF _ rest DoCleanUp.prems(2)]) simp
qed simp

lemma activate_version_result:
  assumes "sane s" and "activateVersion M T op owner version w s = (r, s')"
  shows "sane s' \<and> (r = Inr () \<longrightarrow> released (op_ID op) owner s')"
  using assms activate_sane [OF assms(1)] activate_released [OF assms(1)] unfolding activateVersion_def
  by (auto split: sum.splits option.splits prod.splits)

lemma finish_result:
  assumes "sane s" and "finishIssuance E M T op owner issuer result w s = (r, s')"
  shows "sane s' \<and> (\<forall>x. r = Inr x \<longrightarrow> released (op_ID op) owner s')"
  using assms activate_version_result [OF assms(1)] clear_txt_sane clear_txt_released
  unfolding finishIssuance_def Let_def
  by (fastforce split: sum.splits elim!: and_thenE)


lemma issuance_result:
  assumes ok: "sane s" and run: "executeCertificateIssuance E M T op owner s = (r, s')"
  shows "sane s' \<and> (\<forall>x. r = Inr x \<longrightarrow> released (op_ID op) owner s')"
proof -
  have iw: "sane s1" if "issue_with E M T op owner issuer dns s = (r1, (w, log, s1))" for issuer dns r1 w log s1
    using run_acme_sane [OF that [unfolded issue_with_def] ok] .
  consider (failed) e where "r = Inl e" "s' = s"
    | (acme) issuer dns e e' w log where "issue_with E M T op owner issuer dns s = (Inl e', (w, log, s'))" "r = Inl e"
    | (finish) issuer dns res w log s1 where "issue_with E M T op owner issuer dns s = (Inr res, (w, log, s1))"
        "finishIssuance E M T op owner issuer res w s1 = (r, s')"
    using run unfolding executeCertificateIssuance_def Let_def
    by (auto split: sum.splits if_splits option.splits prod.splits)
  then show ?thesis
    using ok iw finish_result by cases blast+
qed

lemma revocation_result:
  assumes ok: "sane s" and run: "executeCertificateRevocation E M T op owner s = (r, s')"
  shows "sane s' \<and> (\<forall>x. r = Inr x \<longrightarrow> released (op_ID op) owner s')"
proof -
  consider (failed) e where "r = Inl e" "s' = s"
    | (complete) now i vid t where "CompleteRevokeVersion M now i vid (op_ID op) owner t s = (r, s')"
    using run unfolding executeCertificateRevocation_def
    by (auto elim!: and_thenE split: sum.splits if_splits option.splits)
  then show ?thesis
  proof cases
    case failed
    with ok show ?thesis by simp
  next
    case complete
    with activate_sane(3) [OF ok] activate_released(3) [OF ok] show ?thesis by blast
  qed
qed

lemma execute_result:
  assumes ok: "sane s" and run: "executeOperation E M T op owner s = (r, s')"
  shows "sane s' \<and> (\<forall>x. r = Inr x \<longrightarrow> released (op_ID op) owner s')"
proof (cases "op_Type op = CertOpTypeRevoke")
  case True
  then have "and_then (executeCertificateRevocation E M T op owner s) (\<lambda>_ s. (Inr [], s)) = (r, s')"
    using run by (simp add: executeOperation_def)
  then show ?thesis using revocation_result [OF ok] by (auto elim!: and_thenE)
next
  case False
  then show ?thesis using run issuance_result [OF ok] by (simp add: executeOperation_def)
qed

lemma cleanup_sane: "sane s \<Longrightarrow> sane (snd (cleanupPendingTXT E M T op s))"
  using clear_txt_sane by (auto simp: cleanupPendingTXT_def split: sum.splits option.splits)

text \<open>Notifications do not touch operations.\<close>

lemma notify_same:
  assumes "sane s"
  shows "sane (snd (notifyOperationFailure M N T op summary s)) \<and>
      st_certificateOperations (snd (notifyOperationFailure M N T op summary s)) = st_certificateOperations s"
    and "sane (snd (notifyOperationSuccess M N T op s)) \<and>
      st_certificateOperations (snd (notifyOperationSuccess M N T op s)) = st_certificateOperations s"
  using assms notifications_marked(1,2) [of s]
  unfolding sane_def marked_def notifyOperationFailure_def notifyOperationSuccess_def
  by (auto split: option.splits sum.splits)

end

section \<open>Closing an attempt\<close>

context reliable_cert_store begin

lemma is_cert_store: "cert_store M odocs ook cdocs cok"
  by (rule cert_store_axioms)

text \<open>A write by the holder that ends the attempt: it succeeds, or nobody held the operation.\<close>

lemma close_write:
  assumes ok: "sane s"
    and f: "\<And>d. heldBy i owner d \<Longrightarrow> op_ID (f d) = op_ID d \<and> op_Status (f d) \<noteq> CertOpStatusRunning \<and>
      op_ManagedCertificateID (f d) = op_ManagedCertificateID d"
    and run: "matched_or e (on_certificateOperations (UpdateOne (certificateOperations M) (heldBy i owner) f) s) = (r, s')"
  shows "released i owner s' \<and>
    (\<forall>d \<in># op_docs s. heldBy i owner d \<longrightarrow> r = Inr () \<and> op_docs s' = add_mset (f d) (op_docs s - {#d#}))"
proof -
  have "\<not> certificateOperations_clash x (f d)"
    if "d \<in># op_docs s" "heldBy i owner d" "x \<in># op_docs s - {#d#}" for d x
  proof
    assume "certificateOperations_clash x (f d)"
    with f [OF that(2)] that(2) have "certificateOperations_clash x d"
      by (auto simp: certificateOperations_clash_def op_in_flight_def heldBy_def CertOpInFlightStatuses_def)
    with pairwise_msetD [OF ops.unique that(1,3)] ok clash_sym(8) show False by (auto simp: sane_def)
  qed
  then obtain n c where u: "UpdateOne (certificateOperations M) (heldBy i owner) f (st_certificateOperations s) = (Inr n, c)"
    using ops.update_no_duplicate [of "st_certificateOperations s" "heldBy i owner" f] ok
    unfolding sane_def by blast
  then have s': "s' = s\<lparr>st_certificateOperations := c\<rparr>" and r: "r = (if n = 0 then Inl e else Inr ())"
    using run by (auto simp: matched_or_def on_certificateOperations_def split: if_splits)
  have ok': "sane s'" using ops.update_ok [OF _ u] ok s' by (simp add: sane_def)
  have upd: "if n = 0 then op_docs s' = op_docs s \<and> no_match (heldBy i owner) (op_docs s)
      else replaced (heldBy i owner) f (op_docs s) (op_docs s')"
    using ops.update_done [OF _ u] ok s' by (simp add: sane_def)
  show ?thesis
  proof (cases "n = 0")
    case True
    with upd show ?thesis by (simp add: released_def no_match_def)
  next
    case False
    with upd obtain d where d: "d \<in># op_docs s" "heldBy i owner d" "op_docs s' = add_mset (f d) (op_docs s - {#d#})"
      by (auto elim: replacedE)
    have only: "x = d" if "x \<in># op_docs s" "heldBy i owner x" for x
      using that d(1,2) ok by (intro op_unique [of s]) (auto simp: sane_def heldBy_def)
    have "op_ID (f d) = op_ID d" "\<not> heldBy i owner (f d)" using f [OF d(2)] by (simp_all add: heldBy_def)
    then have "released i owner s'" by (rule replaced_released [where f = f, OF ok' d])
    moreover have "r = Inr ()" using r False by simp
    ultimately show ?thesis using d(3) only by blast
  qed
qed

lemma mark_failed_releases:
  assumes "sane s"
  shows "released i owner (snd (MarkCertificateOperationFailed M now i owner summary s))"
  using close_write [OF assms _ surjective_pairing, of i owner "op_failed summary now"
      "StoreE ErrCertificateOperationConflict"]
  by (simp add: MarkCertificateOperationFailed_def op_failed_def)

lemma retry_releases:
  assumes "sane s"
  shows "released i owner (snd (ScheduleCertificateOperationRetry M now i owner t summary n s))"
  using close_write [OF assms _ surjective_pairing, of i owner "retry_scheduled t summary n now"
      "StoreE ErrCertificateOperationConflict"]
  by (simp add: ScheduleCertificateOperationRetry_def retry_scheduled_def)

lemma close_sane:
  "sane s \<Longrightarrow> sane (snd (MarkCertificateOperationFailed M now i owner summary s))"
  "sane s \<Longrightarrow> sane (snd (ScheduleCertificateOperationRetry M now i owner t summary n s))"
  using op_call_sane [of s "CallFail now i owner summary"] op_call_sane [of s "CallRetry now i owner t summary n"]
  by simp_all

lemma released_notify:
  assumes "sane s" and "released i owner s"
  shows "released i owner (snd (notifyOperationFailure M N T op summary s))"
    and "released i owner (snd (notifyOperationSuccess M N T op s))"
  using notify_same [OF assms(1)] assms(2) by (simp_all add: released_def)

lemma failure_releases:
  assumes "sane s"
  shows "released (op_ID op) (ev_replicaID E) (snd (handleOperationFailure E M N jitter T op e s))"
  unfolding handleOperationFailure_def Let_def
  by (auto intro!: released_notify mark_failed_releases retry_releases close_sane assms)

lemma claim_error_same:
  assumes ok: "sane s" and "TryClaimCertificateOperation M p s = (Inl e, s')"
  shows "op_docs s' = op_docs s"
proof -
  let ?P = "\<lambda>op. op_ID op = cp_OpID p \<and> claimableOperationFilter (cp_Now p) op"
  obtain r c where f: "FindOneAndUpdate (certificateOperations M) ?P (claimed p)
      (st_certificateOperations s) = (r, c)" by fastforce
  have "s' = s \<or> (r = Inl e \<and> s' = s\<lparr>st_certificateOperations := c\<rparr>)"
  proof (cases "GetCertificateOperation M (cp_OpID p) s")
    case (Inl e')
    then show ?thesis using assms(2) by (simp add: TryClaimCertificateOperation_def)
  next
    case (Inr target)
    show ?thesis
    proof (cases "CountDocuments (certificateOperations M)
         (\<lambda>op. op_ManagedCertificateID op = op_ManagedCertificateID target \<and>
            op_ID op \<noteq> cp_OpID p \<and> runningLeaseHeldFilter (cp_Now p) op) (st_certificateOperations s)")
      case (Inr n)
      then show ?thesis using assms(2) f \<open>GetCertificateOperation _ _ _ = _\<close>
        by (cases "n > 0") (simp_all add: TryClaimCertificateOperation_def on_certificateOperations_def)
    qed (use assms(2) Inr in \<open>simp add: TryClaimCertificateOperation_def\<close>)
  qed
  then consider "s' = s" | (upd) "FindOneAndUpdate (certificateOperations M) ?P (claimed p)
      (st_certificateOperations s) = (Inl e, c)" "s' = s\<lparr>st_certificateOperations := c\<rparr>"
    using f by blast
  then show ?thesis
  proof cases
    case upd
    have ok': "ook (st_certificateOperations s)" using ok by (simp add: sane_def)
    from ops.find_update_total [OF ok' upd(1)] ops.find_update_none [OF ok' upd(1)]
      ops.find_update_duplicate [OF ok' upd(1)] upd(2) show ?thesis by auto
  qed simp
qed

lemma run_releases:
  assumes ok: "sane s" and "released opID (ev_replicaID E) s"
  shows "released opID (ev_replicaID E) (snd (runOperation E M N jitter T opID s))"
proof -
  let ?p = "\<lparr>cp_OpID = opID, cp_Owner = ev_replicaID E, cp_Now = at_claim T,
             cp_LeaseExpires = at_claim T + operationLeaseDuration\<rparr>"
  obtain r s1 where claim: "TryClaimCertificateOperation M ?p s = (r, s1)" by fastforce
  have ok1: "sane s1" using op_call_sane [OF ok, of "CallClaim ?p"] claim by simp
  show ?thesis
  proof (cases r)
    case (Inl e)
    then have "released opID (ev_replicaID E) s1"
      using claim_error_same [OF ok] claim assms(2) by (simp add: released_def)
    then show ?thesis using Inl claim by (simp add: runOperation_def)
  next
    case (Inr op)
    have opid: "op_ID op = opID"
      using claim_done [OF _ claim [unfolded Inr]] ok by (auto simp: sane_def claimed_def)
    show ?thesis
    proof (cases "operationDeadlineExceeded op (at_claim T)")
      case True
      then show ?thesis using Inr claim opid
        by (simp add: runOperation_def failOperationDeadlineExceeded_def)
          (intro released_notify mark_failed_releases close_sane ok1)
    next
      case False
      define s2 where "s2 = (if op_AttemptCount op > 1 \<and> op_PendingTXTRecords op \<noteq> []
        then snd (cleanupPendingTXT E M T op s1) else s1)"
      have ok2: "sane s2" using ok1 cleanup_sane by (simp add: s2_def)
      obtain r3 s3 where ex: "executeOperation E M T op (ev_replicaID E) s2 = (r3, s3)" by fastforce
      from execute_result [OF ok2 ex] opid have ok3: "sane s3" and
        rel3: "\<And>x. r3 = Inr x \<Longrightarrow> released opID (ev_replicaID E) s3" by auto
      have "runOperation E M N jitter T opID s = (case r3 of
          Inr w \<Rightarrow> notifyOperationSuccess M N T op s3
        | Inl e \<Rightarrow> handleOperationFailure E M N jitter T op e s3)"
        using claim Inr False ex by (simp add: runOperation_def s2_def Let_def split: sum.splits)
      then show ?thesis
        using failure_releases [OF ok3, of op E] opid released_notify(2) [OF ok3 rel3]
        by (cases r3) auto
    qed
  qed
qed


lemma failure_outcome:
  assumes ok: "sane s" and d: "d \<in># op_docs s" "heldBy (op_ID op) (ev_replicaID E) d"
  shows "\<exists>d'. op_docs (snd (handleOperationFailure E M N jitter T op e s)) = add_mset d' (op_docs s - {#d#}) \<and>
    ((\<exists>summary. d' = op_failed summary (at_close T) d) \<or>
     (\<exists>summary. d' = retry_scheduled (at_retry T + computeRetryDelay (op_ConsecutiveFailures op + 1) jitter) summary (op_ConsecutiveFailures op + 1) (at_close T) d \<and>
       \<not> isPermanentOperationError e \<and> \<not> operationDeadlineExceeded op (at_failure T) \<and>
       \<not> operationDeadlineExceeded op (at_retry T + computeRetryDelay (op_ConsecutiveFailures op + 1) jitter)))"
proof -
  have notify: "op_docs (snd (notifyOperationFailure M N T op x s1)) = op_docs s1" if "sane s1" for x s1
    using notify_same(1) [OF that] by simp
  have failed: "op_docs (snd (MarkCertificateOperationFailed M (at_close T) (op_ID op) (ev_replicaID E) x s)) =
      add_mset (op_failed x (at_close T) d) (op_docs s - {#d#})" for x
    using close_write [OF ok _ surjective_pairing, of "op_ID op" "ev_replicaID E" "op_failed x (at_close T)"
        "StoreE ErrCertificateOperationConflict"] d
    by (simp add: MarkCertificateOperationFailed_def op_failed_def)
  have retried: "op_docs (snd (ScheduleCertificateOperationRetry M (at_close T) (op_ID op) (ev_replicaID E) t x n s)) =
      add_mset (retry_scheduled t x n (at_close T) d) (op_docs s - {#d#})" for t x n
    using close_write [OF ok _ surjective_pairing, of "op_ID op" "ev_replicaID E" "retry_scheduled t x n (at_close T)"
        "StoreE ErrCertificateOperationConflict"] d
    by (simp add: ScheduleCertificateOperationRetry_def retry_scheduled_def)
  show ?thesis
    unfolding handleOperationFailure_def Let_def
    by (auto simp: notify failed retried close_sane ok)
qed

end

section \<open>Challenge records\<close>

context cert_store begin

text \<open>The record is on the pending list of the operation, removed, or its loss is warned of.\<close>

definition accounted :: "string \<Rightarrow> 'c tracked \<Rightarrow> bool" where
  "accounted i st \<longleftrightarrow> (case st of (w, log, s) \<Rightarrow> \<forall>rec. Presented rec \<in> set log \<longrightarrow>
     (\<exists>d \<in># op_docs s. op_ID d = i \<and> rec \<in> set (op_PendingTXTRecords d)) \<or> CleanedUp rec \<in> set log \<or> w \<noteq> [])"

lemma record_txt_done:
  assumes ok: "sane s" and run: "RecordCertificateOperationPendingTXT M now i owner rec s = (r, s')"
  shows "(\<forall>x. (\<exists>d \<in># op_docs s. op_ID d = i \<and> x \<in> set (op_PendingTXTRecords d)) \<longrightarrow>
      (\<exists>d \<in># op_docs s'. op_ID d = i \<and> x \<in> set (op_PendingTXTRecords d))) \<and>
    (r = Inr () \<longrightarrow> (\<exists>d \<in># op_docs s'. op_ID d = i \<and> rec \<in> set (op_PendingTXTRecords d)))"
proof -
  obtain r1 c where c: "UpdateOne (certificateOperations M) (heldBy i owner) (txt_recorded rec now)
      (st_certificateOperations s) = (r1, c)" "s' = s\<lparr>st_certificateOperations := c\<rparr>"
    "r = Inr () \<longrightarrow> (\<exists>n. r1 = Inr n \<and> n \<noteq> 0)"
    using run by (auto simp: RecordCertificateOperationPendingTXT_def matched_or_eq_iff on_certificateOperations_eq_iff)
  have ok': "ook (st_certificateOperations s)" using ok by (simp add: sane_def)
  have grows: "set (op_PendingTXTRecords d) \<subseteq> set (op_PendingTXTRecords (txt_recorded rec now d))"
    "rec \<in> set (op_PendingTXTRecords (txt_recorded rec now d))" "op_ID (txt_recorded rec now d) = op_ID d" for d
    by (auto simp: txt_recorded_def)
  from ok' c(1) show ?thesis
  proof (cases rule: ops.update_cases)
    case same
    have "r \<noteq> Inr () \<or> replaced (heldBy i owner) (txt_recorded rec now) (op_docs s) (op_docs s')"
      using c ops.update_done [OF ok'] by (auto split: if_splits)
    then show ?thesis
    proof
      assume "replaced (heldBy i owner) (txt_recorded rec now) (op_docs s) (op_docs s')"
      then obtain d where "heldBy i owner d" "txt_recorded rec now d \<in># op_docs s'" by (auto elim!: replacedE)
      with grows [of d] have "\<exists>d \<in># op_docs s'. op_ID d = i \<and> rec \<in> set (op_PendingTXTRecords d)"
        by (auto simp: heldBy_def intro!: bexI [of _ "txt_recorded rec now d"])
      with same c(2) show ?thesis by simp
    qed (use same c(2) in simp)
  next
    case one
    then obtain d where d: "d \<in># op_docs s" "heldBy i owner d"
      "op_docs s' = add_mset (txt_recorded rec now d) (op_docs s - {#d#})"
      using c(2) by (auto elim: replacedE)
    have "\<exists>e \<in># op_docs s'. op_ID e = i \<and> x \<in> set (op_PendingTXTRecords e)"
      if "y \<in># op_docs s" "op_ID y = i" "x \<in> set (op_PendingTXTRecords y)" for x y
    proof (cases "y = d")
      case True
      with that grows [of d] d(3) show ?thesis by auto
    next
      case False
      with that d(3) have "y \<in># op_docs s'" by (simp add: in_diff_count)
      with that show ?thesis by blast
    qed
    moreover have "\<exists>e \<in># op_docs s'. op_ID e = i \<and> rec \<in> set (op_PendingTXTRecords e)"
      using grows d by (auto simp: heldBy_def)
    ultimately show ?thesis by blast
  qed
qed

lemma cleanup_warning_nonempty [simp]: "cleanup_warning E e \<noteq> []"
  by (simp add: cleanup_warning_def)

lemma present_accounted:
  assumes ok: "sane s" and acc: "accounted i (w, log, s)"
    and run: "tracked_Present E M dns now i owner rec (w, log, s) = (r, st)"
  shows "accounted i st"
proof (cases "dp_Present dns rec")
  case (Some e)
  with run acc show ?thesis by (simp add: tracked_Present_def)
next
  case None
  obtain r1 s1 where stored: "RecordCertificateOperationPendingTXT M (now rec) i owner rec s = (r1, s1)" by fastforce
  note kept = record_txt_done [OF ok stored]
  show ?thesis
  proof (cases r1)
    case (Inr u)
    with None stored run have "st = (w, log @ [Presented rec], s1)" by (auto simp: tracked_Present_def)
    with kept Inr acc show ?thesis by (auto simp: accounted_def)
  next
    case (Inl e)
    show ?thesis
    proof (cases "dp_CleanUp dns rec")
      case None
      with Inl \<open>dp_Present dns rec = None\<close> stored run have "st = (w, log @ [Presented rec, CleanedUp rec], s1)"
        by (simp add: tracked_Present_def)
      with kept acc show ?thesis by (auto simp: accounted_def)
    next
      case (Some ce)
      with Inl \<open>dp_Present dns rec = None\<close> stored run obtain ce' where
        "st = (cleanup_warning E ce', log @ [Presented rec], s1)" by (auto simp: tracked_Present_def)
      then show ?thesis by (simp add: accounted_def)
    qed
  qed
qed

lemma cleanup_accounted:
  "accounted i (w, log, s) \<Longrightarrow> tracked_CleanUp E dns rec (w, log, s) = (r, st) \<Longrightarrow> accounted i st"
  by (auto simp: tracked_CleanUp_def accounted_def split: option.splits)

lemma run_acme_accounted:
  "run_acme (tracked_Present E M dns now i owner) (tracked_CleanUp E dns) t (w, log, s) = (r, st) \<Longrightarrow>
     sane s \<Longrightarrow> accounted i (w, log, s) \<Longrightarrow> accounted i st"
proof (induction t arbitrary: w log s)
  case (DoPresent rec k)
  obtain r1 w1 log1 s1 where one: "tracked_Present E M dns now i owner rec (w, log, s) = (r1, (w1, log1, s1))"
    by (metis prod_cases4)
  with DoPresent.prems(1) have rest: "run_acme (tracked_Present E M dns now i owner) (tracked_CleanUp E dns) (k r1)
      (w1, log1, s1) = (r, st)" by simp
  show ?case
    by (rule DoPresent.IH [OF _ rest tracked_present_sane [OF one DoPresent.prems(2)]
          present_accounted [OF DoPresent.prems(2,3) one]]) simp
next
  case (DoCleanUp rec k)
  obtain r1 w1 log1 where one: "tracked_CleanUp E dns rec (w, log, s) = (r1, (w1, log1, s))"
    by (cases "dp_CleanUp dns rec") (simp_all add: tracked_CleanUp_def)
  with DoCleanUp.prems(1) have rest: "run_acme (tracked_Present E M dns now i owner) (tracked_CleanUp E dns) (k r1)
      (w1, log1, s) = (r, st)" by simp
  show ?case
    by (rule DoCleanUp.IH [OF _ rest DoCleanUp.prems(2) cleanup_accounted [OF DoCleanUp.prems(3) one]]) simp
qed simp

end

section \<open>Delays\<close>

lemma retry_loop_min:
  assumes "0 < d" shows "min (retry_loop n d) operationRetryMax = min (d * 2 ^ n) operationRetryMax"
  using assms
proof (induction n arbitrary: d)
  case (Suc n)
  show ?case
  proof (cases "d \<ge> operationRetryMax")
    case True
    have "1 \<le> (2 :: int) ^ Suc n" by (rule one_le_power) simp
    then have "d * 1 \<le> d * 2 ^ Suc n" using Suc.prems by (intro mult_left_mono) auto
    with True show ?thesis by simp
  next
    case False
    with Suc.IH [of "d * 2"] Suc.prems show ?thesis by (simp add: mult.assoc)
  qed
qed simp

section \<open>Properties\<close>


text \<open>A replica without a DNS provider factory, whose ACME server presents one record and then refuses.\<close>

definition sample_txt :: DNSChallengeRecord where
  "sample_txt = \<lparr>dc_Domain = ''example.com'', dc_Token = ''t'', dc_KeyAuth = ''k''\<rparr>"

definition sample_env :: env where
  "sample_env = \<lparr>ev_q = id, ev_ul = id, ev_x509 = sample_x509 [''example.com''],
     ev_acme = \<lparr>ac_FetchDirectory = (\<lambda>_. Inr []), ac_RegisterAccount = (\<lambda>_. Inr ''uri''),
       ac_IssueCertificate = (\<lambda>_ _ _. DoPresent sample_txt (\<lambda>_. Returned (Inl (Opaque ''refused'')))),
       ac_RevokeCertificate = (\<lambda>_ _ _. None)\<rparr>,
     ev_factory = None, ev_replicaID = ''a''\<rparr>"

definition sample_moments :: moments where
  "sample_moments = \<lparr>at_claim = 10, at_txt = (\<lambda>_. 11), at_validate = 12, at_activate = 13, at_clear = 14,
     at_failure = 15, at_retry = 16, at_close = 17, at_notify = 18, at_delivered = 19, at_uuid = ''u''\<rparr>"




text \<open>
  The retry delay doubles from 15 minutes with every consecutive failure after the first and
  stops growing at 12 hours, before the jitter is added; the loop agrees with the closed form for
  every 32-bit failure count.
\<close>

theorem retry_delay_closed_form:
  "computeRetryDelay failures jitter =
     (let d = min (15 * Minute * 2 ^ (unat failures - 1)) (12 * Hour) in d + jitter d)"
proof -
  have "min (retry_loop n operationRetryInitial) operationRetryMax =
      min (15 * Minute * 2 ^ n) (12 * Hour)" for n
    using retry_loop_min [of operationRetryInitial n]
    by (simp add: operationRetryInitial_def operationRetryMax_def time_units)
  moreover have "computeRetryDelay failures jitter =
      (let d = min (retry_loop (unat failures - 1) operationRetryInitial) operationRetryMax in d + jitter d)"
    by (simp add: computeRetryDelay_def min_def not_le Let_def)
  ultimately show ?thesis by simp
qed

text \<open>
  C10: no challenge record is lost: whenever the ACME run of an attempt has created a TXT record at the
  DNS provider, in whatever order it presents and cleans up and whichever calls fail, at its end the
  record is on the operation's pending list, or has been removed from the provider, or the run
  carries a cleanup warning.
\<close>

theorem challenge_records_accounted:
  assumes "cert_store M odocs ook cdocs cok"
    and "ook (st_certificateOperations s)" "cok (st_managedCertificates s)"
    and "issue_with E M T op leaseOwner issuer dns s = (r, (warning, log, s'))"
    and "Presented rec \<in> set log"
  shows "(\<exists>d \<in># odocs (st_certificateOperations s'). op_ID d = op_ID op \<and>
      rec \<in> set (op_PendingTXTRecords d)) \<or> CleanedUp rec \<in> set log \<or> warning \<noteq> []"
proof -
  note c = assms(1)
  have "cert_store.sane ook cok s" using assms(2,3) by (simp add: cert_store.sane_def [OF c])
  moreover have "cert_store.accounted odocs (op_ID op) ([], [], s)"
    by (simp add: cert_store.accounted_def [OF c])
  ultimately have "cert_store.accounted odocs (op_ID op) (warning, log, s')"
    using cert_store.run_acme_accounted [OF c assms(4) [unfolded issue_with_def]] by blast
  then show ?thesis using assms(5) by (auto simp: cert_store.accounted_def [OF c])
qed

definition sample_provider :: dns_provider where
  "sample_provider = \<lparr>dp_Present = (\<lambda>_. None), dp_CleanUp = (\<lambda>_. None)\<rparr>"

theorem challenge_records_accounted_witness:
  "\<exists>w s'. issue_with sample_env mem_mongo sample_moments sample_running ''a'' sample_issuer sample_provider
      (sample_db [sample_cert None None] [sample_running]) =
        (Inl (Opaque ''refused''), (w, [Presented sample_txt], s')) \<and>
    (w \<noteq> [] \<or> (\<exists>d \<in># mem_docs un_DOp (st_certificateOperations s'). sample_txt \<in> set (op_PendingTXTRecords d)))"
proof -
  have "\<exists>w s'. issue_with sample_env mem_mongo sample_moments sample_running ''a'' sample_issuer sample_provider
      (sample_db [sample_cert None None] [sample_running]) =
        (Inl (Opaque ''refused''), (w, [Presented sample_txt], s'))"
    by (simp add: issue_with_def sample_env_def tracked_Present_def sample_provider_def
        RecordCertificateOperationPendingTXT_def mem_eval sample_defs heldBy_def)
  then obtain w s' where run: "issue_with sample_env mem_mongo sample_moments sample_running ''a'' sample_issuer
      sample_provider (sample_db [sample_cert None None] [sample_running]) =
        (Inl (Opaque ''refused''), (w, [Presented sample_txt], s'))" by blast
  from challenge_records_accounted [OF mem_cert_store.cert_store_axioms _ _ this] run show ?thesis by auto
qed

end
