(* ===== verification/Issuers.thy ===== *)
theory Issuers
  imports Execution
begin

text \<open>
  internal/certmanager/presets.go, the DNS provider accounts of manager.go and the token check of
  cloudflare.go. \<open>url\<close> is what the code uses of \<open>url.Parse\<close>: the scheme and the host, or \<open>None\<close>
  for an error. As in CertManager, a call returns the id of the background task it schedules next
  to its result; \<open>startRegistration\<close> says whether the task starts. A registration talks to the CA
  between its two store accesses, so its second half, \<open>finishRegistration\<close>, is a call of its own.
\<close>

section \<open>CA presets\<close>

definition letsEncryptProductionDirectory :: string where
  "letsEncryptProductionDirectory = ''https://acme-v02.api.letsencrypt.org/directory''"

definition letsEncryptStagingDirectory :: string where
  "letsEncryptStagingDirectory = ''https://acme-staging-v02.api.letsencrypt.org/directory''"

definition zeroSSLDirectory :: string where
  "zeroSSLDirectory = ''https://acme.zerossl.com/v2/DV90''"

definition googlePublicCADirectory :: string where
  "googlePublicCADirectory = ''https://dv.acme-v02.api.pki.goog/directory''"

definition issuerRegistrationInterrupted :: string where
  "issuerRegistrationInterrupted = ''certificate issuer registration interrupted''"

definition validateCustomDirectoryURL :: "(string \<Rightarrow> (string \<times> string) option) \<Rightarrow> string \<Rightarrow> err + unit" where
  "validateCustomDirectoryURL url raw =
     (case url raw of
        None \<Rightarrow> Inl (Annot (CertE ErrInvalidDirectoryURL) [Lit ''invalid directory URL''])
      | Some (scheme, host) \<Rightarrow>
          if scheme \<noteq> ''https''
          then Inl (Annot (CertE ErrInvalidDirectoryURL) [Lit ''directory URL must use HTTPS''])
          else if host = []
          then Inl (Annot (CertE ErrInvalidDirectoryURL) [Lit ''directory URL must include a host''])
          else Inr ())"

text \<open>The directory, whether its certificates are untrusted, and whether it requires EAB.\<close>

definition resolvePreset ::
  "(string \<Rightarrow> (string \<times> string) option) \<Rightarrow> string \<Rightarrow> string \<Rightarrow> err + (string \<times> bool \<times> bool)" where
  "resolvePreset url caType customDirectoryURL =
     (if caType = CATypeLetsEncryptProduction then Inr (letsEncryptProductionDirectory, False, False)
      else if caType = CATypeLetsEncryptStaging then Inr (letsEncryptStagingDirectory, True, False)
      else if caType = CATypeZeroSSL then Inr (zeroSSLDirectory, False, True)
      else if caType = CATypeGooglePublicCA then Inr (googlePublicCADirectory, False, True)
      else if caType = CATypeCustom then
        (let customDirectoryURL = trim_space customDirectoryURL in
         if customDirectoryURL = [] then Inl (CertE ErrCustomDirectoryRequired)
         else case validateCustomDirectoryURL url customDirectoryURL of
           Inl e \<Rightarrow> Inl e
         | Inr _ \<Rightarrow> Inr (customDirectoryURL, False, False))
      else Inl (StoreE ErrInvalidCertificateIssuerCAType))"

section \<open>Issuers\<close>

record IssuerInput =
  ii_Name :: string
  ii_CAType :: string
  ii_CustomDirectoryURL :: string
  ii_Email :: string
  ii_AccountKeyPEM :: string
  ii_EABKid :: string
  ii_EABHMAC :: string
  ii_TermsOfServiceAgreed :: bool

record PublicIssuer =
  pi_ID :: string
  pi_Name :: string
  pi_CAType :: string
  pi_DirectoryURL :: string
  pi_Email :: string
  pi_RegistrationStatus :: string
  pi_RegistrationError :: string
  pi_StagingUntrusted :: bool
  pi_TermsOfServiceURL :: string
  pi_TermsOfServiceAgreedAt :: "gotime option"
  pi_AccountKeyConfigured :: bool
  pi_EABConfigured :: bool
  pi_CreatedAt :: gotime
  pi_UpdatedAt :: gotime

record DirectoryPreview =
  dp_CAType :: string
  dp_DirectoryURL :: string
  dp_TermsOfServiceURL :: string
  dp_StagingUntrusted :: bool
  dp_RequiresEAB :: bool

definition publicFromIssuer :: "CertificateIssuer \<Rightarrow> PublicIssuer" where
  "publicFromIssuer i =
     \<lparr>pi_ID = iss_ID i, pi_Name = iss_Name i, pi_CAType = iss_CAType i, pi_DirectoryURL = iss_DirectoryURL i,
      pi_Email = iss_Email i, pi_RegistrationStatus = iss_RegistrationStatus i,
      pi_RegistrationError = iss_RegistrationError i, pi_StagingUntrusted = iss_StagingUntrusted i,
      pi_TermsOfServiceURL = iss_TermsOfServiceURL i, pi_TermsOfServiceAgreedAt = iss_TermsOfServiceAgreed i,
      pi_AccountKeyConfigured = (iss_AccountKeyPEM i \<noteq> []),
      pi_EABConfigured = (iss_EABKid i \<noteq> [] \<and> iss_EABHMAC i \<noteq> []),
      pi_CreatedAt = iss_CreatedAt i, pi_UpdatedAt = iss_UpdatedAt i\<rparr>"

definition GetCertificateIssuerDirectoryPreview ::
  "(string \<Rightarrow> (string \<times> string) option) \<Rightarrow> acme_client \<Rightarrow> string \<Rightarrow> string \<Rightarrow> err + DirectoryPreview" where
  "GetCertificateIssuerDirectoryPreview url A caType customDirectoryURL =
     (case resolvePreset url caType customDirectoryURL of
        Inl e \<Rightarrow> Inl e
      | Inr (directoryURL, staging, requiresEAB) \<Rightarrow>
          (case ac_FetchDirectory A directoryURL of
             Inl e \<Rightarrow> Inl e
           | Inr tos \<Rightarrow> Inr \<lparr>dp_CAType = caType, dp_DirectoryURL = directoryURL, dp_TermsOfServiceURL = tos,
               dp_StagingUntrusted = staging, dp_RequiresEAB = requiresEAB\<rparr>))"

definition managerListCertificateIssuers ::
  "'c mongo \<Rightarrow> int \<Rightarrow> string \<Rightarrow> 'c db \<Rightarrow> err + (PublicIssuer list \<times> string)" where
  "managerListCertificateIssuers M limit pageToken s =
     (case ListCertificateIssuers M limit pageToken s of
        Inl e \<Rightarrow> Inl e
      | Inr (issuers, nxt) \<Rightarrow> Inr (map publicFromIssuer issuers, nxt))"

definition managerGetCertificateIssuer :: "'c mongo \<Rightarrow> string \<Rightarrow> 'c db \<Rightarrow> err + PublicIssuer" where
  "managerGetCertificateIssuer M ident s =
     (case GetCertificateIssuer M ident s of Inl e \<Rightarrow> Inl e | Inr issuer \<Rightarrow> Inr (publicFromIssuer issuer))"

text \<open>\<open>keygen\<close> is the result of \<open>generateAccountKeyPEM\<close>.\<close>

definition newIssuer ::
  "(string \<Rightarrow> (string \<times> string) option) \<Rightarrow> acme_client \<Rightarrow> err + string \<Rightarrow> gotime \<Rightarrow> IssuerInput \<Rightarrow>
    err + CertificateIssuer" where
  "newIssuer url A keygen now input =
     (if trim_space (ii_Name input) = [] then Inl (CertE ErrIssuerNameRequired)
      else if trim_space (ii_Email input) = [] then Inl (CertE ErrIssuerEmailRequired)
      else if \<not> ii_TermsOfServiceAgreed input then Inl (CertE ErrTermsOfServiceRequired)
      else case resolvePreset url (ii_CAType input) (ii_CustomDirectoryURL input) of
        Inl e \<Rightarrow> Inl e
      | Inr (directoryURL, staging, requiresEAB) \<Rightarrow>
          if requiresEAB \<and> (trim_space (ii_EABKid input) = [] \<or> trim_space (ii_EABHMAC input) = [])
          then Inl (CertE ErrEABRequired)
          else case ac_FetchDirectory A directoryURL of
            Inl e \<Rightarrow> Inl e
          | Inr tos \<Rightarrow>
              if tos \<noteq> [] \<and> \<not> ii_TermsOfServiceAgreed input then Inl (CertE ErrTermsOfServiceRequired)
              else case (if trim_space (ii_AccountKeyPEM input) = [] then keygen
                         else Inr (trim_space (ii_AccountKeyPEM input))) of
                Inl e \<Rightarrow> Inl e
              | Inr accountKey \<Rightarrow> Inr
                  \<lparr>iss_ID = [], iss_Name = trim_space (ii_Name input), iss_CAType = ii_CAType input,
                   iss_DirectoryURL = directoryURL, iss_Email = trim_space (ii_Email input),
                   iss_RegistrationStatus = IssuerRegistrationPending, iss_RegistrationError = [],
                   iss_StagingUntrusted = staging, iss_TermsOfServiceURL = tos,
                   iss_TermsOfServiceAgreed = Some now, iss_AccountKeyPEM = accountKey, iss_AccountURI = [],
                   iss_EABKid = trim_space (ii_EABKid input), iss_EABHMAC = trim_space (ii_EABHMAC input),
                   iss_CreatedAt = zero_time, iss_UpdatedAt = zero_time\<rparr>)"

definition managerCreateCertificateIssuer ::
  "(string \<Rightarrow> (string \<times> string) option) \<Rightarrow> acme_client \<Rightarrow> 'c mongo \<Rightarrow> err + string \<Rightarrow> gotime \<Rightarrow> gotime \<Rightarrow>
    string \<Rightarrow> IssuerInput \<Rightarrow> 'c db \<Rightarrow> (err + (PublicIssuer \<times> string option)) \<times> 'c db" where
  "managerCreateCertificateIssuer url A M keygen now later uuid input s =
     and_then (newIssuer url A keygen now input, s) (\<lambda>issuer s.
     and_then (CreateCertificateIssuer M later uuid issuer s) (\<lambda>created s.
     (Inr (publicFromIssuer created, Some (iss_ID created)), s)))"

definition identityChanged :: "CertificateIssuer \<Rightarrow> IssuerInput \<Rightarrow> bool" where
  "identityChanged existing input \<longleftrightarrow>
     (ii_CAType input \<noteq> [] \<and> ii_CAType input \<noteq> iss_CAType existing) \<or>
     (ii_Email input \<noteq> [] \<and> trim_space (ii_Email input) \<noteq> iss_Email existing) \<or>
     (ii_CustomDirectoryURL input \<noteq> [] \<and> ii_CustomDirectoryURL input \<noteq> iss_DirectoryURL existing) \<or>
     ii_AccountKeyPEM input \<noteq> [] \<or> ii_EABKid input \<noteq> [] \<or> ii_EABHMAC input \<noteq> []"

definition or_else :: "string \<Rightarrow> string \<Rightarrow> string" where
  "or_else x y = (if x = [] then y else x)"

definition applyFailedIssuerUpdate ::
  "(string \<Rightarrow> (string \<times> string) option) \<Rightarrow> CertificateIssuer \<Rightarrow> IssuerInput \<Rightarrow> err + CertificateIssuer" where
  "applyFailedIssuerUpdate url existing input =
     (let renamed = existing\<lparr>iss_Name := or_else (trim_space (ii_Name input)) (iss_Name existing)\<rparr>;
          caType = or_else (ii_CAType input) (iss_CAType existing);
          customURL = (if ii_CustomDirectoryURL input = [] \<and> caType = iss_CAType existing
                       then iss_DirectoryURL existing else ii_CustomDirectoryURL input) in
      case resolvePreset url caType customURL of
        Inl e \<Rightarrow> Inl e
      | Inr (directoryURL, staging, requiresEAB) \<Rightarrow>
          let email = or_else (trim_space (ii_Email input)) (iss_Email existing);
              kid = or_else (trim_space (ii_EABKid input)) (iss_EABKid existing);
              hmacKey = or_else (trim_space (ii_EABHMAC input)) (iss_EABHMAC existing) in
          if email = [] then Inl (CertE ErrIssuerEmailRequired)
          else if requiresEAB \<and> (kid = [] \<or> hmacKey = []) then Inl (CertE ErrEABRequired)
          else let withEAB = (if requiresEAB then renamed\<lparr>iss_EABKid := kid, iss_EABHMAC := hmacKey\<rparr> else renamed)
            in Inr (withEAB\<lparr>iss_AccountKeyPEM := or_else (trim_space (ii_AccountKeyPEM input)) (iss_AccountKeyPEM existing),
                 iss_CAType := caType, iss_DirectoryURL := directoryURL, iss_Email := email,
                 iss_StagingUntrusted := staging, iss_RegistrationStatus := IssuerRegistrationPending,
                 iss_RegistrationError := [], iss_AccountURI := []\<rparr>))"

definition managerUpdateCertificateIssuer ::
  "(string \<Rightarrow> (string \<times> string) option) \<Rightarrow> 'c mongo \<Rightarrow> gotime \<Rightarrow> string \<Rightarrow> IssuerInput \<Rightarrow> 'c db \<Rightarrow>
    (err + (PublicIssuer \<times> string option)) \<times> 'c db" where
  "managerUpdateCertificateIssuer url M now ident input s =
     and_then (GetCertificateIssuer M ident s, s) (\<lambda>existing s.
     and_then (if iss_RegistrationStatus existing = IssuerRegistrationReady then
                 (if identityChanged existing input then Inl (StoreE ErrCertificateIssuerImmutable)
                  else Inr (existing\<lparr>iss_Name := trim_space (ii_Name input)\<rparr>, False))
               else if iss_RegistrationStatus existing = IssuerRegistrationFailed then
                 (case applyFailedIssuerUpdate url existing input of
                    Inl e \<Rightarrow> Inl e
                  | Inr updated \<Rightarrow> Inr (updated, True))
               else if iss_RegistrationStatus existing = IssuerRegistrationPending then
                 Inl (CertE ErrIssuerRegistrationPending)
               else Inl (Opaque ''unsupported issuer registration status''), s) (\<lambda>(issuer, start) s.
     and_then (UpdateCertificateIssuer M now ident issuer s) (\<lambda>saved s.
     (Inr (publicFromIssuer saved, if start then Some ident else None), s))))"

definition RetryCertificateIssuerRegistration ::
  "'c mongo \<Rightarrow> gotime \<Rightarrow> string \<Rightarrow> 'c db \<Rightarrow> (err + (PublicIssuer \<times> string option)) \<times> 'c db" where
  "RetryCertificateIssuerRegistration M now ident s =
     and_then (GetCertificateIssuer M ident s, s) (\<lambda>existing s.
     if iss_RegistrationStatus existing \<noteq> IssuerRegistrationFailed
     then (Inl (StoreE ErrCertificateIssuerNotRetryable), s)
     else and_then (UpdateCertificateIssuer M now ident
            (existing\<lparr>iss_RegistrationStatus := IssuerRegistrationPending, iss_RegistrationError := [],
               iss_AccountURI := []\<rparr>) s) (\<lambda>saved s.
          (Inr (publicFromIssuer saved, Some ident), s)))"

definition managerDeleteCertificateIssuer :: "'c mongo \<Rightarrow> string \<Rightarrow> 'c db \<Rightarrow> (err + unit) \<times> 'c db" where
  "managerDeleteCertificateIssuer M ident s =
     and_then (ensureIssuerDeletable M ident s, s) (\<lambda>_ s. DeleteCertificateIssuer M ident s)"

section \<open>Registration\<close>

text \<open>The registrations in flight on this replica, and whether its background tasks are closed.\<close>

record registrar =
  rg_inflight :: "string set"
  rg_tasksClosed :: bool

definition startRegistration :: "string \<Rightarrow> registrar \<Rightarrow> bool \<times> registrar" where
  "startRegistration ident r =
     (if ident \<in> rg_inflight r \<or> rg_tasksClosed r then (False, r)
      else (True, r\<lparr>rg_inflight := insert ident (rg_inflight r)\<rparr>))"

definition failInterruptedRegistration :: "'c mongo \<Rightarrow> gotime \<Rightarrow> string \<Rightarrow> 'c db \<Rightarrow> 'c db" where
  "failInterruptedRegistration M now ident s =
     (case GetCertificateIssuer M ident s of
        Inl e \<Rightarrow> s
      | Inr issuer \<Rightarrow>
          if iss_RegistrationStatus issuer \<noteq> IssuerRegistrationPending then s
          else snd (UpdateCertificateIssuer M now ident
                 (issuer\<lparr>iss_RegistrationStatus := IssuerRegistrationFailed,
                    iss_RegistrationError := issuerRegistrationInterrupted\<rparr>) s))"

text \<open>The outcome of \<open>RegisterAccount\<close>: a trimmed account URI that is not empty, or an error.\<close>

definition registrationOutcome :: "err + string \<Rightarrow> err + string" where
  "registrationOutcome r =
     (case r of
        Inl e \<Rightarrow> Inl e
      | Inr uri \<Rightarrow> if trim_space uri = [] then Inl (CertE ErrIssuerAccountURIRequired) else Inr (trim_space uri))"

definition finishRegistration ::
  "(string \<Rightarrow> string) \<Rightarrow> (string \<Rightarrow> string) \<Rightarrow> 'c mongo \<Rightarrow> gotime \<Rightarrow> bool \<Rightarrow> string \<Rightarrow> err + string \<Rightarrow> 'c db \<Rightarrow> 'c db" where
  "finishRegistration ul q M now interrupted ident registration s =
     (if interrupted then failInterruptedRegistration M now ident s
      else case GetCertificateIssuer M ident s of
        Inl e \<Rightarrow> s
      | Inr issuer \<Rightarrow>
          let issuer = (case registrationOutcome registration of
              Inl e \<Rightarrow> issuer\<lparr>iss_RegistrationStatus := IssuerRegistrationFailed,
                 iss_RegistrationError := sanitizeRegistrationError ul q e
                   [iss_EABKid issuer, iss_EABHMAC issuer, iss_AccountKeyPEM issuer],
                 iss_AccountURI := []\<rparr>
            | Inr uri \<Rightarrow> issuer\<lparr>iss_RegistrationStatus := IssuerRegistrationReady,
                 iss_RegistrationError := [], iss_AccountURI := uri\<rparr>)
          in snd (UpdateCertificateIssuer M now ident issuer s))"

text \<open>A registration during which nothing else happens; the booleans are the readings of \<open>ctx.Err()\<close>.\<close>

definition runRegistration ::
  "env \<Rightarrow> 'c mongo \<Rightarrow> gotime \<Rightarrow> bool \<Rightarrow> bool \<Rightarrow> string \<Rightarrow> 'c db \<Rightarrow> 'c db" where
  "runRegistration E M now before after ident s =
     (if before then failInterruptedRegistration M now ident s
      else case GetCertificateIssuer M ident s of
        Inl e \<Rightarrow> s
      | Inr issuer \<Rightarrow>
          if iss_RegistrationStatus issuer \<noteq> IssuerRegistrationPending then s
          else finishRegistration (ev_ul E) (ev_q E) M now after ident (ac_RegisterAccount (ev_acme E) issuer) s)"

section \<open>DNS provider accounts\<close>

record DNSAccountInput =
  di_Name :: string
  di_Provider :: string
  di_PropagationTimeoutSeconds :: u32
  di_APIToken :: string

record PublicAccount =
  pa_ID :: string
  pa_Name :: string
  pa_Provider :: string
  pa_PropagationTimeoutSeconds :: u32
  pa_TokenConfigured :: bool
  pa_TokenLastVerifiedAt :: "gotime option"
  pa_CreatedAt :: gotime
  pa_UpdatedAt :: gotime

definition publicFromStore :: "DNSProviderAccount \<Rightarrow> PublicAccount" where
  "publicFromStore a =
     \<lparr>pa_ID = dns_ID a, pa_Name = dns_Name a, pa_Provider = dns_Provider a,
      pa_PropagationTimeoutSeconds = dns_PropagationTimeoutSeconds a,
      pa_TokenConfigured = (dns_APIToken a \<noteq> []), pa_TokenLastVerifiedAt = dns_TokenLastVerifiedAt a,
      pa_CreatedAt = dns_CreatedAt a, pa_UpdatedAt = dns_UpdatedAt a\<rparr>"

definition MinDNSPropagationTimeoutSecs :: u32 where
  "MinDNSPropagationTimeoutSecs = 30"

definition MaxDNSPropagationTimeoutSecs :: u32 where
  "MaxDNSPropagationTimeoutSecs = 900"

definition zero_account :: DNSProviderAccount where
  "zero_account = \<lparr>dns_ID = [], dns_Name = [], dns_Provider = [], dns_PropagationTimeoutSeconds = 0,
     dns_APIToken = [], dns_TokenLastVerifiedAt = None, dns_CreatedAt = zero_time, dns_UpdatedAt = zero_time\<rparr>"

definition buildAccount :: "DNSAccountInput \<Rightarrow> DNSProviderAccount \<Rightarrow> err + DNSProviderAccount" where
  "buildAccount input existing =
     (let provider = or_else (or_else (di_Provider input) (dns_Provider existing)) DNSProviderCloudflare;
          timeout = (if di_PropagationTimeoutSeconds input = 0 then
                       (if dns_PropagationTimeoutSeconds existing \<noteq> 0 then dns_PropagationTimeoutSeconds existing
                        else DefaultDNSPropagationTimeoutSecs)
                     else di_PropagationTimeoutSeconds input) in
      if provider \<noteq> DNSProviderCloudflare then Inl (StoreE ErrInvalidDNSProvider)
      else if timeout < MinDNSPropagationTimeoutSecs \<or> MaxDNSPropagationTimeoutSecs < timeout
      then Inl (StoreE ErrInvalidPropagationTimeout)
      else Inr (zero_account\<lparr>dns_ID := dns_ID existing, dns_Name := di_Name input, dns_Provider := provider,
             dns_PropagationTimeoutSeconds := timeout, dns_CreatedAt := dns_CreatedAt existing\<rparr>))"

text \<open>\<open>verify\<close> is the \<open>TokenVerifier\<close>; \<open>None\<close> is no error.\<close>

definition managerCreateDNSProviderAccount ::
  "(string \<Rightarrow> err option) \<Rightarrow> 'c mongo \<Rightarrow> gotime \<Rightarrow> gotime \<Rightarrow> string \<Rightarrow> DNSAccountInput \<Rightarrow> 'c db \<Rightarrow>
    (err + PublicAccount) \<times> 'c db" where
  "managerCreateDNSProviderAccount verify M now later uuid input s =
     and_then (buildAccount input zero_account, s) (\<lambda>account s.
     if di_APIToken input = [] then (Inl (CertE ErrTokenRequired), s)
     else case verify (di_APIToken input) of
       Some e \<Rightarrow> (Inl e, s)
     | None \<Rightarrow> and_then (CreateDNSProviderAccount M later uuid
           (account\<lparr>dns_APIToken := di_APIToken input, dns_TokenLastVerifiedAt := Some now\<rparr>) s) (\<lambda>created s.
         (Inr (publicFromStore created), s)))"

definition managerUpdateDNSProviderAccount ::
  "(string \<Rightarrow> err option) \<Rightarrow> 'c mongo \<Rightarrow> gotime \<Rightarrow> gotime \<Rightarrow> string \<Rightarrow> DNSAccountInput \<Rightarrow> 'c db \<Rightarrow>
    (err + PublicAccount) \<times> 'c db" where
  "managerUpdateDNSProviderAccount verify M now later ident input s =
     and_then (GetDNSProviderAccount M ident s, s) (\<lambda>existing s.
     and_then (buildAccount input existing, s) (\<lambda>account s.
     and_then (if di_APIToken input \<noteq> [] then
                 (case verify (di_APIToken input) of
                    Some e \<Rightarrow> Inl e
                  | None \<Rightarrow> Inr (account\<lparr>dns_APIToken := di_APIToken input,
                                  dns_TokenLastVerifiedAt := Some now\<rparr>))
               else Inr (account\<lparr>dns_APIToken := dns_APIToken existing,
                           dns_TokenLastVerifiedAt := dns_TokenLastVerifiedAt existing\<rparr>), s) (\<lambda>account s.
     and_then (UpdateDNSProviderAccount M later ident account s) (\<lambda>updated s.
     (Inr (publicFromStore updated), s)))))"

definition managerListDNSProviderAccounts ::
  "'c mongo \<Rightarrow> int \<Rightarrow> string \<Rightarrow> 'c db \<Rightarrow> err + (PublicAccount list \<times> string)" where
  "managerListDNSProviderAccounts M limit pageToken s =
     (case ListDNSProviderAccounts M limit pageToken s of
        Inl e \<Rightarrow> Inl e
      | Inr (accounts, nxt) \<Rightarrow> Inr (map publicFromStore accounts, nxt))"

definition managerGetDNSProviderAccount :: "'c mongo \<Rightarrow> string \<Rightarrow> 'c db \<Rightarrow> err + PublicAccount" where
  "managerGetDNSProviderAccount M ident s =
     (case GetDNSProviderAccount M ident s of Inl e \<Rightarrow> Inl e | Inr account \<Rightarrow> Inr (publicFromStore account))"

definition managerDeleteDNSProviderAccount :: "'c mongo \<Rightarrow> string \<Rightarrow> 'c db \<Rightarrow> (err + unit) \<times> 'c db" where
  "managerDeleteDNSProviderAccount M ident s =
     and_then (ensureDNSAccountDeletable M ident s, s) (\<lambda>_ s. DeleteDNSProviderAccount M ident s)"

section \<open>The Cloudflare token check\<close>

text \<open>The decoded response body; \<open>cfv_fetch\<close> is the request with the token, up to the decoded body.\<close>

record cloudflareVerifyResponse =
  cfv_Success :: bool
  cfv_Errors :: "(int \<times> string) list"
  cfv_Messages :: "(int \<times> string) list"

datatype cloudflare_reply =
    RequestFailed err
  | ReadFailed err
  | Undecodable err
  | Reply int cloudflareVerifyResponse

definition first_message :: "(int \<times> string) list \<Rightarrow> string" where
  "first_message xs = (case xs of [] \<Rightarrow> [] | (code, m) # _ \<Rightarrow> m)"

definition cloudflareErrorMessage :: "cloudflareVerifyResponse \<Rightarrow> string" where
  "cloudflareErrorMessage parsed = or_else (first_message (cfv_Errors parsed)) (first_message (cfv_Messages parsed))"

definition VerifyCloudflareToken :: "(string \<Rightarrow> cloudflare_reply) \<Rightarrow> string \<Rightarrow> err option" where
  "VerifyCloudflareToken fetch token =
     (let token = trim_space token in
      if token = [] then Some (CertE ErrCloudflareTokenInvalid)
      else case fetch token of
        RequestFailed e \<Rightarrow> Some (Context ''cloudflare verify request'' e)
      | ReadFailed e \<Rightarrow> Some (Context ''read cloudflare verify response'' e)
      | Undecodable e \<Rightarrow> Some (Context ''parse cloudflare verify response'' e)
      | Reply status parsed \<Rightarrow>
          if status = 200 \<and> cfv_Success parsed then None
          else Some (Annot (CertE ErrCloudflareTokenInvalid)
            [Lit (or_else (cloudflareErrorMessage parsed) ''cloudflare token verification failed'')]))"

end
