(* ===== verification/IssuerLife.thy ===== *)
theory IssuerLife
  imports Issuers
begin

text \<open>
  The registration state machine of an issuer: the calls of Issuers as steps, the invariant of the
  stored issuers, and what a ready issuer keeps. \<open>CallFinished\<close> is the end of a registration, at any
  time and with any answer of the CA, so that the sequences cover every interleaving of the calls with
  the registrations.
\<close>

section \<open>The life cycle of an issuer\<close>

text \<open>What the calls do to the one issuer they change, besides its update time.\<close>

datatype issuer_event =
    Renamed string
  | Revised IssuerInput
  | Retried
  | Interrupted
  | Registered string
  | Rejected string

inductive issuer_step ::
  "(string \<Rightarrow> (string \<times> string) option) \<Rightarrow> issuer_event \<Rightarrow> CertificateIssuer \<Rightarrow> CertificateIssuer \<Rightarrow> bool"
  for url where
  Rename: "iss_RegistrationStatus i = IssuerRegistrationReady \<Longrightarrow>
    issuer_step url (Renamed n) i (i\<lparr>iss_Name := n, iss_UpdatedAt := t\<rparr>)"
| Revise: "iss_RegistrationStatus i = IssuerRegistrationFailed \<Longrightarrow>
    applyFailedIssuerUpdate url i input = Inr i' \<Longrightarrow>
    issuer_step url (Revised input) i (i'\<lparr>iss_UpdatedAt := t\<rparr>)"
| Retry: "iss_RegistrationStatus i = IssuerRegistrationFailed \<Longrightarrow>
    issuer_step url Retried i (i\<lparr>iss_RegistrationStatus := IssuerRegistrationPending,
      iss_RegistrationError := [], iss_AccountURI := [], iss_UpdatedAt := t\<rparr>)"
| Interrupt: "iss_RegistrationStatus i = IssuerRegistrationPending \<Longrightarrow>
    issuer_step url Interrupted i (i\<lparr>iss_RegistrationStatus := IssuerRegistrationFailed,
      iss_RegistrationError := issuerRegistrationInterrupted, iss_UpdatedAt := t\<rparr>)"
| Register: "uri \<noteq> [] \<Longrightarrow>
    issuer_step url (Registered uri) i (i\<lparr>iss_RegistrationStatus := IssuerRegistrationReady,
      iss_RegistrationError := [], iss_AccountURI := uri, iss_UpdatedAt := t\<rparr>)"
| Reject: "issuer_step url (Rejected e) i (i\<lparr>iss_RegistrationStatus := IssuerRegistrationFailed,
      iss_RegistrationError := e, iss_AccountURI := [], iss_UpdatedAt := t\<rparr>)"

inductive_cases issuer_stepE: "issuer_step url ev i i'"

text \<open>The directory and the staging flag are those of the preset, which has the EAB it requires.\<close>

definition preset_wf ::
  "(string \<Rightarrow> (string \<times> string) option) \<Rightarrow> string \<Rightarrow> string \<Rightarrow> bool \<Rightarrow> string \<Rightarrow> string \<Rightarrow> bool" where
  "preset_wf url t d st kid hmacKey \<longleftrightarrow>
     (\<exists>eab. resolvePreset url t d = Inr (d, st, eab) \<and> (eab \<longrightarrow> kid \<noteq> [] \<and> hmacKey \<noteq> []))"

definition issuer_wf :: "(string \<Rightarrow> (string \<times> string) option) \<Rightarrow> CertificateIssuer \<Rightarrow> bool" where
  "issuer_wf url i \<longleftrightarrow>
     preset_wf url (iss_CAType i) (iss_DirectoryURL i) (iss_StagingUntrusted i) (iss_EABKid i) (iss_EABHMAC i) \<and>
     iss_Email i \<noteq> [] \<and>
     iss_RegistrationStatus i \<in> {IssuerRegistrationPending, IssuerRegistrationReady, IssuerRegistrationFailed} \<and>
     (iss_RegistrationStatus i = IssuerRegistrationReady \<longleftrightarrow> iss_AccountURI i \<noteq> []) \<and>
     (iss_RegistrationStatus i \<noteq> IssuerRegistrationFailed \<longrightarrow> iss_RegistrationError i = [])"

text \<open>A resolved directory resolves to itself.\<close>

lemma resolve_again:
  assumes "resolvePreset url t c = Inr (d, st, eab)"
  shows "resolvePreset url t d = Inr (d, st, eab)"
  using assms by (auto simp: resolvePreset_def Let_def split: if_splits sum.splits)

lemma preset_wfI:
  "resolvePreset url t c = Inr (d, st, eab) \<Longrightarrow> (eab \<Longrightarrow> kid \<noteq> [] \<and> hmacKey \<noteq> []) \<Longrightarrow> preset_wf url t d st kid hmacKey"
  unfolding preset_wf_def using resolve_again by blast

lemma or_else_simps [simp]: "or_else [] y = y" "x \<noteq> [] \<Longrightarrow> or_else x y = x" "or_else x y = [] \<longleftrightarrow> x = [] \<and> y = []"
  by (auto simp: or_else_def)

lemma new_issuer_wf:
  assumes "newIssuer url A keygen now input = Inr i"
  shows "issuer_wf url i \<and> iss_RegistrationStatus i = IssuerRegistrationPending \<and> iss_ID i = []"
proof -
  obtain d st eab where r: "resolvePreset url (ii_CAType input) (ii_CustomDirectoryURL input) = Inr (d, st, eab)"
    using assms by (auto simp: newIssuer_def split: if_splits sum.splits)
  with assms show ?thesis
    by (auto simp: newIssuer_def issuer_wf_def split: if_splits sum.splits intro!: preset_wfI [OF r])
qed

lemma revised_wf:
  assumes "applyFailedIssuerUpdate url i input = Inr i'"
  shows "issuer_wf url i' \<and> iss_RegistrationStatus i' = IssuerRegistrationPending \<and> iss_ID i' = iss_ID i \<and>
    iss_CreatedAt i' = iss_CreatedAt i"
proof -
  let ?t = "or_else (ii_CAType input) (iss_CAType i)"
  let ?c = "if ii_CustomDirectoryURL input = [] \<and> ?t = iss_CAType i
    then iss_DirectoryURL i else ii_CustomDirectoryURL input"
  obtain d st eab where r: "resolvePreset url ?t ?c = Inr (d, st, eab)"
    using assms unfolding applyFailedIssuerUpdate_def Let_def by (cases "resolvePreset url ?t ?c") auto
  with assms show ?thesis
    unfolding applyFailedIssuerUpdate_def Let_def r
    by (simp add: issuer_wf_def split: if_splits) (auto intro!: preset_wfI [OF r])
qed

lemma issuer_step_wf: "issuer_step url ev i i' \<Longrightarrow> issuer_wf url i \<Longrightarrow> issuer_wf url i'"
proof (induction rule: issuer_step.induct)
  case (Revise i input i' t)
  then show ?case using revised_wf [OF Revise(2)] by (auto simp: issuer_wf_def)
qed (simp_all add: issuer_wf_def)

section \<open>The calls\<close>

datatype issuer_call =
    CallCreateIssuer "err + string" gotime gotime string IssuerInput
  | CallUpdateIssuer gotime string IssuerInput
  | CallRetryIssuer gotime string
  | CallDeleteIssuer string
  | CallInterrupted gotime string
  | CallFinished gotime bool string "err + string"

fun run_issuer_call ::
  "(string \<Rightarrow> (string \<times> string) option) \<Rightarrow> env \<Rightarrow> 'c mongo \<Rightarrow> issuer_call \<Rightarrow> 'c db \<Rightarrow> 'c db" where
  "run_issuer_call url E M (CallCreateIssuer keygen now later uuid input) s =
     snd (managerCreateCertificateIssuer url (ev_acme E) M keygen now later uuid input s)"
| "run_issuer_call url E M (CallUpdateIssuer now i input) s =
     snd (managerUpdateCertificateIssuer url M now i input s)"
| "run_issuer_call url E M (CallRetryIssuer now i) s = snd (RetryCertificateIssuerRegistration M now i s)"
| "run_issuer_call url E M (CallDeleteIssuer i) s = snd (managerDeleteCertificateIssuer M i s)"
| "run_issuer_call url E M (CallInterrupted now i) s = failInterruptedRegistration M now i s"
| "run_issuer_call url E M (CallFinished now interrupted i registration) s =
     finishRegistration (ev_ul E) (ev_q E) M now interrupted i registration s"

fun run_issuer_calls ::
  "(string \<Rightarrow> (string \<times> string) option) \<Rightarrow> env \<Rightarrow> 'c mongo \<Rightarrow> issuer_call list \<Rightarrow> 'c db \<Rightarrow> 'c db" where
  "run_issuer_calls url E M [] s = s"
| "run_issuer_calls url E M (c # cs) s = run_issuer_calls url E M cs (run_issuer_call url E M c s)"

definition finishes :: "issuer_call \<Rightarrow> bool" where
  "finishes c \<longleftrightarrow> (\<exists>now interrupted i registration. c = CallFinished now interrupted i registration)"

text \<open>The id of the issuer a call creates.\<close>

definition creates :: "issuer_call \<Rightarrow> string option" where
  "creates c = (case c of CallCreateIssuer keygen now later uuid input \<Rightarrow> Some (''iss_'' @ uuid) | _ \<Rightarrow> None)"

definition issuer_event_of :: "issuer_event \<Rightarrow> bool" where
  "issuer_event_of ev \<longleftrightarrow> (\<exists>x. ev = Registered x \<or> ev = Rejected x)"

locale issuer_store =
  issuers: mongo_collection "certificateIssuers M" docs certificateIssuers_clash ok
  for M :: "'c mongo" and docs :: "'c \<Rightarrow> CertificateIssuer multiset" and ok :: "'c \<Rightarrow> bool"

context issuer_store begin

abbreviation "iss_docs s \<equiv> docs (st_certificateIssuers s)"

definition issuers_ok :: "'c db \<Rightarrow> bool" where
  "issuers_ok s \<longleftrightarrow> ok (st_certificateIssuers s)"

lemma issuer_unique:
  "issuers_ok s \<Longrightarrow> x \<in># iss_docs s \<Longrightarrow> y \<in># iss_docs s \<Longrightarrow> iss_ID x = iss_ID y \<Longrightarrow> x = y"
  unfolding issuers_ok_def by (rule issuers.unique_match) (auto simp: certificateIssuers_clash_def)

lemma get_issuer: "issuers_ok s \<Longrightarrow> GetCertificateIssuer M i s = Inr d \<Longrightarrow> d \<in># iss_docs s \<and> iss_ID d = i"
  unfolding issuers_ok_def GetCertificateIssuer_def by (rule issuers.find_one)

lemma update_issuer_effect:
  assumes ok: "issuers_ok s" and get: "GetCertificateIssuer M i s = Inr d"
    and run: "UpdateCertificateIssuer M now i x s = (r, s')"
  shows "issuers_ok s' \<and> (iss_docs s' = iss_docs s \<or>
    iss_docs s' = add_mset (x\<lparr>iss_ID := iss_ID d, iss_CreatedAt := iss_CreatedAt d, iss_UpdatedAt := now\<rparr>)
      (iss_docs s - {#d#}))"
proof -
  note d = get_issuer [OF ok get]
  let ?x = "x\<lparr>iss_ID := i, iss_CreatedAt := iss_CreatedAt d, iss_UpdatedAt := now\<rparr>"
  obtain r1 c where u: "UpdateOne (certificateIssuers M) (\<lambda>y. iss_ID y = i) (\<lambda>_. ?x) (st_certificateIssuers s) = (r1, c)"
    and s': "s' = s\<lparr>st_certificateIssuers := c\<rparr>"
    using run get by (cases "UpdateOne (certificateIssuers M) (\<lambda>y. iss_ID y = i) (\<lambda>_. ?x) (st_certificateIssuers s)")
      (auto simp: UpdateCertificateIssuer_def Let_def name_taken_def on_certificateIssuers_def and_then_def
        split: sum.splits prod.splits)
  have ok': "ok (st_certificateIssuers s)" using ok by (simp add: issuers_ok_def)
  from ok' u have "docs c = iss_docs s \<or> docs c = add_mset ?x (iss_docs s - {#d#})"
  proof (cases rule: issuers.update_cases)
    case one
    then obtain y where "y \<in># iss_docs s" "iss_ID y = i" "docs c = add_mset ?x (iss_docs s - {#y#})"
      by (auto elim: replacedE)
    moreover from this have "y = d" using issuer_unique [OF ok] d by simp
    ultimately show ?thesis by simp
  qed simp
  with issuers.update_ok [OF ok' u] s' d show ?thesis by (auto simp: issuers_ok_def)
qed

text \<open>One call: nothing, a new pending issuer, one step of one issuer, or a removal.\<close>

definition call_outcome :: "(string \<Rightarrow> (string \<times> string) option) \<Rightarrow> issuer_call \<Rightarrow> 'c db \<Rightarrow> 'c db \<Rightarrow> bool" where
  "call_outcome url c s s' \<longleftrightarrow> iss_docs s' \<subseteq># iss_docs s \<or>
     (\<exists>i. issuer_wf url i \<and> iss_RegistrationStatus i = IssuerRegistrationPending \<and>
        creates c = Some (iss_ID i) \<and> iss_docs s' = add_mset i (iss_docs s)) \<or>
     (\<exists>ev d d'. d \<in># iss_docs s \<and> issuer_step url ev d d' \<and> iss_ID d' = iss_ID d \<and>
        iss_docs s' = add_mset d' (iss_docs s - {#d#}) \<and> (issuer_event_of ev \<longrightarrow> finishes c))"

lemma stepped:
  assumes ok: "issuers_ok s" and get: "GetCertificateIssuer M i s = Inr d"
    and run: "UpdateCertificateIssuer M now i x s = (r, s')"
    and "issuer_step url ev d (x\<lparr>iss_UpdatedAt := now\<rparr>)" "iss_ID x = iss_ID d" "iss_CreatedAt x = iss_CreatedAt d"
    and "issuer_event_of ev \<longrightarrow> finishes c"
  shows "issuers_ok s' \<and> call_outcome url c s s'"
proof -
  have "x\<lparr>iss_ID := iss_ID d, iss_CreatedAt := iss_CreatedAt d, iss_UpdatedAt := now\<rparr> = x\<lparr>iss_UpdatedAt := now\<rparr>"
    using assms(5,6) by simp
  with update_issuer_effect [OF ok get run] have ok': "issuers_ok s'" and
    eff: "iss_docs s' = iss_docs s \<or> iss_docs s' = add_mset (x\<lparr>iss_UpdatedAt := now\<rparr>) (iss_docs s - {#d#})"
    by simp_all
  from eff show ?thesis
  proof
    assume "iss_docs s' = iss_docs s"
    with ok' show ?thesis by (simp add: call_outcome_def)
  next
    assume "iss_docs s' = add_mset (x\<lparr>iss_UpdatedAt := now\<rparr>) (iss_docs s - {#d#})"
    moreover have "iss_ID (x\<lparr>iss_UpdatedAt := now\<rparr>) = iss_ID d" using assms(5) by simp
    ultimately show ?thesis using ok' get_issuer [OF ok get] assms(4,7) unfolding call_outcome_def by blast
  qed
qed

lemma same_outcome: "issuers_ok s \<Longrightarrow> issuers_ok s \<and> call_outcome url c s s"
  by (simp add: call_outcome_def)

lemma update_call_outcome:
  assumes ok: "issuers_ok s"
  shows "issuers_ok (run_issuer_call url E M (CallUpdateIssuer now i input) s) \<and>
    call_outcome url (CallUpdateIssuer now i input) s (run_issuer_call url E M (CallUpdateIssuer now i input) s)"
proof (cases "GetCertificateIssuer M i s")
  case (Inl e)
  then show ?thesis using ok by (simp add: managerUpdateCertificateIssuer_def same_outcome)
next
  case (Inr d)
  note upd = stepped [OF ok Inr surjective_pairing]
  have snd_ok: "snd (and_then p (\<lambda>saved s. (Inr (f saved), s))) = snd p" for p f
    by (cases p; cases "fst p") simp_all
  consider "iss_RegistrationStatus d = IssuerRegistrationReady" "\<not> identityChanged d input"
    | i' where "iss_RegistrationStatus d = IssuerRegistrationFailed" "applyFailedIssuerUpdate url d input = Inr i'"
    | "run_issuer_call url E M (CallUpdateIssuer now i input) s = s"
  proof -
    have "run_issuer_call url E M (CallUpdateIssuer now i input) s = s"
      if "\<not> (iss_RegistrationStatus d = IssuerRegistrationReady \<and> \<not> identityChanged d input)"
        "\<not> (iss_RegistrationStatus d = IssuerRegistrationFailed \<and> (\<exists>i'. applyFailedIssuerUpdate url d input = Inr i'))"
      using that Inr by (cases "applyFailedIssuerUpdate url d input") (auto simp: managerUpdateCertificateIssuer_def)
    then show ?thesis using that by blast
  qed
  then show ?thesis
  proof cases
    case 1
    let ?x = "d\<lparr>iss_Name := trim_space (ii_Name input)\<rparr>"
    have "issuers_ok (snd (UpdateCertificateIssuer M now i ?x s)) \<and>
        call_outcome url (CallUpdateIssuer now i input) s (snd (UpdateCertificateIssuer M now i ?x s))"
      by (rule upd [where ev = "Renamed (trim_space (ii_Name input))"])
        (simp_all add: issuer_step.Rename [OF 1(1)] issuer_event_of_def)
    then show ?thesis using 1 Inr by (simp add: managerUpdateCertificateIssuer_def snd_ok)
  next
    case 2
    have "issuers_ok (snd (UpdateCertificateIssuer M now i i' s)) \<and>
        call_outcome url (CallUpdateIssuer now i input) s (snd (UpdateCertificateIssuer M now i i' s))"
      by (rule upd [where ev = "Revised input"])
        (simp_all add: issuer_step.Revise [OF 2] issuer_event_of_def revised_wf [OF 2(2)])
    then show ?thesis using 2 Inr by (simp add: managerUpdateCertificateIssuer_def snd_ok)
  next
    case 3
    then show ?thesis using ok same_outcome by metis
  qed
qed

lemma create_call_outcome:
  assumes ok: "issuers_ok s"
  shows "issuers_ok (run_issuer_call url E M (CallCreateIssuer keygen now later uuid input) s) \<and>
    call_outcome url (CallCreateIssuer keygen now later uuid input) s
      (run_issuer_call url E M (CallCreateIssuer keygen now later uuid input) s)"
proof (cases "newIssuer url (ev_acme E) keygen now input")
  case (Inl e)
  then show ?thesis using ok by (simp add: managerCreateCertificateIssuer_def same_outcome)
next
  case (Inr i)
  define i' where "i' = (if iss_ID i = [] then i\<lparr>iss_ID := ''iss_'' @ uuid\<rparr> else i)\<lparr>iss_CreatedAt := later, iss_UpdatedAt := later\<rparr>"
  have wf: "issuer_wf url i'" "iss_RegistrationStatus i' = IssuerRegistrationPending"
    "creates (CallCreateIssuer keygen now later uuid input) = Some (iss_ID i')"
    using new_issuer_wf [OF Inr] by (auto simp: i'_def issuer_wf_def creates_def)
  obtain r k where ins: "InsertOne (certificateIssuers M) i' (st_certificateIssuers s) = (r, k)" by fastforce
  have "run_issuer_call url E M (CallCreateIssuer keygen now later uuid input) s = s\<lparr>st_certificateIssuers := k\<rparr>"
    using Inr ins unfolding i'_def
    by (cases r) (simp_all add: managerCreateCertificateIssuer_def CreateCertificateIssuer_def Let_def
        name_taken_def on_certificateIssuers_def)
  moreover have ok': "ok (st_certificateIssuers s)" using ok by (simp add: issuers_ok_def)
  moreover from ok' ins have "docs k = iss_docs s \<or> docs k = add_mset i' (iss_docs s)"
    by (cases rule: issuers.insert_cases) simp_all
  ultimately show ?thesis
    using wf issuers.insert_ok [OF ok' ins] by (auto simp: issuers_ok_def call_outcome_def)
qed

lemma retry_call_outcome:
  assumes ok: "issuers_ok s"
  shows "issuers_ok (run_issuer_call url E M (CallRetryIssuer now i) s) \<and>
    call_outcome url c s (run_issuer_call url E M (CallRetryIssuer now i) s)"
proof (cases "\<exists>d. GetCertificateIssuer M i s = Inr d \<and> iss_RegistrationStatus d = IssuerRegistrationFailed")
  case False
  then have "run_issuer_call url E M (CallRetryIssuer now i) s = s"
    by (cases "GetCertificateIssuer M i s") (auto simp: RetryCertificateIssuerRegistration_def)
  then show ?thesis using ok same_outcome by metis
next
  case True
  then obtain d where d: "GetCertificateIssuer M i s = Inr d" "iss_RegistrationStatus d = IssuerRegistrationFailed"
    by blast
  let ?x = "d\<lparr>iss_RegistrationStatus := IssuerRegistrationPending, iss_RegistrationError := [], iss_AccountURI := []\<rparr>"
  have "issuers_ok (snd (UpdateCertificateIssuer M now i ?x s)) \<and>
      call_outcome url c s (snd (UpdateCertificateIssuer M now i ?x s))"
    by (rule stepped [OF ok d(1) surjective_pairing, where ev = Retried])
      (simp_all add: issuer_step.Retry [OF d(2)] issuer_event_of_def)
  moreover have "run_issuer_call url E M (CallRetryIssuer now i) s = snd (UpdateCertificateIssuer M now i ?x s)"
    using d by (cases "UpdateCertificateIssuer M now i ?x s"; cases "fst (UpdateCertificateIssuer M now i ?x s)")
      (simp_all add: RetryCertificateIssuerRegistration_def)
  ultimately show ?thesis by simp
qed

lemma interrupted_outcome:
  assumes ok: "issuers_ok s"
  shows "issuers_ok (failInterruptedRegistration M now i s) \<and>
    call_outcome url c s (failInterruptedRegistration M now i s)"
proof (cases "\<exists>d. GetCertificateIssuer M i s = Inr d \<and> iss_RegistrationStatus d = IssuerRegistrationPending")
  case False
  then have "failInterruptedRegistration M now i s = s"
    by (cases "GetCertificateIssuer M i s") (auto simp: failInterruptedRegistration_def)
  then show ?thesis using ok same_outcome by metis
next
  case True
  then obtain d where d: "GetCertificateIssuer M i s = Inr d" "iss_RegistrationStatus d = IssuerRegistrationPending"
    by blast
  let ?x = "d\<lparr>iss_RegistrationStatus := IssuerRegistrationFailed, iss_RegistrationError := issuerRegistrationInterrupted\<rparr>"
  have "issuers_ok (snd (UpdateCertificateIssuer M now i ?x s)) \<and>
      call_outcome url c s (snd (UpdateCertificateIssuer M now i ?x s))"
    by (rule stepped [OF ok d(1) surjective_pairing, where ev = Interrupted])
      (simp_all add: issuer_step.Interrupt [OF d(2)] issuer_event_of_def)
  then show ?thesis using d by (simp add: failInterruptedRegistration_def)
qed

lemma registration_outcome_uri: "registrationOutcome r = Inr uri \<Longrightarrow> uri \<noteq> []"
  by (auto simp: registrationOutcome_def split: sum.splits if_splits)

lemma finished_outcome:
  assumes ok: "issuers_ok s" and "finishes c"
  shows "issuers_ok (finishRegistration ul q M now interrupted i r s) \<and>
    call_outcome url c s (finishRegistration ul q M now interrupted i r s)"
proof (cases "interrupted \<or> (\<exists>e. GetCertificateIssuer M i s = Inl e)")
  case True
  then show ?thesis using interrupted_outcome [OF ok] same_outcome [OF ok]
    by (auto simp: finishRegistration_def)
next
  case False
  then obtain d where d: "GetCertificateIssuer M i s = Inr d" by (cases "GetCertificateIssuer M i s") auto
  note upd = stepped [OF ok d surjective_pairing]
  show ?thesis
  proof (cases "registrationOutcome r")
    case (Inl e)
    let ?e = "sanitizeRegistrationError ul q e [iss_EABKid d, iss_EABHMAC d, iss_AccountKeyPEM d]"
    let ?x = "d\<lparr>iss_RegistrationStatus := IssuerRegistrationFailed, iss_RegistrationError := ?e, iss_AccountURI := []\<rparr>"
    have "issuers_ok (snd (UpdateCertificateIssuer M now i ?x s)) \<and>
        call_outcome url c s (snd (UpdateCertificateIssuer M now i ?x s))"
      by (rule upd [where ev = "Rejected ?e"]) (simp_all add: issuer_step.Reject assms(2))
    then show ?thesis using Inl d False by (simp add: finishRegistration_def Let_def)
  next
    case (Inr uri)
    let ?x = "d\<lparr>iss_RegistrationStatus := IssuerRegistrationReady, iss_RegistrationError := [], iss_AccountURI := uri\<rparr>"
    have "issuers_ok (snd (UpdateCertificateIssuer M now i ?x s)) \<and>
        call_outcome url c s (snd (UpdateCertificateIssuer M now i ?x s))"
      by (rule upd [where ev = "Registered uri"])
        (simp_all add: issuer_step.Register [OF registration_outcome_uri [OF Inr]] assms(2))
    then show ?thesis using Inr d False by (simp add: finishRegistration_def Let_def)
  qed
qed

lemma delete_call_outcome:
  assumes ok: "issuers_ok s"
  shows "issuers_ok (run_issuer_call url E M (CallDeleteIssuer i) s) \<and>
    call_outcome url c s (run_issuer_call url E M (CallDeleteIssuer i) s)"
proof -
  obtain r k where del: "DeleteOne (certificateIssuers M) (\<lambda>x. iss_ID x = i) (st_certificateIssuers s) = (r, k)" by fastforce
  have "run_issuer_call url E M (CallDeleteIssuer i) s \<in> {s, s\<lparr>st_certificateIssuers := k\<rparr>}"
    using del by (cases "ensureIssuerDeletable M i s")
      (auto simp: managerDeleteCertificateIssuer_def DeleteCertificateIssuer_def matched_or_def
        on_certificateIssuers_def and_then_def split: sum.splits)
  moreover have ok': "ok (st_certificateIssuers s)" using ok by (simp add: issuers_ok_def)
  moreover from ok' del have "docs k \<subseteq># iss_docs s"
    by (cases rule: issuers.delete_cases) (auto dest: removed_subset)
  ultimately show ?thesis
    using issuers.delete_ok [OF ok' del] ok by (auto simp: issuers_ok_def call_outcome_def)
qed

lemma issuer_call_outcome:
  "issuers_ok s \<Longrightarrow> issuers_ok (run_issuer_call url E M c s) \<and> call_outcome url c s (run_issuer_call url E M c s)"
proof (cases c)
  case (CallFinished now interrupted i r)
  then have "finishes c" by (simp add: finishes_def)
  then show "issuers_ok s \<Longrightarrow> ?thesis" using finished_outcome CallFinished by simp
next
  case (CallInterrupted now i)
  then show "issuers_ok s \<Longrightarrow> ?thesis" using interrupted_outcome by simp
next
  case CallCreateIssuer
  then show "issuers_ok s \<Longrightarrow> ?thesis" using create_call_outcome by simp
next
  case CallUpdateIssuer
  then show "issuers_ok s \<Longrightarrow> ?thesis" using update_call_outcome by simp
next
  case CallRetryIssuer
  then show "issuers_ok s \<Longrightarrow> ?thesis" using retry_call_outcome by simp
next
  case CallDeleteIssuer
  then show "issuers_ok s \<Longrightarrow> ?thesis" using delete_call_outcome by simp
qed

lemma issuer_calls_wf:
  assumes "issuers_ok s" and "\<forall>i \<in># iss_docs s. issuer_wf url i"
  shows "issuers_ok (run_issuer_calls url E M cs s) \<and>
    (\<forall>i \<in># iss_docs (run_issuer_calls url E M cs s). issuer_wf url i)"
  using assms
proof (induction cs arbitrary: s)
  case (Cons c cs)
  let ?s = "run_issuer_call url E M c s"
  note out = issuer_call_outcome [OF Cons.prems(1), of url E c]
  then have "\<forall>i \<in># iss_docs ?s. issuer_wf url i"
  proof (rule conjE)
    assume "call_outcome url c s ?s"
    then consider "iss_docs ?s \<subseteq># iss_docs s"
      | i where "issuer_wf url i" "iss_docs ?s = add_mset i (iss_docs s)"
      | ev d d' where "d \<in># iss_docs s" "issuer_step url ev d d'" "iss_docs ?s = add_mset d' (iss_docs s - {#d#})"
      unfolding call_outcome_def by blast
    then show ?thesis
    proof cases
      case 1
      then show ?thesis using Cons.prems(2) mset_subset_eqD [OF 1] by blast
    next
      case 2
      then show ?thesis using Cons.prems(2) by simp
    next
      case 3
      then have "issuer_wf url d'" using issuer_step_wf Cons.prems(2) by blast
      then show ?thesis using 3(3) Cons.prems(2) by (auto dest: in_diffD)
    qed
  qed
  then show ?case using Cons.IH [of ?s] out by simp
qed simp

lemma ready_step:
  assumes "issuer_step url ev d d'" "iss_RegistrationStatus d = IssuerRegistrationReady" "\<not> issuer_event_of ev"
  shows "\<exists>n t. d' = d\<lparr>iss_Name := n, iss_UpdatedAt := t\<rparr>"
  using assms by (auto elim!: issuer_stepE simp: issuer_event_of_def)

text \<open>Only the name and the update time of a ready issuer change, unless a registration ends.\<close>

definition only_renamed :: "CertificateIssuer \<Rightarrow> 'c db \<Rightarrow> bool" where
  "only_renamed d s \<longleftrightarrow> (\<forall>i \<in># iss_docs s. iss_ID i = iss_ID d \<longrightarrow>
     (\<exists>n t. i = d\<lparr>iss_Name := n, iss_UpdatedAt := t\<rparr>))"

lemma only_renamed_call:
  assumes ok: "issuers_ok s" and d: "iss_RegistrationStatus d = IssuerRegistrationReady" "only_renamed d s"
    and c: "\<not> finishes c" "creates c \<noteq> Some (iss_ID d)"
  shows "only_renamed d (run_issuer_call url E M c s)"
proof -
  let ?s = "run_issuer_call url E M c s"
  have "call_outcome url c s ?s" using issuer_call_outcome [OF ok] by blast
  then consider "iss_docs ?s \<subseteq># iss_docs s"
    | i where "creates c = Some (iss_ID i)" "iss_docs ?s = add_mset i (iss_docs s)"
    | ev x x' where "x \<in># iss_docs s" "issuer_step url ev x x'" "iss_ID x' = iss_ID x" "\<not> issuer_event_of ev"
        "iss_docs ?s = add_mset x' (iss_docs s - {#x#})"
    unfolding call_outcome_def using c(1) by blast
  then show ?thesis
  proof cases
    case 1
    then show ?thesis using d(2) mset_subset_eqD [OF 1] unfolding only_renamed_def by blast
  next
    case 2
    then show ?thesis using d(2) c(2) unfolding only_renamed_def by auto
  next
    case 3
    have "\<exists>n t. x' = d\<lparr>iss_Name := n, iss_UpdatedAt := t\<rparr>" if same: "iss_ID x' = iss_ID d"
    proof -
      obtain n t where x: "x = d\<lparr>iss_Name := n, iss_UpdatedAt := t\<rparr>"
        using same [unfolded 3(3)] d(2) [unfolded only_renamed_def] 3(1) by blast
      then obtain n' t' where "x' = x\<lparr>iss_Name := n', iss_UpdatedAt := t'\<rparr>"
        using ready_step [OF 3(2) _ 3(4)] d(1) by auto
      with x show ?thesis by (intro exI [of _ n'] exI [of _ t']) simp
    qed
    with d(2) show ?thesis unfolding only_renamed_def 3(5)
      by (intro ballI) (auto dest: in_diffD)
  qed
qed

lemma ready_kept:
  assumes "issuers_ok s" and "iss_RegistrationStatus d = IssuerRegistrationReady" "only_renamed d s"
    and "\<forall>c \<in> set cs. \<not> finishes c \<and> creates c \<noteq> Some (iss_ID d)"
  shows "only_renamed d (run_issuer_calls url E M cs s)"
  using assms
proof (induction cs arbitrary: s)
  case (Cons c cs)
  have "issuers_ok (run_issuer_call url E M c s)" using issuer_call_outcome [OF Cons.prems(1)] by blast
  with Cons.IH only_renamed_call [OF Cons.prems(1-3)] Cons.prems(2,4) show ?case by simp
qed simp

end

interpretation mem_issuer_store: issuer_store mem_mongo "mem_docs un_DIssuer"
  "mem_ok certificateIssuers_clash un_DIssuer"
  by unfold_locales

section \<open>Properties\<close>

text \<open>
  C15: whatever administrators call, in whatever order and interleaved with registrations that end
  with any answer of the CA, every stored issuer has the directory, the staging flag and the EAB
  credentials its CA type demands, an e-mail address, and one of the three registration states; it
  has an account URI exactly when it is ready and an error text only when it has failed.
\<close>

theorem issuers_stay_wellformed:
  assumes "issuer_store M docs ok" and "ok (st_certificateIssuers s)"
    and "\<forall>i \<in># docs (st_certificateIssuers s). issuer_wf url i"
  shows "\<forall>i \<in># docs (st_certificateIssuers (run_issuer_calls url E M cs s)). issuer_wf url i"
  using issuer_store.issuer_calls_wf [OF assms(1), of s url E cs] assms(2,3)
  by (simp add: issuer_store.issuers_ok_def [OF assms(1)])

text \<open>An issuer of the staging CA, ready.\<close>

definition sample_ready :: CertificateIssuer where
  "sample_ready = \<lparr>iss_ID = ''iss_1'', iss_Name = ''le'', iss_CAType = CATypeLetsEncryptStaging,
     iss_DirectoryURL = letsEncryptStagingDirectory, iss_Email = ''a@b'',
     iss_RegistrationStatus = IssuerRegistrationReady, iss_RegistrationError = [], iss_StagingUntrusted = True,
     iss_TermsOfServiceURL = [], iss_TermsOfServiceAgreed = Some 0, iss_AccountKeyPEM = ''key'',
     iss_AccountURI = ''uri'', iss_EABKid = [], iss_EABHMAC = [], iss_CreatedAt = 0, iss_UpdatedAt = 0\<rparr>"

definition sample_issuer_db :: "doc list db" where
  "sample_issuer_db = empty_db\<lparr>st_certificateIssuers := [DIssuer sample_ready]\<rparr>"

lemma sample_issuer_db_simps [simp]:
  "mem_docs un_DIssuer (st_certificateIssuers sample_issuer_db) = {#sample_ready#}"
  "mem_ok certificateIssuers_clash un_DIssuer (st_certificateIssuers sample_issuer_db)"
  by (simp_all add: sample_issuer_db_def)

definition sample_acme_env :: env where
  "sample_acme_env = \<lparr>ev_q = id, ev_ul = id, ev_x509 = sample_x509 [],
     ev_acme = \<lparr>ac_FetchDirectory = (\<lambda>_. Inr ''tos''), ac_RegisterAccount = (\<lambda>_. Inr ''uri''),
       ac_IssueCertificate = (\<lambda>_ _ _. Returned (Inl (Opaque ''refused''))), ac_RevokeCertificate = (\<lambda>_ _ _. None)\<rparr>,
     ev_factory = None, ev_replicaID = ''a''\<rparr>"

definition sample_rename :: IssuerInput where
  "sample_rename = \<lparr>ii_Name = ''new'', ii_CAType = [], ii_CustomDirectoryURL = [], ii_Email = [],
     ii_AccountKeyPEM = [], ii_EABKid = [], ii_EABHMAC = [], ii_TermsOfServiceAgreed = False\<rparr>"

theorem issuers_stay_wellformed_witness:
  "filter_mset (\<lambda>i. \<not> issuer_wf (\<lambda>_. None) i) (mem_docs un_DIssuer (st_certificateIssuers
     (run_issuer_calls (\<lambda>_. None) sample_acme_env mem_mongo
        [CallUpdateIssuer 5 ''iss_1'' sample_rename, CallFinished 6 False ''iss_1'' (Inl (Opaque ''x''))]
        sample_issuer_db))) = {#}"
proof -
  have wf: "issuer_wf (\<lambda>_. None) sample_ready"
    by (auto simp: issuer_wf_def preset_wf_def sample_ready_def resolvePreset_def)
  show ?thesis
    unfolding filter_mset_none not_not
    by (rule issuers_stay_wellformed [OF mem_issuer_store.issuer_store_axioms]) (simp_all add: wf)
qed

text \<open>
  The identity of a ready issuer is immutable: no sequence of administrative calls and
  interruptions changes its CA, directory, e-mail, keys, credentials, account or status; at most it is
  renamed or deleted. (Fresh ids for new issuers; a registration is not ending, as none is running for
  a ready issuer.)
\<close>

theorem ready_issuer_immutable:
  assumes "issuer_store M docs ok" and "ok (st_certificateIssuers s)"
    and "d \<in># docs (st_certificateIssuers s)" "iss_RegistrationStatus d = IssuerRegistrationReady"
    and "\<forall>c \<in> set cs. \<not> finishes c \<and> creates c \<noteq> Some (iss_ID d)"
  shows "\<forall>i \<in># docs (st_certificateIssuers (run_issuer_calls url E M cs s)). iss_ID i = iss_ID d \<longrightarrow>
    (\<exists>n t. i = d\<lparr>iss_Name := n, iss_UpdatedAt := t\<rparr>)"
proof -
  note st = assms(1)
  have ok: "issuer_store.issuers_ok ok s" using assms(2) by (simp add: issuer_store.issuers_ok_def [OF st])
  have "i = d\<lparr>iss_Name := iss_Name d, iss_UpdatedAt := iss_UpdatedAt d\<rparr>"
    if "i \<in># docs (st_certificateIssuers s)" "iss_ID i = iss_ID d" for i
    using issuer_store.issuer_unique [OF st ok that(1) assms(3) that(2)] by simp
  then have "issuer_store.only_renamed docs d s" unfolding issuer_store.only_renamed_def [OF st] by blast
  from issuer_store.ready_kept [OF st ok assms(4) this assms(5), of url E] show ?thesis
    unfolding issuer_store.only_renamed_def [OF st] .
qed

theorem ready_issuer_immutable_witness:
  "filter_mset (\<lambda>i. iss_ID i = ''iss_1'' \<and> iss_AccountURI i \<noteq> ''uri'') (mem_docs un_DIssuer (st_certificateIssuers
     (run_issuer_calls (\<lambda>_. None) sample_acme_env mem_mongo [CallUpdateIssuer 5 ''iss_1'' sample_rename]
        sample_issuer_db))) = {#}"
  using ready_issuer_immutable [OF mem_issuer_store.issuer_store_axioms, of sample_issuer_db sample_ready
      "[CallUpdateIssuer 5 ''iss_1'' sample_rename]" "\<lambda>_. None" sample_acme_env]
  by (auto simp: filter_mset_none finishes_def creates_def sample_ready_def)

section \<open>Pending issuers\<close>

text \<open>
  A pending issuer depends on the registration that is running: neither an update nor a retry changes
  it or schedules another registration, so a replica that stops without ending the registration leaves
  an issuer that can only be deleted.
\<close>

lemma pending_issuer_cannot_be_resumed:
  assumes "GetCertificateIssuer M i s = Inr d" "iss_RegistrationStatus d = IssuerRegistrationPending"
  shows "managerUpdateCertificateIssuer url M now i input s = (Inl (CertE ErrIssuerRegistrationPending), s) \<and>
    RetryCertificateIssuerRegistration M now i s = (Inl (StoreE ErrCertificateIssuerNotRetryable), s)"
  using assms by (simp add: managerUpdateCertificateIssuer_def RetryCertificateIssuerRegistration_def)

end
