(* ===== verification/Alert.thy ===== *)
theory Alert
  imports Notify ResourceStore
begin

text \<open>
  internal/alert/dispatcher.go: alerts on changes of a monitor's status. The dispatcher's only state is
  the map \<open>last\<close>, from the key group|monitor to the time of the last throttled alert. One call handles
  the groups of the monitor in order; what it dispatches is a list of alerts, each with the channels it
  goes to, and \<open>deliver_alert\<close> turns an alert into its requests. \<open>rfc\<close> formats a time in RFC 3339.
\<close>

section \<open>Status and policy\<close>

definition normalize :: "string \<Rightarrow> string" where
  "normalize s =
     (if s \<in> {''Healthy'', ''healthy'', ''HEALTHY'', ''HEALTH_STATUS_HEALTHY''} then ''Healthy''
      else if s \<in> {''Warning'', ''warning'', ''WARNING'', ''HEALTH_STATUS_WARNING''} then ''Warning''
      else if s \<in> {''Critical'', ''critical'', ''CRITICAL'', ''HEALTH_STATUS_CRITICAL''} then ''Critical''
      else if s \<in> {''Down'', ''down'', ''DOWN'', ''HEALTH_STATUS_DOWN''} then ''Down''
      else if s = [] then [] else ''Unknown'')"

lemma normalize_idem [simp]: "normalize (normalize s) = normalize s"
  by (simp add: normalize_def)

definition shouldFire :: "AlertPolicy \<Rightarrow> string \<Rightarrow> string \<Rightarrow> bool" where
  "shouldFire policy prev cur =
     (let p = normalize prev; c = normalize cur in
      if ap_OnRecover policy \<and> p \<noteq> ''Healthy'' \<and> p \<noteq> [] \<and> p \<noteq> ''Unknown'' \<and> c = ''Healthy'' then True
      else if c = ''Down'' then ap_OnDown policy
      else if c = ''Critical'' then ap_OnCritical policy
      else if c = ''Warning'' then ap_OnWarning policy
      else False)"

section \<open>Throttling\<close>

definition throttleKey :: "string \<Rightarrow> string \<Rightarrow> string" where
  "throttleKey groupID monitorID = groupID @ ''|'' @ monitorID"

definition resetThrottle :: "string \<Rightarrow> string \<Rightarrow> (string \<rightharpoonup> gotime) \<Rightarrow> (string \<rightharpoonup> gotime)" where
  "resetThrottle groupID monitorID last_at = last_at(throttleKey groupID monitorID := None)"

definition allowThrottle ::
  "string \<Rightarrow> string \<Rightarrow> u32 \<Rightarrow> gotime \<Rightarrow> (string \<rightharpoonup> gotime) \<Rightarrow> bool \<times> (string \<rightharpoonup> gotime)" where
  "allowThrottle groupID monitorID minIntervalSeconds now last_at =
     (if minIntervalSeconds = 0 then (True, last_at)
      else let key = throttleKey groupID monitorID; window = uint minIntervalSeconds * Second in
        if (case last_at key of None \<Rightarrow> False | Some t \<Rightarrow> time_sub now t < window) then (False, last_at)
        else (True, last_at(key \<mapsto> now)))"

section \<open>Dispatch\<close>

record alert_payload =
  al_MonitorID :: string
  al_MonitorName :: string
  al_ServerID :: string
  al_PreviousStatus :: string
  al_CurrentStatus :: string
  al_OccurredAt :: gotime
  al_GroupID :: string
  al_GroupName :: string

definition alertChannels :: "'c mongo \<Rightarrow> string list \<Rightarrow> 'c db \<Rightarrow> AlertChannel list" where
  "alertChannels M notifyGroupIDs s =
     concat (map (\<lambda>i. case GetNotifyGroup M i s of Inl e \<Rightarrow> [] | Inr ng \<Rightarrow> ng_Channels ng) notifyGroupIDs)"

definition alert_for ::
  "MonitorGroup \<Rightarrow> Monitor \<Rightarrow> string \<Rightarrow> string \<Rightarrow> gotime \<Rightarrow> alert_payload" where
  "alert_for grp monitor prev cur occurredAt =
     \<lparr>al_MonitorID = mon_ID monitor, al_MonitorName = mon_Name monitor, al_ServerID = mon_ServerID monitor,
      al_PreviousStatus = normalize prev, al_CurrentStatus = normalize cur, al_OccurredAt = occurredAt,
      al_GroupID = grp_ID grp, al_GroupName = grp_Name grp\<rparr>"

text \<open>The body of the loop for one group: the alert and its channels, if any, and the new map.\<close>

definition alert_group ::
  "'c mongo \<Rightarrow> 'c db \<Rightarrow> Monitor \<Rightarrow> string \<Rightarrow> string \<Rightarrow> gotime \<Rightarrow> string \<Rightarrow> (string \<rightharpoonup> gotime) \<Rightarrow>
    (alert_payload \<times> AlertChannel list) list \<times> (string \<rightharpoonup> gotime)" where
  "alert_group M s monitor prev cur occurredAt groupID last_at =
     (case GetMonitorGroup M groupID s of
        Inl e \<Rightarrow> ([], last_at)
      | Inr grp \<Rightarrow>
          let policy = grp_AlertPolicy grp in
          if \<not> ap_Enabled policy \<or> ap_NotifyGroupIDs policy = [] then ([], last_at)
          else if \<not> shouldFire policy prev cur then ([], last_at)
          else let (allowed, last_at) =
              (if normalize cur = ''Healthy'' then (True, resetThrottle groupID (mon_ID monitor) last_at)
               else allowThrottle groupID (mon_ID monitor) (ap_MinIntervalSeconds policy) occurredAt last_at) in
            if \<not> allowed then ([], last_at)
            else let channels = alertChannels M (ap_NotifyGroupIDs policy) s in
              if channels = [] then ([], last_at)
              else ([(alert_for grp monitor prev cur occurredAt, channels)], last_at))"

fun alert_groups ::
  "'c mongo \<Rightarrow> 'c db \<Rightarrow> Monitor \<Rightarrow> string \<Rightarrow> string \<Rightarrow> gotime \<Rightarrow> string list \<Rightarrow> (string \<rightharpoonup> gotime) \<Rightarrow>
    (alert_payload \<times> AlertChannel list) list \<times> (string \<rightharpoonup> gotime)" where
  "alert_groups M s monitor prev cur occurredAt [] last_at = ([], last_at)"
| "alert_groups M s monitor prev cur occurredAt (g # gs) last_at =
     (let (now, last_at) = alert_group M s monitor prev cur occurredAt g last_at;
          (later, last_at) = alert_groups M s monitor prev cur occurredAt gs last_at
      in (now @ later, last_at))"

definition OnMonitorStatusChange ::
  "'c mongo \<Rightarrow> 'c db \<Rightarrow> Monitor \<Rightarrow> string \<Rightarrow> string \<Rightarrow> gotime \<Rightarrow> (string \<rightharpoonup> gotime) \<Rightarrow>
    (alert_payload \<times> AlertChannel list) list \<times> (string \<rightharpoonup> gotime)" where
  "OnMonitorStatusChange M s monitor prev cur occurredAt last_at =
     (if mon_GroupIDs monitor = [] \<or> normalize prev = normalize cur then ([], last_at)
      else alert_groups M s monitor prev cur occurredAt (mon_GroupIDs monitor) last_at)"

section \<open>Delivery\<close>

text \<open>The arrow of the message is U+2192.\<close>

definition formatMessage :: "(gotime \<Rightarrow> string) \<Rightarrow> alert_payload \<Rightarrow> string" where
  "formatMessage rfc p =
     ''[neo-line] '' @ al_MonitorName p @ '': '' @ al_PreviousStatus p @ '' '' @ utf8 [226, 134, 146] @ '' ''
       @ al_CurrentStatus p @
     (if al_GroupName p \<noteq> [] then newline @ ''Group: '' @ al_GroupName p else []) @
     (if al_ServerID p \<noteq> [] then newline @ ''Server: '' @ al_ServerID p else []) @
     newline @ ''Time: '' @ rfc (al_OccurredAt p)"

definition deliver_alert ::
  "(alert_payload request \<Rightarrow> err + nat) \<Rightarrow> (gotime \<Rightarrow> string) \<Rightarrow> AlertChannel \<Rightarrow> alert_payload \<Rightarrow>
    err option \<times> alert_payload request list" where
  "deliver_alert client rfc channel p =
     Deliver (BuiltinSenders client) channel \<lparr>dl_WebhookJSON = p, dl_HumanText = formatMessage rfc p\<rparr>"

section \<open>Runs\<close>

record status_change =
  ch_monitor :: Monitor
  ch_prev :: string
  ch_curr :: string
  ch_at :: gotime

fun run_changes ::
  "'c mongo \<Rightarrow> 'c db \<Rightarrow> status_change list \<Rightarrow> (string \<rightharpoonup> gotime) \<Rightarrow>
    (alert_payload \<times> AlertChannel list) list \<times> (string \<rightharpoonup> gotime)" where
  "run_changes M s [] last_at = ([], last_at)"
| "run_changes M s (c # cs) last_at =
     (let (now, last_at) = OnMonitorStatusChange M s (ch_monitor c) (ch_prev c) (ch_curr c) (ch_at c) last_at;
          (later, last_at) = run_changes M s cs last_at
      in (now @ later, last_at))"

section \<open>Spacing of alerts\<close>

lemma throttle_key_inject:
  assumes "CHR ''|'' \<notin> set g" "CHR ''|'' \<notin> set g'"
  shows "throttleKey g m = throttleKey g' m' \<longleftrightarrow> g = g' \<and> m = m'"
proof
  assume k: "throttleKey g m = throttleKey g' m'"
  have "takeWhile (\<lambda>c. c \<noteq> CHR ''|'') (throttleKey h n) = h" if "CHR ''|'' \<notin> set h" for h n
    using that by (simp add: throttleKey_def takeWhile_append)
  with assms k have "g = g'" by metis
  with k show "g = g' \<and> m = m'" by (simp add: throttleKey_def)
qed simp

text \<open>Consecutive alerts of an incident are at least \<open>window\<close> apart; a recovery ends the incident.\<close>

definition spaced :: "duration \<Rightarrow> alert_payload list \<Rightarrow> bool" where
  "spaced window = successively (\<lambda>x y. al_CurrentStatus x \<noteq> ''Healthy'' \<and> al_CurrentStatus y \<noteq> ''Healthy'' \<longrightarrow>
     al_OccurredAt x + window \<le> al_OccurredAt y)"

text \<open>The time of the last alert of the current incident.\<close>

definition incident :: "alert_payload list \<Rightarrow> gotime option" where
  "incident ps = (if ps = [] \<or> al_CurrentStatus (last ps) = ''Healthy'' then None
     else Some (al_OccurredAt (last ps)))"

lemma spaced_snoc:
  "spaced window (ps @ [p]) \<longleftrightarrow> spaced window ps \<and>
     (al_CurrentStatus p \<noteq> ''Healthy'' \<longrightarrow> (\<forall>t. incident ps = Some t \<longrightarrow> t + window \<le> al_OccurredAt p))"
  by (cases "ps = []") (auto simp: spaced_def incident_def successively_append_iff)

lemma time_sub_window:
  fixes window :: int
  shows "window \<le> max_int64 \<Longrightarrow> \<not> time_sub now t < window \<Longrightarrow> min_int64 < window \<Longrightarrow> t + window \<le> now"
  by (auto simp: time_sub_def split: if_splits)

lemma interval_bounds: "uint (n :: u32) * Second \<le> max_int64" "min_int64 < uint (n :: u32) * Second"
proof -
  show "uint n * Second \<le> max_int64" using uint_bounded [of n] by (simp add: Second_def max_int64_def)
  have "0 \<le> uint n * Second" by (simp add: Second_def)
  then show "min_int64 < uint n * Second" by (rule less_le_trans [rotated]) (simp add: min_int64_def)
qed

lemma allow_throttle:
  assumes "allowThrottle g m n now last_at = (b, last_at')" and "n \<noteq> 0"
  shows "if b then last_at' = last_at(throttleKey g m \<mapsto> now) \<and>
      (\<forall>t. last_at (throttleKey g m) = Some t \<longrightarrow> t + uint n * Second \<le> now)
    else last_at' = last_at"
  using assms time_sub_window [OF interval_bounds(1) [of n] _ interval_bounds(2) [of n]]
  by (auto simp: allowThrottle_def Let_def split: if_splits option.splits)

locale group_store =
  groups: mongo_collection "groups M" gdocs groups_clash gok
  for M :: "'c mongo" and gdocs :: "'c \<Rightarrow> MonitorGroup multiset" and gok :: "'c \<Rightarrow> bool"

context group_store begin

lemma get_group_id: "gok (st_groups s) \<Longrightarrow> GetMonitorGroup M g s = Inr grp \<Longrightarrow> grp_ID grp = g"
  unfolding GetMonitorGroup_def using groups.find_one by blast

definition of_key :: "string \<Rightarrow> string \<Rightarrow> (alert_payload \<times> AlertChannel list) list \<Rightarrow> alert_payload list" where
  "of_key g m as = filter (\<lambda>p. al_GroupID p = g \<and> al_MonitorID p = m) (map fst as)"

lemma of_key_simps [simp]: "of_key g m [] = []" "of_key g m (xs @ ys) = of_key g m xs @ of_key g m ys"
  by (simp_all add: of_key_def)

text \<open>The alerts \<open>ps\<close> of the key so far agree with the map: what every call keeps.\<close>

definition throttled :: "MonitorGroup \<Rightarrow> 'c db \<Rightarrow> string \<Rightarrow> string \<Rightarrow> alert_payload list \<Rightarrow> (string \<rightharpoonup> gotime) \<Rightarrow> bool" where
  "throttled grp s g m ps last_at \<longleftrightarrow>
     (if alertChannels M (ap_NotifyGroupIDs (grp_AlertPolicy grp)) s = [] then ps = []
      else spaced (uint (ap_MinIntervalSeconds (grp_AlertPolicy grp)) * Second) ps \<and>
        last_at (throttleKey g m) = incident ps)"

lemma alert_group_cases:
  assumes run: "alert_group M s mon prev cur t g last_at = (as, last_at')" and grp: "GetMonitorGroup M g s = Inr grp"
  defines "chs \<equiv> alertChannels M (ap_NotifyGroupIDs (grp_AlertPolicy grp)) s"
  defines "sent \<equiv> (if chs = [] then [] else [(alert_for grp mon prev cur t, chs)])"
  obtains (quiet) "as = []" "last_at' = last_at"
    | (recovered) "normalize cur = ''Healthy''" "as = sent" "last_at' = resetThrottle g (mon_ID mon) last_at"
    | (raised) "normalize cur \<noteq> ''Healthy''" "as = sent"
        "allowThrottle g (mon_ID mon) (ap_MinIntervalSeconds (grp_AlertPolicy grp)) t last_at = (True, last_at')"
proof -
  obtain b l where a: "allowThrottle g (mon_ID mon) (ap_MinIntervalSeconds (grp_AlertPolicy grp)) t last_at = (b, l)"
    by fastforce
  have l: "\<not> b \<Longrightarrow> l = last_at"
    using a by (auto simp: allowThrottle_def Let_def split: if_splits)
  let ?pol = "grp_AlertPolicy grp"
  consider "\<not> ap_Enabled ?pol \<or> ap_NotifyGroupIDs ?pol = [] \<or> \<not> shouldFire ?pol prev cur"
    | "ap_Enabled ?pol" "ap_NotifyGroupIDs ?pol \<noteq> []" "shouldFire ?pol prev cur" "normalize cur = ''Healthy''"
    | "ap_Enabled ?pol" "ap_NotifyGroupIDs ?pol \<noteq> []" "shouldFire ?pol prev cur" "normalize cur \<noteq> ''Healthy''"
    by blast
  then show ?thesis
  proof cases
    case 1
    then have "as = [] \<and> last_at' = last_at" using run grp by (auto simp: alert_group_def Let_def split: if_splits)
    then show ?thesis using quiet by blast
  next
    case 2
    then have "as = sent \<and> last_at' = resetThrottle g (mon_ID mon) last_at"
      using run grp by (cases "chs = []") (simp_all add: alert_group_def Let_def sent_def chs_def)
    then show ?thesis using recovered 2(4) by blast
  next
    case 3
    then have out: "if b then as = sent \<and> last_at' = l else as = [] \<and> last_at' = l"
      using run grp a by (cases b; cases "chs = []") (simp_all add: alert_group_def Let_def sent_def chs_def)
    show ?thesis
    proof (cases b)
      case True
      then have "as = sent" "last_at' = l" using out by simp_all
      moreover from this a True have "allowThrottle g (mon_ID mon) (ap_MinIntervalSeconds ?pol) t last_at = (True, last_at')"
        by simp
      ultimately show ?thesis using raised [OF 3(4)] by blast
    next
      case False
      then have "as = []" "last_at' = last_at" using out l by simp_all
      then show ?thesis by (rule quiet)
    qed
  qed
qed

lemma other_group:
  assumes ok: "gok (st_groups s)" and run: "alert_group M s mon prev cur t g' last_at = (as, last_at')"
    and other: "g' \<noteq> g \<or> mon_ID mon \<noteq> m" and bars: "CHR ''|'' \<notin> set g" "CHR ''|'' \<notin> set g'"
  shows "of_key g m as = [] \<and> last_at' (throttleKey g m) = last_at (throttleKey g m)"
proof (cases "GetMonitorGroup M g' s")
  case (Inl e)
  then show ?thesis using run by (simp add: alert_group_def)
next
  case (Inr grp)
  have key: "throttleKey g m \<noteq> throttleKey g' (mon_ID mon)"
    using other unfolding throttle_key_inject [OF bars] by auto
  have none: "of_key g m (if chs = [] then [] else [(alert_for grp mon prev cur t, chs)]) = []" for chs
    using other get_group_id [OF ok Inr] by (auto simp: of_key_def alert_for_def)
  from run Inr show ?thesis
  proof (cases rule: alert_group_cases)
    case quiet
    then show ?thesis by simp
  next
    case recovered
    with none key show ?thesis by (simp add: resetThrottle_def)
  next
    case raised
    then have "last_at' (throttleKey g m) = last_at (throttleKey g m)"
      using key by (auto simp: allowThrottle_def Let_def split: if_splits)
    with raised none show ?thesis by simp
  qed
qed

lemma same_group:
  assumes ok: "gok (st_groups s)" and grp: "GetMonitorGroup M g s = Inr grp"
    and n: "ap_MinIntervalSeconds (grp_AlertPolicy grp) \<noteq> 0"
    and run: "alert_group M s mon prev cur t g last_at = (as, last_at')"
    and J: "throttled grp s g (mon_ID mon) ps last_at"
  shows "throttled grp s g (mon_ID mon) (ps @ of_key g (mon_ID mon) as) last_at'"
proof -
  let ?m = "mon_ID mon" and ?k = "throttleKey g (mon_ID mon)"
  let ?chs = "alertChannels M (ap_NotifyGroupIDs (grp_AlertPolicy grp)) s"
  let ?p = "alert_for grp mon prev cur t"
  have key: "of_key g ?m [(?p, ?chs)] = [?p]"
    using get_group_id [OF ok grp] by (simp add: of_key_def alert_for_def)
  from run grp show ?thesis
  proof (cases rule: alert_group_cases)
    case quiet
    then show ?thesis using J by simp
  next
    case recovered
    then show ?thesis using J key
      by (cases "?chs = []") (simp_all add: throttled_def spaced_snoc resetThrottle_def incident_def alert_for_def)
  next
    case raised
    show ?thesis
    proof (cases "?chs = []")
      case True
      then show ?thesis using J raised by (simp add: throttled_def)
    next
      case False
      with allow_throttle [OF raised(3) n] J raised key show ?thesis
        by (simp add: throttled_def spaced_snoc) (auto simp: incident_def alert_for_def)
    qed
  qed
qed

lemma groups_throttled:
  assumes ok: "gok (st_groups s)" and grp: "GetMonitorGroup M g s = Inr grp"
    and n: "ap_MinIntervalSeconds (grp_AlertPolicy grp) \<noteq> 0"
    and bars: "CHR ''|'' \<notin> set g" "\<forall>g' \<in> set gs. CHR ''|'' \<notin> set g'"
    and run: "alert_groups M s mon prev cur t gs last_at = (as, last_at')"
    and J: "throttled grp s g m ps last_at"
  shows "throttled grp s g m (ps @ of_key g m as) last_at'"
  using bars(2) run J
proof (induction gs arbitrary: as ps last_at)
  case (Cons g' gs)
  obtain a l1 where one: "alert_group M s mon prev cur t g' last_at = (a, l1)" by fastforce
  obtain b where rest: "alert_groups M s mon prev cur t gs l1 = (b, last_at')" and as: "as = a @ b"
    using Cons.prems(2) one by (auto simp: Let_def split: prod.splits)
  have "throttled grp s g m (ps @ of_key g m a) l1"
  proof (cases "g' = g \<and> mon_ID mon = m")
    case True
    then show ?thesis using same_group [OF ok grp n] one Cons.prems(3) by blast
  next
    case False
    then have "of_key g m a = [] \<and> l1 (throttleKey g m) = last_at (throttleKey g m)"
      using other_group [OF ok one _ bars(1)] Cons.prems(1) by auto
    with Cons.prems(3) show ?thesis by (simp add: throttled_def)
  qed
  from Cons.IH [OF _ rest this] Cons.prems(1) as show ?case by simp
qed simp

lemma changes_throttled:
  assumes ok: "gok (st_groups s)" and grp: "GetMonitorGroup M g s = Inr grp"
    and n: "ap_MinIntervalSeconds (grp_AlertPolicy grp) \<noteq> 0" and bar: "CHR ''|'' \<notin> set g"
    and "\<forall>c \<in> set cs. \<forall>g' \<in> set (mon_GroupIDs (ch_monitor c)). CHR ''|'' \<notin> set g'"
    and "run_changes M s cs last_at = (as, last_at')" and "throttled grp s g m ps last_at"
  shows "throttled grp s g m (ps @ of_key g m as) last_at'"
  using assms(5-)
proof (induction cs arbitrary: as ps last_at)
  case (Cons c cs)
  obtain a l1 where one: "OnMonitorStatusChange M s (ch_monitor c) (ch_prev c) (ch_curr c) (ch_at c) last_at = (a, l1)"
    by fastforce
  obtain b where rest: "run_changes M s cs l1 = (b, last_at')" and as: "as = a @ b"
    using Cons.prems(2) one by (auto simp: Let_def split: prod.splits)
  have "throttled grp s g m (ps @ of_key g m a) l1"
    using groups_throttled [OF ok grp n bar _ _ Cons.prems(3)] one Cons.prems(1,3)
    by (auto simp: OnMonitorStatusChange_def split: if_splits)
  from Cons.IH [OF _ rest this] Cons.prems(1) as show ?case by simp
qed simp

end

interpretation mem_group_store: group_store mem_mongo "mem_docs un_DGroup" "mem_ok groups_clash un_DGroup"
  by unfold_locales

section \<open>Properties\<close>


definition sample_policy :: AlertPolicy where
  "sample_policy = \<lparr>ap_Enabled = True, ap_NotifyGroupIDs = [''ntf_1''], ap_OnDown = True, ap_OnRecover = False,
     ap_OnWarning = False, ap_OnCritical = False, ap_MinIntervalSeconds = 60\<rparr>"

definition sample_group :: MonitorGroup where
  "sample_group = \<lparr>grp_ID = ''grp_1'', grp_Name = ''g'', grp_Description = [], grp_SortOrder = 0,
     grp_AlertPolicy = sample_policy, grp_CreatedAt = 0, grp_UpdatedAt = 0\<rparr>"

definition sample_alert_db :: "doc list db" where
  "sample_alert_db = empty_db\<lparr>st_groups := [DGroup sample_group], st_notifyGroups := [DNotify
     \<lparr>ng_ID = ''ntf_1'', ng_Name = ''n'', ng_Description = [],
      ng_Channels = [\<lparr>ch_Type = ''webhook'', ch_Target = ''t'', ch_Extra = Map.empty\<rparr>],
      ng_CreatedAt = 0, ng_UpdatedAt = 0\<rparr>]\<rparr>"

definition sample_monitor :: Monitor where
  "sample_monitor = \<lparr>mon_ID = ''mon_1'', mon_ServerID = ''srv_1'', mon_GroupIDs = [''grp_1''], mon_Name = ''web'',
     mon_Kind = ''MONITOR_KIND_TCP'', mon_Enabled = True, mon_Host = ''h'', mon_Port = 80, mon_URL = [], mon_Method = [],
     mon_Path = [], mon_Headers = Map.empty, mon_ExpectedStatusCodes = [], mon_TLSVerify = True, mon_SNIName = [],
     mon_WarningDays = 0, mon_CriticalDays = 0, mon_IntervalSeconds = 60, mon_TimeoutSeconds = 5, mon_Retries = 0,
     mon_Status = ''Unknown'', mon_LastCheckAt = 0, mon_LastStatusChangeAt = 0, mon_Certificate = None,
     mon_CreatedAt = 0, mon_UpdatedAt = 0\<rparr>"

definition sample_outages :: "status_change list" where
  "sample_outages =
     [\<lparr>ch_monitor = sample_monitor, ch_prev = ''Unknown'', ch_curr = ''Down'', ch_at = 0\<rparr>,
      \<lparr>ch_monitor = sample_monitor, ch_prev = ''Down'', ch_curr = ''Healthy'', ch_at = Second\<rparr>,
      \<lparr>ch_monitor = sample_monitor, ch_prev = ''Healthy'', ch_curr = ''Down'', ch_at = 2 * Second\<rparr>]"

lemma sample_alert_reads:
  "GetMonitorGroup mem_mongo ''grp_1'' sample_alert_db = Inr sample_group"
  "alertChannels mem_mongo [''ntf_1''] sample_alert_db = [\<lparr>ch_Type = ''webhook'', ch_Target = ''t'', ch_Extra = Map.empty\<rparr>]"
  by (simp_all add: GetMonitorGroup_def alertChannels_def GetNotifyGroup_def mem_coll_def sample_alert_db_def sample_group_def)


text \<open>
  The window is reset by a recovery alert, not by a recovery: under a policy without recovery alerts a
  new incident within the window of the last alert is not reported.
\<close>

lemma silent_recovery_keeps_throttle:
  "map (al_OccurredAt \<circ> fst) (fst (run_changes mem_mongo sample_alert_db sample_outages Map.empty)) = [0]"
  by (simp add: sample_outages_def OnMonitorStatusChange_def sample_monitor_def normalize_def alert_group_def
      sample_alert_reads sample_group_def sample_policy_def shouldFire_def allowThrottle_def Let_def
      time_sub_def max_int64_def min_int64_def Second_def alert_for_def)

end
