(* ===== verification/ServerStore.thy ===== *)
theory ServerStore
  imports ResourceStore
begin

text \<open>
  The monitored servers of internal/store/store.go and runtime.go: servers and their monitors, the
  probe results and status events, and the health of a server, which is the worst status of its
  enabled monitors. Times and UUIDs are arguments, the zero UUID-prefixed ids are filled in as the
  code does. A cursor without a sort order enumerates the matching documents in any order.
\<close>

section \<open>Statuses and defaults\<close>

definition valueOr :: "string \<Rightarrow> string \<Rightarrow> string" where
  "valueOr value fallback = (if value \<noteq> [] then value else fallback)"

definition normalizeStatus :: "string \<Rightarrow> string" where
  "normalizeStatus status =
     (if status \<in> {StatusHealthy, ''healthy'', ''HEALTHY'', ''HEALTH_STATUS_HEALTHY''} then StatusHealthy
      else if status \<in> {StatusWarning, ''warning'', ''WARNING'', ''HEALTH_STATUS_WARNING''} then StatusWarning
      else if status \<in> {StatusCritical, ''critical'', ''CRITICAL'', ''HEALTH_STATUS_CRITICAL''} then StatusCritical
      else if status \<in> {StatusDown, ''down'', ''DOWN'', ''HEALTH_STATUS_DOWN''} then StatusDown
      else StatusUnknown)"

definition isTLSPortKind :: "string \<Rightarrow> bool" where
  "isTLSPortKind kind \<longleftrightarrow> kind = ''tls'' \<or> kind = ''tls_port'' \<or> kind = ''tls_certificate''"

definition isURLKind :: "string \<Rightarrow> bool" where
  "isURLKind kind \<longleftrightarrow> kind = ''url'' \<or> kind = ''http'' \<or> kind = ''https''"

definition or_default :: "u32 \<Rightarrow> u32 \<Rightarrow> u32" where
  "or_default x d = (if x = 0 then d else x)"

definition applyMonitorDefaults :: "Monitor \<Rightarrow> Monitor" where
  "applyMonitorDefaults m =
     (let m = m\<lparr>mon_Kind := valueOr (mon_Kind m) ''tcp'',
            mon_IntervalSeconds := or_default (mon_IntervalSeconds m) 60,
            mon_TimeoutSeconds := or_default (mon_TimeoutSeconds m) 5,
            mon_Retries := or_default (mon_Retries m) 3,
            mon_Status := valueOr (mon_Status m) StatusUnknown\<rparr>;
          m = (if mon_Method m = [] \<and> isURLKind (mon_Kind m) then m\<lparr>mon_Method := ''GET''\<rparr> else m);
          m = (if trim_space (mon_ExpectedStatusCodes m) = [] \<and> isURLKind (mon_Kind m)
               then m\<lparr>mon_ExpectedStatusCodes := ''200''\<rparr> else m)
      in if isTLSPortKind (mon_Kind m)
         then m\<lparr>mon_Port := or_default (mon_Port m) 443,
                mon_WarningDays := or_default (mon_WarningDays m) DefaultTLSWarningDays,
                mon_CriticalDays := or_default (mon_CriticalDays m) DefaultTLSCriticalDays\<rparr>
         else m)"

section \<open>Servers\<close>

definition ListServers ::
  "'c mongo \<Rightarrow> string \<Rightarrow> string list \<Rightarrow> int \<Rightarrow> string \<Rightarrow> 'c db \<Rightarrow> err + (Server list \<times> string)" where
  "ListServers M environment tags limit pageToken s =
     findPage (servers M)
       (\<lambda>x. (environment = [] \<or> srv_Environment x = environment) \<and> set tags \<subseteq> set (srv_Tags x))
       limit pageToken
       (\<lambda>x y. srv_SortOrder x < srv_SortOrder y \<or>
          (srv_SortOrder x = srv_SortOrder y \<and> srv_CreatedAt y \<le> srv_CreatedAt x))
       (st_servers s)"

definition CreateServer :: "'c mongo \<Rightarrow> gotime \<Rightarrow> string \<Rightarrow> Server \<Rightarrow> 'c db \<Rightarrow> (err + Server) \<times> 'c db" where
  "CreateServer M now uuid server s =
     (let server = server\<lparr>srv_ID := valueOr (srv_ID server) (''srv_'' @ uuid),
            srv_HealthStatus := valueOr (srv_HealthStatus server) StatusUnknown,
            srv_CreatedAt := now, srv_UpdatedAt := now, srv_LastStatusChangeAt := now\<rparr>
      in and_then (on_servers (InsertOne (servers M) server) s) (\<lambda>_ s. (Inr server, s)))"

definition UpdateServer :: "'c mongo \<Rightarrow> gotime \<Rightarrow> string \<Rightarrow> Server \<Rightarrow> 'c db \<Rightarrow> (err + Server) \<times> 'c db" where
  "UpdateServer M now ident server s =
     and_then (GetServer M ident s, s) (\<lambda>existing s.
     let server = server\<lparr>srv_ID := ident, srv_CreatedAt := srv_CreatedAt existing,
           srv_HealthStatus := valueOr (srv_HealthStatus server) (srv_HealthStatus existing),
           srv_LastStatusChangeAt := srv_LastStatusChangeAt existing,
           srv_LastCheckAt := srv_LastCheckAt existing, srv_UpdatedAt := now\<rparr>
     in and_then (matched_or ErrNoDocuments
          (on_servers (UpdateOne (servers M) (\<lambda>x. srv_ID x = ident) (\<lambda>_. server)) s))
          (\<lambda>_ s. (Inr server, s)))"

definition DeleteServer :: "'c mongo \<Rightarrow> string \<Rightarrow> 'c db \<Rightarrow> (err + unit) \<times> 'c db" where
  "DeleteServer M ident s =
     and_then (matched_or ErrNoDocuments (on_servers (DeleteOne (servers M) (\<lambda>x. srv_ID x = ident)) s)) (\<lambda>_ s.
     and_then (on_monitors (DeleteMany (monitors M) (\<lambda>x. mon_ServerID x = ident)) s) (\<lambda>_ s.
     and_then (on_results (DeleteMany (results M) (\<lambda>x. res_ServerID x = ident)) s) (\<lambda>_ s.
     and_then (on_events (DeleteMany (events M) (\<lambda>x. evt_ServerID x = ident)) s) (\<lambda>_ s.
     and_then (DeleteCertificateAccessTokensByServer M ident s) (\<lambda>_ s.
     RemoveServerFromManagedCertificates M ident s)))))"

section \<open>Monitors\<close>

definition the_monitor :: "string \<Rightarrow> string \<Rightarrow> Monitor \<Rightarrow> bool" where
  "the_monitor serverID monitorID m \<longleftrightarrow> mon_ServerID m = serverID \<and> mon_ID m = monitorID"

definition ListMonitors :: "'c mongo \<Rightarrow> string \<Rightarrow> int \<Rightarrow> string \<Rightarrow> 'c db \<Rightarrow> err + (Monitor list \<times> string)" where
  "ListMonitors M serverID limit pageToken s =
     findPage (monitors M) (\<lambda>m. mon_ServerID m = serverID) limit pageToken
       (\<lambda>x y. mon_CreatedAt y \<le> mon_CreatedAt x) (st_monitors s)"

definition CreateMonitor ::
  "'c mongo \<Rightarrow> gotime \<Rightarrow> string \<Rightarrow> string \<Rightarrow> Monitor \<Rightarrow> 'c db \<Rightarrow> (err + Monitor) \<times> 'c db" where
  "CreateMonitor M now uuid serverID monitor s =
     and_then (GetServer M serverID s, s) (\<lambda>_ s.
     and_then (validateGroupIDs M (mon_GroupIDs monitor) s, s) (\<lambda>_ s.
     let monitor = applyMonitorDefaults (monitor\<lparr>mon_ID := valueOr (mon_ID monitor) (''mon_'' @ uuid),
           mon_ServerID := serverID\<rparr>);
         monitor = monitor\<lparr>mon_CreatedAt := now, mon_UpdatedAt := now, mon_LastStatusChangeAt := now\<rparr>
     in and_then (on_monitors (InsertOne (monitors M) monitor) s) (\<lambda>_ s. (Inr monitor, s))))"

definition GetMonitor :: "'c mongo \<Rightarrow> string \<Rightarrow> string \<Rightarrow> 'c db \<Rightarrow> err + Monitor" where
  "GetMonitor M serverID monitorID s = FindOne (monitors M) (the_monitor serverID monitorID) (st_monitors s)"

definition UpdateMonitor ::
  "'c mongo \<Rightarrow> gotime \<Rightarrow> string \<Rightarrow> string \<Rightarrow> Monitor \<Rightarrow> 'c db \<Rightarrow> (err + Monitor) \<times> 'c db" where
  "UpdateMonitor M now serverID monitorID monitor s =
     and_then (GetMonitor M serverID monitorID s, s) (\<lambda>existing s.
     and_then (validateGroupIDs M (mon_GroupIDs monitor) s, s) (\<lambda>_ s.
     let monitor = applyMonitorDefaults (monitor\<lparr>mon_ID := monitorID, mon_ServerID := serverID,
           mon_CreatedAt := mon_CreatedAt existing,
           mon_Status := valueOr (mon_Status monitor) (mon_Status existing),
           mon_LastCheckAt := mon_LastCheckAt existing,
           mon_LastStatusChangeAt := mon_LastStatusChangeAt existing,
           mon_Certificate := mon_Certificate existing, mon_UpdatedAt := now\<rparr>)
     in and_then (matched_or ErrNoDocuments
          (on_monitors (UpdateOne (monitors M) (the_monitor serverID monitorID) (\<lambda>_. monitor)) s))
          (\<lambda>_ s. (Inr monitor, s))))"

definition DeleteMonitor :: "'c mongo \<Rightarrow> string \<Rightarrow> string \<Rightarrow> 'c db \<Rightarrow> (err + unit) \<times> 'c db" where
  "DeleteMonitor M serverID monitorID s =
     and_then (matched_or ErrNoDocuments
       (on_monitors (DeleteOne (monitors M) (the_monitor serverID monitorID)) s)) (\<lambda>_ s.
     and_then (on_results (DeleteMany (results M)
       (\<lambda>r. res_ServerID r = serverID \<and> res_MonitorID r = monitorID)) s) (\<lambda>_ s. (Inr (), s)))"

definition in_period :: "gotime option \<Rightarrow> gotime option \<Rightarrow> gotime \<Rightarrow> bool" where
  "in_period start stop t \<longleftrightarrow> (case start of None \<Rightarrow> True | Some a \<Rightarrow> a \<le> t) \<and> (case stop of None \<Rightarrow> True | Some b \<Rightarrow> t \<le> b)"

definition ListCheckResults ::
  "'c mongo \<Rightarrow> string \<Rightarrow> string \<Rightarrow> int \<Rightarrow> string \<Rightarrow> gotime option \<Rightarrow> gotime option \<Rightarrow> 'c db \<Rightarrow>
    err + (CheckResult list \<times> string)" where
  "ListCheckResults M serverID monitorID limit pageToken start stop s =
     findPage (results M)
       (\<lambda>r. res_ServerID r = serverID \<and> res_MonitorID r = monitorID \<and> in_period start stop (res_StartedAt r))
       limit pageToken (\<lambda>x y. res_StartedAt y \<le> res_StartedAt x) (st_results s)"

definition ListServerEvents ::
  "'c mongo \<Rightarrow> string \<Rightarrow> int \<Rightarrow> string \<Rightarrow> 'c db \<Rightarrow> err + (ServerEvent list \<times> string)" where
  "ListServerEvents M serverID limit pageToken s =
     findPage (events M) (\<lambda>e. evt_ServerID e = serverID) limit pageToken
       (\<lambda>x y. evt_OccurredAt y \<le> evt_OccurredAt x) (st_events s)"

section \<open>Health\<close>

definition aggregateHealth :: "ServerHealth \<Rightarrow> string" where
  "aggregateHealth health =
     (if sh_TotalMonitors health = 0 then StatusUnknown
      else if sh_DownMonitors health > 0 then StatusDown
      else if sh_CriticalMonitors health > 0 then StatusCritical
      else if sh_WarningMonitors health > 0 then StatusWarning
      else if sh_UnknownMonitors health > 0 then StatusUnknown
      else StatusHealthy)"

text \<open>The body of the cursor loop for one monitor.\<close>

definition count_monitor :: "Monitor \<Rightarrow> ServerHealth \<Rightarrow> ServerHealth" where
  "count_monitor m h =
     (let h = h\<lparr>sh_TotalMonitors := sh_TotalMonitors h + 1\<rparr>;
          status = normalizeStatus (mon_Status m);
          h = (if status = StatusHealthy then h\<lparr>sh_HealthyMonitors := sh_HealthyMonitors h + 1\<rparr>
               else if status = StatusWarning then h\<lparr>sh_WarningMonitors := sh_WarningMonitors h + 1\<rparr>
               else if status = StatusCritical then h\<lparr>sh_CriticalMonitors := sh_CriticalMonitors h + 1\<rparr>
               else if status = StatusDown then h\<lparr>sh_DownMonitors := sh_DownMonitors h + 1\<rparr>
               else h\<lparr>sh_UnknownMonitors := sh_UnknownMonitors h + 1\<rparr>)
      in if sh_LastCheckAt h < mon_LastCheckAt m then h\<lparr>sh_LastCheckAt := mon_LastCheckAt m\<rparr> else h)"

definition no_monitors :: "Server \<Rightarrow> string \<Rightarrow> ServerHealth" where
  "no_monitors server serverID =
     \<lparr>sh_ServerID = serverID, sh_Status = StatusUnknown,
      sh_LastStatusChangeAt = srv_LastStatusChangeAt server, sh_LastCheckAt = srv_LastCheckAt server,
      sh_TotalMonitors = 0, sh_HealthyMonitors = 0, sh_WarningMonitors = 0, sh_CriticalMonitors = 0,
      sh_DownMonitors = 0, sh_UnknownMonitors = 0\<rparr>"

definition counted :: "string \<Rightarrow> Monitor \<Rightarrow> bool" where
  "counted serverID m \<longleftrightarrow> mon_ServerID m = serverID \<and> mon_Enabled m"

definition set_health :: "gotime \<Rightarrow> ServerHealth \<Rightarrow> Server \<Rightarrow> Server" where
  "set_health now health x = x\<lparr>srv_HealthStatus := sh_Status health, srv_LastStatusChangeAt := now,
     srv_LastCheckAt := sh_LastCheckAt health, srv_UpdatedAt := now\<rparr>"

text \<open>The errors of the two writes are ignored.\<close>

definition GetServerHealth ::
  "'c mongo \<Rightarrow> gotime \<Rightarrow> string \<Rightarrow> string \<Rightarrow> 'c db \<Rightarrow> (err + ServerHealth) \<times> 'c db" where
  "GetServerHealth M now uuid serverID s =
     and_then (GetServer M serverID s, s) (\<lambda>server s.
     and_then (FindDocs (monitors M) (counted serverID) (\<lambda>_ _. True) 0 None (st_monitors s), s) (\<lambda>ms s.
     let health = fold count_monitor ms (no_monitors server serverID);
         health = health\<lparr>sh_Status := aggregateHealth health\<rparr>
     in if sh_Status health \<noteq> srv_HealthStatus server
        then let (_, s) = on_servers (UpdateOne (servers M) (\<lambda>x. srv_ID x = serverID) (set_health now health)) s;
                 (_, s) = on_events (InsertOne (events M)
                   \<lparr>evt_ID = ''evt_'' @ uuid, evt_ServerID = serverID,
                    evt_PreviousStatus = srv_HealthStatus server, evt_CurrentStatus = sh_Status health,
                    evt_Reason = ''health aggregation'', evt_OccurredAt = now\<rparr>) s
             in (Inr (health\<lparr>sh_LastStatusChangeAt := now\<rparr>), s)
        else (Inr health, s)))"

section \<open>The work of the scheduler\<close>

text \<open>A monitor whose host is empty is probed on its server's host.\<close>

definition applyServerHostFallback :: "Monitor list \<Rightarrow> (string \<rightharpoonup> string) \<Rightarrow> Monitor list" where
  "applyServerHostFallback ms hosts =
     map (\<lambda>m. if trim_space (mon_Host m) \<noteq> [] then m
              else m\<lparr>mon_Host := (case hosts (mon_ServerID m) of None \<Rightarrow> [] | Some h \<Rightarrow> h)\<rparr>) ms"

definition host_map :: "Server list \<Rightarrow> string \<rightharpoonup> string" where
  "host_map xs = fold (\<lambda>x hosts. hosts(srv_ID x \<mapsto> trim_space (srv_Host x))) xs Map.empty"

definition ListEnabledMonitors :: "'c mongo \<Rightarrow> 'c db \<Rightarrow> err + Monitor list" where
  "ListEnabledMonitors M s =
     (case FindDocs (servers M) srv_Enabled (\<lambda>_ _. True) 0 None (st_servers s) of
        Inl e \<Rightarrow> Inl e
      | Inr xs \<Rightarrow>
          if xs = [] then Inr []
          else case FindDocs (monitors M) (\<lambda>m. mon_Enabled m \<and> mon_ServerID m \<in> set (map srv_ID xs))
                 (\<lambda>_ _. True) 0 None (st_monitors s) of
            Inl e \<Rightarrow> Inl e
          | Inr ms \<Rightarrow> Inr (applyServerHostFallback ms (host_map xs)))"

text \<open>The update of the monitor; \<open>changed\<close> tells whether its normalised status changes.\<close>

definition apply_result :: "gotime \<Rightarrow> bool \<Rightarrow> CheckResult \<Rightarrow> Monitor \<Rightarrow> Monitor" where
  "apply_result now changed result m =
     (let m = m\<lparr>mon_Status := res_Status result, mon_LastCheckAt := res_EndedAt result, mon_UpdatedAt := now\<rparr>;
          m = (if res_Certificate result \<noteq> None then m\<lparr>mon_Certificate := res_Certificate result\<rparr> else m)
      in if changed then m\<lparr>mon_LastStatusChangeAt := now\<rparr> else m)"

definition SaveCheckResult ::
  "'c mongo \<Rightarrow> gotime \<Rightarrow> gotime \<Rightarrow> string \<Rightarrow> string \<Rightarrow> CheckResult \<Rightarrow> 'c db \<Rightarrow> (string \<times> err option) \<times> 'c db" where
  "SaveCheckResult M now later uuid evt_uuid result s =
     (let result = result\<lparr>res_ID := valueOr (res_ID result) (''res_'' @ uuid)\<rparr> in
      case on_results (InsertOne (results M) result) s of
        (Inl e, s) \<Rightarrow> (([], Some e), s)
      | (Inr _, s) \<Rightarrow>
          let mine = the_monitor (res_ServerID result) (res_MonitorID result);
              found = FindOne (monitors M) mine (st_monitors s);
              prevStatus = (case found of Inl e \<Rightarrow> [] | Inr m \<Rightarrow> mon_Status m);
              changed = (case found of Inl e \<Rightarrow> False
                 | Inr m \<Rightarrow> normalizeStatus (mon_Status m) \<noteq> normalizeStatus (res_Status result)) in
          case on_monitors (UpdateOne (monitors M) mine (apply_result now changed result)) s of
            (Inl e, s) \<Rightarrow> ((prevStatus, Some e), s)
          | (Inr _, s) \<Rightarrow>
              (case GetServerHealth M later evt_uuid (res_ServerID result) s of
                 (Inl e, s) \<Rightarrow> ((prevStatus, Some e), s)
               | (Inr _, s) \<Rightarrow> ((prevStatus, None), s)))"

section \<open>The defaults of a monitor\<close>

text \<open>What the probes and the scheduler rely on in a stored monitor.\<close>

definition monitor_wf :: "Monitor \<Rightarrow> bool" where
  "monitor_wf m \<longleftrightarrow> mon_Kind m \<noteq> [] \<and> mon_IntervalSeconds m \<noteq> 0 \<and> mon_TimeoutSeconds m \<noteq> 0 \<and> mon_Retries m \<noteq> 0 \<and>
     mon_Status m \<noteq> [] \<and>
     (isURLKind (mon_Kind m) \<longrightarrow> mon_Method m \<noteq> [] \<and> trim_space (mon_ExpectedStatusCodes m) \<noteq> []) \<and>
     (isTLSPortKind (mon_Kind m) \<longrightarrow> mon_Port m \<noteq> 0 \<and> mon_WarningDays m \<noteq> 0 \<and> mon_CriticalDays m \<noteq> 0)"

lemma valueOr_simps [simp]: "valueOr [] d = d" "x \<noteq> [] \<Longrightarrow> valueOr x d = x" "valueOr x d = [] \<longleftrightarrow> x = [] \<and> d = []"
  by (auto simp: valueOr_def)

lemma or_default_simps [simp]: "or_default 0 d = d" "x \<noteq> 0 \<Longrightarrow> or_default x d = x" "or_default x d = 0 \<longleftrightarrow> x = 0 \<and> d = 0"
  by (auto simp: or_default_def)

lemma trim_space_200 [simp]: "trim_space ''200'' = ''200''"
  by code_simp

lemma kinds_disjoint: "isTLSPortKind k \<Longrightarrow> \<not> isURLKind k"
  by (auto simp: isTLSPortKind_def isURLKind_def)

lemma defaults_wf: "monitor_wf (applyMonitorDefaults m)"
  using kinds_disjoint [of "valueOr (mon_Kind m) ''tcp''"]
  by (auto simp: monitor_wf_def applyMonitorDefaults_def Let_def)

lemma defaults_keep: "monitor_wf m \<Longrightarrow> applyMonitorDefaults m = m"
  by (auto simp add: monitor_wf_def applyMonitorDefaults_def Let_def)

lemma defaults_identity:
  "mon_ID (applyMonitorDefaults m) = mon_ID m \<and> mon_ServerID (applyMonitorDefaults m) = mon_ServerID m \<and>
   mon_GroupIDs (applyMonitorDefaults m) = mon_GroupIDs m \<and> mon_Enabled (applyMonitorDefaults m) = mon_Enabled m \<and>
   mon_Host (applyMonitorDefaults m) = mon_Host m \<and> mon_Certificate (applyMonitorDefaults m) = mon_Certificate m \<and>
   mon_LastCheckAt (applyMonitorDefaults m) = mon_LastCheckAt m"
  by (simp add: applyMonitorDefaults_def Let_def)

section \<open>What the calls write\<close>

locale monitor_store =
  mons: mongo_collection "monitors M" mdocs monitors_clash mok
  for M :: "'c mongo" and mdocs :: "'c \<Rightarrow> Monitor multiset" and mok

context monitor_store begin

abbreviation "all_wf s \<equiv> (\<forall>m \<in># mdocs (st_monitors s). monitor_wf m)"

lemma create_wf:
  assumes "mok (st_monitors s)" "all_wf s" "CreateMonitor M now uuid sid m s = (r, s')"
  shows "mok (st_monitors s') \<and> all_wf s'"
proof -
  let ?m = "(applyMonitorDefaults (m\<lparr>mon_ID := valueOr (mon_ID m) (''mon_'' @ uuid), mon_ServerID := sid\<rparr>))
      \<lparr>mon_CreatedAt := now, mon_UpdatedAt := now, mon_LastStatusChangeAt := now\<rparr>"
  have wf: "monitor_wf ?m" using defaults_wf [of "m\<lparr>mon_ID := valueOr (mon_ID m) (''mon_'' @ uuid), mon_ServerID := sid\<rparr>"]
    by (simp add: monitor_wf_def)
  consider "s' = s" | r' c where "InsertOne (monitors M) ?m (st_monitors s) = (r', c)" "s' = s\<lparr>st_monitors := c\<rparr>"
    using assms(3) by (auto simp: CreateMonitor_def Let_def on_monitors_def and_then_eq_iff split: prod.splits)
  then show ?thesis
  proof cases
    case 2
    show ?thesis using mons.insert_ok [OF assms(1) 2(1)] mons.insert_pred [OF assms(1) 2(1), of monitor_wf] assms(2) wf 2(2)
      by simp
  qed (use assms in simp)
qed

lemma update_wf:
  assumes "mok (st_monitors s)" "all_wf s" "UpdateMonitor M now sid mid m s = (r, s')"
  shows "mok (st_monitors s') \<and> all_wf s'"
proof -
  have step: "s' = s \<or> (\<exists>x r' c.
    UpdateOne (monitors M) (the_monitor sid mid) (\<lambda>_. applyMonitorDefaults x) (st_monitors s) = (r', c) \<and>
    s' = s\<lparr>st_monitors := c\<rparr>)"
  proof (cases "GetMonitor M sid mid s")
    case (Inr d)
    let ?x = "m\<lparr>mon_ID := mid, mon_ServerID := sid, mon_CreatedAt := mon_CreatedAt d,
      mon_Status := valueOr (mon_Status m) (mon_Status d), mon_LastCheckAt := mon_LastCheckAt d,
      mon_LastStatusChangeAt := mon_LastStatusChangeAt d, mon_Certificate := mon_Certificate d, mon_UpdatedAt := now\<rparr>"
    obtain r1 c where u: "UpdateOne (monitors M) (the_monitor sid mid) (\<lambda>_. applyMonitorDefaults ?x) (st_monitors s) = (r1, c)"
      by (cases "UpdateOne (monitors M) (the_monitor sid mid) (\<lambda>_. applyMonitorDefaults ?x) (st_monitors s)")
    have "s' = s \<or> s' = s\<lparr>st_monitors := c\<rparr>"
      using assms(3) Inr u unfolding UpdateMonitor_def Let_def on_monitors_def
      by (cases r1) (auto simp: matched_or_def and_then_def split: sum.splits if_splits)
    with u show ?thesis by blast
  qed (use assms(3) in \<open>simp add: UpdateMonitor_def\<close>)
  then consider "s' = s" | x r' c where
    "UpdateOne (monitors M) (the_monitor sid mid) (\<lambda>_. applyMonitorDefaults x) (st_monitors s) = (r', c)"
    "s' = s\<lparr>st_monitors := c\<rparr>"
    by blast
  then show ?thesis
  proof cases
    case 2
    show ?thesis
      using mons.update_ok [OF assms(1) 2(1)] mons.update_pred [OF assms(1) 2(1), of monitor_wf] assms(2) 2(2) defaults_wf
      by simp
  qed (use assms in simp)
qed

end

interpretation mem_monitor_store: monitor_store mem_mongo "mem_docs un_DMonitor" "mem_ok monitors_clash un_DMonitor"
  by unfold_locales

lemma filter_mset_all: "\<forall>x \<in># A. P x \<Longrightarrow> filter_mset P A = A"
  by (induction A) auto

locale server_refs =
  srvs: mongo_collection "servers M" sdocs servers_clash sok +
  mons: mongo_collection "monitors M" mdocs monitors_clash mok +
  ress: mongo_collection "results M" rdocs results_clash rok +
  evts: mongo_collection "events M" edocs events_clash eok +
  toks: mongo_collection "certificateAccessTokens M" tdocs certificateAccessTokens_clash tok +
  certs: mongo_collection "managedCertificates M" cdocs managedCertificates_clash cok
  for M :: "'c mongo" and sdocs :: "'c \<Rightarrow> Server multiset" and sok and mdocs :: "'c \<Rightarrow> Monitor multiset" and mok
    and rdocs :: "'c \<Rightarrow> CheckResult multiset" and rok and edocs :: "'c \<Rightarrow> ServerEvent multiset" and eok
    and tdocs :: "'c \<Rightarrow> CertificateAccessToken multiset" and tok
    and cdocs :: "'c \<Rightarrow> ManagedCertificate multiset" and cok

context server_refs begin

definition refs_ok :: "'c db \<Rightarrow> bool" where
  "refs_ok s \<longleftrightarrow> sok (st_servers s) \<and> mok (st_monitors s) \<and> rok (st_results s) \<and> eok (st_events s) \<and>
     tok (st_certificateAccessTokens s) \<and> cok (st_managedCertificates s)"

lemma delete_server_done:
  assumes ok: "refs_ok s" and del: "DeleteServer M i s = (Inr u, s')"
  shows "sdocs (st_servers s') = filter_mset (\<lambda>x. srv_ID x \<noteq> i) (sdocs (st_servers s)) \<and>
    mdocs (st_monitors s') = filter_mset (\<lambda>x. mon_ServerID x \<noteq> i) (mdocs (st_monitors s)) \<and>
    rdocs (st_results s') = filter_mset (\<lambda>x. res_ServerID x \<noteq> i) (rdocs (st_results s)) \<and>
    edocs (st_events s') = filter_mset (\<lambda>x. evt_ServerID x \<noteq> i) (edocs (st_events s)) \<and>
    tdocs (st_certificateAccessTokens s') = filter_mset (\<lambda>x. cat_ServerID x \<noteq> i) (tdocs (st_certificateAccessTokens s)) \<and>
    cdocs (st_managedCertificates s') =
      image_mset (\<lambda>c. c\<lparr>mc_ServerIDs := pull i (mc_ServerIDs c)\<rparr>) (cdocs (st_managedCertificates s))"
proof -
  have oks: "sok (st_servers s)" "mok (st_monitors s)" "rok (st_results s)" "eok (st_events s)"
    "tok (st_certificateAccessTokens s)" "cok (st_managedCertificates s)"
    using ok by (simp_all add: refs_ok_def)
  obtain n0 c0 n1 c1 n2 c2 n3 c3 n4 c4 n5 c5 where
    d: "DeleteOne (servers M) (\<lambda>x. srv_ID x = i) (st_servers s) = (Inr n0, c0)" "n0 \<noteq> 0"
      "DeleteMany (monitors M) (\<lambda>x. mon_ServerID x = i) (st_monitors s) = (Inr n1, c1)"
      "DeleteMany (results M) (\<lambda>x. res_ServerID x = i) (st_results s) = (Inr n2, c2)"
      "DeleteMany (events M) (\<lambda>x. evt_ServerID x = i) (st_events s) = (Inr n3, c3)"
      "DeleteMany (certificateAccessTokens M) (\<lambda>t. cat_ServerID t = i) (st_certificateAccessTokens s) = (Inr n4, c4)"
      "UpdateMany (managedCertificates M) (\<lambda>_. True) (\<lambda>c. c\<lparr>mc_ServerIDs := pull i (mc_ServerIDs c)\<rparr>)
         (st_managedCertificates s) = (Inr n5, c5)" and
    s': "s' = s\<lparr>st_servers := c0, st_monitors := c1, st_results := c2, st_events := c3,
      st_certificateAccessTokens := c4, st_managedCertificates := c5\<rparr>"
    using del unfolding DeleteServer_def DeleteCertificateAccessTokensByServer_def
      RemoveServerFromManagedCertificates_def and_then_eq_iff matched_or_eq_iff on_collection_iffs
    by fastforce
  obtain x where x: "x \<in># sdocs (st_servers s)" "srv_ID x = i" and c0: "sdocs c0 = sdocs (st_servers s) - {#x#}"
    using srvs.delete_done [OF oks(1) d(1)] d(2) by (auto simp: removed_def)
  have "srv_ID y \<noteq> i" if "y \<in># sdocs (st_servers s) - {#x#}" for y
    using pairwise_msetD [OF srvs.unique [OF oks(1)] x(1) that] x(2) by (auto simp: servers_clash_def)
  then have "filter_mset (\<lambda>y. srv_ID y \<noteq> i) (sdocs (st_servers s) - {#x#}) = sdocs (st_servers s) - {#x#}"
    by (intro filter_mset_all) blast
  moreover have "filter_mset (\<lambda>y. srv_ID y \<noteq> i) (add_mset x D) = filter_mset (\<lambda>y. srv_ID y \<noteq> i) D" for D
    using x(2) by simp
  ultimately have "sdocs c0 = filter_mset (\<lambda>y. srv_ID y \<noteq> i) (sdocs (st_servers s))"
    using c0 insert_DiffM [OF x(1)] by metis
  moreover have "cdocs c5 = image_mset (\<lambda>c. c\<lparr>mc_ServerIDs := pull i (mc_ServerIDs c)\<rparr>) (cdocs (st_managedCertificates s))"
    using certs.many_done [OF oks(6) d(7)] by (auto simp: filter_mset_all)
  ultimately show ?thesis
    unfolding s' using mons.delete_many_done [OF oks(2) d(3)] ress.delete_many_done [OF oks(3) d(4)]
      evts.delete_many_done [OF oks(4) d(5)] toks.delete_many_done [OF oks(5) d(6)]
    by (intro conjI) simp_all
qed

end

interpretation mem_server_refs: server_refs mem_mongo "mem_docs un_DServer" "mem_ok servers_clash un_DServer"
  "mem_docs un_DMonitor" "mem_ok monitors_clash un_DMonitor" "mem_docs un_DResult" "mem_ok results_clash un_DResult"
  "mem_docs un_DEvent" "mem_ok events_clash un_DEvent"
  "mem_docs un_DToken" "mem_ok certificateAccessTokens_clash un_DToken"
  "mem_docs un_DCert" "mem_ok managedCertificates_clash un_DCert"
  by unfold_locales

section \<open>Properties\<close>

text \<open>
  C17: every monitor the store creates or updates has the settings its probe needs (an interval, a
  timeout, retries, and by kind a method, accepted codes, a port and thresholds), whatever the
  caller passes; the defaults fill in what is missing and change nothing else.
\<close>

theorem stored_monitors_complete:
  assumes "monitor_store M mdocs mok" and "mok (st_monitors s)" and "\<forall>m \<in># mdocs (st_monitors s). monitor_wf m"
    and "CreateMonitor M now uuid sid m s = (r, s') \<or> UpdateMonitor M now sid mid m s = (r, s')"
  shows "(\<forall>m \<in># mdocs (st_monitors s'). monitor_wf m) \<and> monitor_wf (applyMonitorDefaults m) \<and>
    (monitor_wf m \<longrightarrow> applyMonitorDefaults m = m)"
  using monitor_store.create_wf [OF assms(1-3)] monitor_store.update_wf [OF assms(1-3)] assms(4) defaults_wf defaults_keep
  by blast

definition sample_server :: "string \<Rightarrow> Server" where
  "sample_server i = \<lparr>srv_ID = i, srv_Name = ''a'', srv_Host = ''h'', srv_Environment = [], srv_Region = [],
     srv_Tags = [], srv_SortOrder = 0, srv_Enabled = True, srv_HealthStatus = StatusHealthy,
     srv_LastStatusChangeAt = 0, srv_LastCheckAt = 0, srv_SSH = None, srv_CreatedAt = 0, srv_UpdatedAt = 0\<rparr>"

definition bare_monitor :: "string \<Rightarrow> Monitor" where
  "bare_monitor kind = \<lparr>mon_ID = [], mon_ServerID = [], mon_GroupIDs = [], mon_Name = [], mon_Kind = kind,
     mon_Enabled = True, mon_Host = [], mon_Port = 0, mon_URL = [], mon_Method = [], mon_Path = [],
     mon_Headers = Map.empty, mon_ExpectedStatusCodes = [], mon_TLSVerify = True, mon_SNIName = [],
     mon_WarningDays = 0, mon_CriticalDays = 0, mon_IntervalSeconds = 0, mon_TimeoutSeconds = 0, mon_Retries = 0,
     mon_Status = [], mon_LastCheckAt = 0, mon_LastStatusChangeAt = 0, mon_Certificate = None,
     mon_CreatedAt = 0, mon_UpdatedAt = 0\<rparr>"

definition sample_servers_db :: "doc list db" where
  "sample_servers_db = empty_db\<lparr>st_servers := [DServer (sample_server ''srv_1''), DServer (sample_server ''srv_2'')]\<rparr>"

theorem stored_monitors_complete_witness:
  "filter_mset (\<lambda>m. \<not> monitor_wf m) (mem_docs un_DMonitor (st_monitors
      (snd (CreateMonitor mem_mongo 1 ''u'' ''srv_1'' (bare_monitor ''tls'') sample_servers_db)))) = {#} \<and>
   mon_Port (applyMonitorDefaults (bare_monitor ''tls'')) = 443"
proof -
  let ?run = "CreateMonitor mem_mongo 1 ''u'' ''srv_1'' (bare_monitor ''tls'') sample_servers_db"
  have "mem_ok monitors_clash un_DMonitor (st_monitors sample_servers_db)"
    by (simp add: sample_servers_db_def empty_db_def)
  moreover have "\<forall>m \<in># mem_docs un_DMonitor (st_monitors sample_servers_db). monitor_wf m"
    by (simp add: sample_servers_db_def empty_db_def)
  ultimately have "\<forall>m \<in># mem_docs un_DMonitor (st_monitors (snd ?run)). monitor_wf m"
    using stored_monitors_complete [OF mem_monitor_store.monitor_store_axioms, of sample_servers_db 1 "''u''" "''srv_1''"
      "bare_monitor ''tls''" "fst ?run" "snd ?run"] by simp
  then show ?thesis unfolding filter_mset_none
    by (simp add: applyMonitorDefaults_def bare_monitor_def isTLSPortKind_def isURLKind_def Let_def)
qed

text \<open>
  C18: deleting a server succeeds only with all that belongs to it: its monitors, results, events and
  access tokens are gone and no certificate is assigned to it any more, while everything of the
  other servers is kept.
\<close>

theorem delete_server_leaves_nothing:
  assumes "server_refs M sdocs sok mdocs mok rdocs rok edocs eok tdocs tok cdocs cok"
    and "sok (st_servers s)" "mok (st_monitors s)" "rok (st_results s)" "eok (st_events s)"
      "tok (st_certificateAccessTokens s)" "cok (st_managedCertificates s)"
    and "DeleteServer M i s = (Inr u, s')"
  shows "sdocs (st_servers s') = filter_mset (\<lambda>x. srv_ID x \<noteq> i) (sdocs (st_servers s)) \<and>
    mdocs (st_monitors s') = filter_mset (\<lambda>x. mon_ServerID x \<noteq> i) (mdocs (st_monitors s)) \<and>
    rdocs (st_results s') = filter_mset (\<lambda>x. res_ServerID x \<noteq> i) (rdocs (st_results s)) \<and>
    edocs (st_events s') = filter_mset (\<lambda>x. evt_ServerID x \<noteq> i) (edocs (st_events s)) \<and>
    tdocs (st_certificateAccessTokens s') = filter_mset (\<lambda>x. cat_ServerID x \<noteq> i) (tdocs (st_certificateAccessTokens s)) \<and>
    cdocs (st_managedCertificates s') =
      image_mset (\<lambda>c. c\<lparr>mc_ServerIDs := pull i (mc_ServerIDs c)\<rparr>) (cdocs (st_managedCertificates s))"
  using server_refs.delete_server_done [OF assms(1) _ assms(8)] assms(2-7) server_refs.refs_ok_def [OF assms(1)]
  by blast

definition sample_delete_db :: "doc list db" where
  "sample_delete_db = sample_servers_db
     \<lparr>st_monitors := [DMonitor (bare_monitor ''a''\<lparr>mon_ServerID := ''srv_1''\<rparr>), DMonitor (bare_monitor ''b''\<lparr>mon_ServerID := ''srv_2''\<rparr>)]\<rparr>"

theorem delete_server_leaves_nothing_witness:
  "\<exists>u s'. DeleteServer mem_mongo ''srv_1'' sample_delete_db = (Inr u, s') \<and>
     mem_docs un_DMonitor (st_monitors s') = {#bare_monitor ''b''\<lparr>mon_ServerID := ''srv_2''\<rparr>#}"
proof -
  obtain r s' where run: "DeleteServer mem_mongo ''srv_1'' sample_delete_db = (r, s')" by fastforce
  have "\<exists>u. r = Inr u"
    using run by (auto simp: DeleteServer_def DeleteCertificateAccessTokensByServer_def
      RemoveServerFromManagedCertificates_def sample_delete_db_def sample_servers_db_def sample_server_def empty_db_def
      mem_coll_def on_servers_def on_monitors_def on_results_def on_events_def on_certificateAccessTokens_def
      on_managedCertificates_def matched_or_def and_then_def extract_Cons_code Let_def)
  then obtain u where r: "r = Inr u" by blast
  have "mem_docs un_DMonitor (st_monitors s') = filter_mset (\<lambda>x. mon_ServerID x \<noteq> ''srv_1'')
      (mem_docs un_DMonitor (st_monitors sample_delete_db))"
    using delete_server_leaves_nothing [OF mem_server_refs.server_refs_axioms _ _ _ _ _ _ run [unfolded r]]
    by (simp add: sample_delete_db_def sample_servers_db_def empty_db_def pairwise_mset_add servers_clash_def
        monitors_clash_def sample_server_def)
  with run r show ?thesis by (simp add: sample_delete_db_def)
qed

end
