(* ===== verification/Health.thy ===== *)
theory Health
  imports ServerStore
begin

text \<open>
  The health of a server as an order: \<open>health\<close> are the normalised statuses from best to worst, and
  the counters of \<open>GetServerHealth\<close> compute the maximum. The locale \<open>health_store\<close> is what a probe
  result relies on; \<open>SaveCheckResult\<close> keeps the stored health of the server in step with its monitors.
\<close>

section \<open>The order of the statuses\<close>

datatype health = Fine | Unsure | Warned | Alarming | Gone

fun severity :: "health \<Rightarrow> nat" where
  "severity Fine = 0" | "severity Unsure = 1" | "severity Warned = 2" | "severity Alarming = 3" | "severity Gone = 4"

instantiation health :: linorder
begin

definition less_eq_health :: "health \<Rightarrow> health \<Rightarrow> bool" where
  "less_eq_health a b \<longleftrightarrow> severity a \<le> severity b"

definition less_health :: "health \<Rightarrow> health \<Rightarrow> bool" where
  "less_health a b \<longleftrightarrow> severity a < severity b"

instance
proof
  fix a b :: health
  show "a \<le> b \<Longrightarrow> b \<le> a \<Longrightarrow> a = b" by (cases a; cases b) (simp_all add: less_eq_health_def)
qed (auto simp: less_eq_health_def less_health_def)

end

lemma health_le_simps [simp]:
  "Fine \<le> h" "h \<le> Gone" "h \<le> Fine \<longleftrightarrow> h = Fine" "Gone \<le> h \<longleftrightarrow> h = Gone"
  by (cases h; simp add: less_eq_health_def)+

definition health_of :: "string \<Rightarrow> health" where
  "health_of status =
     (let n = normalizeStatus status in
      if n = StatusHealthy then Fine else if n = StatusWarning then Warned
      else if n = StatusCritical then Alarming else if n = StatusDown then Gone else Unsure)"

fun status_name :: "health \<Rightarrow> string" where
  "status_name Fine = StatusHealthy" | "status_name Unsure = StatusUnknown" | "status_name Warned = StatusWarning"
| "status_name Alarming = StatusCritical" | "status_name Gone = StatusDown"

text \<open>The specification: the worst status, and unknown when nothing is monitored.\<close>

definition worst :: "Monitor multiset \<Rightarrow> string" where
  "worst ms = (if ms = {#} then StatusUnknown else status_name (Max ((\<lambda>m. health_of (mon_Status m)) ` set_mset ms)))"

lemma normalizeStatus_range:
  "normalizeStatus x \<in> {StatusHealthy, StatusWarning, StatusCritical, StatusDown, StatusUnknown}"
  by (simp add: normalizeStatus_def)

lemma normalizeStatus_name [simp]: "normalizeStatus (status_name h) = status_name h"
  by (cases h) (simp_all add: normalizeStatus_def)

lemma status_name_health_of: "status_name (health_of x) = normalizeStatus x"
  using normalizeStatus_range [of x] by (auto simp: health_of_def)

lemma normalizeStatus_idem [simp]: "normalizeStatus (normalizeStatus x) = normalizeStatus x"
  by (metis normalizeStatus_name status_name_health_of)

section \<open>Counting\<close>

definition tally :: "health \<Rightarrow> Monitor list \<Rightarrow> nat" where
  "tally h ms = length (filter (\<lambda>m. health_of (mon_Status m) = h) ms)"

lemma health_of_cases:
  "normalizeStatus x = StatusHealthy \<and> health_of x = Fine \<or> normalizeStatus x = StatusWarning \<and> health_of x = Warned \<or>
   normalizeStatus x = StatusCritical \<and> health_of x = Alarming \<or> normalizeStatus x = StatusDown \<and> health_of x = Gone \<or>
   normalizeStatus x = StatusUnknown \<and> health_of x = Unsure"
  using normalizeStatus_range [of x] by (auto simp: health_of_def)

lemma count_monitor_counts:
  "sh_TotalMonitors (count_monitor m h) = sh_TotalMonitors h + 1"
  "sh_HealthyMonitors (count_monitor m h) = sh_HealthyMonitors h + (if health_of (mon_Status m) = Fine then 1 else 0)"
  "sh_WarningMonitors (count_monitor m h) = sh_WarningMonitors h + (if health_of (mon_Status m) = Warned then 1 else 0)"
  "sh_CriticalMonitors (count_monitor m h) = sh_CriticalMonitors h + (if health_of (mon_Status m) = Alarming then 1 else 0)"
  "sh_DownMonitors (count_monitor m h) = sh_DownMonitors h + (if health_of (mon_Status m) = Gone then 1 else 0)"
  "sh_UnknownMonitors (count_monitor m h) = sh_UnknownMonitors h + (if health_of (mon_Status m) = Unsure then 1 else 0)"
  "sh_LastCheckAt (count_monitor m h) = max (sh_LastCheckAt h) (mon_LastCheckAt m)"
  using health_of_cases [of "mon_Status m"] by (auto simp: count_monitor_def Let_def)

lemma fold_counts:
  "sh_TotalMonitors (fold count_monitor ms h) = sh_TotalMonitors h + of_nat (length ms)"
  "sh_HealthyMonitors (fold count_monitor ms h) = sh_HealthyMonitors h + of_nat (tally Fine ms)"
  "sh_WarningMonitors (fold count_monitor ms h) = sh_WarningMonitors h + of_nat (tally Warned ms)"
  "sh_CriticalMonitors (fold count_monitor ms h) = sh_CriticalMonitors h + of_nat (tally Alarming ms)"
  "sh_DownMonitors (fold count_monitor ms h) = sh_DownMonitors h + of_nat (tally Gone ms)"
  "sh_UnknownMonitors (fold count_monitor ms h) = sh_UnknownMonitors h + of_nat (tally Unsure ms)"
  "sh_LastCheckAt (fold count_monitor ms h) = fold max (map mon_LastCheckAt ms) (sh_LastCheckAt h)"
  by (induction ms arbitrary: h) (simp_all add: tally_def count_monitor_counts max.commute)

lemma tally_le: "tally h ms \<le> length ms"
  by (simp add: tally_def)

lemma tally_pos: "tally h ms = 0 \<longleftrightarrow> h \<notin> (\<lambda>m. health_of (mon_Status m)) ` set ms"
  by (auto simp: tally_def filter_empty_conv)

lemma u32_zero_iff: "n < 2 ^ 32 \<Longrightarrow> (of_nat n :: u32) = 0 \<longleftrightarrow> n = 0"
  by (auto simp: word_of_nat_eq_0_iff dest: dvd_imp_le)

lemma aggregate_worst:
  assumes "length ms < 2 ^ 32"
  shows "aggregateHealth (fold count_monitor ms (no_monitors server i)) = worst (mset ms)"
proof (cases "ms = []")
  case True
  then show ?thesis by (simp add: aggregateHealth_def no_monitors_def worst_def)
next
  case False
  let ?H = "(\<lambda>m. health_of (mon_Status m)) ` set ms"
  have H: "finite ?H" "?H \<noteq> {}" using False by simp_all
  have zero: "(of_nat (tally h ms) :: u32) = 0 \<longleftrightarrow> h \<notin> ?H" for h
    using u32_zero_iff [of "tally h ms"] tally_le [of h ms] assms by (simp add: tally_pos)
  have total: "(of_nat (length ms) :: u32) \<noteq> 0" using u32_zero_iff [OF assms] False by simp
  have "aggregateHealth (fold count_monitor ms (no_monitors server i)) =
      (if Gone \<in> ?H then StatusDown else if Alarming \<in> ?H then StatusCritical
       else if Warned \<in> ?H then StatusWarning else if Unsure \<in> ?H then StatusUnknown else StatusHealthy)"
    using total by (simp add: aggregateHealth_def fold_counts no_monitors_def zero word_gt_0)
  also have "\<dots> = status_name (Max ?H)"
  proof -
    have m: "Max ?H \<in> ?H" "\<And>h. h \<in> ?H \<Longrightarrow> severity h \<le> severity (Max ?H)"
      using H Max_in Max_ge by (auto simp flip: less_eq_health_def)
    then show ?thesis
      using m(2) [of Gone] m(2) [of Alarming] m(2) [of Warned] m(2) [of Unsure] by (cases "Max ?H") auto
  qed
  finally show ?thesis using False by (simp add: worst_def)
qed

section \<open>Health in the store\<close>

lemma apply_result_id [simp]: "apply_result t c (r\<lparr>res_ID := i\<rparr>) = apply_result t c r"
  by (rule ext) (simp add: apply_result_def Let_def)

locale health_store =
  srvs: reliable_collection "servers M" sdocs servers_clash sok +
  mons: reliable_collection "monitors M" mdocs monitors_clash mok
  for M :: "'c mongo" and sdocs :: "'c \<Rightarrow> Server multiset" and sok
    and mdocs :: "'c \<Rightarrow> Monitor multiset" and mok

context health_store begin

definition store_ok :: "'c db \<Rightarrow> bool" where
  "store_ok s \<longleftrightarrow> sok (st_servers s) \<and> mok (st_monitors s)"

abbreviation "enabled_of sid s \<equiv> filter_mset (counted sid) (mdocs (st_monitors s))"

text \<open>A server is written with the new health.\<close>

lemma write_health:
  assumes "sok c" and "UpdateOne (servers M) (\<lambda>x. srv_ID x = sid) (set_health now h) c = (r, c')"
  shows "sok c' \<and> (\<forall>x \<in># sdocs c'. srv_ID x = sid \<longrightarrow> srv_HealthStatus x = sh_Status h)"
proof -
  have ok': "sok c'" by (rule srvs.update_ok [OF assms])
  have "\<not> servers_clash x (set_health now h d)"
    if "d \<in># sdocs c" "srv_ID d = sid" "x \<in># sdocs c - {#d#}" for d x
    using pairwise_msetD [OF srvs.unique [OF assms(1)] that(1,3)] by (simp add: servers_clash_def set_health_def)
  then obtain n where n: "UpdateOne (servers M) (\<lambda>x. srv_ID x = sid) (set_health now h) c = (Inr n, c')"
    using srvs.update_no_duplicate [OF assms(1), of "\<lambda>x. srv_ID x = sid" "set_health now h"] assms(2) by auto
  show ?thesis
  proof (cases "n = 0")
    case True
    with srvs.update_done [OF assms(1) n] ok' show ?thesis by (simp add: no_match_def)
  next
    case False
    with srvs.update_done [OF assms(1) n] obtain d where
      d: "d \<in># sdocs c" "srv_ID d = sid" and c': "sdocs c' = add_mset (set_health now h d) (sdocs c - {#d#})"
      by (auto elim: replacedE)
    have "srv_ID x \<noteq> sid" if "x \<in># sdocs c - {#d#}" for x
      using pairwise_msetD [OF srvs.unique [OF assms(1)] d(1) that] d(2) by (simp add: servers_clash_def)
    with c' ok' show ?thesis by (auto simp: set_health_def)
  qed
qed

lemma counted_monitors:
  assumes "mok c" and "FindDocs (monitors M) (counted sid) (\<lambda>_ _. True) 0 None c = Inr ms"
  shows "mset ms = filter_mset (counted sid) (mdocs c)"
  using mons.find_docs [OF assms] by (auto simp: sort_order_def page_def)

lemma health_done:
  assumes ok: "store_ok s" and bound: "size (enabled_of sid s) < 2 ^ 32"
    and run: "GetServerHealth M now uuid sid s = (Inr h, s')"
  shows "sh_Status h = worst (enabled_of sid s) \<and> unat (sh_TotalMonitors h) = size (enabled_of sid s) \<and>
    store_ok s' \<and> st_monitors s' = st_monitors s \<and>
    (\<forall>x \<in># sdocs (st_servers s'). srv_ID x = sid \<longrightarrow> srv_HealthStatus x = sh_Status h)"
proof -
  obtain server ms where
    srv: "FindOne (servers M) (\<lambda>x. srv_ID x = sid) (st_servers s) = Inr server" and
    ms: "FindDocs (monitors M) (counted sid) (\<lambda>_ _. True) 0 None (st_monitors s) = Inr ms"
    using run by (auto simp: GetServerHealth_def GetServer_def and_then_eq_iff)
  let ?h = "fold count_monitor ms (no_monitors server sid)"
  let ?g = "?h\<lparr>sh_Status := aggregateHealth ?h\<rparr>"
  have oks: "sok (st_servers s)" "mok (st_monitors s)" using ok by (simp_all add: store_ok_def)
  have mset: "mset ms = enabled_of sid s" by (rule counted_monitors [OF oks(2) ms])
  then have len: "length ms < 2 ^ 32" using bound by (metis size_mset)
  have worst: "aggregateHealth ?h = worst (enabled_of sid s)" using aggregate_worst [OF len] mset by metis
  have total: "unat (sh_TotalMonitors ?h) = size (enabled_of sid s)"
    using len mset by (simp add: fold_counts no_monitors_def unat_of_nat flip: size_mset)
  show ?thesis
  proof (cases "sh_Status ?g = srv_HealthStatus server")
    case True
    then have r: "h = ?g" "s' = s" using run srv ms by (simp_all add: GetServerHealth_def GetServer_def Let_def)
    have "x = server" if "x \<in># sdocs (st_servers s)" "srv_ID x = sid" for x
      using srvs.unique_match [OF oks(1) that(1)] srvs.find_one [OF oks(1) srv] that(2)
      by (simp add: servers_clash_def)
    with r True worst total ok show ?thesis by auto
  next
    case False
    obtain r1 c1 where u: "UpdateOne (servers M) (\<lambda>x. srv_ID x = sid) (set_health now ?g) (st_servers s) = (r1, c1)"
      by (cases "UpdateOne (servers M) (\<lambda>x. srv_ID x = sid) (set_health now ?g) (st_servers s)")
    have r: "h = ?g\<lparr>sh_LastStatusChangeAt := now\<rparr>" "st_servers s' = c1" "st_monitors s' = st_monitors s"
      using run srv ms u False
      by (auto simp: GetServerHealth_def GetServer_def Let_def on_servers_def on_events_def split: prod.splits)
    show ?thesis using write_health [OF oks(1) u] r worst total oks by (simp add: store_ok_def)
  qed
qed

lemma save_done:
  assumes ok: "store_ok s" and bound: "size (mdocs (st_monitors s)) < 2 ^ 32"
    and m: "m \<in># mdocs (st_monitors s)" "the_monitor (res_ServerID result) (res_MonitorID result) m"
    and run: "SaveCheckResult M now later uuid evt_uuid result s = ((prev, None), s')"
  shows "prev = mon_Status m \<and>
    mdocs (st_monitors s') =
      add_mset (apply_result now (normalizeStatus prev \<noteq> normalizeStatus (res_Status result)) result m)
        (mdocs (st_monitors s) - {#m#}) \<and>
    (\<forall>x \<in># sdocs (st_servers s'). srv_ID x = res_ServerID result \<longrightarrow>
       srv_HealthStatus x = worst (enabled_of (res_ServerID result) s'))"
proof -
  let ?r = "result\<lparr>res_ID := valueOr (res_ID result) (''res_'' @ uuid)\<rparr>"
  let ?mine = "the_monitor (res_ServerID result) (res_MonitorID result)"
  have oks: "sok (st_servers s)" "mok (st_monitors s)" using ok by (simp_all add: store_ok_def)
  have only: "x = m" if "x \<in># mdocs (st_monitors s)" "?mine x" for x
    using mons.unique_match [OF oks(2) that(1) m(1)] that(2) m(2) by (auto simp: monitors_clash_def the_monitor_def)
  have found: "FindOne (monitors M) ?mine (st_monitors s) = Inr m"
  proof (cases "FindOne (monitors M) ?mine (st_monitors s)")
    case (Inl e)
    from mons.find_none [OF oks(2) Inl mons.find_total [OF oks(2) Inl]] m show ?thesis by (simp add: no_match_def)
  next
    case (Inr x)
    with only mons.find_one [OF oks(2) Inr] show ?thesis by simp
  qed
  let ?changed = "normalizeStatus (mon_Status m) \<noteq> normalizeStatus (res_Status result)"
  obtain r1 c1 where ins: "InsertOne (results M) ?r (st_results s) = (r1, c1)"
    by (cases "InsertOne (results M) ?r (st_results s)")
  obtain r2 c2 where upd: "UpdateOne (monitors M) ?mine (apply_result now ?changed result) (st_monitors s) = (r2, c2)"
    by (cases "UpdateOne (monitors M) ?mine (apply_result now ?changed result) (st_monitors s)")
  let ?s = "s\<lparr>st_results := c1, st_monitors := c2\<rparr>"
  obtain r3 s3 where g: "GetServerHealth M later evt_uuid (res_ServerID result) ?s = (r3, s3)"
    by (cases "GetServerHealth M later evt_uuid (res_ServerID result) ?s")
  have "SaveCheckResult M now later uuid evt_uuid result s =
      (case r1 of Inl e \<Rightarrow> (([], Some e), s\<lparr>st_results := c1\<rparr>)
       | Inr _ \<Rightarrow> (case r2 of Inl e \<Rightarrow> ((mon_Status m, Some e), ?s)
           | Inr _ \<Rightarrow> (case r3 of Inl e \<Rightarrow> ((mon_Status m, Some e), s3) | Inr _ \<Rightarrow> ((mon_Status m, None), s3))))"
    using found ins upd g
    by (simp add: SaveCheckResult_def Let_def on_results_def on_monitors_def split: sum.split)
  with run obtain n h where prev: "prev = mon_Status m" and r: "r2 = Inr n" "r3 = Inr h" "s3 = s'"
    by (cases r1; cases r2; cases r3) simp_all
  note u = upd [unfolded r] and g = g [unfolded r]
  have "n \<noteq> 0" using mons.update_done [OF oks(2) u] m by (auto simp: no_match_def split: if_splits)
  then have docs: "mdocs c2 = add_mset (apply_result now ?changed result m) (mdocs (st_monitors s) - {#m#})"
    using mons.update_done [OF oks(2) u] only by (auto simp: replaced_def)
  have ok2: "store_ok ?s"
    using oks mons.update_ok [OF oks(2) u] by (simp add: store_ok_def)
  have "size (mdocs c2) < 2 ^ 32" using docs m(1) bound by (simp add: size_Diff_singleton)
  then have "size (enabled_of (res_ServerID result) ?s) < 2 ^ 32"
    using le_less_trans [OF size_filter_mset_lesseq, of "mdocs c2"] by simp
  from health_done [OF ok2 this g] docs prev show ?thesis by simp
qed

end

interpretation mem_health_store: health_store mem_mongo "mem_docs un_DServer" "mem_ok servers_clash un_DServer"
  "mem_docs un_DMonitor" "mem_ok monitors_clash un_DMonitor"
  by unfold_locales

section \<open>Properties\<close>

text \<open>
  C19: the health of a server is the worst normalised status of its enabled monitors, in the order
  healthy, unknown, warning, critical, down, and unknown when there are none; it is stored in the
  server before the call returns, and the total is the number of these monitors.
\<close>

theorem health_is_worst_status:
  assumes "health_store M sdocs sok mdocs mok" and "sok (st_servers s)" and "mok (st_monitors s)"
    and "size (filter_mset (counted sid) (mdocs (st_monitors s))) < 2 ^ 32"
    and "GetServerHealth M now uuid sid s = (Inr h, s')"
  shows "sh_Status h = worst (filter_mset (counted sid) (mdocs (st_monitors s))) \<and>
    unat (sh_TotalMonitors h) = size (filter_mset (counted sid) (mdocs (st_monitors s))) \<and>
    (\<forall>x \<in># sdocs (st_servers s'). srv_ID x = sid \<longrightarrow> srv_HealthStatus x = sh_Status h)"
  using health_store.health_done [OF assms(1) _ assms(4,5)] assms(2,3) health_store.store_ok_def [OF assms(1)]
  by blast

definition sample_srv :: Server where
  "sample_srv = \<lparr>srv_ID = ''srv_1'', srv_Name = ''a'', srv_Host = ''h'', srv_Environment = [], srv_Region = [],
     srv_Tags = [], srv_SortOrder = 0, srv_Enabled = True, srv_HealthStatus = StatusHealthy,
     srv_LastStatusChangeAt = 0, srv_LastCheckAt = 0, srv_SSH = None, srv_CreatedAt = 0, srv_UpdatedAt = 0\<rparr>"

definition sample_mon :: "string \<Rightarrow> string \<Rightarrow> Monitor" where
  "sample_mon i status = \<lparr>mon_ID = i, mon_ServerID = ''srv_1'', mon_GroupIDs = [], mon_Name = i, mon_Kind = ''tcp'',
     mon_Enabled = True, mon_Host = [], mon_Port = 80, mon_URL = [], mon_Method = [], mon_Path = [],
     mon_Headers = Map.empty, mon_ExpectedStatusCodes = [], mon_TLSVerify = True, mon_SNIName = [],
     mon_WarningDays = 0, mon_CriticalDays = 0, mon_IntervalSeconds = 60, mon_TimeoutSeconds = 5, mon_Retries = 3,
     mon_Status = status, mon_LastCheckAt = 0, mon_LastStatusChangeAt = 0, mon_Certificate = None,
     mon_CreatedAt = 0, mon_UpdatedAt = 0\<rparr>"

definition sample_health_db :: "doc list db" where
  "sample_health_db = empty_db\<lparr>st_servers := [DServer sample_srv],
     st_monitors := [DMonitor (sample_mon ''mon_1'' StatusHealthy), DMonitor (sample_mon ''mon_2'' ''warning'')]\<rparr>"

lemma sample_health_db_ok:
  "mem_ok servers_clash un_DServer (st_servers sample_health_db)"
  "mem_ok monitors_clash un_DMonitor (st_monitors sample_health_db)"
  by (simp_all add: sample_health_db_def pairwise_mset_add monitors_clash_def sample_mon_def)

theorem health_is_worst_status_witness:
  "\<exists>h s'. GetServerHealth mem_mongo 5 ''u'' ''srv_1'' sample_health_db = (Inr h, s') \<and>
     sh_Status h = StatusWarning \<and> unat (sh_TotalMonitors h) = 2"
proof -
  have docs: "filter_mset (counted ''srv_1'') (mem_docs un_DMonitor (st_monitors sample_health_db)) =
      {#sample_mon ''mon_1'' StatusHealthy, sample_mon ''mon_2'' ''warning''#}"
    by (simp add: sample_health_db_def counted_def sample_mon_def)
  have w: "worst {#sample_mon ''mon_1'' StatusHealthy, sample_mon ''mon_2'' ''warning''#} = StatusWarning"
    by (simp add: worst_def sample_mon_def health_of_def normalizeStatus_def max_def)
  obtain r s' where run: "GetServerHealth mem_mongo 5 ''u'' ''srv_1'' sample_health_db = (r, s')" by fastforce
  have "\<exists>h. r = Inr h"
    using run by (auto simp: GetServerHealth_def GetServer_def sample_health_db_def mem_coll_def sample_srv_def
      Let_def split: if_splits prod.splits)
  then obtain h where r: "r = Inr h" by blast
  from health_is_worst_status [OF mem_health_store.health_store_axioms sample_health_db_ok _ run [unfolded r]]
  show ?thesis unfolding docs w using run r by auto
qed

text \<open>
  Saving a probe result gives back the status the monitor had, writes the result into that
  monitor only (the time of the last status change moves exactly when the normalised status
  changes) and leaves the stored health of the server equal to the worst status of its enabled
  monitors, the new result included.
\<close>

theorem check_result_updates_health:
  assumes "health_store M sdocs sok mdocs mok" and "sok (st_servers s)" and "mok (st_monitors s)"
    and "size (mdocs (st_monitors s)) < 2 ^ 32"
    and "m \<in># mdocs (st_monitors s)" and "the_monitor (res_ServerID result) (res_MonitorID result) m"
    and "SaveCheckResult M now later uuid evt_uuid result s = ((prev, None), s')"
  shows "prev = mon_Status m \<and>
    mdocs (st_monitors s') =
      add_mset (apply_result now (normalizeStatus prev \<noteq> normalizeStatus (res_Status result)) result m)
        (mdocs (st_monitors s) - {#m#}) \<and>
    (\<forall>x \<in># sdocs (st_servers s'). srv_ID x = res_ServerID result \<longrightarrow>
       srv_HealthStatus x = worst (filter_mset (counted (res_ServerID result)) (mdocs (st_monitors s'))))"
  using health_store.save_done [OF assms(1) _ assms(4-7)] assms(2,3) health_store.store_ok_def [OF assms(1)]
  by blast

definition sample_outage :: CheckResult where
  "sample_outage = \<lparr>res_ID = [], res_ServerID = ''srv_1'', res_MonitorID = ''mon_1'', res_Status = StatusDown,
     res_StartedAt = 1, res_EndedAt = 2, res_DurationMS = 0, res_ErrorStage = ''tcp'', res_ErrorMessage = [],
     res_RemoteAddress = [], res_Port = 80, res_HTTPStatusCode = 0, res_Certificate = None\<rparr>"

theorem check_result_updates_health_witness:
  "\<exists>s'. SaveCheckResult mem_mongo 5 6 ''u'' ''v'' sample_outage sample_health_db = ((StatusHealthy, None), s') \<and>
     size (mem_docs un_DMonitor (st_monitors s')) = 2"
proof -
  obtain p e s' where run: "SaveCheckResult mem_mongo 5 6 ''u'' ''v'' sample_outage sample_health_db = ((p, e), s')"
    by (metis surj_pair)
  have "e = None"
    using run
    by (auto simp: SaveCheckResult_def GetServerHealth_def GetServer_def sample_health_db_def mem_coll_def
      sample_srv_def sample_mon_def sample_outage_def the_monitor_def apply_result_def on_results_def on_monitors_def
      update_first_def empty_db_def monitors_clash_def extract_Cons_code Let_def
      split: if_splits prod.splits)
  note saved = check_result_updates_health [OF mem_health_store.health_store_axioms sample_health_db_ok _ _ _
      run [unfolded this], of "sample_mon ''mon_1'' StatusHealthy"]
  have docs: "mem_docs un_DMonitor (st_monitors sample_health_db) =
      {#sample_mon ''mon_1'' StatusHealthy, sample_mon ''mon_2'' ''warning''#}"
    by (simp add: sample_health_db_def)
  have mine: "the_monitor (res_ServerID sample_outage) (res_MonitorID sample_outage) (sample_mon ''mon_1'' StatusHealthy)"
    by (simp add: sample_outage_def the_monitor_def sample_mon_def)
  have "p = StatusHealthy \<and> size (mem_docs un_DMonitor (st_monitors s')) = 2"
    using saved mine unfolding docs by (simp add: sample_mon_def del: size_mset)
  with run \<open>e = None\<close> show ?thesis by blast
qed

end
