(* ===== verification/Redis.thy ===== *)
theory Redis
  imports ServerStore
begin

text \<open>
  What the store keeps in Redis (internal/store/user.go, ratelimit.go, cache.go): login sessions,
  the request counters of the rate limit and the cache. The Redis client is not part of the program:
  \<open>redis\<close> is the record of the commands the store sends, with the time at which the server runs
  them, and the locale \<open>redis_server\<close> states what they do to the one key they name. A command that
  fails may or may not have been applied. \<open>mem_redis\<close> is a server in memory.
\<close>

section \<open>The commands\<close>

record 'r redis =
  RGet :: "gotime \<Rightarrow> string \<Rightarrow> 'r \<Rightarrow> err + string option"
  RSet :: "gotime \<Rightarrow> string \<Rightarrow> string \<Rightarrow> duration \<Rightarrow> 'r \<Rightarrow> err option \<times> 'r"
  RDel :: "gotime \<Rightarrow> string \<Rightarrow> 'r \<Rightarrow> err option \<times> 'r"
  RIncr :: "gotime \<Rightarrow> string \<Rightarrow> 'r \<Rightarrow> (err + int) \<times> 'r"
  RExpire :: "gotime \<Rightarrow> string \<Rightarrow> duration \<Rightarrow> 'r \<Rightarrow> err option \<times> 'r"

text \<open>An entry is a value and the time it expires, if any.\<close>

type_synonym entry = "string \<times> gotime option"

definition live :: "gotime \<Rightarrow> entry option \<Rightarrow> entry option" where
  "live now e = (case e of None \<Rightarrow> None
     | Some (v, exp) \<Rightarrow> (case exp of None \<Rightarrow> e | Some t \<Rightarrow> if now < t then e else None))"

lemma live_simps [simp]:
  "live now None = None"
  "live now (Some (v, None)) = Some (v, None)"
  "live now (Some (v, Some t)) = (if now < t then Some (v, Some t) else None)"
  by (simp_all add: live_def)

lemma live_Some: "live now e = Some (v, x) \<Longrightarrow> e = Some (v, x)"
  by (auto simp: live_def split: option.splits if_splits)

text \<open>Only the key \<open>k\<close> may change, and it becomes \<open>e\<close> if it does.\<close>

definition writes :: "('r \<Rightarrow> string \<Rightarrow> entry option) \<Rightarrow> string \<Rightarrow> entry option \<Rightarrow> 'r \<Rightarrow> 'r \<Rightarrow> bool" where
  "writes entry_of k e r r' \<longleftrightarrow> entry_of r' k = e \<and> (\<forall>j. j \<noteq> k \<longrightarrow> entry_of r' j = entry_of r j)"

definition unchanged :: "('r \<Rightarrow> string \<Rightarrow> entry option) \<Rightarrow> 'r \<Rightarrow> 'r \<Rightarrow> bool" where
  "unchanged entry_of r r' \<longleftrightarrow> (\<forall>j. entry_of r' j = entry_of r j)"

text \<open>The result and the entry of an increment; the value must be a number that can be incremented.\<close>

definition incremented :: "gotime \<Rightarrow> entry option \<Rightarrow> (int \<times> entry) option" where
  "incremented now e = (case live now e of
       None \<Rightarrow> Some (1, format_int 1, None)
     | Some (v, exp) \<Rightarrow> (case parse_int64 v of None \<Rightarrow> None
         | Some n \<Rightarrow> if n < max_int64 then Some (n + 1, format_int (n + 1), exp) else None))"

locale redis_server =
  fixes R :: "'r redis" and entry_of :: "'r \<Rightarrow> string \<Rightarrow> entry option"
  assumes get: "RGet R now k r = Inr found \<Longrightarrow> found = map_option fst (live now (entry_of r k))"
    and set_done: "RSet R now k v ttl r = (None, r') \<Longrightarrow> writes entry_of k (Some (v, Some (now + ttl))) r r'"
    and set_error: "RSet R now k v ttl r = (Some e, r') \<Longrightarrow>
      unchanged entry_of r r' \<or> writes entry_of k (Some (v, Some (now + ttl))) r r'"
    and del_done: "RDel R now k r = (None, r') \<Longrightarrow> writes entry_of k None r r'"
    and del_error: "RDel R now k r = (Some e, r') \<Longrightarrow> unchanged entry_of r r' \<or> writes entry_of k None r r'"
    and incr_done: "RIncr R now k r = (Inr n, r') \<Longrightarrow>
      \<exists>e. incremented now (entry_of r k) = Some (n, e) \<and> writes entry_of k (Some e) r r'"
    and incr_error: "RIncr R now k r = (Inl e, r') \<Longrightarrow> unchanged entry_of r r' \<or>
      (\<exists>n e. incremented now (entry_of r k) = Some (n, e) \<and> writes entry_of k (Some e) r r')"
    and expire_done: "RExpire R now k ttl r = (None, r') \<Longrightarrow>
      writes entry_of k (map_option (\<lambda>(v, _). (v, Some (now + ttl))) (live now (entry_of r k))) r r'"
    and expire_error: "RExpire R now k ttl r = (Some e, r') \<Longrightarrow> unchanged entry_of r r' \<or>
      writes entry_of k (map_option (\<lambda>(v, _). (v, Some (now + ttl))) (live now (entry_of r k))) r r'"

context redis_server begin

text \<open>No command changes another key, and the key itself in one way only.\<close>

lemma set_cases:
  assumes "RSet R now k v ttl r = (err, r')"
  obtains (none) "unchanged entry_of r r'" "err \<noteq> None" | (done_) "writes entry_of k (Some (v, Some (now + ttl))) r r'"
  using assms set_done [of now k v ttl r r'] set_error [of now k v ttl r _ r'] by (cases err) auto

lemma del_cases:
  assumes "RDel R now k r = (err, r')"
  obtains (none) "unchanged entry_of r r'" "err \<noteq> None" | (done_) "writes entry_of k None r r'"
  using assms del_done [of now k r r'] del_error [of now k r _ r'] by (cases err) auto

lemma incr_cases:
  assumes "RIncr R now k r = (res, r')"
  obtains (none) "unchanged entry_of r r'" "\<exists>e. res = Inl e"
  | (done_) n e where "incremented now (entry_of r k) = Some (n, e)" "writes entry_of k (Some e) r r'" "\<forall>m. res = Inr m \<longrightarrow> m = n"
  using assms incr_done [of now k r _ r'] incr_error [of now k r _ r'] by (cases res) auto

lemma expire_cases:
  assumes "RExpire R now k ttl r = (err, r')"
  obtains (none) "unchanged entry_of r r'" "err \<noteq> None"
  | (done_) "writes entry_of k (map_option (\<lambda>(v, _). (v, Some (now + ttl))) (live now (entry_of r k))) r r'"
  using assms expire_done [of now k ttl r r'] expire_error [of now k ttl r _ r'] by (cases err) auto

end

section \<open>A server in memory\<close>

definition mem_redis :: "(string \<rightharpoonup> entry) redis" where
  "mem_redis =
    \<lparr>RGet = (\<lambda>now k r. Inr (map_option fst (live now (r k)))),
     RSet = (\<lambda>now k v ttl r. (None, r(k \<mapsto> (v, Some (now + ttl))))),
     RDel = (\<lambda>now k r. (None, r(k := None))),
     RIncr = (\<lambda>now k r. case incremented now (r k) of
        None \<Rightarrow> (Inl (Opaque ''ERR value is not an integer or out of range''), r)
      | Some (n, e) \<Rightarrow> (Inr n, r(k \<mapsto> e))),
     RExpire = (\<lambda>now k ttl r. (None, r(k := map_option (\<lambda>(v, _). (v, Some (now + ttl))) (live now (r k)))))\<rparr>"

interpretation mem_redis: redis_server mem_redis "\<lambda>r. r"
  by unfold_locales
    (auto simp: mem_redis_def writes_def unchanged_def split: option.splits prod.splits)

section \<open>Sessions\<close>

definition SessionTTL :: duration where
  "SessionTTL = 24 * Hour"

definition sessionKeyPrefix :: string where
  "sessionKeyPrefix = ''neo-line:session:''"

definition sessionKey :: "string \<Rightarrow> string" where
  "sessionKey token = sessionKeyPrefix @ token"

definition normalizeEmail :: "(string \<Rightarrow> string) \<Rightarrow> string \<Rightarrow> string" where
  "normalizeEmail ul email = to_lower ul (trim_space email)"

text \<open>
  The random token is an argument, \<open>marshal\<close> and \<open>unmarshal\<close> are encoding/json on the session; the
  call reads its clock at \<open>now\<close> and Redis runs the command at \<open>at\<close>.
\<close>

definition CreateSession ::
  "(Session \<Rightarrow> string) \<Rightarrow> 'r redis \<Rightarrow> gotime \<Rightarrow> gotime \<Rightarrow> err + string \<Rightarrow> User \<Rightarrow> 'r \<Rightarrow> (err + Session) \<times> 'r" where
  "CreateSession marshal R now at token user r =
     and_then (token, r) (\<lambda>token r.
     let session = \<lparr>ses_Token = token, ses_UserID = usr_ID user, ses_Email = usr_Email user, ses_Role = usr_Role user,
           ses_CreatedAt = now, ses_ExpiresAt = now + SessionTTL\<rparr>
     in case RSet R at (sessionKey token) (marshal session) SessionTTL r of
          (Some e, r) \<Rightarrow> (Inl e, r)
        | (None, r) \<Rightarrow> (Inr session, r))"

definition GetSession ::
  "(string \<Rightarrow> err + Session) \<Rightarrow> 'r redis \<Rightarrow> gotime \<Rightarrow> gotime \<Rightarrow> string \<Rightarrow> 'r \<Rightarrow> (err + Session) \<times> 'r" where
  "GetSession unmarshal R now at token r =
     (case RGet R at (sessionKey token) r of
        Inl e \<Rightarrow> (Inl e, r)
      | Inr None \<Rightarrow> (Inl ErrNoDocuments, r)
      | Inr (Some data) \<Rightarrow>
          (case unmarshal data of
             Inl e \<Rightarrow> (Inl e, r)
           | Inr session \<Rightarrow>
               if ses_ExpiresAt session < now
               then (let (_, r) = RDel R at (sessionKey token) r in (Inl ErrNoDocuments, r))
               else (Inr session, r)))"

definition DeleteSession :: "'r redis \<Rightarrow> gotime \<Rightarrow> string \<Rightarrow> 'r \<Rightarrow> err option \<times> 'r" where
  "DeleteSession R at token r = RDel R at (sessionKey token) r"

section \<open>The rate limit and the cache\<close>

definition certDistributionRateLimitPrefix :: string where
  "certDistributionRateLimitPrefix = ''neo-line:cert-dist:''"

text \<open>\<open>now\<close> and \<open>later\<close> are the times at which Redis runs the two commands.\<close>

definition RateLimitAllow ::
  "'r redis \<Rightarrow> gotime \<Rightarrow> gotime \<Rightarrow> string \<Rightarrow> int \<Rightarrow> duration \<Rightarrow> 'r \<Rightarrow> (bool \<times> err option) \<times> 'r" where
  "RateLimitAllow R now later key limit window r =
     (if limit \<le> 0 then ((True, None), r)
      else let fullKey = certDistributionRateLimitPrefix @ key in
        case RIncr R now fullKey r of
          (Inl e, r) \<Rightarrow> ((True, Some e), r)
        | (Inr n, r) \<Rightarrow>
            let r = (if n = 1 then snd (RExpire R later fullKey window r) else r)
            in ((n \<le> limit, None), r))"

definition cacheKeyPrefix :: string where
  "cacheKeyPrefix = ''neo-line:cache:''"

definition CacheGet :: "'r redis \<Rightarrow> gotime \<Rightarrow> string \<Rightarrow> 'r \<Rightarrow> err + string option" where
  "CacheGet R now key r = RGet R now (cacheKeyPrefix @ key) r"

definition CacheSet :: "'r redis \<Rightarrow> gotime \<Rightarrow> string \<Rightarrow> string \<Rightarrow> duration \<Rightarrow> 'r \<Rightarrow> err option \<times> 'r" where
  "CacheSet R now key data ttl r = RSet R now (cacheKeyPrefix @ key) data ttl r"

end
