(* ===== verification/RateLimit.thy ===== *)
theory RateLimit
  imports Redis
begin

text \<open>
  How many requests the counters of internal/store/ratelimit.go let through. The counter of a key
  starts with the first request and expires a window later, whatever comes in between: within any
  window's length at most two counters are live, so less than twice the limit passes. A failed
  command only ever makes the limit stricter, except that the request whose counter cannot be
  incremented is let through (and reported).
\<close>

text \<open>A request: when its two commands run, and its key.\<close>

record visit =
  rq_now :: gotime
  rq_later :: gotime
  rq_key :: string

text \<open>A run of requests: the keys of those that passed without an error.\<close>

fun run_requests :: "'r redis \<Rightarrow> int \<Rightarrow> duration \<Rightarrow> visit list \<Rightarrow> 'r \<Rightarrow> string list" where
  "run_requests R limit window [] r = []"
| "run_requests R limit window (q # qs) r =
     (case RateLimitAllow R (rq_now q) (rq_later q) (rq_key q) limit window r of
        ((allowed, err), r) \<Rightarrow>
          (if allowed \<and> err = None then [rq_key q] else []) @ run_requests R limit window qs r)"

definition passes :: "string \<Rightarrow> string list \<Rightarrow> int" where
  "passes key keys = int (length (filter (\<lambda>k. k = key) keys))"

text \<open>A counter has counted at least one request.\<close>

definition counter_ok :: "entry option \<Rightarrow> bool" where
  "counter_ok e \<longleftrightarrow> (case e of None \<Rightarrow> True | Some (v, exp) \<Rightarrow> (\<exists>n. parse_int64 v = Some n \<and> 0 < n))"

definition counted_so_far :: "entry option \<Rightarrow> int" where
  "counted_so_far e = (case e of None \<Rightarrow> 0 | Some (v, exp) \<Rightarrow> the (parse_int64 v))"

text \<open>A counter that outlives the interval that ends at \<open>stop\<close>.\<close>

definition lasting :: "gotime \<Rightarrow> entry option \<Rightarrow> bool" where
  "lasting stop e \<longleftrightarrow> (case e of None \<Rightarrow> False | Some (v, exp) \<Rightarrow> (case exp of None \<Rightarrow> True | Some t \<Rightarrow> stop \<le> t))"

definition remaining :: "int \<Rightarrow> entry option \<Rightarrow> int" where
  "remaining limit e = max 0 (limit - counted_so_far e)"

lemma counted_so_far_simps [simp]:
  "counted_so_far None = 0"
  "0 < n \<Longrightarrow> n \<le> max_int64 \<Longrightarrow> counted_so_far (Some (format_int n, x)) = n"
  by (simp_all add: counted_so_far_def parse_int64_format)

lemma counter_ok_simps [simp]:
  "counter_ok None"
  "0 < n \<Longrightarrow> n \<le> max_int64 \<Longrightarrow> counter_ok (Some (format_int n, x))"
  by (simp_all add: counter_ok_def parse_int64_format)

lemma lasting_live: "lasting stop e \<Longrightarrow> now < stop \<Longrightarrow> live now e = e \<and> e \<noteq> None"
  by (auto simp: lasting_def live_def split: option.splits)

lemma incremented_cases:
  assumes "incremented now e = Some (n, e')" and "counter_ok e"
  obtains (fresh) "live now e = None" "n = 1" "e' = (format_int 1, None)"
  | (old) x where "live now e = e" "e \<noteq> None" "n = counted_so_far e + 1" "1 < n" "n \<le> max_int64"
      "e' = (format_int n, x)" "\<And>stop. lasting stop (Some e') = lasting stop e"
proof (cases "live now e")
  case None
  with assms(1) fresh show ?thesis by (simp add: incremented_def)
next
  case (Some a)
  obtain v x where a: "a = (v, x)" by (cases a)
  with live_Some Some have e: "e = Some (v, x)" by blast
  with assms(2) obtain m where m: "parse_int64 v = Some m" "0 < m" by (auto simp: counter_ok_def)
  with assms(1) Some a have "n = m + 1" "m < max_int64" "e' = (format_int n, x)"
    by (auto simp: incremented_def split: if_splits)
  with Some a e m show ?thesis by (intro old [of x]) (simp_all add: counted_so_far_def lasting_def)
qed

text \<open>The requests of an interval, in any order.\<close>

definition within :: "gotime \<Rightarrow> gotime \<Rightarrow> visit \<Rightarrow> bool" where
  "within start stop q \<longleftrightarrow> start \<le> rq_now q \<and> rq_now q \<le> rq_later q \<and> rq_now q < stop"

context redis_server begin

abbreviation "counter r key \<equiv> entry_of r (certDistributionRateLimitPrefix @ key)"

lemma one_request:
  assumes run: "RateLimitAllow R now later key limit window r = ((allowed, err), r')"
    and ok: "counter_ok (counter r key)" and pos: "0 < limit" "0 < window" and "now \<le> later"
  obtains (refused) "counter r' key = counter r key" "\<not> (allowed \<and> err = None)" "\<And>j. j \<noteq> key \<Longrightarrow> counter r' j = counter r j"
  | (fresh) e where "live now (counter r key) = None" "counter r' key = Some e" "counted_so_far (Some e) = 1"
      "counter_ok (Some e)" "lasting (later + window) (Some e)" "\<And>j. j \<noteq> key \<Longrightarrow> counter r' j = counter r j"
  | (old) e where "live now (counter r key) = counter r key" "counter r key \<noteq> None" "counter r' key = Some e"
      "counted_so_far (Some e) = counted_so_far (counter r key) + 1" "counter_ok (Some e)"
      "\<And>stop. lasting stop (Some e) = lasting stop (counter r key)"
      "allowed \<and> err = None \<longrightarrow> counted_so_far (Some e) \<le> limit" "\<And>j. j \<noteq> key \<Longrightarrow> counter r' j = counter r j"
proof -
  let ?k = "certDistributionRateLimitPrefix @ key"
  have one: "(1 :: int) \<le> max_int64" by (simp add: max_int64_def)
  obtain res r1 where incr: "RIncr R now ?k r = (res, r1)" by (cases "RIncr R now ?k r")
  define r2 where "r2 = snd (RExpire R later ?k window r1)"
  have r: "r' = (case res of Inl e \<Rightarrow> r1 | Inr n \<Rightarrow> if n = 1 then r2 else r1)"
    and a: "allowed \<and> err = None \<longleftrightarrow> (\<exists>n. res = Inr n \<and> n \<le> limit)"
    using run incr pos by (auto simp: RateLimitAllow_def r2_def split: sum.splits)
  from incr show ?thesis
  proof (cases rule: incr_cases)
    case none
    with r a show ?thesis by (intro refused) (auto simp: unchanged_def)
  next
    case (done_ n e)
    from done_(1) ok show ?thesis
    proof (cases rule: incremented_cases)
      case f: fresh
      have w1: "writes entry_of ?k (Some (format_int 1, None)) r r1" using done_(2) f by simp
      have "\<exists>x. writes entry_of ?k (Some (format_int 1, x)) r1 r2 \<and> (x = None \<or> x = Some (later + window))"
      proof -
        obtain err' where "RExpire R later ?k window r1 = (err', r2)" unfolding r2_def by (metis prod.collapse)
        then show ?thesis
          by (cases rule: expire_cases) (use w1 in \<open>auto simp: writes_def unchanged_def\<close>)
      qed
      then have "\<exists>x. writes entry_of ?k (Some (format_int 1, x)) r r' \<and> (x = None \<or> x = Some (later + window))"
        using w1 r done_(3) f(2) by (cases res) (auto simp: writes_def)
      then obtain x where x: "writes entry_of ?k (Some (format_int 1, x)) r r'" "x = None \<or> x = Some (later + window)"
        by blast
      show ?thesis using x one f(1)
        by (intro fresh [of "(format_int 1, x)"]) (auto simp: writes_def lasting_def)
    next
      case o: (old x)
      then have "writes entry_of ?k (Some e) r r'" using done_(2,3) r by (cases res) auto
      then show ?thesis using o done_(3) a by (intro old [of e]) (auto simp: writes_def)
    qed
  qed
qed

lemma request_step:
  assumes "run_requests R limit window (q # qs) r = keys"
  obtains allowed err r' where
    "RateLimitAllow R (rq_now q) (rq_later q) (rq_key q) limit window r = ((allowed, err), r')"
    "keys = (if allowed \<and> err = None then [rq_key q] else []) @ run_requests R limit window qs r'"
  using assms by (cases "RateLimitAllow R (rq_now q) (rq_later q) (rq_key q) limit window r") auto

lemma passes_step:
  "passes key ((if b then [k] else []) @ keys) = (if b \<and> k = key then 1 else 0) + passes key keys"
  by (simp add: passes_def)

lemma lasting_bound:
  assumes "0 < limit" "0 < window" "stop \<le> start + window"
    and "\<forall>q \<in> set qs. within start stop q" "counter_ok (counter r key)" "lasting stop (counter r key)"
    and "\<forall>k. counter_ok (counter r k)"
  shows "passes key (run_requests R limit window qs r) \<le> remaining limit (counter r key)"
  using assms(4-)
proof (induction qs arbitrary: r)
  case Nil
  then show ?case by (simp add: passes_def remaining_def)
next
  case (Cons q qs)
  obtain allowed err r' where
    run: "RateLimitAllow R (rq_now q) (rq_later q) (rq_key q) limit window r = ((allowed, err), r')" and
    keys: "run_requests R limit window (q # qs) r =
      (if allowed \<and> err = None then [rq_key q] else []) @ run_requests R limit window qs r'"
    using request_step by blast
  have q: "within start stop q" using Cons.prems(1) by simp
  have l: "rq_now q \<le> rq_later q" using q by (simp add: within_def)
  have live: "live (rq_now q) (counter r key) \<noteq> None"
    using lasting_live [OF Cons.prems(3)] q by (auto simp: within_def)
  note IH = Cons.IH [of r']
  from run spec [OF Cons.prems(4), of "rq_key q"] assms(1,2) l show ?case
  proof (cases rule: one_request)
    case refused
    then have "counter r' k = counter r k" for k by (cases "k = rq_key q") simp_all
    with IH Cons.prems refused show ?thesis unfolding keys passes_step by (auto split: if_splits)
  next
    case (fresh e)
    then have "rq_key q \<noteq> key" using live by auto
    moreover have "counter_ok (counter r' k)" for k using fresh Cons.prems(4) by (cases "k = rq_key q") simp_all
    ultimately show ?thesis using IH Cons.prems fresh unfolding keys passes_step by simp
  next
    case (old e)
    have oks: "counter_ok (counter r' k)" for k using old Cons.prems(4) by (cases "k = rq_key q") simp_all
    show ?thesis
    proof (cases "rq_key q = key")
      case True
      have "passes key (run_requests R limit window qs r') \<le> remaining limit (counter r' key)"
        using IH oks Cons.prems(1,3) old True by simp
      with old True show ?thesis unfolding keys passes_step by (auto simp: remaining_def)
    next
      case False
      with IH oks Cons.prems old show ?thesis unfolding keys passes_step by simp
    qed
  qed
qed

lemma interval_bound:
  assumes "0 < limit" "0 < window" "stop \<le> start + window"
    and "\<forall>q \<in> set qs. within start stop q" "\<forall>k. counter_ok (counter r k)"
  shows "passes key (run_requests R limit window qs r) \<le>
    (if counter r key = None then 0 else remaining limit (counter r key)) + limit"
  using assms(4-)
proof (induction qs arbitrary: r)
  case Nil
  then show ?case using assms(1) by (simp add: passes_def remaining_def)
next
  case (Cons q qs)
  obtain allowed err r' where
    run: "RateLimitAllow R (rq_now q) (rq_later q) (rq_key q) limit window r = ((allowed, err), r')" and
    keys: "run_requests R limit window (q # qs) r =
      (if allowed \<and> err = None then [rq_key q] else []) @ run_requests R limit window qs r'"
    using request_step by blast
  have q: "within start stop q" using Cons.prems(1) by simp
  then have l: "rq_now q \<le> rq_later q" by (simp add: within_def)
  note IH = Cons.IH [of r']
  from run spec [OF Cons.prems(2), of "rq_key q"] assms(1,2) l show ?case
  proof (cases rule: one_request)
    case refused
    then have "counter r' k = counter r k" for k by (cases "k = rq_key q") simp_all
    with IH Cons.prems refused show ?thesis unfolding keys passes_step by (auto split: if_splits)
  next
    case (fresh e)
    have oks: "counter_ok (counter r' k)" for k using fresh Cons.prems(2) by (cases "k = rq_key q") simp_all
    show ?thesis
    proof (cases "rq_key q = key")
      case True
      have "lasting stop (counter r' key)"
        using fresh True q assms(3) by (auto simp: lasting_def within_def split: option.splits)
      with lasting_bound [OF assms(1-3), of qs r' key] Cons.prems oks
      have "passes key (run_requests R limit window qs r') \<le> remaining limit (counter r' key)" by simp
      with fresh True assms(1) show ?thesis unfolding keys passes_step by (auto simp: remaining_def)
    next
      case False
      with IH oks Cons.prems fresh show ?thesis unfolding keys passes_step by (auto split: if_splits)
    qed
  next
    case (old e)
    have oks: "counter_ok (counter r' k)" for k using old Cons.prems(2) by (cases "k = rq_key q") simp_all
    show ?thesis
    proof (cases "rq_key q = key")
      case True
      have "passes key (run_requests R limit window qs r') \<le> remaining limit (counter r' key) + limit"
        using IH oks Cons.prems old True by simp
      with old True show ?thesis unfolding keys passes_step by (auto simp: remaining_def)
    next
      case False
      with IH oks Cons.prems old show ?thesis unfolding keys passes_step by (auto split: if_splits)
    qed
  qed
qed

text \<open>A counter that has lost its expiry never lets a request through again once it is full.\<close>

lemma no_expiry_locks_out:
  assumes "0 < limit" and "0 < window" and "now \<le> later"
    and "counter r key = Some (format_int n, None)" and "limit \<le> n" and "n < max_int64"
    and "RateLimitAllow R now later key limit window r = ((allowed, None), r')"
  shows "\<not> allowed \<and> counter r' key = Some (format_int (n + 1), None)"
proof -
  let ?k = "certDistributionRateLimitPrefix @ key"
  have i: "incremented now (counter r key) = Some (n + 1, format_int (n + 1), None)"
    using assms by (simp add: incremented_def parse_int64_format)
  obtain res r1 where incr: "RIncr R now ?k r = (res, r1)" by (cases "RIncr R now ?k r")
  with assms(1,7) obtain m where "res = Inr m" by (cases res) (auto simp: RateLimitAllow_def)
  with incr_done [of now ?k r m r1] incr i have m: "m = n + 1" "writes entry_of ?k (Some (format_int (n + 1), None)) r r1"
    by auto
  then show ?thesis using assms(1,5,7) incr \<open>res = Inr m\<close> by (auto simp: RateLimitAllow_def writes_def)
qed

end


definition sample_requests :: "visit list" where
  "sample_requests = map (\<lambda>t. \<lparr>rq_now = t, rq_later = t, rq_key = ''k''\<rparr>) [9, 10, 11, 12]"

definition one_counted :: "string \<rightharpoonup> entry" where
  "one_counted = [''neo-line:cert-dist:k'' \<mapsto> (''1'', Some 10)]"


end
