(* ===== verification/Sessions.thy ===== *)
theory Sessions
  imports Redis
begin

text \<open>
  Accounts and logins of internal/store/user.go and the site settings of settings.go. Users and settings
  are collections of their own, arguments here; bcrypt is the pair of arguments \<open>hash_password\<close> and
  \<open>matches\<close>. The second half is the life of a session among all other uses of the Redis server.
\<close>

section \<open>Accounts\<close>

text \<open>\<open>SetUpsert(true)\<close>: the document is inserted when none matches.\<close>

definition upsert :: "('c, 'd) coll \<Rightarrow> ('d \<Rightarrow> bool) \<Rightarrow> ('d \<Rightarrow> 'd) \<Rightarrow> 'd \<Rightarrow> 'c \<Rightarrow> (err + unit) \<times> 'c" where
  "upsert C P f d c = and_then (UpdateOne C P f c) (\<lambda>n c. if n = 0 then InsertOne C d c else (Inr (), c))"

definition users_clash :: "User \<Rightarrow> User \<Rightarrow> bool" where
  "users_clash x y \<longleftrightarrow> usr_Email x = usr_Email y"

definition EnsureAdminUser ::
  "(string \<Rightarrow> string) \<Rightarrow> (string \<Rightarrow> err + string) \<Rightarrow> ('c, User) coll \<Rightarrow> gotime \<Rightarrow> string \<Rightarrow> string \<Rightarrow> string \<Rightarrow> 'c \<Rightarrow>
    (err + unit) \<times> 'c" where
  "EnsureAdminUser ul hash_password U now uuid email password c =
     (let email = normalizeEmail ul email in
      and_then (hash_password password, c) (\<lambda>hash c.
      upsert U (\<lambda>x. usr_Email x = email)
        (\<lambda>x. x\<lparr>usr_PasswordHash := hash, usr_Role := RoleAdmin, usr_UpdatedAt := now\<rparr>)
        \<lparr>usr_ID = ''usr_'' @ uuid, usr_Email = email, usr_PasswordHash = hash, usr_Role = RoleAdmin,
         usr_CreatedAt = now, usr_UpdatedAt = now\<rparr> c))"

definition Authenticate ::
  "(string \<Rightarrow> string) \<Rightarrow> (string \<Rightarrow> string \<Rightarrow> bool) \<Rightarrow> ('c, User) coll \<Rightarrow> string \<Rightarrow> string \<Rightarrow> 'c \<Rightarrow> err + User" where
  "Authenticate ul matches U email password c =
     (case FindOne U (\<lambda>x. usr_Email x = normalizeEmail ul email) c of
        Inl e \<Rightarrow> if IsNotFound e then Inl (StoreE ErrInvalidCredentials) else Inl e
      | Inr user \<Rightarrow> if matches (usr_PasswordHash user) password then Inr user else Inl (StoreE ErrInvalidCredentials))"

section \<open>Settings\<close>

definition DefaultSiteName :: string where
  "DefaultSiteName = ''neo-line''"

text \<open>The UTF-8 encoding of U+670D, U+52A1, U+72B6, U+6001.\<close>

definition DefaultStatusPageTitle :: string where
  "DefaultStatusPageTitle = [CHR 0xE6, CHR 0x9C, CHR 0x8D, CHR 0xE5, CHR 0x8A, CHR 0xA1,
     CHR 0xE7, CHR 0x8A, CHR 0xB6, CHR 0xE6, CHR 0x80, CHR 0x81]"

record Settings =
  set_SiteName :: string
  set_StatusPageTitle :: string
  set_UpdatedAt :: gotime

text \<open>The collection holds the one document with the fixed \<open>_id\<close>.\<close>

definition settings_clash :: "Settings \<Rightarrow> Settings \<Rightarrow> bool" where
  "settings_clash x y \<longleftrightarrow> True"

definition settings_defaults :: "Settings \<Rightarrow> Settings" where
  "settings_defaults x = x\<lparr>set_SiteName := valueOr (set_SiteName x) DefaultSiteName,
     set_StatusPageTitle := valueOr (set_StatusPageTitle x) DefaultStatusPageTitle\<rparr>"

definition GetSettings :: "('c, Settings) coll \<Rightarrow> 'c \<Rightarrow> err + Settings" where
  "GetSettings C c =
     (case FindOne C (\<lambda>_. True) c of
        Inl e \<Rightarrow> if IsNotFound e
                 then Inr \<lparr>set_SiteName = DefaultSiteName, set_StatusPageTitle = DefaultStatusPageTitle, set_UpdatedAt = zero_time\<rparr>
                 else Inl e
      | Inr x \<Rightarrow> Inr (settings_defaults x))"

definition UpdateSettings :: "('c, Settings) coll \<Rightarrow> gotime \<Rightarrow> Settings \<Rightarrow> 'c \<Rightarrow> (err + Settings) \<times> 'c" where
  "UpdateSettings C now settings c =
     (let settings = (settings_defaults settings)\<lparr>set_UpdatedAt := now\<rparr>
      in and_then (upsert C (\<lambda>_. True) (\<lambda>_. settings) settings c) (\<lambda>_ c. (Inr settings, c)))"

text \<open>What is saved is what is read, and a title is always there.\<close>

context mongo_collection begin

lemma upsert_done:
  assumes "ok c" and "upsert C P f d c = (Inr u, c')"
  shows "(no_match P (docs c) \<and> docs c' = add_mset d (docs c)) \<or> replaced P f (docs c) (docs c')"
proof -
  obtain n c1 where u: "UpdateOne C P f c = (Inr n, c1)" and
    rest: "(if n = 0 then InsertOne C d c1 else (Inr (), c1)) = (Inr u, c')"
    using assms(2) by (auto simp: upsert_def and_then_eq_iff)
  have ok1: "ok c1" by (rule update_ok [OF assms(1) u])
  show ?thesis
  proof (cases "n = 0")
    case True
    then have "InsertOne C d c1 = (Inr u, c')" using rest by simp
    from insert_done [OF ok1 this] update_done [OF assms(1) u] True show ?thesis by simp
  next
    case False
    with update_done [OF assms(1) u] rest show ?thesis by simp
  qed
qed

lemma upsert_ok:
  assumes "ok c" and "upsert C P f d c = (r, c')"
  shows "ok c'"
proof -
  obtain r1 c1 where u: "UpdateOne C P f c = (r1, c1)" by (cases "UpdateOne C P f c")
  have ok1: "ok c1" by (rule update_ok [OF assms(1) u])
  obtain r2 c2 where i: "InsertOne C d c1 = (r2, c2)" by (cases "InsertOne C d c1")
  have "c' = c1 \<or> c' = c2" using assms(2) u i by (cases r1) (auto simp: upsert_def split: if_splits)
  with ok1 insert_ok [OF ok1 i] show ?thesis by auto
qed

text \<open>The one document with the key of the upsert is found afterwards.\<close>

lemma upsert_find:
  assumes "ok c" and "upsert C P f d c = (Inr u, c')" and "P d" and "\<And>x. P x \<Longrightarrow> P (f x)"
    and key: "\<And>x y. P x \<Longrightarrow> P y \<Longrightarrow> clash x y"
    and found: "FindOne C P c' = res"
  shows "(\<exists>x. res = Inr x \<and> (x = d \<or> (\<exists>y. P y \<and> x = f y))) \<or> (\<exists>e. res = Inl e \<and> \<not> IsNotFound e)"
proof -
  have ok': "ok c'" by (rule upsert_ok [OF assms(1,2)])
  obtain z where z: "z \<in># docs c'" "P z" "z = d \<or> (\<exists>y. P y \<and> z = f y)"
  proof -
    from upsert_done [OF assms(1,2)] have "d \<in># docs c' \<or> (\<exists>y. P y \<and> f y \<in># docs c')" by (auto simp: replaced_def)
    then show thesis using that assms(3,4) by blast
  qed
  show ?thesis
  proof (cases res)
    case (Inl e)
    with find_none [OF ok', of P e] found z show ?thesis by (auto simp: no_match_def)
  next
    case (Inr x)
    with find_one [OF ok', of P x] found have "x \<in># docs c'" "P x" by auto
    with unique_match [OF ok' this(1) z(1) key [OF this(2) z(2)]] Inr z show ?thesis by blast
  qed
qed

end

lemma settings_round_trip:
  assumes "mongo_collection C docs settings_clash ok" and "ok c"
    and "UpdateSettings C now x c = (Inr saved, c')" and "GetSettings C c' = Inr read"
  shows "read = saved \<and> set_SiteName read \<noteq> [] \<and> set_StatusPageTitle read \<noteq> []"
proof -
  let ?x = "(settings_defaults x)\<lparr>set_UpdatedAt := now\<rparr>"
  obtain r c1 where p: "upsert C (\<lambda>_. True) (\<lambda>_. ?x) ?x c = (r, c1)"
    by (cases "upsert C (\<lambda>_. True) (\<lambda>_. ?x) ?x c")
  then obtain u where u: "upsert C (\<lambda>_. True) (\<lambda>_. ?x) ?x c = (Inr u, c')" and saved: "saved = ?x"
    using assms(3) by (cases r) (simp_all add: UpdateSettings_def Let_def)
  have "FindOne C (\<lambda>_. True) c' = Inr ?x \<or> (\<exists>e. FindOne C (\<lambda>_. True) c' = Inl e \<and> \<not> IsNotFound e)"
    using mongo_collection.upsert_find [OF assms(1,2) u, where res = "FindOne C (\<lambda>_. True) c'"]
    by (simp add: settings_clash_def)
  with assms(4) have "read = settings_defaults ?x" by (auto simp: GetSettings_def split: if_splits)
  with saved show ?thesis by (simp add: settings_defaults_def valueOr_def DefaultSiteName_def DefaultStatusPageTitle_def)
qed

lemma admin_stored:
  assumes "mongo_collection U docs users_clash ok" and "ok c"
    and "EnsureAdminUser ul hash_password U now uuid email password c = (Inr u, c')"
    and "FindOne U (\<lambda>x. usr_Email x = normalizeEmail ul email) c' = Inr user"
  shows "usr_Email user = normalizeEmail ul email \<and> usr_Role user = RoleAdmin \<and> hash_password password = Inr (usr_PasswordHash user)"
proof -
  let ?email = "normalizeEmail ul email"
  obtain h where h: "hash_password password = Inr h" and
    u: "upsert U (\<lambda>x. usr_Email x = ?email) (\<lambda>x. x\<lparr>usr_PasswordHash := h, usr_Role := RoleAdmin, usr_UpdatedAt := now\<rparr>)
      \<lparr>usr_ID = ''usr_'' @ uuid, usr_Email = ?email, usr_PasswordHash = h, usr_Role = RoleAdmin,
       usr_CreatedAt = now, usr_UpdatedAt = now\<rparr> c = (Inr u, c')"
    using assms(3) by (auto simp: EnsureAdminUser_def Let_def and_then_eq_iff)
  have "(\<exists>x. FindOne U (\<lambda>x. usr_Email x = ?email) c' = Inr x \<and>
      (x = \<lparr>usr_ID = ''usr_'' @ uuid, usr_Email = ?email, usr_PasswordHash = h, usr_Role = RoleAdmin,
         usr_CreatedAt = now, usr_UpdatedAt = now\<rparr> \<or>
       (\<exists>y. usr_Email y = ?email \<and> x = y\<lparr>usr_PasswordHash := h, usr_Role := RoleAdmin, usr_UpdatedAt := now\<rparr>))) \<or>
      (\<exists>e. FindOne U (\<lambda>x. usr_Email x = ?email) c' = Inl e \<and> \<not> IsNotFound e)"
    by (rule mongo_collection.upsert_find [OF assms(1,2) u]) (simp_all add: users_clash_def)
  with assms(4) h show ?thesis by auto
qed

section \<open>The life of a session\<close>

text \<open>Every use of the Redis server by the store.\<close>

datatype redis_call =
    CallCreateSession gotime gotime "err + string" User
  | CallGetSession gotime gotime string
  | CallDeleteSession gotime string
  | CallRateLimit gotime gotime string int duration
  | CallCacheGet gotime string
  | CallCacheSet gotime string string duration

fun run_redis_call ::
  "(Session \<Rightarrow> string) \<Rightarrow> (string \<Rightarrow> err + Session) \<Rightarrow> 'r redis \<Rightarrow> redis_call \<Rightarrow> 'r \<Rightarrow> 'r" where
  "run_redis_call marshal unmarshal R (CallCreateSession now at token user) r = snd (CreateSession marshal R now at token user r)"
| "run_redis_call marshal unmarshal R (CallGetSession now at token) r = snd (GetSession unmarshal R now at token r)"
| "run_redis_call marshal unmarshal R (CallDeleteSession at token) r = snd (DeleteSession R at token r)"
| "run_redis_call marshal unmarshal R (CallRateLimit now later key limit window) r =
     snd (RateLimitAllow R now later key limit window r)"
| "run_redis_call marshal unmarshal R (CallCacheGet at key) r = r"
| "run_redis_call marshal unmarshal R (CallCacheSet at key data ttl) r = snd (CacheSet R at key data ttl r)"

fun run_redis_calls ::
  "(Session \<Rightarrow> string) \<Rightarrow> (string \<Rightarrow> err + Session) \<Rightarrow> 'r redis \<Rightarrow> redis_call list \<Rightarrow> 'r \<Rightarrow> 'r" where
  "run_redis_calls marshal unmarshal R [] r = r"
| "run_redis_calls marshal unmarshal R (c # cs) r =
     run_redis_calls marshal unmarshal R cs (run_redis_call marshal unmarshal R c r)"

text \<open>The call leaves the session of \<open>token\<close> alone, which is valid until \<open>expiry\<close>.\<close>

fun spares :: "string \<Rightarrow> gotime \<Rightarrow> redis_call \<Rightarrow> bool" where
  "spares token expiry (CallCreateSession now at t user) \<longleftrightarrow> t \<noteq> Inr token"
| "spares token expiry (CallGetSession now at t) \<longleftrightarrow> t = token \<longrightarrow> now \<le> expiry"
| "spares token expiry (CallDeleteSession at t) \<longleftrightarrow> t \<noteq> token"
| "spares token expiry (CallRateLimit now later key limit window) \<longleftrightarrow> True"
| "spares token expiry (CallCacheGet at key) \<longleftrightarrow> True"
| "spares token expiry (CallCacheSet at key data ttl) \<longleftrightarrow> True"

text \<open>The three kinds of keys are disjoint.\<close>

lemma keys_disjoint [simp]:
  "sessionKey t = sessionKey u \<longleftrightarrow> t = u"
  "sessionKey t \<noteq> certDistributionRateLimitPrefix @ k"
  "sessionKey t \<noteq> cacheKeyPrefix @ k"
  by (simp_all add: sessionKey_def sessionKeyPrefix_def certDistributionRateLimitPrefix_def cacheKeyPrefix_def)

context redis_server begin

lemma other_key:
  "RSet R at k v ttl r = (err, r') \<Longrightarrow> j \<noteq> k \<Longrightarrow> entry_of r' j = entry_of r j"
  "RDel R at k r = (err, r') \<Longrightarrow> j \<noteq> k \<Longrightarrow> entry_of r' j = entry_of r j"
  "RIncr R at k r = (res, r') \<Longrightarrow> j \<noteq> k \<Longrightarrow> entry_of r' j = entry_of r j"
  "RExpire R at k ttl r = (err, r') \<Longrightarrow> j \<noteq> k \<Longrightarrow> entry_of r' j = entry_of r j"
  by (erule set_cases, auto simp: unchanged_def writes_def)
     (erule del_cases, auto simp: unchanged_def writes_def,
      erule incr_cases, auto simp: unchanged_def writes_def,
      erule expire_cases, auto simp: unchanged_def writes_def)

lemma rate_limit_other_key:
  assumes "\<And>k. j \<noteq> certDistributionRateLimitPrefix @ k"
  shows "entry_of (snd (RateLimitAllow R now later key limit window r)) j = entry_of r j"
proof -
  let ?k = "certDistributionRateLimitPrefix @ key"
  obtain res r1 where i: "RIncr R now ?k r = (res, r1)" by (cases "RIncr R now ?k r")
  obtain err r2 where e: "RExpire R later ?k window r1 = (err, r2)" by (cases "RExpire R later ?k window r1")
  have "entry_of r1 j = entry_of r j" "entry_of r2 j = entry_of r1 j"
    using other_key(3) [OF i] other_key(4) [OF e] assms by blast+
  with i e show ?thesis by (cases res) (simp_all add: RateLimitAllow_def)
qed

lemma session_spared:
  assumes stored: "entry_of r (sessionKey token) = Some (marshal ses, exp)"
    and codec: "unmarshal (marshal ses) = Inr ses" and "spares token (ses_ExpiresAt ses) c"
  shows "entry_of (run_redis_call marshal unmarshal R c r) (sessionKey token) = Some (marshal ses, exp)"
proof (cases c)
  case (CallCreateSession now at t user)
  then show ?thesis
    using assms other_key(1) [where j = "sessionKey token"]
    by (cases t) (auto simp: CreateSession_def Let_def split: prod.split option.split)
next
  case (CallGetSession now at t)
  show ?thesis
  proof (cases "t = token")
    case True
    consider e where "RGet R at (sessionKey token) r = Inl e" | "RGet R at (sessionKey token) r = Inr None"
      | "RGet R at (sessionKey token) r = Inr (Some (marshal ses))"
      using get [of at "sessionKey token" r] stored
      by (cases "RGet R at (sessionKey token) r") (auto simp: live_def split: option.splits if_splits)
    then show ?thesis
      using CallGetSession True assms by cases (simp_all add: GetSession_def)
  next
    case False
    then have "entry_of (snd (RDel R at (sessionKey t) r)) (sessionKey token) = entry_of r (sessionKey token)"
      using other_key(2) [of at "sessionKey t" r _ _ "sessionKey token"] by (metis keys_disjoint(1) prod.collapse)
    then show ?thesis using CallGetSession stored
      by (auto simp: GetSession_def Let_def split: sum.split option.split prod.split)
  qed
next
  case (CallDeleteSession at t)
  then show ?thesis
    using assms other_key(2) [where j = "sessionKey token"]
    by (metis DeleteSession_def keys_disjoint(1) prod.collapse run_redis_call.simps(3) spares.simps(3))
next
  case (CallRateLimit now later key limit window)
  then show ?thesis using stored rate_limit_other_key by simp
next
  case (CallCacheSet at key data ttl)
  then show ?thesis
    using stored other_key(1) [where j = "sessionKey token"]
    by (metis CacheSet_def keys_disjoint(3) prod.collapse run_redis_call.simps(6))
qed (use stored in simp)

lemma session_kept:
  assumes "entry_of r (sessionKey token) = Some (marshal ses, exp)" and "unmarshal (marshal ses) = Inr ses"
    and "\<forall>c \<in> set cs. spares token (ses_ExpiresAt ses) c"
  shows "entry_of (run_redis_calls marshal unmarshal R cs r) (sessionKey token) = Some (marshal ses, exp)"
  using assms(1,3)
proof (induction cs arbitrary: r)
  case (Cons c cs)
  then show ?case using session_spared [of r token marshal ses exp unmarshal c] assms(2) by simp
qed simp

lemma create_stores:
  assumes "CreateSession marshal R now at token user r = (Inr ses, r')"
  shows "token = Inr (ses_Token ses) \<and> ses_ExpiresAt ses = now + SessionTTL \<and> ses_UserID ses = usr_ID user \<and>
    ses_Role ses = usr_Role user \<and>
    entry_of r' (sessionKey (ses_Token ses)) = Some (marshal ses, Some (at + SessionTTL))"
  using assms set_done by (cases token) (auto simp: CreateSession_def Let_def writes_def split: prod.splits option.splits)

lemma get_stored:
  assumes "entry_of r (sessionKey token) = Some (marshal ses, Some exp)" and "unmarshal (marshal ses) = Inr ses"
  shows "(\<exists>e. RGet R at (sessionKey token) r = Inl e \<and> fst (GetSession unmarshal R now at token r) = Inl e) \<or>
    fst (GetSession unmarshal R now at token r) =
      (if at < exp \<and> now \<le> ses_ExpiresAt ses then Inr ses else Inl ErrNoDocuments)"
proof (cases "RGet R at (sessionKey token) r")
  case (Inr x)
  from get [OF Inr] assms show ?thesis using Inr by (auto simp: GetSession_def split: prod.split)
qed (simp add: GetSession_def)

end

text \<open>
  C21: a session that was created for a user is returned for its token, as that user's, through any
  sequence of other logins, logouts of other tokens, session checks, rate limit and cache commands,
  for its 24 hours and not a moment longer; after its own logout it is gone. The only other answer is
  an error of the Redis client.
\<close>

theorem session_lives_its_time:
  assumes "redis_server R entry_of" and "unmarshal (marshal ses) = Inr ses"
    and "CreateSession marshal R now at token user r = (Inr ses, r1)"
    and "\<forall>c \<in> set cs. spares (ses_Token ses) (ses_ExpiresAt ses) c"
    and "r2 = run_redis_calls marshal unmarshal R cs r1"
  shows "ses_UserID ses = usr_ID user \<and> ses_Role ses = usr_Role user \<and>
    ((\<exists>e. RGet R t' (sessionKey (ses_Token ses)) r2 = Inl e \<and> fst (GetSession unmarshal R t t' (ses_Token ses) r2) = Inl e) \<or>
     fst (GetSession unmarshal R t t' (ses_Token ses) r2) =
       (if t' < at + 24 * Hour \<and> t \<le> now + 24 * Hour then Inr ses else Inl ErrNoDocuments)) \<and>
    (\<forall>r3 x. DeleteSession R t' (ses_Token ses) r2 = (None, r3) \<longrightarrow>
       fst (GetSession unmarshal R t t' (ses_Token ses) r3) \<noteq> Inr x)"
proof -
  note made = redis_server.create_stores [OF assms(1,3)]
  then have kept: "entry_of r2 (sessionKey (ses_Token ses)) = Some (marshal ses, Some (at + SessionTTL))"
    unfolding assms(5) by (intro redis_server.session_kept [where marshal = marshal and unmarshal = unmarshal and ses = ses, OF assms(1) _ assms(2,4)]) simp
  have gone: "fst (GetSession unmarshal R t t' (ses_Token ses) r3) \<noteq> Inr x"
    if "DeleteSession R t' (ses_Token ses) r2 = (None, r3)" for r3 x
  proof -
    have none: "entry_of r3 (sessionKey (ses_Token ses)) = None"
      using redis_server.del_done [OF assms(1)] that by (auto simp: DeleteSession_def writes_def)
    show ?thesis
    proof (cases "RGet R t' (sessionKey (ses_Token ses)) r3")
      case (Inr d)
      from redis_server.get [OF assms(1) Inr] none Inr show ?thesis by (simp add: GetSession_def)
    qed (simp add: GetSession_def)
  qed
  show ?thesis
    using redis_server.get_stored [where marshal = marshal and unmarshal = unmarshal and ses = ses, OF assms(1) kept assms(2), of t' t] made gone
    by (simp add: SessionTTL_def)
qed

definition sample_user :: User where
  "sample_user = \<lparr>usr_ID = ''usr_1'', usr_Email = ''a@b'', usr_PasswordHash = [], usr_Role = RoleAdmin,
     usr_CreatedAt = 0, usr_UpdatedAt = 0\<rparr>"

definition sample_session :: Session where
  "sample_session = \<lparr>ses_Token = ''t'', ses_UserID = ''usr_1'', ses_Email = ''a@b'', ses_Role = RoleAdmin,
     ses_CreatedAt = 0, ses_ExpiresAt = SessionTTL\<rparr>"

theorem session_lives_its_time_witness:
  "\<exists>r1. CreateSession (\<lambda>_. ''data'') mem_redis 0 0 (Inr ''t'') sample_user Map.empty = (Inr sample_session, r1) \<and>
     fst (GetSession (\<lambda>_. Inr sample_session) mem_redis 1 1 ''t''
       (run_redis_calls (\<lambda>_. ''data'') (\<lambda>_. Inr sample_session) mem_redis
         [CallDeleteSession 1 ''u'', CallRateLimit 1 1 ''k'' 5 10] r1)) = Inr sample_session"
proof -
  obtain r1 where made: "CreateSession (\<lambda>_. ''data'') mem_redis 0 0 (Inr ''t'') sample_user Map.empty = (Inr sample_session, r1)"
    by (simp add: CreateSession_def mem_redis_def sample_user_def sample_session_def)
  let ?cs = "[CallDeleteSession 1 ''u'', CallRateLimit 1 1 ''k'' 5 10]"
  have "\<forall>c \<in> set ?cs. spares (ses_Token sample_session) (ses_ExpiresAt sample_session) c"
    by (simp add: sample_session_def)
  note lives = session_lives_its_time [OF mem_redis.redis_server_axioms _ made this refl,
      of "\<lambda>_. Inr sample_session" 1 1]
  have "RGet mem_redis now k r \<noteq> Inl e" for now k r e by (simp add: mem_redis_def)
  with lives have "fst (GetSession (\<lambda>_. Inr sample_session) mem_redis 1 1 (ses_Token sample_session)
       (run_redis_calls (\<lambda>_. ''data'') (\<lambda>_. Inr sample_session) mem_redis ?cs r1)) = Inr sample_session"
    by (simp add: time_units del: run_redis_calls.simps)
  with made show ?thesis by (simp add: sample_session_def del: run_redis_calls.simps)
qed

end
