(* ===== verification/Uptime.thy ===== *)
theory Uptime
  imports Health
begin

text \<open>
  The availability of a monitor, internal/store/uptime.go. The aggregation pipeline is run by the
  MongoDB server: \<open>accumulate\<close> is its group stage over the documents of its match stages. A float64 is
  the type parameter \<open>'f\<close>, with the division of two integers as the argument \<open>fdiv\<close> and its zero.
\<close>

definition uptimeMaxWindow :: duration where
  "uptimeMaxWindow = 24 * Hour"

definition uptimeBeatLimit :: nat where
  "uptimeBeatLimit = 50"

definition downStatusVariants :: "string list" where
  "downStatusVariants = [StatusDown, ''down'', ''DOWN'', ''HEALTH_STATUS_DOWN'']"

record 'f UptimeWindow =
  uw_WindowSeconds :: int
  uw_Total :: int
  uw_Up :: int
  uw_Down :: int
  uw_Uptime :: 'f
  uw_AvgLatencyMS :: 'f

record Heartbeat =
  hb_Status :: string
  hb_StartedAt :: gotime
  hb_DurationMS :: int

record 'f MonitorUptime =
  mu_Windows :: "(string \<times> 'f UptimeWindow) list"
  mu_Heartbeats :: "Heartbeat list"

definition uptimeWindows :: "(string \<times> duration) list" where
  "uptimeWindows = [(''1h'', Hour), (''24h'', 24 * Hour)]"

record windowAccumulator =
  wa_Total :: int
  wa_Down :: int
  wa_LatencySum :: int

definition accumulate :: "CheckResult list \<Rightarrow> windowAccumulator" where
  "accumulate rs =
     (let isDown = (\<lambda>r. res_Status r \<in> set downStatusVariants)
      in \<lparr>wa_Total = int (length rs), wa_Down = int (length (filter isDown rs)),
          wa_LatencySum = sum_list (map (\<lambda>r. if isDown r then 0 else res_DurationMS r) rs)\<rparr>)"

definition buildWindow :: "(int \<Rightarrow> int \<Rightarrow> 'f) \<Rightarrow> 'f \<Rightarrow> int \<Rightarrow> windowAccumulator \<Rightarrow> 'f UptimeWindow" where
  "buildWindow fdiv fzero windowSeconds acc =
     (let up = wa_Total acc - wa_Down acc
      in \<lparr>uw_WindowSeconds = windowSeconds, uw_Total = wa_Total acc, uw_Up = up, uw_Down = wa_Down acc,
          uw_Uptime = (if wa_Total acc > 0 then fdiv up (wa_Total acc) else fzero),
          uw_AvgLatencyMS = (if up > 0 then fdiv (wa_LatencySum acc) up else fzero)\<rparr>)"

definition of_monitor :: "string \<Rightarrow> string \<Rightarrow> gotime \<Rightarrow> CheckResult \<Rightarrow> bool" where
  "of_monitor serverID monitorID since r \<longleftrightarrow>
     res_ServerID r = serverID \<and> res_MonitorID r = monitorID \<and> since \<le> res_StartedAt r"

definition aggregateUptimeWindows ::
  "(int \<Rightarrow> int \<Rightarrow> 'f) \<Rightarrow> 'f \<Rightarrow> 'c mongo \<Rightarrow> string \<Rightarrow> string \<Rightarrow> gotime \<Rightarrow> 'c db \<Rightarrow> err + (string \<times> 'f UptimeWindow) list" where
  "aggregateUptimeWindows fdiv fzero M serverID monitorID now s =
     (case FindDocs (results M) (of_monitor serverID monitorID (now - uptimeMaxWindow)) (\<lambda>_ _. True) 0 None
        (st_results s) of
        Inl e \<Rightarrow> Inl e
      | Inr rs \<Rightarrow> Inr (map (\<lambda>(key, dur). (key, buildWindow fdiv fzero (dur div Second)
            (accumulate (filter (\<lambda>r. now - dur \<le> res_StartedAt r) rs)))) uptimeWindows))"

definition toHeartbeats :: "CheckResult list \<Rightarrow> Heartbeat list" where
  "toHeartbeats rs = map (\<lambda>r. \<lparr>hb_Status = normalizeStatus (res_Status r), hb_StartedAt = res_StartedAt r,
     hb_DurationMS = res_DurationMS r\<rparr>) (rev rs)"

definition recentHeartbeats ::
  "'c mongo \<Rightarrow> string \<Rightarrow> string \<Rightarrow> gotime \<Rightarrow> 'c db \<Rightarrow> err + Heartbeat list" where
  "recentHeartbeats M serverID monitorID now s =
     (case FindDocs (results M) (of_monitor serverID monitorID (now - uptimeMaxWindow))
        (\<lambda>x y. res_StartedAt y \<le> res_StartedAt x) 0 (Some uptimeBeatLimit) (st_results s) of
        Inl e \<Rightarrow> Inl e
      | Inr rs \<Rightarrow> Inr (toHeartbeats rs))"

definition GetMonitorUptime ::
  "(int \<Rightarrow> int \<Rightarrow> 'f) \<Rightarrow> 'f \<Rightarrow> 'c mongo \<Rightarrow> gotime \<Rightarrow> string \<Rightarrow> string \<Rightarrow> 'c db \<Rightarrow> err + 'f MonitorUptime" where
  "GetMonitorUptime fdiv fzero M now serverID monitorID s =
     (case aggregateUptimeWindows fdiv fzero M serverID monitorID now s of
        Inl e \<Rightarrow> Inl e
      | Inr windows \<Rightarrow>
          (case recentHeartbeats M serverID monitorID now s of
             Inl e \<Rightarrow> Inl e
           | Inr beats \<Rightarrow> Inr \<lparr>mu_Windows = windows, mu_Heartbeats = beats\<rparr>))"

section \<open>What is counted\<close>

text \<open>The variants are the spellings that \<open>normalizeStatus\<close> maps to down.\<close>

lemma down_variants: "status \<in> set downStatusVariants \<longleftrightarrow> normalizeStatus status = StatusDown"
  by (auto simp: downStatusVariants_def normalizeStatus_def)

definition window_of :: "gotime \<Rightarrow> string \<Rightarrow> string \<Rightarrow> duration \<Rightarrow> CheckResult multiset \<Rightarrow> CheckResult multiset" where
  "window_of now serverID monitorID dur R = filter_mset (of_monitor serverID monitorID (now - dur)) R"

definition downs :: "CheckResult multiset \<Rightarrow> CheckResult multiset" where
  "downs R = filter_mset (\<lambda>r. normalizeStatus (res_Status r) = StatusDown) R"

locale result_store =
  ress: mongo_collection "results M" rdocs results_clash rok
  for M :: "'c mongo" and rdocs :: "'c \<Rightarrow> CheckResult multiset" and rok

context result_store begin

lemma window_counts:
  assumes ok: "rok (st_results s)" and run: "GetMonitorUptime fdiv fzero M now sid mid s = Inr u"
    and win: "(key, w) \<in> set (mu_Windows u)"
  shows "\<exists>dur. (key, dur) \<in> set uptimeWindows \<and>
    uw_Total w = int (size (window_of now sid mid dur (rdocs (st_results s)))) \<and>
    uw_Down w = int (size (downs (window_of now sid mid dur (rdocs (st_results s))))) \<and>
    uw_Up w + uw_Down w = uw_Total w"
proof -
  obtain rs where rs: "FindDocs (results M) (of_monitor sid mid (now - uptimeMaxWindow)) (\<lambda>_ _. True) 0 None
      (st_results s) = Inr rs" and
    ws: "mu_Windows u = map (\<lambda>(key, dur). (key, buildWindow fdiv fzero (dur div Second)
      (accumulate (filter (\<lambda>r. now - dur \<le> res_StartedAt r) rs)))) uptimeWindows"
    using run by (auto simp: GetMonitorUptime_def aggregateUptimeWindows_def split: sum.splits)
  have ms: "mset rs = filter_mset (of_monitor sid mid (now - uptimeMaxWindow)) (rdocs (st_results s))"
    using ress.find_docs [OF ok rs] by (auto simp: sort_order_def page_def)
  from win ws obtain dur where d: "(key, dur) \<in> set uptimeWindows" and
    w: "w = buildWindow fdiv fzero (dur div Second) (accumulate (filter (\<lambda>r. now - dur \<le> res_StartedAt r) rs))"
    by auto
  have "dur \<le> uptimeMaxWindow" using d by (auto simp: uptimeWindows_def uptimeMaxWindow_def time_units)
  then have f: "mset (filter (\<lambda>r. now - dur \<le> res_StartedAt r) rs) = window_of now sid mid dur (rdocs (st_results s))"
    unfolding mset_filter ms window_of_def by (auto simp: filter_filter_mset of_monitor_def intro!: filter_mset_cong)
  let ?ys = "filter (\<lambda>r. now - dur \<le> res_StartedAt r) rs"
  have "length (filter (\<lambda>r. res_Status r \<in> set downStatusVariants) xs) = size (downs (mset xs))" for xs
    unfolding downs_def down_variants by (metis mset_filter size_mset)
  from this [of ?ys] have
    "length (filter (\<lambda>r. res_Status r \<in> set downStatusVariants) ?ys) = size (downs (window_of now sid mid dur (rdocs (st_results s))))"
    unfolding f .
  moreover have "length ?ys = size (window_of now sid mid dur (rdocs (st_results s)))" using f by (metis size_mset)
  ultimately show ?thesis using d
    by (intro exI [of _ dur]) (simp add: w buildWindow_def accumulate_def Let_def del: filter_filter)
qed

lemma beats_recent:
  assumes ok: "rok (st_results s)" and run: "GetMonitorUptime fdiv fzero M now sid mid s = Inr u"
  shows "length (mu_Heartbeats u) = min uptimeBeatLimit (size (window_of now sid mid uptimeMaxWindow (rdocs (st_results s)))) \<and>
    sorted (map hb_StartedAt (mu_Heartbeats u))"
proof -
  let ?le = "\<lambda>x y. res_StartedAt y \<le> res_StartedAt x"
  obtain rs where rs: "FindDocs (results M) (of_monitor sid mid (now - uptimeMaxWindow)) ?le 0 (Some uptimeBeatLimit)
      (st_results s) = Inr rs" and u: "mu_Heartbeats u = toHeartbeats rs"
    using run by (auto simp: GetMonitorUptime_def recentHeartbeats_def split: sum.splits)
  obtain xs where xs: "mset xs = window_of now sid mid uptimeMaxWindow (rdocs (st_results s))" "sorted_wrt ?le xs"
    "rs = take uptimeBeatLimit xs"
    using ress.find_docs [OF ok rs] by (auto simp: page_def window_of_def)
  have "sorted_wrt ?le rs" unfolding xs(3) using xs(2) by (rule sorted_wrt_take)
  then have "sorted (map res_StartedAt (rev rs))"
    by (simp add: sorted_wrt_map sorted_wrt_rev sorted_map)
  moreover have "map hb_StartedAt (toHeartbeats rs) = map res_StartedAt (rev rs)"
    by (simp add: toHeartbeats_def comp_def)
  moreover have "size (window_of now sid mid uptimeMaxWindow (rdocs (st_results s))) = length xs"
    using xs(1) by (metis size_mset)
  ultimately show ?thesis by (simp add: u toHeartbeats_def xs(3) min.commute comp_def)
qed

end

interpretation mem_result_store: result_store mem_mongo "mem_docs un_DResult" "mem_ok results_clash un_DResult"
  by unfold_locales

section \<open>Property\<close>

text \<open>
  Each window of the uptime of a monitor counts exactly the results of that monitor within the
  window, as down those whose normalised status is down, however it was spelled, and as up the rest;
  the heartbeats are at most 50 of the last day's results, oldest first.
\<close>

theorem uptime_counts:
  assumes "result_store M rdocs rok" and "rok (st_results s)"
    and "GetMonitorUptime fdiv fzero M now sid mid s = Inr u" and "(key, w) \<in> set (mu_Windows u)"
  shows "(\<exists>dur. (key, dur) \<in> set uptimeWindows \<and>
      uw_Total w = int (size (window_of now sid mid dur (rdocs (st_results s)))) \<and>
      uw_Down w = int (size (downs (window_of now sid mid dur (rdocs (st_results s))))) \<and>
      uw_Up w + uw_Down w = uw_Total w) \<and>
    length (mu_Heartbeats u) = min 50 (size (window_of now sid mid (24 * Hour) (rdocs (st_results s)))) \<and>
    sorted (map hb_StartedAt (mu_Heartbeats u))"
  using result_store.window_counts [OF assms] result_store.beats_recent [OF assms(1-3)]
  unfolding uptimeMaxWindow_def uptimeBeatLimit_def by blast

definition sample_results_db :: "doc list db" where
  "sample_results_db = empty_db\<lparr>st_results := [DResult (sample_outage\<lparr>res_Status := ''DOWN''\<rparr>),
     DResult (sample_outage\<lparr>res_Status := StatusHealthy, res_StartedAt := 2\<rparr>)]\<rparr>"

theorem uptime_counts_witness:
  "\<exists>u. GetMonitorUptime (\<lambda>a b. a div b) 0 mem_mongo 10 ''srv_1'' ''mon_1'' sample_results_db = Inr u \<and>
     length (mu_Heartbeats u) = 2 \<and> sorted (map hb_StartedAt (mu_Heartbeats u))"
proof -
  obtain u where u: "GetMonitorUptime (\<lambda>a b. a div b) 0 mem_mongo 10 ''srv_1'' ''mon_1'' sample_results_db = Inr u"
    by (simp add: GetMonitorUptime_def aggregateUptimeWindows_def recentHeartbeats_def mem_coll_def)
  have "map fst (mu_Windows u) = map fst uptimeWindows"
    using u by (auto simp: GetMonitorUptime_def aggregateUptimeWindows_def split: sum.splits)
  then obtain w where w: "(''1h'', w) \<in> set (mu_Windows u)"
    by (cases "mu_Windows u") (auto simp: uptimeWindows_def)
  have docs: "size (window_of 10 ''srv_1'' ''mon_1'' (24 * Hour) (mem_docs un_DResult (st_results sample_results_db))) = 2"
    by (simp add: sample_results_db_def window_of_def of_monitor_def sample_outage_def time_units)
  have "mem_ok results_clash un_DResult (st_results sample_results_db)"
    by (simp add: sample_results_db_def pairwise_mset_add results_clash_def)
  from uptime_counts [OF mem_result_store.result_store_axioms this u w] u show ?thesis
    unfolding docs by simp
qed

end
