(* ===== verification/Listing.thy ===== *)
theory Listing
  imports ServerStore
begin

text \<open>
  Draining a paged listing: \<open>listAll\<close> of internal/configio/backend.go asks for pages until the next
  token is empty. Nothing in the loop bounds it, so it is a partial function: \<open>None\<close> is a loop that
  does not end. Over the store's \<open>findPage\<close> it ends, because every page moves on by 200 documents of
  the finitely many, and over a driver that enumerates a collection in one order it returns each
  matching document once. With a sort order that does not tell the documents apart a driver is free
  to enumerate them differently for each page.
\<close>

partial_function (option) listAllFrom ::
  "(int \<Rightarrow> string \<Rightarrow> err + ('a list \<times> string)) \<Rightarrow> 'a list \<Rightarrow> string \<Rightarrow> (err + 'a list) option" where
  "listAllFrom fetch out token =
     (case fetch 200 token of
        Inl e \<Rightarrow> Some (Inl e)
      | Inr p \<Rightarrow> (case p of (items, next_token) \<Rightarrow>
          if next_token = [] then Some (Inr (out @ items))
          else listAllFrom fetch (out @ items) next_token))"

definition listAll :: "(int \<Rightarrow> string \<Rightarrow> err + ('a list \<times> string)) \<Rightarrow> (err + 'a list) option" where
  "listAll fetch = listAllFrom fetch [] []"

lemma normalizeLimit_200 [simp]: "normalizeLimit 200 = 200"
  by (simp add: normalizeLimit_def)

text \<open>One page of 200 of a driver that is given what it finds.\<close>

lemma page_cases:
  assumes "parsePageToken token = Inr k"
  obtains (error) e where "FindDocs C P le (nat k) (Some 201) c = Inl e" "findPage C P 200 token le c = Inl e"
  | (last_page) found where "FindDocs C P le (nat k) (Some 201) c = Inr found" "length found \<le> 200"
      "findPage C P 200 token le c = Inr (found, [])"
  | (more) found where "FindDocs C P le (nat k) (Some 201) c = Inr found" "200 < length found"
      "findPage C P 200 token le c = Inr (take 200 found, format_int (wrap64 (k + 200)))"
proof -
  have "nat (200 + 1) = 201" by simp
  with assms have p: "findPage C P 200 token le c = (case FindDocs C P le (nat k) (Some 201) c of Inl e \<Rightarrow> Inl e
      | Inr found \<Rightarrow> if int (length found) > 200 then Inr (take 200 found, format_int (wrap64 (k + 200)))
          else Inr (found, []))"
    by (simp add: findPage_def split: sum.split)
  show ?thesis
  proof (cases "FindDocs C P le (nat k) (Some 201) c")
    case (Inl e)
    with p error show ?thesis by simp
  next
    case (Inr found)
    with p last_page more show ?thesis by (cases "int (length found) > 200") simp_all
  qed
qed

lemma next_token:
  assumes "0 \<le> k" "k + 200 \<le> max_int64"
  shows "parsePageToken (format_int (wrap64 (k + 200))) = Inr (k + 200)"
  using assms by (simp add: wrap64_id min_int64_def parsePageToken_format)

context mongo_collection begin

lemma listing_ends:
  assumes ok: "ok c" and le: "sort_order le" and bound: "int (size (docs c)) + 400 \<le> max_int64"
    and "parsePageToken token = Inr k" and "0 \<le> k" and "k \<le> int (size (docs c)) + 200"
  shows "\<exists>res. listAllFrom (\<lambda>limit token. findPage C P limit token le c) out token = Some res"
  using assms(4-)
proof (induction "nat (int (size (docs c)) + 200 - k)" arbitrary: k token out rule: less_induct)
  case less
  from less.prems(1) show ?case
  proof (cases rule: page_cases [where C = C and P = P and le = le and c = c])
    case (error e)
    then show ?thesis by (subst listAllFrom.simps) simp
  next
    case (last_page found)
    then show ?thesis by (subst listAllFrom.simps) simp
  next
    case (more found)
    obtain xs where xs: "mset xs = filter_mset P (docs c)" "found = page (nat k) (Some 201) xs"
      using find_docs [OF ok more(1) le] by blast
    have "length xs \<le> size (docs c)" using xs(1) by (metis size_filter_mset_lesseq size_mset)
    moreover have "nat k + 200 < length xs" using more(2) by (auto simp: xs(2) page_def)
    ultimately have k: "k + 200 < int (size (docs c))" using less.prems(2) by linarith
    have t: "parsePageToken (format_int (wrap64 (k + 200))) = Inr (k + 200)"
      using k bound less.prems(2) by (intro next_token) simp_all
    have "\<exists>res. listAllFrom (\<lambda>limit token. findPage C P limit token le c) (out @ take 200 found)
        (format_int (wrap64 (k + 200))) = Some res"
      using k less.prems(2) by (intro less.hyps [OF _ t]) auto
    then show ?thesis using more(3) by (subst listAllFrom.simps) simp
  qed
qed

end

text \<open>A driver whose enumeration of the collection does not depend on the page asked for.\<close>

definition enumerates :: "('c, 'd) coll \<Rightarrow> ('d \<Rightarrow> bool) \<Rightarrow> ('d \<Rightarrow> 'd \<Rightarrow> bool) \<Rightarrow> 'c \<Rightarrow> 'd list \<Rightarrow> bool" where
  "enumerates C P le c xs \<longleftrightarrow> (\<forall>k n. FindDocs C P le k n c = Inr (page k n xs))"

lemma listing_collects:
  assumes enum: "enumerates C P le c xs" and bound: "int (length xs) + 400 \<le> max_int64"
    and "parsePageToken token = Inr k" and "0 \<le> k" and "k \<le> int (length xs) + 200"
  shows "listAllFrom (\<lambda>limit token. findPage C P limit token le c) out token = Some (Inr (out @ drop (nat k) xs))"
  using assms(3-)
proof (induction "nat (int (length xs) + 200 - k)" arbitrary: k token out rule: less_induct)
  case less
  have found: "FindDocs C P le (nat k) (Some 201) c = Inr (take 201 (drop (nat k) xs))"
    using enum by (simp add: enumerates_def page_def)
  from less.prems(1) show ?case
  proof (cases rule: page_cases [where C = C and P = P and le = le and c = c])
    case (error e)
    then show ?thesis using found by simp
  next
    case (last_page ys)
    then have "ys = drop (nat k) xs" using found by (cases "length (drop (nat k) xs) \<le> 200") auto
    then show ?thesis using last_page(3) by (subst listAllFrom.simps) simp
  next
    case (more ys)
    then have ys: "ys = take 201 (drop (nat k) xs)" and len: "nat k + 200 < length xs" using found by auto
    have t: "parsePageToken (format_int (wrap64 (k + 200))) = Inr (k + 200)"
      using len bound less.prems(2) by (intro next_token) linarith+
    have "listAllFrom (\<lambda>limit token. findPage C P limit token le c) (out @ take 200 ys) (format_int (wrap64 (k + 200)))
        = Some (Inr ((out @ take 200 ys) @ drop (nat (k + 200)) xs))"
      using len less.prems(2) by (intro less.hyps [OF _ t]) auto
    moreover have "take 200 ys @ drop (nat (k + 200)) xs = drop (nat k) xs"
      using less.prems(2) by (simp add: ys nat_add_distrib) (metis append_take_drop_id drop_drop add.commute)
    ultimately show ?thesis using more(3) by (subst listAllFrom.simps) simp
  qed
qed


lemma mem_enumerates: "enumerates (mem_coll inject project clash) P le c (sort_docs le (filter P (view project c)))"
  by (simp add: enumerates_def mem_coll_def)


end
