(* ===== verification/ConfigIO.thy ===== *)
theory ConfigIO
  imports Listing Sessions
begin

text \<open>
  Export and import of the monitoring configuration, internal/configio. \<open>cstore\<close> is the interface
  \<open>Store\<close> of backend.go, \<open>mongo_backend\<close> its implementation by the store. encoding/json is the
  arguments \<open>parse_version\<close>, \<open>parse_file\<close> (the strict decoder), \<open>trailing\<close> (data after the document) and
  \<open>marshal\<close>; the fields that are accepted and ignored on import are not part of the decoded file.
  The last line of every theorem on \<open>Import\<close> speaks of its result, which is \<open>None\<close> only when the draining
  of a listing does not end.
\<close>

section \<open>The file\<close>

definition Version :: int where
  "Version = 1"

definition MaxImportBytes :: nat where
  "MaxImportBytes = 10 * 2 ^ 20"

record FileSettings =
  fset_SiteName :: string
  fset_StatusPageTitle :: string

record FileChannel =
  fch_Type :: string
  fch_Target :: string
  fch_Extra :: "string \<rightharpoonup> string"

record FileNotifyGroup =
  fng_ID :: string
  fng_Name :: string
  fng_Description :: string
  fng_Channels :: "FileChannel list"

record FileAlertPolicy =
  fap_Enabled :: bool
  fap_NotifyGroupIDs :: "string list"
  fap_OnDown :: bool
  fap_OnRecover :: bool
  fap_OnWarning :: bool
  fap_OnCritical :: bool
  fap_MinIntervalSeconds :: u32

record FileMonitorGroup =
  fgrp_ID :: string
  fgrp_Name :: string
  fgrp_Description :: string
  fgrp_SortOrder :: u32
  fgrp_AlertPolicy :: FileAlertPolicy

record FileSSH =
  fssh_Enabled :: bool
  fssh_Host :: string
  fssh_Port :: u32
  fssh_User :: string

record FileMonitor =
  fmon_ID :: string
  fmon_GroupIDs :: "string list"
  fmon_Name :: string
  fmon_Kind :: string
  fmon_Enabled :: bool
  fmon_Host :: string
  fmon_Port :: u32
  fmon_URL :: string
  fmon_Method :: string
  fmon_Path :: string
  fmon_Headers :: "string \<rightharpoonup> string"
  fmon_ExpectedStatusCodes :: string
  fmon_TLSVerify :: bool
  fmon_SNIName :: string
  fmon_WarningDays :: u32
  fmon_CriticalDays :: u32
  fmon_IntervalSeconds :: u32
  fmon_TimeoutSeconds :: u32
  fmon_Retries :: u32

record FileServer =
  fsrv_ID :: string
  fsrv_Name :: string
  fsrv_Host :: string
  fsrv_Environment :: string
  fsrv_Region :: string
  fsrv_Tags :: "string list"
  fsrv_SortOrder :: u32
  fsrv_Enabled :: bool
  fsrv_SSH :: "FileSSH option"
  fsrv_Monitors :: "FileMonitor list"

record File =
  fl_Version :: int
  fl_ExportedAt :: gotime
  fl_Settings :: "FileSettings option"
  fl_NotifyGroups :: "FileNotifyGroup list"
  fl_MonitorGroups :: "FileMonitorGroup list"
  fl_Servers :: "FileServer list"

definition invalid_input :: "frag list \<Rightarrow> err" where
  "invalid_input fs = Annot (OtherE ErrInvalidInput) fs"

definition decode ::
  "(string \<Rightarrow> string + int) \<Rightarrow> (string \<Rightarrow> string + File) \<Rightarrow> (string \<Rightarrow> bool) \<Rightarrow> string \<Rightarrow> err + File" where
  "decode parse_version parse_file trailing data =
     (if length data > MaxImportBytes
      then Inl (invalid_input [Lit ''file exceeds '', Decimal MaxImportBytes, Lit '' bytes''])
      else case parse_version data of
        Inl msg \<Rightarrow> Inl (invalid_input [Lit msg])
      | Inr v \<Rightarrow>
          if v \<noteq> Version
          then Inl (invalid_input [Lit (''unsupported version '' @ format_int v @ '', expected '' @ format_int Version)])
          else case parse_file data of
            Inl msg \<Rightarrow> Inl (invalid_input [Lit msg])
          | Inr f \<Rightarrow>
              if trailing data then Inl (invalid_input [Lit ''unexpected data after JSON document''])
              else Inr f)"

section \<open>Conversions\<close>

definition settingsFromStore :: "Settings \<Rightarrow> FileSettings" where
  "settingsFromStore s = \<lparr>fset_SiteName = set_SiteName s, fset_StatusPageTitle = set_StatusPageTitle s\<rparr>"

definition settingsToStore :: "FileSettings \<Rightarrow> Settings" where
  "settingsToStore s = \<lparr>set_SiteName = fset_SiteName s, set_StatusPageTitle = fset_StatusPageTitle s,
     set_UpdatedAt = zero_time\<rparr>"

definition notifyGroupFromStore :: "NotifyGroup \<Rightarrow> FileNotifyGroup" where
  "notifyGroupFromStore g = \<lparr>fng_ID = ng_ID g, fng_Name = ng_Name g, fng_Description = ng_Description g,
     fng_Channels = map (\<lambda>c. \<lparr>fch_Type = ch_Type c, fch_Target = ch_Target c, fch_Extra = ch_Extra c\<rparr>) (ng_Channels g)\<rparr>"

definition notifyGroupToStore :: "FileNotifyGroup \<Rightarrow> NotifyGroup" where
  "notifyGroupToStore g = \<lparr>ng_ID = fng_ID g, ng_Name = fng_Name g, ng_Description = fng_Description g,
     ng_Channels = map (\<lambda>c. \<lparr>ch_Type = fch_Type c, ch_Target = fch_Target c, ch_Extra = fch_Extra c\<rparr>) (fng_Channels g),
     ng_CreatedAt = zero_time, ng_UpdatedAt = zero_time\<rparr>"

definition monitorGroupFromStore :: "MonitorGroup \<Rightarrow> FileMonitorGroup" where
  "monitorGroupFromStore g = (let p = grp_AlertPolicy g in
     \<lparr>fgrp_ID = grp_ID g, fgrp_Name = grp_Name g, fgrp_Description = grp_Description g, fgrp_SortOrder = grp_SortOrder g,
      fgrp_AlertPolicy = \<lparr>fap_Enabled = ap_Enabled p, fap_NotifyGroupIDs = ap_NotifyGroupIDs p, fap_OnDown = ap_OnDown p,
        fap_OnRecover = ap_OnRecover p, fap_OnWarning = ap_OnWarning p, fap_OnCritical = ap_OnCritical p,
        fap_MinIntervalSeconds = ap_MinIntervalSeconds p\<rparr>\<rparr>)"

definition monitorGroupToStore :: "FileMonitorGroup \<Rightarrow> MonitorGroup" where
  "monitorGroupToStore g = (let p = fgrp_AlertPolicy g in
     \<lparr>grp_ID = fgrp_ID g, grp_Name = fgrp_Name g, grp_Description = fgrp_Description g, grp_SortOrder = fgrp_SortOrder g,
      grp_AlertPolicy = \<lparr>ap_Enabled = fap_Enabled p, ap_NotifyGroupIDs = fap_NotifyGroupIDs p, ap_OnDown = fap_OnDown p,
        ap_OnRecover = fap_OnRecover p, ap_OnWarning = fap_OnWarning p, ap_OnCritical = fap_OnCritical p,
        ap_MinIntervalSeconds = fap_MinIntervalSeconds p\<rparr>,
      grp_CreatedAt = zero_time, grp_UpdatedAt = zero_time\<rparr>)"

definition monitorFromStore :: "Monitor \<Rightarrow> FileMonitor" where
  "monitorFromStore m =
     \<lparr>fmon_ID = mon_ID m, fmon_GroupIDs = mon_GroupIDs m, fmon_Name = mon_Name m, fmon_Kind = mon_Kind m,
      fmon_Enabled = mon_Enabled m, fmon_Host = mon_Host m, fmon_Port = mon_Port m, fmon_URL = mon_URL m,
      fmon_Method = mon_Method m, fmon_Path = mon_Path m, fmon_Headers = mon_Headers m,
      fmon_ExpectedStatusCodes = mon_ExpectedStatusCodes m, fmon_TLSVerify = mon_TLSVerify m,
      fmon_SNIName = mon_SNIName m, fmon_WarningDays = mon_WarningDays m, fmon_CriticalDays = mon_CriticalDays m,
      fmon_IntervalSeconds = mon_IntervalSeconds m, fmon_TimeoutSeconds = mon_TimeoutSeconds m,
      fmon_Retries = mon_Retries m\<rparr>"

definition monitorToStore :: "FileMonitor \<Rightarrow> string \<Rightarrow> Monitor" where
  "monitorToStore m serverID =
     \<lparr>mon_ID = fmon_ID m, mon_ServerID = serverID, mon_GroupIDs = fmon_GroupIDs m, mon_Name = fmon_Name m,
      mon_Kind = fmon_Kind m, mon_Enabled = fmon_Enabled m, mon_Host = fmon_Host m, mon_Port = fmon_Port m,
      mon_URL = fmon_URL m, mon_Method = fmon_Method m, mon_Path = fmon_Path m, mon_Headers = fmon_Headers m,
      mon_ExpectedStatusCodes = fmon_ExpectedStatusCodes m, mon_TLSVerify = fmon_TLSVerify m,
      mon_SNIName = fmon_SNIName m, mon_WarningDays = fmon_WarningDays m, mon_CriticalDays = fmon_CriticalDays m,
      mon_IntervalSeconds = fmon_IntervalSeconds m, mon_TimeoutSeconds = fmon_TimeoutSeconds m,
      mon_Retries = fmon_Retries m, mon_Status = [], mon_LastCheckAt = zero_time, mon_LastStatusChangeAt = zero_time,
      mon_Certificate = None, mon_CreatedAt = zero_time, mon_UpdatedAt = zero_time\<rparr>"

definition serverFromStore :: "Server \<Rightarrow> Monitor list \<Rightarrow> FileServer" where
  "serverFromStore s ms =
     \<lparr>fsrv_ID = srv_ID s, fsrv_Name = srv_Name s, fsrv_Host = srv_Host s, fsrv_Environment = srv_Environment s,
      fsrv_Region = srv_Region s, fsrv_Tags = srv_Tags s, fsrv_SortOrder = srv_SortOrder s, fsrv_Enabled = srv_Enabled s,
      fsrv_SSH = map_option (\<lambda>x. \<lparr>fssh_Enabled = ssh_Enabled x, fssh_Host = ssh_Host x, fssh_Port = ssh_Port x,
        fssh_User = ssh_User x\<rparr>) (srv_SSH s),
      fsrv_Monitors = map monitorFromStore ms\<rparr>"

definition serverToStore :: "FileServer \<Rightarrow> Server" where
  "serverToStore s =
     \<lparr>srv_ID = fsrv_ID s, srv_Name = fsrv_Name s, srv_Host = fsrv_Host s, srv_Environment = fsrv_Environment s,
      srv_Region = fsrv_Region s, srv_Tags = fsrv_Tags s, srv_SortOrder = fsrv_SortOrder s, srv_Enabled = fsrv_Enabled s,
      srv_HealthStatus = [], srv_LastStatusChangeAt = zero_time, srv_LastCheckAt = zero_time,
      srv_SSH = map_option (\<lambda>x. \<lparr>ssh_Enabled = fssh_Enabled x, ssh_Host = fssh_Host x, ssh_Port = fssh_Port x,
        ssh_User = fssh_User x\<rparr>) (fsrv_SSH s),
      srv_CreatedAt = zero_time, srv_UpdatedAt = zero_time\<rparr>"

section \<open>The store interface\<close>

record 's cstore =
  cGetSettings :: "'s \<Rightarrow> err + Settings"
  cUpdateSettings :: "Settings \<Rightarrow> 's \<Rightarrow> (err + Settings) \<times> 's"
  cListNotifyGroups :: "int \<Rightarrow> string \<Rightarrow> 's \<Rightarrow> err + (NotifyGroup list \<times> string)"
  cCreateNotifyGroup :: "NotifyGroup \<Rightarrow> 's \<Rightarrow> (err + NotifyGroup) \<times> 's"
  cUpdateNotifyGroup :: "string \<Rightarrow> NotifyGroup \<Rightarrow> 's \<Rightarrow> (err + NotifyGroup) \<times> 's"
  cListMonitorGroups :: "int \<Rightarrow> string \<Rightarrow> 's \<Rightarrow> err + (MonitorGroup list \<times> string)"
  cCreateMonitorGroup :: "MonitorGroup \<Rightarrow> 's \<Rightarrow> (err + MonitorGroup) \<times> 's"
  cUpdateMonitorGroup :: "string \<Rightarrow> MonitorGroup \<Rightarrow> 's \<Rightarrow> (err + MonitorGroup) \<times> 's"
  cListServers :: "string \<Rightarrow> string list \<Rightarrow> int \<Rightarrow> string \<Rightarrow> 's \<Rightarrow> err + (Server list \<times> string)"
  cCreateServer :: "Server \<Rightarrow> 's \<Rightarrow> (err + Server) \<times> 's"
  cUpdateServer :: "string \<Rightarrow> Server \<Rightarrow> 's \<Rightarrow> (err + Server) \<times> 's"
  cListMonitors :: "string \<Rightarrow> int \<Rightarrow> string \<Rightarrow> 's \<Rightarrow> err + (Monitor list \<times> string)"
  cCreateMonitor :: "string \<Rightarrow> Monitor \<Rightarrow> 's \<Rightarrow> (err + Monitor) \<times> 's"
  cUpdateMonitor :: "string \<Rightarrow> string \<Rightarrow> Monitor \<Rightarrow> 's \<Rightarrow> (err + Monitor) \<times> 's"

text \<open>The store of the server: the database and the settings collection.\<close>

definition on_db :: "('c db \<Rightarrow> 'r \<times> 'c db) \<Rightarrow> 'c db \<times> 'k \<Rightarrow> 'r \<times> ('c db \<times> 'k)" where
  "on_db f p = (case f (fst p) of (r, d) \<Rightarrow> (r, (d, snd p)))"

definition mongo_backend ::
  "'c mongo \<Rightarrow> ('k, Settings) coll \<Rightarrow> gotime \<Rightarrow> string \<Rightarrow> ('c db \<times> 'k) cstore" where
  "mongo_backend M K now uuid =
     \<lparr>cGetSettings = (\<lambda>p. GetSettings K (snd p)),
      cUpdateSettings = (\<lambda>x p. case UpdateSettings K now x (snd p) of (r, k) \<Rightarrow> (r, (fst p, k))),
      cListNotifyGroups = (\<lambda>limit token p. ListNotifyGroups M limit token (fst p)),
      cCreateNotifyGroup = (\<lambda>g. on_db (CreateNotifyGroup M now uuid g)),
      cUpdateNotifyGroup = (\<lambda>i g. on_db (UpdateNotifyGroup M now i g)),
      cListMonitorGroups = (\<lambda>limit token p. ListMonitorGroups M limit token (fst p)),
      cCreateMonitorGroup = (\<lambda>g. on_db (CreateMonitorGroup M now uuid g)),
      cUpdateMonitorGroup = (\<lambda>i g. on_db (UpdateMonitorGroup M now i g)),
      cListServers = (\<lambda>env tags limit token p. ListServers M env tags limit token (fst p)),
      cCreateServer = (\<lambda>x. on_db (CreateServer M now uuid x)),
      cUpdateServer = (\<lambda>i x. on_db (UpdateServer M now i x)),
      cListMonitors = (\<lambda>sid limit token p. ListMonitors M sid limit token (fst p)),
      cCreateMonitor = (\<lambda>sid m. on_db (CreateMonitor M now uuid sid m)),
      cUpdateMonitor = (\<lambda>sid mid m. on_db (UpdateMonitor M now sid mid m))\<rparr>"

section \<open>Export\<close>

text \<open>A result that may not come, then an early return.\<close>

definition then_do :: "(err + 'a) option \<Rightarrow> ('a \<Rightarrow> (err + 'b) option) \<Rightarrow> (err + 'b) option" where
  "then_do p k = (case p of None \<Rightarrow> None | Some (Inl e) \<Rightarrow> Some (Inl e) | Some (Inr a) \<Rightarrow> k a)"

definition in_context :: "string \<Rightarrow> (err + 'a) option \<Rightarrow> (err + 'a) option" where
  "in_context s p = map_option (map_sum (Context s) (\<lambda>a. a)) p"

fun export_servers :: "'s cstore \<Rightarrow> 's \<Rightarrow> Server list \<Rightarrow> (err + FileServer list) option" where
  "export_servers B s [] = Some (Inr [])"
| "export_servers B s (x # xs) =
     then_do (in_context (''list monitors of server '' @ srv_ID x)
         (listAll (\<lambda>limit token. cListMonitors B (srv_ID x) limit token s))) (\<lambda>ms.
     then_do (export_servers B s xs) (\<lambda>rest. Some (Inr (serverFromStore x ms # rest))))"

definition exported :: "'s cstore \<Rightarrow> gotime \<Rightarrow> 's \<Rightarrow> (err + File) option" where
  "exported B now s =
     then_do (in_context ''get settings'' (Some (cGetSettings B s))) (\<lambda>settings.
     then_do (in_context ''list notify groups'' (listAll (\<lambda>limit token. cListNotifyGroups B limit token s))) (\<lambda>notify.
     then_do (in_context ''list monitor groups'' (listAll (\<lambda>limit token. cListMonitorGroups B limit token s))) (\<lambda>grps.
     then_do (in_context ''list servers'' (listAll (\<lambda>limit token. cListServers B [] [] limit token s))) (\<lambda>srvs.
     then_do (export_servers B s srvs) (\<lambda>fsrvs.
     Some (Inr \<lparr>fl_Version = Version, fl_ExportedAt = now, fl_Settings = Some (settingsFromStore settings),
       fl_NotifyGroups = map notifyGroupFromStore notify, fl_MonitorGroups = map monitorGroupFromStore grps,
       fl_Servers = fsrvs\<rparr>))))))"

definition Export :: "(File \<Rightarrow> err + string) \<Rightarrow> 's cstore \<Rightarrow> gotime \<Rightarrow> 's \<Rightarrow> (err + string) option" where
  "Export marshal B now s = then_do (exported B now s) (\<lambda>f. Some (marshal f))"

end
