(* ===== verification/ConfigImport.thy ===== *)
theory ConfigImport
  imports ConfigIO
begin

text \<open>
  The import of internal/configio/import.go: the item loops with their checks, decisions and counts.
  The importer is the code's struct: the store, the options and the report so far. \<open>q\<close> renders the
  format verb \<open>%q\<close>. Sets of ids are HOL sets, the map from names to their owner is a function.
\<close>

section \<open>Options and report\<close>

definition ModeMerge :: int where "ModeMerge = 1"
definition ModeUpsert :: int where "ModeUpsert = 2"

record Options =
  opt_Mode :: int
  opt_DryRun :: bool

record Counts =
  cnt_Created :: u32
  cnt_Updated :: u32
  cnt_Skipped :: u32
  cnt_Failed :: u32

record Summary =
  sum_Settings :: Counts
  sum_NotifyGroups :: Counts
  sum_MonitorGroups :: Counts
  sum_Servers :: Counts
  sum_Monitors :: Counts

record Issue =
  is_ResourceType :: string
  is_ID :: string
  is_Name :: string
  is_Message :: string

record Report =
  rep_DryRun :: bool
  rep_Summary :: Summary
  rep_Errors :: "Issue list"

datatype resource = ResourceSettings | ResourceNotifyGroup | ResourceMonitorGroup | ResourceServer | ResourceMonitor

fun resource_name :: "resource \<Rightarrow> string" where
  "resource_name ResourceSettings = ''settings''"
| "resource_name ResourceNotifyGroup = ''notify_group''"
| "resource_name ResourceMonitorGroup = ''monitor_group''"
| "resource_name ResourceServer = ''server''"
| "resource_name ResourceMonitor = ''monitor''"

text \<open>The pointer to the counts of a resource.\<close>

fun at_counts :: "resource \<Rightarrow> (Counts \<Rightarrow> Counts) \<Rightarrow> Summary \<Rightarrow> Summary" where
  "at_counts ResourceSettings f s = s\<lparr>sum_Settings := f (sum_Settings s)\<rparr>"
| "at_counts ResourceNotifyGroup f s = s\<lparr>sum_NotifyGroups := f (sum_NotifyGroups s)\<rparr>"
| "at_counts ResourceMonitorGroup f s = s\<lparr>sum_MonitorGroups := f (sum_MonitorGroups s)\<rparr>"
| "at_counts ResourceServer f s = s\<lparr>sum_Servers := f (sum_Servers s)\<rparr>"
| "at_counts ResourceMonitor f s = s\<lparr>sum_Monitors := f (sum_Monitors s)\<rparr>"

definition bump :: "resource \<Rightarrow> (Counts \<Rightarrow> Counts) \<Rightarrow> Report \<Rightarrow> Report" where
  "bump res f r = r\<lparr>rep_Summary := at_counts res f (rep_Summary r)\<rparr>"

definition add_issue :: "resource \<Rightarrow> string \<Rightarrow> string \<Rightarrow> string \<Rightarrow> Report \<Rightarrow> Report" where
  "add_issue res i n msg r = r\<lparr>rep_Errors := rep_Errors r @
     [\<lparr>is_ResourceType = resource_name res, is_ID = i, is_Name = n, is_Message = msg\<rparr>]\<rparr>"

definition validKinds :: "string list" where
  "validKinds = [[], ''tcp'', ''url'', ''http'', ''https'', ''tls_port'', ''tls'', ''tls_certificate'']"

datatype action = actCreate | actUpdate | actSkip | actSkipConflict | actConflict

definition decide :: "int \<Rightarrow> bool \<Rightarrow> bool \<Rightarrow> action" where
  "decide mode exists conflict =
     (if exists \<and> mode = ModeMerge then actSkip
      else if conflict \<and> mode = ModeMerge then actSkipConflict
      else if conflict then actConflict
      else if exists then actUpdate
      else actCreate)"

record seenSet =
  seen_ids :: "string set"
  seen_names :: "string set"

definition newSeenSet :: seenSet where
  "newSeenSet = \<lparr>seen_ids = {}, seen_names = {}\<rparr>"

definition check :: "string \<Rightarrow> string \<Rightarrow> bool \<Rightarrow> seenSet \<Rightarrow> string \<times> seenSet" where
  "check i n uniqueName s =
     (if trim_space i = [] then (''id is required'', s)
      else if trim_space n = [] then (''name is required'', s)
      else if i \<in> seen_ids s then (''duplicate id in file'', s)
      else if uniqueName \<and> n \<in> seen_names s then (''duplicate name in file'', s)
      else ([], s\<lparr>seen_ids := insert i (seen_ids s),
                  seen_names := (if uniqueName then insert n (seen_names s) else seen_names s)\<rparr>))"

definition missingRefs :: "(string \<Rightarrow> string) \<Rightarrow> string \<Rightarrow> string list \<Rightarrow> string set \<Rightarrow> string" where
  "missingRefs q kind ids available =
     (case find (\<lambda>i. i \<notin> available) ids of None \<Rightarrow> [] | Some i \<Rightarrow> kind @ '' '' @ q i @ '' does not exist'')"

definition conflictMessage :: "string \<Rightarrow> string" where
  "conflictMessage owner = ''name already used by '' @ owner"

definition writeMessage :: "(string \<Rightarrow> string) \<Rightarrow> err \<Rightarrow> string" where
  "writeMessage q e =
     (if errors_is e (StoreE ErrGroupNameTaken) \<or> errors_is e (StoreE ErrNotifyGroupNameTaken) \<or>
         errors_is e (StoreE ErrInvalidGroupIDs) \<or> errors_is e (StoreE ErrInvalidNotifyGroupIDs)
      then error_text q e
      else if IsNotFound e then ''parent resource not found''
      else ''write failed'')"

section \<open>The importer\<close>

text \<open>Early returns of a run that may not end; the state is kept on every path.\<close>

definition then_run ::
  "((err + 'a) \<times> 's) option \<Rightarrow> ('a \<Rightarrow> 's \<Rightarrow> ((err + 'b) \<times> 's) option) \<Rightarrow> ((err + 'b) \<times> 's) option" where
  "then_run p k = (case p of None \<Rightarrow> None | Some (r, s) \<Rightarrow> (case r of Inl e \<Rightarrow> Some (Inl e, s) | Inr a \<Rightarrow> k a s))"

definition reading :: "(err + 'a) option \<Rightarrow> 's \<Rightarrow> ((err + 'a) \<times> 's) option" where
  "reading p s = map_option (\<lambda>r. (r, s)) p"

record 's importer =
  im_st :: 's
  im_opts :: Options
  im_report :: Report

definition failed :: "resource \<Rightarrow> string \<Rightarrow> string \<Rightarrow> string \<Rightarrow> 's importer \<Rightarrow> 's importer" where
  "failed res i n msg im =
     im\<lparr>im_report := add_issue res i n msg (bump res (\<lambda>c. c\<lparr>cnt_Failed := cnt_Failed c + 1\<rparr>) (im_report im))\<rparr>"

definition skipped :: "resource \<Rightarrow> string \<Rightarrow> string \<Rightarrow> string \<Rightarrow> 's importer \<Rightarrow> 's importer" where
  "skipped res i n msg im =
     (let r = bump res (\<lambda>c. c\<lparr>cnt_Skipped := cnt_Skipped c + 1\<rparr>) (im_report im)
      in im\<lparr>im_report := (if msg \<noteq> [] then add_issue res i n msg r else r)\<rparr>)"

definition done_with :: "resource \<Rightarrow> action \<Rightarrow> 's importer \<Rightarrow> 's importer" where
  "done_with res act im = im\<lparr>im_report := bump res
     (\<lambda>c. if act = actUpdate then c\<lparr>cnt_Updated := cnt_Updated c + 1\<rparr> else c\<lparr>cnt_Created := cnt_Created c + 1\<rparr>)
     (im_report im)\<rparr>"

text \<open>A write of the store, unless the run is dry; the error, if any.\<close>

definition write_unless_dry :: "('s \<Rightarrow> (err + 'a) \<times> 's) \<Rightarrow> 's importer \<Rightarrow> err option \<times> 's importer" where
  "write_unless_dry f im =
     (if opt_DryRun (im_opts im) then (None, im)
      else case f (im_st im) of (r, s) \<Rightarrow> (case r of Inl e \<Rightarrow> Some e | Inr _ \<Rightarrow> None, im\<lparr>im_st := s\<rparr>))"

definition importSettings ::
  "(string \<Rightarrow> string) \<Rightarrow> 's cstore \<Rightarrow> FileSettings option \<Rightarrow> 's importer \<Rightarrow> 's importer" where
  "importSettings q B fs im =
     (case fs of None \<Rightarrow> im
      | Some x \<Rightarrow>
          if opt_Mode (im_opts im) = ModeMerge then skipped ResourceSettings ''site'' [] [] im
          else case write_unless_dry (cUpdateSettings B (settingsToStore x)) im of
            (Some e, im) \<Rightarrow> failed ResourceSettings ''site'' [] (writeMessage q e) im
          | (None, im) \<Rightarrow> im\<lparr>im_report := bump ResourceSettings (\<lambda>c. c\<lparr>cnt_Updated := cnt_Updated c + 1\<rparr>) (im_report im)\<rparr>)"

text \<open>The generic loop over groups; \<open>existing\<close> are the ids and names of the stored groups.\<close>

record ('t, 's) groupImportSpec =
  gs_resource :: resource
  gs_id :: "'t \<Rightarrow> string"
  gs_name :: "'t \<Rightarrow> string"
  gs_validate :: "'t \<Rightarrow> string"
  gs_create :: "'t \<Rightarrow> 's \<Rightarrow> (err + unit) \<times> 's"
  gs_update :: "'t \<Rightarrow> 's \<Rightarrow> (err + unit) \<times> 's"

definition gs_write :: "('t, 's) groupImportSpec \<Rightarrow> 't \<Rightarrow> action \<Rightarrow> 's \<Rightarrow> (err + unit) \<times> 's" where
  "gs_write spec item act = (if act = actUpdate then gs_update spec item else gs_create spec item)"

definition name_owner :: "(string \<times> string) list \<Rightarrow> string \<Rightarrow> string option" where
  "name_owner existing n = fold (\<lambda>(i, m) owner. if m = n then Some i else owner) existing None"

definition import_group_item ::
  "(string \<Rightarrow> string) \<Rightarrow> ('t, 's) groupImportSpec \<Rightarrow> (string \<times> string) list \<Rightarrow> 't \<Rightarrow>
    seenSet \<times> string set \<times> 's importer \<Rightarrow> seenSet \<times> string set \<times> 's importer" where
  "import_group_item q spec existing item state =
     (case state of (seen, available, im) \<Rightarrow>
      let res = gs_resource spec; i = gs_id spec item; n = gs_name spec item in
      case check i n True seen of (msg, seen) \<Rightarrow>
        if msg \<noteq> [] then (seen, available, failed res i n msg im)
        else let msg = gs_validate spec item in
        if msg \<noteq> [] then (seen, available, failed res i n msg im)
        else let owner = name_owner existing n;
                 act = decide (opt_Mode (im_opts im)) (i \<in> set (map fst existing)) (owner \<noteq> None \<and> owner \<noteq> Some i);
                 ownerID = (case owner of None \<Rightarrow> [] | Some x \<Rightarrow> x) in
          case act of
            actSkip \<Rightarrow> (seen, available, skipped res i n [] im)
          | actSkipConflict \<Rightarrow> (seen, available, skipped res i n (conflictMessage ownerID) im)
          | actConflict \<Rightarrow> (seen, available, failed res i n (conflictMessage ownerID) im)
          | _ \<Rightarrow> (case write_unless_dry (gs_write spec item act) im of
                (Some e, im) \<Rightarrow> (seen, available, failed res i n (writeMessage q e) im)
              | (None, im) \<Rightarrow> (seen, insert i available, done_with res act im)))"

definition importGroups ::
  "(string \<Rightarrow> string) \<Rightarrow> ('t, 's) groupImportSpec \<Rightarrow> (string \<times> string) list \<Rightarrow> 't list \<Rightarrow> 's importer \<Rightarrow>
    string set \<times> 's importer" where
  "importGroups q spec existing items im =
     snd (fold (import_group_item q spec existing) items (newSeenSet, set (map fst existing), im))"

definition forget :: "(err + 'a) \<times> 's \<Rightarrow> (err + unit) \<times> 's" where
  "forget p = (case p of (r, s) \<Rightarrow> (case r of Inl e \<Rightarrow> Inl e | Inr _ \<Rightarrow> Inr (), s))"

definition notify_spec :: "'s cstore \<Rightarrow> (FileNotifyGroup, 's) groupImportSpec" where
  "notify_spec B = \<lparr>gs_resource = ResourceNotifyGroup, gs_id = fng_ID, gs_name = fng_Name, gs_validate = (\<lambda>_. []),
     gs_create = (\<lambda>g s. forget (cCreateNotifyGroup B (notifyGroupToStore g) s)),
     gs_update = (\<lambda>g s. forget (cUpdateNotifyGroup B (fng_ID g) (notifyGroupToStore g) s))\<rparr>"

definition importNotifyGroups ::
  "(string \<Rightarrow> string) \<Rightarrow> 's cstore \<Rightarrow> FileNotifyGroup list \<Rightarrow> 's importer \<Rightarrow> ((err + string set) \<times> 's importer) option" where
  "importNotifyGroups q B grps im =
     then_run (reading (in_context ''list notify groups'' (listAll (\<lambda>limit token. cListNotifyGroups B limit token (im_st im)))) im) (\<lambda>existing im.
     case importGroups q (notify_spec B) (map (\<lambda>g. (ng_ID g, ng_Name g)) existing) grps im of (available, im) \<Rightarrow>
       Some (Inr available, im))"

definition monitor_group_spec ::
  "(string \<Rightarrow> string) \<Rightarrow> 's cstore \<Rightarrow> string set \<Rightarrow> (FileMonitorGroup, 's) groupImportSpec" where
  "monitor_group_spec q B notify = \<lparr>gs_resource = ResourceMonitorGroup, gs_id = fgrp_ID, gs_name = fgrp_Name,
     gs_validate = (\<lambda>g. missingRefs q ''notify group'' (fap_NotifyGroupIDs (fgrp_AlertPolicy g)) notify),
     gs_create = (\<lambda>g s. forget (cCreateMonitorGroup B (monitorGroupToStore g) s)),
     gs_update = (\<lambda>g s. forget (cUpdateMonitorGroup B (fgrp_ID g) (monitorGroupToStore g) s))\<rparr>"

definition importMonitorGroups ::
  "(string \<Rightarrow> string) \<Rightarrow> 's cstore \<Rightarrow> FileMonitorGroup list \<Rightarrow> string set \<Rightarrow> 's importer \<Rightarrow>
    ((err + string set) \<times> 's importer) option" where
  "importMonitorGroups q B grps notify im =
     then_run (reading (in_context ''list monitor groups'' (listAll (\<lambda>limit token. cListMonitorGroups B limit token (im_st im)))) im) (\<lambda>existing im.
     case importGroups q (monitor_group_spec q B notify) (map (\<lambda>g. (grp_ID g, grp_Name g)) existing) grps im of (available, im) \<Rightarrow>
       Some (Inr available, im))"

section \<open>Servers and monitors\<close>

definition failMonitors :: "FileServer \<Rightarrow> string \<Rightarrow> 's importer \<Rightarrow> 's importer" where
  "failMonitors srv msg im =
     fold (\<lambda>m. failed ResourceMonitor (fmon_ID m) (fmon_Name m) msg) (fsrv_Monitors srv) im"

definition import_monitor ::
  "(string \<Rightarrow> string) \<Rightarrow> 's cstore \<Rightarrow> string \<Rightarrow> string set \<Rightarrow> string set \<Rightarrow> FileMonitor \<Rightarrow>
    seenSet \<times> 's importer \<Rightarrow> seenSet \<times> 's importer" where
  "import_monitor q B serverID existing grps m state =
     (case state of (seen, im) \<Rightarrow>
      let fail = failed ResourceMonitor (fmon_ID m) (fmon_Name m) in
      case check (fmon_ID m) (fmon_Name m) False seen of (msg, seen) \<Rightarrow>
        if msg \<noteq> [] then (seen, fail msg im)
        else if fmon_Kind m \<notin> set validKinds then (seen, fail (''unsupported kind '' @ q (fmon_Kind m)) im)
        else let msg = missingRefs q ''group'' (fmon_GroupIDs m) grps in
        if msg \<noteq> [] then (seen, fail msg im)
        else let act = decide (opt_Mode (im_opts im)) (fmon_ID m \<in> existing) False in
        if act = actSkip then (seen, skipped ResourceMonitor (fmon_ID m) (fmon_Name m) [] im)
        else case write_unless_dry (if act = actUpdate
              then cUpdateMonitor B serverID (fmon_ID m) (monitorToStore m serverID)
              else cCreateMonitor B serverID (monitorToStore m serverID)) im of
            (Some e, im) \<Rightarrow> (seen, fail (writeMessage q e) im)
          | (None, im) \<Rightarrow> (seen, done_with ResourceMonitor act im))"

definition importMonitors ::
  "(string \<Rightarrow> string) \<Rightarrow> 's cstore \<Rightarrow> FileServer \<Rightarrow> bool \<Rightarrow> string set \<Rightarrow> 's importer \<Rightarrow> ((err + unit) \<times> 's importer) option" where
  "importMonitors q B srv serverExists grps im =
     then_run (reading (if serverExists
              then in_context (''list monitors of server '' @ fsrv_ID srv)
                (listAll (\<lambda>limit token. cListMonitors B (fsrv_ID srv) limit token (im_st im)))
              else Some (Inr [])) im) (\<lambda>ms im.
     Some (Inr (), snd (fold (import_monitor q B (fsrv_ID srv) (set (map mon_ID ms)) grps)
       (fsrv_Monitors srv) (newSeenSet, im))))"

text \<open>One server; \<open>False\<close> in the first component says that its monitors are not imported.\<close>

definition import_server ::
  "(string \<Rightarrow> string) \<Rightarrow> 's cstore \<Rightarrow> bool \<Rightarrow> FileServer \<Rightarrow> seenSet \<Rightarrow> 's importer \<Rightarrow> bool \<times> seenSet \<times> 's importer" where
  "import_server q B exists srv seen im =
     (let i = fsrv_ID srv; n = fsrv_Name srv; act = decide (opt_Mode (im_opts im)) exists False in
      case check i n False seen of (msg, seen) \<Rightarrow>
        if msg \<noteq> []
        then (False, seen, failMonitors srv ''parent server was not imported'' (failed ResourceServer i n msg im))
        else if act = actSkip then (True, seen, skipped ResourceServer i n [] im)
        else case write_unless_dry (if act = actUpdate then cUpdateServer B i (serverToStore srv)
              else cCreateServer B (serverToStore srv)) im of
            (Some e, im) \<Rightarrow> (False, seen, failMonitors srv ''parent server was not imported''
               (failed ResourceServer i n (writeMessage q e) im))
          | (None, im) \<Rightarrow> (True, seen, done_with ResourceServer act im))"

fun import_each_server ::
  "(string \<Rightarrow> string) \<Rightarrow> 's cstore \<Rightarrow> string set \<Rightarrow> string set \<Rightarrow> FileServer list \<Rightarrow> seenSet \<Rightarrow> 's importer \<Rightarrow>
    ((err + unit) \<times> 's importer) option" where
  "import_each_server q B existing grps [] seen im = Some (Inr (), im)"
| "import_each_server q B existing grps (srv # srvs) seen im =
     (case import_server q B (fsrv_ID srv \<in> existing) srv seen im of (imported, seen, im) \<Rightarrow>
        then_run (if imported then importMonitors q B srv (fsrv_ID srv \<in> existing) grps im else Some (Inr (), im)) (\<lambda>_ im.
        import_each_server q B existing grps srvs seen im))"

definition importServers ::
  "(string \<Rightarrow> string) \<Rightarrow> 's cstore \<Rightarrow> FileServer list \<Rightarrow> string set \<Rightarrow> 's importer \<Rightarrow> ((err + unit) \<times> 's importer) option" where
  "importServers q B srvs grps im =
     then_run (reading (in_context ''list servers'' (listAll (\<lambda>limit token. cListServers B [] [] limit token (im_st im)))) im) (\<lambda>existing im.
     import_each_server q B (set (map srv_ID existing)) grps srvs newSeenSet im)"

definition no_counts :: Counts where
  "no_counts = \<lparr>cnt_Created = 0, cnt_Updated = 0, cnt_Skipped = 0, cnt_Failed = 0\<rparr>"

definition new_report :: "bool \<Rightarrow> Report" where
  "new_report dry = \<lparr>rep_DryRun = dry, rep_Summary = \<lparr>sum_Settings = no_counts, sum_NotifyGroups = no_counts,
     sum_MonitorGroups = no_counts, sum_Servers = no_counts, sum_Monitors = no_counts\<rparr>, rep_Errors = []\<rparr>"

text \<open>\<open>dec\<close> is \<open>decode\<close> with its arguments; the importer holds the store and the report at the end.\<close>

definition new_importer :: "Options \<Rightarrow> 's \<Rightarrow> 's importer" where
  "new_importer opts s = \<lparr>im_st = s, im_opts = opts, im_report = new_report (opt_DryRun opts)\<rparr>"

definition Import ::
  "(string \<Rightarrow> string) \<Rightarrow> (string \<Rightarrow> err + File) \<Rightarrow> 's cstore \<Rightarrow> string \<Rightarrow> Options \<Rightarrow> 's \<Rightarrow>
    ((err + unit) \<times> 's importer) option" where
  "Import q dec B data opts s =
     (let im = new_importer opts s in
      if opt_Mode opts \<noteq> ModeMerge \<and> opt_Mode opts \<noteq> ModeUpsert then Some (Inl (invalid_input [Lit ''mode is required'']), im)
      else then_run (Some (dec data, im)) (\<lambda>f im.
        then_run (importNotifyGroups q B (fl_NotifyGroups f) (importSettings q B (fl_Settings f) im)) (\<lambda>notify im.
        then_run (importMonitorGroups q B (fl_MonitorGroups f) notify im) (\<lambda>grps im.
        importServers q B (fl_Servers f) grps im))))"

end
