(* ===== verification/ImportProps.thy ===== *)
theory ImportProps
  imports ConfigImport
begin

text \<open>
  What an import does to the store and what its report says. The locale \<open>import_writes\<close> is the contract
  of the store's writing calls with respect to a relation on its states; with equality it says that a
  dry run writes nothing, with \<open>keeps_documents\<close> that merging never touches what is there. Counting
  goes by totals: every item of the file is counted exactly once.
\<close>

section \<open>The writes of a run\<close>

lemma importer_simps [simp]:
  "im_st (failed res i n msg im) = im_st im" "im_opts (failed res i n msg im) = im_opts im"
  "im_st (skipped res i n msg im) = im_st im" "im_opts (skipped res i n msg im) = im_opts im"
  "im_st (done_with res act im) = im_st im" "im_opts (done_with res act im) = im_opts im"
  by (simp_all add: failed_def skipped_def done_with_def Let_def)

lemma failMonitors_simps [simp]:
  "im_st (failMonitors srv msg im) = im_st im" "im_opts (failMonitors srv msg im) = im_opts im"
proof -
  have "im_st (fold (\<lambda>m. failed ResourceMonitor (fmon_ID m) (fmon_Name m) msg) ms im) = im_st im \<and>
      im_opts (fold (\<lambda>m. failed ResourceMonitor (fmon_ID m) (fmon_Name m) msg) ms im) = im_opts im" for ms
    by (induction ms arbitrary: im) simp_all
  from this [of "fsrv_Monitors srv"] show "im_st (failMonitors srv msg im) = im_st im" "im_opts (failMonitors srv msg im) = im_opts im"
    by (simp_all add: failMonitors_def)
qed

lemma new_importer_simps [simp]: "im_st (new_importer opts s) = s" "im_opts (new_importer opts s) = opts"
  by (simp_all add: new_importer_def)

lemma decide_update: "decide mode exists conflict = actUpdate \<Longrightarrow> mode \<noteq> ModeMerge"
  by (auto simp: decide_def split: if_splits)

lemma snd_forget [simp]: "snd (forget p) = snd p"
  by (simp add: forget_def split: prod.split)

lemma then_run_cases:
  assumes "then_run p k = Some (r, s')"
  obtains (stop) e where "p = Some (Inl e, s')" "r = Inl e" | (step) a s where "p = Some (Inr a, s)" "k a s = Some (r, s')"
  using assms by (auto simp: then_run_def split: option.splits sum.splits)

lemma reading_cases:
  assumes "then_run (reading p s) k = Some (r, s')"
  obtains (stop) "s' = s" | (step) a where "k a s = Some (r, s')"
  using assms by (auto simp: then_run_def reading_def split: option.splits sum.splits)

locale import_writes =
  fixes B :: "'s cstore" and opts :: Options and R :: "'s \<Rightarrow> 's \<Rightarrow> bool"
  assumes R_refl: "R s s" and R_trans: "R s t \<Longrightarrow> R t u \<Longrightarrow> R s u"
    and create: "\<not> opt_DryRun opts \<Longrightarrow> R s (snd (cCreateNotifyGroup B g s))"
      "\<not> opt_DryRun opts \<Longrightarrow> R s (snd (cCreateMonitorGroup B h s))"
      "\<not> opt_DryRun opts \<Longrightarrow> R s (snd (cCreateServer B x s))"
      "\<not> opt_DryRun opts \<Longrightarrow> R s (snd (cCreateMonitor B sid m s))"
    and update: "\<not> opt_DryRun opts \<Longrightarrow> opt_Mode opts \<noteq> ModeMerge \<Longrightarrow> R s (snd (cUpdateSettings B y s))"
      "\<not> opt_DryRun opts \<Longrightarrow> opt_Mode opts \<noteq> ModeMerge \<Longrightarrow> R s (snd (cUpdateNotifyGroup B i g s))"
      "\<not> opt_DryRun opts \<Longrightarrow> opt_Mode opts \<noteq> ModeMerge \<Longrightarrow> R s (snd (cUpdateMonitorGroup B i h s))"
      "\<not> opt_DryRun opts \<Longrightarrow> opt_Mode opts \<noteq> ModeMerge \<Longrightarrow> R s (snd (cUpdateServer B i x s))"
      "\<not> opt_DryRun opts \<Longrightarrow> opt_Mode opts \<noteq> ModeMerge \<Longrightarrow> R s (snd (cUpdateMonitor B sid i m s))"

context import_writes begin

definition goes :: "'s importer \<Rightarrow> 's importer \<Rightarrow> bool" where
  "goes im im' \<longleftrightarrow> (im_opts im = opts \<longrightarrow> im_opts im' = opts \<and> R (im_st im) (im_st im'))"

lemma goes_refl: "im_st im' = im_st im \<Longrightarrow> im_opts im' = im_opts im \<Longrightarrow> goes im im'"
  by (simp add: goes_def R_refl)

lemma goes_trans: "goes im im' \<Longrightarrow> goes im' im'' \<Longrightarrow> goes im im''"
  using R_trans by (auto simp: goes_def)

lemma goes_report [simp]:
  "goes im (failed res i n msg im') = goes im im'" "goes im (skipped res i n msg im') = goes im im'"
  "goes im (done_with res act im') = goes im im'" "goes im (failMonitors srv msg im') = goes im im'"
  "goes im (im'\<lparr>im_report := rep\<rparr>) = goes im im'"
  by (simp_all add: goes_def)

lemma write_goes:
  assumes "write_unless_dry f im = (err, im')"
    and "\<not> opt_DryRun opts \<Longrightarrow> im_opts im = opts \<Longrightarrow> R (im_st im) (snd (f (im_st im)))"
  shows "goes im im'"
  using assms by (auto simp: write_unless_dry_def goes_def R_refl split: if_splits prod.splits)

lemma settings_goes: "goes im (importSettings q B fs im)"
proof (cases fs)
  case (Some x)
  show ?thesis
  proof (cases "opt_Mode (im_opts im) = ModeMerge")
    case False
    obtain err im' where w: "write_unless_dry (cUpdateSettings B (settingsToStore x)) im = (err, im')" by fastforce
    have "goes im im'" using write_goes [OF w] update(1) False by auto
    with Some False w show ?thesis by (cases err) (simp_all add: importSettings_def)
  qed (simp add: Some importSettings_def goes_refl)
qed (simp add: importSettings_def goes_refl)

text \<open>The loop over groups, for a specification whose writes are allowed.\<close>

lemma group_item_goes:
  assumes "\<And>t s. \<not> opt_DryRun opts \<Longrightarrow> R s (snd (gs_create spec t s))"
    and "\<And>t s. \<not> opt_DryRun opts \<Longrightarrow> opt_Mode opts \<noteq> ModeMerge \<Longrightarrow> R s (snd (gs_update spec t s))"
    and "import_group_item q spec existing item (seen, available, im) = (seen', available', im')"
  shows "goes im im'"
proof -
  let ?owner = "name_owner existing (gs_name spec item)"
  let ?act = "decide (opt_Mode (im_opts im)) (gs_id spec item \<in> set (map fst existing))
    (?owner \<noteq> None \<and> ?owner \<noteq> Some (gs_id spec item))"
  obtain err im1 where w: "write_unless_dry (gs_write spec item ?act) im = (err, im1)" by fastforce
  have im1: "goes im im1"
  proof (rule write_goes [OF w])
    assume "\<not> opt_DryRun opts" "im_opts im = opts"
    with assms(1,2) decide_update show "R (im_st im) (snd (gs_write spec item ?act (im_st im)))"
      by (auto simp: gs_write_def)
  qed
  show ?thesis
    using assms(3) w im1 goes_refl [of im im] unfolding import_group_item_def Let_def
    by (cases err; cases ?act) (auto split: prod.splits if_splits)
qed

lemma groups_goes:
  assumes "\<And>t s. \<not> opt_DryRun opts \<Longrightarrow> R s (snd (gs_create spec t s))"
    and "\<And>t s. \<not> opt_DryRun opts \<Longrightarrow> opt_Mode opts \<noteq> ModeMerge \<Longrightarrow> R s (snd (gs_update spec t s))"
    and "importGroups q spec existing items im = (available, im')"
  shows "goes im im'"
proof -
  have "goes (snd (snd st)) (snd (snd (fold (import_group_item q spec existing) items st)))" for st
  proof (induction items arbitrary: st)
    case (Cons x xs)
    obtain seen av im1 where st: "st = (seen, av, im1)" by (cases st)
    obtain st' where st': "import_group_item q spec existing x st = st'" by simp
    have "goes im1 (snd (snd st'))"
      using group_item_goes [OF assms(1,2)] st st' by (metis prod.collapse)
    then show ?case using Cons.IH [of st'] st st' goes_trans by auto
  qed (simp add: goes_refl)
  from this [of "(newSeenSet, set (map fst existing), im)"] assms(3) show ?thesis
    by (simp add: importGroups_def)
qed

lemma notify_goes:
  assumes "importNotifyGroups q B grps im = Some (r, im')"
  shows "goes im im'"
proof -
  have ops: "\<not> opt_DryRun opts \<Longrightarrow> R s (snd (gs_create (notify_spec B) t s))"
    "\<not> opt_DryRun opts \<Longrightarrow> opt_Mode opts \<noteq> ModeMerge \<Longrightarrow> R s (snd (gs_update (notify_spec B) t s))" for s t
    using create(1) update(2) by (simp_all add: notify_spec_def)
  from assms consider "im' = im" | existing available where
    "importGroups q (notify_spec B) existing grps im = (available, im')"
    unfolding importNotifyGroups_def by (rule reading_cases) (auto split: prod.splits)
  then show ?thesis by cases (use goes_refl groups_goes [OF ops] in auto)
qed

lemma monitor_groups_goes:
  assumes "importMonitorGroups q B grps notify im = Some (r, im')"
  shows "goes im im'"
proof -
  let ?spec = "monitor_group_spec q B notify"
  have ops: "\<not> opt_DryRun opts \<Longrightarrow> R s (snd (gs_create ?spec t s))"
    "\<not> opt_DryRun opts \<Longrightarrow> opt_Mode opts \<noteq> ModeMerge \<Longrightarrow> R s (snd (gs_update ?spec t s))" for s t
    using create(2) update(3) by (simp_all add: monitor_group_spec_def)
  from assms consider "im' = im" | existing available where
    "importGroups q ?spec existing grps im = (available, im')"
    unfolding importMonitorGroups_def by (rule reading_cases) (auto split: prod.splits)
  then show ?thesis by cases (use goes_refl groups_goes [OF ops] in auto)
qed

lemma monitor_goes:
  assumes "import_monitor q B sid existing grps m (seen, im) = (seen', im')"
  shows "goes im im'"
proof -
  let ?act = "decide (opt_Mode (im_opts im)) (fmon_ID m \<in> existing) False"
  let ?f = "if ?act = actUpdate then cUpdateMonitor B sid (fmon_ID m) (monitorToStore m sid)
    else cCreateMonitor B sid (monitorToStore m sid)"
  obtain err im1 where w: "write_unless_dry ?f im = (err, im1)" by fastforce
  have im1: "goes im im1"
  proof (rule write_goes [OF w])
    assume "\<not> opt_DryRun opts" "im_opts im = opts"
    then show "R (im_st im) (snd (?f (im_st im)))"
      using create(4) update(5) decide_update by auto
  qed
  have "im_st im' = im_st im \<and> im_opts im' = im_opts im \<or> (\<exists>msg. im' = failed ResourceMonitor (fmon_ID m) (fmon_Name m) msg im1) \<or>
      im' = done_with ResourceMonitor ?act im1"
    using assms w unfolding import_monitor_def Let_def
    by (cases err) (auto split: prod.splits if_splits)
  with im1 show ?thesis by (auto intro: goes_refl)
qed

lemma monitors_goes:
  assumes "importMonitors q B srv ex grps im = Some (r, im')"
  shows "goes im im'"
proof -
  have fold: "goes (snd st) (snd (fold (import_monitor q B sid existing grps) ms st))" for sid existing ms st
  proof (induction ms arbitrary: st)
    case (Cons m ms)
    have "goes (snd st) (snd (import_monitor q B sid existing grps m st))"
      using monitor_goes by (metis prod.collapse)
    then show ?case using Cons.IH goes_trans by auto
  qed (simp add: goes_refl)
  from assms consider "im' = im" | existing where
    "im' = snd (fold (import_monitor q B (fsrv_ID srv) existing grps) (fsrv_Monitors srv) (newSeenSet, im))"
    unfolding importMonitors_def by (rule reading_cases) auto
  then show ?thesis by cases (use goes_refl fold [of "(newSeenSet, im)"] in auto)
qed

lemma server_goes:
  assumes "import_server q B exists srv seen im = (imported, seen', im')"
  shows "goes im im'"
proof -
  let ?act = "decide (opt_Mode (im_opts im)) exists False"
  let ?f = "if ?act = actUpdate then cUpdateServer B (fsrv_ID srv) (serverToStore srv)
    else cCreateServer B (serverToStore srv)"
  obtain err im1 where w: "write_unless_dry ?f im = (err, im1)" by fastforce
  have im1: "goes im im1"
  proof (rule write_goes [OF w])
    assume "\<not> opt_DryRun opts" "im_opts im = opts"
    then show "R (im_st im) (snd (?f (im_st im)))"
      using create(3) update(4) decide_update by auto
  qed
  have "im_st im' = im_st im \<and> im_opts im' = im_opts im \<or>
      (\<exists>x y msg. im' = failMonitors srv x (failed ResourceServer (fsrv_ID srv) (fsrv_Name srv) msg im1)) \<or>
      im' = done_with ResourceServer ?act im1"
    using assms w unfolding import_server_def Let_def
    by (cases err) (auto split: prod.splits if_splits)
  with im1 show ?thesis by (auto intro: goes_refl)
qed

lemma each_server_goes: "import_each_server q B existing grps srvs seen im = Some (r, im') \<Longrightarrow> goes im im'"
proof (induction srvs arbitrary: seen im)
  case Nil
  then show ?case by (simp add: goes_refl)
next
  case (Cons srv srvs)
  obtain imported seen1 im1 where
    s: "import_server q B (fsrv_ID srv \<in> existing) srv seen im = (imported, seen1, im1)"
    by (cases "import_server q B (fsrv_ID srv \<in> existing) srv seen im")
  obtain r2 im2 where m: "(if imported then importMonitors q B srv (fsrv_ID srv \<in> existing) grps im1
      else Some (Inr (), im1)) = Some (r2, im2)"
    using Cons.prems s by (auto simp: then_run_def split: option.splits if_splits)
  then have "goes im1 im2" using monitors_goes by (auto simp: goes_refl split: if_splits)
  moreover have "goes im2 im'"
  proof (cases r2)
    case (Inl e)
    then have "im' = im2" using Cons.prems s m by (simp add: then_run_def)
    then show ?thesis by (simp add: goes_refl)
  next
    case (Inr u)
    then have "import_each_server q B existing grps srvs seen1 im2 = Some (r, im')"
      using Cons.prems s m by (simp add: then_run_def)
    then show ?thesis by (rule Cons.IH)
  qed
  ultimately show ?case using server_goes [OF s] goes_trans by blast
qed

lemma servers_goes:
  assumes "importServers q B srvs grps im = Some (r, im')" shows "goes im im'"
  using assms unfolding importServers_def by (rule reading_cases) (auto simp: goes_refl each_server_goes)

lemma import_goes:
  assumes "Import q dec B data opts s = Some (r, im)"
  shows "R s (im_st im) \<and> im_opts im = opts"
proof -
  have "goes (new_importer opts s) im"
  proof (cases "\<exists>f. (opt_Mode opts = ModeMerge \<or> opt_Mode opts = ModeUpsert) \<and> dec data = Inr f")
    case False
    then have "im = new_importer opts s"
      using assms by (cases "dec data") (auto simp: Import_def then_run_def Let_def split: if_splits)
    then show ?thesis by (simp add: goes_refl)
  next
    case True
    then obtain f where f: "dec data = Inr f" by blast
    let ?im = "importSettings q B (fl_Settings f) (new_importer opts s)"
    have run: "then_run (importNotifyGroups q B (fl_NotifyGroups f) ?im) (\<lambda>notify im.
        then_run (importMonitorGroups q B (fl_MonitorGroups f) notify im) (\<lambda>grps im.
        importServers q B (fl_Servers f) grps im)) = Some (r, im)"
      using assms True f by (auto simp: Import_def Let_def then_run_def split: if_splits)
    from run show ?thesis
    proof (cases rule: then_run_cases)
      case (stop e)
      then show ?thesis using notify_goes settings_goes goes_trans by blast
    next
      case (step notify im1)
      then have a: "goes (new_importer opts s) im1" using notify_goes settings_goes goes_trans by blast
      from step(2) show ?thesis
      proof (cases rule: then_run_cases)
        case (stop e)
        then show ?thesis using monitor_groups_goes [OF stop(1)] a goes_trans by blast
      next
        case (step grps im2)
        then show ?thesis
          using goes_trans [OF a goes_trans [OF monitor_groups_goes [OF step(1)] servers_goes [OF step(2)]]] by blast
      qed
    qed
  qed
  then show ?thesis by (simp add: goes_def)
qed

end

text \<open>Whatever the store, a dry run writes nothing; whatever the mode, some relation is preserved.\<close>

interpretation dry_run: import_writes "mongo_backend M K now uuid" "\<lparr>opt_Mode = mode, opt_DryRun = True\<rparr>" "(=)"
  for M K now uuid mode
  by unfold_locales simp_all

section \<open>Merging\<close>

text \<open>The writing calls of a merge insert one document into one collection, or do nothing.\<close>

lemma snd_name_taken [simp]: "snd (name_taken e p) = snd p"
  by (cases p; cases "fst p") (auto simp: name_taken_def)

lemma snd_then_return [simp]: "snd (and_then p (\<lambda>x s. (Inr (f x), s))) = snd p"
  by (cases p; cases "fst p") simp_all

lemma create_notify_write:
  "\<exists>d. snd (CreateNotifyGroup M now uuid g s) = snd (on_notifyGroups (InsertOne (notifyGroups M) d) s)"
  by (auto simp: CreateNotifyGroup_def Let_def)

lemma create_group_write:
  "snd (CreateMonitorGroup M now uuid g s) = s \<or>
   (\<exists>d. snd (CreateMonitorGroup M now uuid g s) = snd (on_groups (InsertOne (groups M) d) s))"
  by (cases "validateNotifyGroupIDs M (ap_NotifyGroupIDs (grp_AlertPolicy g)) s") (auto simp: CreateMonitorGroup_def Let_def)

lemma create_server_write:
  "\<exists>d. snd (CreateServer M now uuid x s) = snd (on_servers (InsertOne (servers M) d) s)"
  by (auto simp: CreateServer_def Let_def)

lemma create_monitor_write:
  "snd (CreateMonitor M now uuid sid m s) = s \<or>
   (\<exists>d. snd (CreateMonitor M now uuid sid m s) = snd (on_monitors (InsertOne (monitors M) d) s))"
  by (cases "GetServer M sid s"; cases "validateGroupIDs M (mon_GroupIDs m) s") (auto simp: CreateMonitor_def Let_def)

locale config_collections =
  ngs: mongo_collection "notifyGroups M" ndocs notifyGroups_clash nok +
  grs: mongo_collection "groups M" gdocs groups_clash gok +
  srvs: mongo_collection "servers M" sdocs servers_clash sok +
  mons: mongo_collection "monitors M" mdocs monitors_clash mok
  for M :: "'c mongo" and ndocs :: "'c \<Rightarrow> NotifyGroup multiset" and nok and gdocs :: "'c \<Rightarrow> MonitorGroup multiset" and gok
    and sdocs :: "'c \<Rightarrow> Server multiset" and sok and mdocs :: "'c \<Rightarrow> Monitor multiset" and mok

context config_collections begin

definition cols_ok :: "'c db \<Rightarrow> bool" where
  "cols_ok s \<longleftrightarrow> nok (st_notifyGroups s) \<and> gok (st_groups s) \<and> sok (st_servers s) \<and> mok (st_monitors s)"

definition only_adds :: "'c db \<Rightarrow> 'c db \<Rightarrow> bool" where
  "only_adds s s' \<longleftrightarrow> cols_ok s' \<and>
     ndocs (st_notifyGroups s) \<subseteq># ndocs (st_notifyGroups s') \<and> gdocs (st_groups s) \<subseteq># gdocs (st_groups s') \<and>
     sdocs (st_servers s) \<subseteq># sdocs (st_servers s') \<and> mdocs (st_monitors s) \<subseteq># mdocs (st_monitors s') \<and>
     s' = s\<lparr>st_notifyGroups := st_notifyGroups s', st_groups := st_groups s', st_servers := st_servers s', st_monitors := st_monitors s'\<rparr>"

text \<open>The relation of a merge: as far as the collections obey their laws, documents are only added.\<close>

definition merges :: "'c db \<times> 'k \<Rightarrow> 'c db \<times> 'k \<Rightarrow> bool" where
  "merges p p' \<longleftrightarrow> snd p' = snd p \<and> (cols_ok (fst p) \<longrightarrow> only_adds (fst p) (fst p'))"

lemma rest_trans:
  fixes s t u :: "'c db"
  assumes "t = s\<lparr>st_notifyGroups := st_notifyGroups t, st_groups := st_groups t, st_servers := st_servers t, st_monitors := st_monitors t\<rparr>"
    and "u = t\<lparr>st_notifyGroups := st_notifyGroups u, st_groups := st_groups u, st_servers := st_servers u, st_monitors := st_monitors u\<rparr>"
  shows "u = s\<lparr>st_notifyGroups := st_notifyGroups u, st_groups := st_groups u, st_servers := st_servers u, st_monitors := st_monitors u\<rparr>"
  using assms by (cases s; cases t; cases u) simp

lemma only_adds_refl: "cols_ok s \<Longrightarrow> only_adds s s"
  by (simp add: only_adds_def)

lemma only_adds_trans: "only_adds s t \<Longrightarrow> only_adds t u \<Longrightarrow> only_adds s u"
  unfolding only_adds_def using rest_trans [of t s u] by (auto intro: subset_mset.order_trans)

lemma insert_adds:
  assumes "cols_ok s"
  shows "only_adds s (snd (on_notifyGroups (InsertOne (notifyGroups M) a) s))"
    and "only_adds s (snd (on_groups (InsertOne (groups M) b) s))"
    and "only_adds s (snd (on_servers (InsertOne (servers M) c) s))"
    and "only_adds s (snd (on_monitors (InsertOne (monitors M) d) s))"
proof -
  have oks: "nok (st_notifyGroups s)" "gok (st_groups s)" "sok (st_servers s)" "mok (st_monitors s)"
    using assms by (simp_all add: cols_ok_def)
  obtain r c' where i: "InsertOne (notifyGroups M) a (st_notifyGroups s) = (r, c')" by fastforce
  have "ndocs (st_notifyGroups s) \<subseteq># ndocs c'" by (cases rule: ngs.insert_cases [OF oks(1) i]) simp_all
  with ngs.insert_ok [OF oks(1) i] assms i
  show "only_adds s (snd (on_notifyGroups (InsertOne (notifyGroups M) a) s))"
    by (simp add: only_adds_def cols_ok_def on_notifyGroups_def)
  obtain r c' where i: "InsertOne (groups M) b (st_groups s) = (r, c')" by fastforce
  have "gdocs (st_groups s) \<subseteq># gdocs c'" by (cases rule: grs.insert_cases [OF oks(2) i]) simp_all
  with grs.insert_ok [OF oks(2) i] assms i
  show "only_adds s (snd (on_groups (InsertOne (groups M) b) s))"
    by (simp add: only_adds_def cols_ok_def on_groups_def)
  obtain r c' where i: "InsertOne (servers M) c (st_servers s) = (r, c')" by fastforce
  have "sdocs (st_servers s) \<subseteq># sdocs c'" by (cases rule: srvs.insert_cases [OF oks(3) i]) simp_all
  with srvs.insert_ok [OF oks(3) i] assms i
  show "only_adds s (snd (on_servers (InsertOne (servers M) c) s))"
    by (simp add: only_adds_def cols_ok_def on_servers_def)
  obtain r c' where i: "InsertOne (monitors M) d (st_monitors s) = (r, c')" by fastforce
  have "mdocs (st_monitors s) \<subseteq># mdocs c'" by (cases rule: mons.insert_cases [OF oks(4) i]) simp_all
  with mons.insert_ok [OF oks(4) i] assms i
  show "only_adds s (snd (on_monitors (InsertOne (monitors M) d) s))"
    by (simp add: only_adds_def cols_ok_def on_monitors_def)
qed

lemma merge_contract:
  fixes K :: "('k, Settings) coll"
  shows "import_writes (mongo_backend M K now uuid) \<lparr>opt_Mode = ModeMerge, opt_DryRun = False\<rparr> merges"
proof
  have on: "merges s (snd (on_db f s))" if "cols_ok (fst s) \<Longrightarrow> only_adds (fst s) (snd (f (fst s)))" for f s
    using that by (auto simp: merges_def on_db_def split: prod.split)
  fix s t u :: "'c db \<times> 'k"
  show "merges s s" by (simp add: merges_def only_adds_refl)
  show "merges s t \<Longrightarrow> merges t u \<Longrightarrow> merges s u"
    by (auto simp: merges_def dest: only_adds_trans) (simp add: only_adds_def)
  fix g h x sid m
  show "merges s (snd (cCreateNotifyGroup (mongo_backend M K now uuid) g s))"
    using create_notify_write [of M now uuid g "fst s"] insert_adds(1) by (auto simp: mongo_backend_def intro!: on)
  show "merges s (snd (cCreateMonitorGroup (mongo_backend M K now uuid) h s))"
    using create_group_write [of M now uuid h "fst s"] insert_adds(2) only_adds_refl
    by (auto simp: mongo_backend_def intro!: on)
  show "merges s (snd (cCreateServer (mongo_backend M K now uuid) x s))"
    using create_server_write [of M now uuid x "fst s"] insert_adds(3) by (auto simp: mongo_backend_def intro!: on)
  show "merges s (snd (cCreateMonitor (mongo_backend M K now uuid) sid m s))"
    using create_monitor_write [of M now uuid sid m "fst s"] insert_adds(4) only_adds_refl
    by (auto simp: mongo_backend_def intro!: on)
qed simp_all

end

interpretation mem_config_collections: config_collections mem_mongo "mem_docs un_DNotify" "mem_ok notifyGroups_clash un_DNotify"
  "mem_docs un_DGroup" "mem_ok groups_clash un_DGroup" "mem_docs un_DServer" "mem_ok servers_clash un_DServer"
  "mem_docs un_DMonitor" "mem_ok monitors_clash un_DMonitor"
  by unfold_locales

interpretation merge_run: import_writes "mongo_backend mem_mongo K now uuid" "\<lparr>opt_Mode = ModeMerge, opt_DryRun = False\<rparr>"
  mem_config_collections.merges
  for K now uuid
  by (rule mem_config_collections.merge_contract)

section \<open>Counting\<close>

fun counts_of :: "resource \<Rightarrow> Summary \<Rightarrow> Counts" where
  "counts_of ResourceSettings s = sum_Settings s"
| "counts_of ResourceNotifyGroup s = sum_NotifyGroups s"
| "counts_of ResourceMonitorGroup s = sum_MonitorGroups s"
| "counts_of ResourceServer s = sum_Servers s"
| "counts_of ResourceMonitor s = sum_Monitors s"

definition entries :: "resource \<Rightarrow> Report \<Rightarrow> u32" where
  "entries res r = (let c = counts_of res (rep_Summary r) in cnt_Created c + cnt_Updated c + cnt_Skipped c + cnt_Failed c)"

lemma counts_at: "counts_of r (at_counts res f s) = (if r = res then f (counts_of r s) else counts_of r s)"
  by (cases r; cases res) simp_all

lemma total_step [simp]:
  "entries r (im_report (failed res i n msg im)) = entries r (im_report im) + of_bool (r = res)"
  "entries r (im_report (skipped res i n msg im)) = entries r (im_report im) + of_bool (r = res)"
  "entries r (im_report (done_with res act im)) = entries r (im_report im) + of_bool (r = res)"
  by (simp_all add: entries_def failed_def skipped_def done_with_def bump_def add_issue_def counts_at Let_def)

lemma total_write: "write_unless_dry f im = (err, im') \<Longrightarrow> im_report im' = im_report im"
  by (auto simp: write_unless_dry_def split: if_splits prod.splits)

lemma total_failMonitors [simp]:
  "entries r (im_report (failMonitors srv msg im)) = entries r (im_report im) + of_bool (r = ResourceMonitor) * of_nat (length (fsrv_Monitors srv))"
proof -
  have "entries r (im_report (fold (\<lambda>m. failed ResourceMonitor (fmon_ID m) (fmon_Name m) msg) ms im)) =
      entries r (im_report im) + of_bool (r = ResourceMonitor) * of_nat (length ms)" for ms
    by (induction ms arbitrary: im) (simp_all add: algebra_simps)
  from this [of "fsrv_Monitors srv"] show ?thesis by (simp add: failMonitors_def)
qed

lemma settings_total:
  "entries r (im_report (importSettings q B fs im)) = entries r (im_report im) + of_bool (r = ResourceSettings \<and> fs \<noteq> None)"
proof (cases fs)
  case (Some x)
  obtain err im' where w: "write_unless_dry (cUpdateSettings B (settingsToStore x)) im = (err, im')" by fastforce
  note rep = total_write [OF w]
  from Some w rep show ?thesis
    by (cases err; cases r)
      (simp_all add: importSettings_def, simp_all add: entries_def bump_def Let_def)
qed (simp add: importSettings_def)

lemma group_item_total:
  assumes "import_group_item q spec existing item (seen, available, im) = (seen', available', im')"
  shows "entries r (im_report im') = entries r (im_report im) + of_bool (r = gs_resource spec)"
proof -
  let ?owner = "name_owner existing (gs_name spec item)"
  let ?act = "decide (opt_Mode (im_opts im)) (gs_id spec item \<in> set (map fst existing))
    (?owner \<noteq> None \<and> ?owner \<noteq> Some (gs_id spec item))"
  obtain err im1 where w: "write_unless_dry (gs_write spec item ?act) im = (err, im1)" by fastforce
  show ?thesis
    using assms w total_write [OF w] unfolding import_group_item_def Let_def
    by (cases err; cases ?act) (auto split: prod.splits if_splits)
qed

lemma groups_total:
  assumes "importGroups q spec existing items im = (available, im')"
  shows "entries r (im_report im') = entries r (im_report im) + of_bool (r = gs_resource spec) * of_nat (length items)"
proof -
  have "entries r (im_report (snd (snd (fold (import_group_item q spec existing) items st)))) =
      entries r (im_report (snd (snd st))) + of_bool (r = gs_resource spec) * of_nat (length items)" for st
  proof (induction items arbitrary: st)
    case (Cons x xs)
    have "entries r (im_report (snd (snd (import_group_item q spec existing x st)))) =
        entries r (im_report (snd (snd st))) + of_bool (r = gs_resource spec)"
      by (metis group_item_total prod.collapse)
    then show ?case using Cons.IH by (simp add: algebra_simps)
  qed simp
  from this [of "(newSeenSet, set (map fst existing), im)"] assms show ?thesis by (simp add: importGroups_def)
qed

lemma monitor_total:
  assumes "import_monitor q B sid existing grps m (seen, im) = (seen', im')"
  shows "entries r (im_report im') = entries r (im_report im) + of_bool (r = ResourceMonitor)"
proof -
  let ?act = "decide (opt_Mode (im_opts im)) (fmon_ID m \<in> existing) False"
  let ?f = "if ?act = actUpdate then cUpdateMonitor B sid (fmon_ID m) (monitorToStore m sid)
    else cCreateMonitor B sid (monitorToStore m sid)"
  obtain err im1 where w: "write_unless_dry ?f im = (err, im1)" by fastforce
  show ?thesis
    using assms w total_write [OF w] unfolding import_monitor_def Let_def
    by (cases err) (auto split: prod.splits if_splits)
qed

lemma monitors_total:
  assumes "importMonitors q B srv ex grps im = Some (Inr u, im')"
  shows "entries r (im_report im') = entries r (im_report im) + of_bool (r = ResourceMonitor) * of_nat (length (fsrv_Monitors srv))"
proof -
  have fold: "entries r (im_report (snd (fold (import_monitor q B sid existing grps) ms st))) =
      entries r (im_report (snd st)) + of_bool (r = ResourceMonitor) * of_nat (length ms)" for sid existing ms st
  proof (induction ms arbitrary: st)
    case (Cons m ms)
    have "entries r (im_report (snd (import_monitor q B sid existing grps m st))) =
        entries r (im_report (snd st)) + of_bool (r = ResourceMonitor)"
      by (metis monitor_total prod.collapse)
    then show ?case using Cons.IH by (simp add: algebra_simps)
  qed simp
  from assms obtain existing where
    "im' = snd (fold (import_monitor q B (fsrv_ID srv) existing grps) (fsrv_Monitors srv) (newSeenSet, im))"
    unfolding importMonitors_def by (auto simp: then_run_def reading_def split: option.splits sum.splits)
  with fold [of "fsrv_ID srv" existing "fsrv_Monitors srv" "(newSeenSet, im)"] show ?thesis by simp
qed

lemma server_total:
  assumes "import_server q B exists srv seen im = (imported, seen', im')"
  shows "entries r (im_report im') = entries r (im_report im) + of_bool (r = ResourceServer) +
    (if imported then 0 else of_bool (r = ResourceMonitor) * of_nat (length (fsrv_Monitors srv)))"
proof -
  let ?act = "decide (opt_Mode (im_opts im)) exists False"
  let ?f = "if ?act = actUpdate then cUpdateServer B (fsrv_ID srv) (serverToStore srv)
    else cCreateServer B (serverToStore srv)"
  obtain err im1 where w: "write_unless_dry ?f im = (err, im1)" by fastforce
  show ?thesis
    using assms w total_write [OF w] unfolding import_server_def Let_def
    by (cases err) (auto split: prod.splits if_splits)
qed

definition monitor_count :: "FileServer list \<Rightarrow> nat" where
  "monitor_count srvs = sum_list (map (\<lambda>x. length (fsrv_Monitors x)) srvs)"

lemma each_server_total:
  "import_each_server q B existing grps srvs seen im = Some (Inr u, im') \<Longrightarrow>
   entries r (im_report im') = entries r (im_report im) + of_bool (r = ResourceServer) * of_nat (length srvs) +
     of_bool (r = ResourceMonitor) * of_nat (monitor_count srvs)"
proof (induction srvs arbitrary: seen im)
  case Nil
  then show ?case by (simp add: monitor_count_def)
next
  case (Cons srv srvs)
  obtain imported seen1 im1 where
    s: "import_server q B (fsrv_ID srv \<in> existing) srv seen im = (imported, seen1, im1)"
    by (cases "import_server q B (fsrv_ID srv \<in> existing) srv seen im")
  obtain u2 im2 where m: "(if imported then importMonitors q B srv (fsrv_ID srv \<in> existing) grps im1
      else Some (Inr (), im1)) = Some (Inr u2, im2)" and
    rest: "import_each_server q B existing grps srvs seen1 im2 = Some (Inr u, im')"
    using Cons.prems s by (auto simp: then_run_def split: option.splits sum.splits if_splits)
  have "entries r (im_report im2) = entries r (im_report im1) +
      (if imported then of_bool (r = ResourceMonitor) * of_nat (length (fsrv_Monitors srv)) else 0)"
  proof (cases imported)
    case True
    with m have "importMonitors q B srv (fsrv_ID srv \<in> existing) grps im1 = Some (Inr u2, im2)" by simp
    from monitors_total [OF this, of r] True show ?thesis by simp
  qed (use m in simp)
  with Cons.IH [OF rest] server_total [OF s, of r] show ?case
    by (simp add: monitor_count_def algebra_simps split: if_splits)
qed

lemma import_total:
  assumes "Import q dec B data opts s = Some (Inr u, im)"
  shows "\<exists>f. dec data = Inr f \<and>
    entries ResourceSettings (im_report im) = of_bool (fl_Settings f \<noteq> None) \<and>
    entries ResourceNotifyGroup (im_report im) = of_nat (length (fl_NotifyGroups f)) \<and>
    entries ResourceMonitorGroup (im_report im) = of_nat (length (fl_MonitorGroups f)) \<and>
    entries ResourceServer (im_report im) = of_nat (length (fl_Servers f)) \<and>
    entries ResourceMonitor (im_report im) = of_nat (monitor_count (fl_Servers f))"
proof -
  obtain f where f: "dec data = Inr f"
    using assms by (cases "dec data") (auto simp: Import_def then_run_def Let_def split: if_splits)
  let ?im = "importSettings q B (fl_Settings f) (new_importer opts s)"
  obtain notify im1 grps im2 where
    n: "importNotifyGroups q B (fl_NotifyGroups f) ?im = Some (Inr notify, im1)" and
    g: "importMonitorGroups q B (fl_MonitorGroups f) notify im1 = Some (Inr grps, im2)" and
    v: "importServers q B (fl_Servers f) grps im2 = Some (Inr u, im)"
    using assms f by (auto simp: Import_def Let_def then_run_def split: option.splits sum.splits if_splits)
  obtain ex where n': "importGroups q (notify_spec B) ex (fl_NotifyGroups f) ?im = (notify, im1)"
    using n by (auto simp: importNotifyGroups_def then_run_def reading_def split: option.splits sum.splits prod.splits)
  obtain ex' where g': "importGroups q (monitor_group_spec q B notify) ex' (fl_MonitorGroups f) im1 = (grps, im2)"
    using g by (auto simp: importMonitorGroups_def then_run_def reading_def split: option.splits sum.splits prod.splits)
  obtain ex'' where v': "import_each_server q B ex'' grps (fl_Servers f) newSeenSet im2 = Some (Inr u, im)"
    using v by (auto simp: importServers_def then_run_def reading_def split: option.splits sum.splits prod.splits)
  have z: "entries r (im_report (new_importer opts s)) = 0" for r
    by (cases r) (simp_all add: entries_def new_importer_def new_report_def no_counts_def)
  have spec: "gs_resource (notify_spec B) = ResourceNotifyGroup" "gs_resource (monitor_group_spec q B notify) = ResourceMonitorGroup"
    by (simp_all add: notify_spec_def monitor_group_spec_def)
  have "entries r (im_report im) = of_bool (r = ResourceSettings \<and> fl_Settings f \<noteq> None) +
      of_bool (r = ResourceNotifyGroup) * of_nat (length (fl_NotifyGroups f)) +
      of_bool (r = ResourceMonitorGroup) * of_nat (length (fl_MonitorGroups f)) +
      of_bool (r = ResourceServer) * of_nat (length (fl_Servers f)) +
      of_bool (r = ResourceMonitor) * of_nat (monitor_count (fl_Servers f))" for r
    unfolding each_server_total [OF v'] groups_total [OF g'] groups_total [OF n'] settings_total z spec by simp
  with f show ?thesis by simp
qed


text \<open>The witnesses import one new server into the sample database.\<close>

lemma mem_listAll:
  "int (length (view project c)) + 400 \<le> max_int64 \<Longrightarrow>
   listAll (\<lambda>limit token. findPage (mem_coll inject project clash) P limit token le c) =
     Some (Inr (sort_docs le (filter P (view project c))))"
proof -
  assume bound: "int (length (view project c)) + 400 \<le> max_int64"
  let ?xs = "sort_docs le (filter P (view project c))"
  have "length ?xs = length (filter P (view project c))" by (metis mset_sort_docs size_mset)
  then have "length ?xs \<le> length (view project c)" using length_filter_le [of P "view project c"] by simp
  then have "listAllFrom (\<lambda>limit token. findPage (mem_coll inject project clash) P limit token le c) [] [] =
      Some (Inr ([] @ drop (nat 0) ?xs))"
    using bound by (intro listing_collects [OF mem_enumerates]) (simp_all add: parsePageToken_def)
  then show ?thesis by (simp add: listAll_def)
qed

definition sample_file :: File where
  "sample_file = \<lparr>fl_Version = 1, fl_ExportedAt = 0, fl_Settings = None, fl_NotifyGroups = [], fl_MonitorGroups = [],
     fl_Servers = [\<lparr>fsrv_ID = ''srv_9'', fsrv_Name = ''n'', fsrv_Host = [], fsrv_Environment = [], fsrv_Region = [],
       fsrv_Tags = [], fsrv_SortOrder = 0, fsrv_Enabled = True, fsrv_SSH = None, fsrv_Monitors = []\<rparr>]\<rparr>"

abbreviation "sample_settings_coll \<equiv> (mem_coll id Some settings_clash :: (Settings list, Settings) coll)"

abbreviation "sample_import \<equiv> Import (\<lambda>x. x) (\<lambda>_. Inr sample_file) (mongo_backend mem_mongo sample_settings_coll 1 ''u'')
  [] \<lparr>opt_Mode = ModeMerge, opt_DryRun = False\<rparr> (sample_servers_db, [])"

lemma trim_samples [simp]: "trim_space ''srv_9'' = ''srv_9''" "trim_space ''n'' = ''n''"
  by code_simp+

lemma mem_insert:
  "InsertOne (mem_coll inject project clash) d c =
    (if \<exists>x \<in> set (view project c). clash x d then (Inl ErrDuplicateKey, c) else (Inr (), c @ [inject d]))"
  by (simp add: mem_coll_def)

lemma sample_import_runs: "\<exists>im. sample_import = Some (Inr (), im)"
  by (simp add: Import_def new_importer_def sample_file_def importSettings_def importNotifyGroups_def
    importMonitorGroups_def importServers_def importGroups_def mongo_backend_def ListNotifyGroups_def
    ListMonitorGroups_def ListServers_def mem_listAll sample_servers_db_def empty_db_def max_int64_def
    then_run_def reading_def in_context_def import_server_def check_def newSeenSet_def decide_def ModeMerge_def
    sample_server_def sort_docs_def write_unless_dry_def on_db_def CreateServer_def serverToStore_def on_servers_def
    mem_insert servers_clash_def importMonitors_def Let_def)

section \<open>Properties\<close>

text \<open>
  C23: an import writes what its mode allows and no more: a dry run leaves the store exactly as it was,
  and a merge keeps the settings and every stored document as they are and only adds new notify groups,
  monitor groups, servers and monitors, also when it stops with an error half way.
\<close>

theorem import_respects_mode:
  assumes "config_collections M ndocs nok gdocs gok sdocs sok mdocs mok"
    and "nok (st_notifyGroups s)" "gok (st_groups s)" "sok (st_servers s)" "mok (st_monitors s)"
    and "Import q dec (mongo_backend M K now uuid) data \<lparr>opt_Mode = mode, opt_DryRun = dry\<rparr> (s, k) = Some (r, im)"
  shows "(dry \<longrightarrow> im_st im = (s, k)) \<and>
    (mode = ModeMerge \<longrightarrow> snd (im_st im) = k \<and>
       ndocs (st_notifyGroups s) \<subseteq># ndocs (st_notifyGroups (fst (im_st im))) \<and>
       gdocs (st_groups s) \<subseteq># gdocs (st_groups (fst (im_st im))) \<and>
       sdocs (st_servers s) \<subseteq># sdocs (st_servers (fst (im_st im))) \<and>
       mdocs (st_monitors s) \<subseteq># mdocs (st_monitors (fst (im_st im))))"
proof (cases dry)
  case True
  then show ?thesis using dry_run.import_goes assms(6) by (metis fst_conv snd_conv subset_mset.order_refl)
next
  case False
  note defs = config_collections.merges_def [OF assms(1)] config_collections.only_adds_def [OF assms(1)]
    config_collections.cols_ok_def [OF assms(1)]
  show ?thesis
  proof (cases "mode = ModeMerge")
    case True
    with False assms(6) have
      "config_collections.merges ndocs nok gdocs gok sdocs sok mdocs mok (s, k) (im_st im)"
      using import_writes.import_goes [OF config_collections.merge_contract [OF assms(1), of K now uuid]] by simp
    with False assms(2-5) show ?thesis unfolding defs by auto
  qed (use False in simp)
qed

lemma sample_import_store_ok:
  "mem_ok notifyGroups_clash un_DNotify (st_notifyGroups sample_servers_db)"
  "mem_ok groups_clash un_DGroup (st_groups sample_servers_db)"
  "mem_ok servers_clash un_DServer (st_servers sample_servers_db)"
  "mem_ok monitors_clash un_DMonitor (st_monitors sample_servers_db)"
  by (simp_all add: sample_servers_db_def empty_db_def pairwise_mset_add servers_clash_def sample_server_def)

theorem import_respects_mode_witness:
  "\<exists>im. sample_import = Some (Inr (), im) \<and> snd (im_st im) = [] \<and>
     mem_docs un_DServer (st_servers sample_servers_db) \<subseteq># mem_docs un_DServer (st_servers (fst (im_st im)))"
proof -
  obtain im where im: "sample_import = Some (Inr (), im)" using sample_import_runs by blast
  from import_respects_mode [OF mem_config_collections.config_collections_axioms sample_import_store_ok im] im
  show ?thesis by simp
qed

text \<open>
  An import that ends without an error has accounted for every item of the file exactly once: for
  each kind of resource the items created, updated, skipped and failed add up to the items in the
  file, the monitors of servers that were not imported included (modulo the range of the counters).
\<close>

theorem import_counts_every_item:
  assumes "Import q dec B data opts s = Some (Inr u, im)"
  shows "\<exists>f. dec data = Inr f \<and>
    entries ResourceSettings (im_report im) = of_bool (fl_Settings f \<noteq> None) \<and>
    entries ResourceNotifyGroup (im_report im) = of_nat (length (fl_NotifyGroups f)) \<and>
    entries ResourceMonitorGroup (im_report im) = of_nat (length (fl_MonitorGroups f)) \<and>
    entries ResourceServer (im_report im) = of_nat (length (fl_Servers f)) \<and>
    entries ResourceMonitor (im_report im) = of_nat (monitor_count (fl_Servers f))"
  by (rule import_total [OF assms])

theorem import_counts_every_item_witness:
  "\<exists>im. sample_import = Some (Inr (), im) \<and> entries ResourceServer (im_report im) = 1"
proof -
  obtain im where im: "sample_import = Some (Inr (), im)" using sample_import_runs by blast
  from import_counts_every_item [OF im] im show ?thesis by (auto simp: sample_file_def)
qed

end
