(* ===== verification/AuditTrail.thy ===== *)
theory AuditTrail
  imports Redis
begin

text \<open>
  The audit log of internal/store/store.go. Entries are only ever inserted; the collection is an
  argument.
\<close>

record AuditLog =
  aud_ID :: string
  aud_Source :: string
  aud_ActorID :: string
  aud_ActorEmail :: string
  aud_TokenPrefix :: string
  aud_Action :: string
  aud_ResourceType :: string
  aud_ResourceID :: string
  aud_Method :: string
  aud_Path :: string
  aud_StatusCode :: int
  aud_Success :: bool
  aud_Error :: string
  aud_DurationMS :: int
  aud_RemoteIP :: string
  aud_UserAgent :: string
  aud_Metadata :: "string \<rightharpoonup> string"
  aud_OccurredAt :: gotime

record AuditLogFilter =
  af_Source :: string
  af_Action :: string
  af_ResourceType :: string
  af_ResourceID :: string
  af_ActorEmail :: string
  af_TokenPrefix :: string
  af_Success :: "bool option"
  af_StartTime :: "gotime option"
  af_EndTime :: "gotime option"

definition SaveAuditLog :: "('c, AuditLog) coll \<Rightarrow> gotime \<Rightarrow> string \<Rightarrow> AuditLog \<Rightarrow> 'c \<Rightarrow> (err + unit) \<times> 'c" where
  "SaveAuditLog A now uuid entry c =
     (let entry = (if aud_ID entry = [] then entry\<lparr>aud_ID := ''aud_'' @ uuid\<rparr> else entry);
          entry = (if aud_OccurredAt entry = zero_time then entry\<lparr>aud_OccurredAt := now\<rparr> else entry)
      in InsertOne A entry c)"

text \<open>An empty string or a nil pointer of the filter selects everything.\<close>

definition wanted :: "string \<Rightarrow> string \<Rightarrow> bool" where
  "wanted pattern value \<longleftrightarrow> pattern = [] \<or> value = pattern"

definition audit_matches :: "AuditLogFilter \<Rightarrow> AuditLog \<Rightarrow> bool" where
  "audit_matches f x \<longleftrightarrow>
     wanted (af_Source f) (aud_Source x) \<and> wanted (af_Action f) (aud_Action x) \<and>
     wanted (af_ResourceType f) (aud_ResourceType x) \<and> wanted (af_ResourceID f) (aud_ResourceID x) \<and>
     wanted (af_ActorEmail f) (aud_ActorEmail x) \<and> wanted (af_TokenPrefix f) (aud_TokenPrefix x) \<and>
     (case af_Success f of None \<Rightarrow> True | Some b \<Rightarrow> aud_Success x = b) \<and>
     in_period (af_StartTime f) (af_EndTime f) (aud_OccurredAt x)"

definition ListAuditLogs ::
  "('c, AuditLog) coll \<Rightarrow> AuditLogFilter \<Rightarrow> int \<Rightarrow> string \<Rightarrow> 'c \<Rightarrow> err + (AuditLog list \<times> string)" where
  "ListAuditLogs A f limit pageToken c =
     findPage A (audit_matches f) limit pageToken (\<lambda>x y. aud_OccurredAt y \<le> aud_OccurredAt x) c"

text \<open>The collection has no unique index but the one on \<open>_id\<close>, which the driver fills in.\<close>

definition audit_clash :: "AuditLog \<Rightarrow> AuditLog \<Rightarrow> bool" where
  "audit_clash x y \<longleftrightarrow> False"

text \<open>The entry \<open>x\<close> is logged, or nothing is.\<close>

definition logged :: "('c \<Rightarrow> AuditLog multiset) \<Rightarrow> AuditLog \<Rightarrow> 'c \<Rightarrow> 'c \<Rightarrow> bool" where
  "logged docs x c c' \<longleftrightarrow> docs c' = docs c \<or> docs c' = add_mset x (docs c)"

locale audit_store =
  mongo_collection A docs audit_clash ok
  for A :: "('c, AuditLog) coll" and docs :: "'c \<Rightarrow> AuditLog multiset" and ok :: "'c \<Rightarrow> bool"

context audit_store begin

lemma save_audit_log:
  assumes "ok c" and "SaveAuditLog A now uuid entry c = (res, c')" and "aud_ID entry = []" and "aud_OccurredAt entry \<noteq> zero_time"
  shows "ok c' \<and> logged docs (entry\<lparr>aud_ID := ''aud_'' @ uuid\<rparr>) c c' \<and>
    (res = Inr () \<longrightarrow> docs c' = add_mset (entry\<lparr>aud_ID := ''aud_'' @ uuid\<rparr>) (docs c))"
proof -
  have ins: "InsertOne A (entry\<lparr>aud_ID := ''aud_'' @ uuid\<rparr>) c = (res, c')"
    using assms(2-4) by (simp add: SaveAuditLog_def)
  show ?thesis
    using insert_ok [OF assms(1) ins] insert_done [OF assms(1)] insert_error [OF assms(1)] ins
    unfolding logged_def by (cases res) fastforce+
qed

end

text \<open>A log in memory.\<close>

abbreviation mem_audit :: "(AuditLog list, AuditLog) coll" where
  "mem_audit \<equiv> mem_coll id Some audit_clash"

interpretation mem_audit_log: reliable_collection mem_audit "mem_docs Some" audit_clash "mem_ok audit_clash Some"
  by (rule mem_collection) (simp_all add: audit_clash_def)

interpretation mem_audit: audit_store mem_audit "mem_docs Some" "mem_ok audit_clash Some"
  by unfold_locales

end
