(* ===== verification/Access.thy ===== *)
theory Access
  imports AuditTrail Sessions
begin

text \<open>
  Who may call the API: the interceptors of internal/connectapi around every handler. A handler is a
  function of the session in its context; an interceptor is a function of the handler. The state is
  the Redis server, what else the handlers use, and the audit log. The session that the
  authentication attaches is also returned beside the reply: it is what the code's session holder
  passes out to the audit. \<open>ce_text\<close> is \<open>Error()\<close> of a Connect error, \<open>sess\<close> the arguments of \<open>GetSession\<close>.
\<close>

section \<open>Errors of the protocol\<close>

datatype code =
    CodeInvalidArgument | CodeDeadlineExceeded | CodeNotFound | CodeAlreadyExists | CodePermissionDenied
  | CodeResourceExhausted | CodeFailedPrecondition | CodeUnimplemented | CodeUnavailable | CodeUnauthenticated | CodeInternal

record connect_error =
  ce_Code :: code
  ce_Err :: err

definition NewError :: "code \<Rightarrow> string \<Rightarrow> connect_error" where
  "NewError c message = \<lparr>ce_Code = c, ce_Err = Opaque message\<rparr>"

definition internalError :: connect_error where
  "internalError = NewError CodeInternal ''internal error''"

definition is_any :: "err \<Rightarrow> err list \<Rightarrow> bool" where
  "is_any e targets \<longleftrightarrow> list_ex (errors_is e) targets"

definition toConnectError :: "(string \<Rightarrow> string) \<Rightarrow> err \<Rightarrow> connect_error" where
  "toConnectError q e =
    (if IsNotFound e then NewError CodeNotFound ''not found''
     else if errors_is e (StoreE ErrInvalidCredentials) then NewError CodeUnauthenticated ''invalid email or password''
     else if is_any e (map StoreE [ErrGroupNameTaken, ErrNotifyGroupNameTaken, ErrDNSProviderAccountNameTaken,
         ErrCertificateIssuerNameTaken, ErrManagedCertificateNameTaken, ErrCertificateAccessTokenNameTaken])
       then \<lparr>ce_Code = CodeAlreadyExists, ce_Err = e\<rparr>
     else if is_any e (map StoreE [ErrInvalidGroupIDs, ErrInvalidNotifyGroupIDs, ErrInvalidServerIDs])
       then \<lparr>ce_Code = CodeInvalidArgument, ce_Err = e\<rparr>
     else if is_any e (map StoreE [ErrInvalidDNSProvider, ErrInvalidPropagationTimeout] @
         map CertE [ErrTokenRequired, ErrManagedCertificateNameRequired, ErrInvalidDomains, ErrTooManyDomains,
           ErrInvalidKeyType, ErrCertificateIssuerRequired, ErrDNSAccountRequired])
       then \<lparr>ce_Code = CodeInvalidArgument, ce_Err = e\<rparr>
     else if is_any e (StoreE ErrInvalidCertificateIssuerCAType #
         map CertE [ErrIssuerNameRequired, ErrIssuerEmailRequired, ErrTermsOfServiceRequired, ErrEABRequired,
           ErrCustomDirectoryRequired, ErrInvalidDirectoryURL, ErrIssuerRegistrationPending, ErrIssuerNotReady])
       then \<lparr>ce_Code = CodeInvalidArgument, ce_Err = e\<rparr>
     else if is_any e (map CertE [ErrIssueFieldsLocked, ErrIssuerAccountURIRequired])
       then \<lparr>ce_Code = CodeFailedPrecondition, ce_Err = e\<rparr>
     else if is_any e (map CertE [ErrNoActiveVersion, ErrIssuanceOperationInFlight])
       then \<lparr>ce_Code = CodeFailedPrecondition, ce_Err = e\<rparr>
     else if is_any e (map StoreE [ErrManagedCertificateHasServerAssignments, ErrManagedCertificateOperationInFlight,
         ErrCertificateResourceReferenced, ErrVersionRevokePending])
       then \<lparr>ce_Code = CodeFailedPrecondition, ce_Err = e\<rparr>
     else if errors_is e (CertE ErrInvalidRevocationReason) then \<lparr>ce_Code = CodeInvalidArgument, ce_Err = e\<rparr>
     else if errors_is e (CertE ErrCertificateNotAuthorized) then NewError CodeNotFound ''not found''
     else if errors_is e (CertE ErrBundleNotAvailable) then \<lparr>ce_Code = CodeFailedPrecondition, ce_Err = e\<rparr>
     else if errors_is e (StoreE ErrVersionRevoked) then \<lparr>ce_Code = CodeFailedPrecondition, ce_Err = e\<rparr>
     else if errors_is e (StoreE ErrVersionNotFound) then \<lparr>ce_Code = CodeNotFound, ce_Err = e\<rparr>
     else if errors_is e (StoreE ErrCertificateIssuerNotRetryable) then \<lparr>ce_Code = CodeFailedPrecondition, ce_Err = e\<rparr>
     else if errors_is e (CertE ErrCloudflareTokenInvalid) then \<lparr>ce_Code = CodeInvalidArgument, ce_Err = e\<rparr>
     else if error_text q e = ''invalid page_token'' then \<lparr>ce_Code = CodeInvalidArgument, ce_Err = e\<rparr>
     else internalError)"

text \<open>\<open>auditStatusCode\<close> of the error of a reply, \<open>None\<close> for none.\<close>

definition auditStatusCode :: "connect_error option \<Rightarrow> int" where
  "auditStatusCode e =
     (case e of None \<Rightarrow> 200
      | Some x \<Rightarrow>
         (case ce_Code x of
            CodeInvalidArgument \<Rightarrow> 400
          | CodeUnauthenticated \<Rightarrow> 401
          | CodePermissionDenied \<Rightarrow> 403
          | CodeNotFound \<Rightarrow> 404
          | CodeAlreadyExists \<Rightarrow> 409
          | CodeFailedPrecondition \<Rightarrow> 412
          | CodeResourceExhausted \<Rightarrow> 429
          | CodeUnavailable \<Rightarrow> 503
          | CodeDeadlineExceeded \<Rightarrow> 504
          | _ \<Rightarrow> 500))"

section \<open>Requests and procedures\<close>

text \<open>
  \<open>rq_Getter\<close> are the string getters that the generated type of the message has, with their values.
\<close>

record Request =
  rq_Procedure :: string
  rq_Authorization :: string
  rq_UserAgent :: string
  rq_Peer :: string
  rq_Getter :: "string \<rightharpoonup> string"

definition bearerToken :: "string \<Rightarrow> string" where
  "bearerToken header =
     (let prefix = ''Bearer '' in
      if length prefix < length header \<and> equal_fold (take (length prefix) header) prefix
      then trim_space (drop (length prefix) header) else [])"

definition publicProcedures :: "string list" where
  "publicProcedures = [''/neoline.v1.AuthService/Login'', ''/neoline.v1.StatusService/GetStatusOverview'',
     ''/neoline.v1.SettingsService/GetSettings'']"

text \<open>The parts before and after the last \<open>sep\<close>: \<open>strings.LastIndex\<close> and the slices around it.\<close>

definition cut_last :: "char \<Rightarrow> string \<Rightarrow> (string \<times> string) option" where
  "cut_last sep s = map_option (\<lambda>(a, b). (rev b, rev a)) (cut_on sep (rev s))"

definition splitProcedure :: "string \<Rightarrow> string \<times> string" where
  "splitProcedure procedure =
     (let trimmed = trim_prefix procedure ''/'' in
      case cut_last (CHR ''/'') trimmed of
        None \<Rightarrow> ([], trimmed)
      | Some (svc, meth) \<Rightarrow>
          (case cut_last (CHR ''.'') svc of None \<Rightarrow> svc | Some (_, svc) \<Rightarrow> svc, meth))"

definition adminProcedureExempt :: "string list" where
  "adminProcedureExempt = [''AuthService'']"

definition requiresAdmin :: "string \<Rightarrow> bool" where
  "requiresAdmin procedure =
     (case splitProcedure procedure of (service, meth) \<Rightarrow>
        if service \<in> set adminProcedureExempt then False
        else if service \<in> set [''SshService'', ''McpTokenService'', ''DataService'', ''CertificateAccessTokenService'',
             ''DNSProviderAccountService'', ''CertificateIssuerService'', ''ManagedCertificateService''] then True
        else has_prefix meth ''Create'' \<or> has_prefix meth ''Update'' \<or> has_prefix meth ''Delete'')"

section \<open>Authentication\<close>

definition authInterceptor ::
  "(string \<Rightarrow> err + Session) \<Rightarrow> 'r redis \<Rightarrow> gotime \<Rightarrow> gotime \<Rightarrow>
    (Session option \<Rightarrow> 'r \<times> 's \<Rightarrow> (connect_error + 'b) \<times> 'r \<times> 's) \<Rightarrow> Request \<Rightarrow> 'r \<times> 's \<Rightarrow>
    (Session option \<times> (connect_error + 'b)) \<times> 'r \<times> 's" where
  "authInterceptor unmarshal R now at handler rq w =
     (let procedure = rq_Procedure rq in
      if procedure \<in> set publicProcedures then (case handler None w of (res, w) \<Rightarrow> ((None, res), w))
      else let token = bearerToken (rq_Authorization rq) in
      if token = [] then ((None, Inl (NewError CodeUnauthenticated ''missing bearer token'')), w)
      else case GetSession unmarshal R now at token (fst w) of
        (Inl e, r) \<Rightarrow> ((None, Inl (if IsNotFound e then NewError CodeUnauthenticated ''invalid or expired token''
            else internalError)), (r, snd w))
      | (Inr session, r) \<Rightarrow>
          if requiresAdmin procedure \<and> ses_Role session \<noteq> RoleAdmin
          then ((None, Inl (NewError CodePermissionDenied ''admin role required'')), (r, snd w))
          else (case handler (Some session) (r, snd w) of (res, w) \<Rightarrow> ((Some session, res), w)))"

section \<open>Audit\<close>

definition auditAction :: "string \<Rightarrow> string" where
  "auditAction procedure =
     (let meth = snd (splitProcedure procedure) in
      if has_prefix meth ''Create'' \<or> meth = ''Login'' then ''create''
      else if has_prefix meth ''Update'' then ''update''
      else if has_prefix meth ''Delete'' \<or> meth = ''Logout'' then ''delete''
      else if meth = ''ExportConfig'' then ''export''
      else if meth = ''ImportConfig'' then ''import''
      else ''read'')"

definition resource_types :: "(string \<times> string) list" where
  "resource_types = [(''AuditLogService'', ''audit_log''), (''AuthService'', ''auth''), (''SettingsService'', ''settings''),
     (''ServerService'', ''server''), (''MonitorService'', ''monitor''), (''MonitorGroupService'', ''monitor_group''),
     (''NotifyGroupService'', ''notify_group''), (''DNSProviderAccountService'', ''dns_provider_account''),
     (''CertificateIssuerService'', ''certificate_issuer''), (''ManagedCertificateService'', ''managed_certificate''),
     (''McpTokenService'', ''mcp_token''), (''CertificateAccessTokenService'', ''certificate_access_token''),
     (''SshService'', ''ssh''), (''DataService'', ''config'')]"

definition auditResourceType :: "string \<Rightarrow> string" where
  "auditResourceType procedure =
     (case map_of resource_types (fst (splitProcedure procedure)) of None \<Rightarrow> [] | Some t \<Rightarrow> t)"

definition auditResourceID :: "(string \<rightharpoonup> string) \<Rightarrow> string" where
  "auditResourceID getter =
     (let values = map (\<lambda>g. case getter g of None \<Rightarrow> [] | Some v \<Rightarrow> v)
        [''GetMonitorId'', ''GetServerId'', ''GetId'', ''GetGroupId'', ''GetNotifyGroupId'', ''GetDnsProviderAccountId'',
         ''GetCertificateIssuerId'', ''GetManagedCertificateId'', ''GetTokenId'']
      in case find (\<lambda>v. v \<noteq> []) values of None \<Rightarrow> [] | Some v \<Rightarrow> v)"

definition reply_error :: "connect_error + 'b \<Rightarrow> connect_error option" where
  "reply_error res = (case res of Inl e \<Rightarrow> Some e | Inr _ \<Rightarrow> None)"

definition audit_entry ::
  "(connect_error \<Rightarrow> string) \<Rightarrow> gotime \<Rightarrow> gotime \<Rightarrow> Request \<Rightarrow> Session option \<Rightarrow> connect_error + 'b \<Rightarrow> AuditLog" where
  "audit_entry ce_text start stop rq session res =
     \<lparr>aud_ID = [], aud_Source = ''api'',
      aud_ActorID = (case session of None \<Rightarrow> [] | Some s \<Rightarrow> ses_UserID s),
      aud_ActorEmail = (case session of None \<Rightarrow> [] | Some s \<Rightarrow> ses_Email s),
      aud_TokenPrefix = [], aud_Action = auditAction (rq_Procedure rq),
      aud_ResourceType = auditResourceType (rq_Procedure rq), aud_ResourceID = auditResourceID (rq_Getter rq),
      aud_Method = ''POST'', aud_Path = rq_Procedure rq, aud_StatusCode = auditStatusCode (reply_error res),
      aud_Success = (reply_error res = None),
      aud_Error = (case reply_error res of None \<Rightarrow> [] | Some e \<Rightarrow> ce_text e),
      aud_DurationMS = milliseconds (time_sub stop start), aud_RemoteIP = rq_Peer rq, aud_UserAgent = rq_UserAgent rq,
      aud_Metadata = Map.empty, aud_OccurredAt = start\<rparr>"

definition auditInterceptor ::
  "(connect_error \<Rightarrow> string) \<Rightarrow> ('a, AuditLog) coll \<Rightarrow> gotime \<Rightarrow> gotime \<Rightarrow> string \<Rightarrow>
    (Request \<Rightarrow> 'w \<Rightarrow> (Session option \<times> (connect_error + 'b)) \<times> 'w) \<Rightarrow> Request \<Rightarrow> 'w \<times> 'a \<Rightarrow>
    (connect_error + 'b) \<times> 'w \<times> 'a" where
  "auditInterceptor ce_text A start stop uuid inner rq state =
     (case state of (w, a) \<Rightarrow>
      case inner rq w of ((session, res), w) \<Rightarrow>
        (res, (w, snd (SaveAuditLog A stop uuid (audit_entry ce_text start stop rq session res) a))))"

text \<open>The chain that \<open>Register\<close> mounts: the audit is outermost.\<close>

definition serve ::
  "(connect_error \<Rightarrow> string) \<Rightarrow> ('a, AuditLog) coll \<Rightarrow> (string \<Rightarrow> err + Session) \<Rightarrow> 'r redis \<Rightarrow> gotime \<Rightarrow> gotime \<Rightarrow> gotime \<Rightarrow> gotime \<Rightarrow>
    string \<Rightarrow> (Session option \<Rightarrow> 'r \<times> 's \<Rightarrow> (connect_error + 'b) \<times> 'r \<times> 's) \<Rightarrow> Request \<Rightarrow> ('r \<times> 's) \<times> 'a \<Rightarrow>
    (connect_error + 'b) \<times> ('r \<times> 's) \<times> 'a" where
  "serve ce_text A unmarshal R start now at stop uuid handler =
     auditInterceptor ce_text A start stop uuid (authInterceptor unmarshal R now at handler)"

section \<open>No handler without a login\<close>

definition new_session :: "gotime \<Rightarrow> string \<Rightarrow> User \<Rightarrow> Session" where
  "new_session now token user =
     \<lparr>ses_Token = token, ses_UserID = usr_ID user, ses_Email = usr_Email user, ses_Role = usr_Role user,
      ses_CreatedAt = now, ses_ExpiresAt = now + SessionTTL\<rparr>"

text \<open>A session key holds what some login has stored there.\<close>

definition logged_in :: "(Session \<Rightarrow> string) \<Rightarrow> redis_call list \<Rightarrow> string \<Rightarrow> entry option \<Rightarrow> bool" where
  "logged_in marshal cs token e \<longleftrightarrow> (\<forall>v x. e = Some (v, x) \<longrightarrow>
     (\<exists>now at user. CallCreateSession now at (Inr token) user \<in> set cs \<and>
        v = marshal (new_session now token user) \<and> x = Some (at + SessionTTL)))"

lemma logged_in_simps [simp]:
  "logged_in marshal cs token None"
  "CallCreateSession now at (Inr token) user \<in> set cs \<Longrightarrow>
     logged_in marshal cs token (Some (marshal (new_session now token user), Some (at + SessionTTL)))"
  by (auto simp: logged_in_def)

lemma logged_in_mono: "logged_in marshal cs token e \<Longrightarrow> logged_in marshal (cs @ [c]) token e"
  by (simp add: logged_in_def) blast

context redis_server begin

lemma create_session_entry:
  "entry_of (snd (CreateSession marshal R now at t user r)) (sessionKey token) = entry_of r (sessionKey token) \<or>
   t = Inr token \<and> entry_of (snd (CreateSession marshal R now at t user r)) (sessionKey token) =
     Some (marshal (new_session now token user), Some (at + SessionTTL))"
proof (cases t)
  case (Inr u)
  let ?v = "marshal (new_session now u user)"
  obtain err r1 where set: "RSet R at (sessionKey u) ?v SessionTTL r = (err, r1)"
    by (cases "RSet R at (sessionKey u) ?v SessionTTL r")
  then have "snd (CreateSession marshal R now at t user r) = r1"
    using Inr by (simp add: CreateSession_def new_session_def split: option.split)
  moreover from set have "entry_of r1 (sessionKey token) = entry_of r (sessionKey token) \<or>
    u = token \<and> entry_of r1 (sessionKey token) = Some (?v, Some (at + SessionTTL))"
    by (cases rule: set_cases; cases "u = token") (auto simp: unchanged_def writes_def)
  ultimately show ?thesis using Inr by auto
qed (simp add: CreateSession_def)

lemma delete_key_entry:
  "entry_of (snd (RDel R at k r)) j = entry_of r j \<or> entry_of (snd (RDel R at k r)) j = None"
proof -
  obtain err r1 where d: "RDel R at k r = (err, r1)" by (cases "RDel R at k r")
  then show ?thesis by (cases rule: del_cases; cases "j = k") (simp_all add: unchanged_def writes_def)
qed

lemma session_entry_step:
  assumes "logged_in marshal cs token (entry_of r (sessionKey token))"
  shows "logged_in marshal (cs @ [c]) token (entry_of (run_redis_call marshal unmarshal R c r) (sessionKey token))"
proof -
  have mono: "logged_in marshal (cs @ [c]) token e" if "e = entry_of r (sessionKey token) \<or> e = None" for e
    using that logged_in_mono [OF assms] by auto
  show ?thesis
  proof (cases c)
    case (CallCreateSession now at t user)
    then show ?thesis
      using create_session_entry [of marshal now at t user r token] mono by auto
  next
    case (CallGetSession now at t)
    have "snd (GetSession unmarshal R now at t r) = r \<or> snd (GetSession unmarshal R now at t r) = snd (RDel R at (sessionKey t) r)"
      by (auto simp: GetSession_def split: sum.split option.split prod.split)
    then show ?thesis
      using delete_key_entry [of at "sessionKey t" r "sessionKey token"] mono CallGetSession by auto
  next
    case (CallDeleteSession at t)
    then show ?thesis
      using delete_key_entry [of at "sessionKey t" r "sessionKey token"] mono by (simp add: DeleteSession_def)
  next
    case (CallRateLimit now later key limit window)
    then show ?thesis using mono rate_limit_other_key by simp
  next
    case (CallCacheGet at key)
    then show ?thesis using mono by simp
  next
    case (CallCacheSet at key data ttl)
    obtain err r1 where "RSet R at (cacheKeyPrefix @ key) data ttl r = (err, r1)" by fastforce
    then have "entry_of r1 (sessionKey token) = entry_of r (sessionKey token)" "run_redis_call marshal unmarshal R c r = r1"
      using other_key(1) CallCacheSet by (simp_all add: CacheSet_def)
    then show ?thesis using mono by simp
  qed
qed

lemma run_redis_calls_snoc:
  "run_redis_calls marshal unmarshal R (cs @ [c]) r =
     run_redis_call marshal unmarshal R c (run_redis_calls marshal unmarshal R cs r)"
  by (induction cs arbitrary: r) simp_all

lemma sessions_come_from_logins:
  assumes "entry_of r (sessionKey token) = None"
  shows "logged_in marshal cs token (entry_of (run_redis_calls marshal unmarshal R cs r) (sessionKey token))"
proof (induction cs rule: rev_induct)
  case Nil
  then show ?case using assms by (simp add: logged_in_def)
next
  case (snoc c cs)
  then show ?case unfolding run_redis_calls_snoc by (rule session_entry_step)
qed

lemma get_session_live:
  assumes "GetSession unmarshal R now at token r = (Inr ses, r')"
  shows "\<exists>v x. live at (entry_of r (sessionKey token)) = Some (v, x) \<and> unmarshal v = Inr ses \<and> now \<le> ses_ExpiresAt ses"
proof -
  obtain v where v: "RGet R at (sessionKey token) r = Inr (Some v)"
    using assms by (auto simp: GetSession_def split: sum.splits option.splits prod.splits)
  from get [OF v] obtain x where x: "live at (entry_of r (sessionKey token)) = Some (v, x)"
    by (cases "live at (entry_of r (sessionKey token))") auto
  have "unmarshal v = Inr ses" "now \<le> ses_ExpiresAt ses"
    using assms v by (auto simp: GetSession_def split: sum.splits if_splits prod.splits)
  with x show ?thesis by blast
qed

end

lemma auth_cases:
  assumes "authInterceptor unmarshal R now at handler rq (r, s) = ((session, res), w')"
    and "rq_Procedure rq \<notin> set publicProcedures"
  obtains (refused) e r' where "session = None" "res = Inl e" "w' = (r', s)"
      "ce_Code e \<in> {CodeUnauthenticated, CodePermissionDenied, CodeInternal}"
  | (runs) ses r1 where "session = Some ses" "GetSession unmarshal R now at (bearerToken (rq_Authorization rq)) r = (Inr ses, r1)"
      "handler (Some ses) (r1, s) = (res, w')" "requiresAdmin (rq_Procedure rq) \<longrightarrow> ses_Role ses = RoleAdmin"
proof (cases "bearerToken (rq_Authorization rq) = []")
  case True
  with assms show ?thesis by (intro refused [of _ r]) (auto simp: authInterceptor_def NewError_def)
next
  case False
  obtain got r1 where g: "GetSession unmarshal R now at (bearerToken (rq_Authorization rq)) r = (got, r1)"
    by (cases "GetSession unmarshal R now at (bearerToken (rq_Authorization rq)) r")
  show ?thesis
  proof (cases got)
    case (Inl e)
    define x where "x = (if IsNotFound e then NewError CodeUnauthenticated ''invalid or expired token'' else internalError)"
    have "session = None" "res = Inl x" "w' = (r1, s)"
      using Inl False g assms by (simp_all add: authInterceptor_def x_def)
    moreover have "ce_Code x \<in> {CodeUnauthenticated, CodePermissionDenied, CodeInternal}"
      by (simp add: x_def NewError_def internalError_def)
    ultimately show ?thesis by (rule refused)
  next
    case (Inr ses)
    show ?thesis
    proof (cases "requiresAdmin (rq_Procedure rq) \<and> ses_Role ses \<noteq> RoleAdmin")
      case True
      with False Inr g assms show ?thesis
        by (intro refused [of _ r1]) (auto simp: authInterceptor_def NewError_def)
    next
      case no: False
      obtain res1 w1 where h: "handler (Some ses) (r1, s) = (res1, w1)" by (cases "handler (Some ses) (r1, s)")
      with False Inr g no assms have "session = Some ses" "res = res1" "w' = w1"
        by (simp_all add: authInterceptor_def if_not_P)
      with Inr g h no show ?thesis by (intro runs) auto
    qed
  qed
qed

text \<open>A session that is found was stored by a login, less than 24 hours ago.\<close>

lemma login_of_session:
  assumes "redis_server R entry_of"
    and "\<forall>t t' token user. CallCreateSession t t' (Inr token) user \<in> set cs \<longrightarrow>
      unmarshal (marshal (new_session t token user)) = Inr (new_session t token user)"
    and "\<forall>t. entry_of r0 (sessionKey t) = None"
    and "GetSession unmarshal R now at token (run_redis_calls marshal unmarshal R cs r0) = (Inr ses, r1)"
  obtains t t' user where "CallCreateSession t t' (Inr token) user \<in> set cs" "ses = new_session t token user"
    "now \<le> t + 24 * Hour" "at < t' + 24 * Hour"
proof -
  obtain v x where v: "live at (entry_of (run_redis_calls marshal unmarshal R cs r0) (sessionKey token)) = Some (v, x)"
    "unmarshal v = Inr ses" "now \<le> ses_ExpiresAt ses"
    using redis_server.get_session_live [OF assms(1,4)] by blast
  obtain t t' user where login: "CallCreateSession t t' (Inr token) user \<in> set cs"
    "v = marshal (new_session t token user)" "x = Some (t' + SessionTTL)"
    using redis_server.sessions_come_from_logins [OF assms(1) spec [OF assms(3)], of marshal cs token unmarshal]
      live_Some [OF v(1)] unfolding logged_in_def by blast
  have ses: "ses = new_session t token user" using v(2) login assms(2) by auto
  have "at < t' + SessionTTL" using v(1) login(3) live_Some [OF v(1)] by (auto split: if_splits)
  with login(1) ses v(3) show thesis by (intro that) (auto simp: new_session_def SessionTTL_def)
qed

text \<open>
  C24: start with no session stored and let the server handle any calls \<open>cs\<close>. A request for a procedure
  that is not public is then either refused, without a change of the handlers' state, or it carries a
  token that a login of some user among \<open>cs\<close> has issued less than 24 hours ago; the handler runs as
  that user, who is an administrator where the procedure requires one.
\<close>

theorem api_needs_login:
  assumes "redis_server R entry_of"
    and "\<forall>t t' token user. CallCreateSession t t' (Inr token) user \<in> set cs \<longrightarrow>
      unmarshal (marshal (new_session t token user)) = Inr (new_session t token user)"
    and "\<forall>t. entry_of r0 (sessionKey t) = None" and "rq_Procedure rq \<notin> set publicProcedures"
    and "authInterceptor unmarshal R now at handler rq (run_redis_calls marshal unmarshal R cs r0, s) = ((session, res), (r', s'))"
  shows "(\<exists>e. session = None \<and> res = Inl e \<and> s' = s \<and>
      ce_Code e \<in> {CodeUnauthenticated, CodePermissionDenied, CodeInternal}) \<or>
    (\<exists>ses t t' user r. session = Some ses \<and> handler (Some ses) (r, s) = (res, (r', s')) \<and>
      CallCreateSession t t' (Inr (bearerToken (rq_Authorization rq))) user \<in> set cs \<and>
      now \<le> t + 24 * Hour \<and> at < t' + 24 * Hour \<and>
      ses_UserID ses = usr_ID user \<and> ses_Email ses = usr_Email user \<and> ses_Role ses = usr_Role user \<and>
      (requiresAdmin (rq_Procedure rq) \<longrightarrow> usr_Role user = RoleAdmin))"
  using assms(5,4)
proof (cases rule: auth_cases)
  case (refused e r1)
  then show ?thesis by blast
next
  case (runs ses r1)
  obtain t t' user where "CallCreateSession t t' (Inr (bearerToken (rq_Authorization rq))) user \<in> set cs"
    "ses = new_session t (bearerToken (rq_Authorization rq)) user" "now \<le> t + 24 * Hour" "at < t' + 24 * Hour"
    using login_of_session [OF assms(1-3) runs(2)] by blast
  with runs show ?thesis by (auto simp: new_session_def)
qed

definition sample_request :: "string \<Rightarrow> Request" where
  "sample_request header = \<lparr>rq_Procedure = ''/neoline.v1.ServerService/CreateServer'', rq_Authorization = header,
     rq_UserAgent = [], rq_Peer = ''10.0.0.1:9'', rq_Getter = Map.empty\<rparr>"

text \<open>A handler that counts its calls.\<close>

definition sample_handler :: "Session option \<Rightarrow> 'r \<times> nat \<Rightarrow> (connect_error + unit) \<times> 'r \<times> nat" where
  "sample_handler session w = (Inr (), fst w, Suc (snd w))"

lemma sample_bearer: "bearerToken ''bearer t'' = ''t''"
  by code_simp

lemma sample_not_public: "rq_Procedure (sample_request h) \<notin> set publicProcedures"
  by (simp add: sample_request_def publicProcedures_def)

text \<open>The request of a logged-in administrator runs the handler once, as that user.\<close>

theorem api_needs_login_witness:
  "\<exists>w. authInterceptor (\<lambda>_. Inr sample_session) mem_redis 1 1 sample_handler (sample_request ''bearer t'')
      (run_redis_calls (\<lambda>_. ''data'') (\<lambda>_. Inr sample_session) mem_redis [CallCreateSession 0 0 (Inr ''t'') sample_user] Map.empty, 0) =
      ((Some sample_session, Inr ()), w) \<and> snd w = 1 \<and>
    ses_UserID sample_session = usr_ID sample_user \<and> usr_Role sample_user = RoleAdmin"
proof -
  let ?cs = "[CallCreateSession 0 0 (Inr ''t'') sample_user]"
  let ?r1 = "run_redis_calls (\<lambda>_. ''data'') (\<lambda>_. Inr sample_session) mem_redis ?cs Map.empty"
  have new: "new_session 0 ''t'' sample_user = sample_session"
    by (simp add: new_session_def sample_user_def sample_session_def)
  obtain r' where run: "authInterceptor (\<lambda>_. Inr sample_session) mem_redis 1 1 sample_handler
      (sample_request ''bearer t'') (?r1, 0) = ((Some sample_session, Inr ()), (r', 1))"
    using sample_not_public
    by (simp add: authInterceptor_def GetSession_def mem_redis_def CreateSession_def sample_request_def sample_bearer
      sample_session_def sample_handler_def time_units SessionTTL_def Let_def)
  have fresh: "\<forall>t. (Map.empty :: string \<rightharpoonup> entry) (sessionKey t) = None" by simp
  have codec: "\<forall>t t' token user. CallCreateSession t t' (Inr token) user \<in> set ?cs \<longrightarrow>
      Inr sample_session = (Inr (new_session t token user) :: err + Session)"
    using new by simp
  have admin: "requiresAdmin (rq_Procedure (sample_request ''bearer t''))"
    unfolding sample_request_def by code_simp
  note api_needs_login [OF mem_redis.redis_server_axioms codec fresh sample_not_public run]
  with run admin show ?thesis by auto
qed

lemma audit_entry_fields [simp]:
  "aud_ID (audit_entry ce_text start stop rq session res) = []"
  "aud_OccurredAt (audit_entry ce_text start stop rq session res) = start"
  "aud_Path (audit_entry ce_text start stop rq session res) = rq_Procedure rq"
  "aud_ActorID (audit_entry ce_text start stop rq session res) = (case session of None \<Rightarrow> [] | Some s \<Rightarrow> ses_UserID s)"
  "aud_Success (audit_entry ce_text start stop rq session res) = (\<exists>v. res = Inr v)"
  "aud_StatusCode (audit_entry ce_text start stop rq session res) = auditStatusCode (reply_error res)"
  by (auto simp: audit_entry_def reply_error_def split: sum.splits)

lemma reply_error_simps [simp]: "reply_error (Inl e) = Some e" "reply_error (Inr v) = None"
  by (simp_all add: reply_error_def)

lemma audit_status [simp]:
  "auditStatusCode (reply_error res) = 200 \<longleftrightarrow> (\<exists>v. res = Inr v)"
  "ce_Code e = CodeUnauthenticated \<Longrightarrow> auditStatusCode (Some e) = 401"
  "ce_Code e = CodePermissionDenied \<Longrightarrow> auditStatusCode (Some e) = 403"
  by (auto simp: auditStatusCode_def reply_error_def split: sum.split code.splits)

text \<open>
  Every request is answered as the authentication and the handler answer it, whatever becomes of
  the audit, and leaves one entry in the audit log unless its insertion fails: refused requests too.
  The entry names the procedure, whether the call succeeded, the status, and the user as whom the
  handler ran, which is nobody for a request that was refused.
\<close>

theorem every_call_is_audited:
  assumes "audit_store A docs ok" and "ok a" and "start \<noteq> zero_time"
    and "serve ce_text A unmarshal R start now at stop uuid handler rq (w, a) = (res, (w', a'))"
  shows "\<exists>session x. authInterceptor unmarshal R now at handler rq w = ((session, res), w') \<and>
    ok a' \<and> logged docs x a a' \<and> (\<forall>c. InsertOne A x a = (Inr (), c) \<longrightarrow> docs a' = add_mset x (docs a)) \<and>
    aud_Path x = rq_Procedure rq \<and> aud_OccurredAt x = start \<and>
    (aud_Success x \<longleftrightarrow> (\<exists>v. res = Inr v)) \<and> (aud_StatusCode x = 200 \<longleftrightarrow> (\<exists>v. res = Inr v)) \<and>
    (\<forall>e. res = Inl e \<and> ce_Code e = CodeUnauthenticated \<longrightarrow> aud_StatusCode x = 401) \<and>
    (\<forall>e. res = Inl e \<and> ce_Code e = CodePermissionDenied \<longrightarrow> aud_StatusCode x = 403) \<and>
    (case session of None \<Rightarrow> aud_ActorID x = [] | Some ses \<Rightarrow> aud_ActorID x = ses_UserID ses)"
proof -
  obtain session where inner: "authInterceptor unmarshal R now at handler rq w = ((session, res), w')"
    using assms(4) by (auto simp: serve_def auditInterceptor_def split: prod.splits)
  define e where "e = audit_entry ce_text start stop rq session res"
  define x where "x = e\<lparr>aud_ID := ''aud_'' @ uuid\<rparr>"
  obtain saved where save: "SaveAuditLog A stop uuid e a = (saved, a')"
    using assms(4) inner by (cases "SaveAuditLog A stop uuid e a") (simp add: serve_def auditInterceptor_def e_def)
  have e: "aud_ID e = []" "aud_OccurredAt e \<noteq> zero_time" using assms(3) by (simp_all add: e_def)
  note audit = audit_store.save_audit_log [OF assms(1,2) save e, folded x_def]
  have "InsertOne A x a = (saved, a')" using save e by (simp add: SaveAuditLog_def x_def)
  then have "\<forall>c. InsertOne A x a = (Inr (), c) \<longrightarrow> docs a' = add_mset x (docs a)" using audit by auto
  moreover have "aud_Path x = rq_Procedure rq" "aud_OccurredAt x = start"
    "aud_Success x \<longleftrightarrow> (\<exists>v. res = Inr v)" "aud_StatusCode x = auditStatusCode (reply_error res)"
    "aud_ActorID x = (case session of None \<Rightarrow> [] | Some s \<Rightarrow> ses_UserID s)"
    by (simp_all add: x_def e_def)
  ultimately show ?thesis
    using inner audit by (intro exI [of _ session] exI [of _ x]) (auto split: option.split)
qed

theorem every_call_is_audited_witness:
  "\<exists>x a'. serve (\<lambda>_. ''error'') mem_audit (\<lambda>_. Inr sample_session) mem_redis 0 0 0 0 ''u'' sample_handler (sample_request [])
      ((Map.empty, 0), []) = (Inl (NewError CodeUnauthenticated ''missing bearer token''), ((Map.empty, 0), a')) \<and>
    aud_StatusCode x = 401 \<and> mem_docs Some a' = {#x#}"
proof -
  have b: "bearerToken [] = []" by code_simp
  obtain a' where run: "serve (\<lambda>_. ''error'') mem_audit (\<lambda>_. Inr sample_session) mem_redis 0 0 0 0 ''u''
      (sample_handler :: Session option \<Rightarrow> (string \<rightharpoonup> entry) \<times> nat \<Rightarrow> _) (sample_request []) ((Map.empty, 0), []) =
      (Inl (NewError CodeUnauthenticated ''missing bearer token''), ((Map.empty, 0), a'))"
    using sample_not_public [of "[]"] b
    by (auto simp: serve_def auditInterceptor_def authInterceptor_def sample_request_def)
  have start: "(0 :: gotime) \<noteq> zero_time" by (simp add: zero_time_def)
  have ok: "mem_ok audit_clash Some []" by (simp add: pairwise_mset_def)
  obtain x where x: "\<forall>c. InsertOne mem_audit x [] = (Inr (), c) \<longrightarrow> mem_docs Some a' = add_mset x (mem_docs Some [])"
    "aud_StatusCode x = 401"
    using every_call_is_audited [OF mem_audit.audit_store_axioms ok start run] by (auto simp: NewError_def)
  have "\<exists>c. InsertOne mem_audit x [] = (Inr (), c)" by (simp add: mem_coll_def)
  with x have "mem_docs Some a' = {#x#}" by auto
  with run x show ?thesis by blast
qed

end
