(* ===== verification/LoginLimit.thy ===== *)
theory LoginLimit
  imports Access
begin

text \<open>
  Logging in: internal/connectapi/auth_service.go and the limiter of ratelimit.go, a map in the memory
  of the process from a key, the address as typed and the peer's host, to the failures of the current
  window. The two critical sections of an attempt are \<open>allow\<close> and then \<open>fail\<close> or \<open>reset\<close>; a run here is
  one attempt after the other. \<open>split_host\<close> is \<open>net.SplitHostPort\<close> (\<open>None\<close> for its error).
\<close>

section \<open>The limiter\<close>

record loginAttempt =
  la_count :: int
  la_windowStart :: gotime

type_synonym loginLimiter = "string \<rightharpoonup> loginAttempt"

definition loginMaxAttempts :: int where "loginMaxAttempts = 5"

definition loginWindow :: duration where "loginWindow = 15 * Minute"

definition newLoginLimiter :: loginLimiter where "newLoginLimiter = Map.empty"

definition allow :: "string \<Rightarrow> gotime \<Rightarrow> loginLimiter \<Rightarrow> bool \<times> loginLimiter" where
  "allow key now l =
     (case l key of
        None \<Rightarrow> (True, l)
      | Some entry \<Rightarrow>
          if loginWindow \<le> time_sub now (la_windowStart entry) then (True, l(key := None))
          else (la_count entry < loginMaxAttempts, l))"

definition record_failure :: "string \<Rightarrow> gotime \<Rightarrow> loginLimiter \<Rightarrow> loginLimiter" where
  "record_failure key now l =
     (case l key of
        None \<Rightarrow> l(key \<mapsto> \<lparr>la_count = 1, la_windowStart = now\<rparr>)
      | Some entry \<Rightarrow>
          if loginWindow \<le> time_sub now (la_windowStart entry)
          then l(key \<mapsto> \<lparr>la_count = 1, la_windowStart = now\<rparr>)
          else l(key \<mapsto> entry\<lparr>la_count := la_count entry + 1\<rparr>))"

definition reset_key :: "string \<Rightarrow> loginLimiter \<Rightarrow> loginLimiter" where
  "reset_key key l = l(key := None)"

section \<open>The handlers\<close>

definition limiter_key :: "(string \<Rightarrow> string) \<Rightarrow> (string \<Rightarrow> string option) \<Rightarrow> string \<Rightarrow> string \<Rightarrow> string" where
  "limiter_key ul split_host email peer =
     to_lower ul email @ ''|'' @ (case split_host peer of None \<Rightarrow> peer | Some host \<Rightarrow> host)"

text \<open>
  \<open>check\<close> is the store's \<open>Authenticate\<close> on the users, \<open>create\<close> its \<open>CreateSession\<close>; the state is the
  limiter and the Redis server.
\<close>

definition Login ::
  "(string \<Rightarrow> string) \<Rightarrow> (string \<Rightarrow> string) \<Rightarrow> (string \<Rightarrow> string option) \<Rightarrow> (string \<Rightarrow> string \<Rightarrow> err + User) \<Rightarrow>
    (User \<Rightarrow> 'r \<Rightarrow> (err + Session) \<times> 'r) \<Rightarrow> gotime \<Rightarrow> string \<Rightarrow> string \<Rightarrow> string \<Rightarrow> loginLimiter \<times> 'r \<Rightarrow>
    (connect_error + Session \<times> User) \<times> loginLimiter \<times> 'r" where
  "Login q ul split_host check create now email password peer state =
     (case state of (l, r) \<Rightarrow>
      if email = [] \<or> password = []
      then (Inl (NewError CodeInvalidArgument ''email and password are required''), (l, r))
      else let key = limiter_key ul split_host email peer in
        case allow key now l of (allowed, l) \<Rightarrow>
        if \<not> allowed then (Inl (NewError CodeResourceExhausted ''too many login attempts, try again later''), (l, r))
        else case check email password of
          Inl e \<Rightarrow> (Inl (toConnectError q e), (record_failure key now l, r))
        | Inr user \<Rightarrow>
            let l = reset_key key l in
            (case create user r of
               (Inl e, r) \<Rightarrow> (Inl (toConnectError q e), (l, r))
             | (Inr session, r) \<Rightarrow> (Inr (session, user), (l, r))))"

definition missing_token :: connect_error where
  "missing_token = NewError CodeUnauthenticated ''missing bearer token''"

definition Logout ::
  "(string \<Rightarrow> string) \<Rightarrow> 'r redis \<Rightarrow> gotime \<Rightarrow> Session option \<Rightarrow> 'r \<times> 's \<Rightarrow> (connect_error + unit) \<times> 'r \<times> 's" where
  "Logout q R at session w =
     (case session of
        None \<Rightarrow> (Inl missing_token, w)
      | Some ses \<Rightarrow>
          (case DeleteSession R at (ses_Token ses) (fst w) of
             (Some e, r) \<Rightarrow> (Inl (toConnectError q e), (r, snd w))
           | (None, r) \<Rightarrow> (Inr (), (r, snd w))))"

text \<open>The id, the address and the role.\<close>

definition GetCurrentUser :: "Session option \<Rightarrow> 'w \<Rightarrow> (connect_error + string \<times> string \<times> string) \<times> 'w" where
  "GetCurrentUser session w =
     (case session of
        None \<Rightarrow> (Inl missing_token, w)
      | Some ses \<Rightarrow> (Inr (ses_UserID ses, ses_Email ses, ses_Role ses), w))"

section \<open>A run of attempts\<close>

record attempt =
  at_now :: gotime
  at_email :: string
  at_password :: string
  at_peer :: string

text \<open>The keys of the attempts whose password was compared.\<close>

fun run_logins ::
  "(string \<Rightarrow> string) \<Rightarrow> (string \<Rightarrow> string) \<Rightarrow> (string \<Rightarrow> string option) \<Rightarrow> (string \<Rightarrow> string \<Rightarrow> err + User) \<Rightarrow>
    (User \<Rightarrow> 'r \<Rightarrow> (err + Session) \<times> 'r) \<Rightarrow> attempt list \<Rightarrow> loginLimiter \<times> 'r \<Rightarrow> string list" where
  "run_logins q ul split_host check create [] w = []"
| "run_logins q ul split_host check create (a # as) w =
     (let key = limiter_key ul split_host (at_email a) (at_peer a);
          compared = at_email a \<noteq> [] \<and> at_password a \<noteq> [] \<and> fst (allow key (at_now a) (fst w))
      in (if compared then [key] else []) @ run_logins q ul split_host check create as
           (snd (Login q ul split_host check create (at_now a) (at_email a) (at_password a) (at_peer a) w)))"

definition compared :: "string \<Rightarrow> string list \<Rightarrow> int" where
  "compared key keys = int (length (filter (\<lambda>k. k = key) keys))"

definition count_of :: "loginAttempt option \<Rightarrow> int" where
  "count_of e = (case e of None \<Rightarrow> 0 | Some x \<Rightarrow> la_count x)"

definition left :: "loginAttempt option \<Rightarrow> int" where
  "left e = max 0 (loginMaxAttempts - count_of e)"

text \<open>The window of the entry is still open at the end of an interval.\<close>

definition open_until :: "gotime \<Rightarrow> loginAttempt option \<Rightarrow> bool" where
  "open_until stop e \<longleftrightarrow> (case e of None \<Rightarrow> False | Some x \<Rightarrow> stop \<le> la_windowStart x + loginWindow)"

lemma window_over: "loginWindow \<le> time_sub now t \<longleftrightarrow> t + loginWindow \<le> now"
  by (auto simp: loginWindow_def time_sub_def time_units max_int64_def min_int64_def)

lemma compared_step [simp]:
  "compared key [] = 0"
  "compared key ((if b then [k] else []) @ keys) = (if b \<and> k = key then 1 else 0) + compared key keys"
  by (simp_all add: compared_def)

text \<open>What an attempt does to the entry of a key for which the password is wrong.\<close>

lemma login_entry:
  assumes "Login q ul split_host check create now email password peer (l, r) = (res, (l', r'))"
    and "key = limiter_key ul split_host email peer \<Longrightarrow> \<exists>e. check email password = Inl e"
  shows "key \<noteq> limiter_key ul split_host email peer \<or> email = [] \<or> password = [] \<Longrightarrow> l' key = l key"
    and "key = limiter_key ul split_host email peer \<Longrightarrow> email \<noteq> [] \<Longrightarrow> password \<noteq> [] \<Longrightarrow>
      l' key = (case l key of None \<Rightarrow> Some \<lparr>la_count = 1, la_windowStart = now\<rparr>
        | Some x \<Rightarrow> if la_windowStart x + loginWindow \<le> now then Some \<lparr>la_count = 1, la_windowStart = now\<rparr>
            else if la_count x < loginMaxAttempts then Some (x\<lparr>la_count := la_count x + 1\<rparr>) else Some x)"
proof -
  let ?k = "limiter_key ul split_host email peer"
  show "l' key = l key" if "key \<noteq> ?k \<or> email = [] \<or> password = []"
    using assms(1) that
    by (auto simp: Login_def Let_def allow_def record_failure_def reset_key_def
        split: if_splits option.splits sum.splits prod.splits)
  show "l' key = (case l key of None \<Rightarrow> Some \<lparr>la_count = 1, la_windowStart = now\<rparr>
        | Some x \<Rightarrow> if la_windowStart x + loginWindow \<le> now then Some \<lparr>la_count = 1, la_windowStart = now\<rparr>
            else if la_count x < loginMaxAttempts then Some (x\<lparr>la_count := la_count x + 1\<rparr>) else Some x)"
    if k: "key = ?k" and "email \<noteq> []" "password \<noteq> []"
  proof -
    obtain e where "check email password = Inl e" using assms(2) k by blast
    then show ?thesis
      using assms(1) that
      by (cases "l key") (auto simp: Login_def Let_def allow_def record_failure_def window_over split: if_splits)
  qed
qed

fun after_logins ::
  "(string \<Rightarrow> string) \<Rightarrow> (string \<Rightarrow> string) \<Rightarrow> (string \<Rightarrow> string option) \<Rightarrow> (string \<Rightarrow> string \<Rightarrow> err + User) \<Rightarrow>
    (User \<Rightarrow> 'r \<Rightarrow> (err + Session) \<times> 'r) \<Rightarrow> attempt list \<Rightarrow> loginLimiter \<times> 'r \<Rightarrow> loginLimiter \<times> 'r" where
  "after_logins q ul split_host check create [] w = w"
| "after_logins q ul split_host check create (a # as) w = after_logins q ul split_host check create as
     (snd (Login q ul split_host check create (at_now a) (at_email a) (at_password a) (at_peer a) w))"

definition counting :: "loginLimiter \<Rightarrow> bool" where
  "counting l \<longleftrightarrow> (\<forall>key x. l key = Some x \<longrightarrow> 1 \<le> la_count x)"

lemma login_counting:
  assumes "counting (fst w)"
  shows "counting (fst (snd (Login q ul split_host check create now email password peer w)))"
proof -
  have drop: "counting (l(key := None))" if "counting l" for key l
    using that by (simp add: counting_def)
  have allowed: "counting (snd (allow key now l))" if "counting l" for key l
    using that drop by (auto simp: allow_def split: option.splits)
  have failed: "counting (record_failure key now l)" if "counting l" for key l
    using that by (auto simp: record_failure_def counting_def split: option.splits) (smt (verit))
  show ?thesis
    using assms allowed failed drop
    by (auto simp: Login_def Let_def reset_key_def split: prod.splits sum.splits) (metis snd_conv)+
qed

lemma after_logins_counting:
  "counting (fst w) \<Longrightarrow> counting (fst (after_logins q ul split_host check create as w))"
  by (induction as arbitrary: w) (simp_all add: login_counting)

text \<open>An attempt at \<open>key\<close> within the interval, with a password that is not the account's.\<close>

definition guess :: "(string \<Rightarrow> string) \<Rightarrow> (string \<Rightarrow> string option) \<Rightarrow> (string \<Rightarrow> string \<Rightarrow> err + User) \<Rightarrow> gotime \<Rightarrow> gotime \<Rightarrow> string \<Rightarrow> attempt \<Rightarrow> bool" where
  "guess ul split_host check start stop key a \<longleftrightarrow> start \<le> at_now a \<and> at_now a < stop \<and>
     (limiter_key ul split_host (at_email a) (at_peer a) = key \<longrightarrow> (\<exists>e. check (at_email a) (at_password a) = Inl e))"

text \<open>One attempt of a run: whether the password is compared, and the entry afterwards.\<close>

lemma run_step:
  assumes "guess ul split_host check start stop key a"
  obtains l' r' b where
    "run_logins q ul split_host check create (a # as) (l, r) =
       (if b then [limiter_key ul split_host (at_email a) (at_peer a)] else []) @ run_logins q ul split_host check create as (l', r')"
    "counting l \<Longrightarrow> counting l'"
    "b \<and> limiter_key ul split_host (at_email a) (at_peer a) = key \<or> l' key = l key"
    "b \<and> limiter_key ul split_host (at_email a) (at_peer a) = key \<Longrightarrow>
       (l key = None \<or> (\<exists>x. l key = Some x \<and> la_windowStart x + loginWindow \<le> at_now a)) \<and>
         l' key = Some \<lparr>la_count = 1, la_windowStart = at_now a\<rparr> \<or>
       (\<exists>x. l key = Some x \<and> la_count x < loginMaxAttempts \<and> at_now a < la_windowStart x + loginWindow \<and>
         l' key = Some (x\<lparr>la_count := la_count x + 1\<rparr>))"
proof -
  let ?k = "limiter_key ul split_host (at_email a) (at_peer a)"
  let ?L = "Login q ul split_host check create (at_now a) (at_email a) (at_password a) (at_peer a) (l, r)"
  let ?b = "at_email a \<noteq> [] \<and> at_password a \<noteq> [] \<and> fst (allow ?k (at_now a) l)"
  obtain res l' r' where L: "?L = (res, (l', r'))" by (metis prod.collapse)
  have wrong: "key = ?k \<Longrightarrow> \<exists>e. check (at_email a) (at_password a) = Inl e" using assms by (simp add: guess_def)
  note entry = login_entry [OF L, of key, OF wrong]
  have b: "?b \<Longrightarrow> case l ?k of None \<Rightarrow> True | Some x \<Rightarrow> la_windowStart x + loginWindow \<le> at_now a \<or> la_count x < loginMaxAttempts"
    "\<not> ?b \<Longrightarrow> at_email a \<noteq> [] \<Longrightarrow> at_password a \<noteq> [] \<Longrightarrow>
       \<exists>x. l ?k = Some x \<and> at_now a < la_windowStart x + loginWindow \<and> loginMaxAttempts \<le> la_count x"
    by (auto simp: allow_def window_over split: option.splits if_splits)
  show ?thesis
  proof (rule that [of ?b l' r'])
    show "run_logins q ul split_host check create (a # as) (l, r) =
        (if ?b then [?k] else []) @ run_logins q ul split_host check create as (l', r')"
      using L by simp
    show "counting l \<Longrightarrow> counting l'"
      using login_counting [of "(l, r)" q ul split_host check create] L by (metis fst_conv snd_conv)
    show "?b \<and> ?k = key \<or> l' key = l key"
    proof (cases "?k = key \<and> at_email a \<noteq> [] \<and> at_password a \<noteq> []")
      case True
      then have "\<not> ?b \<Longrightarrow> l' key = l key" using entry(2) b(2) by force
      with True show ?thesis by blast
    next
      case False
      then show ?thesis using entry(1) by blast
    qed
    show "(l key = None \<or> (\<exists>x. l key = Some x \<and> la_windowStart x + loginWindow \<le> at_now a)) \<and>
         l' key = Some \<lparr>la_count = 1, la_windowStart = at_now a\<rparr> \<or>
       (\<exists>x. l key = Some x \<and> la_count x < loginMaxAttempts \<and> at_now a < la_windowStart x + loginWindow \<and>
         l' key = Some (x\<lparr>la_count := la_count x + 1\<rparr>))" if k: "?b \<and> ?k = key"
    proof -
      have "l' key = (case l key of None \<Rightarrow> Some \<lparr>la_count = 1, la_windowStart = at_now a\<rparr>
        | Some x \<Rightarrow> if la_windowStart x + loginWindow \<le> at_now a then Some \<lparr>la_count = 1, la_windowStart = at_now a\<rparr>
            else if la_count x < loginMaxAttempts then Some (x\<lparr>la_count := la_count x + 1\<rparr>) else Some x)"
        by (rule entry(2)) (use k in auto)
      moreover have "case l key of None \<Rightarrow> True
          | Some x \<Rightarrow> la_windowStart x + loginWindow \<le> at_now a \<or> la_count x < loginMaxAttempts"
        using b(1) [OF conjunct1 [OF k]] conjunct2 [OF k] by simp
      ultimately show ?thesis by (cases "l key") (simp_all split: if_splits)
    qed
  qed
qed

lemma open_bound:
  assumes "stop \<le> start + loginWindow" and "\<forall>a \<in> set as. guess ul split_host check start stop key a"
    and "open_until stop (l key)"
  shows "compared key (run_logins q ul split_host check create as (l, r)) \<le> left (l key)"
  using assms(2,3)
proof (induction as arbitrary: l r)
  case Nil
  then show ?case by (simp add: left_def)
next
  case (Cons a as)
  have g: "guess ul split_host check start stop key a" using Cons.prems(1) by simp
  show ?case
  proof (rule run_step [OF g, of q create as l r], goal_cases)
    case (1 l' r' b)
    have IH: "open_until stop (l' key) \<Longrightarrow>
        compared key (run_logins q ul split_host check create as (l', r')) \<le> left (l' key)"
      using Cons by simp
    show ?case
      unfolding 1(1) compared_step(2)
      using 1(3,4) IH g Cons.prems(2)
      by (cases "b \<and> limiter_key ul split_host (at_email a) (at_peer a) = key")
        (auto simp: open_until_def left_def count_of_def guess_def split: option.splits)
  qed
qed

lemma attempt_interval_bound:
  assumes "stop \<le> start + loginWindow" and "\<forall>a \<in> set as. guess ul split_host check start stop key a"
  shows "compared key (run_logins q ul split_host check create as (l, r)) \<le>
    (if l key = None then 0 else left (l key)) + loginMaxAttempts"
  using assms(2)
proof (induction as arbitrary: l r)
  case Nil
  then show ?case by (simp add: left_def loginMaxAttempts_def)
next
  case (Cons a as)
  have g: "guess ul split_host check start stop key a" using Cons.prems by simp
  show ?case
  proof (rule run_step [OF g, of q create as l r], goal_cases)
    case (1 l' r' b)
    have IH: "compared key (run_logins q ul split_host check create as (l', r')) \<le>
        (if l' key = None then 0 else left (l' key)) + loginMaxAttempts"
      using Cons by simp
    show ?case
    proof (cases "b \<and> limiter_key ul split_host (at_email a) (at_peer a) = key")
      case False
      then show ?thesis unfolding 1(1) compared_step(2) using 1(3) IH by auto
    next
      case True
      from 1(4) [OF True] show ?thesis
      proof
        assume fresh: "(l key = None \<or> (\<exists>x. l key = Some x \<and> la_windowStart x + loginWindow \<le> at_now a)) \<and>
          l' key = Some \<lparr>la_count = 1, la_windowStart = at_now a\<rparr>"
        then have "open_until stop (l' key)" using g assms(1) by (simp add: open_until_def guess_def)
        with open_bound [OF assms(1), of as ul split_host check key l' q create r'] Cons.prems
        have "compared key (run_logins q ul split_host check create as (l', r')) \<le> left (l' key)" by simp
        then show ?thesis
          unfolding 1(1) compared_step(2) using True fresh
          by (auto simp: left_def count_of_def loginMaxAttempts_def)
      next
        assume "\<exists>x. l key = Some x \<and> la_count x < loginMaxAttempts \<and> at_now a < la_windowStart x + loginWindow \<and>
          l' key = Some (x\<lparr>la_count := la_count x + 1\<rparr>)"
        then show ?thesis
          unfolding 1(1) compared_step(2) using True IH by (auto simp: left_def count_of_def)
      qed
    qed
  qed
qed


definition sample_attempt :: "gotime \<Rightarrow> attempt" where
  "sample_attempt t = \<lparr>at_now = t, at_email = ''a@b'', at_password = ''x'', at_peer = ''10.0.0.1''\<rparr>"

abbreviation "sample_logins \<equiv> run_logins id id (\<lambda>_. None) (\<lambda>_ _. Inl ErrNoDocuments) (\<lambda>_ r. (Inl ErrNoDocuments, r))"

lemma sample_step:
  "sample_logins (sample_attempt t # as) ([''a@b|10.0.0.1'' \<mapsto> \<lparr>la_count = n, la_windowStart = s\<rparr>], ()) =
     (if s + loginWindow \<le> t
      then ''a@b|10.0.0.1'' # sample_logins as ([''a@b|10.0.0.1'' \<mapsto> \<lparr>la_count = 1, la_windowStart = t\<rparr>], ())
      else if n < 5
      then ''a@b|10.0.0.1'' # sample_logins as ([''a@b|10.0.0.1'' \<mapsto> \<lparr>la_count = n + 1, la_windowStart = s\<rparr>], ())
      else sample_logins as ([''a@b|10.0.0.1'' \<mapsto> \<lparr>la_count = n, la_windowStart = s\<rparr>], ()))"
proof -
  have key: "limiter_key id (\<lambda>_. None) ''a@b'' ''10.0.0.1'' = ''a@b|10.0.0.1''" by code_simp
  show ?thesis
    by (simp add: sample_attempt_def key Login_def allow_def record_failure_def window_over loginMaxAttempts_def Let_def)
qed

lemma sample_first:
  "after_logins id id (\<lambda>_. None) (\<lambda>_ _. Inl ErrNoDocuments) (\<lambda>_ r. (Inl ErrNoDocuments, r)) [sample_attempt 0]
     (newLoginLimiter, ()) = ([''a@b|10.0.0.1'' \<mapsto> \<lparr>la_count = 1, la_windowStart = 0\<rparr>], ())"
proof -
  have key: "limiter_key id (\<lambda>_. None) ''a@b'' ''10.0.0.1'' = ''a@b|10.0.0.1''" by code_simp
  show ?thesis
    by (simp add: sample_attempt_def key Login_def allow_def record_failure_def newLoginLimiter_def Let_def)
qed


section \<open>The spelling of an address\<close>

lemma trim_leading_space: "trim_space (CHR '' '' # s) = trim_space s"
proof -
  have "strip_front space_runes (CHR '' '' # s) = Some s"
    by (simp add: space_runes_def has_prefix_def)
  then show ?thesis by (simp add: trim_space_def trim_front_def)
qed

lemma trim_leading_spaces: "trim_space (replicate k (CHR '' '') @ s) = trim_space s"
  by (induction k) (simp_all add: trim_leading_space)

lemma fresh_keys_compared:
  assumes "distinct (map (\<lambda>a. limiter_key ul split_host (at_email a) (at_peer a)) as)"
    and "\<forall>a \<in> set as. l (limiter_key ul split_host (at_email a) (at_peer a)) = None \<and> at_email a \<noteq> [] \<and> at_password a \<noteq> []"
  shows "run_logins q ul split_host check create as (l, r) = map (\<lambda>a. limiter_key ul split_host (at_email a) (at_peer a)) as"
  using assms
proof (induction as arbitrary: l r)
  case (Cons a as)
  let ?key = "\<lambda>a. limiter_key ul split_host (at_email a) (at_peer a)"
  obtain res l' r' where L: "Login q ul split_host check create (at_now a) (at_email a) (at_password a) (at_peer a) (l, r) = (res, (l', r'))"
    by (metis prod.collapse)
  have "l' k = l k" if "k \<noteq> ?key a" for k
    using L that by (auto simp: Login_def Let_def allow_def record_failure_def reset_key_def
        split: if_splits option.splits sum.splits prod.splits)
  moreover have "?key b \<noteq> ?key a" if "b \<in> set as" for b
    using Cons.prems(1) imageI [OF that, of ?key] by auto
  ultimately have "\<forall>b \<in> set as. l' (?key b) = None \<and> at_email b \<noteq> [] \<and> at_password b \<noteq> []"
    using Cons.prems(2) by simp
  then have "run_logins q ul split_host check create as (l', r') = map ?key as" using Cons by simp
  with L Cons.prems(2) show ?case by (simp add: allow_def)
qed simp

text \<open>
  The limit is one of spellings, not of accounts. Any number of passwords can be compared for one
  account from one host at one moment: an address with spaces before it has a key of its own in the
  limiter, but is the same address for the password check, which trims it.
\<close>

theorem login_limit_per_spelling:
  assumes "is_ascii email" and "email \<noteq> []" and "password \<noteq> []"
  shows "length (run_logins q ul split_host (\<lambda>e p. Authenticate ul matches U e p c) create
      (map (\<lambda>k. \<lparr>at_now = t, at_email = replicate k (CHR '' '') @ email, at_password = password, at_peer = peer\<rparr>) [0..<n])
      (newLoginLimiter, r)) = n \<and>
    (\<forall>k. Authenticate ul matches U (replicate k (CHR '' '') @ email) password c = Authenticate ul matches U email password c)"
proof -
  let ?a = "\<lambda>k. \<lparr>at_now = t, at_email = replicate k (CHR '' '') @ email, at_password = password, at_peer = peer\<rparr>"
  let ?key = "\<lambda>a. limiter_key ul split_host (at_email a) (at_peer a)"
  have "is_ascii (replicate k (CHR '' '') @ email)" for k using assms(1) by (auto simp: is_ascii_def)
  then have "length (?key (?a k)) = k + length (?key (?a 0))" for k
    using assms(1) by (simp add: limiter_key_def to_lower_def)
  then have "inj (\<lambda>k. ?key (?a k))" by (intro injI) (metis add_right_cancel)
  then have "distinct (map ?key (map ?a [0..<n]))"
    by (simp add: distinct_map comp_def inj_on_def inj_def)
  then have "run_logins q ul split_host (\<lambda>e p. Authenticate ul matches U e p c) create (map ?a [0..<n]) (newLoginLimiter, r) =
      map ?key (map ?a [0..<n])"
    by (rule fresh_keys_compared) (use assms in \<open>auto simp: newLoginLimiter_def\<close>)
  then show ?thesis by (simp add: Authenticate_def normalizeEmail_def trim_leading_spaces)
qed

theorem login_limit_per_spelling_witness:
  "length (run_logins id id (\<lambda>_. None) (\<lambda>e p. Authenticate id (\<lambda>_ _. False) (mem_coll id Some users_clash) e p [sample_user])
      (\<lambda>_ r. (Inl ErrNoDocuments, r))
      (map (\<lambda>k. \<lparr>at_now = 0, at_email = replicate k (CHR '' '') @ ''a@b'', at_password = ''x'', at_peer = ''10.0.0.1''\<rparr>) [0..<1000])
      (newLoginLimiter, ())) = 1000"
  by (rule login_limit_per_spelling [THEN conjunct1]) (simp_all add: is_ascii_def)

end
