(* ===== verification/CertDistribution.thy ===== *)
theory CertDistribution
  imports Access Issuance
begin

text \<open>
  How a server fetches its certificates: internal/connectapi/server_certificate_service.go behind the
  interceptors of cert_distribution_interceptors.go, audit outside authentication outside rate limit.
  The state is the database, the Redis server and the audit log; the token that the authentication has
  found is passed to the handlers and, like the code's holder, back to the audit.
\<close>

definition storeCertAccessTokenPrefix :: string where
  "storeCertAccessTokenPrefix = ''nlct_''"

definition certDistributionRateLimit :: int where "certDistributionRateLimit = 120"

definition certDistributionWindow :: duration where "certDistributionWindow = Minute"

definition listProcedure :: string where
  "listProcedure = ''/neoline.v1.ServerCertificateService/ListCertificates''"

definition bundleProcedure :: string where
  "bundleProcedure = ''/neoline.v1.ServerCertificateService/GetCertificateBundle''"

datatype dist_reply = Certificates "ServerCertificate list" | Bundle CertificateBundle

section \<open>The handlers\<close>

definition no_token :: connect_error where
  "no_token = NewError CodeUnauthenticated ''missing bearer token''"

definition to_reply :: "(string \<Rightarrow> string) \<Rightarrow> ('a \<Rightarrow> dist_reply) \<Rightarrow> err + 'a \<Rightarrow> connect_error + dist_reply" where
  "to_reply q f r = (case r of Inl e \<Rightarrow> Inl (toConnectError q e) | Inr x \<Rightarrow> Inr (f x))"

definition ListCertificates ::
  "(string \<Rightarrow> string) \<Rightarrow> 'c mongo \<Rightarrow> gotime \<Rightarrow> CertificateAccessToken option \<Rightarrow> 'c db \<Rightarrow> connect_error + dist_reply" where
  "ListCertificates q M now token s =
     (case token of None \<Rightarrow> Inl no_token
      | Some t \<Rightarrow> to_reply q Certificates (ListServerCertificates M now (cat_ServerID t) s))"

definition ServeCertificateBundle ::
  "(string \<Rightarrow> string) \<Rightarrow> 'c mongo \<Rightarrow> gotime \<Rightarrow> string \<Rightarrow> CertificateAccessToken option \<Rightarrow> 'c db \<Rightarrow> connect_error + dist_reply" where
  "ServeCertificateBundle q M now certID token s =
     (case token of None \<Rightarrow> Inl no_token
      | Some t \<Rightarrow> to_reply q Bundle (GetServerCertificateBundle M now (cat_ServerID t) certID s))"

text \<open>The getter of a message is empty when the message does not have it.\<close>

definition getter :: "Request \<Rightarrow> string \<Rightarrow> string" where
  "getter rq g = (case rq_Getter rq g of None \<Rightarrow> [] | Some v \<Rightarrow> v)"

text \<open>The generated handler dispatches on the procedure; the service has two.\<close>

definition dist_handler ::
  "(string \<Rightarrow> string) \<Rightarrow> 'c mongo \<Rightarrow> gotime \<Rightarrow> Request \<Rightarrow> CertificateAccessToken option \<Rightarrow> 'c db \<Rightarrow> connect_error + dist_reply" where
  "dist_handler q M now rq =
     (if rq_Procedure rq = bundleProcedure then ServeCertificateBundle q M now (getter rq ''GetManagedCertificateId'')
      else ListCertificates q M now)"

section \<open>The interceptors\<close>

text \<open>\<open>at\<close> and \<open>later\<close> are the times of the two Redis commands.\<close>

definition certDistributionRateLimitInterceptor ::
  "'r redis \<Rightarrow> gotime \<Rightarrow> gotime \<Rightarrow> (CertificateAccessToken option \<Rightarrow> 'c db \<Rightarrow> connect_error + dist_reply) \<Rightarrow>
    CertificateAccessToken option \<Rightarrow> 'c db \<times> 'r \<Rightarrow> (connect_error + dist_reply) \<times> 'c db \<times> 'r" where
  "certDistributionRateLimitInterceptor R at later handler token w =
     (case w of (s, r) \<Rightarrow>
      case token of
        None \<Rightarrow> (handler None s, (s, r))
      | Some t \<Rightarrow>
          (case RateLimitAllow R at later (cat_ID t) certDistributionRateLimit certDistributionWindow r of
             ((allowed, err), r) \<Rightarrow>
               if \<not> allowed then (Inl (NewError CodeResourceExhausted ''rate limit exceeded''), (s, r))
               else (handler (Some t) s, (s, r))))"

definition certDistributionAuthInterceptor ::
  "(string \<Rightarrow> string) \<Rightarrow> 'c mongo \<Rightarrow> gotime \<Rightarrow>
    (CertificateAccessToken option \<Rightarrow> 'c db \<times> 'r \<Rightarrow> (connect_error + dist_reply) \<times> 'c db \<times> 'r) \<Rightarrow> Request \<Rightarrow> 'c db \<times> 'r \<Rightarrow>
    (CertificateAccessToken option \<times> (connect_error + dist_reply)) \<times> 'c db \<times> 'r" where
  "certDistributionAuthInterceptor hash M now inner rq w =
     (case w of (s, r) \<Rightarrow>
      let token = bearerToken (rq_Authorization rq);
          invalid = NewError CodeUnauthenticated ''invalid or expired token'' in
      if token = [] then ((None, Inl no_token), (s, r))
      else if \<not> has_prefix token storeCertAccessTokenPrefix then ((None, Inl invalid), (s, r))
      else case LookupCertificateAccessToken hash M now token s of
        (Inl e, s) \<Rightarrow> ((None, Inl (if IsNotFound e then invalid else internalError)), (s, r))
      | (Inr t, s) \<Rightarrow> (case inner (Some t) (s, r) of (res, w) \<Rightarrow> ((Some t, res), w)))"

definition nlctTokenPrefix :: "string \<Rightarrow> string" where
  "nlctTokenPrefix authHeader =
     (let token = bearerToken authHeader in
      if \<not> has_prefix token storeCertAccessTokenPrefix \<or> length token < length storeCertAccessTokenPrefix + 8 then []
      else take (length storeCertAccessTokenPrefix + 8) token)"

text \<open>\<open>CodeOf\<close> of no error is not \<open>CodeUnauthenticated\<close>.\<close>

definition certDistributionAuditEntry ::
  "(connect_error \<Rightarrow> string) \<Rightarrow> Request \<Rightarrow> connect_error + dist_reply \<Rightarrow> CertificateAccessToken option \<Rightarrow>
    gotime \<Rightarrow> gotime \<Rightarrow> AuditLog option" where
  "certDistributionAuditEntry ce_text rq res holder start stop =
     (let isAuthFailure = (case res of Inl e \<Rightarrow> ce_Code e = CodeUnauthenticated | Inr _ \<Rightarrow> False);
          isBundleDownload = (rq_Procedure rq = bundleProcedure \<and> reply_error res = None) in
      if \<not> isAuthFailure \<and> \<not> isBundleDownload then None
      else let prefix = nlctTokenPrefix (rq_Authorization rq);
             entry = \<lparr>aud_ID = [], aud_Source = ''server_cert'', aud_ActorID = [], aud_ActorEmail = [],
               aud_TokenPrefix = (case holder of Some t \<Rightarrow> cat_Prefix t | None \<Rightarrow> prefix),
               aud_Action = ''auth'', aud_ResourceType = [], aud_ResourceID = [], aud_Method = ''POST'', aud_Path = rq_Procedure rq,
               aud_StatusCode = auditStatusCode (reply_error res), aud_Success = (reply_error res = None),
               aud_Error = (case reply_error res of None \<Rightarrow> [] | Some e \<Rightarrow> ce_text e),
               aud_DurationMS = milliseconds (time_sub stop start), aud_RemoteIP = rq_Peer rq, aud_UserAgent = rq_UserAgent rq,
               aud_Metadata = (case holder of Some t \<Rightarrow> [''server_id'' \<mapsto> cat_ServerID t] | None \<Rightarrow> Map.empty),
               aud_OccurredAt = start\<rparr> in
        if isBundleDownload
        then let entry = entry\<lparr>aud_Action := ''download'', aud_ResourceType := ''managed_certificate''\<rparr>;
               entry = (case res of
                   Inr (Bundle b) \<Rightarrow> entry\<lparr>aud_ResourceID := cb_ManagedCertificateID b,
                     aud_Metadata := (aud_Metadata entry)(''version_id'' \<mapsto> cb_VersionID b)\<rparr>
                 | _ \<Rightarrow> entry)
             in Some (if aud_ResourceID entry = [] then entry\<lparr>aud_ResourceID := getter rq ''GetManagedCertificateId''\<rparr> else entry)
        else Some entry)"

definition certDistributionAuditInterceptor ::
  "(connect_error \<Rightarrow> string) \<Rightarrow> ('a, AuditLog) coll \<Rightarrow> gotime \<Rightarrow> gotime \<Rightarrow> string \<Rightarrow>
    (Request \<Rightarrow> 'w \<Rightarrow> (CertificateAccessToken option \<times> (connect_error + dist_reply)) \<times> 'w) \<Rightarrow> Request \<Rightarrow> 'w \<times> 'a \<Rightarrow>
    (connect_error + dist_reply) \<times> 'w \<times> 'a" where
  "certDistributionAuditInterceptor ce_text A start stop uuid inner rq state =
     (case state of (w, a) \<Rightarrow>
      case inner rq w of ((holder, res), w) \<Rightarrow>
        if reply_error res = None \<and> rq_Procedure rq = listProcedure then (res, (w, a))
        else case certDistributionAuditEntry ce_text rq res holder start stop of
          None \<Rightarrow> (res, (w, a))
        | Some entry \<Rightarrow> (res, (w, snd (SaveAuditLog A stop uuid entry a))))"

text \<open>The chain that \<open>Register\<close> mounts.\<close>

definition serve_dist ::
  "(string \<Rightarrow> string) \<Rightarrow> (connect_error \<Rightarrow> string) \<Rightarrow> (string \<Rightarrow> string) \<Rightarrow> 'c mongo \<Rightarrow> 'r redis \<Rightarrow> ('a, AuditLog) coll \<Rightarrow>
    gotime \<Rightarrow> gotime \<Rightarrow> gotime \<Rightarrow> gotime \<Rightarrow> gotime \<Rightarrow> gotime \<Rightarrow> string \<Rightarrow> Request \<Rightarrow> ('c db \<times> 'r) \<times> 'a \<Rightarrow>
    (connect_error + dist_reply) \<times> ('c db \<times> 'r) \<times> 'a" where
  "serve_dist q ce_text hash M R A start now at later clock stop uuid rq =
     certDistributionAuditInterceptor ce_text A start stop uuid
       (\<lambda>rq. certDistributionAuthInterceptor hash M now
          (certDistributionRateLimitInterceptor R at later (dist_handler q M clock rq)) rq) rq"

section \<open>What a download proves\<close>

lemma handler_bundle:
  assumes "dist_handler q M now rq (Some t) s = Inr (Bundle b)"
  shows "rq_Procedure rq = bundleProcedure \<and>
    GetServerCertificateBundle M now (cat_ServerID t) (getter rq ''GetManagedCertificateId'') s = Inr b"
  using assms
  by (auto simp: dist_handler_def ServeCertificateBundle_def ListCertificates_def to_reply_def split: if_splits sum.splits)

lemma server_bundle_done:
  assumes "GetServerCertificateBundle M now srv i s = Inr b"
  obtains cert v where "GetManagedCertificate M i s = Inr cert" "srv \<in> set (mc_ServerIDs cert)" "mc_ActiveVersion cert = Some v"
    "\<not> cv_RevokePending v" "cv_RevokedAt v = None" "b = bundleOf cert v (fst (ComputeValidity cert now))"
  using assms
  by (auto simp: GetServerCertificateBundle_def serverAssigned_def VersionDistributable_def split: sum.splits if_splits option.splits)

lemma authorized_reply:
  assumes "certDistributionAuthInterceptor hash M now inner rq (s, r) = ((holder, Inr res), w')"
  obtains t s1 where "holder = Some t" "LookupCertificateAccessToken hash M now (bearerToken (rq_Authorization rq)) s = (Inr t, s1)"
    "inner (Some t) (s1, r) = (Inr res, w')"
  using assms
  by (auto simp: certDistributionAuthInterceptor_def Let_def split: if_splits sum.splits prod.splits)

lemma limited_reply:
  assumes "certDistributionRateLimitInterceptor R at later handler (Some t) (s, r) = (Inr res, (s', r'))"
  shows "fst (fst (RateLimitAllow R at later (cat_ID t) certDistributionRateLimit certDistributionWindow r)) \<and>
    handler (Some t) s = Inr res \<and> s' = s"
  using assms by (auto simp: certDistributionRateLimitInterceptor_def split: if_splits prod.splits)

definition download_entry ::
  "(connect_error \<Rightarrow> string) \<Rightarrow> Request \<Rightarrow> CertificateAccessToken \<Rightarrow> CertificateBundle \<Rightarrow> gotime \<Rightarrow> gotime \<Rightarrow> AuditLog" where
  "download_entry ce_text rq t b start stop =
     the (certDistributionAuditEntry ce_text rq (Inr (Bundle b)) (Some t) start stop)"

lemma download_audited:
  assumes "rq_Procedure rq = bundleProcedure" and "cb_ManagedCertificateID b = getter rq ''GetManagedCertificateId''"
  shows "certDistributionAuditEntry ce_text rq (Inr (Bundle b)) (Some t) start stop = Some (download_entry ce_text rq t b start stop)"
    "aud_ID (download_entry ce_text rq t b start stop) = []"
    "aud_OccurredAt (download_entry ce_text rq t b start stop) = start"
    "aud_Action (download_entry ce_text rq t b start stop) = ''download''"
    "aud_Success (download_entry ce_text rq t b start stop)"
    "aud_TokenPrefix (download_entry ce_text rq t b start stop) = cat_Prefix t"
    "aud_ResourceID (download_entry ce_text rq t b start stop) = cb_ManagedCertificateID b"
    "aud_Metadata (download_entry ce_text rq t b start stop) ''server_id'' = Some (cat_ServerID t)"
    "aud_Metadata (download_entry ce_text rq t b start stop) ''version_id'' = Some (cb_VersionID b)"
  using assms by (simp_all add: certDistributionAuditEntry_def download_entry_def Let_def)

lemma audited_download:
  assumes "audit_store A docs ok" and "ok a" and "start \<noteq> zero_time"
    and "certDistributionAuditInterceptor ce_text A start stop uuid inner rq (w, a) = (Inr (Bundle b), (w', a'))"
    and "inner rq w = ((Some t, Inr (Bundle b)), w')"
    and "rq_Procedure rq = bundleProcedure" and "cb_ManagedCertificateID b = getter rq ''GetManagedCertificateId''"
  shows "\<exists>x. logged docs x a a' \<and> (\<forall>c. InsertOne A x a = (Inr (), c) \<longrightarrow> docs a' = add_mset x (docs a)) \<and>
    x = (download_entry ce_text rq t b start stop)\<lparr>aud_ID := ''aud_'' @ uuid\<rparr>"
proof -
  let ?e = "download_entry ce_text rq t b start stop"
  note e = download_audited [OF assms(6,7), of ce_text t start stop]
  obtain saved a1 where save: "SaveAuditLog A stop uuid ?e a = (saved, a1)" by fastforce
  have "bundleProcedure \<noteq> listProcedure" by (simp add: bundleProcedure_def listProcedure_def)
  then have a1: "a1 = a'" using assms(4-6) save e(1) by (simp add: certDistributionAuditInterceptor_def)
  have nz: "aud_OccurredAt ?e \<noteq> zero_time" using e(3) assms(3) by simp
  note audit = audit_store.save_audit_log [OF assms(1,2) save e(2) nz]
  have "InsertOne A (?e\<lparr>aud_ID := ''aud_'' @ uuid\<rparr>) a = (saved, a1)" using save e(2) nz by (simp add: SaveAuditLog_def)
  with audit a1 show ?thesis by auto
qed

text \<open>
  C26: a private key leaves the server only in the answer to a request whose bearer token is the secret
  of a stored, unexpired access token, within the rate limit of that token; the answer is the active
  version, neither revoked nor being revoked, of a certificate that is assigned to the token's server;
  and the download is in the audit log, with the token, the server, the certificate and the version,
  unless the insertion of the entry fails.
\<close>

theorem bundle_download_authorized:
  assumes "mongo_collection (certificateAccessTokens M) tdocs certificateAccessTokens_clash tok"
    and "mongo_collection (managedCertificates M) cdocs managedCertificates_clash cok"
    and "audit_store A docs ok"
    and "tok (st_certificateAccessTokens s)" and "cok (st_managedCertificates s)" and "ok a" and "start \<noteq> zero_time"
    and "serve_dist q ce_text hash M R A start now at later clock stop uuid rq ((s, r), a) = (Inr (Bundle b), ((s', r'), a'))"
  shows "\<exists>t cert v x.
    t \<in># tdocs (st_certificateAccessTokens s) \<and> cat_TokenHash t = hash (bearerToken (rq_Authorization rq)) \<and>
    (case cat_ExpiresAt t of None \<Rightarrow> True | Some e \<Rightarrow> now < e) \<and>
    fst (fst (RateLimitAllow R at later (cat_ID t) 120 Minute r)) \<and>
    cert \<in># cdocs (st_managedCertificates s) \<and> mc_ID cert = getter rq ''GetManagedCertificateId'' \<and>
    cat_ServerID t \<in> set (mc_ServerIDs cert) \<and> mc_ActiveVersion cert = Some v \<and>
    \<not> cv_RevokePending v \<and> cv_RevokedAt v = None \<and> b = bundleOf cert v (fst (ComputeValidity cert clock)) \<and>
    logged docs x a a' \<and> (\<forall>c. InsertOne A x a = (Inr (), c) \<longrightarrow> docs a' = add_mset x (docs a)) \<and>
    aud_Action x = ''download'' \<and> aud_Success x \<and> aud_ResourceID x = mc_ID cert \<and> aud_TokenPrefix x = cat_Prefix t \<and>
    aud_Metadata x ''server_id'' = Some (cat_ServerID t) \<and> aud_Metadata x ''version_id'' = Some (cv_ID v)"
proof -
  let ?auth = "\<lambda>rq. certDistributionAuthInterceptor hash M now
      (certDistributionRateLimitInterceptor R at later (dist_handler q M clock rq)) rq"
  obtain holder where inner: "?auth rq (s, r) = ((holder, Inr (Bundle b)), (s', r'))"
    using assms(8) by (auto simp: serve_dist_def certDistributionAuditInterceptor_def split: prod.splits if_splits option.splits)
  obtain t s1 where t: "holder = Some t" "LookupCertificateAccessToken hash M now (bearerToken (rq_Authorization rq)) s = (Inr t, s1)"
    "certDistributionRateLimitInterceptor R at later (dist_handler q M clock rq) (Some t) (s1, r) = (Inr (Bundle b), (s', r'))"
    by (rule authorized_reply [OF inner])
  note limited = limited_reply [OF t(3)]
  then have b: "rq_Procedure rq = bundleProcedure"
    "GetServerCertificateBundle M clock (cat_ServerID t) (getter rq ''GetManagedCertificateId'') s1 = Inr b"
    using handler_bundle by blast+
  obtain cert v where cert: "GetManagedCertificate M (getter rq ''GetManagedCertificateId'') s1 = Inr cert"
    "cat_ServerID t \<in> set (mc_ServerIDs cert)" "mc_ActiveVersion cert = Some v" "\<not> cv_RevokePending v" "cv_RevokedAt v = None"
    "b = bundleOf cert v (fst (ComputeValidity cert clock))"
    by (rule server_bundle_done [OF b(2)])
  obtain c where "FindOneAndUpdate (certificateAccessTokens M)
      (\<lambda>t. cat_TokenHash t = hash (bearerToken (rq_Authorization rq)) \<and> token_live now t)
      (\<lambda>t. t\<lparr>cat_LastUsedAt := Some now\<rparr>) (st_certificateAccessTokens s) = (Inr t, c)"
    and s1: "s1 = s\<lparr>st_certificateAccessTokens := c\<rparr>"
    using t(2) by (auto simp: LookupCertificateAccessToken_def on_certificateAccessTokens_eq_iff split: if_splits)
  from mongo_collection.find_update_done [OF assms(1,4) this(1)] obtain t0 where
    t0: "t0 \<in># tdocs (st_certificateAccessTokens s)" "cat_TokenHash t0 = hash (bearerToken (rq_Authorization rq))"
    "token_live now t0" "t = t0\<lparr>cat_LastUsedAt := Some now\<rparr>" by blast
  have "FindOne (managedCertificates M) (\<lambda>c. mc_ID c = getter rq ''GetManagedCertificateId'') (st_managedCertificates s) = Inr cert"
    using cert(1) s1 by (simp add: GetManagedCertificate_def)
  then have found: "cert \<in># cdocs (st_managedCertificates s) \<and> mc_ID cert = getter rq ''GetManagedCertificateId''"
    by (rule mongo_collection.find_one [OF assms(2,5)])
  then have id: "cb_ManagedCertificateID b = getter rq ''GetManagedCertificateId''" using cert(6) by (simp add: bundleOf_def)
  have audit: "certDistributionAuditInterceptor ce_text A start stop uuid ?auth rq ((s, r), a) = (Inr (Bundle b), ((s', r'), a'))"
    using assms(8) by (simp add: serve_dist_def)
  obtain x where x: "logged docs x a a'" "\<forall>c. InsertOne A x a = (Inr (), c) \<longrightarrow> docs a' = add_mset x (docs a)"
    "x = (download_entry ce_text rq t b start stop)\<lparr>aud_ID := ''aud_'' @ uuid\<rparr>"
    using audited_download [OF assms(3,6,7) audit inner [unfolded t(1)] b(1) id] by blast
  have "aud_Action x = ''download'' \<and> aud_Success x \<and> aud_ResourceID x = mc_ID cert \<and> aud_TokenPrefix x = cat_Prefix t0 \<and>
    aud_Metadata x ''server_id'' = Some (cat_ServerID t0) \<and> aud_Metadata x ''version_id'' = Some (cv_ID v)"
    using download_audited [OF b(1) id, of ce_text t start stop] x(3) t0(4) found cert(6) by (simp add: bundleOf_def)
  with t0 limited cert found x(1,2) show ?thesis
    by (intro exI [of _ t0] exI [of _ cert] exI [of _ v] exI [of _ x])
      (simp add: token_live_def certDistributionRateLimit_def certDistributionWindow_def)
qed

definition sample_dist_db :: "doc list db" where
  "sample_dist_db = (sample_db [sample_due\<lparr>mc_ServerIDs := [''srv_1'']\<rparr>] [])\<lparr>st_certificateAccessTokens := [DToken sample_token]\<rparr>"

definition sample_download :: Request where
  "sample_download = \<lparr>rq_Procedure = bundleProcedure, rq_Authorization = ''Bearer nlct_ab'', rq_UserAgent = [],
     rq_Peer = [], rq_Getter = [''GetManagedCertificateId'' \<mapsto> ''mcert_1'']\<rparr>"

abbreviation "sample_serve \<equiv> serve_dist id (\<lambda>_. ''error'') id mem_mongo mem_redis mem_audit 0 0 0 0 0 0 ''u'' sample_download"

lemma sample_lookup:
  "LookupCertificateAccessToken id mem_mongo 0 ''nlct_ab'' sample_dist_db =
     (Inr (sample_token\<lparr>cat_LastUsedAt := Some 0\<rparr>),
      sample_dist_db\<lparr>st_certificateAccessTokens := [DToken (sample_token\<lparr>cat_LastUsedAt := Some 0\<rparr>)]\<rparr>)"
  by (simp add: LookupCertificateAccessToken_def on_certificateAccessTokens_def certAccessTokenSecretPrefix_def has_prefix_def
    sample_dist_db_def sample_token_def token_live_def mem_eval)

lemma sample_bundle:
  "GetServerCertificateBundle mem_mongo 0 ''srv_1'' ''mcert_1''
     (sample_dist_db\<lparr>st_certificateAccessTokens := ts\<rparr>) =
   Inr (bundleOf (sample_due\<lparr>mc_ServerIDs := [''srv_1'']\<rparr>) (sample_version ''v1'')
     (fst (ComputeValidity (sample_due\<lparr>mc_ServerIDs := [''srv_1'']\<rparr>) 0)))"
  by (simp add: GetServerCertificateBundle_def GetManagedCertificate_def serverAssigned_def sample_dist_db_def sample_db_def
    sample_due_def sample_cert_def sample_version_def VersionDistributable_def mem_eval)

lemma sample_allowed:
  "\<exists>r. RateLimitAllow mem_redis 0 0 ''cat_1'' 120 Minute Map.empty = ((True, None), r)"
  by (simp add: RateLimitAllow_def mem_redis_def incremented_def)

lemma sample_download_runs:
  "\<exists>b s r a. sample_serve ((sample_dist_db, Map.empty), []) = (Inr (Bundle b), ((s, r), a))"
proof -
  have bearer: "bearerToken ''Bearer nlct_ab'' = ''nlct_ab''" by code_simp
  have id: "cat_ID sample_token = ''cat_1''" "cat_ServerID sample_token = ''srv_1''" by (simp_all add: sample_token_def)
  obtain r where "RateLimitAllow mem_redis 0 0 ''cat_1'' 120 Minute Map.empty = ((True, None), r)" using sample_allowed by blast
  then show ?thesis
    by (simp add: serve_dist_def certDistributionAuditInterceptor_def certDistributionAuthInterceptor_def sample_download_def
      bearer storeCertAccessTokenPrefix_def has_prefix_def sample_lookup certDistributionRateLimitInterceptor_def id
      certDistributionRateLimit_def certDistributionWindow_def dist_handler_def ServeCertificateBundle_def getter_def
      sample_bundle to_reply_def certDistributionAuditEntry_def Let_def bundleProcedure_def listProcedure_def)
qed

theorem bundle_download_authorized_witness:
  "\<exists>b a x. fst (sample_serve ((sample_dist_db, Map.empty), [])) = Inr (Bundle b) \<and>
     snd (snd (sample_serve ((sample_dist_db, Map.empty), []))) = a \<and>
     mem_docs Some a = {#x#} \<and> aud_Action x = ''download'' \<and> aud_Metadata x ''server_id'' = Some ''srv_1''"
proof -
  obtain b s r a where run: "sample_serve ((sample_dist_db, Map.empty), []) = (Inr (Bundle b), ((s, r), a))"
    using sample_download_runs by blast
  have start: "(0 :: gotime) \<noteq> zero_time" by (simp add: zero_time_def)
  have tok: "mem_ok certificateAccessTokens_clash un_DToken (st_certificateAccessTokens sample_dist_db)"
    and cok: "mem_ok managedCertificates_clash un_DCert (st_managedCertificates sample_dist_db)"
    and ok: "mem_ok audit_clash Some []"
    by (simp_all add: sample_dist_db_def sample_db_def pairwise_mset_def)
  obtain t x where x: "t \<in># mem_docs un_DToken (st_certificateAccessTokens sample_dist_db)"
    "\<forall>c. InsertOne mem_audit x [] = (Inr (), c) \<longrightarrow> mem_docs Some a = add_mset x (mem_docs Some [])"
    "aud_Action x = ''download''" "aud_Metadata x ''server_id'' = Some (cat_ServerID t)"
    using bundle_download_authorized [OF mem_certificateAccessTokens.mongo_collection_axioms
        mem_managedCertificates.mongo_collection_axioms mem_audit.audit_store_axioms tok cok ok start run] by auto
  have "cat_ServerID t = ''srv_1''" using x(1) by (simp add: sample_dist_db_def sample_token_def)
  moreover have "mem_docs Some a = {#x#}" using x(2) by (simp add: mem_coll_def)
  ultimately show ?thesis using run x by (intro exI [of _ b] exI [of _ a] exI [of _ x]) simp
qed

end
