(* ===== verification/McpAccess.thy ===== *)
theory McpAccess
  imports Access ResourceStore
begin

text \<open>
  The MCP endpoint of internal/mcpserver: who may use it (http.go) and how each tool call is audited
  (audit.go). The environment variables are arguments; a store that is missing is \<open>None\<close>. The fields
  of a tool's input that reflection finds are a map from the name of a string field to its value.
\<close>

section \<open>Authentication\<close>

record McpRequest =
  mr_Authorization :: string
  mr_Token :: string

definition requestToken :: "McpRequest \<Rightarrow> string" where
  "requestToken rq =
     (let header = mr_Authorization rq; prefix = ''Bearer '' in
      if header \<noteq> [] \<and> length prefix < length header \<and> equal_fold (take (length prefix) header) prefix
      then trim_space (drop (length prefix) header)
      else trim_space (mr_Token rq))"

definition tokenPrefix :: "string \<Rightarrow> string" where
  "tokenPrefix token = take (min (length token div 2) 12) token"

definition tokensConfigured :: "'c mongo option \<Rightarrow> 'c db \<Rightarrow> bool" where
  "tokensConfigured st s =
     (case st of None \<Rightarrow> False
      | Some M \<Rightarrow> (case CountMcpTokens M s of Inl _ \<Rightarrow> True | Inr n \<Rightarrow> 0 < n))"

text \<open>A refusal is an HTTP status; otherwise the source and the prefix of the token go into the context.\<close>

definition authRequired ::
  "(string \<Rightarrow> string) \<Rightarrow> 'c mongo option \<Rightarrow> string \<Rightarrow> string \<Rightarrow> gotime \<Rightarrow> McpRequest \<Rightarrow> 'c db \<Rightarrow>
    (int + string \<times> string) \<times> 'c db" where
  "authRequired hash st envToken envAnonymous now rq s =
     (let reqToken = requestToken rq;
          allowAnonymous = equal_fold envAnonymous ''true'';
          anonymous = (\<lambda>s. if allowAnonymous \<and> envToken = [] \<and> \<not> tokensConfigured st s
            then (Inr (''none'', []), s) else (Inl 401, s)) in
      if envToken \<noteq> [] \<and> reqToken = envToken then (Inr (''env'', tokenPrefix reqToken), s)
      else case st of
        None \<Rightarrow> anonymous s
      | Some M \<Rightarrow>
          if reqToken = [] then anonymous s
          else (case ValidateMcpToken hash M now reqToken s of
                  (Inl e, s) \<Rightarrow> (Inl 500, s)
                | (Inr True, s) \<Rightarrow> (Inr (''stored'', tokenPrefix reqToken), s)
                | (Inr False, s) \<Rightarrow> anonymous s))"

section \<open>Audit\<close>

definition mcpResourceType :: "string \<Rightarrow> string" where
  "mcpResourceType toolName =
     (if has_prefix toolName ''ssh'' then ''ssh''
      else if contains toolName ''notify_group'' then ''notify_group''
      else if contains toolName ''monitor_group'' then ''monitor_group''
      else if contains toolName ''monitor'' then ''monitor''
      else if contains toolName ''server'' then ''server''
      else if contains toolName ''mcp_token'' then ''mcp_token''
      else [])"

text \<open>The ellipsis is U+2026 in UTF-8.\<close>

definition commandField :: "(string \<rightharpoonup> string) \<Rightarrow> string" where
  "commandField input =
     (case input ''Command'' of
        None \<Rightarrow> []
      | Some cmd \<Rightarrow> if 500 < length cmd then take 500 cmd @ [CHR 0xE2, CHR 0x80, CHR 0xA6] else cmd)"

definition resourceID :: "(string \<rightharpoonup> string) \<Rightarrow> string" where
  "resourceID input =
     (let values = map (\<lambda>n. case input n of None \<Rightarrow> [] | Some v \<Rightarrow> v)
        [''MonitorID'', ''ID'', ''GroupID'', ''NotifyGroupID'', ''ServerID'']
      in case find (\<lambda>v. v \<noteq> []) values of None \<Rightarrow> [] | Some v \<Rightarrow> v)"

definition mcp_entry ::
  "(string \<Rightarrow> string) \<Rightarrow> string \<times> string \<Rightarrow> string \<Rightarrow> (string \<rightharpoonup> string) \<Rightarrow> gotime \<Rightarrow> gotime \<Rightarrow> err option \<Rightarrow> AuditLog" where
  "mcp_entry q context toolName input start stop err =
     \<lparr>aud_ID = [], aud_Source = ''mcp'', aud_ActorID = [], aud_ActorEmail = [],
      aud_TokenPrefix = snd context, aud_Action = toolName, aud_ResourceType = mcpResourceType toolName,
      aud_ResourceID = resourceID input, aud_Method = [], aud_Path = [], aud_StatusCode = 0,
      aud_Success = (err = None), aud_Error = (case err of None \<Rightarrow> [] | Some e \<Rightarrow> error_text q e),
      aud_DurationMS = milliseconds (time_sub stop start), aud_RemoteIP = [], aud_UserAgent = [],
      aud_Metadata = (let m = [''token_source'' \<mapsto> fst context] in
        if commandField input \<noteq> [] then m(''command'' \<mapsto> commandField input) else m),
      aud_OccurredAt = start\<rparr>"

text \<open>The tool runs, then its entry is saved; an error of saving is only logged.\<close>

definition addAuditedTool ::
  "(string \<Rightarrow> string) \<Rightarrow> ('a, AuditLog) coll \<Rightarrow> string \<Rightarrow> ('w \<Rightarrow> (err + 'out) \<times> 'w) \<Rightarrow> string \<times> string \<Rightarrow>
    (string \<rightharpoonup> string) \<Rightarrow> gotime \<Rightarrow> gotime \<Rightarrow> string \<Rightarrow> 'w \<times> 'a \<Rightarrow> (err + 'out) \<times> 'w \<times> 'a" where
  "addAuditedTool q A toolName handler context input start stop uuid state =
     (case state of (w, a) \<Rightarrow>
      case handler w of (res, w) \<Rightarrow>
        let err = (case res of Inl e \<Rightarrow> Some e | Inr _ \<Rightarrow> None)
        in (res, (w, snd (SaveAuditLog A stop uuid (mcp_entry q context toolName input start stop err) a))))"

text \<open>A request with the endpoint's tool behind its authentication.\<close>

definition mcp_call ::
  "(string \<Rightarrow> string) \<Rightarrow> (string \<Rightarrow> string) \<Rightarrow> 'c mongo option \<Rightarrow> ('a, AuditLog) coll \<Rightarrow> string \<Rightarrow> string \<Rightarrow> gotime \<Rightarrow> gotime \<Rightarrow> gotime \<Rightarrow>
    string \<Rightarrow> string \<Rightarrow> ('c db \<Rightarrow> (err + 'out) \<times> 'c db) \<Rightarrow> (string \<rightharpoonup> string) \<Rightarrow> McpRequest \<Rightarrow> 'c db \<times> 'a \<Rightarrow>
    (int + err + 'out) \<times> 'c db \<times> 'a" where
  "mcp_call q hash st A envToken envAnonymous now start stop uuid toolName handler input rq state =
     (case state of (s, a) \<Rightarrow>
      case authRequired hash st envToken envAnonymous now rq s of
        (Inl status, s) \<Rightarrow> (Inl status, (s, a))
      | (Inr context, s) \<Rightarrow>
          (case addAuditedTool q A toolName handler context input start stop uuid (s, a) of (res, w) \<Rightarrow> (Inr res, w)))"

section \<open>What a tool call needs\<close>

lemma tokenPrefix_bounds: "2 * length (tokenPrefix t) \<le> length t" "length (tokenPrefix t) \<le> 12"
  by (cases t; auto simp: tokenPrefix_def min_def)+

locale mcp_store =
  tokens: mongo_collection "mcpTokens M" mdocs mcpTokens_clash mok
  for M :: "'c mongo" and mdocs :: "'c \<Rightarrow> McpToken multiset" and mok :: "'c \<Rightarrow> bool"

context mcp_store begin

lemma validate_token:
  assumes "mok (st_mcpTokens s)" and "ValidateMcpToken hash M now token s = (Inr b, s')" and "token \<noteq> []"
  shows "if b then \<exists>t \<in># mdocs (st_mcpTokens s). mcp_TokenHash t = hash token
    else mdocs (st_mcpTokens s') = mdocs (st_mcpTokens s)"
    and "mok (st_mcpTokens s')"
proof -
  obtain r c where u: "FindOneAndUpdate (mcpTokens M) (\<lambda>t. mcp_TokenHash t = hash token)
      (\<lambda>t. t\<lparr>mcp_LastUsedAt := now\<rparr>) (st_mcpTokens s) = (r, c)" by fastforce
  with assms(2,3) have s': "st_mcpTokens s' = c" and r: "b \<longleftrightarrow> (\<exists>t. r = Inr t)" "\<not> b \<Longrightarrow> \<exists>e. r = Inl e \<and> IsNotFound e"
    by (auto simp: ValidateMcpToken_def on_mcpTokens_def split: sum.splits if_splits)
  show "mok (st_mcpTokens s')" using tokens.find_update_ok [OF assms(1) u] s' by simp
  show "if b then \<exists>t \<in># mdocs (st_mcpTokens s). mcp_TokenHash t = hash token
    else mdocs (st_mcpTokens s') = mdocs (st_mcpTokens s)"
    using tokens.find_update_done [OF assms(1)] tokens.find_update_none [OF assms(1)] u r s' by (cases b) fastforce+
qed

lemma no_tokens:
  assumes "mok (st_mcpTokens s)" and "\<not> tokensConfigured (Some M) s"
  shows "mdocs (st_mcpTokens s) = {#}"
  using assms tokens.count [OF assms(1), of "\<lambda>_. True"]
  by (auto simp: tokensConfigured_def CountMcpTokens_def split: sum.splits)

lemma admitted:
  assumes "mok (st_mcpTokens s)"
    and "authRequired hash (Some M) envToken envAnonymous now rq s = (Inr (source, prefix), s')"
  shows "source = ''env'' \<and> envToken \<noteq> [] \<and> requestToken rq = envToken \<and> prefix = tokenPrefix envToken \<or>
    source = ''stored'' \<and> prefix = tokenPrefix (requestToken rq) \<and>
      (\<exists>t \<in># mdocs (st_mcpTokens s). mcp_TokenHash t = hash (requestToken rq)) \<or>
    source = ''none'' \<and> prefix = [] \<and> envToken = [] \<and> equal_fold envAnonymous ''true'' \<and> mdocs (st_mcpTokens s) = {#}"
proof (cases "envToken \<noteq> [] \<and> requestToken rq = envToken")
  case True
  then show ?thesis using assms(2) by (simp add: authRequired_def)
next
  case no_env: False
  show ?thesis
  proof (cases "requestToken rq = []")
    case True
    then show ?thesis using assms no_env no_tokens [OF assms(1)] by (auto simp: authRequired_def Let_def split: if_splits)
  next
    case False
    obtain v s1 where v: "ValidateMcpToken hash M now (requestToken rq) s = (v, s1)" by fastforce
    consider b where "v = Inr b" using assms(2) no_env False v by (cases v) (auto simp: authRequired_def Let_def)
    then show ?thesis
    proof cases
      case 1
      note valid = validate_token [OF assms(1) v [unfolded 1] False]
      show ?thesis
        using assms(2) no_env False v 1 valid no_tokens [OF valid(2)]
        by (cases b) (auto simp: authRequired_def Let_def split: if_splits)
    qed
  qed
qed

end

interpretation mem_mcp_store: mcp_store mem_mongo "mem_docs un_DMcp" "mem_ok mcpTokens_clash un_DMcp"
  by unfold_locales

text \<open>
  C27: a tool of the MCP endpoint runs only for a request whose token is the one of the environment or
  the secret of a stored token, or, where the operator has allowed anonymous use, while no token exists
  at all; and every tool call that runs is in the audit log, with its outcome and at most half of the
  token, unless the insertion of the entry fails.
\<close>

theorem mcp_call_authorized:
  assumes "mcp_store M mdocs mok" and "audit_store A docs ok"
    and "mok (st_mcpTokens s)" and "ok a" and "start \<noteq> zero_time"
    and "mcp_call q hash (Some M) A envToken envAnonymous now start stop uuid toolName handler input rq (s, a) =
      (Inr res, (s', a'))"
  shows "(envToken \<noteq> [] \<and> requestToken rq = envToken \<or>
      (\<exists>t \<in># mdocs (st_mcpTokens s). mcp_TokenHash t = hash (requestToken rq)) \<or>
      envToken = [] \<and> equal_fold envAnonymous ''true'' \<and> mdocs (st_mcpTokens s) = {#}) \<and>
    (\<exists>s1 x. handler s1 = (res, s') \<and> logged docs x a a' \<and>
      (\<forall>c. InsertOne A x a = (Inr (), c) \<longrightarrow> docs a' = add_mset x (docs a)) \<and>
      aud_Action x = toolName \<and> (aud_Success x \<longleftrightarrow> (\<exists>v. res = Inr v)) \<and>
      2 * length (aud_TokenPrefix x) \<le> length (requestToken rq))"
proof -
  obtain source prefix s1 where auth: "authRequired hash (Some M) envToken envAnonymous now rq s = (Inr (source, prefix), s1)"
    and tool: "addAuditedTool q A toolName handler (source, prefix) input start stop uuid (s1, a) = (res, (s', a'))"
    using assms(6) by (auto simp: mcp_call_def split: prod.splits sum.splits)
  define e where "e = mcp_entry q (source, prefix) toolName input start stop (case res of Inl e \<Rightarrow> Some e | Inr _ \<Rightarrow> None)"
  define x where "x = e\<lparr>aud_ID := ''aud_'' @ uuid\<rparr>"
  have h: "handler s1 = (res, s')" and save': "snd (SaveAuditLog A stop uuid e a) = a'"
    using tool by (auto simp: addAuditedTool_def e_def Let_def split: prod.splits)
  then obtain saved where save: "SaveAuditLog A stop uuid e a = (saved, a')" by (metis prod.collapse)
  have e: "aud_ID e = []" "aud_OccurredAt e \<noteq> zero_time" using assms(5) by (simp_all add: e_def mcp_entry_def)
  note audit = audit_store.save_audit_log [OF assms(2,4) save e, folded x_def]
  have "InsertOne A x a = (saved, a')" using save e by (simp add: SaveAuditLog_def x_def)
  moreover have "aud_Action x = toolName" "aud_Success x \<longleftrightarrow> (\<exists>v. res = Inr v)" "aud_TokenPrefix x = prefix"
    by (cases res; simp add: x_def e_def mcp_entry_def)+
  moreover note admit = mcp_store.admitted [OF assms(1,3) auth]
  then have "2 * length prefix \<le> length (requestToken rq)" using tokenPrefix_bounds by auto
  ultimately show ?thesis using admit audit h by (intro conjI exI [of _ s1] exI [of _ x]) auto
qed

definition sample_mcp_db :: "doc list db" where
  "sample_mcp_db = empty_db\<lparr>st_mcpTokens := [DMcp \<lparr>mcp_ID = ''mcp_1'', mcp_Name = ''m'', mcp_TokenHash = ''secret'',
     mcp_Prefix = ''sec'', mcp_CreatedAt = 0, mcp_LastUsedAt = 0\<rparr>]\<rparr>"

definition sample_mcp_request :: "string \<Rightarrow> McpRequest" where
  "sample_mcp_request token = \<lparr>mr_Authorization = [], mr_Token = token\<rparr>"

abbreviation "sample_tool token \<equiv> mcp_call id id (Some mem_mongo) mem_audit [] ''true'' 0 0 0 ''u'' ''list_servers''
  (\<lambda>s. (Inr (), s)) Map.empty (sample_mcp_request token) (sample_mcp_db, [])"

text \<open>With a stored token the endpoint is not anonymous, although that is allowed.\<close>

theorem mcp_call_authorized_witness:
  "\<exists>s a x. sample_tool ''secret'' = (Inr (Inr ()), (s, a)) \<and> mem_docs Some a = {#x#} \<and> aud_Success x \<and>
     fst (sample_tool []) = Inl 401"
proof -
  have t: "requestToken (sample_mcp_request ''secret'') = ''secret''"
    "requestToken (sample_mcp_request []) = []" by code_simp+
  obtain s a where run: "sample_tool ''secret'' = (Inr (Inr ()), (s, a))"
    by (simp add: mcp_call_def authRequired_def t ValidateMcpToken_def on_mcpTokens_def sample_mcp_db_def mem_eval
      addAuditedTool_def Let_def)
  have start: "(0 :: gotime) \<noteq> zero_time" by (simp add: zero_time_def)
  have mok: "mem_ok mcpTokens_clash un_DMcp (st_mcpTokens sample_mcp_db)" and ok: "mem_ok audit_clash Some []"
    by (simp_all add: sample_mcp_db_def pairwise_mset_def)
  obtain x where x: "\<forall>c. InsertOne mem_audit x [] = (Inr (), c) \<longrightarrow> mem_docs Some a = add_mset x (mem_docs Some [])"
    "aud_Success x"
    using mcp_call_authorized [OF mem_mcp_store.mcp_store_axioms mem_audit.audit_store_axioms mok ok start run] by auto
  moreover have "fst (sample_tool []) = Inl 401"
    by (simp add: mcp_call_def authRequired_def t tokensConfigured_def CountMcpTokens_def sample_mcp_db_def mem_eval Let_def)
  ultimately show ?thesis using run by (intro exI [of _ s] exI [of _ a] exI [of _ x]) (simp add: mem_coll_def)
qed

end
