(* ===== verification/Probe.thy ===== *)
theory Probe
  imports ServerStore Alert
begin

text \<open>
  One check of a monitor: internal/probe. The network is a parameter, the record \<open>net\<close> of the answers
  of one attempt: dialling, the TLS handshake, the URL parser, the HTTP client and the clock. An error
  of the network is its text and what \<open>errors.As\<close> and \<open>errors.Is\<close> find in it. \<open>n_days\<close> is the truncated
  float64 quotient of hours by 24. The attempts of \<open>Run\<close> see one \<open>net\<close> each.
\<close>

abbreviation "StageNone \<equiv> ''none''"
abbreviation "StageDNS \<equiv> ''dns''"
abbreviation "StageTCP \<equiv> ''tcp''"
abbreviation "StageTLS \<equiv> ''tls''"
abbreviation "StageHTTP \<equiv> ''http''"
abbreviation "StageTimeout \<equiv> ''timeout''"

record outcome =
  o_status :: string
  o_stage :: string
  o_errMsg :: string
  o_remoteAddress :: string
  o_port :: u32
  o_httpCode :: u32
  o_certificate :: "CertificateInfo option"

definition no_outcome :: outcome where
  "no_outcome = \<lparr>o_status = [], o_stage = [], o_errMsg = [], o_remoteAddress = [], o_port = 0, o_httpCode = 0,
     o_certificate = None\<rparr>"

definition down :: "string \<Rightarrow> string \<Rightarrow> outcome" where
  "down stage msg = no_outcome\<lparr>o_status := StatusDown, o_stage := stage, o_errMsg := msg\<rparr>"

section \<open>The network\<close>

record net_error =
  ne_text :: string
  ne_dns :: bool
  ne_deadline :: bool
  ne_timeout :: bool

record peer_cert =
  pc_Subject :: string
  pc_Issuer :: string
  pc_DNSNames :: "string list"
  pc_SerialNumber :: string
  pc_NotBefore :: gotime
  pc_NotAfter :: gotime

record http_probe =
  hp_method :: string
  hp_url :: string
  hp_headers :: "string \<rightharpoonup> string"
  hp_server_name :: string
  hp_insecure :: bool
  hp_timeout :: duration

record net =
  n_dial :: "string \<Rightarrow> net_error + string"
  n_handshake :: "string \<Rightarrow> bool \<Rightarrow> string + peer_cert list"
  n_parse_url :: "string \<Rightarrow> string + string"
  n_new_request :: "string \<Rightarrow> string \<Rightarrow> string option"
  n_do :: "http_probe \<Rightarrow> net_error + (nat \<times> peer_cert option)"
  n_is_ip :: "string \<Rightarrow> bool"
  n_days :: "duration \<Rightarrow> int"
  n_info_at :: gotime
  n_status_at :: gotime
  n_reason_at :: gotime

definition classifyStage :: "net_error \<Rightarrow> string \<times> string" where
  "classifyStage e =
     (if ne_dns e then StageDNS else if ne_deadline e then StageTimeout else if ne_timeout e then StageTimeout else StageTCP,
      ne_text e)"

text \<open>\<open>net.JoinHostPort\<close>.\<close>

definition JoinHostPort :: "string \<Rightarrow> string \<Rightarrow> string" where
  "JoinHostPort host port = (if CHR '':'' \<in> set host then ''['' @ host @ '']:'' else host @ '':'') @ port"

definition probeTarget :: "Monitor \<Rightarrow> string" where
  "probeTarget m = (if isURLKind (mon_Kind m) then mon_URL m else JoinHostPort (mon_Host m) (format_nat (unat (mon_Port m))))"

section \<open>The three kinds of probes\<close>

definition probeTCP :: "net \<Rightarrow> Monitor \<Rightarrow> outcome" where
  "probeTCP n m =
     (case n_dial n (JoinHostPort (mon_Host m) (format_nat (unat (mon_Port m)))) of
        Inl e \<Rightarrow> (case classifyStage e of (stage, msg) \<Rightarrow> (down stage msg)\<lparr>o_port := mon_Port m\<rparr>)
      | Inr remote \<Rightarrow> no_outcome\<lparr>o_status := StatusHealthy, o_stage := StageNone, o_remoteAddress := remote, o_port := mon_Port m\<rparr>)"

definition certificateInfo :: "net \<Rightarrow> peer_cert \<Rightarrow> CertificateInfo" where
  "certificateInfo n cert =
     \<lparr>ci_Subject = pc_Subject cert, ci_Issuer = pc_Issuer cert, ci_DNSNames = pc_DNSNames cert,
      ci_SerialNumber = pc_SerialNumber cert, ci_NotBefore = pc_NotBefore cert, ci_NotAfter = pc_NotAfter cert,
      ci_DaysRemaining = word_of_int (n_days n (time_sub (pc_NotAfter cert) (n_info_at n)))\<rparr>"

text \<open>The thresholds are converted to \<open>int32\<close>, which keeps their bits.\<close>

definition certificateStatus :: "gotime \<Rightarrow> peer_cert \<Rightarrow> Monitor \<Rightarrow> CertificateInfo \<Rightarrow> string" where
  "certificateStatus now cert m info =
     (if now < pc_NotBefore cert \<or> pc_NotAfter cert < now then StatusDown
      else let warning = or_default (mon_WarningDays m) DefaultTLSWarningDays;
               critical = or_default (mon_CriticalDays m) DefaultTLSCriticalDays;
               days = ci_DaysRemaining info
           in if sint days \<le> sint critical then StatusCritical
              else if sint days \<le> sint warning then StatusWarning
              else StatusHealthy)"

definition certificateDownReason :: "gotime \<Rightarrow> peer_cert \<Rightarrow> string" where
  "certificateDownReason now cert =
     (if now < pc_NotBefore cert then ''certificate is not yet valid''
      else if pc_NotAfter cert < now then ''certificate has expired''
      else ''certificate validation failed'')"

definition isIP :: "net \<Rightarrow> string \<Rightarrow> bool" where
  "isIP n host = n_is_ip n (trim_space host)"

definition probeTLSPort :: "net \<Rightarrow> Monitor \<Rightarrow> outcome" where
  "probeTLSPort n m =
     (case n_dial n (JoinHostPort (mon_Host m) (format_nat (unat (mon_Port m)))) of
        Inl e \<Rightarrow> (case classifyStage e of (stage, msg) \<Rightarrow> (down stage msg)\<lparr>o_port := mon_Port m\<rparr>)
      | Inr remote \<Rightarrow>
          let serverName = (if mon_SNIName m = [] \<and> \<not> isIP n (mon_Host m) then mon_Host m else mon_SNIName m);
              failure = (\<lambda>msg. (down StageTLS msg)\<lparr>o_remoteAddress := remote, o_port := mon_Port m\<rparr>) in
          case n_handshake n serverName (\<not> mon_TLSVerify m) of
            Inl msg \<Rightarrow> failure msg
          | Inr [] \<Rightarrow> failure ''no peer certificate presented''
          | Inr (leaf # chain) \<Rightarrow>
              let info = certificateInfo n leaf;
                  status = certificateStatus (n_status_at n) leaf m info;
                  out = no_outcome\<lparr>o_remoteAddress := remote, o_port := mon_Port m, o_certificate := Some info,
                    o_stage := StageNone, o_status := status\<rparr>
              in if status = StatusDown
                 then out\<lparr>o_stage := StageTLS, o_errMsg := certificateDownReason (n_reason_at n) leaf\<rparr> else out)"

definition classifyHTTPError :: "(string \<Rightarrow> string) \<Rightarrow> net_error \<Rightarrow> bool \<Rightarrow> string \<times> string" where
  "classifyHTTPError ul e isHTTPS =
     (case classifyStage e of (stage, message) \<Rightarrow>
        let lower = to_lower ul message in
        if isHTTPS \<and> (contains lower ''tls'' \<or> contains lower ''certificate'' \<or> contains lower ''x509'' \<or> contains lower ''handshake'')
        then (StageTLS, message) else (stage, message))"

text \<open>\<open>None\<close> for a malformed segment.\<close>

definition parseStatusCodeRange :: "string \<Rightarrow> (u32 \<times> u32) option" where
  "parseStatusCodeRange part =
     (let part = trim_space part in
      if part = [] then None
      else case cut_on (CHR ''-'') part of
        Some (before, after) \<Rightarrow>
          (case (parse_uint32 (trim_space before), parse_uint32 (trim_space after)) of
             (Some low, Some high) \<Rightarrow> if high < low then None else Some (of_nat low, of_nat high)
           | _ \<Rightarrow> None)
      | None \<Rightarrow> map_option (\<lambda>v. (of_nat v, of_nat v)) (parse_uint32 part))"

definition statusCodeAccepted :: "u32 \<Rightarrow> string \<Rightarrow> bool" where
  "statusCodeAccepted code expected =
     (let expected = trim_space expected in
      if expected = [] then code = 200
      else list_ex (\<lambda>part. case parseStatusCodeRange part of None \<Rightarrow> False | Some (lo, hi) \<Rightarrow> lo \<le> code \<and> code \<le> hi)
             (split_on (CHR '','') expected))"

definition probeURL :: "(string \<Rightarrow> string) \<Rightarrow> net \<Rightarrow> Monitor \<Rightarrow> duration \<Rightarrow> outcome" where
  "probeURL ul n m timeout =
     (let target = trim_space (mon_URL m) in
      if target = [] then down StageHTTP ''monitor has no url configured''
      else case n_parse_url n target of
        Inl msg \<Rightarrow> down StageHTTP (''invalid url: '' @ msg)
      | Inr scheme \<Rightarrow>
          let isHTTPS = equal_fold scheme ''https''; meth = valueOr (mon_Method m) ''GET'' in
          case n_new_request n meth target of
            Some msg \<Rightarrow> down StageHTTP msg
          | None \<Rightarrow>
              (case n_do n \<lparr>hp_method = meth, hp_url = target, hp_headers = mon_Headers m, hp_server_name = mon_SNIName m,
                    hp_insecure = (isHTTPS \<and> \<not> mon_TLSVerify m), hp_timeout = timeout\<rparr> of
                 Inl e \<Rightarrow> (case classifyHTTPError ul e isHTTPS of (stage, msg) \<Rightarrow> down stage msg)
               | Inr (status, peer) \<Rightarrow>
                   let code = of_nat status;
                       out = no_outcome\<lparr>o_httpCode := code, o_port := mon_Port m, o_certificate := map_option (certificateInfo n) peer\<rparr>
                   in if \<not> statusCodeAccepted code (mon_ExpectedStatusCodes m)
                      then out\<lparr>o_status := StatusDown, o_stage := StageHTTP, o_errMsg := ''unexpected status code '' @ format_nat status\<rparr>
                      else out\<lparr>o_status := StatusHealthy, o_stage := StageNone\<rparr>))"

section \<open>A check with its retries\<close>

definition runOnce :: "(string \<Rightarrow> string) \<Rightarrow> net \<Rightarrow> Monitor \<Rightarrow> outcome" where
  "runOnce ul n m =
     (let timeout = (if uint (mon_TimeoutSeconds m) * Second \<le> 0 then 5 * Second else uint (mon_TimeoutSeconds m) * Second) in
      if isURLKind (mon_Kind m) then probeURL ul n m timeout
      else if isTLSPortKind (mon_Kind m) then probeTLSPort n m
      else probeTCP n m)"

text \<open>
  The loop with the number of attempts that are left. \<open>cancelled i\<close> tells whether the context has been
  cancelled when attempt \<open>i\<close> is over.
\<close>

fun attempt_loop :: "(nat \<Rightarrow> outcome) \<Rightarrow> (nat \<Rightarrow> bool) \<Rightarrow> nat \<Rightarrow> nat \<Rightarrow> outcome \<Rightarrow> outcome" where
  "attempt_loop once cancelled i 0 result = result"
| "attempt_loop once cancelled i (Suc n) result =
     (let result = once i in
      if o_status result \<noteq> StatusDown then result
      else if cancelled i then result
      else attempt_loop once cancelled (Suc i) n result)"

definition probe_Run ::
  "(string \<Rightarrow> string) \<Rightarrow> (nat \<Rightarrow> net) \<Rightarrow> (nat \<Rightarrow> bool) \<Rightarrow> gotime \<Rightarrow> gotime \<Rightarrow> Monitor \<Rightarrow> CheckResult" where
  "probe_Run ul nets cancelled started ended m =
     (let attempts = unat (mon_Retries m) + 1;
          result = attempt_loop (\<lambda>i. runOnce ul (nets i) m) cancelled 0 attempts no_outcome
      in \<lparr>res_ID = [], res_ServerID = mon_ServerID m, res_MonitorID = mon_ID m, res_Status = o_status result,
          res_StartedAt = started, res_EndedAt = ended, res_DurationMS = milliseconds (time_sub ended started),
          res_ErrorStage = o_stage result, res_ErrorMessage = o_errMsg result, res_RemoteAddress = o_remoteAddress result,
          res_Port = o_port result, res_HTTPStatusCode = o_httpCode result, res_Certificate = o_certificate result\<rparr>)"

section \<open>Expected status codes\<close>

text \<open>How an administrator writes codes and ranges.\<close>

definition show_range :: "nat \<times> nat \<Rightarrow> string" where
  "show_range r = (case r of (lo, hi) \<Rightarrow> if lo = hi then format_nat lo else format_nat lo @ ''-'' @ format_nat hi)"

fun show_ranges :: "(nat \<times> nat) list \<Rightarrow> string" where
  "show_ranges [] = []"
| "show_ranges [r] = show_range r"
| "show_ranges (r # rs) = show_range r @ '','' @ show_ranges rs"

definition is_digit :: "char \<Rightarrow> bool" where
  "is_digit c \<longleftrightarrow> digit_val c \<noteq> None"

lemma not_digits [simp]: "\<not> is_digit (CHR '','')" "\<not> is_digit (CHR ''-'')"
  by (simp_all add: is_digit_def digit_val_def)

lemma parse_digits_all: "parse_digits acc s \<noteq> None \<Longrightarrow> \<forall>c \<in> set s. is_digit c"
  by (induction s arbitrary: acc) (auto simp: is_digit_def split: option.splits)

lemma format_nat_digits: "c \<in> set (format_nat n) \<Longrightarrow> is_digit c"
  using parse_digits_all [of 0 "format_nat n"] parse_digits_format [of n] by auto

lemma strip_front_digit:
  assumes "is_digit c" and "\<forall>p \<in> set ps. p \<noteq> [] \<and> \<not> is_digit (hd p)"
  shows "strip_front ps (c # cs) = None"
  unfolding strip_front_none
proof (intro ballI impI notI)
  fix p assume p: "p \<in> set ps" "p \<noteq> []" "has_prefix (c # cs) p"
  obtain x xs where "p = x # xs" using p(2) by (metis list.exhaust)
  with p have "c = x" by (simp add: has_prefix_def)
  with assms p \<open>p = x # xs\<close> show False by auto
qed

lemma space_runes_no_digit:
  "\<forall>p \<in> set space_runes. p \<noteq> [] \<and> \<not> is_digit (hd p)" "\<forall>p \<in> set (map rev space_runes). p \<noteq> [] \<and> \<not> is_digit (hd p)"
  by (simp_all add: space_runes_def is_digit_def digit_val_def)

lemma trim_space_digits:
  assumes "s \<noteq> []" and "is_digit (hd s)" and "is_digit (last s)"
  shows "trim_space s = s"
proof -
  obtain c cs where s: "s = c # cs" using assms(1) by (cases s) auto
  obtain d ds where r: "rev s = d # ds" using assms(1) by (cases "rev s") auto
  then have d: "d = last s" by (metis last_rev list.sel(1) hd_rev)
  have "trim_front space_runes s = s"
    unfolding s by (rule trim_front_id, rule strip_front_digit [OF _ space_runes_no_digit(1)]) (use assms s in simp)
  moreover have "trim_front (map rev space_runes) (rev s) = rev s"
    unfolding r by (rule trim_front_id, rule strip_front_digit [OF _ space_runes_no_digit(2)]) (use assms d in simp)
  ultimately show ?thesis by (simp add: trim_space_def)
qed

lemma format_nat_ends: "is_digit (hd (format_nat n))" "is_digit (last (format_nat n))"
  by (rule format_nat_digits [OF hd_in_set [OF format_nat_nonempty]], rule format_nat_digits [OF last_in_set [OF format_nat_nonempty]])

lemma no_comma [simp]: "CHR '','' \<notin> set (format_nat n)"
  using format_nat_digits not_digits(1) by blast

lemma show_range_shape:
  "show_range r \<noteq> []" "is_digit (hd (show_range r))" "is_digit (last (show_range r))" "CHR '','' \<notin> set (show_range r)"
  using format_nat_ends
  by (auto simp: show_range_def split: prod.splits)

lemma cut_on_none: "sep \<notin> set s \<Longrightarrow> cut_on sep s = None"
  by (induction s) auto

lemma cut_on_append: "sep \<notin> set a \<Longrightarrow> cut_on sep (a @ sep # b) = Some (a, b)"
  by (induction a) auto

lemma no_dash: "CHR ''-'' \<notin> set (format_nat n)"
  using format_nat_digits not_digits(2) by blast

lemma parse_uint32_format: "n < 2 ^ 32 \<Longrightarrow> parse_uint32 (format_nat n) = Some n"
  by (simp add: parse_uint32_def parse_digits_format)

lemma trim_format_nat: "trim_space (format_nat n) = format_nat n"
  by (rule trim_space_digits) (simp_all add: format_nat_ends)

lemma parse_show_range:
  assumes "lo \<le> hi" and "hi < 2 ^ 32"
  shows "parseStatusCodeRange (show_range (lo, hi)) = Some (of_nat lo, of_nat hi)"
proof (cases "lo = hi")
  case True
  then show ?thesis
    using assms cut_on_none [OF no_dash] by (simp add: parseStatusCodeRange_def show_range_def trim_format_nat parse_uint32_format)
next
  case False
  have "trim_space (show_range (lo, hi)) = show_range (lo, hi)"
    by (rule trim_space_digits) (rule show_range_shape)+
  then show ?thesis
    using assms False cut_on_append [OF no_dash, of lo "format_nat hi"]
    by (simp add: parseStatusCodeRange_def show_range_def trim_format_nat parse_uint32_format)
qed

lemma show_ranges_shape:
  "rs \<noteq> [] \<Longrightarrow> show_ranges rs \<noteq> [] \<and> is_digit (hd (show_ranges rs)) \<and> is_digit (last (show_ranges rs))"
  by (induction rs rule: show_ranges.induct) (auto simp: show_range_shape)

lemma split_on_cons: "sep \<notin> set a \<Longrightarrow> split_on sep (a @ sep # b) = a # split_on sep b"
  by (induction a) auto

lemma split_on_single: "sep \<notin> set a \<Longrightarrow> split_on sep a = [a]"
  by (induction a) auto

lemma split_show_ranges: "rs \<noteq> [] \<Longrightarrow> split_on (CHR '','') (show_ranges rs) = map show_range rs"
  by (induction rs rule: show_ranges.induct) (simp_all add: show_range_shape split_on_cons split_on_single)

text \<open>
  An expression of codes and ranges, written out, accepts exactly the status codes that one of the
  ranges contains; the empty expression accepts 200.
\<close>

theorem expected_codes_exact:
  assumes "\<forall>(lo, hi) \<in> set rs. lo \<le> hi \<and> hi < 2 ^ 32"
  shows "statusCodeAccepted code (show_ranges rs) \<longleftrightarrow>
    (if rs = [] then code = 200 else \<exists>(lo, hi) \<in> set rs. lo \<le> unat code \<and> unat code \<le> hi)"
proof (cases "rs = []")
  case True
  then show ?thesis by (simp add: statusCodeAccepted_def trim_space_def trim_front_def)
next
  case False
  note shape = show_ranges_shape [OF False]
  have trim: "trim_space (show_ranges rs) = show_ranges rs" using shape by (blast intro: trim_space_digits)
  have "(case parseStatusCodeRange (show_range (lo, hi)) of None \<Rightarrow> False | Some (lo, hi) \<Rightarrow> lo \<le> code \<and> code \<le> hi) \<longleftrightarrow>
      lo \<le> unat code \<and> unat code \<le> hi" if "(lo, hi) \<in> set rs" for lo hi
  proof -
    have r: "lo \<le> hi" "hi < 2 ^ 32" "lo < 2 ^ 32" using assms that by auto
    then have "unat (of_nat lo :: u32) = lo" "unat (of_nat hi :: u32) = hi" by (simp_all add: unat_of_nat)
    then show ?thesis using parse_show_range [OF r(1,2)] by (simp add: word_le_nat_alt)
  qed
  then show ?thesis
    using False shape
    by (auto simp: statusCodeAccepted_def trim split_show_ranges [OF False] list_ex_iff Let_def Bex_def)
qed

theorem expected_codes_exact_witness:
  "\<not> statusCodeAccepted 404 (show_ranges [(200, 299), (301, 301)]) \<and> statusCodeAccepted 301 (show_ranges [(200, 299), (301, 301)])"
  using expected_codes_exact [of "[(200, 299), (301, 301)]" 404] expected_codes_exact [of "[(200, 299), (301, 301)]" 301] by simp

section \<open>Retries\<close>

lemma attempt_loop_result:
  "\<exists>i \<le> n. attempt_loop once cancelled k (Suc n) r = once (k + i) \<and>
     (\<forall>j < i. o_status (once (k + j)) = StatusDown \<and> \<not> cancelled (k + j)) \<and>
     (i = n \<or> o_status (once (k + i)) \<noteq> StatusDown \<or> cancelled (k + i))"
proof (induction n arbitrary: k r)
  case 0
  show ?case by (auto simp: Let_def)
next
  case (Suc n)
  show ?case
  proof (cases "o_status (once k) \<noteq> StatusDown \<or> cancelled k")
    case True
    then show ?thesis by (intro exI [of _ 0]) (auto simp: Let_def)
  next
    case False
    obtain i where i: "i \<le> n" "attempt_loop once cancelled (Suc k) (Suc n) (once k) = once (Suc k + i)"
      "\<forall>j < i. o_status (once (Suc k + j)) = StatusDown \<and> \<not> cancelled (Suc k + j)"
      "i = n \<or> o_status (once (Suc k + i)) \<noteq> StatusDown \<or> cancelled (Suc k + i)"
      using Suc [of "Suc k" "once k"] by blast
    have "\<forall>j < Suc i. o_status (once (k + j)) = StatusDown \<and> \<not> cancelled (k + j)"
      using i(3) False by (auto simp: less_Suc_eq_0_disj)
    moreover have "attempt_loop once cancelled k (Suc (Suc n)) r = attempt_loop once cancelled (Suc k) (Suc n) (once k)"
      using False by (subst attempt_loop.simps) (simp add: Let_def)
    ultimately show ?thesis using i by (intro exI [of _ "Suc i"]) simp
  qed
qed

text \<open>
  A check reports its first attempt that is not Down; when all are, it reports the last of
  \<open>retries + 1\<close>, or the one during which the context was cancelled. A monitor without a cancelled
  context is Down only if every attempt was.
\<close>

theorem check_retries:
  shows "\<exists>i \<le> unat (mon_Retries m).
      res_Status (probe_Run ul nets cancelled started ended m) = o_status (runOnce ul (nets i) m) \<and>
      res_ErrorStage (probe_Run ul nets cancelled started ended m) = o_stage (runOnce ul (nets i) m) \<and>
      res_Certificate (probe_Run ul nets cancelled started ended m) = o_certificate (runOnce ul (nets i) m) \<and>
      (\<forall>j < i. o_status (runOnce ul (nets j) m) = StatusDown) \<and>
      (res_Status (probe_Run ul nets cancelled started ended m) = StatusDown \<longrightarrow> i = unat (mon_Retries m) \<or> cancelled i)"
proof -
  obtain i where i: "i \<le> unat (mon_Retries m)"
    "attempt_loop (\<lambda>i. runOnce ul (nets i) m) cancelled 0 (Suc (unat (mon_Retries m))) no_outcome = runOnce ul (nets i) m"
    "\<forall>j < i. o_status (runOnce ul (nets j) m) = StatusDown"
    "i = unat (mon_Retries m) \<or> o_status (runOnce ul (nets i) m) \<noteq> StatusDown \<or> cancelled i"
    using attempt_loop_result [of "unat (mon_Retries m)" "\<lambda>i. runOnce ul (nets i) m" cancelled 0 no_outcome] by auto
  then show ?thesis by (intro exI [of _ i]) (auto simp: probe_Run_def Let_def simp del: attempt_loop.simps)
qed

section \<open>The thresholds of a certificate\<close>

lemma sint_small: "uint (x :: u32) < 2 ^ 31 \<Longrightarrow> sint x = uint x"
  using uint_ge_0 [of x] by (simp add: sint_uint signed_take_bit_int_eq_self order_trans [of _ 0])

lemma sint_wrapped:
  assumes "2 ^ 31 \<le> uint (x :: u32)"
  shows "sint x < 0"
proof -
  have "uint x div 2 ^ 31 = 1" using assms uint_lt2p [of x] by simp
  then have "bit (uint x) 31" by (simp add: bit_iff_odd)
  then show ?thesis by (simp add: sint_uint signed_take_bit_negative_iff)
qed

lemma sint_of_days: "0 \<le> d \<Longrightarrow> d < 2 ^ 31 \<Longrightarrow> sint (word_of_int d :: u32) = d"
  by (simp add: sint_small uint_word_of_int)

text \<open>
  When the handshake presents a certificate that is valid now, the status is Critical up to the
  critical number of days before its end, Warning up to the warning number, and Healthy before; the
  report names the certificate. Outside its validity the monitor is Down at the TLS stage.
\<close>

theorem tls_status_by_days:
  assumes "n_dial n (JoinHostPort (mon_Host m) (format_nat (unat (mon_Port m)))) = Inr remote"
    and "n_handshake n (if mon_SNIName m = [] \<and> \<not> isIP n (mon_Host m) then mon_Host m else mon_SNIName m)
      (\<not> mon_TLSVerify m) = Inr (leaf # chain)"
    and "critical = uint (or_default (mon_CriticalDays m) DefaultTLSCriticalDays)" and "critical < 2 ^ 31"
    and "warning = uint (or_default (mon_WarningDays m) DefaultTLSWarningDays)" and "warning < 2 ^ 31"
    and "days = n_days n (time_sub (pc_NotAfter leaf) (n_info_at n))" and "0 \<le> days" and "days < 2 ^ 31"
  shows "o_certificate (probeTLSPort n m) = Some (certificateInfo n leaf) \<and>
    (if n_status_at n < pc_NotBefore leaf \<or> pc_NotAfter leaf < n_status_at n
     then o_status (probeTLSPort n m) = StatusDown \<and> o_stage (probeTLSPort n m) = StageTLS
     else o_stage (probeTLSPort n m) = StageNone \<and> o_status (probeTLSPort n m) =
       (if days \<le> critical then StatusCritical else if days \<le> warning then StatusWarning else StatusHealthy))"
  using assms sint_small sint_of_days
  by (simp add: probeTLSPort_def certificateStatus_def certificateInfo_def no_outcome_def Let_def)

definition sample_peer :: peer_cert where
  "sample_peer = \<lparr>pc_Subject = ''CN=web'', pc_Issuer = ''CN=ca'', pc_DNSNames = [''web''], pc_SerialNumber = ''1'',
     pc_NotBefore = 0, pc_NotAfter = 864000 * Second\<rparr>"

definition sample_net :: net where
  "sample_net = \<lparr>n_dial = (\<lambda>_. Inr ''192.0.2.1:443''), n_handshake = (\<lambda>_ _. Inr [sample_peer]), n_parse_url = Inr,
     n_new_request = (\<lambda>_ _. None), n_do = (\<lambda>_. Inr (200, None)), n_is_ip = (\<lambda>_. False),
     n_days = (\<lambda>d. d div (86400 * Second)), n_info_at = Second, n_status_at = Second, n_reason_at = Second\<rparr>"

theorem tls_status_by_days_witness:
  "o_status (probeTLSPort sample_net (sample_monitor\<lparr>mon_CriticalDays := 0, mon_WarningDays := 0\<rparr>)) = StatusWarning"
  using tls_status_by_days [of sample_net "sample_monitor\<lparr>mon_CriticalDays := 0, mon_WarningDays := 0\<rparr>" "''192.0.2.1:443''"
      sample_peer "[]" 7 21 9]
  by (simp add: sample_net_def sample_peer_def sample_monitor_def or_default_def time_sub_def Second_def
      max_int64_def min_int64_def)

text \<open>A critical threshold of \<open>2 ^ 31\<close> days or more turns negative: no valid certificate is Critical.\<close>

lemma large_threshold_disables_critical:
  assumes "2 ^ 31 \<le> uint (mon_CriticalDays m)" and "0 \<le> n_days n (time_sub (pc_NotAfter cert) (n_info_at n))"
    and "n_days n (time_sub (pc_NotAfter cert) (n_info_at n)) < 2 ^ 31"
  shows "certificateStatus now cert m (certificateInfo n cert) \<noteq> StatusCritical"
proof -
  have "mon_CriticalDays m \<noteq> 0" using assms(1) by auto
  then show ?thesis
    using sint_wrapped [OF assms(1)] sint_of_days [OF assms(2,3)] assms(2)
    by (simp add: certificateStatus_def certificateInfo_def or_default_def Let_def)
qed

end
