(* ===== verification/Scheduler.thy ===== *)
theory Scheduler
  imports Probe Health
begin

text \<open>
  The scheduler, internal/scheduler/scheduler.go. Each tick lists the enabled monitors and dispatches the
  due ones one after the other; every dispatched check is a goroutine that waits for one of 32 slots,
  probes, saves, archives, alerts, gives its slot back and clears its mark. The goroutines interleave
  with the ticks and with one another: \<open>sched_step\<close> is one critical section or one call of the store, and
  the database may change in between. The clock is the monotonic one \<open>time.Time\<close> carries.
\<close>

abbreviation "maxConcurrentProbes \<equiv> (32 :: nat)"

section \<open>State\<close>

text \<open>Where a goroutine stands; a task holds a slot from \<open>Probing\<close> until \<open>Clearing\<close>.\<close>

datatype phase = Waiting | Probing gotime | Saving CheckResult | Leaving | Clearing

record 'c sched =
  sc_clock :: gotime
  sc_now :: gotime
  sc_todo :: "Monitor list"
  sc_pending :: "Monitor option"
  sc_lastRun :: "string \<rightharpoonup> gotime"
  sc_inFlight :: "string set"
  sc_tasks :: "(Monitor \<times> phase) list"
  sc_db :: "'c db"
  sc_lastAlert :: "string \<rightharpoonup> gotime"
  sc_alerts :: "(alert_payload \<times> AlertChannel list) list"
  sc_archived :: "CheckResult list"
  sc_log :: "(gotime \<times> Monitor) list"

definition New :: "gotime \<Rightarrow> 'c db \<Rightarrow> 'c sched" where
  "New t s = \<lparr>sc_clock = t, sc_now = t, sc_todo = [], sc_pending = None, sc_lastRun = Map.empty, sc_inFlight = {},
     sc_tasks = [], sc_db = s, sc_lastAlert = Map.empty, sc_alerts = [], sc_archived = [], sc_log = []\<rparr>"

section \<open>Operations\<close>

definition interval :: "Monitor \<Rightarrow> duration" where
  "interval m = (if uint (mon_IntervalSeconds m) * Second \<le> 0 then 60 * Second else uint (mon_IntervalSeconds m) * Second)"

definition due :: "Monitor \<Rightarrow> gotime \<Rightarrow> 'c sched \<Rightarrow> bool" where
  "due m now st =
     (if mon_ID m \<in> sc_inFlight st then False
      else case sc_lastRun st (mon_ID m) of None \<Rightarrow> True | Some t \<Rightarrow> interval m \<le> time_sub now t)"

text \<open>The critical section of \<open>dispatch\<close> and the start of its goroutine; the log is a ghost.\<close>

definition dispatch :: "Monitor \<Rightarrow> 'c sched \<Rightarrow> 'c sched" where
  "dispatch m st = st\<lparr>sc_inFlight := insert (mon_ID m) (sc_inFlight st),
     sc_lastRun := (sc_lastRun st)(mon_ID m \<mapsto> sc_clock st), sc_tasks := sc_tasks st @ [(m, Waiting)],
     sc_log := sc_log st @ [(sc_clock st, m)]\<rparr>"

definition holds_slot :: "phase \<Rightarrow> bool" where
  "holds_slot ph = (case ph of Waiting \<Rightarrow> False | Clearing \<Rightarrow> False | _ \<Rightarrow> True)"

definition used_slots :: "'c sched \<Rightarrow> nat" where
  "used_slots st = length (filter (\<lambda>(m, ph). holds_slot ph) (sc_tasks st))"

text \<open>The end of the goroutine's body: what follows \<open>probe.Run\<close>.\<close>

definition save_result ::
  "'c mongo \<Rightarrow> gotime \<Rightarrow> gotime \<Rightarrow> string \<Rightarrow> string \<Rightarrow> Monitor \<Rightarrow> CheckResult \<Rightarrow> 'c sched \<Rightarrow> 'c sched" where
  "save_result M now later uuid evt_uuid m result st =
     (case SaveCheckResult M now later uuid evt_uuid result (sc_db st) of
        ((prev, Some e), s) \<Rightarrow> st\<lparr>sc_db := s\<rparr>
      | ((prev, None), s) \<Rightarrow>
          let (alerts, lastAlert) = OnMonitorStatusChange M s m prev (res_Status result) (res_EndedAt result) (sc_lastAlert st)
          in st\<lparr>sc_db := s, sc_archived := sc_archived st @ [result], sc_alerts := sc_alerts st @ alerts,
               sc_lastAlert := lastAlert\<rparr>)"

text \<open>The steps of the goroutines.\<close>

inductive task_step :: "(string \<Rightarrow> string) \<Rightarrow> 'c mongo \<Rightarrow> 'c sched \<Rightarrow> 'c sched \<Rightarrow> bool" for ul M where
  acquire: "sc_tasks st = xs @ (m, Waiting) # ys \<Longrightarrow> used_slots st < maxConcurrentProbes \<Longrightarrow>
    task_step ul M st (st\<lparr>sc_tasks := xs @ (m, Probing (sc_clock st)) # ys\<rparr>)"
| probe: "sc_tasks st = xs @ (m, Probing started) # ys \<Longrightarrow>
    task_step ul M st (st\<lparr>sc_tasks := xs @ (m, Saving (probe_Run ul nets cancelled started (sc_clock st) m)) # ys\<rparr>)"
| save: "sc_tasks st = xs @ (m, Saving result) # ys \<Longrightarrow>
    task_step ul M st ((save_result M now later uuid evt_uuid m result st)\<lparr>sc_tasks := xs @ (m, Leaving) # ys\<rparr>)"
| release: "sc_tasks st = xs @ (m, Leaving) # ys \<Longrightarrow> task_step ul M st (st\<lparr>sc_tasks := xs @ (m, Clearing) # ys\<rparr>)"
| clear: "sc_tasks st = xs @ (m, Clearing) # ys \<Longrightarrow>
    task_step ul M st (st\<lparr>sc_tasks := xs @ ys, sc_inFlight := sc_inFlight st - {mon_ID m}\<rparr>)"

text \<open>
  The steps of \<open>reconcile\<close>, which runs on the single goroutine of \<open>Start\<close>: a tick, and for each monitor
  of its list the critical section of \<open>due\<close> and that of \<open>dispatch\<close>.
\<close>

inductive loop_step :: "'c mongo \<Rightarrow> 'c sched \<Rightarrow> 'c sched \<Rightarrow> bool" for M where
  tick: "sc_todo st = [] \<Longrightarrow> sc_pending st = None \<Longrightarrow> ListEnabledMonitors M (sc_db st) = Inr ms \<Longrightarrow>
    loop_step M st (st\<lparr>sc_todo := ms, sc_now := sc_clock st\<rparr>)"
| skip: "sc_todo st = m # ms \<Longrightarrow> sc_pending st = None \<Longrightarrow> \<not> due m (sc_now st) st \<Longrightarrow> loop_step M st (st\<lparr>sc_todo := ms\<rparr>)"
| is_due: "sc_todo st = m # ms \<Longrightarrow> sc_pending st = None \<Longrightarrow> due m (sc_now st) st \<Longrightarrow>
    loop_step M st (st\<lparr>sc_todo := ms, sc_pending := Some m\<rparr>)"
| start: "sc_pending st = Some m \<Longrightarrow> loop_step M st (dispatch m (st\<lparr>sc_pending := None\<rparr>))"

inductive sched_step :: "(string \<Rightarrow> string) \<Rightarrow> 'c mongo \<Rightarrow> 'c sched \<Rightarrow> 'c sched \<Rightarrow> bool" for ul M where
  task: "task_step ul M st st' \<Longrightarrow> sched_step ul M st st'"
| loop: "loop_step M st st' \<Longrightarrow> sched_step ul M st st'"
| time: "sc_clock st \<le> t \<Longrightarrow> sched_step ul M st (st\<lparr>sc_clock := t\<rparr>)"
| outside: "sched_step ul M st (st\<lparr>sc_db := s\<rparr>)"

inductive sched_reachable :: "(string \<Rightarrow> string) \<Rightarrow> 'c mongo \<Rightarrow> 'c sched \<Rightarrow> bool" for ul M where
  init: "sched_reachable ul M (New t s)"
| step: "sched_reachable ul M st \<Longrightarrow> sched_step ul M st st' \<Longrightarrow> sched_reachable ul M st'"

section \<open>Invariant\<close>

text \<open>
  The marks are exactly the monitors being checked, no monitor is checked twice at once, the slots
  suffice, and the dispatches of one monitor are spaced.
\<close>

definition task_ids :: "'c sched \<Rightarrow> string list" where
  "task_ids st = map (\<lambda>(m, ph). mon_ID m) (sc_tasks st)"

definition log_spaced :: "(gotime \<times> Monitor) list \<Rightarrow> bool" where
  "log_spaced log \<longleftrightarrow> (\<forall>i j. i < j \<longrightarrow> j < length log \<longrightarrow> mon_ID (snd (log ! i)) = mon_ID (snd (log ! j)) \<longrightarrow>
     fst (log ! i) + interval (snd (log ! j)) \<le> fst (log ! j))"

definition last_logged :: "'c sched \<Rightarrow> bool" where
  "last_logged st \<longleftrightarrow> (\<forall>(t, m) \<in> set (sc_log st). t \<le> sc_clock st \<and> (\<exists>l. sc_lastRun st (mon_ID m) = Some l \<and> t \<le> l))"

definition pending_due :: "'c sched \<Rightarrow> bool" where
  "pending_due st \<longleftrightarrow> (\<forall>m. sc_pending st = Some m \<longrightarrow> mon_ID m \<notin> sc_inFlight st \<and>
     (\<forall>l. sc_lastRun st (mon_ID m) = Some l \<longrightarrow> l + interval m \<le> sc_clock st))"

definition sched_wf :: "'c sched \<Rightarrow> bool" where
  "sched_wf st \<longleftrightarrow> distinct (task_ids st) \<and> set (task_ids st) = sc_inFlight st \<and> used_slots st \<le> maxConcurrentProbes \<and>
     sc_now st \<le> sc_clock st \<and> pending_due st \<and> last_logged st \<and> log_spaced (sc_log st)"

lemmas sched_wf_defs = sched_wf_def task_ids_def used_slots_def pending_due_def last_logged_def holds_slot_def

lemma interval_small: "interval m \<le> max_int64" "min_int64 < interval m"
  using interval_bounds [of "mon_IntervalSeconds m"] by (auto simp: interval_def Second_def max_int64_def min_int64_def)

lemma interval_pos: "0 < interval m"
  using order.not_eq_order_implies_strict [OF _ uint_ge_0 [of "mon_IntervalSeconds m"]] by (auto simp: interval_def Second_def)

lemma due_spaced:
  assumes "due m now st" and "now \<le> sc_clock st"
  shows "mon_ID m \<notin> sc_inFlight st" and "sc_lastRun st (mon_ID m) = Some l \<Longrightarrow> l + interval m \<le> sc_clock st"
proof -
  show "mon_ID m \<notin> sc_inFlight st" using assms by (auto simp: due_def split: if_splits)
  show "l + interval m \<le> sc_clock st" if "sc_lastRun st (mon_ID m) = Some l"
    using time_sub_window [OF interval_small(1), of now l m] interval_small(2) assms that
    by (fastforce simp: due_def split: if_splits)
qed

lemma save_result_frame:
  "sc_tasks (save_result M now later u v m r st) = sc_tasks st" "sc_inFlight (save_result M now later u v m r st) = sc_inFlight st"
  "sc_clock (save_result M now later u v m r st) = sc_clock st" "sc_now (save_result M now later u v m r st) = sc_now st"
  "sc_pending (save_result M now later u v m r st) = sc_pending st" "sc_lastRun (save_result M now later u v m r st) = sc_lastRun st"
  "sc_log (save_result M now later u v m r st) = sc_log st" "sc_todo (save_result M now later u v m r st) = sc_todo st"
  by (simp_all add: save_result_def split: prod.split option.split)

lemma log_spaced_snoc:
  "log_spaced (log @ [(t, m)]) \<longleftrightarrow> log_spaced log \<and>
     (\<forall>(t', m') \<in> set log. mon_ID m' = mon_ID m \<longrightarrow> t' + interval m \<le> t)"
  (is "?l \<longleftrightarrow> ?r")
proof
  assume l: ?l
  have "log_spaced log"
    unfolding log_spaced_def
  proof (intro allI impI)
    fix i j assume a: "i < j" "j < length log" "mon_ID (snd (log ! i)) = mon_ID (snd (log ! j))"
    with l [unfolded log_spaced_def, rule_format, of i j] show "fst (log ! i) + interval (snd (log ! j)) \<le> fst (log ! j)"
      by (simp add: nth_append)
  qed
  moreover have "t' + interval m \<le> t" if m': "(t', m') \<in> set log" "mon_ID m' = mon_ID m" for t' m'
  proof -
    obtain i where "i < length log" "log ! i = (t', m')" using m'(1) by (auto simp: in_set_conv_nth)
    with l [unfolded log_spaced_def, rule_format, of i "length log"] m'(2) show ?thesis by (simp add: nth_append)
  qed
  ultimately show ?r by auto
next
  assume r: ?r
  show ?l
    unfolding log_spaced_def
  proof (intro allI impI)
    fix i j assume a: "i < j" "j < length (log @ [(t, m)])"
      "mon_ID (snd ((log @ [(t, m)]) ! i)) = mon_ID (snd ((log @ [(t, m)]) ! j))"
    show "fst ((log @ [(t, m)]) ! i) + interval (snd ((log @ [(t, m)]) ! j)) \<le> fst ((log @ [(t, m)]) ! j)"
    proof (cases "j = length log")
      case True
      with a have "log ! i \<in> set log" by simp
      with r a True show ?thesis by (cases "log ! i") (auto simp: nth_append)
    next
      case False
      with a r show ?thesis by (auto simp: nth_append log_spaced_def)
    qed
  qed
qed

lemma task_step_wf: "task_step ul M st st' \<Longrightarrow> sched_wf st \<Longrightarrow> sched_wf st'"
  by (induction rule: task_step.induct) (auto simp: sched_wf_defs save_result_frame)

lemma dispatch_wf:
  assumes wf: "sched_wf st" and m: "sc_pending st = Some m"
  shows "sched_wf (dispatch m (st\<lparr>sc_pending := None\<rparr>))"
proof -
  have logged: "t \<le> sc_clock st" "\<exists>l. sc_lastRun st (mon_ID m') = Some l \<and> t \<le> l" if "(t, m') \<in> set (sc_log st)" for t m'
    using wf that by (auto simp: sched_wf_def last_logged_def)
  have p: "mon_ID m \<notin> sc_inFlight st" "\<And>l. sc_lastRun st (mon_ID m) = Some l \<Longrightarrow> l + interval m \<le> sc_clock st"
    using wf m by (auto simp: sched_wf_def pending_due_def)
  have "t + interval m \<le> sc_clock st" if "(t, m') \<in> set (sc_log st)" "mon_ID m' = mon_ID m" for t m'
    using logged(2) [OF that(1)] p(2) that(2) by fastforce
  then have "log_spaced (sc_log (dispatch m (st\<lparr>sc_pending := None\<rparr>)))"
    using wf by (auto simp: dispatch_def log_spaced_snoc sched_wf_def)
  moreover have "last_logged (dispatch m (st\<lparr>sc_pending := None\<rparr>))"
    using logged by (auto simp: dispatch_def last_logged_def)
  ultimately show ?thesis
    using wf p(1) by (auto simp: sched_wf_def task_ids_def used_slots_def pending_due_def holds_slot_def dispatch_def)
qed

lemma loop_step_wf:
  assumes "loop_step M st st'" and wf: "sched_wf st"
  shows "sched_wf st'"
  using assms(1)
proof cases
  case (is_due m ms)
  then show ?thesis
    using wf due_spaced [OF is_due(4)] by (auto simp: sched_wf_defs)
next
  case (start m)
  then show ?thesis using dispatch_wf [OF wf] by simp
qed (use wf in \<open>auto simp: sched_wf_defs\<close>)

lemma sched_step_wf: "sched_step ul M st st' \<Longrightarrow> sched_wf st \<Longrightarrow> sched_wf st'"
  by (induction rule: sched_step.induct) (auto simp: task_step_wf loop_step_wf, (fastforce simp: sched_wf_defs)+)

lemma reachable_wf: "sched_reachable ul M st \<Longrightarrow> sched_wf st"
proof (induction rule: sched_reachable.induct)
  case (init t s)
  show ?case by (simp add: sched_wf_defs New_def log_spaced_def)
qed (rule sched_step_wf)

text \<open>What is archived is the result of the probe, which has no id yet: the store gives the id to its own copy.\<close>

definition unnumbered :: "'c sched \<Rightarrow> bool" where
  "unnumbered st \<longleftrightarrow> (\<forall>r \<in> set (sc_archived st). res_ID r = []) \<and> (\<forall>m r. (m, Saving r) \<in> set (sc_tasks st) \<longrightarrow> res_ID r = [])"

lemma task_step_unnumbered: "task_step ul M st st' \<Longrightarrow> unnumbered st \<Longrightarrow> unnumbered st'"
proof (induction rule: task_step.induct)
  case (save st xs m result ys now later uuid evt_uuid)
  then show ?case
    by (auto simp: unnumbered_def save_result_def Let_def split: prod.splits option.splits)
qed (fastforce simp: unnumbered_def probe_Run_def Let_def)+

lemma loop_step_unnumbered: "loop_step M st st' \<Longrightarrow> unnumbered st \<Longrightarrow> unnumbered st'"
  by (induction rule: loop_step.induct) (auto simp: unnumbered_def dispatch_def)

lemma archived_copies_lack_id:
  assumes "sched_reachable ul M st" and "r \<in> set (sc_archived st)"
  shows "res_ID r = []"
proof -
  have "unnumbered st"
    using assms(1)
  proof (induction rule: sched_reachable.induct)
    case (step st st')
    from step(2,3) show ?case
      by (induction rule: sched_step.induct)
        (blast intro: task_step_unnumbered, blast intro: loop_step_unnumbered, auto simp: unnumbered_def)
  qed (simp add: unnumbered_def New_def)
  with assms(2) show ?thesis by (simp add: unnumbered_def)
qed

section \<open>Draining\<close>

text \<open>The steps a goroutine has left.\<close>

definition steps_left :: "phase \<Rightarrow> nat" where
  "steps_left ph = (case ph of Waiting \<Rightarrow> 5 | Probing _ \<Rightarrow> 4 | Saving _ \<Rightarrow> 3 | Leaving \<Rightarrow> 2 | Clearing \<Rightarrow> 1)"

definition work_left :: "'c sched \<Rightarrow> nat" where
  "work_left st = sum_list (map (\<lambda>(m, ph). steps_left ph) (sc_tasks st))"

lemma work_decreases: "task_step ul M st st' \<Longrightarrow> work_left st = Suc (work_left st')"
  by (induction rule: task_step.induct) (auto simp: work_left_def steps_left_def)

lemma work_run: "(task_step ul M ^^ n) st st' \<Longrightarrow> work_left st = n + work_left st'"
  by (induction n arbitrary: st') (auto dest!: work_decreases)

lemma work_bound: "work_left st \<le> 5 * length (sc_tasks st)"
proof -
  have "sum_list (map (\<lambda>(m, ph). steps_left ph) ts) \<le> 5 * length ts" for ts :: "(Monitor \<times> phase) list"
    by (induction ts) (auto simp: steps_left_def split: phase.split)
  then show ?thesis by (simp add: work_left_def)
qed

lemma task_enabled:
  assumes "sc_tasks st \<noteq> []"
  shows "\<exists>st'. task_step ul M st st'"
proof (cases "\<exists>(m, ph) \<in> set (sc_tasks st). ph \<noteq> Waiting")
  case True
  then obtain m ph where "(m, ph) \<in> set (sc_tasks st)" "ph \<noteq> Waiting" by auto
  then obtain xs ys where "sc_tasks st = xs @ (m, ph) # ys" by (meson split_list)
  with \<open>ph \<noteq> Waiting\<close> show ?thesis by (cases ph) (blast intro: task_step.intros)+
next
  case False
  then have "used_slots st = 0" by (fastforce simp: used_slots_def holds_slot_def filter_empty_conv)
  moreover from False assms obtain m ys where "sc_tasks st = [] @ (m, Waiting) # ys" by (cases "sc_tasks st") auto
  ultimately show ?thesis using acquire [of st "[]" m ys ul M] by auto
qed

lemma task_run_wf: "(task_step ul M ^^ n) st st' \<Longrightarrow> sched_wf st \<Longrightarrow> sched_wf st'"
  by (induction n arbitrary: st') (auto dest: task_step_wf)

section \<open>A tick without interference\<close>

definition dispatch_due :: "gotime \<Rightarrow> Monitor list \<Rightarrow> 'c sched \<Rightarrow> 'c sched" where
  "dispatch_due now ms st = fold (\<lambda>m st. if due m now st then dispatch m st else st) ms st"

definition reconcile :: "'c mongo \<Rightarrow> 'c sched \<Rightarrow> 'c sched" where
  "reconcile M st =
     (case ListEnabledMonitors M (sc_db st) of
        Inl e \<Rightarrow> st
      | Inr ms \<Rightarrow> let now = sc_clock st in dispatch_due now ms (st\<lparr>sc_now := now\<rparr>))"

lemma dispatch_due_simps [simp]:
  "dispatch_due now [] st = st"
  "dispatch_due now (m # ms) st = dispatch_due now ms (if due m now st then dispatch m st else st)"
  by (simp_all add: dispatch_due_def)

lemma with_todo:
  "due m now (st\<lparr>sc_todo := xs\<rparr>) = due m now st"
  "dispatch m (st\<lparr>sc_todo := xs\<rparr>) = (dispatch m st)\<lparr>sc_todo := xs\<rparr>"
  "dispatch_due now ms (st\<lparr>sc_todo := xs\<rparr>) = (dispatch_due now ms st)\<lparr>sc_todo := xs\<rparr>"
proof -
  show due: "due m now (st\<lparr>sc_todo := xs\<rparr>) = due m now st" for m st by (simp add: due_def)
  show disp: "dispatch m (st\<lparr>sc_todo := xs\<rparr>) = (dispatch m st)\<lparr>sc_todo := xs\<rparr>" for m st by (simp add: dispatch_def)
  show "dispatch_due now ms (st\<lparr>sc_todo := xs\<rparr>) = (dispatch_due now ms st)\<lparr>sc_todo := xs\<rparr>"
    by (induction ms arbitrary: st) (simp_all add: due disp)
qed

lemma due_dispatch: "mon_ID m \<noteq> mon_ID m' \<Longrightarrow> due m now (dispatch m' st) = due m now st"
  by (simp add: due_def dispatch_def)

lemma due_same: "mon_ID m = mon_ID m' \<Longrightarrow> \<not> due m now (dispatch m' st)"
  by (simp add: due_def dispatch_def)

lemma dispatch_frame [simp]: "sc_clock (dispatch m st) = sc_clock st" "sc_db (dispatch m st) = sc_db st"
  "sc_todo (dispatch m st) = sc_todo st" "sc_now (dispatch m st) = sc_now st" "sc_pending (dispatch m st) = sc_pending st"
  by (simp_all add: dispatch_def)

text \<open>Which monitors of the list a tick dispatches: the due ones, each but for an earlier one of its id.\<close>

fun first_due :: "(Monitor \<Rightarrow> bool) \<Rightarrow> string set \<Rightarrow> Monitor list \<Rightarrow> Monitor list" where
  "first_due P seen [] = []"
| "first_due P seen (m # ms) = (if P m \<and> mon_ID m \<notin> seen then m # first_due P (insert (mon_ID m) seen) ms
     else first_due P seen ms)"

lemma reconcile_log:
  "sc_log (dispatch_due now ms st) =
     sc_log st @ map (Pair (sc_clock st)) (first_due (\<lambda>m. due m now st) {} ms)"
proof -
  have "sc_log (dispatch_due now ms st') =
      sc_log st' @ map (Pair (sc_clock st')) (first_due (\<lambda>m. due m now st) seen ms)"
    if "\<And>m. due m now st' \<longleftrightarrow> due m now st \<and> mon_ID m \<notin> seen" for seen and st' :: "'a sched"
    using that
  proof (induction ms arbitrary: seen st')
    case (Cons m ms)
    have "due m' now (dispatch m st') \<longleftrightarrow> due m' now st \<and> mon_ID m' \<notin> insert (mon_ID m) seen" for m'
      using due_dispatch [of m' m now st'] due_same [of m' m now st'] Cons.prems [of m'] by auto
    from Cons.IH [OF this] Cons.IH [OF Cons.prems] Cons.prems [of m] show ?case
      by (simp add: dispatch_def)
  qed simp
  from this [of st "{}"] show ?thesis by simp
qed

lemma first_due_distinct: "distinct (map mon_ID ms) \<Longrightarrow> mon_ID ` set ms \<inter> seen = {} \<Longrightarrow> first_due P seen ms = filter P ms"
  by (induction ms arbitrary: seen) (auto simp: image_iff)

lemma first_due_append:
  "first_due P seen (xs @ ys) = first_due P seen xs @ first_due P (seen \<union> mon_ID ` set (filter P xs)) ys"
proof (induction xs arbitrary: seen)
  case (Cons m ms)
  show ?case using Cons [of seen] Cons [of "insert (mon_ID m) seen"] by (auto simp: insert_absorb)
qed simp

lemma first_due_unseen: "m \<in> set (first_due P seen ms) \<Longrightarrow> m \<in> set ms \<and> P m \<and> mon_ID m \<notin> seen"
  by (induction ms arbitrary: seen) (auto split: if_splits)

text \<open>Such a tick is a run of the loop's steps.\<close>

lemma reconcile_run:
  assumes "sc_todo st = ms" and "sc_pending st = None"
  shows "(loop_step M)\<^sup>*\<^sup>* st ((dispatch_due (sc_now st) ms st)\<lparr>sc_todo := []\<rparr>)"
  using assms
proof (induction ms arbitrary: st)
  case (Cons m ms)
  let ?st = "st\<lparr>sc_todo := ms\<rparr>"
  show ?case
  proof (cases "due m (sc_now st) st")
    case True
    have "loop_step M st (?st\<lparr>sc_pending := Some m\<rparr>)" using is_due [OF Cons.prems True] by simp
    moreover have "st\<lparr>sc_todo := ms, sc_pending := None\<rparr> = ?st" using Cons.prems(2) by (cases st) simp
    then have "loop_step M (?st\<lparr>sc_pending := Some m\<rparr>) (dispatch m ?st)"
      using start [of "?st\<lparr>sc_pending := Some m\<rparr>" m M] by simp
    moreover note Cons.IH [of "dispatch m ?st"]
    ultimately show ?thesis
      using True Cons.prems
      by (auto simp: with_todo intro: converse_rtranclp_into_rtranclp)
  next
    case False
    from Cons.IH [of ?st] skip [OF Cons.prems False] show ?thesis
      using False Cons.prems by (auto simp: with_todo intro: converse_rtranclp_into_rtranclp)
  qed
next
  case Nil
  then have "st\<lparr>sc_todo := []\<rparr> = st" by (cases st) simp
  then show ?case by simp
qed

lemma reconcile_is_run:
  assumes "sc_todo st = []" and "sc_pending st = None" and "ListEnabledMonitors M (sc_db st) = Inr ms"
  shows "(loop_step M)\<^sup>*\<^sup>* st (reconcile M st)"
proof -
  let ?st = "st\<lparr>sc_todo := ms, sc_now := sc_clock st\<rparr>"
  have "loop_step M st ?st" using tick [OF assms(1-3)] .
  moreover have "(dispatch_due (sc_clock st) ms ?st)\<lparr>sc_todo := []\<rparr> = reconcile M st"
  proof -
    have "?st\<lparr>sc_todo := []\<rparr> = st\<lparr>sc_now := sc_clock st\<rparr>" using assms(1) by (cases st) simp
    then have "dispatch_due (sc_clock st) ms (?st\<lparr>sc_todo := []\<rparr>) = reconcile M st"
      using assms(3) by (simp add: reconcile_def Let_def)
    then show ?thesis by (simp only: with_todo(3))
  qed
  then have "(loop_step M)\<^sup>*\<^sup>* ?st (reconcile M st)" using reconcile_run [of ?st ms M] assms(2) by simp
  ultimately show ?thesis by (rule converse_rtranclp_into_rtranclp)
qed

lemma with_now: "due m now (st\<lparr>sc_now := t\<rparr>) = due m now st"
  by (simp add: due_def)

section \<open>Runs\<close>

lemma loop_reachable: "(loop_step M)\<^sup>*\<^sup>* st st' \<Longrightarrow> sched_reachable ul M st \<Longrightarrow> sched_reachable ul M st'"
  by (induction rule: rtranclp_induct) (auto intro: sched_reachable.step sched_step.loop)

lemma task_run_reachable: "(task_step ul M ^^ n) st st' \<Longrightarrow> sched_reachable ul M st \<Longrightarrow> sched_reachable ul M st'"
  by (induction n arbitrary: st') (auto intro: sched_reachable.step sched_step.task)

lemma reachable_time: "sched_reachable ul M st \<Longrightarrow> sc_clock st \<le> t \<Longrightarrow> sched_reachable ul M (st\<lparr>sc_clock := t\<rparr>)"
  by (erule sched_reachable.step, erule sched_step.time)

lemma reachable_outside: "sched_reachable ul M st \<Longrightarrow> sched_reachable ul M (st\<lparr>sc_db := s\<rparr>)"
  by (erule sched_reachable.step, rule sched_step.outside)

text \<open>One monitor, alone: it is dispatched, checked, and dispatched again when its interval is over.\<close>

definition sample_sched_db :: "doc list db" where
  "sample_sched_db = empty_db\<lparr>st_servers := [DServer sample_srv], st_monitors := [DMonitor sample_monitor]\<rparr>"

lemma trim_space_h: "trim_space ''h'' = ''h''"
  by code_simp

lemma sample_sched_list: "ListEnabledMonitors mem_mongo sample_sched_db = Inr [sample_monitor]"
  by (simp add: ListEnabledMonitors_def sample_sched_db_def mem_coll_def sample_srv_def sample_monitor_def
      applyServerHostFallback_def trim_space_h page_def sort_docs_def)

lemma sample_interval: "interval sample_monitor = 60 * Second"
  by (simp add: interval_def sample_monitor_def Second_def)

definition sample_busy :: "doc list sched" where
  "sample_busy = reconcile mem_mongo (New 0 sample_sched_db)"

lemma sample_tick:
  "sched_reachable ul mem_mongo sample_busy"
  "sc_log sample_busy = [(0, sample_monitor)]" "sc_tasks sample_busy = [(sample_monitor, Waiting)]"
  "sc_inFlight sample_busy = {mon_ID sample_monitor}" "sc_lastRun sample_busy = [mon_ID sample_monitor \<mapsto> 0]"
  "sc_todo sample_busy = []" "sc_pending sample_busy = None" "sc_clock sample_busy = 0"
proof -
  have "(loop_step mem_mongo)\<^sup>*\<^sup>* (New 0 sample_sched_db) sample_busy"
    using reconcile_is_run [of "New 0 sample_sched_db" mem_mongo "[sample_monitor]"]
    by (simp add: sample_busy_def New_def sample_sched_list)
  then show "sched_reachable ul mem_mongo sample_busy" by (rule loop_reachable) (rule sched_reachable.init)
  have busy: "sample_busy = dispatch sample_monitor (New 0 sample_sched_db)"
    by (simp add: sample_busy_def reconcile_def New_def sample_sched_list Let_def due_def)
  show "sc_log sample_busy = [(0, sample_monitor)]" "sc_tasks sample_busy = [(sample_monitor, Waiting)]"
    "sc_inFlight sample_busy = {mon_ID sample_monitor}" "sc_lastRun sample_busy = [mon_ID sample_monitor \<mapsto> 0]"
    "sc_todo sample_busy = []" "sc_pending sample_busy = None" "sc_clock sample_busy = 0"
    by (simp_all add: busy dispatch_def New_def)
qed

text \<open>A check that is alone takes its five steps.\<close>

lemma check_completes:
  fixes st :: "'c sched"
  assumes "sc_tasks st = [(m, Waiting)]"
  obtains st' :: "'c sched" where "(task_step ul M ^^ 5) st st'" "sc_tasks st' = []" "sc_inFlight st' = sc_inFlight st - {mon_ID m}"
    "sc_log st' = sc_log st" "sc_lastRun st' = sc_lastRun st" "sc_todo st' = sc_todo st" "sc_pending st' = sc_pending st"
    "sc_clock st' = sc_clock st"
proof -
  define r where "r = probe_Run ul (\<lambda>_. undefined) (\<lambda>_. False) (sc_clock st) (sc_clock st) m"
  define s1 where "s1 = st\<lparr>sc_tasks := [(m, Probing (sc_clock st))]\<rparr>"
  define s2 where "s2 = s1\<lparr>sc_tasks := [(m, Saving r)]\<rparr>"
  define s3 where "s3 = (save_result M 0 0 [] [] m r s2)\<lparr>sc_tasks := [(m, Leaving)]\<rparr>"
  define s4 where "s4 = s3\<lparr>sc_tasks := [(m, Clearing)]\<rparr>"
  define s5 where "s5 = s4\<lparr>sc_tasks := [], sc_inFlight := sc_inFlight s4 - {mon_ID m}\<rparr>"
  note frames = s1_def s2_def s3_def s4_def s5_def save_result_frame
  have "task_step ul M st s1" using acquire [of st "[]" m "[]" ul M] assms by (simp add: s1_def used_slots_def holds_slot_def)
  moreover have "task_step ul M s1 s2"
    using probe [of s1 "[]" m "sc_clock st" "[]" ul M "\<lambda>_. undefined" "\<lambda>_. False"] by (simp add: r_def s1_def s2_def)
  moreover have "task_step ul M s2 s3"
    using save [of s2 "[]" m r "[]" ul M 0 0 "[]" "[]"] by (simp add: s2_def s3_def)
  moreover have "task_step ul M s3 s4" using release [of s3 "[]" m "[]" ul M] by (simp add: s3_def s4_def)
  moreover have "task_step ul M s4 s5" using clear [of s4 "[]" m "[]" ul M] by (simp add: s4_def s5_def)
  moreover have five: "(5 :: nat) = Suc (Suc (Suc (Suc (Suc 0))))" by simp
  ultimately have "(task_step ul M ^^ 5) st s5"
    unfolding five relpowp.simps by (intro relcomppI) (rule refl, assumption+)
  then show thesis by (rule that) (simp_all add: frames)
qed

lemma sample_second_tick:
  "\<exists>st. sched_reachable ul mem_mongo st \<and> sc_log st = [(0, sample_monitor), (60 * Second, sample_monitor)]"
proof -
  obtain s1 where s1: "(task_step ul mem_mongo ^^ 5) sample_busy s1" "sc_tasks s1 = []" "sc_inFlight s1 = {}"
    "sc_log s1 = [(0, sample_monitor)]" "sc_lastRun s1 = [mon_ID sample_monitor \<mapsto> 0]" "sc_todo s1 = []"
    "sc_pending s1 = None" "sc_clock s1 = 0"
    using check_completes [OF sample_tick(3), of ul mem_mongo] sample_tick by auto
  define s2 where "s2 = s1\<lparr>sc_clock := 60 * Second\<rparr>\<lparr>sc_db := sample_sched_db\<rparr>"
  have "sched_reachable ul mem_mongo s1"
    using task_run_reachable [OF s1(1) sample_tick(1)] .
  then have "sched_reachable ul mem_mongo (s1\<lparr>sc_clock := 60 * Second\<rparr>)"
    by (rule reachable_time) (simp add: s1(8) Second_def)
  then have "sched_reachable ul mem_mongo s2"
    unfolding s2_def by (rule reachable_outside)
  moreover have s2: "sc_clock s2 = 60 * Second" "sc_todo s2 = []" "sc_pending s2 = None" "sc_inFlight s2 = {}"
    "sc_log s2 = [(0, sample_monitor)]" "sc_lastRun s2 = [mon_ID sample_monitor \<mapsto> 0]"
    by (simp_all add: s2_def s1)
  moreover have list: "ListEnabledMonitors mem_mongo (sc_db s2) = Inr [sample_monitor]"
    by (simp add: s2_def sample_sched_list)
  ultimately have "sched_reachable ul mem_mongo (reconcile mem_mongo s2)"
    using loop_reachable [OF reconcile_is_run [OF _ _ list]] by (simp add: s2)
  moreover have "sc_log (reconcile mem_mongo s2) = [(0, sample_monitor), (60 * Second, sample_monitor)]"
    by (simp add: reconcile_def list reconcile_log Let_def due_def sample_interval s2)
      (simp add: time_sub_def Second_def max_int64_def min_int64_def dispatch_def s2)
  ultimately show ?thesis by blast
qed

section \<open>Properties\<close>

text \<open>
  C28: however the ticks and the goroutines interleave, no two checks of one monitor run at once, the
  marks in \<open>inFlight\<close> are exactly the monitors being checked, and at most 32 probes hold a slot.
\<close>

theorem checks_never_overlap:
  assumes "sched_reachable ul M st"
  shows "distinct (task_ids st) \<and> set (task_ids st) = sc_inFlight st \<and> used_slots st \<le> maxConcurrentProbes"
  using reachable_wf [OF assms] by (simp add: sched_wf_def)

theorem checks_never_overlap_witness:
  "used_slots sample_busy \<le> maxConcurrentProbes \<and> sc_inFlight sample_busy = {''mon_1''} \<and> distinct (task_ids sample_busy)"
  using checks_never_overlap [OF sample_tick(1)] sample_tick(4) by (simp add: sample_monitor_def)

text \<open>
  C29: two dispatches of one monitor are at least its interval apart, however the ticks and the
  goroutines interleave.
\<close>

theorem dispatches_are_spaced:
  assumes "sched_reachable ul M st" and "sc_log st = before @ (t, m) # between @ (t', m') # after"
    and "mon_ID m = mon_ID m'"
  shows "t + interval m' \<le> t'"
proof -
  have "log_spaced (sc_log st)" using reachable_wf [OF assms(1)] by (simp add: sched_wf_def)
  from this [unfolded log_spaced_def, rule_format, of "length before" "length before + Suc (length between)"] assms(2,3)
  show ?thesis by (simp add: nth_append)
qed

theorem dispatches_are_spaced_witness:
  "\<exists>st. sched_reachable (\<lambda>s. s) mem_mongo st \<and> sc_log st = [(0, sample_monitor), (60 * Second, sample_monitor)] \<and>
     interval sample_monitor \<le> 60 * Second"
proof -
  obtain st where st: "sched_reachable (\<lambda>s. s) mem_mongo st" "sc_log st = [(0, sample_monitor), (60 * Second, sample_monitor)]"
    using sample_second_tick by blast
  with dispatches_are_spaced [OF st(1), of "[]" 0 sample_monitor "[]" "60 * Second" sample_monitor "[]"] show ?thesis by auto
qed

text \<open>
  Every dispatched check ends: each step of a goroutine brings it nearer to its end, so that at most
  five steps per check are taken, and whenever none is possible no check is left and every mark is
  cleared. On shutdown the wait for the goroutines returns.
\<close>

theorem checks_drain:
  assumes "sched_reachable ul M st" and "(task_step ul M ^^ n) st st'"
  shows "n \<le> 5 * length (sc_tasks st) \<and>
    ((\<exists>st''. task_step ul M st' st'') \<or> (sc_tasks st' = [] \<and> sc_inFlight st' = {}))"
proof -
  have "sched_wf st'" using task_run_wf [OF assms(2)] reachable_wf [OF assms(1)] by simp
  then have "sc_inFlight st' = {}" if "sc_tasks st' = []" using that by (auto simp: sched_wf_def task_ids_def)
  moreover have "n \<le> 5 * length (sc_tasks st)" using work_run [OF assms(2)] work_bound [of st] by simp
  ultimately show ?thesis using task_enabled [of st' ul M] by blast
qed

theorem checks_drain_witness:
  "\<exists>st'. (task_step (\<lambda>s. s) mem_mongo ^^ 5) sample_busy st' \<and> 5 \<le> 5 * length (sc_tasks sample_busy) \<and> sc_inFlight st' = {}"
proof -
  obtain st' where st: "(task_step (\<lambda>s. s) mem_mongo ^^ 5) sample_busy st'" "sc_tasks st' = []" "sc_inFlight st' = {}"
    by (rule check_completes [OF sample_tick(3), of "\<lambda>s. s" mem_mongo]) (simp add: sample_tick(4))
  with checks_drain [OF sample_tick(1) st(1)] show ?thesis by blast
qed

text \<open>
  A tick that no goroutine interrupts is a run of the loop and, when no two enabled monitors share an
  id, dispatches exactly the monitors that are due, in their order.
\<close>

theorem tick_dispatches_due:
  assumes "sc_todo st = []" and "sc_pending st = None"
    and "ListEnabledMonitors M (sc_db st) = Inr ms" and "distinct (map mon_ID ms)"
  shows "(loop_step M)\<^sup>*\<^sup>* st (reconcile M st) \<and>
    sc_log (reconcile M st) = sc_log st @ map (Pair (sc_clock st)) (filter (\<lambda>m. due m (sc_clock st) st) ms)"
  using reconcile_is_run [OF assms(1-3)] assms(3,4)
  by (simp add: reconcile_def reconcile_log first_due_distinct Let_def with_now)

theorem tick_dispatches_due_witness:
  "sc_log (reconcile mem_mongo (New 0 sample_sched_db)) = [(0, sample_monitor)]"
  using tick_dispatches_due [of "New 0 sample_sched_db" mem_mongo "[sample_monitor]"]
  by (simp add: New_def sample_sched_list due_def)

text \<open>
  An enabled monitor that follows another one of the same id, whose interval is not longer, is not
  dispatched by any such tick: the scheduler keys its state by the monitor's id alone, which is unique
  only within a server.
\<close>

theorem shared_id_starves:
  assumes "ListEnabledMonitors M (sc_db st) = Inr (xs @ m # ys)" and "m' \<notin> set xs" and "m' \<noteq> m"
    and "mon_ID m' = mon_ID m" and "interval m \<le> interval m'"
  shows "\<exists>fired. sc_log (reconcile M st) = sc_log st @ map (Pair (sc_clock st)) fired \<and> m' \<notin> set fired"
proof -
  let ?P = "\<lambda>m. due m (sc_clock st) (st\<lparr>sc_now := sc_clock st\<rparr>)"
  have "?P m" if "?P m'" using that assms(4,5) by (auto simp: due_def split: if_splits option.splits)
  then have "m' \<notin> set (first_due ?P seen (m # ys))" for seen
    using assms(3,4) first_due_unseen [of m' ?P seen ys] first_due_unseen [of m' ?P "insert (mon_ID m) seen" ys] by auto
  moreover have "m' \<notin> set (first_due ?P {} xs)" using assms(2) first_due_unseen [of m' ?P "{}" xs] by blast
  ultimately have "m' \<notin> set (first_due ?P {} (xs @ m # ys))" by (simp only: first_due_append set_append Un_iff) simp
  then show ?thesis using assms(1) by (auto simp: reconcile_def reconcile_log Let_def)
qed

definition twin_monitor :: Monitor where
  "twin_monitor = sample_monitor\<lparr>mon_ServerID := ''srv_2''\<rparr>"

theorem shared_id_starves_witness:
  "\<exists>fired. sc_log (reconcile mem_mongo (New 0 (sample_sched_db\<lparr>
       st_servers := [DServer sample_srv, DServer (sample_srv\<lparr>srv_ID := ''srv_2''\<rparr>)],
       st_monitors := [DMonitor sample_monitor, DMonitor twin_monitor]\<rparr>))) = map (Pair 0) fired \<and> twin_monitor \<notin> set fired"
proof -
  let ?st = "New 0 (sample_sched_db\<lparr>st_servers := [DServer sample_srv, DServer (sample_srv\<lparr>srv_ID := ''srv_2''\<rparr>)],
     st_monitors := [DMonitor sample_monitor, DMonitor twin_monitor]\<rparr>) :: doc list sched"
  have "ListEnabledMonitors mem_mongo (sc_db ?st) = Inr ([] @ sample_monitor # [twin_monitor])"
    by (simp add: New_def ListEnabledMonitors_def sample_sched_db_def mem_coll_def sample_srv_def sample_monitor_def
      twin_monitor_def applyServerHostFallback_def trim_space_h page_def sort_docs_def)
  from shared_id_starves [OF this, of twin_monitor] show ?thesis
    by (simp add: twin_monitor_def sample_monitor_def interval_def) (simp add: New_def)
qed

end
