(* ===== verification/Archive.thy ===== *)
theory Archive
  imports Documents "HOL-Library.Sublist"
begin

text \<open>
  The archive of check results, internal/archive: a bounded buffer, a loop that collects results into
  batches and uploads a batch by size or at a tick, retries after a failed upload and a last upload at
  shutdown. An event is one step of a producer or of the loop, with the answer of the upload it may
  make; an event that is not possible where the loop stands is ignored, so every list of events is a
  run. The encoding of a batch and the object store are behind the answer: \<open>Permanent\<close> is an encoding
  error, \<open>Transient\<close> a failed upload. The parts of an object's key that hold the time and the random
  UUID are arguments.
\<close>

definition defaultPrefix :: string where "defaultPrefix = ''monitor_results''"

abbreviation "defaultBatchSize \<equiv> (100 :: int)"
abbreviation "bufferCapacity \<equiv> (10000 :: nat)"

definition defaultFlushInterval :: duration where "defaultFlushInterval = 60 * Second"

record archive_config =
  ac_Bucket :: string
  ac_Prefix :: string
  ac_BatchSize :: int
  ac_FlushInterval :: duration

datatype archive_mode = Running | Draining | Stopped

text \<open>\<open>ar_dropped\<close> and \<open>ar_lost\<close> are ghosts: what \<open>Enqueue\<close> and what the loop discards.\<close>

record archive =
  ar_ch :: "CheckResult list"
  ar_batch :: "CheckResult list"
  ar_flushFailed :: bool
  ar_mode :: archive_mode
  ar_objects :: "CheckResult list list"
  ar_dropped :: "CheckResult list"
  ar_lost :: "CheckResult list"

section \<open>Operations\<close>

definition newWithClient :: "archive_config \<Rightarrow> archive_config \<times> archive" where
  "newWithClient cfg =
     (let cfg = (if ac_Prefix cfg = [] then cfg\<lparr>ac_Prefix := defaultPrefix\<rparr> else cfg);
          cfg = (if ac_BatchSize cfg \<le> 0 then cfg\<lparr>ac_BatchSize := defaultBatchSize\<rparr> else cfg);
          cfg = (if ac_FlushInterval cfg \<le> 0 then cfg\<lparr>ac_FlushInterval := defaultFlushInterval\<rparr> else cfg)
      in (cfg, \<lparr>ar_ch = [], ar_batch = [], ar_flushFailed = False, ar_mode = Running, ar_objects = [],
           ar_dropped = [], ar_lost = []\<rparr>))"

text \<open>Without a client or a bucket nothing is archived.\<close>

definition NewArchiver :: "bool \<Rightarrow> archive_config \<Rightarrow> (archive_config \<times> archive) option" where
  "NewArchiver client cfg = (if \<not> client \<or> ac_Bucket cfg = [] then None else Some (newWithClient cfg))"

definition Enqueue :: "CheckResult \<Rightarrow> archive \<Rightarrow> archive" where
  "Enqueue r st =
     (if length (ar_ch st) < bufferCapacity then st\<lparr>ar_ch := ar_ch st @ [r]\<rparr> else st\<lparr>ar_dropped := ar_dropped st @ [r]\<rparr>)"

datatype flush_answer = Flushed | Permanent | Transient

definition flush_batch :: "bool \<Rightarrow> flush_answer \<Rightarrow> archive \<Rightarrow> archive" where
  "flush_batch final answer st =
     (if ar_batch st = [] then st
      else if answer = Flushed then st\<lparr>ar_objects := ar_objects st @ [ar_batch st], ar_batch := [], ar_flushFailed := False\<rparr>
      else if final \<or> answer = Permanent then st\<lparr>ar_lost := ar_lost st @ ar_batch st, ar_batch := []\<rparr>
      else let excess = length (ar_batch st) - bufferCapacity in
        st\<lparr>ar_flushFailed := True, ar_lost := ar_lost st @ take excess (ar_batch st), ar_batch := drop excess (ar_batch st)\<rparr>)"

definition flushOnSize :: "archive_config \<Rightarrow> flush_answer \<Rightarrow> archive \<Rightarrow> archive" where
  "flushOnSize cfg answer st =
     (if ac_BatchSize cfg \<le> int (length (ar_batch st)) \<and> \<not> ar_flushFailed st then flush_batch False answer st else st)"

definition receive_one :: "archive_config \<Rightarrow> flush_answer \<Rightarrow> archive \<Rightarrow> archive" where
  "receive_one cfg answer st =
     (case ar_ch st of [] \<Rightarrow> st
      | r # rest \<Rightarrow> flushOnSize cfg answer (st\<lparr>ar_ch := rest, ar_batch := ar_batch st @ [r]\<rparr>))"

text \<open>The object's key; \<open>strings.Trim\<close> takes the slashes off both ends of the prefix.\<close>

definition objectKey :: "string \<Rightarrow> string \<Rightarrow> int \<Rightarrow> nat \<Rightarrow> string \<Rightarrow> string" where
  "objectKey pre hour millis n uuid8 =
     (let trim = dropWhile (\<lambda>c. c = CHR ''/'') in
      rev (trim (rev (trim pre))) @ ''/'' @ hour @ ''/'' @ format_int millis @ ''-'' @ format_nat n @ ''-'' @ uuid8 @ ''.jsonl'')"

section \<open>Runs\<close>

datatype archive_event = Produce CheckResult | Receive flush_answer | FlushTick flush_answer | Cancel | LastFlush flush_answer

definition handle_event :: "archive_config \<Rightarrow> archive_event \<Rightarrow> archive \<Rightarrow> archive" where
  "handle_event cfg e st =
     (case e of
        Produce r \<Rightarrow> Enqueue r st
      | Receive a \<Rightarrow> if ar_mode st = Stopped then st else receive_one cfg a st
      | FlushTick a \<Rightarrow> if ar_mode st = Running then flush_batch False a st else st
      | Cancel \<Rightarrow> if ar_mode st = Running then st\<lparr>ar_mode := Draining\<rparr> else st
      | LastFlush a \<Rightarrow> if ar_mode st = Draining \<and> ar_ch st = [] then (flush_batch True a st)\<lparr>ar_mode := Stopped\<rparr> else st)"

definition archive_run :: "archive_config \<Rightarrow> archive_event list \<Rightarrow> archive" where
  "archive_run cfg es = (case newWithClient cfg of (cfg, st) \<Rightarrow> fold (handle_event cfg) es st)"

fun produced :: "archive_event list \<Rightarrow> CheckResult list" where
  "produced [] = []"
| "produced (Produce r # es) = r # produced es"
| "produced (_ # es) = produced es"

definition archived :: "archive \<Rightarrow> CheckResult list" where
  "archived st = concat (ar_objects st) @ ar_batch st @ ar_ch st"

lemmas archive_ops = handle_event_def Enqueue_def receive_one_def flushOnSize_def flush_batch_def

lemma produced_append [simp]: "produced (es @ fs) = produced es @ produced fs"
  by (induction es rule: produced.induct) simp_all

section \<open>Accounting\<close>

definition accounts :: "archive \<Rightarrow> CheckResult list \<Rightarrow> bool" where
  "accounts st rs \<longleftrightarrow> subseq (archived st) rs \<and> mset (archived st) + mset (ar_dropped st) + mset (ar_lost st) = mset rs"

text \<open>A flush gives up a front part of the batch, none when the upload succeeds.\<close>

lemma flush_effect:
  obtains n where "archived (flush_batch final a st) = concat (ar_objects st) @ drop n (ar_batch st) @ ar_ch st"
    "ar_lost (flush_batch final a st) = ar_lost st @ take n (ar_batch st)"
    "ar_dropped (flush_batch final a st) = ar_dropped st" "a = Flushed \<Longrightarrow> n = 0"
proof (cases "ar_batch st = [] \<or> a = Flushed")
  case True
  then show thesis by (intro that [of 0]) (auto simp: flush_batch_def archived_def)
next
  case False
  then show thesis
    by (intro that [of "if final \<or> a = Permanent then length (ar_batch st) else length (ar_batch st) - bufferCapacity"])
      (auto simp: flush_batch_def archived_def Let_def)
qed

lemma drop_middle: "subseq (xs @ drop n ys @ zs) (xs @ ys @ zs)"
  by (intro list_emb_append_mono subseq_order.refl suffix_imp_subseq suffix_drop)

lemma flush_accounts:
  assumes "accounts st rs"
  shows "accounts (flush_batch final a st) rs"
proof -
  obtain n where n: "archived (flush_batch final a st) = concat (ar_objects st) @ drop n (ar_batch st) @ ar_ch st"
    "ar_lost (flush_batch final a st) = ar_lost st @ take n (ar_batch st)"
    "ar_dropped (flush_batch final a st) = ar_dropped st"
    by (rule flush_effect)
  have m: "mset (take n (ar_batch st)) + mset (drop n (ar_batch st)) = mset (ar_batch st)"
    by (metis append_take_drop_id mset_append)
  have "subseq (archived (flush_batch final a st)) (archived st)" unfolding n(1) by (simp only: archived_def drop_middle)
  moreover have "mset (archived (flush_batch final a st)) + mset (ar_dropped st) + mset (ar_lost (flush_batch final a st)) =
      mset (archived st) + mset (ar_dropped st) + mset (ar_lost st)"
  proof -
    have "mset (archived (flush_batch final a st)) = mset (concat (ar_objects st)) + mset (drop n (ar_batch st)) + mset (ar_ch st)"
      unfolding n(1) by simp
    moreover have "mset (archived st) = mset (concat (ar_objects st)) + mset (ar_batch st) + mset (ar_ch st)"
      by (simp add: archived_def)
    ultimately show ?thesis by (simp add: n(2) m [symmetric])
  qed
  ultimately show ?thesis using assms by (simp only: accounts_def n(3)) (blast intro: subseq_order.trans)
qed

lemma receive_accounts: "accounts st rs \<Longrightarrow> accounts (receive_one cfg a st) rs"
proof -
  assume "accounts st rs"
  then have "accounts (st\<lparr>ar_ch := tl (ar_ch st), ar_batch := ar_batch st @ [hd (ar_ch st)]\<rparr>) rs" if "ar_ch st \<noteq> []"
    using that by (simp add: accounts_def archived_def)
  with \<open>accounts st rs\<close> show ?thesis
    by (cases "ar_ch st") (auto simp: receive_one_def flushOnSize_def intro: flush_accounts)
qed

lemma event_accounts: "accounts st rs \<Longrightarrow> accounts (handle_event cfg e st) (rs @ produced [e])"
proof (cases e)
  case (Produce r)
  assume a: "accounts st rs"
  then have "subseq (archived st @ [r]) (rs @ [r])" "subseq (archived st) (rs @ [r])"
    by (simp_all add: accounts_def list_emb_append_mono subseq_rev_drop_many)
  with a Produce show ?thesis by (auto simp: handle_event_def Enqueue_def accounts_def archived_def)
next
  case (LastFlush a)
  assume "accounts st rs"
  then show ?thesis
    using flush_accounts [of st rs True a] LastFlush by (simp add: handle_event_def accounts_def archived_def)
qed (auto simp: handle_event_def receive_accounts flush_accounts, simp_all add: accounts_def archived_def)

lemma run_accounts: "accounts st rs \<Longrightarrow> accounts (fold (handle_event cfg) es st) (rs @ produced es)"
proof (induction es arbitrary: st rs)
  case (Cons e es)
  have "produced (e # es) = produced [e] @ produced es" by (cases e) simp_all
  with Cons.IH [OF event_accounts [OF Cons.prems, of cfg e]] show ?case by simp
qed simp

section \<open>Bounds\<close>

text \<open>The buffer is bounded, no object is empty, and a batch is full only while uploads fail.\<close>

definition archive_wf :: "archive_config \<Rightarrow> archive \<Rightarrow> bool" where
  "archive_wf cfg st \<longleftrightarrow> 0 < ac_BatchSize cfg \<and> length (ar_ch st) \<le> bufferCapacity \<and> [] \<notin> set (ar_objects st) \<and>
     (ar_flushFailed st \<or> int (length (ar_batch st)) < ac_BatchSize cfg) \<and> (ar_mode st = Stopped \<longrightarrow> ar_batch st = [])"

lemma flush_wf: "archive_wf cfg st \<Longrightarrow> archive_wf cfg (flush_batch final a st)"
  by (auto simp: archive_wf_def flush_batch_def Let_def)

lemma event_wf: "archive_wf cfg st \<Longrightarrow> archive_wf cfg (handle_event cfg e st)"
proof (cases e)
  case (Receive a)
  assume wf: "archive_wf cfg st"
  show ?thesis
    using wf Receive
    by (auto simp: handle_event_def receive_one_def flushOnSize_def flush_batch_def archive_wf_def Let_def split: list.split)
next
  case (LastFlush a)
  assume "archive_wf cfg st"
  then show ?thesis using LastFlush by (auto simp: handle_event_def archive_wf_def flush_batch_def Let_def)
qed (auto simp: handle_event_def flush_wf, auto simp: archive_wf_def Enqueue_def)

lemma run_wf: "archive_wf cfg st \<Longrightarrow> archive_wf cfg (fold (handle_event cfg) es st)"
  by (induction es arbitrary: st) (simp_all add: event_wf)

section \<open>Runs without failures\<close>

fun fails :: "archive_event \<Rightarrow> bool" where
  "fails (Receive a) = (a \<noteq> Flushed)"
| "fails (FlushTick a) = (a \<noteq> Flushed)"
| "fails (LastFlush a) = (a \<noteq> Flushed)"
| "fails _ = False"

lemma flush_keeps: "ar_lost (flush_batch final Flushed st) = ar_lost st" "ar_dropped (flush_batch final a st) = ar_dropped st"
  "ar_ch (flush_batch final a st) = ar_ch st" "ar_mode (flush_batch final a st) = ar_mode st"
  by (simp_all add: flush_batch_def Let_def)

lemma receive_keeps: "ar_lost (receive_one cfg Flushed st) = ar_lost st" "ar_dropped (receive_one cfg a st) = ar_dropped st"
  "ar_ch (receive_one cfg a st) = tl (ar_ch st)" "ar_mode (receive_one cfg a st) = ar_mode st"
  by (simp_all add: receive_one_def flushOnSize_def flush_keeps split: list.split)

lemma run_snoc: "archive_run cfg (es @ [e]) = handle_event (fst (newWithClient cfg)) e (archive_run cfg es)"
  by (simp add: archive_run_def split: prod.split)

lemma archive_run_accounts: "accounts (archive_run cfg es) (produced es)"
proof -
  obtain cfg' st where n: "newWithClient cfg = (cfg', st)" by fastforce
  then have "accounts st []" by (auto simp: newWithClient_def Let_def accounts_def archived_def)
  with run_accounts [of st "[]" cfg' es] n show ?thesis by (simp add: archive_run_def)
qed

lemma no_loss:
  assumes "\<forall>e \<in> set es. \<not> fails e" and "length (produced es) \<le> bufferCapacity"
  shows "ar_lost (archive_run cfg es) = [] \<and> ar_dropped (archive_run cfg es) = []"
  using assms
proof (induction es rule: rev_induct)
  case Nil
  show ?case by (simp add: archive_run_def newWithClient_def Let_def)
next
  case (snoc e es)
  have "length (ar_ch (archive_run cfg es)) \<le> length (produced es)"
    using archive_run_accounts [of cfg es, unfolded accounts_def, THEN conjunct2, THEN arg_cong [where f = size]]
    by (simp add: archived_def)
  with snoc show ?case
    by (cases e) (auto simp: run_snoc handle_event_def Enqueue_def flush_keeps receive_keeps)
qed

lemma receive_run:
  "ar_mode st \<noteq> Stopped \<Longrightarrow> ar_ch (fold (handle_event cfg) (replicate n (Receive a)) st) = drop n (ar_ch st) \<and>
     ar_mode (fold (handle_event cfg) (replicate n (Receive a)) st) = ar_mode st"
  by (induction n arbitrary: st) (simp_all add: handle_event_def receive_keeps drop_Suc)

lemma produced_replicate [simp]: "produced (replicate n (Receive a)) = []"
  by (induction n) simp_all

section \<open>Properties\<close>

lemma new_archive: "newWithClient cfg = (cfg', st) \<Longrightarrow> archive_wf cfg' st"
  by (auto simp: newWithClient_def Let_def archive_wf_def split: if_splits)

text \<open>
  C32: whatever the uploads answer and however producers, ticks and shutdown interleave, every produced
  result is in exactly one place: uploaded, waiting, dropped because the buffer was full, or given up
  after a failed upload; what is uploaded or waits keeps the order in which it was produced.
\<close>

theorem archive_accounts_for_results:
  "subseq (archived (archive_run cfg es)) (produced es) \<and>
   mset (archived (archive_run cfg es)) + mset (ar_dropped (archive_run cfg es)) + mset (ar_lost (archive_run cfg es)) =
     mset (produced es)"
  using archive_run_accounts [of cfg es] by (simp add: accounts_def)

text \<open>
  The buffer never holds more than 10000 results, no empty object is written, and unless the last
  upload failed the batch is smaller than the configured size; once the loop has stopped nothing is
  left in the batch.
\<close>

theorem archive_bounds:
  "length (ar_ch (archive_run cfg es)) \<le> bufferCapacity \<and> [] \<notin> set (ar_objects (archive_run cfg es)) \<and>
   (ar_flushFailed (archive_run cfg es) \<or>
     int (length (ar_batch (archive_run cfg es))) < (if ac_BatchSize cfg \<le> 0 then defaultBatchSize else ac_BatchSize cfg)) \<and>
   (ar_mode (archive_run cfg es) \<noteq> Stopped \<or> ar_batch (archive_run cfg es) = [])"
proof -
  obtain cfg' st where n: "newWithClient cfg = (cfg', st)" by fastforce
  then have "ac_BatchSize cfg' = (if ac_BatchSize cfg \<le> 0 then defaultBatchSize else ac_BatchSize cfg)"
    by (auto simp: newWithClient_def Let_def)
  with run_wf [of cfg' st es] new_archive [OF n] n show ?thesis by (auto simp: archive_run_def archive_wf_def)
qed

text \<open>The state when the loop has taken the buffer in and made its last upload.\<close>

definition shut_down :: "nat \<Rightarrow> archive_event list" where
  "shut_down n = Cancel # replicate n (Receive Flushed) @ [LastFlush Flushed]"

text \<open>
  When no upload fails and the buffer does not overflow, a shutdown leaves every produced result
  uploaded exactly once, in the order of production, and nothing in the buffer.
\<close>

theorem shutdown_archives_everything:
  assumes "\<forall>e \<in> set es. \<not> fails e" and "length (produced es) \<le> bufferCapacity"
    and "ar_mode (archive_run cfg es) \<noteq> Stopped"
  shows "concat (ar_objects (archive_run cfg (es @ shut_down (length (produced es))))) = produced es \<and>
    ar_mode (archive_run cfg (es @ shut_down (length (produced es)))) = Stopped"
proof -
  let ?n = "length (produced es)"
  let ?fs = "es @ Cancel # replicate ?n (Receive Flushed)"
  let ?st = "archive_run cfg ?fs" and ?done_st = "archive_run cfg (es @ shut_down ?n)"
  obtain cfg' st where n: "newWithClient cfg = (cfg', st)" by fastforce
  have run: "?st = fold (handle_event cfg') (replicate ?n (Receive Flushed)) (handle_event cfg' Cancel (archive_run cfg es))"
    by (simp add: archive_run_def n)
  have cancel: "ar_mode (handle_event cfg' Cancel (archive_run cfg es)) = Draining"
    using assms(3) by (cases "ar_mode (archive_run cfg es)") (auto simp: handle_event_def)
  have ch: "ar_ch (handle_event cfg' Cancel (archive_run cfg es)) = ar_ch (archive_run cfg es)" by (simp add: handle_event_def)
  have "length (ar_ch (archive_run cfg es)) \<le> ?n"
    using archive_run_accounts [of cfg es, unfolded accounts_def, THEN conjunct2, THEN arg_cong [where f = size]]
    by (simp add: archived_def)
  then have st: "ar_ch ?st = []" "ar_mode ?st = Draining"
    unfolding run using receive_run [of "handle_event cfg' Cancel (archive_run cfg es)" cfg' ?n Flushed] cancel ch by auto
  have "?done_st = (flush_batch True Flushed ?st)\<lparr>ar_mode := Stopped\<rparr>"
    using run_snoc [of cfg ?fs "LastFlush Flushed"] st by (simp add: shut_down_def handle_event_def)
  then have fin: "ar_ch ?done_st = []" "ar_batch ?done_st = []" "ar_mode ?done_st = Stopped" using st by (simp_all add: flush_batch_def)
  have "\<forall>e \<in> set (es @ shut_down ?n). \<not> fails e" using assms(1) by (auto simp: shut_down_def)
  moreover have p: "produced (es @ shut_down ?n) = produced es" by (simp add: shut_down_def)
  ultimately have "ar_lost ?done_st = []" "ar_dropped ?done_st = []" using no_loss [of "es @ shut_down ?n" cfg] assms(2) by auto
  with archive_run_accounts [of cfg "es @ shut_down ?n"] p
  have "subseq (archived ?done_st) (produced es)" "mset (archived ?done_st) = mset (produced es)" by (simp_all add: accounts_def)
  then have "archived ?done_st = produced es" by (metis subseq_same_length mset_eq_length)
  with fin show ?thesis by (simp add: archived_def)
qed

definition archived_sample :: CheckResult where
  "archived_sample = \<lparr>res_ID = [], res_ServerID = ''srv_1'', res_MonitorID = ''mon_1'', res_Status = StatusDown,
     res_StartedAt = 1, res_EndedAt = 2, res_DurationMS = 0, res_ErrorStage = ''tcp'', res_ErrorMessage = [],
     res_RemoteAddress = [], res_Port = 80, res_HTTPStatusCode = 0, res_Certificate = None\<rparr>"

theorem shutdown_archives_everything_witness:
  "concat (ar_objects (archive_run \<lparr>ac_Bucket = ''b'', ac_Prefix = [], ac_BatchSize = 1, ac_FlushInterval = 0\<rparr>
     ([Produce archived_sample, FlushTick Flushed, Produce archived_sample] @ shut_down (Suc (Suc 0))))) =
   [archived_sample, archived_sample]"
proof -
  have "ar_mode (archive_run \<lparr>ac_Bucket = ''b'', ac_Prefix = [], ac_BatchSize = 1, ac_FlushInterval = 0\<rparr>
      [Produce archived_sample, FlushTick Flushed, Produce archived_sample]) \<noteq> Stopped"
    by (simp add: archive_run_def newWithClient_def handle_event_def Enqueue_def flush_batch_def Let_def)
  from shutdown_archives_everything [OF _ _ this] show ?thesis by simp
qed

text \<open>A full buffer keeps the results it has; the new one is dropped.\<close>

lemma full_buffer_drops_newest:
  assumes "length (ar_ch st) = bufferCapacity"
  shows "ar_ch (Enqueue r st) = ar_ch st \<and> ar_dropped (Enqueue r st) = ar_dropped st @ [r]"
  using assms by (simp add: Enqueue_def)

end
