(* ===== verification/StatusView.thy ===== *)
theory StatusView
  imports Uptime
begin

text \<open>
  The public status page, internal/statusview/status.go: the monitor groups with their enabled monitors
  on enabled servers. The code reads the uptimes of a group concurrently and reports the error that
  comes first; \<open>first_of\<close> chooses it. All reads of one page see the same database.
\<close>

abbreviation "PageLimit \<equiv> (200 :: int)"

section \<open>The page\<close>

record PublicCertificate =
  puc_NotBefore :: gotime
  puc_NotAfter :: gotime
  puc_DaysRemaining :: u32

record 'f StatusMonitor =
  sm_ID :: string
  sm_ServerID :: string
  sm_Name :: string
  sm_Kind :: string
  sm_Status :: string
  sm_IntervalSeconds :: u32
  sm_LastCheckAt :: gotime
  sm_WarningDays :: u32
  sm_CriticalDays :: u32
  sm_Certificate :: "PublicCertificate option"
  sm_Uptime :: "'f MonitorUptime"

record 'f StatusServer =
  ssv_ID :: string
  ssv_Name :: string
  ssv_Environment :: string
  ssv_Tags :: "string list"
  ssv_Monitors :: "'f StatusMonitor list"

record 'f StatusGroup =
  sg_ID :: string
  sg_Name :: string
  sg_Description :: string
  sg_SortOrder :: u32
  sg_Servers :: "'f StatusServer list"

section \<open>Operations\<close>

definition publicCert :: "CertificateInfo option \<Rightarrow> PublicCertificate option" where
  "publicCert cert = map_option (\<lambda>c. \<lparr>puc_NotBefore = ci_NotBefore c, puc_NotAfter = ci_NotAfter c,
     puc_DaysRemaining = ci_DaysRemaining c\<rparr>) cert"

definition serverName :: "Server \<Rightarrow> string \<Rightarrow> string" where
  "serverName server fallback = (if srv_Name server \<noteq> [] then srv_Name server else fallback)"

definition zero_server :: Server where
  "zero_server = \<lparr>srv_ID = [], srv_Name = [], srv_Host = [], srv_Environment = [], srv_Region = [], srv_Tags = [],
     srv_SortOrder = 0, srv_Enabled = False, srv_HealthStatus = [], srv_LastStatusChangeAt = zero_time,
     srv_LastCheckAt = zero_time, srv_SSH = None, srv_CreatedAt = zero_time, srv_UpdatedAt = zero_time\<rparr>"

type_synonym server_cache = "string \<rightharpoonup> Server"

definition lookupServer :: "'c mongo \<Rightarrow> 'c db \<Rightarrow> string \<Rightarrow> server_cache \<Rightarrow> (err + Server) \<times> server_cache" where
  "lookupServer M s ident cache =
     (case cache ident of
        Some cached \<Rightarrow> (Inr cached, cache)
      | None \<Rightarrow>
          (case GetServer M ident s of
             Inl e \<Rightarrow> if IsNotFound e then (Inr zero_server, cache(ident \<mapsto> zero_server)) else (Inl e, cache)
           | Inr server \<Rightarrow> (Inr server, cache(ident \<mapsto> server))))"

fun visible_monitors :: "'c mongo \<Rightarrow> 'c db \<Rightarrow> Monitor list \<Rightarrow> server_cache \<Rightarrow> (err + Monitor list) \<times> server_cache" where
  "visible_monitors M s [] cache = (Inr [], cache)"
| "visible_monitors M s (m # ms) cache =
     (if \<not> mon_Enabled m then visible_monitors M s ms cache
      else and_then (lookupServer M s (mon_ServerID m) cache) (\<lambda>server cache.
        if \<not> srv_Enabled server then visible_monitors M s ms cache
        else and_then (visible_monitors M s ms cache) (\<lambda>rest cache. (Inr (m # rest), cache))))"

definition status_monitor :: "Monitor \<Rightarrow> 'f MonitorUptime \<Rightarrow> 'f StatusMonitor" where
  "status_monitor m u =
     \<lparr>sm_ID = mon_ID m, sm_ServerID = mon_ServerID m, sm_Name = mon_Name m, sm_Kind = mon_Kind m, sm_Status = mon_Status m,
      sm_IntervalSeconds = mon_IntervalSeconds m, sm_LastCheckAt = mon_LastCheckAt m, sm_WarningDays = mon_WarningDays m,
      sm_CriticalDays = mon_CriticalDays m, sm_Certificate = publicCert (mon_Certificate m), sm_Uptime = u\<rparr>"

text \<open>The order of the servers and the monitors under each.\<close>

definition add_monitor ::
  "Monitor \<times> 'f MonitorUptime \<Rightarrow> string list \<times> (string \<rightharpoonup> 'f StatusMonitor list) \<Rightarrow>
    string list \<times> (string \<rightharpoonup> 'f StatusMonitor list)" where
  "add_monitor mu acc =
     (case (mu, acc) of ((m, u), (order, byServer)) \<Rightarrow>
        let sid = mon_ServerID m;
            order = (if byServer sid = None then order @ [sid] else order);
            earlier = (case byServer sid of None \<Rightarrow> [] | Some ms \<Rightarrow> ms)
        in (order, byServer(sid \<mapsto> earlier @ [status_monitor m u])))"

fun status_servers ::
  "'c mongo \<Rightarrow> 'c db \<Rightarrow> (string \<rightharpoonup> 'f StatusMonitor list) \<Rightarrow> string list \<Rightarrow> server_cache \<Rightarrow>
    (err + 'f StatusServer list) \<times> server_cache" where
  "status_servers M s byServer [] cache = (Inr [], cache)"
| "status_servers M s byServer (sid # order) cache =
     and_then (lookupServer M s sid cache) (\<lambda>server cache.
     and_then (status_servers M s byServer order cache) (\<lambda>rest cache.
       (Inr (\<lparr>ssv_ID = sid, ssv_Name = serverName server sid, ssv_Environment = srv_Environment server,
          ssv_Tags = srv_Tags server, ssv_Monitors = (case byServer sid of None \<Rightarrow> [] | Some ms \<Rightarrow> ms)\<rparr> # rest), cache)))"

definition errors_of :: "(err + 'a) list \<Rightarrow> err list" where
  "errors_of rs = concat (map (\<lambda>r. case r of Inl e \<Rightarrow> [e] | Inr _ \<Rightarrow> []) rs)"

definition values_of :: "(err + 'a) list \<Rightarrow> 'a list" where
  "values_of rs = concat (map (\<lambda>r. case r of Inl _ \<Rightarrow> [] | Inr x \<Rightarrow> [x]) rs)"

definition buildServers ::
  "(err list \<Rightarrow> err) \<Rightarrow> (int \<Rightarrow> int \<Rightarrow> 'f) \<Rightarrow> 'f \<Rightarrow> 'c mongo \<Rightarrow> gotime \<Rightarrow> 'c db \<Rightarrow> Monitor list \<Rightarrow> server_cache \<Rightarrow>
    (err + 'f StatusServer list) \<times> server_cache" where
  "buildServers first_of fdiv fzero M now s ms cache =
     and_then (visible_monitors M s ms cache) (\<lambda>visible cache.
     let uptimes = map (\<lambda>m. GetMonitorUptime fdiv fzero M now (mon_ServerID m) (mon_ID m) s) visible in
     if errors_of uptimes \<noteq> [] then (Inl (first_of (errors_of uptimes)), cache)
     else case fold add_monitor (zip visible (values_of uptimes)) ([], Map.empty) of
       (order, byServer) \<Rightarrow> status_servers M s byServer order cache)"

fun build_groups ::
  "(err list \<Rightarrow> err) \<Rightarrow> (int \<Rightarrow> int \<Rightarrow> 'f) \<Rightarrow> 'f \<Rightarrow> 'c mongo \<Rightarrow> gotime \<Rightarrow> 'c db \<Rightarrow> MonitorGroup list \<Rightarrow> server_cache \<Rightarrow>
    err + 'f StatusGroup list" where
  "build_groups first_of fdiv fzero M now s [] cache = Inr []"
| "build_groups first_of fdiv fzero M now s (g # gs) cache =
     (case ListMonitorsByGroup M (grp_ID g) PageLimit [] s of
        Inl e \<Rightarrow> Inl e
      | Inr (ms, _) \<Rightarrow>
          (case buildServers first_of fdiv fzero M now s ms cache of
             (Inl e, cache) \<Rightarrow> Inl e
           | (Inr xs, cache) \<Rightarrow>
               (case build_groups first_of fdiv fzero M now s gs cache of
                  Inl e \<Rightarrow> Inl e
                | Inr rest \<Rightarrow> Inr (\<lparr>sg_ID = grp_ID g, sg_Name = grp_Name g, sg_Description = grp_Description g,
                    sg_SortOrder = grp_SortOrder g, sg_Servers = xs\<rparr> # rest))))"

definition Build ::
  "(err list \<Rightarrow> err) \<Rightarrow> (int \<Rightarrow> int \<Rightarrow> 'f) \<Rightarrow> 'f \<Rightarrow> 'c mongo \<Rightarrow> gotime \<Rightarrow> 'c db \<Rightarrow> err + 'f StatusGroup list" where
  "Build first_of fdiv fzero M now s =
     (case ListMonitorGroups M PageLimit [] s of
        Inl e \<Rightarrow> Inl e
      | Inr (gs, _) \<Rightarrow> build_groups first_of fdiv fzero M now s gs Map.empty)"

section \<open>Lookups\<close>

text \<open>A lookup and its cache give the server the database has, or one that is not enabled.\<close>

definition server_of :: "'c mongo \<Rightarrow> 'c db \<Rightarrow> string \<Rightarrow> Server" where
  "server_of M s i = (case GetServer M i s of Inl e \<Rightarrow> zero_server | Inr x \<Rightarrow> x)"

definition cached_ok :: "'c mongo \<Rightarrow> 'c db \<Rightarrow> server_cache \<Rightarrow> bool" where
  "cached_ok M s cache \<longleftrightarrow> (\<forall>i x. cache i = Some x \<longrightarrow> x = server_of M s i)"

lemma cached_ok_empty: "cached_ok M s Map.empty"
  by (simp add: cached_ok_def)

lemma lookup_server:
  "lookupServer M s i cache = (r, cache') \<Longrightarrow> cached_ok M s cache \<Longrightarrow>
    cached_ok M s cache' \<and> (\<forall>x. r = Inr x \<longrightarrow> x = server_of M s i)"
  by (auto simp: lookupServer_def cached_ok_def server_of_def split: option.splits sum.splits if_splits)

definition shown :: "'c mongo \<Rightarrow> 'c db \<Rightarrow> Monitor \<Rightarrow> bool" where
  "shown M s m \<longleftrightarrow> mon_Enabled m \<and> srv_Enabled (server_of M s (mon_ServerID m))"

lemma visible_shown:
  "visible_monitors M s ms cache = (r, cache') \<Longrightarrow> cached_ok M s cache \<Longrightarrow>
    cached_ok M s cache' \<and> (\<forall>vs. r = Inr vs \<longrightarrow> vs = filter (shown M s) ms)"
proof (induction ms arbitrary: cache r cache')
  case (Cons m ms)
  show ?case
  proof (cases "mon_Enabled m")
    case False
    with Cons show ?thesis by (simp add: shown_def)
  next
    case True
    obtain l c1 where l: "lookupServer M s (mon_ServerID m) cache = (l, c1)" by fastforce
    note c1 = lookup_server [OF l Cons.prems(2)]
    obtain v c2 where v: "visible_monitors M s ms c1 = (v, c2)" by fastforce
    note IH = Cons.IH [OF v conjunct1 [OF c1]]
    show ?thesis
    proof (cases l)
      case (Inl e)
      with Cons.prems True l c1 show ?thesis by (auto simp: and_then_def)
    next
      case (Inr x)
      then have "x = server_of M s (mon_ServerID m)" using c1 by simp
      with Cons.prems(1) True l v Inr IH show ?thesis
        by (cases v) (auto simp: and_then_def shown_def split: if_splits)
    qed
  qed
qed simp

section \<open>Grouping by server\<close>

definition of_server :: "string \<Rightarrow> 'f StatusMonitor list \<Rightarrow> 'f StatusMonitor list" where
  "of_server sid ms = filter (\<lambda>m. sm_ServerID m = sid) ms"

definition grouped :: "'f StatusMonitor list \<Rightarrow> string list \<times> (string \<rightharpoonup> 'f StatusMonitor list) \<Rightarrow> bool" where
  "grouped ms acc \<longleftrightarrow> distinct (fst acc) \<and> set (fst acc) = sm_ServerID ` set ms \<and>
     (\<forall>sid. snd acc sid = (if sid \<in> sm_ServerID ` set ms then Some (of_server sid ms) else None))"

lemma of_server_snoc: "of_server sid (ms @ [m]) = of_server sid ms @ (if sm_ServerID m = sid then [m] else [])"
  by (simp add: of_server_def)

lemma of_server_empty: "sid \<notin> sm_ServerID ` set ms \<Longrightarrow> of_server sid ms = []"
  by (auto simp: of_server_def filter_empty_conv)

lemma add_monitor_grouped:
  assumes "grouped ms acc"
  shows "grouped (ms @ [status_monitor m u]) (add_monitor (m, u) acc)"
proof -
  obtain order byServer where acc: "acc = (order, byServer)" by fastforce
  have id: "sm_ServerID (status_monitor m u) = mon_ServerID m" by (simp add: status_monitor_def)
  show ?thesis
  proof (cases "mon_ServerID m \<in> sm_ServerID ` set ms")
    case True
    with assms show ?thesis
      by (simp add: acc grouped_def add_monitor_def Let_def of_server_snoc id insert_absorb)
  next
    case False
    with assms show ?thesis
      by (simp add: acc grouped_def add_monitor_def Let_def of_server_snoc id of_server_empty)
  qed
qed

lemma add_monitors_grouped:
  "grouped ms acc \<Longrightarrow> grouped (ms @ map (\<lambda>(m, u). status_monitor m u) mus) (fold add_monitor mus acc)"
proof (induction mus arbitrary: ms acc)
  case (Cons mu mus)
  obtain m u where "mu = (m, u)" by fastforce
  with Cons.IH [OF add_monitor_grouped [OF Cons.prems, of m u]] show ?case by simp
qed simp

lemma status_servers_done:
  "status_servers M s byServer order cache = (r, cache') \<Longrightarrow> cached_ok M s cache \<Longrightarrow>
    cached_ok M s cache' \<and> (\<forall>xs. r = Inr xs \<longrightarrow> xs = map (\<lambda>sid. \<lparr>ssv_ID = sid, ssv_Name = serverName (server_of M s sid) sid,
      ssv_Environment = srv_Environment (server_of M s sid), ssv_Tags = srv_Tags (server_of M s sid),
      ssv_Monitors = (case byServer sid of None \<Rightarrow> [] | Some ms \<Rightarrow> ms)\<rparr>) order)"
proof (induction order arbitrary: cache r cache')
  case (Cons sid order)
  obtain l c1 where l: "lookupServer M s sid cache = (l, c1)" by fastforce
  note c1 = lookup_server [OF l Cons.prems(2)]
  obtain v c2 where v: "status_servers M s byServer order c1 = (v, c2)" by fastforce
  note IH = Cons.IH [OF v conjunct1 [OF c1]]
  from Cons.prems(1) l v c1 IH show ?case by (cases l; cases v) (auto simp: and_then_def)
qed simp

lemma values_of_map:
  "errors_of rs = [] \<Longrightarrow> length (values_of rs) = length rs \<and> (\<forall>i < length rs. rs ! i = Inr (values_of rs ! i))"
proof (induction rs)
  case (Cons r rs)
  then show ?case by (cases r) (auto simp: errors_of_def values_of_def nth_Cons split: nat.split)
qed (simp add: values_of_def)

text \<open>The monitor, as the page shows it.\<close>

definition page_monitor ::
  "(int \<Rightarrow> int \<Rightarrow> 'f) \<Rightarrow> 'f \<Rightarrow> 'c mongo \<Rightarrow> gotime \<Rightarrow> 'c db \<Rightarrow> Monitor \<Rightarrow> 'f StatusMonitor \<Rightarrow> bool" where
  "page_monitor fdiv fzero M now s m x \<longleftrightarrow>
     (\<exists>u. GetMonitorUptime fdiv fzero M now (mon_ServerID m) (mon_ID m) s = Inr u \<and> x = status_monitor m u)"

text \<open>What one group shows: the visible monitors, in order, each under the entry of its server.\<close>

definition group_view ::
  "(int \<Rightarrow> int \<Rightarrow> 'f) \<Rightarrow> 'f \<Rightarrow> 'c mongo \<Rightarrow> gotime \<Rightarrow> 'c db \<Rightarrow> Monitor list \<Rightarrow> 'f StatusServer list \<Rightarrow> bool" where
  "group_view fdiv fzero M now s ms xs \<longleftrightarrow>
     (\<exists>vs. list_all2 (page_monitor fdiv fzero M now s) (filter (shown M s) ms) vs \<and>
        distinct (map ssv_ID xs) \<and> set (map ssv_ID xs) = sm_ServerID ` set vs \<and>
        (\<forall>x \<in> set xs. ssv_Monitors x = filter (\<lambda>v. sm_ServerID v = ssv_ID x) vs \<and>
           ssv_Name x = serverName (server_of M s (ssv_ID x)) (ssv_ID x) \<and>
           ssv_Environment x = srv_Environment (server_of M s (ssv_ID x)) \<and> ssv_Tags x = srv_Tags (server_of M s (ssv_ID x))))"

lemma build_servers_view:
  assumes "buildServers first_of fdiv fzero M now s ms cache = (r, cache')" and "cached_ok M s cache"
  shows "cached_ok M s cache' \<and> (\<forall>xs. r = Inr xs \<longrightarrow> group_view fdiv fzero M now s ms xs)"
proof -
  obtain v c1 where v: "visible_monitors M s ms cache = (v, c1)" by fastforce
  note vis = visible_shown [OF v assms(2)]
  show ?thesis
  proof (cases v)
    case (Inl e)
    with assms(1) v vis show ?thesis by (auto simp: buildServers_def and_then_def)
  next
    case (Inr visible)
    define us where "us = map (\<lambda>m. GetMonitorUptime fdiv fzero M now (mon_ServerID m) (mon_ID m) s) visible"
    have visible: "visible = filter (shown M s) ms" using vis Inr by simp
    show ?thesis
    proof (cases "errors_of us = []")
      case False
      with assms(1) v vis Inr show ?thesis by (auto simp: buildServers_def and_then_def us_def)
    next
      case True
      obtain order byServer where g: "fold add_monitor (zip visible (values_of us)) ([], Map.empty) = (order, byServer)"
        by fastforce
      define vs where "vs = map (\<lambda>(m, u). status_monitor m u) (zip visible (values_of us))"
      have grouped: "grouped vs (order, byServer)"
        using add_monitors_grouped [of "[]" "([], Map.empty)" "zip visible (values_of us)"]
        by (simp add: g vs_def grouped_def of_server_def)
      have run: "status_servers M s byServer order c1 = (r, cache')"
        using assms(1) v Inr True g by (simp add: buildServers_def and_then_def us_def)
      note done_ = status_servers_done [OF run conjunct1 [OF vis]]
      have "length (values_of us) = length visible" "\<forall>i < length visible. us ! i = Inr (values_of us ! i)"
        using values_of_map [OF True] by (simp_all add: us_def)
      then have "list_all2 (page_monitor fdiv fzero M now s) (filter (shown M s) ms) vs"
        by (auto simp: visible [symmetric] list_all2_conv_all_nth vs_def page_monitor_def us_def)
      moreover have "group_view fdiv fzero M now s ms xs" if "r = Inr xs" for xs
        using calculation done_ that grouped
        by (auto simp: group_view_def grouped_def of_server_def comp_def intro!: exI [of _ vs])
      ultimately show ?thesis using done_ by blast
    qed
  qed
qed

definition group_shown ::
  "(int \<Rightarrow> int \<Rightarrow> 'f) \<Rightarrow> 'f \<Rightarrow> 'c mongo \<Rightarrow> gotime \<Rightarrow> 'c db \<Rightarrow> MonitorGroup \<Rightarrow> 'f StatusGroup \<Rightarrow> bool" where
  "group_shown fdiv fzero M now s g x \<longleftrightarrow>
     sg_ID x = grp_ID g \<and> sg_Name x = grp_Name g \<and> sg_Description x = grp_Description g \<and> sg_SortOrder x = grp_SortOrder g \<and>
     (\<exists>ms tok. ListMonitorsByGroup M (grp_ID g) PageLimit [] s = Inr (ms, tok) \<and>
       group_view fdiv fzero M now s ms (sg_Servers x))"

lemma build_groups_view:
  "build_groups first_of fdiv fzero M now s gs cache = Inr xs \<Longrightarrow> cached_ok M s cache \<Longrightarrow>
    list_all2 (group_shown fdiv fzero M now s) gs xs"
proof (induction gs arbitrary: cache xs)
  case (Cons g gs)
  from Cons.prems(1) obtain ms tok where ms: "ListMonitorsByGroup M (grp_ID g) PageLimit [] s = Inr (ms, tok)"
    by (auto split: sum.splits)
  obtain r c1 where r: "buildServers first_of fdiv fzero M now s ms cache = (r, c1)" by fastforce
  note view = build_servers_view [OF r Cons.prems(2)]
  from Cons.prems(1) ms r obtain ys rest where "r = Inr ys" "build_groups first_of fdiv fzero M now s gs c1 = Inr rest"
    "xs = \<lparr>sg_ID = grp_ID g, sg_Name = grp_Name g, sg_Description = grp_Description g, sg_SortOrder = grp_SortOrder g,
       sg_Servers = ys\<rparr> # rest"
    by (auto split: sum.splits)
  with Cons.IH view ms show ?case by (auto simp: group_shown_def)
qed simp

section \<open>Properties\<close>


definition sample_status_db :: "doc list db" where
  "sample_status_db = empty_db\<lparr>st_servers := [DServer sample_srv],
     st_groups := [DGroup \<lparr>grp_ID = ''grp_1'', grp_Name = ''g'', grp_Description = [], grp_SortOrder = 0,
       grp_AlertPolicy = \<lparr>ap_Enabled = False, ap_NotifyGroupIDs = [], ap_OnDown = False, ap_OnRecover = False,
         ap_OnWarning = False, ap_OnCritical = False, ap_MinIntervalSeconds = 0\<rparr>, grp_CreatedAt = 0, grp_UpdatedAt = 0\<rparr>],
     st_monitors := [DMonitor ((sample_mon ''mon_1'' StatusHealthy)\<lparr>mon_GroupIDs := [''grp_1'']\<rparr>),
       DMonitor ((sample_mon ''mon_2'' StatusDown)\<lparr>mon_GroupIDs := [''grp_1''], mon_Enabled := False\<rparr>)]\<rparr>"

abbreviation "sample_page \<equiv> Build hd (\<lambda>x y. x) (0 :: int) mem_mongo 0 sample_status_db"

lemma sample_page_shows:
  "\<exists>p. sample_page = Inr p \<and> map (\<lambda>x. map ssv_Monitors (sg_Servers x)) p =
     [[[status_monitor ((sample_mon ''mon_1'' StatusHealthy)\<lparr>mon_GroupIDs := [''grp_1'']\<rparr>)
        \<lparr>mu_Windows = map (\<lambda>(k, d). (k, buildWindow (\<lambda>x y. x) 0 (d div Second) (accumulate []))) uptimeWindows,
          mu_Heartbeats = []\<rparr>]]]"
  by (simp add: Build_def ListMonitorGroups_def ListMonitorsByGroup_def findPage_def normalizeLimit_def parsePageToken_def
      sample_status_db_def empty_db_def mem_coll_def page_def sort_docs_def sample_mon_def buildServers_def and_then_def
      lookupServer_def GetServer_def sample_srv_def GetMonitorUptime_def aggregateUptimeWindows_def recentHeartbeats_def
      toHeartbeats_def errors_of_def values_of_def add_monitor_def status_monitor_def Let_def)

lemma group_ids: "list_all2 (\<lambda>g x. sg_ID x = grp_ID g \<and> Q g x) gs xs \<Longrightarrow> map sg_ID xs = map grp_ID gs"
  by (induction rule: list_all2_induct) simp_all

lemma sample_groups: "\<exists>g. ListMonitorGroups mem_mongo 200 [] sample_status_db = Inr ([g], []) \<and> grp_ID g = ''grp_1''"
  by (simp add: ListMonitorGroups_def findPage_def normalizeLimit_def parsePageToken_def sample_status_db_def empty_db_def
      mem_coll_def page_def sort_docs_def)


end
