(* ===== verification/Ssh.thy ===== *)
theory Ssh
  imports McpAccess Probe Health
begin

text \<open>
  Remote commands: internal/ssh, the SSH service of internal/connectapi/ssh_service.go and the SSH tools
  of internal/mcpserver/ssh.go. The SSH library and the network are behind \<open>ssh_net\<close>: how one connection
  with its command ends. What is sent to a host is kept in the log of connections, so that a theorem
  can say which commands ran where. Reading and parsing the key and the known hosts are arguments; a
  key is a value of \<open>'k\<close>, a set of known hosts a value of \<open>'h\<close>.
\<close>

section \<open>Configuration\<close>

record ssh_config =
  sc_KeyPath :: string
  sc_User :: string
  sc_Port :: int
  sc_KnownHostsPath :: string
  sc_InsecureSkipHostKey :: bool

datatype 'h host_keys = Known 'h | InsecureIgnoreHostKey

record ('k, 'h) Runner =
  run_signer :: 'k
  run_user :: string
  run_port :: int
  run_hostKeyCb :: "'h host_keys"

definition NewRunner ::
  "(string \<Rightarrow> string) \<Rightarrow> (string \<Rightarrow> err + string) \<Rightarrow> (string \<Rightarrow> err + 'k) \<Rightarrow> (string \<Rightarrow> err + 'h) \<Rightarrow> ssh_config \<Rightarrow>
    err + ('k, 'h) Runner option" where
  "NewRunner q read_file parse_key known_hosts cfg =
     (if sc_KeyPath cfg = [] then Inr None
      else case read_file (sc_KeyPath cfg) of
        Inl e \<Rightarrow> Inl (Context (''read ssh key '' @ q (sc_KeyPath cfg)) e)
      | Inr bytes \<Rightarrow>
          (case parse_key bytes of
             Inl e \<Rightarrow> Inl (Context (''parse ssh key '' @ q (sc_KeyPath cfg)) e)
           | Inr signer \<Rightarrow>
               let runner = (\<lambda>cb. \<lparr>run_signer = signer, run_user = valueOr (sc_User cfg) ''root'',
                 run_port = (if sc_Port cfg = 0 then 22 else sc_Port cfg), run_hostKeyCb = cb\<rparr>) in
               if sc_KnownHostsPath cfg \<noteq> []
               then (case known_hosts (sc_KnownHostsPath cfg) of
                       Inl e \<Rightarrow> Inl (Context (''load known_hosts '' @ q (sc_KnownHostsPath cfg)) e)
                     | Inr hosts \<Rightarrow> Inr (Some (runner (Known hosts))))
               else if sc_InsecureSkipHostKey cfg then Inr (Some (runner InsecureIgnoreHostKey))
               else Inl (Opaque (''ssh host key verification requires known_hosts_path; '' @
                 ''set insecure_skip_host_key: true to explicitly disable verification''))))"

section \<open>One command\<close>

record Target =
  tg_Host :: string
  tg_Port :: int
  tg_User :: string

record Result =
  rs_Stdout :: string
  rs_Stderr :: string
  rs_ExitCode :: int

record ('k, 'h) connection =
  cn_addr :: string
  cn_user :: string
  cn_signer :: 'k
  cn_hostKeyCb :: "'h host_keys"
  cn_command :: string
  cn_timeout :: duration

datatype run_end = Clean | ExitError int | RunError err

datatype ssh_outcome = DialFailed err | HandshakeFailed err | NoSession err | Aborted string string err | Ran string string run_end

abbreviation "DeadlineExceeded \<equiv> Opaque ''context deadline exceeded''"

definition ssh_Exec ::
  "(('k, 'h) connection \<Rightarrow> ssh_outcome) \<Rightarrow> ('k, 'h) Runner option \<Rightarrow> Target \<Rightarrow> string \<Rightarrow> duration \<Rightarrow> ('k, 'h) connection list \<Rightarrow>
    (err + Result) \<times> ('k, 'h) connection list" where
  "ssh_Exec ssh_net runner target command timeout log =
     (case runner of
        None \<Rightarrow> (Inl (OtherE ErrDisabled), log)
      | Some r \<Rightarrow>
          if tg_Host target = [] then (Inl (Opaque ''ssh target host is empty''), log)
          else let user = valueOr (tg_User target) (run_user r);
                 port = (if tg_Port target = 0 then run_port r else tg_Port target);
                 timeout = (if timeout \<le> 0 then 30 * Second else timeout);
                 addr = JoinHostPort (tg_Host target) (format_int port);
                 c = \<lparr>cn_addr = addr, cn_user = user, cn_signer = run_signer r, cn_hostKeyCb = run_hostKeyCb r,
                   cn_command = command, cn_timeout = timeout\<rparr>;
                 res = (case ssh_net c of
                     DialFailed e \<Rightarrow> Inl (Context (''dial '' @ addr) e)
                   | HandshakeFailed e \<Rightarrow> Inl (Context (''ssh handshake '' @ addr) e)
                   | NoSession e \<Rightarrow> Inl (Context ''ssh session'' e)
                   | Aborted out errs e \<Rightarrow> Inl e
                   | Ran out errs Clean \<Rightarrow> Inr \<lparr>rs_Stdout = out, rs_Stderr = errs, rs_ExitCode = 0\<rparr>
                   | Ran out errs (ExitError code) \<Rightarrow> Inr \<lparr>rs_Stdout = out, rs_Stderr = errs, rs_ExitCode = code\<rparr>
                   | Ran out errs (RunError e) \<Rightarrow> Inl e)
               in (res, log @ [c]))"

definition ResolveTarget ::
  "(string \<Rightarrow> string) \<Rightarrow> 'c mongo \<Rightarrow> ('k, 'h) Runner option \<Rightarrow> string \<Rightarrow> 'c db \<Rightarrow> err + Target" where
  "ResolveTarget q M runner serverID s =
     (case runner of
        None \<Rightarrow> Inl (OtherE ErrDisabled)
      | Some _ \<Rightarrow>
          (case GetServer M serverID s of
             Inl e \<Rightarrow> Inl e
           | Inr server \<Rightarrow>
               (case srv_SSH server of
                  None \<Rightarrow> Inl (Opaque (''ssh is not enabled for server '' @ q serverID))
                | Some opts \<Rightarrow>
                    if \<not> ssh_Enabled opts then Inl (Opaque (''ssh is not enabled for server '' @ q serverID))
                    else Inr \<lparr>tg_Host = valueOr (ssh_Host opts) (srv_Host server), tg_Port = uint (ssh_Port opts),
                      tg_User = ssh_User opts\<rparr>)))"

section \<open>The SSH service\<close>

record exec_request =
  er_ServerId :: string
  er_Command :: string
  er_TimeoutSeconds :: u32

record exec_response =
  ex_ServerId :: string
  ex_Host :: string
  ex_Stdout :: string
  ex_Stderr :: string
  ex_ExitCode :: int

definition sshExecError :: "err \<Rightarrow> connect_error" where
  "sshExecError e = (if errors_is e DeadlineExceeded then NewError CodeDeadlineExceeded ''ssh command timed out''
     else \<lparr>ce_Code = CodeUnavailable, ce_Err = e\<rparr>)"

definition sshTarget ::
  "(string \<Rightarrow> string) \<Rightarrow> 'c mongo \<Rightarrow> ('k, 'h) Runner option \<Rightarrow> string \<Rightarrow> 'c db \<Rightarrow> connect_error + Target" where
  "sshTarget q M runner serverID s =
     (case ResolveTarget q M runner serverID s of
        Inr target \<Rightarrow> Inr target
      | Inl e \<Rightarrow>
          Inl (if errors_is e (OtherE ErrDisabled) then \<lparr>ce_Code = CodeFailedPrecondition, ce_Err = e\<rparr>
               else if IsNotFound e then toConnectError q e
               else if has_prefix (error_text q e) ''ssh is not enabled for server''
                 then \<lparr>ce_Code = CodePermissionDenied, ce_Err = e\<rparr>
               else internalError))"

text \<open>The exit code is converted to \<open>int32\<close>.\<close>

definition SshService_Exec ::
  "(string \<Rightarrow> string) \<Rightarrow> 'c mongo \<Rightarrow> (('k, 'h) connection \<Rightarrow> ssh_outcome) \<Rightarrow> ('k, 'h) Runner option \<Rightarrow> exec_request \<Rightarrow>
    'c db \<times> ('k, 'h) connection list \<Rightarrow> (connect_error + exec_response) \<times> 'c db \<times> ('k, 'h) connection list" where
  "SshService_Exec q M ssh_net runner rq w =
     (case w of (s, log) \<Rightarrow>
      if trim_space (er_Command rq) = [] then (Inl (NewError CodeInvalidArgument ''command is required''), (s, log))
      else case sshTarget q M runner (er_ServerId rq) s of
        Inl e \<Rightarrow> (Inl e, (s, log))
      | Inr target \<Rightarrow>
          (case ssh_Exec ssh_net runner target (er_Command rq) (uint (er_TimeoutSeconds rq) * Second) log of
             (Inl e, log) \<Rightarrow> (Inl (sshExecError e), (s, log))
           | (Inr res, log) \<Rightarrow>
               (Inr \<lparr>ex_ServerId = er_ServerId rq, ex_Host = tg_Host target, ex_Stdout = rs_Stdout res,
                  ex_Stderr = rs_Stderr res, ex_ExitCode = sint (word_of_int (rs_ExitCode res) :: u32)\<rparr>, (s, log))))"

record test_response =
  ts_ServerId :: string
  ts_Host :: string
  ts_Ok :: bool
  ts_Output :: string

definition SshService_TestConnection ::
  "(string \<Rightarrow> string) \<Rightarrow> 'c mongo \<Rightarrow> (('k, 'h) connection \<Rightarrow> ssh_outcome) \<Rightarrow> ('k, 'h) Runner option \<Rightarrow> string \<Rightarrow>
    'c db \<times> ('k, 'h) connection list \<Rightarrow> (connect_error + test_response) \<times> 'c db \<times> ('k, 'h) connection list" where
  "SshService_TestConnection q M ssh_net runner serverID w =
     (case w of (s, log) \<Rightarrow>
      case sshTarget q M runner serverID s of
        Inl e \<Rightarrow> (Inl e, (s, log))
      | Inr target \<Rightarrow>
          (case ssh_Exec ssh_net runner target ''echo neo-line-ssh-ok'' (15 * Second) log of
             (Inl e, log) \<Rightarrow> (Inl (sshExecError e), (s, log))
           | (Inr res, log) \<Rightarrow>
               (Inr \<lparr>ts_ServerId = serverID, ts_Host = tg_Host target, ts_Ok = (rs_ExitCode res = 0),
                  ts_Output = rs_Stdout res\<rparr>, (s, log))))"

section \<open>The SSH tools\<close>

definition mapErr :: "err \<Rightarrow> err" where
  "mapErr e = (if IsNotFound e then Opaque ''not found'' else e)"

definition tool_sshTarget ::
  "(string \<Rightarrow> string) \<Rightarrow> 'c mongo \<Rightarrow> ('k, 'h) Runner option \<Rightarrow> string \<Rightarrow> 'c db \<Rightarrow> err + Target" where
  "tool_sshTarget q M runner serverID s =
     (case ResolveTarget q M runner serverID s of
        Inr target \<Rightarrow> Inr target
      | Inl e \<Rightarrow> Inl (if errors_is e (OtherE ErrDisabled) then e else mapErr e))"

text \<open>\<open>int\<close> has 64 bits.\<close>

definition sshExec ::
  "(string \<Rightarrow> string) \<Rightarrow> 'c mongo \<Rightarrow> (('k, 'h) connection \<Rightarrow> ssh_outcome) \<Rightarrow> ('k, 'h) Runner option \<Rightarrow> string \<Rightarrow> string \<Rightarrow> int \<Rightarrow>
    'c db \<times> ('k, 'h) connection list \<Rightarrow> (err + exec_response) \<times> 'c db \<times> ('k, 'h) connection list" where
  "sshExec q M ssh_net runner serverID command timeoutSeconds w =
     (case w of (s, log) \<Rightarrow>
      if command = [] then (Inl (Opaque ''command is required''), (s, log))
      else case tool_sshTarget q M runner serverID s of
        Inl e \<Rightarrow> (Inl e, (s, log))
      | Inr target \<Rightarrow>
          (case ssh_Exec ssh_net runner target command (wrap64 (timeoutSeconds * Second)) log of
             (Inl e, log) \<Rightarrow> (Inl e, (s, log))
           | (Inr res, log) \<Rightarrow>
               (Inr \<lparr>ex_ServerId = serverID, ex_Host = tg_Host target, ex_Stdout = rs_Stdout res,
                  ex_Stderr = rs_Stderr res, ex_ExitCode = rs_ExitCode res\<rparr>, (s, log))))"

definition sshTestConnection ::
  "(string \<Rightarrow> string) \<Rightarrow> 'c mongo \<Rightarrow> (('k, 'h) connection \<Rightarrow> ssh_outcome) \<Rightarrow> ('k, 'h) Runner option \<Rightarrow> string \<Rightarrow>
    'c db \<times> ('k, 'h) connection list \<Rightarrow> (err + test_response) \<times> 'c db \<times> ('k, 'h) connection list" where
  "sshTestConnection q M ssh_net runner serverID w =
     (case w of (s, log) \<Rightarrow>
      case tool_sshTarget q M runner serverID s of
        Inl e \<Rightarrow> (Inl e, (s, log))
      | Inr target \<Rightarrow>
          (case ssh_Exec ssh_net runner target ''echo neo-line-ssh-ok'' (15 * Second) log of
             (Inl e, log) \<Rightarrow> (Inl e, (s, log))
           | (Inr res, log) \<Rightarrow>
               (Inr \<lparr>ts_ServerId = serverID, ts_Host = tg_Host target, ts_Ok = (rs_ExitCode res = 0),
                  ts_Output = rs_Stdout res\<rparr>, (s, log))))"

section \<open>What reaches a host\<close>

text \<open>A connection that opts in: the server is stored, has SSH enabled, and is the one that is reached.\<close>

definition opted_in :: "'c mongo \<Rightarrow> 'c db \<Rightarrow> ('k, 'h) Runner \<Rightarrow> string \<Rightarrow> ('k, 'h) connection \<Rightarrow> bool" where
  "opted_in M s r serverID c \<longleftrightarrow>
     (\<exists>server opts. GetServer M serverID s = Inr server \<and> srv_SSH server = Some opts \<and> ssh_Enabled opts \<and>
        cn_addr c = JoinHostPort (valueOr (ssh_Host opts) (srv_Host server))
          (format_int (if ssh_Port opts = 0 then run_port r else uint (ssh_Port opts))) \<and>
        cn_user c = valueOr (ssh_User opts) (run_user r) \<and> cn_signer c = run_signer r \<and> cn_hostKeyCb c = run_hostKeyCb r \<and>
        0 < cn_timeout c)"

lemma exec_log:
  assumes "ssh_Exec ssh_net runner target command timeout log = (res, log')"
  obtains (none) "log' = log" "\<exists>e. res = Inl e"
  | (sent) r c where "runner = Some r" "log' = log @ [c]" "tg_Host target \<noteq> []" "cn_command c = command"
      "cn_addr c = JoinHostPort (tg_Host target) (format_int (if tg_Port target = 0 then run_port r else tg_Port target))"
      "cn_user c = valueOr (tg_User target) (run_user r)" "cn_signer c = run_signer r" "cn_hostKeyCb c = run_hostKeyCb r"
      "0 < cn_timeout c" "0 < timeout \<Longrightarrow> cn_timeout c = timeout"
proof (cases "runner = None \<or> tg_Host target = []")
  case True
  with assms show thesis by (intro none) (auto simp: ssh_Exec_def split: option.splits)
next
  case False
  then obtain r where "runner = Some r" by (cases runner) auto
  with False assms show thesis by (intro sent [of r]) (auto simp: ssh_Exec_def Let_def Second_def)
qed

lemma resolved:
  assumes "ResolveTarget q M runner serverID s = Inr target"
  obtains r server opts where "runner = Some r" "GetServer M serverID s = Inr server" "srv_SSH server = Some opts" "ssh_Enabled opts"
    "target = \<lparr>tg_Host = valueOr (ssh_Host opts) (srv_Host server), tg_Port = uint (ssh_Port opts), tg_User = ssh_User opts\<rparr>"
  using assms by (auto simp: ResolveTarget_def split: option.splits sum.splits if_splits)

lemma exec_opted_in:
  assumes "ResolveTarget q M runner serverID s = Inr target"
    and "ssh_Exec ssh_net runner target command timeout log = (res, log')"
  shows "log' = log \<or> (\<exists>r c. runner = Some r \<and> log' = log @ [c] \<and> cn_command c = command \<and> opted_in M s r serverID c)"
  using assms(2)
proof (cases rule: exec_log)
  case (sent r c)
  obtain r' server opts where res: "runner = Some r'" "GetServer M serverID s = Inr server" "srv_SSH server = Some opts"
    "ssh_Enabled opts"
    "target = \<lparr>tg_Host = valueOr (ssh_Host opts) (srv_Host server), tg_Port = uint (ssh_Port opts), tg_User = ssh_User opts\<rparr>"
    by (rule resolved [OF assms(1)])
  have "uint (ssh_Port opts) = 0 \<longleftrightarrow> ssh_Port opts = 0" by (rule uint_0_iff)
  with sent res show ?thesis by (auto simp: opted_in_def)
qed simp

lemma service_exec_opted_in:
  assumes "SshService_Exec q M ssh_net runner rq (s, log) = (res, (s', log'))"
  shows "s' = s \<and> (log' = log \<or> (\<exists>r c. runner = Some r \<and> log' = log @ [c] \<and> cn_command c = er_Command rq \<and>
    trim_space (er_Command rq) \<noteq> [] \<and> opted_in M s r (er_ServerId rq) c))"
  using assms exec_opted_in
  by (auto simp: SshService_Exec_def sshTarget_def split: if_splits sum.splits prod.splits) fastforce+

lemma tool_exec_opted_in:
  assumes "sshExec q M ssh_net runner serverID command timeoutSeconds (s, log) = (res, (s', log'))"
  shows "s' = s \<and> (log' = log \<or> (\<exists>r c. runner = Some r \<and> log' = log @ [c] \<and> cn_command c = command \<and> command \<noteq> [] \<and>
    opted_in M s r serverID c))"
  using assms exec_opted_in
  by (auto simp: sshExec_def tool_sshTarget_def split: if_splits sum.splits prod.splits) fastforce+

lemma new_runner_keys:
  "NewRunner q read_file parse_key known_hosts cfg = Inr (Some r) \<Longrightarrow>
    run_hostKeyCb r = InsecureIgnoreHostKey \<Longrightarrow> sc_InsecureSkipHostKey cfg \<and> sc_KnownHostsPath cfg = []"
  by (auto simp: NewRunner_def Let_def split: if_splits sum.splits)

section \<open>Properties\<close>

text \<open>The handler of the procedure, with the Redis state it does not use.\<close>

definition exec_handler ::
  "(string \<Rightarrow> string) \<Rightarrow> 'c mongo \<Rightarrow> (('k, 'h) connection \<Rightarrow> ssh_outcome) \<Rightarrow> ('k, 'h) Runner option \<Rightarrow> exec_request \<Rightarrow>
    Session option \<Rightarrow> 'r \<times> 'c db \<times> ('k, 'h) connection list \<Rightarrow>
    (connect_error + exec_response) \<times> 'r \<times> 'c db \<times> ('k, 'h) connection list" where
  "exec_handler q M ssh_net runner rq session w =
     (case SshService_Exec q M ssh_net runner rq (snd w) of (res, w') \<Rightarrow> (res, (fst w, w')))"

text \<open>
  C31: a command that a call of the API sends to a host is the command of the request, sent once, for an
  administrator with a live session, to the address of a stored server that has SSH enabled, and the
  host's key is checked unless the configuration says to skip the check.
\<close>

theorem ssh_needs_admin_and_opt_in:
  assumes "NewRunner q read_file parse_key known_hosts cfg = Inr runner"
    and "authInterceptor unmarshal R now at (exec_handler q M ssh_net runner rq) req (r, (s, log)) = ((session, res), (r', (s', log')))"
    and "rq_Procedure req = ''/neoline.v1.SshService/Exec''" and "log' \<noteq> log"
  shows "\<exists>ses r1 rn c. session = Some ses \<and>
    GetSession unmarshal R now at (bearerToken (rq_Authorization req)) r = (Inr ses, r1) \<and> ses_Role ses = RoleAdmin \<and>
    runner = Some rn \<and> log' = log @ [c] \<and> cn_command c = er_Command rq \<and> opted_in M s rn (er_ServerId rq) c \<and> s' = s \<and>
    (cn_hostKeyCb c \<noteq> InsecureIgnoreHostKey \<or> sc_InsecureSkipHostKey cfg \<and> sc_KnownHostsPath cfg = [])"
proof -
  have "rq_Procedure req \<notin> set publicProcedures" unfolding assms(3) publicProcedures_def by simp
  with assms(2) show ?thesis
  proof (cases rule: auth_cases)
    case (refused e r1)
    with assms(4) show ?thesis by simp
  next
    case (runs ses r1)
    have admin: "requiresAdmin (rq_Procedure req)" unfolding assms(3) by code_simp
    have "SshService_Exec q M ssh_net runner rq (s, log) = (res, (s', log'))"
      using runs(3) by (auto simp: exec_handler_def split: prod.splits)
    from service_exec_opted_in [OF this] assms(4) obtain rn c where
      c: "s' = s" "runner = Some rn" "log' = log @ [c]" "cn_command c = er_Command rq" "opted_in M s rn (er_ServerId rq) c"
      by blast
    moreover have "cn_hostKeyCb c = run_hostKeyCb rn" using c(5) by (auto simp: opted_in_def)
    then have "cn_hostKeyCb c \<noteq> InsecureIgnoreHostKey \<or> sc_InsecureSkipHostKey cfg \<and> sc_KnownHostsPath cfg = []"
      using new_runner_keys assms(1) c(2) by fastforce
    ultimately show ?thesis using runs admin by blast
  qed
qed

definition sample_ssh_db :: "doc list db" where
  "sample_ssh_db = empty_db\<lparr>st_servers := [DServer (sample_srv\<lparr>srv_SSH :=
     Some \<lparr>ssh_Enabled = True, ssh_Host = [], ssh_Port = 0, ssh_User = []\<rparr>\<rparr>)]\<rparr>"

definition sample_ssh_config :: ssh_config where
  "sample_ssh_config = \<lparr>sc_KeyPath = ''id'', sc_User = [], sc_Port = 0, sc_KnownHostsPath = ''hosts'', sc_InsecureSkipHostKey = False\<rparr>"

definition sample_runner :: "(unit, unit) Runner" where
  "sample_runner = \<lparr>run_signer = (), run_user = ''root'', run_port = 22, run_hostKeyCb = Known ()\<rparr>"

definition sample_exec :: exec_request where
  "sample_exec = \<lparr>er_ServerId = ''srv_1'', er_Command = ''ls'', er_TimeoutSeconds = 0\<rparr>"

definition sample_exec_call :: Request where
  "sample_exec_call = \<lparr>rq_Procedure = ''/neoline.v1.SshService/Exec'', rq_Authorization = ''Bearer t'', rq_UserAgent = [],
     rq_Peer = [], rq_Getter = Map.empty\<rparr>"

lemma sample_runner_made:
  "NewRunner (\<lambda>s. s) (\<lambda>_. Inr []) (\<lambda>_. Inr ()) (\<lambda>_. Inr ()) sample_ssh_config = Inr (Some sample_runner)"
  by (simp add: NewRunner_def sample_ssh_config_def sample_runner_def)

lemma sample_opted_in: "ResolveTarget q mem_mongo (Some sample_runner) ''srv_1'' sample_ssh_db =
    Inr \<lparr>tg_Host = srv_Host sample_srv, tg_Port = 0, tg_User = []\<rparr>"
  by (simp add: ResolveTarget_def GetServer_def sample_ssh_db_def sample_srv_def mem_coll_def)

lemma sample_sent: "ssh_Exec (\<lambda>_. Ran [] [] Clean) (Some sample_runner)
    \<lparr>tg_Host = srv_Host sample_srv, tg_Port = 0, tg_User = []\<rparr> command t [] =
    (Inr \<lparr>rs_Stdout = [], rs_Stderr = [], rs_ExitCode = 0\<rparr>,
     [\<lparr>cn_addr = JoinHostPort (srv_Host sample_srv) (format_int 22), cn_user = ''root'', cn_signer = (), cn_hostKeyCb = Known (),
       cn_command = command, cn_timeout = (if t \<le> 0 then 30 * Second else t)\<rparr>])"
  by (simp add: ssh_Exec_def sample_runner_def sample_srv_def)

lemma sample_trim: "trim_space ''ls'' = ''ls''" "bearerToken ''Bearer t'' = ''t''"
  by code_simp+

theorem ssh_needs_admin_and_opt_in_witness:
  "\<exists>w log'. authInterceptor (\<lambda>_. Inr sample_session) mem_redis 1 1
      (exec_handler (\<lambda>s. s) mem_mongo (\<lambda>_. Ran [] [] Clean) (Some sample_runner) sample_exec) sample_exec_call
      (run_redis_calls (\<lambda>_. ''data'') (\<lambda>_. Inr sample_session) mem_redis [CallCreateSession 0 0 (Inr ''t'') sample_user] Map.empty,
       (sample_ssh_db, [])) = w \<and> snd (snd (snd w)) = log' \<and> map cn_command log' = [''ls''] \<and> ses_Role sample_session = RoleAdmin"
proof -
  let ?r = "run_redis_calls (\<lambda>_. ''data'') (\<lambda>_. Inr sample_session) mem_redis [CallCreateSession 0 0 (Inr ''t'') sample_user] Map.empty"
  let ?h = "exec_handler (\<lambda>s. s) mem_mongo (\<lambda>_. Ran [] [] Clean) (Some sample_runner) sample_exec"
  have "rq_Procedure sample_exec_call = ''/neoline.v1.SshService/Exec''" by (simp add: sample_exec_call_def)
  moreover obtain session res r' s' log' where
    run: "authInterceptor (\<lambda>_. Inr sample_session) mem_redis 1 1 ?h sample_exec_call (?r, (sample_ssh_db, [])) =
      ((session, res), (r', (s', log')))"
    by (metis surj_pair)
  moreover have "log' \<noteq> []"
    using run
    by (auto simp: authInterceptor_def GetSession_def mem_redis_def CreateSession_def sample_exec_call_def sample_trim
      publicProcedures_def sample_session_def exec_handler_def SshService_Exec_def sample_exec_def sshTarget_def sample_opted_in
      sample_sent time_units SessionTTL_def Let_def split: if_splits)
  moreover have "ses_Role sample_session = RoleAdmin" by (simp add: sample_session_def)
  ultimately show ?thesis
    using ssh_needs_admin_and_opt_in [OF sample_runner_made run] by (auto simp: sample_exec_def)
qed

text \<open>
  A tool of the MCP server sends a command only to a stored server that has SSH enabled, and only
  the command it was given, once.
\<close>

theorem ssh_tool_needs_opt_in:
  assumes "addAuditedTool q A ''ssh_exec'' (sshExec q M ssh_net runner serverID command timeoutSeconds) context input start stop uuid
      ((s, log), a) = (res, ((s', log'), a'))"
    and "log' \<noteq> log"
  shows "\<exists>rn c. runner = Some rn \<and> log' = log @ [c] \<and> cn_command c = command \<and> opted_in M s rn serverID c \<and> s' = s"
proof -
  have "sshExec q M ssh_net runner serverID command timeoutSeconds (s, log) = (res, (s', log'))"
    using assms(1) by (auto simp: addAuditedTool_def Let_def split: prod.splits)
  from tool_exec_opted_in [OF this] assms(2) show ?thesis by blast
qed

theorem ssh_tool_needs_opt_in_witness:
  "\<exists>w. addAuditedTool (\<lambda>s. s) mem_audit ''ssh_exec''
      (sshExec (\<lambda>s. s) mem_mongo (\<lambda>_. Ran [] [] Clean) (Some sample_runner) ''srv_1'' ''ls'' 0) (''env'', []) Map.empty 0 0 ''u''
      ((sample_ssh_db, []), []) = w \<and> map cn_command (snd (fst (snd w))) = [''ls'']"
proof -
  obtain res s' log' a' where
    run: "addAuditedTool (\<lambda>s. s) mem_audit ''ssh_exec''
      (sshExec (\<lambda>s. s) mem_mongo (\<lambda>_. Ran [] [] Clean) (Some sample_runner) ''srv_1'' ''ls'' 0) (''env'', []) Map.empty 0 0 ''u''
      ((sample_ssh_db, []), []) = (res, ((s', log'), a'))"
    by (metis surj_pair)
  moreover have "log' \<noteq> []"
    using run by (auto simp: addAuditedTool_def sshExec_def tool_sshTarget_def sample_opted_in sample_sent Let_def)
  ultimately show ?thesis using ssh_tool_needs_opt_in [OF run] by auto
qed

end
