(* ===== verification/Wire.thy ===== *)
theory Wire
  imports Issuers CertManager AuditTrail Sessions StatusView ConfigImport
begin

text \<open>
  The messages of the API and their conversion, internal/connectapi/conv.go (and the conversions of
  data_service.go, managed_certificate_service.go and status_service.go). A record \<open>pb_X\<close> has the
  fields of the message \<open>X\<close> of pkg/proto; a message pointer is an \<open>option\<close>, an enum is its number and an
  \<open>int32\<close> field is an \<open>int\<close> in that range. The code copies the slices; here they are values.
\<close>

section \<open>Times\<close>

record timestamp =
  ts_Seconds :: int
  ts_Nanos :: int

definition timestamp_New :: "gotime \<Rightarrow> timestamp" where
  "timestamp_New t = \<lparr>ts_Seconds = unix t, ts_Nanos = t mod Second\<rparr>"

definition AsTime :: "timestamp \<Rightarrow> gotime" where
  "AsTime ts = ts_Seconds ts * Second + ts_Nanos ts"

definition timeToTS :: "gotime \<Rightarrow> timestamp option" where
  "timeToTS t = (if t = zero_time then None else Some (timestamp_New t))"

definition tsToTime :: "timestamp option \<Rightarrow> gotime" where
  "tsToTime ts = (case ts of None \<Rightarrow> zero_time | Some ts \<Rightarrow> AsTime ts)"

definition tsToTimePtr :: "timestamp option \<Rightarrow> gotime option" where
  "tsToTimePtr ts = map_option AsTime ts"

definition timeToTSPtr :: "gotime option \<Rightarrow> timestamp option" where
  "timeToTSPtr t = (case t of None \<Rightarrow> None | Some t \<Rightarrow> timeToTS t)"

definition unixToTS :: "int \<Rightarrow> timestamp option" where
  "unixToTS sec = (if sec = 0 then None else Some (timestamp_New (sec * Second)))"

lemma AsTime_New [simp]: "AsTime (timestamp_New t) = t"
  by (simp add: AsTime_def timestamp_New_def unix_def)

lemma ts_roundtrip [simp]: "tsToTime (timeToTS t) = t"
  by (simp add: tsToTime_def timeToTS_def)

lemma timeToTS_inject [simp]: "timeToTS t = timeToTS u \<longleftrightarrow> t = u"
  by (metis ts_roundtrip)

text \<open>A conversion to \<open>int32\<close> keeps the low bits.\<close>

definition int32 :: "int \<Rightarrow> int" where
  "int32 n = sint (word_of_int n :: u32)"

section \<open>Servers\<close>

record pb_ServerSSH =
  pbssh_Enabled :: bool
  pbssh_Host :: string
  pbssh_Port :: u32
  pbssh_User :: string

record pb_Server =
  pbsrv_Id :: string
  pbsrv_Name :: string
  pbsrv_Host :: string
  pbsrv_Environment :: string
  pbsrv_Region :: string
  pbsrv_Tags :: "string list"
  pbsrv_SortOrder :: u32
  pbsrv_Enabled :: bool
  pbsrv_HealthStatus :: string
  pbsrv_LastStatusChangeAt :: "timestamp option"
  pbsrv_LastCheckAt :: "timestamp option"
  pbsrv_Ssh :: "pb_ServerSSH option"
  pbsrv_CreatedAt :: "timestamp option"
  pbsrv_UpdatedAt :: "timestamp option"

definition serverToProto :: "Server \<Rightarrow> pb_Server" where
  "serverToProto s =
     \<lparr>pbsrv_Id = srv_ID s, pbsrv_Name = srv_Name s, pbsrv_Host = srv_Host s,
      pbsrv_Environment = srv_Environment s, pbsrv_Region = srv_Region s, pbsrv_Tags = srv_Tags s,
      pbsrv_SortOrder = srv_SortOrder s, pbsrv_Enabled = srv_Enabled s, pbsrv_HealthStatus = srv_HealthStatus s,
      pbsrv_LastStatusChangeAt = timeToTS (srv_LastStatusChangeAt s),
      pbsrv_LastCheckAt = timeToTS (srv_LastCheckAt s),
      pbsrv_Ssh = map_option (\<lambda>h. \<lparr>pbssh_Enabled = ssh_Enabled h, pbssh_Host = ssh_Host h,
          pbssh_Port = ssh_Port h, pbssh_User = ssh_User h\<rparr>) (srv_SSH s),
      pbsrv_CreatedAt = timeToTS (srv_CreatedAt s), pbsrv_UpdatedAt = timeToTS (srv_UpdatedAt s)\<rparr>"

definition serverFromProto :: "pb_Server option \<Rightarrow> Server" where
  "serverFromProto p =
     (case p of
        None \<Rightarrow> zero_server
      | Some m \<Rightarrow>
         \<lparr>srv_ID = pbsrv_Id m, srv_Name = pbsrv_Name m, srv_Host = pbsrv_Host m,
          srv_Environment = pbsrv_Environment m, srv_Region = pbsrv_Region m, srv_Tags = pbsrv_Tags m,
          srv_SortOrder = pbsrv_SortOrder m, srv_Enabled = pbsrv_Enabled m, srv_HealthStatus = [],
          srv_LastStatusChangeAt = zero_time, srv_LastCheckAt = zero_time,
          srv_SSH = map_option (\<lambda>h. \<lparr>ssh_Enabled = pbssh_Enabled h, ssh_Host = pbssh_Host h,
             ssh_Port = pbssh_Port h, ssh_User = pbssh_User h\<rparr>) (pbsrv_Ssh m),
          srv_CreatedAt = zero_time, srv_UpdatedAt = zero_time\<rparr>)"

record pb_ServerEvent =
  pbevt_Id :: string
  pbevt_ServerId :: string
  pbevt_PreviousStatus :: string
  pbevt_CurrentStatus :: string
  pbevt_Reason :: string
  pbevt_OccurredAt :: "timestamp option"

definition serverEventToProto :: "ServerEvent \<Rightarrow> pb_ServerEvent" where
  "serverEventToProto e =
     \<lparr>pbevt_Id = evt_ID e, pbevt_ServerId = evt_ServerID e, pbevt_PreviousStatus = evt_PreviousStatus e,
      pbevt_CurrentStatus = evt_CurrentStatus e, pbevt_Reason = evt_Reason e,
      pbevt_OccurredAt = timeToTS (evt_OccurredAt e)\<rparr>"

record pb_ServerHealth =
  pbhl_ServerId :: string
  pbhl_Status :: string
  pbhl_LastStatusChangeAt :: "timestamp option"
  pbhl_LastCheckAt :: "timestamp option"
  pbhl_TotalMonitors :: u32
  pbhl_HealthyMonitors :: u32
  pbhl_WarningMonitors :: u32
  pbhl_CriticalMonitors :: u32
  pbhl_DownMonitors :: u32
  pbhl_UnknownMonitors :: u32

definition serverHealthToProto :: "ServerHealth \<Rightarrow> pb_ServerHealth" where
  "serverHealthToProto h =
     \<lparr>pbhl_ServerId = sh_ServerID h, pbhl_Status = sh_Status h,
      pbhl_LastStatusChangeAt = timeToTS (sh_LastStatusChangeAt h),
      pbhl_LastCheckAt = timeToTS (sh_LastCheckAt h), pbhl_TotalMonitors = sh_TotalMonitors h,
      pbhl_HealthyMonitors = sh_HealthyMonitors h, pbhl_WarningMonitors = sh_WarningMonitors h,
      pbhl_CriticalMonitors = sh_CriticalMonitors h, pbhl_DownMonitors = sh_DownMonitors h,
      pbhl_UnknownMonitors = sh_UnknownMonitors h\<rparr>"

section \<open>Monitors\<close>

record pb_CertificateInfo =
  pbci_Subject :: string
  pbci_Issuer :: string
  pbci_DnsNames :: "string list"
  pbci_SerialNumber :: string
  pbci_NotBefore :: "timestamp option"
  pbci_NotAfter :: "timestamp option"
  pbci_DaysRemaining :: "32 word"

definition certToProto :: "CertificateInfo option \<Rightarrow> pb_CertificateInfo option" where
  "certToProto c = map_option (\<lambda>c.
     \<lparr>pbci_Subject = ci_Subject c, pbci_Issuer = ci_Issuer c, pbci_DnsNames = ci_DNSNames c,
      pbci_SerialNumber = ci_SerialNumber c, pbci_NotBefore = timeToTS (ci_NotBefore c),
      pbci_NotAfter = timeToTS (ci_NotAfter c), pbci_DaysRemaining = ci_DaysRemaining c\<rparr>) c"

record pb_Monitor =
  pbmon_Id :: string
  pbmon_ServerId :: string
  pbmon_GroupIds :: "string list"
  pbmon_Name :: string
  pbmon_Kind :: string
  pbmon_Enabled :: bool
  pbmon_Host :: string
  pbmon_Port :: u32
  pbmon_Url :: string
  pbmon_Method :: string
  pbmon_Path :: string
  pbmon_Headers :: "string \<rightharpoonup> string"
  pbmon_ExpectedStatusCodes :: string
  pbmon_TlsVerify :: bool
  pbmon_SniName :: string
  pbmon_WarningDays :: u32
  pbmon_CriticalDays :: u32
  pbmon_IntervalSeconds :: u32
  pbmon_TimeoutSeconds :: u32
  pbmon_Retries :: u32
  pbmon_Status :: string
  pbmon_LastCheckAt :: "timestamp option"
  pbmon_LastStatusChangeAt :: "timestamp option"
  pbmon_Certificate :: "pb_CertificateInfo option"
  pbmon_CreatedAt :: "timestamp option"
  pbmon_UpdatedAt :: "timestamp option"

definition monitorToProto :: "Monitor \<Rightarrow> pb_Monitor" where
  "monitorToProto m =
     \<lparr>pbmon_Id = mon_ID m, pbmon_ServerId = mon_ServerID m, pbmon_GroupIds = mon_GroupIDs m,
      pbmon_Name = mon_Name m, pbmon_Kind = mon_Kind m, pbmon_Enabled = mon_Enabled m, pbmon_Host = mon_Host m,
      pbmon_Port = mon_Port m, pbmon_Url = mon_URL m, pbmon_Method = mon_Method m, pbmon_Path = mon_Path m,
      pbmon_Headers = mon_Headers m, pbmon_ExpectedStatusCodes = mon_ExpectedStatusCodes m,
      pbmon_TlsVerify = mon_TLSVerify m, pbmon_SniName = mon_SNIName m, pbmon_WarningDays = mon_WarningDays m,
      pbmon_CriticalDays = mon_CriticalDays m, pbmon_IntervalSeconds = mon_IntervalSeconds m,
      pbmon_TimeoutSeconds = mon_TimeoutSeconds m, pbmon_Retries = mon_Retries m, pbmon_Status = mon_Status m,
      pbmon_LastCheckAt = timeToTS (mon_LastCheckAt m),
      pbmon_LastStatusChangeAt = timeToTS (mon_LastStatusChangeAt m),
      pbmon_Certificate = certToProto (mon_Certificate m), pbmon_CreatedAt = timeToTS (mon_CreatedAt m),
      pbmon_UpdatedAt = timeToTS (mon_UpdatedAt m)\<rparr>"

definition zero_monitor :: Monitor where
  "zero_monitor =
    \<lparr>mon_ID = [], mon_ServerID = [], mon_GroupIDs = [], mon_Name = [], mon_Kind = [], mon_Enabled = False,
     mon_Host = [], mon_Port = 0, mon_URL = [], mon_Method = [], mon_Path = [], mon_Headers = Map.empty,
     mon_ExpectedStatusCodes = [], mon_TLSVerify = False, mon_SNIName = [], mon_WarningDays = 0,
     mon_CriticalDays = 0, mon_IntervalSeconds = 0, mon_TimeoutSeconds = 0, mon_Retries = 0, mon_Status = [],
     mon_LastCheckAt = zero_time, mon_LastStatusChangeAt = zero_time, mon_Certificate = None,
     mon_CreatedAt = zero_time, mon_UpdatedAt = zero_time\<rparr>"

definition monitorFromProto :: "pb_Monitor option \<Rightarrow> Monitor" where
  "monitorFromProto p =
     (case p of
        None \<Rightarrow> zero_monitor
      | Some m \<Rightarrow>
         \<lparr>mon_ID = pbmon_Id m, mon_ServerID = pbmon_ServerId m, mon_GroupIDs = pbmon_GroupIds m,
          mon_Name = pbmon_Name m, mon_Kind = pbmon_Kind m, mon_Enabled = pbmon_Enabled m,
          mon_Host = pbmon_Host m, mon_Port = pbmon_Port m, mon_URL = pbmon_Url m, mon_Method = pbmon_Method m,
          mon_Path = pbmon_Path m, mon_Headers = pbmon_Headers m,
          mon_ExpectedStatusCodes = pbmon_ExpectedStatusCodes m, mon_TLSVerify = pbmon_TlsVerify m,
          mon_SNIName = pbmon_SniName m, mon_WarningDays = pbmon_WarningDays m,
          mon_CriticalDays = pbmon_CriticalDays m, mon_IntervalSeconds = pbmon_IntervalSeconds m,
          mon_TimeoutSeconds = pbmon_TimeoutSeconds m, mon_Retries = pbmon_Retries m, mon_Status = [],
          mon_LastCheckAt = zero_time, mon_LastStatusChangeAt = zero_time, mon_Certificate = None,
          mon_CreatedAt = zero_time, mon_UpdatedAt = zero_time\<rparr>)"

record pb_CheckResult =
  pbres_Id :: string
  pbres_ServerId :: string
  pbres_MonitorId :: string
  pbres_Status :: string
  pbres_StartedAt :: "timestamp option"
  pbres_EndedAt :: "timestamp option"
  pbres_DurationMs :: int
  pbres_ErrorStage :: string
  pbres_ErrorMessage :: string
  pbres_RemoteAddress :: string
  pbres_Port :: u32
  pbres_HttpStatusCode :: u32
  pbres_Certificate :: "pb_CertificateInfo option"

definition checkResultToProto :: "CheckResult \<Rightarrow> pb_CheckResult" where
  "checkResultToProto r =
     \<lparr>pbres_Id = res_ID r, pbres_ServerId = res_ServerID r, pbres_MonitorId = res_MonitorID r,
      pbres_Status = res_Status r, pbres_StartedAt = timeToTS (res_StartedAt r),
      pbres_EndedAt = timeToTS (res_EndedAt r), pbres_DurationMs = res_DurationMS r,
      pbres_ErrorStage = res_ErrorStage r, pbres_ErrorMessage = res_ErrorMessage r,
      pbres_RemoteAddress = res_RemoteAddress r, pbres_Port = res_Port r,
      pbres_HttpStatusCode = res_HTTPStatusCode r, pbres_Certificate = certToProto (res_Certificate r)\<rparr>"

record 'f pb_UptimeWindow =
  pbuw_WindowSeconds :: int
  pbuw_Total :: int
  pbuw_Up :: int
  pbuw_Down :: int
  pbuw_Uptime :: 'f
  pbuw_AvgLatencyMs :: 'f

record pb_Heartbeat =
  pbhb_Status :: string
  pbhb_StartedAt :: "timestamp option"
  pbhb_DurationMs :: int

record 'f pb_MonitorUptime =
  pbup_Windows :: "(string \<times> 'f pb_UptimeWindow) list"
  pbup_Heartbeats :: "pb_Heartbeat list"

definition uptimeToProto :: "'f MonitorUptime \<Rightarrow> 'f pb_MonitorUptime" where
  "uptimeToProto u =
     \<lparr>pbup_Windows = map (\<lambda>(k, w). (k,
        \<lparr>pbuw_WindowSeconds = uw_WindowSeconds w, pbuw_Total = int32 (uw_Total w), pbuw_Up = int32 (uw_Up w),
         pbuw_Down = int32 (uw_Down w), pbuw_Uptime = uw_Uptime w, pbuw_AvgLatencyMs = uw_AvgLatencyMS w\<rparr>)) (mu_Windows u),
      pbup_Heartbeats = map (\<lambda>h. \<lparr>pbhb_Status = hb_Status h, pbhb_StartedAt = timeToTS (hb_StartedAt h),
        pbhb_DurationMs = hb_DurationMS h\<rparr>) (mu_Heartbeats u)\<rparr>"

section \<open>Groups\<close>

record pb_AlertPolicy =
  pbap_Enabled :: bool
  pbap_NotifyGroupIds :: "string list"
  pbap_OnDown :: bool
  pbap_OnRecover :: bool
  pbap_OnWarning :: bool
  pbap_OnCritical :: bool
  pbap_MinIntervalSeconds :: u32

definition alertPolicyToProto :: "AlertPolicy \<Rightarrow> pb_AlertPolicy" where
  "alertPolicyToProto p =
     \<lparr>pbap_Enabled = ap_Enabled p, pbap_NotifyGroupIds = ap_NotifyGroupIDs p, pbap_OnDown = ap_OnDown p,
      pbap_OnRecover = ap_OnRecover p, pbap_OnWarning = ap_OnWarning p, pbap_OnCritical = ap_OnCritical p,
      pbap_MinIntervalSeconds = ap_MinIntervalSeconds p\<rparr>"

definition zero_policy :: AlertPolicy where
  "zero_policy = \<lparr>ap_Enabled = False, ap_NotifyGroupIDs = [], ap_OnDown = False, ap_OnRecover = False,
     ap_OnWarning = False, ap_OnCritical = False, ap_MinIntervalSeconds = 0\<rparr>"

definition alertPolicyFromProto :: "pb_AlertPolicy option \<Rightarrow> AlertPolicy" where
  "alertPolicyFromProto p =
     (case p of
        None \<Rightarrow> zero_policy
      | Some m \<Rightarrow>
         \<lparr>ap_Enabled = pbap_Enabled m, ap_NotifyGroupIDs = pbap_NotifyGroupIds m,
          ap_OnDown = pbap_OnDown m, ap_OnRecover = pbap_OnRecover m, ap_OnWarning = pbap_OnWarning m,
          ap_OnCritical = pbap_OnCritical m, ap_MinIntervalSeconds = pbap_MinIntervalSeconds m\<rparr>)"

record pb_MonitorGroup =
  pbgrp_Id :: string
  pbgrp_Name :: string
  pbgrp_Description :: string
  pbgrp_SortOrder :: u32
  pbgrp_AlertPolicy :: "pb_AlertPolicy option"
  pbgrp_CreatedAt :: "timestamp option"
  pbgrp_UpdatedAt :: "timestamp option"

definition monitorGroupToProto :: "MonitorGroup \<Rightarrow> pb_MonitorGroup" where
  "monitorGroupToProto g =
     \<lparr>pbgrp_Id = grp_ID g, pbgrp_Name = grp_Name g, pbgrp_Description = grp_Description g,
      pbgrp_SortOrder = grp_SortOrder g, pbgrp_AlertPolicy = Some (alertPolicyToProto (grp_AlertPolicy g)),
      pbgrp_CreatedAt = timeToTS (grp_CreatedAt g), pbgrp_UpdatedAt = timeToTS (grp_UpdatedAt g)\<rparr>"

definition zero_group :: MonitorGroup where
  "zero_group = \<lparr>grp_ID = [], grp_Name = [], grp_Description = [], grp_SortOrder = 0, grp_AlertPolicy = zero_policy,
     grp_CreatedAt = zero_time, grp_UpdatedAt = zero_time\<rparr>"

definition monitorGroupFromProto :: "pb_MonitorGroup option \<Rightarrow> MonitorGroup" where
  "monitorGroupFromProto p =
     (case p of
        None \<Rightarrow> zero_group
      | Some m \<Rightarrow>
         \<lparr>grp_ID = pbgrp_Id m, grp_Name = pbgrp_Name m, grp_Description = pbgrp_Description m,
          grp_SortOrder = pbgrp_SortOrder m, grp_AlertPolicy = alertPolicyFromProto (pbgrp_AlertPolicy m),
          grp_CreatedAt = tsToTime (pbgrp_CreatedAt m), grp_UpdatedAt = tsToTime (pbgrp_UpdatedAt m)\<rparr>)"

record pb_AlertChannel =
  pbch_Type :: string
  pbch_Target :: string
  pbch_Extra :: "string \<rightharpoonup> string"

definition alertChannelToProto :: "AlertChannel \<Rightarrow> pb_AlertChannel" where
  "alertChannelToProto c =
     \<lparr>pbch_Type = ch_Type c, pbch_Target = ch_Target c, pbch_Extra = ch_Extra c\<rparr>"

definition alertChannelFromProto :: "pb_AlertChannel \<Rightarrow> AlertChannel" where
  "alertChannelFromProto c = \<lparr>ch_Type = pbch_Type c, ch_Target = pbch_Target c, ch_Extra = pbch_Extra c\<rparr>"

record pb_NotifyGroup =
  pbng_Id :: string
  pbng_Name :: string
  pbng_Description :: string
  pbng_Channels :: "pb_AlertChannel list"
  pbng_CreatedAt :: "timestamp option"
  pbng_UpdatedAt :: "timestamp option"

definition notifyGroupToProto :: "NotifyGroup \<Rightarrow> pb_NotifyGroup" where
  "notifyGroupToProto g =
     \<lparr>pbng_Id = ng_ID g, pbng_Name = ng_Name g, pbng_Description = ng_Description g,
      pbng_Channels = map alertChannelToProto (ng_Channels g), pbng_CreatedAt = timeToTS (ng_CreatedAt g),
      pbng_UpdatedAt = timeToTS (ng_UpdatedAt g)\<rparr>"

definition zero_notify_group :: NotifyGroup where
  "zero_notify_group = \<lparr>ng_ID = [], ng_Name = [], ng_Description = [], ng_Channels = [],
     ng_CreatedAt = zero_time, ng_UpdatedAt = zero_time\<rparr>"

definition notifyGroupFromProto :: "pb_NotifyGroup option \<Rightarrow> NotifyGroup" where
  "notifyGroupFromProto p =
     (case p of
        None \<Rightarrow> zero_notify_group
      | Some m \<Rightarrow>
         \<lparr>ng_ID = pbng_Id m, ng_Name = pbng_Name m, ng_Description = pbng_Description m,
          ng_Channels = map alertChannelFromProto (pbng_Channels m), ng_CreatedAt = tsToTime (pbng_CreatedAt m),
          ng_UpdatedAt = tsToTime (pbng_UpdatedAt m)\<rparr>)"

section \<open>DNS accounts and issuers\<close>

record pb_DNSProviderAccount =
  pbdns_Id :: string
  pbdns_Name :: string
  pbdns_Provider :: string
  pbdns_PropagationTimeoutSeconds :: u32
  pbdns_TokenConfigured :: bool
  pbdns_TokenLastVerifiedAt :: "timestamp option"
  pbdns_CreatedAt :: "timestamp option"
  pbdns_UpdatedAt :: "timestamp option"

definition dnsProviderAccountToProto :: "PublicAccount \<Rightarrow> pb_DNSProviderAccount" where
  "dnsProviderAccountToProto a =
     \<lparr>pbdns_Id = pa_ID a, pbdns_Name = pa_Name a, pbdns_Provider = pa_Provider a,
      pbdns_PropagationTimeoutSeconds = pa_PropagationTimeoutSeconds a,
      pbdns_TokenConfigured = pa_TokenConfigured a,
      pbdns_TokenLastVerifiedAt = timeToTSPtr (pa_TokenLastVerifiedAt a),
      pbdns_CreatedAt = timeToTS (pa_CreatedAt a), pbdns_UpdatedAt = timeToTS (pa_UpdatedAt a)\<rparr>"

definition certificateIssuerRegistrationStatusToProto :: "string \<Rightarrow> int" where
  "certificateIssuerRegistrationStatusToProto status =
     (if status = IssuerRegistrationPending then 1
      else if status = IssuerRegistrationReady then 2
      else if status = IssuerRegistrationFailed then 3
      else 0)"

record pb_CertificateIssuer =
  pbiss_Id :: string
  pbiss_Name :: string
  pbiss_CaType :: string
  pbiss_DirectoryUrl :: string
  pbiss_Email :: string
  pbiss_RegistrationStatus :: int
  pbiss_RegistrationError :: string
  pbiss_StagingUntrusted :: bool
  pbiss_TermsOfServiceUrl :: string
  pbiss_TermsOfServiceAgreedAt :: "timestamp option"
  pbiss_AccountKeyConfigured :: bool
  pbiss_EabConfigured :: bool
  pbiss_CreatedAt :: "timestamp option"
  pbiss_UpdatedAt :: "timestamp option"

definition certificateIssuerToProto :: "PublicIssuer \<Rightarrow> pb_CertificateIssuer" where
  "certificateIssuerToProto i =
     \<lparr>pbiss_Id = pi_ID i, pbiss_Name = pi_Name i, pbiss_CaType = pi_CAType i,
      pbiss_DirectoryUrl = pi_DirectoryURL i, pbiss_Email = pi_Email i,
      pbiss_RegistrationStatus = certificateIssuerRegistrationStatusToProto (pi_RegistrationStatus i),
      pbiss_RegistrationError = pi_RegistrationError i, pbiss_StagingUntrusted = pi_StagingUntrusted i,
      pbiss_TermsOfServiceUrl = pi_TermsOfServiceURL i,
      pbiss_TermsOfServiceAgreedAt = timeToTSPtr (pi_TermsOfServiceAgreedAt i),
      pbiss_AccountKeyConfigured = pi_AccountKeyConfigured i, pbiss_EabConfigured = pi_EABConfigured i,
      pbiss_CreatedAt = timeToTS (pi_CreatedAt i), pbiss_UpdatedAt = timeToTS (pi_UpdatedAt i)\<rparr>"

record pb_CertificateIssuerDirectoryPreview =
  pbdir_CaType :: string
  pbdir_DirectoryUrl :: string
  pbdir_TermsOfServiceUrl :: string
  pbdir_StagingUntrusted :: bool
  pbdir_RequiresEab :: bool

definition certificateIssuerDirectoryPreviewToProto :: "DirectoryPreview \<Rightarrow> pb_CertificateIssuerDirectoryPreview" where
  "certificateIssuerDirectoryPreviewToProto p =
     \<lparr>pbdir_CaType = dp_CAType p, pbdir_DirectoryUrl = dp_DirectoryURL p,
      pbdir_TermsOfServiceUrl = dp_TermsOfServiceURL p, pbdir_StagingUntrusted = dp_StagingUntrusted p,
      pbdir_RequiresEab = dp_RequiresEAB p\<rparr>"

section \<open>Certificates\<close>

definition certificateKeyTypeToProto :: "string \<Rightarrow> int" where
  "certificateKeyTypeToProto keyType =
     (if keyType = CertKeyTypeRSA2048 then 2
      else if keyType = CertKeyTypeECP256 then 1
      else 0)"

definition keyTypeFromProto :: "int \<Rightarrow> string" where
  "keyTypeFromProto t =
     (if t = 2 then ''rsa_2048''
      else if t = 1 then ''ec_p256''
      else [])"

definition certificateValidityToProto :: "string \<Rightarrow> int" where
  "certificateValidityToProto validity =
     (if validity = CertValidityMissing then 1
      else if validity = CertValidityValid then 2
      else if validity = CertValidityRenewalDue then 3
      else if validity = CertValidityExpired then 4
      else if validity = CertValidityRevoked then 5
      else 0)"

definition certificateOperationTypeToProto :: "string \<Rightarrow> int" where
  "certificateOperationTypeToProto opType =
     (if opType = CertOpTypeIssue then 1
      else if opType = CertOpTypeRenew then 2
      else if opType = CertOpTypeRevoke then 3
      else 0)"

definition certificateOperationStatusToProto :: "string \<Rightarrow> int" where
  "certificateOperationStatusToProto status =
     (if status = CertOpStatusPending then 1
      else if status = CertOpStatusRunning then 2
      else if status = CertOpStatusSucceeded then 3
      else if status = CertOpStatusFailed then 4
      else 0)"

definition revocationReasonToProto :: "u32 \<Rightarrow> int" where
  "revocationReasonToProto reason =
     (if reason = 1 then 1
      else if reason = 2 then 2
      else if reason = 3 then 3
      else if reason = 4 then 4
      else if reason = 5 then 5
      else if reason = 6 then 6
      else if reason = 9 then 9
      else if reason = 10 then 10
      else 0)"

definition revocationReasonFromProto :: "int \<Rightarrow> u32" where
  "revocationReasonFromProto r =
     (if r = 1 then 1
      else if r = 2 then 2
      else if r = 3 then 3
      else if r = 4 then 4
      else if r = 5 then 5
      else if r = 6 then 6
      else if r = 9 then 9
      else if r = 10 then 10
      else 0)"

definition versionSlotFromProto :: "int \<Rightarrow> string" where
  "versionSlotFromProto slot = (if slot = 2 then VersionSlotPrevious else ''active'')"

record pb_IssueConfigSnapshot =
  pbsnap_Domains :: "string list"
  pbsnap_CertificateIssuerId :: string
  pbsnap_DnsProviderAccountId :: string
  pbsnap_KeyType :: int

definition issueConfigSnapshotToProto :: "IssueConfigSnapshot \<Rightarrow> pb_IssueConfigSnapshot" where
  "issueConfigSnapshotToProto s =
     \<lparr>pbsnap_Domains = is_Domains s, pbsnap_CertificateIssuerId = is_CertificateIssuerID s,
      pbsnap_DnsProviderAccountId = is_DNSProviderAccountID s,
      pbsnap_KeyType = certificateKeyTypeToProto (is_KeyType s)\<rparr>"

record pb_CertificateOperation =
  pbop_Id :: string
  pbop_ManagedCertificateId :: string
  pbop_Type :: int
  pbop_Status :: int
  pbop_AttemptCount :: u32
  pbop_ConfigSnapshot :: pb_IssueConfigSnapshot
  pbop_ErrorSummary :: string
  pbop_Warning :: string
  pbop_StartedAt :: "timestamp option"
  pbop_FinishedAt :: "timestamp option"
  pbop_NextAttemptAt :: "timestamp option"
  pbop_CreatedAt :: "timestamp option"
  pbop_UpdatedAt :: "timestamp option"
  pbop_TargetVersionId :: string
  pbop_RevocationReason :: int

definition certificateOperationToProto :: "PublicOperation \<Rightarrow> pb_CertificateOperation" where
  "certificateOperationToProto op =
     \<lparr>pbop_Id = po_ID op, pbop_ManagedCertificateId = po_ManagedCertificateID op,
      pbop_Type = certificateOperationTypeToProto (po_Type op),
      pbop_Status = certificateOperationStatusToProto (po_Status op), pbop_AttemptCount = po_AttemptCount op,
      pbop_ConfigSnapshot = issueConfigSnapshotToProto (po_ConfigSnapshot op),
      pbop_ErrorSummary = po_ErrorSummary op, pbop_Warning = po_Warning op,
      pbop_StartedAt = timeToTSPtr (po_StartedAt op), pbop_FinishedAt = timeToTSPtr (po_FinishedAt op),
      pbop_NextAttemptAt = timeToTSPtr (po_NextAttemptAt op), pbop_CreatedAt = timeToTS (po_CreatedAt op),
      pbop_UpdatedAt = timeToTS (po_UpdatedAt op), pbop_TargetVersionId = po_TargetVersionID op,
      pbop_RevocationReason = revocationReasonToProto (po_RevokeReason op)\<rparr>"

record pb_CertificateVersionMetadata =
  pbver_Id :: string
  pbver_ConfigSnapshot :: pb_IssueConfigSnapshot
  pbver_LeafFingerprint :: string
  pbver_SerialNumber :: string
  pbver_IssuerCommonName :: string
  pbver_NotBefore :: "timestamp option"
  pbver_NotAfter :: "timestamp option"
  pbver_KeyType :: int
  pbver_StagingUntrusted :: bool
  pbver_CreatedAt :: "timestamp option"
  pbver_RevokePending :: bool
  pbver_RevokedAt :: "timestamp option"

definition certificateVersionToProto :: "PublicCertificateVersion option \<Rightarrow> pb_CertificateVersionMetadata option" where
  "certificateVersionToProto v = map_option (\<lambda>v.
     \<lparr>pbver_Id = pv_ID v, pbver_ConfigSnapshot = issueConfigSnapshotToProto (pv_ConfigSnapshot v),
      pbver_LeafFingerprint = pv_LeafFingerprint v, pbver_SerialNumber = pv_SerialNumber v,
      pbver_IssuerCommonName = pv_IssuerCommonName v, pbver_NotBefore = unixToTS (pv_NotBefore v),
      pbver_NotAfter = unixToTS (pv_NotAfter v), pbver_KeyType = certificateKeyTypeToProto (pv_KeyType v),
      pbver_StagingUntrusted = pv_StagingUntrusted v, pbver_CreatedAt = unixToTS (pv_CreatedAt v),
      pbver_RevokePending = pv_RevokePending v,
      pbver_RevokedAt = (if pv_RevokedAt v \<noteq> 0 then unixToTS (pv_RevokedAt v) else None)\<rparr>) v"

record pb_CertificateBundle =
  pbbun_ManagedCertificateId :: string
  pbbun_VersionId :: string
  pbbun_Domains :: "string list"
  pbbun_KeyType :: int
  pbbun_LeafFingerprint :: string
  pbbun_NotBefore :: "timestamp option"
  pbbun_NotAfter :: "timestamp option"
  pbbun_Validity :: int
  pbbun_StagingUntrusted :: bool
  pbbun_FullchainPem :: string
  pbbun_PrivateKeyPem :: string

definition certificateBundleToProto :: "CertificateBundle \<Rightarrow> pb_CertificateBundle" where
  "certificateBundleToProto b =
     \<lparr>pbbun_ManagedCertificateId = cb_ManagedCertificateID b, pbbun_VersionId = cb_VersionID b,
      pbbun_Domains = cb_Domains b, pbbun_KeyType = certificateKeyTypeToProto (cb_KeyType b),
      pbbun_LeafFingerprint = cb_LeafFingerprint b, pbbun_NotBefore = unixToTS (cb_NotBefore b),
      pbbun_NotAfter = unixToTS (cb_NotAfter b), pbbun_Validity = certificateValidityToProto (cb_Validity b),
      pbbun_StagingUntrusted = cb_StagingUntrusted b, pbbun_FullchainPem = cb_FullchainPEM b,
      pbbun_PrivateKeyPem = cb_PrivateKeyPEM b\<rparr>"

record pb_ServerCertificate =
  pbsc_ManagedCertificateId :: string
  pbsc_Name :: string
  pbsc_Domains :: "string list"
  pbsc_ActiveVersionId :: string
  pbsc_Available :: bool
  pbsc_Validity :: int
  pbsc_KeyType :: int
  pbsc_LeafFingerprint :: string
  pbsc_NotBefore :: "timestamp option"
  pbsc_NotAfter :: "timestamp option"
  pbsc_StagingUntrusted :: bool
  pbsc_ErrorSummary :: string

definition serverCertificateToProto :: "ServerCertificate \<Rightarrow> pb_ServerCertificate" where
  "serverCertificateToProto c =
     \<lparr>pbsc_ManagedCertificateId = sc_ManagedCertificateID c, pbsc_Name = sc_Name c,
      pbsc_Domains = sc_Domains c, pbsc_ActiveVersionId = sc_ActiveVersionID c, pbsc_Available = sc_Available c,
      pbsc_Validity = certificateValidityToProto (sc_Validity c),
      pbsc_KeyType = certificateKeyTypeToProto (sc_KeyType c), pbsc_LeafFingerprint = sc_LeafFingerprint c,
      pbsc_NotBefore = unixToTS (sc_NotBefore c), pbsc_NotAfter = unixToTS (sc_NotAfter c),
      pbsc_StagingUntrusted = sc_StagingUntrusted c, pbsc_ErrorSummary = sc_ErrorSummary c\<rparr>"

record pb_ManagedCertificate =
  pbmc_Id :: string
  pbmc_Name :: string
  pbmc_Domains :: "string list"
  pbmc_CertificateIssuerId :: string
  pbmc_DnsProviderAccountId :: string
  pbmc_KeyType :: int
  pbmc_RenewBeforeDays :: u32
  pbmc_NotifyGroupIds :: "string list"
  pbmc_ServerIds :: "string list"
  pbmc_ActiveValidity :: int
  pbmc_BundleAvailable :: bool
  pbmc_CreatedAt :: "timestamp option"
  pbmc_UpdatedAt :: "timestamp option"
  pbmc_AutoRenewEnabled :: "bool option"
  pbmc_LatestOperation :: "pb_CertificateOperation option"
  pbmc_ActiveVersion :: "pb_CertificateVersionMetadata option"
  pbmc_PreviousVersion :: "pb_CertificateVersionMetadata option"
  pbmc_HasUnpublishedDesiredChanges :: bool
  pbmc_EffectiveRenewalWindowDays :: u32
  pbmc_NextRenewalAt :: "timestamp option"
  pbmc_LastNotificationWarning :: string
  pbmc_LastNotificationWarningAt :: "timestamp option"

definition managedCertificateToProto :: "PublicManagedCertificate \<Rightarrow> pb_ManagedCertificate" where
  "managedCertificateToProto c =
     \<lparr>pbmc_Id = pc_ID c, pbmc_Name = pc_Name c, pbmc_Domains = pc_Domains c,
      pbmc_CertificateIssuerId = pc_CertificateIssuerID c,
      pbmc_DnsProviderAccountId = pc_DNSProviderAccountID c,
      pbmc_KeyType = certificateKeyTypeToProto (pc_KeyType c), pbmc_RenewBeforeDays = pc_RenewBeforeDays c,
      pbmc_NotifyGroupIds = pc_NotifyGroupIDs c, pbmc_ServerIds = pc_ServerIDs c,
      pbmc_ActiveValidity = certificateValidityToProto (pc_ActiveValidity c),
      pbmc_BundleAvailable = pc_BundleAvailable c, pbmc_CreatedAt = timeToTS (pc_CreatedAt c),
      pbmc_UpdatedAt = timeToTS (pc_UpdatedAt c), pbmc_AutoRenewEnabled = Some (pc_AutoRenewEnabled c),
      pbmc_LatestOperation = map_option certificateOperationToProto (pc_LatestOperation c),
      pbmc_ActiveVersion = certificateVersionToProto (pc_ActiveVersion c),
      pbmc_PreviousVersion = certificateVersionToProto (pc_PreviousVersion c),
      pbmc_HasUnpublishedDesiredChanges = pc_HasUnpublishedDesiredChanges c,
      pbmc_EffectiveRenewalWindowDays = pc_EffectiveRenewalWindowDays c,
      pbmc_NextRenewalAt = timeToTSPtr (pc_NextRenewalAt c),
      pbmc_LastNotificationWarning = pc_LastNotificationWarning c,
      pbmc_LastNotificationWarningAt = timeToTSPtr (pc_LastNotificationWarningAt c)\<rparr>"

section \<open>Settings, tokens, users and the audit log\<close>

record pb_Settings =
  pbset_SiteName :: string
  pbset_StatusPageTitle :: string
  pbset_UpdatedAt :: "timestamp option"

definition settingsToProto :: "Settings \<Rightarrow> pb_Settings" where
  "settingsToProto s =
     \<lparr>pbset_SiteName = set_SiteName s, pbset_StatusPageTitle = set_StatusPageTitle s,
      pbset_UpdatedAt = timeToTS (set_UpdatedAt s)\<rparr>"

definition settingsFromProto :: "pb_Settings option \<Rightarrow> Settings" where
  "settingsFromProto p =
     (case p of
        None \<Rightarrow> \<lparr>set_SiteName = [], set_StatusPageTitle = [], set_UpdatedAt = zero_time\<rparr>
      | Some m \<Rightarrow>
         \<lparr>set_SiteName = pbset_SiteName m, set_StatusPageTitle = pbset_StatusPageTitle m,
          set_UpdatedAt = zero_time\<rparr>)"

record pb_McpToken =
  pbmcp_Id :: string
  pbmcp_Name :: string
  pbmcp_Prefix :: string
  pbmcp_CreatedAt :: "timestamp option"
  pbmcp_LastUsedAt :: "timestamp option"

definition mcpTokenToProto :: "McpToken \<Rightarrow> pb_McpToken" where
  "mcpTokenToProto t =
     \<lparr>pbmcp_Id = mcp_ID t, pbmcp_Name = mcp_Name t, pbmcp_Prefix = mcp_Prefix t,
      pbmcp_CreatedAt = timeToTS (mcp_CreatedAt t), pbmcp_LastUsedAt = timeToTS (mcp_LastUsedAt t)\<rparr>"

definition storeCertificateAccessTokenExpired :: "CertificateAccessToken \<Rightarrow> gotime \<Rightarrow> bool" where
  "storeCertificateAccessTokenExpired t now =
     (case cat_ExpiresAt t of None \<Rightarrow> False | Some e \<Rightarrow> if e = zero_time then False else e \<le> now)"

record pb_CertificateAccessToken =
  pbcat_Id :: string
  pbcat_ServerId :: string
  pbcat_Name :: string
  pbcat_Prefix :: string
  pbcat_CreatedAt :: "timestamp option"
  pbcat_Expired :: bool
  pbcat_LastUsedAt :: "timestamp option"
  pbcat_ExpiresAt :: "timestamp option"

definition certificateAccessTokenToProto :: "gotime \<Rightarrow> CertificateAccessToken \<Rightarrow> pb_CertificateAccessToken" where
  "certificateAccessTokenToProto now t =
     \<lparr>pbcat_Id = cat_ID t, pbcat_ServerId = cat_ServerID t, pbcat_Name = cat_Name t,
      pbcat_Prefix = cat_Prefix t, pbcat_CreatedAt = timeToTS (cat_CreatedAt t),
      pbcat_Expired = storeCertificateAccessTokenExpired t now,
      pbcat_LastUsedAt = timeToTSPtr (cat_LastUsedAt t), pbcat_ExpiresAt = timeToTSPtr (cat_ExpiresAt t)\<rparr>"

record pb_User =
  pbusr_Id :: string
  pbusr_Email :: string
  pbusr_Role :: string

definition userToProto :: "string \<Rightarrow> string \<Rightarrow> string \<Rightarrow> pb_User" where
  "userToProto ident email role = \<lparr>pbusr_Id = ident, pbusr_Email = email, pbusr_Role = role\<rparr>"

record pb_AuditLog =
  pbaud_Id :: string
  pbaud_Source :: string
  pbaud_ActorId :: string
  pbaud_ActorEmail :: string
  pbaud_TokenPrefix :: string
  pbaud_Action :: string
  pbaud_ResourceType :: string
  pbaud_ResourceId :: string
  pbaud_Method :: string
  pbaud_Path :: string
  pbaud_StatusCode :: int
  pbaud_Success :: bool
  pbaud_Error :: string
  pbaud_DurationMs :: int
  pbaud_RemoteIp :: string
  pbaud_UserAgent :: string
  pbaud_Metadata :: "string \<rightharpoonup> string"
  pbaud_OccurredAt :: "timestamp option"

definition auditLogToProto :: "AuditLog \<Rightarrow> pb_AuditLog" where
  "auditLogToProto x =
     \<lparr>pbaud_Id = aud_ID x, pbaud_Source = aud_Source x, pbaud_ActorId = aud_ActorID x,
      pbaud_ActorEmail = aud_ActorEmail x, pbaud_TokenPrefix = aud_TokenPrefix x, pbaud_Action = aud_Action x,
      pbaud_ResourceType = aud_ResourceType x, pbaud_ResourceId = aud_ResourceID x, pbaud_Method = aud_Method x,
      pbaud_Path = aud_Path x, pbaud_StatusCode = int32 (aud_StatusCode x), pbaud_Success = aud_Success x,
      pbaud_Error = aud_Error x, pbaud_DurationMs = aud_DurationMS x, pbaud_RemoteIp = aud_RemoteIP x,
      pbaud_UserAgent = aud_UserAgent x, pbaud_Metadata = aud_Metadata x,
      pbaud_OccurredAt = timeToTS (aud_OccurredAt x)\<rparr>"

section \<open>The status page\<close>

record pb_PublicCertificate =
  pbpc_NotBefore :: "timestamp option"
  pbpc_NotAfter :: "timestamp option"
  pbpc_DaysRemaining :: u32

definition publicCertToProto :: "PublicCertificate option \<Rightarrow> pb_PublicCertificate option" where
  "publicCertToProto c = map_option (\<lambda>c.
     \<lparr>pbpc_NotBefore = timeToTS (puc_NotBefore c), pbpc_NotAfter = timeToTS (puc_NotAfter c),
      pbpc_DaysRemaining = puc_DaysRemaining c\<rparr>) c"

record 'f pb_StatusMonitor =
  pbsm_Id :: string
  pbsm_ServerId :: string
  pbsm_Name :: string
  pbsm_Kind :: string
  pbsm_Status :: string
  pbsm_IntervalSeconds :: u32
  pbsm_LastCheckAt :: "timestamp option"
  pbsm_WarningDays :: u32
  pbsm_CriticalDays :: u32
  pbsm_Certificate :: "pb_PublicCertificate option"
  pbsm_Uptime :: "'f pb_MonitorUptime"

record 'f pb_StatusServer =
  pbss_Id :: string
  pbss_Name :: string
  pbss_Environment :: string
  pbss_Tags :: "string list"
  pbss_Monitors :: "'f pb_StatusMonitor list"

record 'f pb_StatusGroup =
  pbsg_Id :: string
  pbsg_Name :: string
  pbsg_Description :: string
  pbsg_SortOrder :: u32
  pbsg_Servers :: "'f pb_StatusServer list"

definition statusOverviewToProto :: "'f StatusGroup list \<Rightarrow> 'f pb_StatusGroup list" where
  "statusOverviewToProto overview = map (\<lambda>g.
     \<lparr>pbsg_Id = sg_ID g, pbsg_Name = sg_Name g, pbsg_Description = sg_Description g, pbsg_SortOrder = sg_SortOrder g,
      pbsg_Servers = map (\<lambda>s.
        \<lparr>pbss_Id = ssv_ID s, pbss_Name = ssv_Name s, pbss_Environment = ssv_Environment s, pbss_Tags = ssv_Tags s,
         pbss_Monitors = map (\<lambda>m.
           \<lparr>pbsm_Id = sm_ID m, pbsm_ServerId = sm_ServerID m, pbsm_Name = sm_Name m,
            pbsm_Kind = sm_Kind m, pbsm_Status = sm_Status m, pbsm_IntervalSeconds = sm_IntervalSeconds m,
            pbsm_LastCheckAt = timeToTS (sm_LastCheckAt m), pbsm_WarningDays = sm_WarningDays m,
            pbsm_CriticalDays = sm_CriticalDays m, pbsm_Certificate = publicCertToProto (sm_Certificate m),
            pbsm_Uptime = uptimeToProto (sm_Uptime m)\<rparr>) (ssv_Monitors s)\<rparr>) (sg_Servers g)\<rparr>) overview"

section \<open>Reading back what was written\<close>

text \<open>The fields of a monitor that a client of the API does not set.\<close>

definition observed_of_monitor :: "Monitor \<Rightarrow> string \<times> gotime \<times> gotime \<times> CertificateInfo option \<times> gotime" where
  "observed_of_monitor m = (mon_Status m, mon_LastCheckAt m, mon_LastStatusChangeAt m, mon_Certificate m, mon_CreatedAt m)"

definition observed_of_server :: "Server \<Rightarrow> string \<times> gotime \<times> gotime \<times> gotime" where
  "observed_of_server x = (srv_HealthStatus x, srv_LastStatusChangeAt x, srv_LastCheckAt x, srv_CreatedAt x)"

lemma server_settings_roundtrip:
  "serverFromProto (Some (serverToProto x)) = x\<lparr>srv_HealthStatus := [], srv_LastStatusChangeAt := zero_time,
     srv_LastCheckAt := zero_time, srv_CreatedAt := zero_time, srv_UpdatedAt := zero_time\<rparr>"
  by (cases "srv_SSH x") (simp_all add: serverFromProto_def serverToProto_def)

lemma monitor_settings_roundtrip:
  "monitorFromProto (Some (monitorToProto m)) = m\<lparr>mon_Status := [], mon_LastCheckAt := zero_time,
     mon_LastStatusChangeAt := zero_time, mon_Certificate := None, mon_CreatedAt := zero_time, mon_UpdatedAt := zero_time\<rparr>"
  by (simp add: monitorFromProto_def monitorToProto_def)

lemma alert_policy_roundtrip: "alertPolicyFromProto (Some (alertPolicyToProto p)) = p"
  by (simp add: alertPolicyFromProto_def alertPolicyToProto_def)

lemma monitor_group_roundtrip: "monitorGroupFromProto (Some (monitorGroupToProto g)) = g"
  by (simp add: monitorGroupFromProto_def monitorGroupToProto_def alert_policy_roundtrip)

lemma channel_roundtrip: "alertChannelFromProto (alertChannelToProto c) = c"
  by (simp add: alertChannelFromProto_def alertChannelToProto_def)

lemma notify_group_roundtrip: "notifyGroupFromProto (Some (notifyGroupToProto g)) = g"
  by (simp add: notifyGroupFromProto_def notifyGroupToProto_def comp_def channel_roundtrip)

lemma key_type_roundtrip:
  "t \<in> {CertKeyTypeRSA2048, CertKeyTypeECP256} \<Longrightarrow> keyTypeFromProto (certificateKeyTypeToProto t) = t"
  by (auto simp: keyTypeFromProto_def certificateKeyTypeToProto_def)

lemma revocation_reason_roundtrip:
  "reason \<in> {1, 2, 3, 4, 5, 6, 9, 10} \<Longrightarrow> revocationReasonFromProto (revocationReasonToProto reason) = reason"
  by (auto simp: revocationReasonFromProto_def revocationReasonToProto_def)

end
