(* ===== verification/Services.thy ===== *)
theory Services
  imports Wire Access ServerStore Uptime Ssh ConfigImport
begin

text \<open>
  The services of internal/connectapi that hold the monitoring configuration: server_service.go,
  monitor_service.go, group_service.go, notify_service.go, settings_service.go, mcp_service.go,
  audit_service.go and data_service.go. A handler \<open>api_X\<close> takes the fields of its request and answers a
  message or an error of the protocol; it runs behind the interceptors of \<open>Access\<close>. A response of one
  field is that field, a page is the pair of its items and the token of the next page.
\<close>

section \<open>Answers\<close>

definition pageLimit :: "u32 \<Rightarrow> int" where
  "pageLimit n = (if n = 0 then 50 else uint n)"

definition answer :: "(string \<Rightarrow> string) \<Rightarrow> ('a \<Rightarrow> 'b) \<Rightarrow> err + 'a \<Rightarrow> connect_error + 'b" where
  "answer q f r = (case r of Inl e \<Rightarrow> Inl (toConnectError q e) | Inr x \<Rightarrow> Inr (f x))"

definition answer_page ::
  "(string \<Rightarrow> string) \<Rightarrow> ('a \<Rightarrow> 'b) \<Rightarrow> err + 'a list \<times> string \<Rightarrow> connect_error + 'b list \<times> string" where
  "answer_page q f r = answer q (\<lambda>(xs, token). (map f xs, token)) r"

text \<open>The answer of a call that also changes the state.\<close>

definition answer_write ::
  "(string \<Rightarrow> string) \<Rightarrow> ('a \<Rightarrow> 'b) \<Rightarrow> (err + 'a) \<times> 's \<Rightarrow> (connect_error + 'b) \<times> 's" where
  "answer_write q f r = (answer q f (fst r), snd r)"

lemma answer_Inr: "answer q f r = Inr y \<longleftrightarrow> (\<exists>x. r = Inr x \<and> y = f x)"
  by (auto simp: answer_def split: sum.splits)

lemma answer_write_Inr: "answer_write q f r = (Inr y, s') \<longleftrightarrow> (\<exists>x. r = (Inr x, s') \<and> y = f x)"
  by (cases r) (auto simp: answer_write_def answer_Inr)

lemma snd_answer_write [simp]: "snd (answer_write q f r) = snd r"
  by (simp add: answer_write_def)

section \<open>Servers\<close>

definition api_ListServers ::
  "(string \<Rightarrow> string) \<Rightarrow> 'c mongo \<Rightarrow> string \<Rightarrow> string list \<Rightarrow> u32 \<Rightarrow> string \<Rightarrow> 'c db \<Rightarrow>
    connect_error + pb_Server list \<times> string" where
  "api_ListServers q M environment tags pageSize token s =
     answer_page q serverToProto (ListServers M environment tags (pageLimit pageSize) token s)"

definition api_CreateServer ::
  "(string \<Rightarrow> string) \<Rightarrow> 'c mongo \<Rightarrow> gotime \<Rightarrow> string \<Rightarrow> pb_Server option \<Rightarrow> 'c db \<Rightarrow>
    (connect_error + pb_Server) \<times> 'c db" where
  "api_CreateServer q M now uuid server s =
     answer_write q serverToProto (CreateServer M now uuid (serverFromProto server) s)"

definition api_GetServer ::
  "(string \<Rightarrow> string) \<Rightarrow> 'c mongo \<Rightarrow> string \<Rightarrow> 'c db \<Rightarrow>
    connect_error + pb_Server" where
  "api_GetServer q M ident s =
     answer q serverToProto (GetServer M ident s)"

definition api_UpdateServer ::
  "(string \<Rightarrow> string) \<Rightarrow> 'c mongo \<Rightarrow> gotime \<Rightarrow> string \<Rightarrow> pb_Server option \<Rightarrow> 'c db \<Rightarrow>
    (connect_error + pb_Server) \<times> 'c db" where
  "api_UpdateServer q M now ident server s =
     answer_write q serverToProto (UpdateServer M now ident (serverFromProto server) s)"

definition api_DeleteServer ::
  "(string \<Rightarrow> string) \<Rightarrow> 'c mongo \<Rightarrow> string \<Rightarrow> 'c db \<Rightarrow>
    (connect_error + unit) \<times> 'c db" where
  "api_DeleteServer q M ident s =
     answer_write q (\<lambda>x. x) (DeleteServer M ident s)"

definition api_GetServerHealth ::
  "(string \<Rightarrow> string) \<Rightarrow> 'c mongo \<Rightarrow> gotime \<Rightarrow> string \<Rightarrow> string \<Rightarrow> 'c db \<Rightarrow>
    (connect_error + pb_ServerHealth) \<times> 'c db" where
  "api_GetServerHealth q M now uuid ident s =
     answer_write q serverHealthToProto (GetServerHealth M now uuid ident s)"

definition api_ListServerEvents ::
  "(string \<Rightarrow> string) \<Rightarrow> 'c mongo \<Rightarrow> string \<Rightarrow> u32 \<Rightarrow> string \<Rightarrow> 'c db \<Rightarrow>
    connect_error + pb_ServerEvent list \<times> string" where
  "api_ListServerEvents q M ident pageSize token s =
     answer_page q serverEventToProto (ListServerEvents M ident (pageLimit pageSize) token s)"

section \<open>Monitors\<close>

definition api_ListMonitors ::
  "(string \<Rightarrow> string) \<Rightarrow> 'c mongo \<Rightarrow> string \<Rightarrow> u32 \<Rightarrow> string \<Rightarrow> 'c db \<Rightarrow>
    connect_error + pb_Monitor list \<times> string" where
  "api_ListMonitors q M serverID pageSize token s =
     answer_page q monitorToProto (ListMonitors M serverID (pageLimit pageSize) token s)"

definition api_CreateMonitor ::
  "(string \<Rightarrow> string) \<Rightarrow> 'c mongo \<Rightarrow> gotime \<Rightarrow> string \<Rightarrow> string \<Rightarrow> pb_Monitor option \<Rightarrow> 'c db \<Rightarrow>
    (connect_error + pb_Monitor) \<times> 'c db" where
  "api_CreateMonitor q M now uuid serverID monitor s =
     answer_write q monitorToProto (CreateMonitor M now uuid serverID (monitorFromProto monitor) s)"

definition api_GetMonitor ::
  "(string \<Rightarrow> string) \<Rightarrow> 'c mongo \<Rightarrow> string \<Rightarrow> string \<Rightarrow> 'c db \<Rightarrow>
    connect_error + pb_Monitor" where
  "api_GetMonitor q M serverID monitorID s =
     answer q monitorToProto (GetMonitor M serverID monitorID s)"

definition api_UpdateMonitor ::
  "(string \<Rightarrow> string) \<Rightarrow> 'c mongo \<Rightarrow> gotime \<Rightarrow> string \<Rightarrow> string \<Rightarrow> pb_Monitor option \<Rightarrow> 'c db \<Rightarrow>
    (connect_error + pb_Monitor) \<times> 'c db" where
  "api_UpdateMonitor q M now serverID monitorID monitor s =
     answer_write q monitorToProto (UpdateMonitor M now serverID monitorID (monitorFromProto monitor) s)"

definition api_DeleteMonitor ::
  "(string \<Rightarrow> string) \<Rightarrow> 'c mongo \<Rightarrow> string \<Rightarrow> string \<Rightarrow> 'c db \<Rightarrow>
    (connect_error + unit) \<times> 'c db" where
  "api_DeleteMonitor q M serverID monitorID s =
     answer_write q (\<lambda>x. x) (DeleteMonitor M serverID monitorID s)"

definition api_ListCheckResults ::
  "(string \<Rightarrow> string) \<Rightarrow> 'c mongo \<Rightarrow> string \<Rightarrow> string \<Rightarrow> u32 \<Rightarrow> string \<Rightarrow> timestamp option \<Rightarrow> timestamp option \<Rightarrow> 'c db \<Rightarrow>
    connect_error + pb_CheckResult list \<times> string" where
  "api_ListCheckResults q M serverID monitorID pageSize token start stop s =
     answer_page q checkResultToProto
       (ListCheckResults M serverID monitorID (pageLimit pageSize) token (tsToTimePtr start) (tsToTimePtr stop) s)"

definition api_GetMonitorUptime ::
  "(int \<Rightarrow> int \<Rightarrow> 'f) \<Rightarrow> 'f \<Rightarrow> (string \<Rightarrow> string) \<Rightarrow> 'c mongo \<Rightarrow> gotime \<Rightarrow> string \<Rightarrow> string \<Rightarrow> 'c db \<Rightarrow>
    connect_error + 'f pb_MonitorUptime" where
  "api_GetMonitorUptime fdiv fzero q M now serverID monitorID s =
     answer q uptimeToProto (GetMonitorUptime fdiv fzero M now serverID monitorID s)"

section \<open>Monitor groups\<close>

definition api_ListMonitorGroups ::
  "(string \<Rightarrow> string) \<Rightarrow> 'c mongo \<Rightarrow> u32 \<Rightarrow> string \<Rightarrow> 'c db \<Rightarrow>
    connect_error + pb_MonitorGroup list \<times> string" where
  "api_ListMonitorGroups q M pageSize token s =
     answer_page q monitorGroupToProto (ListMonitorGroups M (pageLimit pageSize) token s)"

definition api_CreateMonitorGroup ::
  "(string \<Rightarrow> string) \<Rightarrow> 'c mongo \<Rightarrow> gotime \<Rightarrow> string \<Rightarrow> pb_MonitorGroup option \<Rightarrow> 'c db \<Rightarrow>
    (connect_error + pb_MonitorGroup) \<times> 'c db" where
  "api_CreateMonitorGroup q M now uuid grp s =
     (let grp = monitorGroupFromProto grp in
      if trim_space (grp_Name grp) = [] then (Inl (NewError CodeInvalidArgument ''name is required''), s)
      else answer_write q monitorGroupToProto (CreateMonitorGroup M now uuid grp s))"

definition api_GetMonitorGroup ::
  "(string \<Rightarrow> string) \<Rightarrow> 'c mongo \<Rightarrow> string \<Rightarrow> 'c db \<Rightarrow>
    connect_error + pb_MonitorGroup" where
  "api_GetMonitorGroup q M ident s =
     answer q monitorGroupToProto (GetMonitorGroup M ident s)"

definition api_UpdateMonitorGroup ::
  "(string \<Rightarrow> string) \<Rightarrow> 'c mongo \<Rightarrow> gotime \<Rightarrow> string \<Rightarrow> pb_MonitorGroup option \<Rightarrow> 'c db \<Rightarrow>
    (connect_error + pb_MonitorGroup) \<times> 'c db" where
  "api_UpdateMonitorGroup q M now ident grp s =
     (let grp = monitorGroupFromProto grp in
      if trim_space (grp_Name grp) = [] then (Inl (NewError CodeInvalidArgument ''name is required''), s)
      else answer_write q monitorGroupToProto (UpdateMonitorGroup M now ident grp s))"

definition api_DeleteMonitorGroup ::
  "(string \<Rightarrow> string) \<Rightarrow> 'c mongo \<Rightarrow> string \<Rightarrow> 'c db \<Rightarrow>
    (connect_error + unit) \<times> 'c db" where
  "api_DeleteMonitorGroup q M ident s =
     answer_write q (\<lambda>x. x) (DeleteMonitorGroup M ident s)"

definition api_ListMonitorsByGroup ::
  "(string \<Rightarrow> string) \<Rightarrow> 'c mongo \<Rightarrow> string \<Rightarrow> u32 \<Rightarrow> string \<Rightarrow> 'c db \<Rightarrow>
    connect_error + pb_Monitor list \<times> string" where
  "api_ListMonitorsByGroup q M ident pageSize token s =
     answer_page q monitorToProto (ListMonitorsByGroup M ident (pageLimit pageSize) token s)"

section \<open>Notify groups\<close>

definition api_ListNotifyGroups ::
  "(string \<Rightarrow> string) \<Rightarrow> 'c mongo \<Rightarrow> u32 \<Rightarrow> string \<Rightarrow> 'c db \<Rightarrow>
    connect_error + pb_NotifyGroup list \<times> string" where
  "api_ListNotifyGroups q M pageSize token s =
     answer_page q notifyGroupToProto (ListNotifyGroups M (pageLimit pageSize) token s)"

definition api_CreateNotifyGroup ::
  "(string \<Rightarrow> string) \<Rightarrow> 'c mongo \<Rightarrow> gotime \<Rightarrow> string \<Rightarrow> pb_NotifyGroup option \<Rightarrow> 'c db \<Rightarrow>
    (connect_error + pb_NotifyGroup) \<times> 'c db" where
  "api_CreateNotifyGroup q M now uuid grp s =
     (let grp = notifyGroupFromProto grp in
      if trim_space (ng_Name grp) = [] then (Inl (NewError CodeInvalidArgument ''name is required''), s)
      else answer_write q notifyGroupToProto (CreateNotifyGroup M now uuid grp s))"

definition api_GetNotifyGroup ::
  "(string \<Rightarrow> string) \<Rightarrow> 'c mongo \<Rightarrow> string \<Rightarrow> 'c db \<Rightarrow>
    connect_error + pb_NotifyGroup" where
  "api_GetNotifyGroup q M ident s =
     answer q notifyGroupToProto (GetNotifyGroup M ident s)"

definition api_UpdateNotifyGroup ::
  "(string \<Rightarrow> string) \<Rightarrow> 'c mongo \<Rightarrow> gotime \<Rightarrow> string \<Rightarrow> pb_NotifyGroup option \<Rightarrow> 'c db \<Rightarrow>
    (connect_error + pb_NotifyGroup) \<times> 'c db" where
  "api_UpdateNotifyGroup q M now ident grp s =
     (let grp = notifyGroupFromProto grp in
      if trim_space (ng_Name grp) = [] then (Inl (NewError CodeInvalidArgument ''name is required''), s)
      else answer_write q notifyGroupToProto (UpdateNotifyGroup M now ident grp s))"

definition api_DeleteNotifyGroup ::
  "(string \<Rightarrow> string) \<Rightarrow> 'c mongo \<Rightarrow> string \<Rightarrow> 'c db \<Rightarrow>
    (connect_error + unit) \<times> 'c db" where
  "api_DeleteNotifyGroup q M ident s =
     answer_write q (\<lambda>x. x) (DeleteNotifyGroup M ident s)"

section \<open>Settings, MCP tokens, the audit log\<close>

definition api_GetSettings ::
  "(string \<Rightarrow> string) \<Rightarrow> ('c, Settings) coll \<Rightarrow> 'c \<Rightarrow> connect_error + pb_Settings" where
  "api_GetSettings q C c = answer q settingsToProto (GetSettings C c)"

definition api_UpdateSettings ::
  "(string \<Rightarrow> string) \<Rightarrow> ('c, Settings) coll \<Rightarrow> gotime \<Rightarrow> pb_Settings option \<Rightarrow> 'c \<Rightarrow> (connect_error + pb_Settings) \<times> 'c" where
  "api_UpdateSettings q C now settings c =
     answer_write q settingsToProto (UpdateSettings C now (settingsFromProto settings) c)"

definition api_ListMcpTokens :: "(string \<Rightarrow> string) \<Rightarrow> 'c mongo \<Rightarrow> 'c db \<Rightarrow> connect_error + pb_McpToken list" where
  "api_ListMcpTokens q M s = answer q (map mcpTokenToProto) (ListMcpTokens M s)"

definition api_CreateMcpToken ::
  "(string \<Rightarrow> string) \<Rightarrow> (string \<Rightarrow> string) \<Rightarrow> 'c mongo \<Rightarrow> gotime \<Rightarrow> string \<Rightarrow> err + string \<Rightarrow> string \<Rightarrow> 'c db \<Rightarrow>
    (connect_error + pb_McpToken \<times> string) \<times> 'c db" where
  "api_CreateMcpToken q hash M now uuid secretHex name s =
     (let name = trim_space name in
      if name = [] then (Inl (NewError CodeInvalidArgument ''name is required''), s)
      else answer_write q (\<lambda>(t, plaintext). (mcpTokenToProto t, plaintext)) (CreateMcpToken hash M now uuid secretHex name s))"

definition api_DeleteMcpToken ::
  "(string \<Rightarrow> string) \<Rightarrow> 'c mongo \<Rightarrow> string \<Rightarrow> 'c db \<Rightarrow> (connect_error + unit) \<times> 'c db" where
  "api_DeleteMcpToken q M ident s = answer_write q (\<lambda>x. x) (DeleteMcpToken M ident s)"

record pb_ListAuditLogsRequest =
  pbal_Source :: string
  pbal_Action :: string
  pbal_ResourceType :: string
  pbal_ResourceId :: string
  pbal_ActorEmail :: string
  pbal_TokenPrefix :: string
  pbal_Success :: "bool option"
  pbal_StartTime :: "timestamp option"
  pbal_EndTime :: "timestamp option"
  pbal_PageSize :: u32
  pbal_PageToken :: string

definition api_ListAuditLogs ::
  "(string \<Rightarrow> string) \<Rightarrow> ('c, AuditLog) coll \<Rightarrow> pb_ListAuditLogsRequest \<Rightarrow> 'c \<Rightarrow> connect_error + pb_AuditLog list \<times> string" where
  "api_ListAuditLogs q A msg c =
     answer_page q auditLogToProto (ListAuditLogs A
       \<lparr>af_Source = pbal_Source msg, af_Action = pbal_Action msg, af_ResourceType = pbal_ResourceType msg,
        af_ResourceID = pbal_ResourceId msg, af_ActorEmail = pbal_ActorEmail msg, af_TokenPrefix = pbal_TokenPrefix msg,
        af_Success = pbal_Success msg, af_StartTime = tsToTimePtr (pbal_StartTime msg),
        af_EndTime = tsToTimePtr (pbal_EndTime msg)\<rparr>
       (pageLimit (pbal_PageSize msg)) (pbal_PageToken msg) c)"

section \<open>Export and import\<close>

definition api_ExportConfig ::
  "(string \<Rightarrow> string) \<Rightarrow> (File \<Rightarrow> err + string) \<Rightarrow> 's cstore \<Rightarrow> gotime \<Rightarrow> 's \<Rightarrow> (connect_error + string) option" where
  "api_ExportConfig q marshal B now s = map_option (answer q (\<lambda>x. x)) (Export marshal B now s)"

definition importModeFromProto :: "int \<Rightarrow> int" where
  "importModeFromProto m = (if m = 1 then ModeMerge else if m = 2 then ModeUpsert else 0)"

record pb_ImportCounts =
  pbic_Created :: u32
  pbic_Updated :: u32
  pbic_Skipped :: u32
  pbic_Failed :: u32

record pb_ImportSummary =
  pbis_Settings :: pb_ImportCounts
  pbis_NotifyGroups :: pb_ImportCounts
  pbis_MonitorGroups :: pb_ImportCounts
  pbis_Servers :: pb_ImportCounts
  pbis_Monitors :: pb_ImportCounts

record pb_ImportError =
  pbie_ResourceType :: string
  pbie_Id :: string
  pbie_Name :: string
  pbie_Message :: string

record pb_ImportConfigResponse =
  pbir_DryRun :: bool
  pbir_Summary :: pb_ImportSummary
  pbir_Errors :: "pb_ImportError list"

definition countsToProto :: "Counts \<Rightarrow> pb_ImportCounts" where
  "countsToProto c = \<lparr>pbic_Created = cnt_Created c, pbic_Updated = cnt_Updated c, pbic_Skipped = cnt_Skipped c,
     pbic_Failed = cnt_Failed c\<rparr>"

definition reportToProto :: "Report \<Rightarrow> pb_ImportConfigResponse" where
  "reportToProto r = (let sm = rep_Summary r in
     \<lparr>pbir_DryRun = rep_DryRun r,
      pbir_Summary = \<lparr>pbis_Settings = countsToProto (sum_Settings sm), pbis_NotifyGroups = countsToProto (sum_NotifyGroups sm),
        pbis_MonitorGroups = countsToProto (sum_MonitorGroups sm), pbis_Servers = countsToProto (sum_Servers sm),
        pbis_Monitors = countsToProto (sum_Monitors sm)\<rparr>,
      pbir_Errors = map (\<lambda>e. \<lparr>pbie_ResourceType = is_ResourceType e, pbie_Id = is_ID e, pbie_Name = is_Name e,
        pbie_Message = is_Message e\<rparr>) (rep_Errors r)\<rparr>)"

definition api_ImportConfig ::
  "(string \<Rightarrow> string) \<Rightarrow> (string \<Rightarrow> err + File) \<Rightarrow> 's cstore \<Rightarrow> string \<Rightarrow> int \<Rightarrow> bool \<Rightarrow> 's \<Rightarrow>
    ((connect_error + pb_ImportConfigResponse) \<times> 's) option" where
  "api_ImportConfig q dec B data mode dryRun s =
     map_option (\<lambda>(r, im).
       (case r of
          Inl e \<Rightarrow> Inl (if errors_is e (OtherE ErrInvalidInput) then \<lparr>ce_Code = CodeInvalidArgument, ce_Err = e\<rparr>
                        else toConnectError q e)
        | Inr _ \<Rightarrow> Inr (reportToProto (im_report im)), im_st im))
       (Import q dec B data \<lparr>opt_Mode = importModeFromProto mode, opt_DryRun = dryRun\<rparr> s)"

end
