(* ===== verification/ConfigApi.thy ===== *)
theory ConfigApi
  imports Services Health
begin

text \<open>
  What a client of the API can change of the monitored servers: the configuration, and nothing of what
  the probes have observed. \<open>run_config\<close> runs a sequence of the writing calls of \<open>Services\<close>; a document
  stems from an earlier one when it has its id and its observations.
\<close>

section \<open>The writing calls\<close>

datatype config_call =
    ApiCreateServer gotime string "pb_Server option"
  | ApiUpdateServer gotime string "pb_Server option"
  | ApiDeleteServer string
  | ApiCreateMonitor gotime string string "pb_Monitor option"
  | ApiUpdateMonitor gotime string string "pb_Monitor option"
  | ApiDeleteMonitor string string
  | ApiCreateMonitorGroup gotime string "pb_MonitorGroup option"
  | ApiUpdateMonitorGroup gotime string "pb_MonitorGroup option"
  | ApiDeleteMonitorGroup string
  | ApiCreateNotifyGroup gotime string "pb_NotifyGroup option"
  | ApiUpdateNotifyGroup gotime string "pb_NotifyGroup option"
  | ApiDeleteNotifyGroup string

fun run_config :: "(string \<Rightarrow> string) \<Rightarrow> 'c mongo \<Rightarrow> config_call \<Rightarrow> 'c db \<Rightarrow> 'c db" where
  "run_config q M (ApiCreateServer now uuid x) s = snd (api_CreateServer q M now uuid x s)"
| "run_config q M (ApiUpdateServer now i x) s = snd (api_UpdateServer q M now i x s)"
| "run_config q M (ApiDeleteServer i) s = snd (api_DeleteServer q M i s)"
| "run_config q M (ApiCreateMonitor now uuid sid m) s = snd (api_CreateMonitor q M now uuid sid m s)"
| "run_config q M (ApiUpdateMonitor now sid mid m) s = snd (api_UpdateMonitor q M now sid mid m s)"
| "run_config q M (ApiDeleteMonitor sid mid) s = snd (api_DeleteMonitor q M sid mid s)"
| "run_config q M (ApiCreateMonitorGroup now uuid g) s = snd (api_CreateMonitorGroup q M now uuid g s)"
| "run_config q M (ApiUpdateMonitorGroup now i g) s = snd (api_UpdateMonitorGroup q M now i g s)"
| "run_config q M (ApiDeleteMonitorGroup i) s = snd (api_DeleteMonitorGroup q M i s)"
| "run_config q M (ApiCreateNotifyGroup now uuid g) s = snd (api_CreateNotifyGroup q M now uuid g s)"
| "run_config q M (ApiUpdateNotifyGroup now i g) s = snd (api_UpdateNotifyGroup q M now i g s)"
| "run_config q M (ApiDeleteNotifyGroup i) s = snd (api_DeleteNotifyGroup q M i s)"

abbreviation run_configs :: "(string \<Rightarrow> string) \<Rightarrow> 'c mongo \<Rightarrow> config_call list \<Rightarrow> 'c db \<Rightarrow> 'c db" where
  "run_configs q M calls s \<equiv> fold (run_config q M) calls s"

section \<open>Where a document comes from\<close>

text \<open>Every document of \<open>B\<close> is new or stems from one of \<open>A\<close>.\<close>

definition stems :: "('d \<Rightarrow> 'd \<Rightarrow> bool) \<Rightarrow> ('d \<Rightarrow> bool) \<Rightarrow> 'd multiset \<Rightarrow> 'd multiset \<Rightarrow> bool" where
  "stems R fresh A B \<longleftrightarrow> (\<forall>x \<in># B. fresh x \<or> (\<exists>y \<in># A. R y x))"

lemma stems_subset: "stems R fresh A B \<Longrightarrow> B' \<subseteq># B \<Longrightarrow> stems R fresh A B'"
  by (auto simp: stems_def dest: mset_subset_eqD)

lemma stems_add: "stems R fresh A B \<Longrightarrow> fresh x \<or> (\<exists>y \<in># A. R y x) \<Longrightarrow> stems R fresh A (add_mset x B)"
  by (auto simp: stems_def)

text \<open>An update that keeps the relation to the document it replaces.\<close>

locale stemming =
  fixes R :: "'d \<Rightarrow> 'd \<Rightarrow> bool" and fresh :: "'d \<Rightarrow> bool"
  assumes stem_refl: "R x x"
    and stem_trans: "R x y \<Longrightarrow> R y z \<Longrightarrow> R x z"
    and stem_fresh: "fresh x \<Longrightarrow> R x y \<Longrightarrow> fresh y"

context stemming begin

lemma stems_refl: "stems R fresh A A"
  using stem_refl by (auto simp: stems_def)

lemma stems_step:
  assumes "stems R fresh A B" and "y \<in># B" and "R y x"
  shows "fresh x \<or> (\<exists>z \<in># A. R z x)"
proof (cases "fresh y")
  case True
  then show ?thesis using stem_fresh assms(3) by blast
next
  case False
  then obtain z where "z \<in># A" "R z y" using assms(1,2) by (auto simp: stems_def)
  then show ?thesis using stem_trans assms(3) by blast
qed

lemma stems_replaced:
  assumes "stems R fresh A B" and "replaced P f B B'" and "\<And>d. d \<in># B \<Longrightarrow> P d \<Longrightarrow> \<exists>y \<in># B. R y (f d)"
  shows "stems R fresh A B'"
proof -
  obtain d where d: "d \<in># B" "P d" "B' = add_mset (f d) (B - {#d#})" using assms(2) by (rule replacedE)
  obtain y where "y \<in># B" "R y (f d)" using assms(3) d by blast
  then have "fresh (f d) \<or> (\<exists>z \<in># A. R z (f d))" by (rule stems_step [OF assms(1)])
  with stems_subset [OF assms(1) diff_subset_eq_self] show ?thesis unfolding d(3) by (rule stems_add)
qed

lemma stems_many:
  assumes "stems R fresh A B" and "C \<subseteq># B" and "\<And>d. R d (f d)"
  shows "stems R fresh A (image_mset f C + (B - C))"
proof -
  have "fresh (f d) \<or> (\<exists>z \<in># A. R z (f d))" if "d \<in># C" for d
    using stems_step [OF assms(1) mset_subset_eqD [OF assms(2) that] assms(3)] .
  with assms(1) show ?thesis by (auto simp: stems_def dest: in_diffD)
qed

end

definition server_stem :: "Server \<Rightarrow> Server \<Rightarrow> bool" where
  "server_stem x y \<longleftrightarrow> srv_ID x = srv_ID y \<and> observed_of_server x = observed_of_server y"

definition unseen_server :: "Server \<Rightarrow> bool" where
  "unseen_server x \<longleftrightarrow> srv_HealthStatus x = StatusUnknown \<and> srv_LastCheckAt x = zero_time \<and>
     srv_LastStatusChangeAt x = srv_CreatedAt x"

definition monitor_stem :: "Monitor \<Rightarrow> Monitor \<Rightarrow> bool" where
  "monitor_stem x y \<longleftrightarrow> mon_ServerID x = mon_ServerID y \<and> mon_ID x = mon_ID y \<and> observed_of_monitor x = observed_of_monitor y"

definition unseen_monitor :: "Monitor \<Rightarrow> bool" where
  "unseen_monitor m \<longleftrightarrow> mon_Status m = StatusUnknown \<and> mon_LastCheckAt m = zero_time \<and> mon_Certificate m = None \<and>
     mon_LastStatusChangeAt m = mon_CreatedAt m"

interpretation server_stems: stemming server_stem unseen_server
  by unfold_locales (auto simp: server_stem_def unseen_server_def observed_of_server_def)

interpretation monitor_stems: stemming monitor_stem unseen_monitor
  by unfold_locales (auto simp: monitor_stem_def unseen_monitor_def observed_of_monitor_def)

section \<open>What a call keeps\<close>

locale config_store =
  srvs: mongo_collection "servers M" sdocs servers_clash sok +
  mons: mongo_collection "monitors M" mdocs monitors_clash mok
  for M :: "'c mongo" and sdocs :: "'c \<Rightarrow> Server multiset" and sok and mdocs :: "'c \<Rightarrow> Monitor multiset" and mok

context config_store begin

text \<open>\<open>t\<close> is a state that a client may reach from \<open>s\<close>.\<close>

definition kept :: "'c db \<Rightarrow> 'c db \<Rightarrow> bool" where
  "kept s t \<longleftrightarrow> sok (st_servers t) \<and> mok (st_monitors t) \<and> (\<forall>m \<in># mdocs (st_monitors t). monitor_wf m) \<and>
     stems server_stem unseen_server (sdocs (st_servers s)) (sdocs (st_servers t)) \<and>
     stems monitor_stem unseen_monitor (mdocs (st_monitors s)) (mdocs (st_monitors t))"

lemma kept_cong:
  "kept s t \<Longrightarrow> st_servers t' = st_servers t \<Longrightarrow> st_monitors t' = st_monitors t \<Longrightarrow> kept s t'"
  by (simp add: kept_def)

lemma kept_servers:
  assumes "f (st_servers t) = (r, c)" and "kept s t" and "sok c"
    and "stems server_stem unseen_server (sdocs (st_servers s)) (sdocs c)"
  shows "kept s (snd (on_servers f t))"
  using assms by (simp add: kept_def on_servers_def)

lemma kept_monitors:
  assumes "f (st_monitors t) = (r, c)" and "kept s t" and "mok c" and "\<forall>m \<in># mdocs c. monitor_wf m"
    and "stems monitor_stem unseen_monitor (mdocs (st_monitors s)) (mdocs c)"
  shows "kept s (snd (on_monitors f t))"
  using assms by (simp add: kept_def on_monitors_def)

lemma kept_elsewhere:
  assumes "kept s t"
  shows "kept s (snd (on_results f t))" "kept s (snd (on_events f t))" "kept s (snd (on_groups f t))"
    "kept s (snd (on_notifyGroups f t))" "kept s (snd (on_managedCertificates f t))"
    "kept s (snd (on_certificateAccessTokens f t))"
  using assms
  by (auto simp: kept_def on_results_def on_events_def on_groups_def on_notifyGroups_def on_managedCertificates_def
      on_certificateAccessTokens_def split: prod.splits)

text \<open>The calls of the driver, and early returns between them.\<close>

lemma kept_then:
  assumes "kept s (snd p)" and "\<And>a. fst p = Inr a \<Longrightarrow> kept s (snd (k a (snd p)))"
  shows "kept s (snd (and_then p k))"
  using assms by (cases p; cases "fst p") auto

lemma kept_last: "kept s (snd p) \<Longrightarrow> kept s (snd (and_then p (\<lambda>a t. (f a, t))))"
  by (auto intro: kept_then)

lemma kept_wrappers:
  "kept s (snd p) \<Longrightarrow> kept s (snd (matched_or e p))" "kept s (snd p') \<Longrightarrow> kept s (snd (name_taken e p'))"
  by (auto simp: matched_or_def name_taken_def and_then_def split: sum.splits prod.splits)

lemma kept_delete_server:
  assumes "kept s t" shows "kept s (snd (on_servers (DeleteOne (servers M) P) t))"
proof -
  obtain r c where d: "DeleteOne (servers M) P (st_servers t) = (r, c)" by fastforce
  have "sok (st_servers t)" using assms by (simp add: kept_def)
  moreover from this d have "sdocs c \<subseteq># sdocs (st_servers t)"
    by (rule srvs.delete_cases) (auto dest: removed_subset)
  ultimately show ?thesis
    using assms srvs.delete_ok [OF _ d] d by (intro kept_servers [where f = "DeleteOne (servers M) P", OF d]) (auto simp: kept_def intro: stems_subset)
qed

lemma kept_monitors_subset:
  assumes "f (st_monitors t) = (r, c)" and "kept s t" and "mok c" and "mdocs c \<subseteq># mdocs (st_monitors t)"
  shows "kept s (snd (on_monitors f t))"
  using assms(2-4)
  by (intro kept_monitors [where f = f, OF assms(1)]) (auto simp: kept_def intro: stems_subset dest: mset_subset_eqD)

lemma kept_delete_monitor:
  assumes "kept s t" shows "kept s (snd (on_monitors (DeleteOne (monitors M) P) t))"
proof -
  obtain r c where d: "DeleteOne (monitors M) P (st_monitors t) = (r, c)" by fastforce
  have ok: "mok (st_monitors t)" using assms by (simp add: kept_def)
  have "mdocs c \<subseteq># mdocs (st_monitors t)"
    using ok d by (rule mons.delete_cases) (auto dest: removed_subset)
  then show ?thesis using kept_monitors_subset [where f = "DeleteOne (monitors M) P", OF d assms] mons.delete_ok [OF ok d] by blast
qed

lemma kept_delete_monitors:
  assumes "kept s t" shows "kept s (snd (on_monitors (DeleteMany (monitors M) P) t))"
proof -
  obtain r c where d: "DeleteMany (monitors M) P (st_monitors t) = (r, c)" by fastforce
  have ok: "mok (st_monitors t)" using assms by (simp add: kept_def)
  have "mdocs c \<subseteq># mdocs (st_monitors t)"
    using ok d by (rule mons.delete_many_cases) simp
  then show ?thesis using kept_monitors_subset [where f = "DeleteMany (monitors M) P", OF d assms] mons.delete_many_ok [OF ok d] by blast
qed

lemma kept_insert_server:
  assumes "kept s t" and "unseen_server x" shows "kept s (snd (on_servers (InsertOne (servers M) x) t))"
proof -
  obtain r c where d: "InsertOne (servers M) x (st_servers t) = (r, c)" by fastforce
  have ok: "sok (st_servers t)" using assms by (simp add: kept_def)
  have "sdocs c = sdocs (st_servers t) \<or> sdocs c = add_mset x (sdocs (st_servers t))"
    using ok d by (rule srvs.insert_cases) auto
  then show ?thesis using srvs.insert_ok [OF ok d] assms
    by (intro kept_servers [where f = "InsertOne (servers M) x", OF d]) (auto simp: kept_def intro: stems_add)
qed

lemma kept_insert_monitor:
  assumes "kept s t" and "unseen_monitor x" and "monitor_wf x"
  shows "kept s (snd (on_monitors (InsertOne (monitors M) x) t))"
proof -
  obtain r c where d: "InsertOne (monitors M) x (st_monitors t) = (r, c)" by fastforce
  have ok: "mok (st_monitors t)" using assms by (simp add: kept_def)
  have "mdocs c = mdocs (st_monitors t) \<or> mdocs c = add_mset x (mdocs (st_monitors t))"
    using ok d by (rule mons.insert_cases) auto
  then show ?thesis using mons.insert_ok [OF ok d] assms
    by (intro kept_monitors [where f = "InsertOne (monitors M) x", OF d]) (auto simp: kept_def intro: stems_add)
qed

lemma kept_update_server:
  assumes "kept s t" and "y \<in># sdocs (st_servers t)" and "server_stem y x"
  shows "kept s (snd (on_servers (UpdateOne (servers M) P (\<lambda>_. x)) t))"
proof -
  obtain r c where d: "UpdateOne (servers M) P (\<lambda>_. x) (st_servers t) = (r, c)" by fastforce
  have ok: "sok (st_servers t)" and st: "stems server_stem unseen_server (sdocs (st_servers s)) (sdocs (st_servers t))"
    using assms by (simp_all add: kept_def)
  have "stems server_stem unseen_server (sdocs (st_servers s)) (sdocs c)"
    using ok d
  proof (rule srvs.update_cases)
    assume "replaced P (\<lambda>_. x) (sdocs (st_servers t)) (sdocs c)"
    with st show ?thesis by (rule server_stems.stems_replaced) (use assms in blast)
  qed (use st in simp)
  then show ?thesis using kept_servers [where f = "UpdateOne (servers M) P (\<lambda>_. x)", OF d assms(1)] srvs.update_ok [OF ok d] by blast
qed

lemma kept_update_monitor:
  assumes "kept s t" and "y \<in># mdocs (st_monitors t)" and "monitor_stem y x" and "monitor_wf x"
  shows "kept s (snd (on_monitors (UpdateOne (monitors M) P (\<lambda>_. x)) t))"
proof -
  obtain r c where d: "UpdateOne (monitors M) P (\<lambda>_. x) (st_monitors t) = (r, c)" by fastforce
  have ok: "mok (st_monitors t)" and wf: "\<forall>m \<in># mdocs (st_monitors t). monitor_wf m"
    and st: "stems monitor_stem unseen_monitor (mdocs (st_monitors s)) (mdocs (st_monitors t))"
    using assms by (simp_all add: kept_def)
  have "stems monitor_stem unseen_monitor (mdocs (st_monitors s)) (mdocs c)"
    using ok d
  proof (rule mons.update_cases)
    assume "replaced P (\<lambda>_. x) (mdocs (st_monitors t)) (mdocs c)"
    with st show ?thesis by (rule monitor_stems.stems_replaced) (use assms in blast)
  qed (use st in simp)
  moreover have "\<forall>m \<in># mdocs c. monitor_wf m" using mons.update_pred [OF ok d wf] assms(4) by blast
  ultimately show ?thesis using kept_monitors [where f = "UpdateOne (monitors M) P (\<lambda>_. x)", OF d assms(1)] mons.update_ok [OF ok d] by blast
qed

lemma kept_update_monitors:
  assumes "kept s t" and "\<And>m. monitor_stem m (f m)" and "\<And>m. monitor_wf m \<Longrightarrow> monitor_wf (f m)"
  shows "kept s (snd (on_monitors (UpdateMany (monitors M) P f) t))"
proof -
  obtain r c where d: "UpdateMany (monitors M) P f (st_monitors t) = (r, c)" by fastforce
  have ok: "mok (st_monitors t)" and wf: "\<forall>m \<in># mdocs (st_monitors t). monitor_wf m"
    and st: "stems monitor_stem unseen_monitor (mdocs (st_monitors s)) (mdocs (st_monitors t))"
    using assms by (simp_all add: kept_def)
  have "stems monitor_stem unseen_monitor (mdocs (st_monitors s)) (mdocs c)"
    using ok d
  proof (rule mons.many_cases)
    fix A assume A: "A \<subseteq># filter_mset P (mdocs (st_monitors t))" "mdocs c = image_mset f A + (mdocs (st_monitors t) - A)"
    have "A \<subseteq># mdocs (st_monitors t)" by (rule subset_mset.order_trans [OF A(1) multiset_filter_subset])
    with st A(2) show ?thesis using monitor_stems.stems_many assms(2) by simp
  qed
  moreover have "\<forall>m \<in># mdocs c. monitor_wf m" using mons.many_pred [OF ok d wf] assms(3) by blast
  ultimately show ?thesis using kept_monitors [where f = "UpdateMany (monitors M) P f", OF d assms(1)] mons.many_ok [OF ok d] by blast
qed

lemmas kept_writes = kept_last kept_then kept_wrappers kept_delete_server kept_delete_monitor kept_delete_monitors
  kept_elsewhere

lemma kept_refl:
  "sok (st_servers s) \<Longrightarrow> mok (st_monitors s) \<Longrightarrow> \<forall>m \<in># mdocs (st_monitors s). monitor_wf m \<Longrightarrow> kept s s"
  by (simp add: kept_def server_stems.stems_refl monitor_stems.stems_refl)

lemma kept_server_calls:
  assumes "kept s t"
  shows "kept s (snd (api_CreateServer q M now uuid x t))" "kept s (snd (api_UpdateServer q M now i x t))"
    "kept s (snd (api_DeleteServer q M i t))"
proof -
  let ?x = "(serverFromProto x)\<lparr>srv_ID := valueOr (srv_ID (serverFromProto x)) (''srv_'' @ uuid),
    srv_HealthStatus := valueOr (srv_HealthStatus (serverFromProto x)) StatusUnknown,
    srv_CreatedAt := now, srv_UpdatedAt := now, srv_LastStatusChangeAt := now\<rparr>"
  have "unseen_server ?x" by (cases x) (simp_all add: unseen_server_def serverFromProto_def zero_server_def)
  from kept_insert_server [OF assms this]
  show "kept s (snd (api_CreateServer q M now uuid x t))"
    by (simp add: api_CreateServer_def CreateServer_def Let_def kept_then)
  have "srv_HealthStatus (serverFromProto x) = []"
    by (cases x) (simp_all add: serverFromProto_def zero_server_def)
  moreover have "d \<in># sdocs (st_servers t) \<and> srv_ID d = i" if "GetServer M i t = Inr d" for d
    using that srvs.find_one [of "st_servers t" "\<lambda>x. srv_ID x = i" d] assms by (simp add: GetServer_def kept_def)
  ultimately show "kept s (snd (api_UpdateServer q M now i x t))"
    using assms unfolding api_UpdateServer_def UpdateServer_def snd_answer_write Let_def
    by (intro kept_last kept_then kept_wrappers kept_update_server)
      (auto simp: server_stem_def observed_of_server_def)
  show "kept s (snd (api_DeleteServer q M i t))"
    using assms unfolding api_DeleteServer_def DeleteServer_def snd_answer_write
      DeleteCertificateAccessTokensByServer_def RemoveServerFromManagedCertificates_def
    by (intro kept_writes) auto
qed

lemma from_client:
  "mon_Status (monitorFromProto m) = []" "mon_LastCheckAt (monitorFromProto m) = zero_time"
  "mon_Certificate (monitorFromProto m) = None"
  by (cases m; simp add: monitorFromProto_def zero_monitor_def)+

lemma defaults_observed:
  "mon_CreatedAt (applyMonitorDefaults m) = mon_CreatedAt m" "mon_Status (applyMonitorDefaults m) = valueOr (mon_Status m) StatusUnknown"
  "mon_LastStatusChangeAt (applyMonitorDefaults m) = mon_LastStatusChangeAt m"
  by (simp_all add: applyMonitorDefaults_def Let_def)

lemma kept_monitor_calls:
  assumes "kept s t"
  shows "kept s (snd (api_CreateMonitor q M now uuid sid m t))" "kept s (snd (api_UpdateMonitor q M now sid mid m t))"
    "kept s (snd (api_DeleteMonitor q M sid mid t))"
proof -
  let ?m = "(applyMonitorDefaults ((monitorFromProto m)\<lparr>mon_ID := valueOr (mon_ID (monitorFromProto m)) (''mon_'' @ uuid),
      mon_ServerID := sid\<rparr>))\<lparr>mon_CreatedAt := now, mon_UpdatedAt := now, mon_LastStatusChangeAt := now\<rparr>"
  have "monitor_wf ?m"
    using defaults_wf [of "(monitorFromProto m)\<lparr>mon_ID := valueOr (mon_ID (monitorFromProto m)) (''mon_'' @ uuid), mon_ServerID := sid\<rparr>"]
    by (simp add: monitor_wf_def)
  moreover have "unseen_monitor ?m" by (simp add: unseen_monitor_def defaults_observed defaults_identity from_client)
  ultimately have "kept s (snd (on_monitors (InsertOne (monitors M) ?m) t))" using kept_insert_monitor [OF assms] by blast
  with assms show "kept s (snd (api_CreateMonitor q M now uuid sid m t))"
    by (simp add: api_CreateMonitor_def CreateMonitor_def Let_def kept_then)
  have found: "d \<in># mdocs (st_monitors t) \<and> mon_ServerID d = sid \<and> mon_ID d = mid \<and> mon_Status d \<noteq> []"
    if "GetMonitor M sid mid t = Inr d" for d
    using that mons.find_one [of "st_monitors t" "the_monitor sid mid" d] assms
    by (simp add: GetMonitor_def kept_def the_monitor_def monitor_wf_def)
  show "kept s (snd (api_UpdateMonitor q M now sid mid m t))"
    using assms unfolding api_UpdateMonitor_def UpdateMonitor_def snd_answer_write Let_def
    by (intro kept_last kept_then kept_wrappers kept_update_monitor)
      (auto dest!: found simp: monitor_stem_def observed_of_monitor_def defaults_wf defaults_identity defaults_observed
        from_client)
  show "kept s (snd (api_DeleteMonitor q M sid mid t))"
    using assms unfolding api_DeleteMonitor_def DeleteMonitor_def snd_answer_write by (intro kept_writes) auto
qed

lemma kept_group_calls:
  assumes "kept s t"
  shows "kept s (snd (api_CreateMonitorGroup q M now uuid g t))" "kept s (snd (api_UpdateMonitorGroup q M now i g t))"
    "kept s (snd (api_DeleteMonitorGroup q M i t))"
    "kept s (snd (api_CreateNotifyGroup q M now uuid n t))" "kept s (snd (api_UpdateNotifyGroup q M now i n t))"
    "kept s (snd (api_DeleteNotifyGroup q M i t))"
proof -
  have 1: "kept s (snd (CreateMonitorGroup M now uuid g' t))" "kept s (snd (UpdateMonitorGroup M now i g' t))"
    "kept s (snd (CreateNotifyGroup M now uuid n' t))" "kept s (snd (UpdateNotifyGroup M now i n' t))" for g' n'
    using assms unfolding CreateMonitorGroup_def UpdateMonitorGroup_def CreateNotifyGroup_def UpdateNotifyGroup_def Let_def
    by (intro kept_writes; simp)+
  then show "kept s (snd (api_CreateMonitorGroup q M now uuid g t))" "kept s (snd (api_UpdateMonitorGroup q M now i g t))"
    "kept s (snd (api_CreateNotifyGroup q M now uuid n t))" "kept s (snd (api_UpdateNotifyGroup q M now i n t))"
    using assms
    by (auto simp: api_CreateMonitorGroup_def api_UpdateMonitorGroup_def api_CreateNotifyGroup_def
        api_UpdateNotifyGroup_def Let_def)
  show "kept s (snd (api_DeleteMonitorGroup q M i t))"
    using assms unfolding api_DeleteMonitorGroup_def DeleteMonitorGroup_def snd_answer_write
    by (intro kept_last kept_then kept_wrappers kept_elsewhere kept_update_monitors)
      (auto simp: monitor_stem_def observed_of_monitor_def monitor_wf_def)
  show "kept s (snd (api_DeleteNotifyGroup q M i t))"
    using assms unfolding api_DeleteNotifyGroup_def DeleteNotifyGroup_def snd_answer_write by (intro kept_writes) auto
qed

lemma kept_run: "kept s t \<Longrightarrow> kept s (run_config q M call t)"
  by (cases call) (simp_all add: kept_server_calls kept_monitor_calls kept_group_calls)

lemma kept_runs: "kept s t \<Longrightarrow> kept s (run_configs q M calls t)"
  by (induction calls arbitrary: t) (auto intro: kept_run)

end

interpretation mem_config_store: config_store mem_mongo "mem_docs un_DServer" "mem_ok servers_clash un_DServer"
  "mem_docs un_DMonitor" "mem_ok monitors_clash un_DMonitor"
  by unfold_locales

section \<open>Properties\<close>

text \<open>
  C34: a client cannot forge what is observed: whatever configuration calls it makes, and whatever their
  messages claim, every server and every monitor in the store has either the observations (status, times,
  certificate) of the document with its id that was there before, or those of a new document that has
  not been checked yet.
\<close>

theorem api_cannot_forge_observations:
  assumes "config_store M sdocs sok mdocs mok" and "sok (st_servers s)" and "mok (st_monitors s)"
    and "\<forall>m \<in># mdocs (st_monitors s). monitor_wf m"
  shows "(\<forall>x \<in># sdocs (st_servers (run_configs q M calls s)).
      (srv_HealthStatus x = StatusUnknown \<and> srv_LastCheckAt x = zero_time) \<or>
      (\<exists>y \<in># sdocs (st_servers s). srv_ID y = srv_ID x \<and> srv_HealthStatus y = srv_HealthStatus x \<and>
         srv_LastCheckAt y = srv_LastCheckAt x \<and> srv_LastStatusChangeAt y = srv_LastStatusChangeAt x)) \<and>
    (\<forall>m \<in># mdocs (st_monitors (run_configs q M calls s)).
      (mon_Status m = StatusUnknown \<and> mon_LastCheckAt m = zero_time \<and> mon_Certificate m = None) \<or>
      (\<exists>n \<in># mdocs (st_monitors s). mon_ServerID n = mon_ServerID m \<and> mon_ID n = mon_ID m \<and>
         mon_Status n = mon_Status m \<and> mon_LastCheckAt n = mon_LastCheckAt m \<and>
         mon_LastStatusChangeAt n = mon_LastStatusChangeAt m \<and> mon_Certificate n = mon_Certificate m))"
proof -
  have "config_store.kept sdocs sok mdocs mok s (run_configs q M calls s)"
    using config_store.kept_runs [OF assms(1) config_store.kept_refl [OF assms(1)]] assms(2-4) by blast
  then show ?thesis
    unfolding config_store.kept_def [OF assms(1)] stems_def unseen_server_def unseen_monitor_def server_stem_def monitor_stem_def
      observed_of_server_def observed_of_monitor_def
    by (intro conjI ballI) (fastforce)+
qed

definition sample_config_db :: "doc list db" where
  "sample_config_db = empty_db\<lparr>st_servers := [DServer sample_srv], st_monitors := [DMonitor (sample_mon ''mon_1'' StatusDown)]\<rparr>"

text \<open>A client claims that its monitor is healthy.\<close>

definition forged :: "pb_Monitor" where
  "forged = (monitorToProto (sample_mon ''mon_1'' StatusHealthy))\<lparr>pbmon_Name := ''mine''\<rparr>"

lemma sample_config_ok:
  "mem_ok servers_clash un_DServer (st_servers sample_config_db)" "mem_ok monitors_clash un_DMonitor (st_monitors sample_config_db)"
  "\<forall>m \<in># mem_docs un_DMonitor (st_monitors sample_config_db). monitor_wf m"
  by (simp_all add: sample_config_db_def empty_db_def sample_srv_def sample_mon_def monitor_wf_def isURLKind_def isTLSPortKind_def)

theorem api_cannot_forge_observations_witness:
  "\<exists>m. mem_docs un_DMonitor (st_monitors (run_configs (\<lambda>x. x) mem_mongo
      [ApiUpdateMonitor 5 ''srv_1'' ''mon_1'' (Some forged)] sample_config_db)) = {#m#} \<and>
    mon_Name m = ''mine'' \<and> mon_Status m \<noteq> StatusHealthy"
proof -
  let ?s = "run_configs (\<lambda>x. x) mem_mongo [ApiUpdateMonitor 5 ''srv_1'' ''mon_1'' (Some forged)] sample_config_db"
  have "\<exists>m. mem_docs un_DMonitor (st_monitors ?s) = {#m#} \<and> mon_Name m = ''mine''"
    by (simp add: api_UpdateMonitor_def answer_write_def UpdateMonitor_def GetMonitor_def sample_config_db_def empty_db_def
        sample_mon_def the_monitor_def forged_def monitorFromProto_def monitorToProto_def mem_coll_def validateGroupIDs_def
        validate_ids_def applyMonitorDefaults_def isURLKind_def isTLSPortKind_def on_monitors_def matched_or_def
        extract_Cons_code update_first_def monitors_clash_def Let_def)
  then obtain m where m: "mem_docs un_DMonitor (st_monitors ?s) = {#m#}" "mon_Name m = ''mine''" by blast
  have "mon_Status m \<noteq> StatusHealthy"
    using api_cannot_forge_observations [OF mem_config_store.config_store_axioms sample_config_ok,
        of "\<lambda>x. x" "[ApiUpdateMonitor 5 ''srv_1'' ''mon_1'' (Some forged)]"] m(1)
    by (auto simp: sample_config_db_def empty_db_def sample_mon_def)
  with m show ?thesis by blast
qed

text \<open>The document that an update replaces is the one that was read.\<close>

context config_store begin

lemma monitor_found:
  assumes "mok (st_monitors s)" and "GetMonitor M sid mid s = Inr m" and "replaced (the_monitor sid mid) f (mdocs (st_monitors s)) B"
  shows "m \<in># mdocs (st_monitors s) \<and> mon_ServerID m = sid \<and> mon_ID m = mid \<and> B = add_mset (f m) (mdocs (st_monitors s) - {#m#})"
proof -
  have m: "m \<in># mdocs (st_monitors s)" "the_monitor sid mid m"
    using mons.find_one [OF assms(1), of "the_monitor sid mid" m] assms(2) by (simp_all add: GetMonitor_def)
  obtain d where d: "d \<in># mdocs (st_monitors s)" "the_monitor sid mid d" "B = add_mset (f d) (mdocs (st_monitors s) - {#d#})"
    using assms(3) by (rule replacedE)
  have "d = m"
    by (rule mons.unique_match [OF assms(1) d(1) m(1)]) (use m(2) d(2) in \<open>simp add: the_monitor_def monitors_clash_def\<close>)
  with m d show ?thesis by (simp add: the_monitor_def)
qed

lemma read_modify_write:
  assumes "mok (st_monitors s)" and "\<forall>m \<in># mdocs (st_monitors s). monitor_wf m"
    and "api_GetMonitor q M sid mid s = Inr p" and "api_UpdateMonitor q M now sid mid (Some p) s = (Inr p', s')"
  shows "\<exists>m. m \<in># mdocs (st_monitors s) \<and> p = monitorToProto m \<and> p' = monitorToProto (m\<lparr>mon_UpdatedAt := now\<rparr>) \<and>
    s' = s\<lparr>st_monitors := st_monitors s'\<rparr> \<and>
    mdocs (st_monitors s') = add_mset (m\<lparr>mon_UpdatedAt := now\<rparr>) (mdocs (st_monitors s) - {#m#})"
proof -
  obtain m where m: "GetMonitor M sid mid s = Inr m" "p = monitorToProto m"
    using assms(3) by (auto simp: api_GetMonitor_def answer_Inr)
  have in_: "m \<in># mdocs (st_monitors s)" "mon_ServerID m = sid" "mon_ID m = mid"
    using mons.find_one [OF assms(1), of "the_monitor sid mid" m] m(1) by (simp_all add: GetMonitor_def the_monitor_def)
  have wf: "monitor_wf m" using assms(2) in_ by blast
  then have wf': "monitor_wf (m\<lparr>mon_UpdatedAt := now\<rparr>)" by (simp add: monitor_wf_def)
  have self: "m\<lparr>mon_ID := mon_ID m, mon_ServerID := mon_ServerID m, mon_UpdatedAt := now\<rparr> = m\<lparr>mon_UpdatedAt := now\<rparr>" by simp
  have same: "applyMonitorDefaults ((monitorFromProto (Some p))\<lparr>mon_ID := mid, mon_ServerID := sid,
      mon_CreatedAt := mon_CreatedAt m, mon_Status := valueOr (mon_Status (monitorFromProto (Some p))) (mon_Status m),
      mon_LastCheckAt := mon_LastCheckAt m, mon_LastStatusChangeAt := mon_LastStatusChangeAt m,
      mon_Certificate := mon_Certificate m, mon_UpdatedAt := now\<rparr>) = m\<lparr>mon_UpdatedAt := now\<rparr>"
    using wf defaults_keep [OF wf'] self unfolding m(2) monitor_settings_roundtrip in_(2,3) [symmetric]
    by (simp add: monitor_wf_def)
  from assms(4) m(1) obtain n c where
    u: "UpdateOne (monitors M) (the_monitor sid mid) (\<lambda>_. m\<lparr>mon_UpdatedAt := now\<rparr>) (st_monitors s) = (Inr n, c)" "n \<noteq> 0"
    and s': "s' = s\<lparr>st_monitors := c\<rparr>" and p': "p' = monitorToProto (m\<lparr>mon_UpdatedAt := now\<rparr>)"
    unfolding api_UpdateMonitor_def answer_write_Inr UpdateMonitor_def Let_def and_then_eq_iff matched_or_eq_iff on_monitors_eq_iff
    by (auto simp: same)
  have "replaced (the_monitor sid mid) (\<lambda>_. m\<lparr>mon_UpdatedAt := now\<rparr>) (mdocs (st_monitors s)) (mdocs c)"
    using mons.update_done [OF assms(1) u(1)] u(2) by simp
  from monitor_found [OF assms(1) m(1) this] m(2) p' s' show ?thesis by auto
qed

end

text \<open>
  C35: reading a monitor through the API and writing back what was read changes nothing but the time of
  the update: the conversions to the message and back, the defaults and the fields the store keeps fit
  together, and every other document stays.
\<close>

theorem api_read_modify_write:
  assumes "config_store M sdocs sok mdocs mok" and "mok (st_monitors s)" and "\<forall>m \<in># mdocs (st_monitors s). monitor_wf m"
    and "api_GetMonitor q M sid mid s = Inr p" and "api_UpdateMonitor q M now sid mid (Some p) s = (Inr p', s')"
  shows "p' = p\<lparr>pbmon_UpdatedAt := timeToTS now\<rparr> \<and>
    (\<exists>m. m \<in># mdocs (st_monitors s) \<and> monitorToProto m = p \<and>
       mdocs (st_monitors s') = add_mset (m\<lparr>mon_UpdatedAt := now\<rparr>) (mdocs (st_monitors s) - {#m#}) \<and>
       s' = s\<lparr>st_monitors := st_monitors s'\<rparr>)"
  using config_store.read_modify_write [OF assms] by (auto simp: monitorToProto_def)

theorem api_read_modify_write_witness:
  "\<exists>p p' s'. api_GetMonitor (\<lambda>x. x) mem_mongo ''srv_1'' ''mon_1'' sample_config_db = Inr p \<and>
     api_UpdateMonitor (\<lambda>x. x) mem_mongo 5 ''srv_1'' ''mon_1'' (Some p) sample_config_db = (Inr p', s') \<and>
     p' = p\<lparr>pbmon_UpdatedAt := timeToTS 5\<rparr>"
proof -
  let ?p = "monitorToProto (sample_mon ''mon_1'' StatusDown)"
  have p: "api_GetMonitor (\<lambda>x. x) mem_mongo ''srv_1'' ''mon_1'' sample_config_db = Inr ?p"
    by (simp add: api_GetMonitor_def answer_def GetMonitor_def sample_config_db_def empty_db_def sample_mon_def
        the_monitor_def mem_coll_def)
  have "\<exists>p' s'. api_UpdateMonitor (\<lambda>x. x) mem_mongo 5 ''srv_1'' ''mon_1'' (Some ?p) sample_config_db = (Inr p', s')"
    by (simp add: api_UpdateMonitor_def answer_write_def answer_def UpdateMonitor_def GetMonitor_def sample_config_db_def
        empty_db_def sample_mon_def the_monitor_def monitorFromProto_def monitorToProto_def mem_coll_def
        validateGroupIDs_def validate_ids_def applyMonitorDefaults_def isURLKind_def isTLSPortKind_def on_monitors_def
        matched_or_def extract_Cons_code update_first_def monitors_clash_def Let_def)
  then obtain p' s' where u: "api_UpdateMonitor (\<lambda>x. x) mem_mongo 5 ''srv_1'' ''mon_1'' (Some ?p) sample_config_db = (Inr p', s')"
    by blast
  from api_read_modify_write [OF mem_config_store.config_store_axioms sample_config_ok(2,3) p u]
  have "p' = ?p\<lparr>pbmon_UpdatedAt := timeToTS 5\<rparr>" by blast
  with p u show ?thesis by blast
qed

end
