(* ===== verification/StatusApi.thy ===== *)
theory StatusApi
  imports Wire Access RateLimit
begin

text \<open>
  The public status page of the API, internal/connectapi/status_service.go: the overview of
  \<open>StatusView\<close> as a message, kept in the cache of \<open>Redis\<close> for ten seconds. The cache is best effort: its
  errors only cause the page to be built again. \<open>marshal\<close> and \<open>unmarshal\<close> are the protobuf encoding of
  the response. A visit reads the cache at \<open>now\<close>, builds the page at \<open>mid\<close> and stores it at \<open>later\<close>.
\<close>

section \<open>The handler\<close>

definition statusOverviewCacheKey :: string where
  "statusOverviewCacheKey = ''status:overview:grpc''"

definition statusOverviewCacheTTL :: duration where
  "statusOverviewCacheTTL = 10 * Second"

record 'f overview_codec =
  oc_Marshal :: "'f pb_StatusGroup list \<Rightarrow> err + string"
  oc_Unmarshal :: "string \<Rightarrow> err + 'f pb_StatusGroup list"

record 'f arithmetic =
  ar_div :: "int \<Rightarrow> int \<Rightarrow> 'f"
  ar_zero :: 'f
  ar_first_error :: "err list \<Rightarrow> err"

definition rebuildOverview ::
  "(string \<Rightarrow> string) \<Rightarrow> 'f arithmetic \<Rightarrow> 'f overview_codec \<Rightarrow> 'c mongo \<Rightarrow> 'r redis \<Rightarrow> gotime \<Rightarrow> gotime \<Rightarrow> 'c db \<Rightarrow> 'r \<Rightarrow>
    (connect_error + 'f pb_StatusGroup list) \<times> 'r" where
  "rebuildOverview q F K M R mid later s r =
     (case Build (ar_first_error F) (ar_div F) (ar_zero F) M mid s of
        Inl e \<Rightarrow> (Inl (toConnectError q e), r)
      | Inr overview \<Rightarrow>
          let out = statusOverviewToProto overview in
          (Inr out, case oc_Marshal K out of
                      Inl _ \<Rightarrow> r
                    | Inr payload \<Rightarrow> snd (CacheSet R later statusOverviewCacheKey payload statusOverviewCacheTTL r)))"

definition GetStatusOverview ::
  "(string \<Rightarrow> string) \<Rightarrow> 'f arithmetic \<Rightarrow> 'f overview_codec \<Rightarrow> 'c mongo \<Rightarrow> 'r redis \<Rightarrow> gotime \<Rightarrow> gotime \<Rightarrow> gotime \<Rightarrow>
    'c db \<Rightarrow> 'r \<Rightarrow> (connect_error + 'f pb_StatusGroup list) \<times> 'r" where
  "GetStatusOverview q F K M R now mid later s r =
     (case CacheGet R now statusOverviewCacheKey r of
        Inr (Some cached) \<Rightarrow>
          (case oc_Unmarshal K cached of
             Inr out \<Rightarrow> (Inr out, r)
           | Inl _ \<Rightarrow> rebuildOverview q F K M R mid later s r)
      | _ \<Rightarrow> rebuildOverview q F K M R mid later s r)"

section \<open>Visits and what happens between them\<close>

text \<open>The database may become anything; Redis serves the other calls of the store.\<close>

datatype 'c page_event = Visit gotime gotime gotime | Other redis_call | Becomes "'c db"

definition db_after :: "'c page_event list \<Rightarrow> 'c db \<Rightarrow> 'c db" where
  "db_after es s = fold (\<lambda>e s. case e of Becomes s' \<Rightarrow> s' | _ \<Rightarrow> s) es s"

record session_codec =
  se_Marshal :: "Session \<Rightarrow> string"
  se_Unmarshal :: "string \<Rightarrow> err + Session"

fun page_step ::
  "(string \<Rightarrow> string) \<Rightarrow> 'f arithmetic \<Rightarrow> 'f overview_codec \<Rightarrow> session_codec \<Rightarrow> 'c mongo \<Rightarrow> 'r redis \<Rightarrow> 'c page_event \<Rightarrow>
    'r \<times> 'c db \<Rightarrow> 'r \<times> 'c db" where
  "page_step q F K S M R (Visit now mid later) (r, s) = (snd (GetStatusOverview q F K M R now mid later s r), s)"
| "page_step q F K S M R (Other c) (r, s) = (run_redis_call (se_Marshal S) (se_Unmarshal S) R c r, s)"
| "page_step q F K S M R (Becomes s') (r, s) = (r, s')"

abbreviation page_events ::
  "(string \<Rightarrow> string) \<Rightarrow> 'f arithmetic \<Rightarrow> 'f overview_codec \<Rightarrow> session_codec \<Rightarrow> 'c mongo \<Rightarrow> 'r redis \<Rightarrow> 'c page_event list \<Rightarrow>
    'r \<times> 'c db \<Rightarrow> 'r \<times> 'c db" where
  "page_events q F K S M R es w \<equiv> fold (page_step q F K S M R) es w"

text \<open>The page is the only entry of the cache.\<close>

definition leaves_page :: "redis_call \<Rightarrow> bool" where
  "leaves_page c \<longleftrightarrow> (case c of CallCacheSet at key data ttl \<Rightarrow> key \<noteq> statusOverviewCacheKey | _ \<Rightarrow> True)"

definition uncached :: "'c page_event list \<Rightarrow> bool" where
  "uncached es \<longleftrightarrow> (\<forall>c. Other c \<in> set es \<longrightarrow> leaves_page c)"

text \<open>\<open>out\<close> was built at a visit of \<open>es\<close>, from the database of that visit, and stored at \<open>later\<close>.\<close>

definition built_at ::
  "'f arithmetic \<Rightarrow> 'c mongo \<Rightarrow> 'c db \<Rightarrow> 'c page_event list \<Rightarrow> gotime \<Rightarrow> 'c page_event list \<Rightarrow> 'f pb_StatusGroup list \<Rightarrow> bool" where
  "built_at F M s es later post out \<longleftrightarrow>
     (\<exists>pre now mid overview. es = pre @ Visit now mid later # post \<and>
        Build (ar_first_error F) (ar_div F) (ar_zero F) M mid (db_after pre s) = Inr overview \<and>
        out = statusOverviewToProto overview)"

lemma built_at_snoc: "built_at F M s es later post out \<Longrightarrow> built_at F M s (es @ [e]) later (post @ [e]) out"
  by (auto simp: built_at_def)

lemma snd_page_events: "snd (page_events q F K S M R es (r, s)) = db_after es s"
proof (induction es rule: rev_induct)
  case (snoc e es)
  obtain r1 where "page_events q F K S M R es (r, s) = (r1, db_after es s)"
    using snoc by (metis prod.collapse)
  then show ?case by (cases e) (simp_all add: db_after_def)
qed (simp add: db_after_def)

section \<open>What the cache holds\<close>

abbreviation "page_key \<equiv> cacheKeyPrefix @ statusOverviewCacheKey"

lemma page_key_disjoint:
  "page_key \<noteq> sessionKey t" "page_key \<noteq> certDistributionRateLimitPrefix @ k" "page_key = cacheKeyPrefix @ k \<longleftrightarrow> k = statusOverviewCacheKey"
  by (auto simp: sessionKey_def sessionKeyPrefix_def certDistributionRateLimitPrefix_def cacheKeyPrefix_def)

context redis_server begin

lemma other_calls_leave_page:
  assumes "leaves_page c"
  shows "entry_of (run_redis_call m u R c r) page_key = entry_of r page_key"
proof (cases c)
  case (CallCreateSession now at t user)
  then show ?thesis using other_key(1) [where j = page_key] page_key_disjoint(1)
    by (cases t) (auto simp: CreateSession_def Let_def split: prod.split option.split)
next
  case (CallGetSession now at t)
  then show ?thesis using other_key(2) [where j = page_key] page_key_disjoint(1)
    by (auto simp: GetSession_def split: prod.split option.split sum.split)
next
  case (CallDeleteSession at t)
  then show ?thesis using other_key(2) [where j = page_key, OF prod.collapse [symmetric]] page_key_disjoint(1)
    by (simp add: DeleteSession_def)
next
  case (CallRateLimit now later key limit window)
  then show ?thesis using rate_limit_other_key [of page_key] page_key_disjoint(2) by simp
next
  case (CallCacheSet at key data ttl)
  then show ?thesis using assms other_key(1) [where j = page_key, OF prod.collapse [symmetric]] page_key_disjoint(3)
    by (simp add: CacheSet_def leaves_page_def)
qed simp

text \<open>The entry of the page, if any, encodes a page that was built at an earlier visit.\<close>

definition cache_sound ::
  "'f arithmetic \<Rightarrow> 'f overview_codec \<Rightarrow> 'c mongo \<Rightarrow> 'c db \<Rightarrow> 'c page_event list \<Rightarrow> 'r \<Rightarrow> bool" where
  "cache_sound F K M s es r \<longleftrightarrow>
     (\<forall>v exp. entry_of r page_key = Some (v, exp) \<longrightarrow>
        (\<exists>out later post. oc_Marshal K out = Inr v \<and> exp = Some (later + statusOverviewCacheTTL) \<and>
           built_at F M s es later post out))"

lemma cache_sound_same:
  "cache_sound F K M s es r \<Longrightarrow> entry_of r' page_key = entry_of r page_key \<Longrightarrow> cache_sound F K M s (es @ [e]) r'"
  unfolding cache_sound_def by (metis built_at_snoc)

lemma rebuild_sound:
  assumes "cache_sound F K M s es r"
  shows "cache_sound F K M s (es @ [Visit now mid later]) (snd (rebuildOverview q F K M R mid later (db_after es s) r))"
proof (cases "Build (ar_first_error F) (ar_div F) (ar_zero F) M mid (db_after es s)")
  case (Inr overview)
  let ?out = "statusOverviewToProto overview"
  show ?thesis
  proof (cases "oc_Marshal K ?out")
    case (Inr payload)
    obtain err r' where set: "RSet R later page_key payload statusOverviewCacheTTL r = (err, r')" by fastforce
    have r': "snd (rebuildOverview q F K M R mid later (db_after es s) r) = r'"
      using \<open>Build _ _ _ _ _ _ = _\<close> Inr set by (simp add: rebuildOverview_def CacheSet_def)
    have now_: "built_at F M s (es @ [Visit now mid later]) later [] ?out"
      using \<open>Build _ _ _ _ _ _ = _\<close> by (auto simp: built_at_def)
    from set have "cache_sound F K M s (es @ [Visit now mid later]) r'"
    proof (cases rule: set_cases)
      case none
      then show ?thesis using cache_sound_same [OF assms] by (simp add: unchanged_def)
    next
      case done_
      then show ?thesis using Inr now_ by (auto simp: writes_def cache_sound_def)
    qed
    then show ?thesis unfolding r' .
  qed (use Inr cache_sound_same [OF assms] in \<open>simp add: rebuildOverview_def\<close>)
qed (use cache_sound_same [OF assms] in \<open>simp add: rebuildOverview_def\<close>)

lemma visit_sound:
  assumes "cache_sound F K M s es r"
  shows "cache_sound F K M s (es @ [Visit now mid later]) (snd (GetStatusOverview q F K M R now mid later (db_after es s) r))"
  using rebuild_sound [OF assms] cache_sound_same [OF assms]
  by (auto simp: GetStatusOverview_def split: sum.split option.split)

lemma events_sound:
  assumes "entry_of r page_key = None" and "uncached es"
  shows "cache_sound F K M s es (fst (page_events q F K S M R es (r, s)))"
  using assms(2)
proof (induction es rule: rev_induct)
  case Nil
  then show ?case using assms(1) by (simp add: cache_sound_def)
next
  case (snoc e es)
  obtain r1 where w: "page_events q F K S M R es (r, s) = (r1, db_after es s)"
    using snd_page_events by (metis prod.collapse)
  have "uncached es" using snoc.prems by (simp add: uncached_def)
  then have sound: "cache_sound F K M s es r1" using snoc.IH w by simp
  show ?case
  proof (cases e)
    case (Visit now mid later)
    with visit_sound [OF sound] w show ?thesis by simp
  next
    case (Other c)
    with snoc.prems have "leaves_page c" by (auto simp: uncached_def)
    with cache_sound_same [OF sound other_calls_leave_page] Other w show ?thesis by simp
  next
    case (Becomes s')
    with cache_sound_same [OF sound refl] w show ?thesis by simp
  qed
qed

lemma answer_built:
  assumes "\<And>x d. oc_Marshal K x = Inr d \<Longrightarrow> oc_Unmarshal K d = Inr x"
    and "cache_sound F K M s es r" and "fst (GetStatusOverview q F K M R now mid later (db_after es s) r) = Inr out"
  shows "\<exists>later0 post. built_at F M s (es @ [Visit now mid later]) later0 post out \<and>
    (post = [] \<or> now < later0 + statusOverviewCacheTTL)"
proof -
  have rebuilt: "\<exists>later0 post. built_at F M s (es @ [Visit now mid later]) later0 post out \<and>
      (post = [] \<or> now < later0 + statusOverviewCacheTTL)"
    if "fst (rebuildOverview q F K M R mid later (db_after es s) r) = Inr out"
    using that by (intro exI [of _ later] exI [of _ "[]"])
      (auto simp: rebuildOverview_def built_at_def Let_def split: sum.splits)
  show ?thesis
  proof (cases "CacheGet R now statusOverviewCacheKey r")
    case (Inr found)
    show ?thesis
    proof (cases found)
      case (Some cached)
      have "Some cached = map_option fst (live now (entry_of r page_key))"
        using get [of now page_key r found] Inr Some by (simp add: CacheGet_def)
      then obtain exp where l: "live now (entry_of r page_key) = Some (cached, exp)"
        by (cases "live now (entry_of r page_key)") auto
      note e = live_Some [OF l]
      from assms(2) e obtain x later0 post where x: "oc_Marshal K x = Inr cached" "exp = Some (later0 + statusOverviewCacheTTL)"
        "built_at F M s es later0 post x"
        by (auto simp: cache_sound_def)
      have "out = x" using assms(1) [OF x(1)] assms(3) Inr Some by (simp add: GetStatusOverview_def)
      moreover have "now < later0 + statusOverviewCacheTTL" using l e x(2) by (simp split: if_splits)
      ultimately show ?thesis using built_at_snoc [OF x(3)] by blast
    qed (use rebuilt assms(3) Inr in \<open>simp add: GetStatusOverview_def\<close>)
  qed (use rebuilt assms(3) in \<open>simp add: GetStatusOverview_def\<close>)
qed

end

section \<open>Properties\<close>

text \<open>
  C37: the status page is at most ten seconds old: whatever happens to the database and to Redis between
  the visits, a page that is served is the overview of the database as it was when this visit or an
  earlier one built it, and an earlier one was stored less than ten seconds before.
\<close>

theorem status_page_is_recent:
  assumes "redis_server R entry_of" and "entry_of r page_key = None" and "uncached es"
    and "\<And>x d. oc_Marshal K x = Inr d \<Longrightarrow> oc_Unmarshal K d = Inr x"
    and "page_events q F K S M R es (r, s) = (r1, s1)"
    and "GetStatusOverview q F K M R now mid later s1 r1 = (Inr out, r2)"
  shows "\<exists>pre now0 mid0 later0 post overview. es @ [Visit now mid later] = pre @ Visit now0 mid0 later0 # post \<and>
    Build (ar_first_error F) (ar_div F) (ar_zero F) M mid0 (db_after pre s) = Inr overview \<and>
    out = statusOverviewToProto overview \<and> (post = [] \<or> now < later0 + 10 * Second)"
proof -
  have "s1 = db_after es s" using snd_page_events assms(5) by (metis snd_conv)
  note sound = redis_server.events_sound [OF assms(1-3), of F K M s q S]
  have fst_: "fst (GetStatusOverview q F K M R now mid later (db_after es s) (fst (page_events q F K S M R es (r, s)))) = Inr out"
    using assms(5,6) \<open>s1 = db_after es s\<close> by simp
  from redis_server.answer_built [OF assms(1,4) sound fst_]
  show ?thesis unfolding built_at_def statusOverviewCacheTTL_def by blast
qed

abbreviation "sample_arithmetic \<equiv> \<lparr>ar_div = \<lambda>x y. x, ar_zero = 0, ar_first_error = hd\<rparr> :: int arithmetic"

definition sample_message :: "int pb_StatusGroup list" where
  "sample_message = statusOverviewToProto (case sample_page of Inl _ \<Rightarrow> [] | Inr p \<Rightarrow> p)"

definition sample_codec :: "int overview_codec" where
  "sample_codec = \<lparr>oc_Marshal = \<lambda>x. if x = sample_message then Inr ''page'' else Inl (Opaque ''too large''),
     oc_Unmarshal = \<lambda>_. Inr sample_message\<rparr>"

abbreviation "sample_sessions \<equiv> \<lparr>se_Marshal = \<lambda>_. [], se_Unmarshal = \<lambda>_. Inl (Opaque [])\<rparr>"

text \<open>The second visit, five seconds later, gets the page of the first, although the database is empty by then.\<close>

definition sample_page_events :: "doc list page_event list" where
  "sample_page_events = [Visit 0 0 0, Becomes empty_db]"

lemma sample_page_events_run:
  "page_events (\<lambda>x. x) sample_arithmetic sample_codec sample_sessions mem_mongo mem_redis sample_page_events
     (Map.empty, sample_status_db) = ([page_key \<mapsto> (''page'', Some (10 * Second))], empty_db)"
proof -
  obtain p where p: "sample_page = Inr p" using sample_page_shows by blast
  then have m: "sample_message = statusOverviewToProto p" by (simp add: sample_message_def)
  show ?thesis
    unfolding sample_page_events_def
    by (simp add: GetStatusOverview_def rebuildOverview_def CacheGet_def CacheSet_def mem_redis_def p m [symmetric]
        sample_codec_def statusOverviewCacheTTL_def)
qed

theorem status_page_is_recent_witness:
  "\<exists>out r2. GetStatusOverview (\<lambda>x. x) sample_arithmetic sample_codec mem_mongo mem_redis (5 * Second) (5 * Second) (5 * Second)
      empty_db [page_key \<mapsto> (''page'', Some (10 * Second))] = (Inr out, r2) \<and>
    (\<exists>pre now0 mid0 later0 post. sample_page_events @ [Visit (5 * Second) (5 * Second) (5 * Second)] =
       pre @ Visit now0 mid0 later0 # post \<and> (post = [] \<or> 5 * Second < later0 + 10 * Second))"
proof -
  let ?r = "[page_key \<mapsto> (''page'', Some (10 * Second))]"
  have v: "GetStatusOverview (\<lambda>x. x) sample_arithmetic sample_codec mem_mongo mem_redis (5 * Second) (5 * Second) (5 * Second)
      empty_db ?r = (Inr sample_message, ?r)"
    by (simp add: GetStatusOverview_def CacheGet_def mem_redis_def sample_codec_def Second_def)
  have "uncached sample_page_events" by (simp add: uncached_def sample_page_events_def)
  moreover have "oc_Marshal sample_codec x = Inr d \<Longrightarrow> oc_Unmarshal sample_codec d = Inr x" for x d
    by (simp add: sample_codec_def split: if_splits)
  ultimately have "\<exists>pre now0 mid0 later0 post overview. sample_page_events @ [Visit (5 * Second) (5 * Second) (5 * Second)] =
      pre @ Visit now0 mid0 later0 # post \<and>
      Build (ar_first_error sample_arithmetic) (ar_div sample_arithmetic) (ar_zero sample_arithmetic) mem_mongo mid0
        (db_after pre sample_status_db) = Inr overview \<and>
      sample_message = statusOverviewToProto overview \<and> (post = [] \<or> 5 * Second < later0 + 10 * Second)"
    by (intro status_page_is_recent [OF mem_redis.redis_server_axioms _ _ _ sample_page_events_run v]) auto
  with v show ?thesis by blast
qed

end
