(* ===== verification/CertServices.thy ===== *)
theory CertServices
  imports Services CertDistribution
begin

text \<open>
  The services of internal/connectapi that hold the certificates: managed_certificate_service.go,
  certificate_issuer_service.go, dns_provider_account_service.go and certificate_access_token_service.go.
  A handler whose manager call triggers the operation runner or a registration passes the id on as the
  \<open>option\<close> beside its message. The response headers of a bundle are the \<open>headers\<close> of the answer.
\<close>

section \<open>Managed certificates\<close>

definition api_ListManagedCertificates ::
  "(string \<Rightarrow> string) \<Rightarrow> 'c mongo \<Rightarrow> gotime \<Rightarrow> u32 \<Rightarrow> string \<Rightarrow> 'c db \<Rightarrow> connect_error + pb_ManagedCertificate list \<times> string" where
  "api_ListManagedCertificates q M now pageSize token s =
     answer_page q managedCertificateToProto (managerListCertificates M now (pageLimit pageSize) token s)"

definition managedCertificateInputFromProto :: "pb_ManagedCertificate option \<Rightarrow> err + ManagedCertificateInput" where
  "managedCertificateInputFromProto p =
     (case p of
        None \<Rightarrow> Inl (Opaque ''certificate is required'')
      | Some p \<Rightarrow>
          if trim_space (pbmc_Name p) = [] then Inl (CertE ErrManagedCertificateNameRequired)
          else Inr \<lparr>in_Name = trim_space (pbmc_Name p), in_Domains = pbmc_Domains p,
            in_CertificateIssuerID = trim_space (pbmc_CertificateIssuerId p),
            in_DNSProviderAccountID = trim_space (pbmc_DnsProviderAccountId p), in_KeyType = keyTypeFromProto (pbmc_KeyType p),
            in_AutoRenewEnabled = pbmc_AutoRenewEnabled p, in_RenewBeforeDays = pbmc_RenewBeforeDays p,
            in_NotifyGroupIDs = pbmc_NotifyGroupIds p, in_ServerIDs = pbmc_ServerIds p\<rparr>)"

text \<open>An input that cannot be read is an invalid argument.\<close>

definition with_input ::
  "err + 'i \<Rightarrow> 's \<Rightarrow> ('i \<Rightarrow> (connect_error + 'a) \<times> 's) \<Rightarrow> (connect_error + 'a) \<times> 's" where
  "with_input input s k = (case input of Inl e \<Rightarrow> (Inl \<lparr>ce_Code = CodeInvalidArgument, ce_Err = e\<rparr>, s) | Inr i \<Rightarrow> k i)"

definition api_CreateManagedCertificate ::
  "(string \<Rightarrow> string) \<Rightarrow> (string \<Rightarrow> string) \<Rightarrow> (string \<Rightarrow> string option) \<Rightarrow> 'c mongo \<Rightarrow> gotime \<Rightarrow> string \<Rightarrow> string \<Rightarrow>
    pb_ManagedCertificate option \<Rightarrow> 'c db \<Rightarrow> (connect_error + pb_ManagedCertificate \<times> string option) \<times> 'c db" where
  "api_CreateManagedCertificate q ul idna M now uuid opUuid certificate s =
     with_input (managedCertificateInputFromProto certificate) s (\<lambda>input.
       answer_write q (map_prod managedCertificateToProto id) (managerCreateCertificate ul idna M now uuid opUuid input s))"

definition api_GetManagedCertificate ::
  "(string \<Rightarrow> string) \<Rightarrow> 'c mongo \<Rightarrow> gotime \<Rightarrow> string \<Rightarrow> 'c db \<Rightarrow> connect_error + pb_ManagedCertificate" where
  "api_GetManagedCertificate q M now ident s = answer q managedCertificateToProto (managerGetCertificate M now ident s)"

definition api_UpdateManagedCertificate ::
  "(string \<Rightarrow> string) \<Rightarrow> (string \<Rightarrow> string) \<Rightarrow> (string \<Rightarrow> string option) \<Rightarrow> 'c mongo \<Rightarrow> gotime \<Rightarrow> string \<Rightarrow>
    pb_ManagedCertificate option \<Rightarrow> 'c db \<Rightarrow> (connect_error + pb_ManagedCertificate) \<times> 'c db" where
  "api_UpdateManagedCertificate q ul idna M now ident certificate s =
     with_input (managedCertificateInputFromProto certificate) s (\<lambda>input.
       answer_write q managedCertificateToProto (managerUpdateCertificate ul idna M now ident input s))"

definition api_SubmitIssueOperation ::
  "(string \<Rightarrow> string) \<Rightarrow> 'c mongo \<Rightarrow> gotime \<Rightarrow> string \<Rightarrow> string \<Rightarrow> 'c db \<Rightarrow>
    (connect_error + pb_CertificateOperation \<times> string option) \<times> 'c db" where
  "api_SubmitIssueOperation q M now uuid ident s =
     answer_write q (map_prod certificateOperationToProto id) (SubmitIssueOperation M now uuid ident s)"

definition api_SubmitRenewOperation ::
  "(string \<Rightarrow> string) \<Rightarrow> 'c mongo \<Rightarrow> gotime \<Rightarrow> string \<Rightarrow> string \<Rightarrow> 'c db \<Rightarrow>
    (connect_error + pb_CertificateOperation \<times> string option) \<times> 'c db" where
  "api_SubmitRenewOperation q M now uuid ident s =
     answer_write q (map_prod certificateOperationToProto id) (SubmitRenewOperation M now uuid ident s)"

definition api_SubmitRevokeVersion ::
  "(string \<Rightarrow> string) \<Rightarrow> 'c mongo \<Rightarrow> gotime \<Rightarrow> string \<Rightarrow> string \<Rightarrow> string \<Rightarrow> int \<Rightarrow> 'c db \<Rightarrow>
    (connect_error + pb_CertificateOperation \<times> string option) \<times> 'c db" where
  "api_SubmitRevokeVersion q M now uuid ident versionID reason s =
     answer_write q (map_prod certificateOperationToProto id)
       (SubmitRevokeVersion M now uuid ident versionID (revocationReasonFromProto reason) s)"

definition api_DeleteManagedCertificate ::
  "(string \<Rightarrow> string) \<Rightarrow> 'c mongo \<Rightarrow> string \<Rightarrow> 'c db \<Rightarrow> (connect_error + unit) \<times> 'c db" where
  "api_DeleteManagedCertificate q M ident s = answer_write q (\<lambda>x. x) (DeleteManagedCertificate M ident s)"

type_synonym headers = "(string \<times> string) list"

definition api_GetCertificateBundle ::
  "(string \<Rightarrow> string) \<Rightarrow> 'c mongo \<Rightarrow> gotime \<Rightarrow> string \<Rightarrow> int \<Rightarrow> 'c db \<Rightarrow> connect_error + pb_CertificateBundle \<times> headers" where
  "api_GetCertificateBundle q M now ident slot s =
     answer q (\<lambda>b. (certificateBundleToProto b, [(''Cache-Control'', ''no-store''), (''X-Certificate-Version-Id'', cb_VersionID b)]))
       (GetCertificateBundle M now ident (versionSlotFromProto slot) s)"

definition api_ActivatePreviousVersion ::
  "(string \<Rightarrow> string) \<Rightarrow> 'c mongo \<Rightarrow> gotime \<Rightarrow> string \<Rightarrow> string \<Rightarrow> 'c db \<Rightarrow> (connect_error + pb_ManagedCertificate) \<times> 'c db" where
  "api_ActivatePreviousVersion q M now ident versionID s =
     answer_write q managedCertificateToProto (managerActivatePreviousVersion M now ident versionID s)"

section \<open>Issuers\<close>

record pb_CreateCertificateIssuerRequest =
  pbci_Issuer' :: "pb_CertificateIssuer option"
  pbci_CustomDirectoryUrl :: string
  pbci_AccountKeyPem :: string
  pbci_EabKid :: string
  pbci_EabHmac :: string
  pbci_TermsOfServiceAgreed :: bool

record pb_UpdateCertificateIssuerRequest =
  pbui_CertificateIssuerId :: string
  pbui_Issuer :: "pb_CertificateIssuer option"
  pbui_CustomDirectoryUrl :: string
  pbui_AccountKeyPem :: string
  pbui_EabKid :: string
  pbui_EabHmac :: string

definition issuerInputFromCreate :: "pb_CreateCertificateIssuerRequest \<Rightarrow> err + IssuerInput" where
  "issuerInputFromCreate msg =
     (case pbci_Issuer' msg of
        None \<Rightarrow> Inl (Opaque ''issuer is required'')
      | Some i \<Rightarrow>
          if trim_space (pbiss_Name i) = [] then Inl (Opaque ''name is required'')
          else if trim_space (pbiss_Email i) = [] then Inl (Opaque ''email is required'')
          else if trim_space (pbiss_CaType i) = [] then Inl (Opaque ''ca_type is required'')
          else Inr \<lparr>ii_Name = trim_space (pbiss_Name i), ii_CAType = pbiss_CaType i,
            ii_CustomDirectoryURL = pbci_CustomDirectoryUrl msg, ii_Email = trim_space (pbiss_Email i),
            ii_AccountKeyPEM = pbci_AccountKeyPem msg, ii_EABKid = pbci_EabKid msg, ii_EABHMAC = pbci_EabHmac msg,
            ii_TermsOfServiceAgreed = pbci_TermsOfServiceAgreed msg\<rparr>)"

definition issuerInputFromUpdate :: "pb_UpdateCertificateIssuerRequest \<Rightarrow> err + IssuerInput" where
  "issuerInputFromUpdate msg =
     (case pbui_Issuer msg of
        None \<Rightarrow> Inl (Opaque ''issuer is required'')
      | Some i \<Rightarrow>
          if trim_space (pbiss_Name i) = [] then Inl (Opaque ''name is required'')
          else Inr \<lparr>ii_Name = trim_space (pbiss_Name i), ii_CAType = pbiss_CaType i,
            ii_CustomDirectoryURL = pbui_CustomDirectoryUrl msg, ii_Email = trim_space (pbiss_Email i),
            ii_AccountKeyPEM = pbui_AccountKeyPem msg, ii_EABKid = pbui_EabKid msg, ii_EABHMAC = pbui_EabHmac msg,
            ii_TermsOfServiceAgreed = False\<rparr>)"

definition api_ListCertificateIssuers ::
  "(string \<Rightarrow> string) \<Rightarrow> 'c mongo \<Rightarrow> u32 \<Rightarrow> string \<Rightarrow> 'c db \<Rightarrow> connect_error + pb_CertificateIssuer list \<times> string" where
  "api_ListCertificateIssuers q M pageSize token s =
     answer_page q certificateIssuerToProto (managerListCertificateIssuers M (pageLimit pageSize) token s)"

definition api_GetCertificateIssuerDirectoryPreview ::
  "(string \<Rightarrow> string) \<Rightarrow> (string \<Rightarrow> (string \<times> string) option) \<Rightarrow> acme_client \<Rightarrow> string \<Rightarrow> string \<Rightarrow>
    connect_error + pb_CertificateIssuerDirectoryPreview" where
  "api_GetCertificateIssuerDirectoryPreview q url A caType customURL =
     answer q certificateIssuerDirectoryPreviewToProto (GetCertificateIssuerDirectoryPreview url A caType customURL)"

definition api_CreateCertificateIssuer ::
  "(string \<Rightarrow> string) \<Rightarrow> (string \<Rightarrow> (string \<times> string) option) \<Rightarrow> acme_client \<Rightarrow> 'c mongo \<Rightarrow> err + string \<Rightarrow> gotime \<Rightarrow> gotime \<Rightarrow>
    string \<Rightarrow> pb_CreateCertificateIssuerRequest \<Rightarrow> 'c db \<Rightarrow> (connect_error + pb_CertificateIssuer \<times> string option) \<times> 'c db" where
  "api_CreateCertificateIssuer q url A M keygen now later uuid msg s =
     with_input (issuerInputFromCreate msg) s (\<lambda>input.
       answer_write q (map_prod certificateIssuerToProto id) (managerCreateCertificateIssuer url A M keygen now later uuid input s))"

definition api_GetCertificateIssuer ::
  "(string \<Rightarrow> string) \<Rightarrow> 'c mongo \<Rightarrow> string \<Rightarrow> 'c db \<Rightarrow> connect_error + pb_CertificateIssuer" where
  "api_GetCertificateIssuer q M ident s = answer q certificateIssuerToProto (managerGetCertificateIssuer M ident s)"

definition api_UpdateCertificateIssuer ::
  "(string \<Rightarrow> string) \<Rightarrow> (string \<Rightarrow> (string \<times> string) option) \<Rightarrow> 'c mongo \<Rightarrow> gotime \<Rightarrow> pb_UpdateCertificateIssuerRequest \<Rightarrow>
    'c db \<Rightarrow> (connect_error + pb_CertificateIssuer \<times> string option) \<times> 'c db" where
  "api_UpdateCertificateIssuer q url M now msg s =
     with_input (issuerInputFromUpdate msg) s (\<lambda>input.
       answer_write q (map_prod certificateIssuerToProto id)
         (managerUpdateCertificateIssuer url M now (pbui_CertificateIssuerId msg) input s))"

definition api_DeleteCertificateIssuer ::
  "(string \<Rightarrow> string) \<Rightarrow> 'c mongo \<Rightarrow> string \<Rightarrow> 'c db \<Rightarrow> (connect_error + unit) \<times> 'c db" where
  "api_DeleteCertificateIssuer q M ident s = answer_write q (\<lambda>x. x) (managerDeleteCertificateIssuer M ident s)"

definition api_RetryCertificateIssuerRegistration ::
  "(string \<Rightarrow> string) \<Rightarrow> 'c mongo \<Rightarrow> gotime \<Rightarrow> string \<Rightarrow> 'c db \<Rightarrow> (connect_error + pb_CertificateIssuer \<times> string option) \<times> 'c db" where
  "api_RetryCertificateIssuerRegistration q M now ident s =
     answer_write q (map_prod certificateIssuerToProto id) (RetryCertificateIssuerRegistration M now ident s)"

section \<open>DNS provider accounts\<close>

definition dnsAccountInputFromCreate :: "pb_DNSProviderAccount option \<Rightarrow> string \<Rightarrow> err + DNSAccountInput" where
  "dnsAccountInputFromCreate account apiToken =
     (case account of
        None \<Rightarrow> Inl (Opaque ''account is required'')
      | Some a \<Rightarrow>
          if trim_space (pbdns_Name a) = [] then Inl (Opaque ''name is required'')
          else if trim_space apiToken = [] then Inl (Opaque ''api_token is required'')
          else Inr \<lparr>di_Name = trim_space (pbdns_Name a), di_Provider = pbdns_Provider a,
            di_PropagationTimeoutSeconds = pbdns_PropagationTimeoutSeconds a, di_APIToken = apiToken\<rparr>)"

definition dnsAccountInputFromUpdate :: "pb_DNSProviderAccount option \<Rightarrow> string \<Rightarrow> err + DNSAccountInput" where
  "dnsAccountInputFromUpdate account apiToken =
     (case account of
        None \<Rightarrow> Inl (Opaque ''account is required'')
      | Some a \<Rightarrow>
          if trim_space (pbdns_Name a) = [] then Inl (Opaque ''name is required'')
          else Inr \<lparr>di_Name = trim_space (pbdns_Name a), di_Provider = pbdns_Provider a,
            di_PropagationTimeoutSeconds = pbdns_PropagationTimeoutSeconds a, di_APIToken = apiToken\<rparr>)"

definition api_ListDNSProviderAccounts ::
  "(string \<Rightarrow> string) \<Rightarrow> 'c mongo \<Rightarrow> u32 \<Rightarrow> string \<Rightarrow> 'c db \<Rightarrow> connect_error + pb_DNSProviderAccount list \<times> string" where
  "api_ListDNSProviderAccounts q M pageSize token s =
     answer_page q dnsProviderAccountToProto (managerListDNSProviderAccounts M (pageLimit pageSize) token s)"

definition api_CreateDNSProviderAccount ::
  "(string \<Rightarrow> string) \<Rightarrow> (string \<Rightarrow> err option) \<Rightarrow> 'c mongo \<Rightarrow> gotime \<Rightarrow> gotime \<Rightarrow> string \<Rightarrow> pb_DNSProviderAccount option \<Rightarrow>
    string \<Rightarrow> 'c db \<Rightarrow> (connect_error + pb_DNSProviderAccount) \<times> 'c db" where
  "api_CreateDNSProviderAccount q verify M now later uuid account apiToken s =
     with_input (dnsAccountInputFromCreate account apiToken) s (\<lambda>input.
       answer_write q dnsProviderAccountToProto (managerCreateDNSProviderAccount verify M now later uuid input s))"

definition api_GetDNSProviderAccount ::
  "(string \<Rightarrow> string) \<Rightarrow> 'c mongo \<Rightarrow> string \<Rightarrow> 'c db \<Rightarrow> connect_error + pb_DNSProviderAccount" where
  "api_GetDNSProviderAccount q M ident s = answer q dnsProviderAccountToProto (managerGetDNSProviderAccount M ident s)"

definition api_UpdateDNSProviderAccount ::
  "(string \<Rightarrow> string) \<Rightarrow> (string \<Rightarrow> err option) \<Rightarrow> 'c mongo \<Rightarrow> gotime \<Rightarrow> gotime \<Rightarrow> string \<Rightarrow> pb_DNSProviderAccount option \<Rightarrow>
    string \<Rightarrow> 'c db \<Rightarrow> (connect_error + pb_DNSProviderAccount) \<times> 'c db" where
  "api_UpdateDNSProviderAccount q verify M now later ident account apiToken s =
     with_input (dnsAccountInputFromUpdate account apiToken) s (\<lambda>input.
       answer_write q dnsProviderAccountToProto (managerUpdateDNSProviderAccount verify M now later ident input s))"

definition api_DeleteDNSProviderAccount ::
  "(string \<Rightarrow> string) \<Rightarrow> 'c mongo \<Rightarrow> string \<Rightarrow> 'c db \<Rightarrow> (connect_error + unit) \<times> 'c db" where
  "api_DeleteDNSProviderAccount q M ident s = answer_write q (\<lambda>x. x) (managerDeleteDNSProviderAccount M ident s)"

section \<open>Certificate access tokens\<close>

text \<open>The conversion of a token reads the clock after the store has answered: \<open>at\<close>.\<close>

definition api_ListCertificateAccessTokens ::
  "(string \<Rightarrow> string) \<Rightarrow> 'c mongo \<Rightarrow> gotime \<Rightarrow> string \<Rightarrow> 'c db \<Rightarrow> connect_error + pb_CertificateAccessToken list" where
  "api_ListCertificateAccessTokens q M at serverID s =
     (let serverID = trim_space serverID in
      if serverID = [] then Inl (NewError CodeInvalidArgument ''server_id is required'')
      else answer q (map (certificateAccessTokenToProto at)) (ListCertificateAccessTokensByServer M serverID s))"

definition api_CreateCertificateAccessToken ::
  "(string \<Rightarrow> string) \<Rightarrow> (string \<Rightarrow> string) \<Rightarrow> 'c mongo \<Rightarrow> gotime \<Rightarrow> gotime \<Rightarrow> string \<Rightarrow> err + string \<Rightarrow> string \<Rightarrow> string \<Rightarrow>
    timestamp option \<Rightarrow> 'c db \<Rightarrow> (connect_error + pb_CertificateAccessToken \<times> string) \<times> 'c db" where
  "api_CreateCertificateAccessToken q hash M now at uuid secretHex serverID name expiresAt s =
     (let serverID = trim_space serverID; name = trim_space name in
      if serverID = [] then (Inl (NewError CodeInvalidArgument ''server_id is required''), s)
      else if name = [] then (Inl (NewError CodeInvalidArgument ''name is required''), s)
      else answer_write q (map_prod (certificateAccessTokenToProto at) id)
        (CreateCertificateAccessToken hash M now uuid secretHex serverID name (tsToTimePtr expiresAt) s))"

definition api_DeleteCertificateAccessToken ::
  "(string \<Rightarrow> string) \<Rightarrow> 'c mongo \<Rightarrow> string \<Rightarrow> string \<Rightarrow> 'c db \<Rightarrow> (connect_error + unit) \<times> 'c db" where
  "api_DeleteCertificateAccessToken q M serverID tokenID s =
     (let serverID = trim_space serverID; tokenID = trim_space tokenID in
      if serverID = [] \<or> tokenID = [] then (Inl (NewError CodeInvalidArgument ''server_id and token_id are required''), s)
      else answer_write q (\<lambda>x. x) (DeleteCertificateAccessToken M serverID tokenID s))"

section \<open>Errors\<close>

text \<open>
  The error for a change of the identity of a Ready issuer is not among those the API knows: the client
  is told of an internal error.
\<close>

lemma immutable_issuer_is_internal:
  assumes "GetCertificateIssuer M (pbui_CertificateIssuerId msg) s = Inr existing"
    and "iss_RegistrationStatus existing = IssuerRegistrationReady"
    and "issuerInputFromUpdate msg = Inr input" and "identityChanged existing input"
  shows "api_UpdateCertificateIssuer q url M now msg s = (Inl internalError, s)"
proof -
  have "toConnectError q (StoreE ErrCertificateIssuerImmutable) = internalError"
    by (simp add: toConnectError_def is_any_def errors_is_leaf unwrap_def)
  with assms show ?thesis
    by (simp add: api_UpdateCertificateIssuer_def with_input_def managerUpdateCertificateIssuer_def answer_write_def answer_def)
qed

end
