(* ===== verification/Secrecy.thy ===== *)
theory Secrecy
  imports CertServices
begin

text \<open>
  No answer of the API but a bundle depends on a secret: private keys, account keys, the credentials of
  external account binding, DNS tokens, the hashes of access tokens and the challenge records of an
  operation. Two databases that differ only in these are told apart by no read of \<open>Services\<close> and
  \<open>CertServices\<close>, which is noninterference of the reads.
\<close>

section \<open>What a view shows\<close>

text \<open>The secrets of the documents, blotted out; whether a secret is set stays visible.\<close>

definition blot :: "string \<Rightarrow> string" where
  "blot x = (if x = [] then [] else ''*'')"

definition blot_version :: "CertificateVersion \<Rightarrow> CertificateVersion" where
  "blot_version v = v\<lparr>cv_PrivateKeyPEM := blot (cv_PrivateKeyPEM v)\<rparr>"

definition blot_cert :: "ManagedCertificate \<Rightarrow> ManagedCertificate" where
  "blot_cert c = c\<lparr>mc_ActiveVersion := map_option blot_version (mc_ActiveVersion c),
     mc_PreviousVersion := map_option blot_version (mc_PreviousVersion c)\<rparr>"

definition blot_issuer :: "CertificateIssuer \<Rightarrow> CertificateIssuer" where
  "blot_issuer i = i\<lparr>iss_AccountKeyPEM := blot (iss_AccountKeyPEM i), iss_EABKid := blot (iss_EABKid i),
     iss_EABHMAC := blot (iss_EABHMAC i)\<rparr>"

definition blot_account :: "DNSProviderAccount \<Rightarrow> DNSProviderAccount" where
  "blot_account a = a\<lparr>dns_APIToken := blot (dns_APIToken a)\<rparr>"

definition blot_operation :: "CertificateOperation \<Rightarrow> CertificateOperation" where
  "blot_operation op = op\<lparr>op_PendingTXTRecords := [], op_LeaseOwner := []\<rparr>"

definition blot_access_token :: "CertificateAccessToken \<Rightarrow> CertificateAccessToken" where
  "blot_access_token t = t\<lparr>cat_TokenHash := []\<rparr>"

definition blot_mcp_token :: "McpToken \<Rightarrow> McpToken" where
  "blot_mcp_token t = t\<lparr>mcp_TokenHash := []\<rparr>"

lemma blot_empty [simp]: "blot x = [] \<longleftrightarrow> x = []"
  by (simp add: blot_def)

lemma blot_version_simps [simp]:
  "cv_ID (blot_version v) = cv_ID v" "cv_NotBefore (blot_version v) = cv_NotBefore v" "cv_NotAfter (blot_version v) = cv_NotAfter v"
  "cv_RevokedAt (blot_version v) = cv_RevokedAt v" "cv_RevokePending (blot_version v) = cv_RevokePending v"
  "cv_ConfigSnapshot (blot_version v) = cv_ConfigSnapshot v" "cv_LeafFingerprint (blot_version v) = cv_LeafFingerprint v"
  "cv_KeyType (blot_version v) = cv_KeyType v" "cv_StagingUntrusted (blot_version v) = cv_StagingUntrusted v"
  "cv_SerialNumber (blot_version v) = cv_SerialNumber v" "cv_IssuerCommonName (blot_version v) = cv_IssuerCommonName v"
  "cv_CreatedAt (blot_version v) = cv_CreatedAt v" "cv_FullchainPEM (blot_version v) = cv_FullchainPEM v"
  by (simp_all add: blot_version_def)

lemma blot_cert_simps [simp]:
  "mc_ID (blot_cert c) = mc_ID c" "mc_Name (blot_cert c) = mc_Name c" "mc_Domains (blot_cert c) = mc_Domains c"
  "mc_CertificateIssuerID (blot_cert c) = mc_CertificateIssuerID c" "mc_DNSProviderAccountID (blot_cert c) = mc_DNSProviderAccountID c"
  "mc_KeyType (blot_cert c) = mc_KeyType c" "mc_AutoRenewEnabled (blot_cert c) = mc_AutoRenewEnabled c"
  "mc_RenewBeforeDays (blot_cert c) = mc_RenewBeforeDays c" "mc_NotifyGroupIDs (blot_cert c) = mc_NotifyGroupIDs c"
  "mc_ServerIDs (blot_cert c) = mc_ServerIDs c" "mc_NotificationState (blot_cert c) = mc_NotificationState c"
  "mc_CreatedAt (blot_cert c) = mc_CreatedAt c" "mc_UpdatedAt (blot_cert c) = mc_UpdatedAt c"
  "mc_ActiveVersion (blot_cert c) = map_option blot_version (mc_ActiveVersion c)"
  "mc_PreviousVersion (blot_cert c) = map_option blot_version (mc_PreviousVersion c)"
  by (simp_all add: blot_cert_def)

lemma distributable_blot [simp]: "VersionDistributable (map_option blot_version v) = VersionDistributable v"
  by (cases v) (simp_all add: VersionDistributable_def)

lemma distributable_Some_blot [simp]: "VersionDistributable (Some (blot_version v)) = VersionDistributable (Some v)"
  by (simp add: VersionDistributable_def)

lemma view_of_cert_blot: "publicCertFromStore (blot_cert c) latest now = publicCertFromStore c latest now"
proof -
  have "ComputeValidity (blot_cert c) now = ComputeValidity c now"
    by (cases "mc_ActiveVersion c") (simp_all add: ComputeValidity_def ComputeVersionValidity_def Let_def)
  moreover have "renewalMetadata (blot_cert c) now = renewalMetadata c now"
    using distributable_blot [of "mc_ActiveVersion c"]
    by (cases "mc_ActiveVersion c") (simp_all add: renewalMetadata_def nextRenewalAt_def Let_def)
  moreover have "publicVersionFromStore (map_option blot_version v) = publicVersionFromStore v" for v
    by (cases v) (simp_all add: publicVersionFromStore_def)
  moreover have "desiredDiffersFromActive (blot_cert c) = desiredDiffersFromActive c"
    by (cases "mc_ActiveVersion c") (simp_all add: desiredDiffersFromActive_def)
  ultimately show ?thesis
    by (simp add: publicCertFromStore_def notificationWarning_def notificationWarningAt_def)
qed

lemma view_of_issuer_blot: "publicFromIssuer (blot_issuer i) = publicFromIssuer i"
  by (simp add: publicFromIssuer_def blot_issuer_def)

lemma view_of_account_blot: "publicFromStore (blot_account a) = publicFromStore a"
  by (simp add: publicFromStore_def blot_account_def)

lemma view_of_operation_blot: "publicOperationFromStore (blot_operation op) = publicOperationFromStore op"
  by (simp add: publicOperationFromStore_def blot_operation_def)

lemma view_of_token_blot:
  "certificateAccessTokenToProto at (blot_access_token t) = certificateAccessTokenToProto at t"
  "mcpTokenToProto (blot_mcp_token m) = mcpTokenToProto m"
  by (simp_all add: certificateAccessTokenToProto_def mcpTokenToProto_def storeCertificateAccessTokenExpired_def
      blot_access_token_def blot_mcp_token_def)

section \<open>Databases that differ in secrets only\<close>

text \<open>
  The driver finds the same documents in both collections, up to \<open>f\<close>, for every filter and order that do
  not look at what \<open>f\<close> hides.
\<close>

definition alike :: "('c, 'd) coll \<Rightarrow> ('d \<Rightarrow> 'd) \<Rightarrow> 'c \<Rightarrow> 'c \<Rightarrow> bool" where
  "alike C f c c' \<longleftrightarrow>
     (\<forall>P. (\<forall>d. P (f d) = P d) \<longrightarrow> map_sum id f (FindOne C P c) = map_sum id f (FindOne C P c')) \<and>
     (\<forall>P le. (\<forall>d. P (f d) = P d) \<longrightarrow> (\<forall>x y. le (f x) (f y) = le x y) \<longrightarrow>
        map_sum id f (FindOneSorted C P le c) = map_sum id f (FindOneSorted C P le c')) \<and>
     (\<forall>P le k l. (\<forall>d. P (f d) = P d) \<longrightarrow> (\<forall>x y. le (f x) (f y) = le x y) \<longrightarrow>
        map_sum id (map f) (FindDocs C P le k l c) = map_sum id (map f) (FindDocs C P le k l c'))"

definition same_but_secrets :: "'c mongo \<Rightarrow> 'c db \<Rightarrow> 'c db \<Rightarrow> bool" where
  "same_but_secrets M s s' \<longleftrightarrow>
     alike (managedCertificates M) blot_cert (st_managedCertificates s) (st_managedCertificates s') \<and>
     alike (certificateOperations M) blot_operation (st_certificateOperations s) (st_certificateOperations s') \<and>
     alike (certificateIssuers M) blot_issuer (st_certificateIssuers s) (st_certificateIssuers s') \<and>
     alike (dnsProviderAccounts M) blot_account (st_dnsProviderAccounts s) (st_dnsProviderAccounts s') \<and>
     alike (certificateAccessTokens M) blot_access_token (st_certificateAccessTokens s) (st_certificateAccessTokens s') \<and>
     alike (mcpTokens M) blot_mcp_token (st_mcpTokens s) (st_mcpTokens s')"

lemma insert_sorted_map:
  "\<forall>x y. le (f x) (f y) = le x y \<Longrightarrow> map f (insert_sorted le x xs) = insert_sorted le (f x) (map f xs)"
  by (induction xs) simp_all

lemma sort_docs_map: "\<forall>x y. le (f x) (f y) = le x y \<Longrightarrow> map f (sort_docs le xs) = sort_docs le (map f xs)"
  by (induction xs) (simp_all add: sort_docs_def insert_sorted_map)

lemma filter_map_same: "\<forall>d. P (f d) = P d \<Longrightarrow> map f (filter P xs) = filter P (map f xs)"
  by (induction xs) simp_all

lemma find_map_same: "\<forall>d. P (f d) = P d \<Longrightarrow> map_option f (find P xs) = find P (map f xs)"
  by (induction xs) simp_all

lemma page_map: "map f (page k l xs) = page k l (map f xs)"
  by (simp add: page_def take_map drop_map split: option.split)

text \<open>In memory it is enough that the documents agree one by one.\<close>

lemma mem_alike:
  assumes "map f (view project c) = map f (view project c')"
  shows "alike (mem_coll inject project clash) f c c'"
proof -
  have one: "map_sum id f (FindOne (mem_coll inject project clash) P c) =
      (case find P (map f (view project c)) of None \<Rightarrow> Inl ErrNoDocuments | Some d \<Rightarrow> Inr d)"
    if "\<forall>d. P (f d) = P d" for P c
    by (simp add: mem_coll_def find_map_same [OF that, symmetric] split: option.split)
  have sorted: "map f (sort_docs le (filter P (view project c))) = sort_docs le (filter P (map f (view project c)))"
    if "\<forall>d. P (f d) = P d" "\<forall>x y. le (f x) (f y) = le x y" for P le c
    by (simp add: sort_docs_map [OF that(2)] filter_map_same [OF that(1)])
  have hd_map: "map_sum id f (case xs of [] \<Rightarrow> Inl ErrNoDocuments | d # _ \<Rightarrow> Inr d) =
      (case map f xs of [] \<Rightarrow> Inl ErrNoDocuments | d # _ \<Rightarrow> Inr d)" for xs :: "'a list"
    by (cases xs) simp_all
  show ?thesis
    using assms unfolding alike_def
    by (simp add: one) (simp add: mem_coll_def hd_map sorted page_map)
qed

section \<open>Reads\<close>

lemma alike_find:
  "alike C f c c' \<Longrightarrow> (\<And>d. P (f d) = P d) \<Longrightarrow> map_sum id f (FindOne C P c) = map_sum id f (FindOne C P c')"
  by (simp add: alike_def)

lemma alike_sorted:
  "alike C f c c' \<Longrightarrow> (\<And>d. P (f d) = P d) \<Longrightarrow> (\<And>x y. le (f x) (f y) = le x y) \<Longrightarrow>
    map_sum id f (FindOneSorted C P le c) = map_sum id f (FindOneSorted C P le c')"
  by (simp add: alike_def)

lemma alike_docs:
  "alike C f c c' \<Longrightarrow> (\<And>d. P (f d) = P d) \<Longrightarrow> (\<And>x y. le (f x) (f y) = le x y) \<Longrightarrow>
    map_sum id (map f) (FindDocs C P le k l c) = map_sum id (map f) (FindDocs C P le k l c')"
  by (simp add: alike_def)

lemma alike_page:
  assumes "alike C f c c'" and "\<And>d. P (f d) = P d" and "\<And>x y. le (f x) (f y) = le x y"
  shows "map_sum id (map_prod (map f) id) (findPage C P limit token le c) =
    map_sum id (map_prod (map f) id) (findPage C P limit token le c')"
proof (cases "parsePageToken token")
  case (Inr skip)
  let ?k = "nat skip" and ?l = "Some (nat (normalizeLimit limit + 1))"
  have docs: "map_sum id (map f) (FindDocs C P le ?k ?l c) = map_sum id (map f) (FindDocs C P le ?k ?l c')"
    by (intro alike_docs assms)
  show ?thesis
  proof (cases "FindDocs C P le ?k ?l c")
    case (Inl e)
    with docs have "FindDocs C P le ?k ?l c' = Inl e" by (cases "FindDocs C P le ?k ?l c'") simp_all
    with Inl Inr show ?thesis by (simp add: findPage_def \<open>parsePageToken token = _\<close>)
  next
    case (Inr found)
    with docs obtain found' where found': "FindDocs C P le ?k ?l c' = Inr found'" "map f found = map f found'"
      by (cases "FindDocs C P le ?k ?l c'") auto
    then have "length found = length found'" by (metis length_map)
    with Inr found' show ?thesis by (simp add: findPage_def \<open>parsePageToken token = _\<close> take_map [symmetric] Let_def)
  qed
qed (simp add: findPage_def)

text \<open>An answer is the same when it shows only what \<open>f\<close> leaves.\<close>

lemma shown_same:
  assumes "map_sum id f r = map_sum id f r'" and "\<And>x. g (f x) = g x"
  shows "map_sum id g r = map_sum id g r'"
proof -
  have "map_sum id g r = map_sum id g (map_sum id f r)" for r
    by (cases r) (simp_all add: assms(2))
  with assms(1) show ?thesis by metis
qed

lemma answer_map: "answer q g r = answer q (\<lambda>x. x) (map_sum id g r)"
  by (cases r) (simp_all add: answer_def)

lemma optional_map: "optional (map_sum id f r) = map_sum id (map_option f) (optional r)"
  by (cases r) (simp_all add: optional_def)

lemma latest_same:
  assumes "same_but_secrets M s s'"
  shows "map_sum id (map_option blot_operation) (optional (LatestCertificateOperation M ident s)) =
    map_sum id (map_option blot_operation) (optional (LatestCertificateOperation M ident s'))"
proof -
  have "map_sum id blot_operation (LatestCertificateOperation M ident s) =
      map_sum id blot_operation (LatestCertificateOperation M ident s')"
    using assms unfolding LatestCertificateOperation_def same_but_secrets_def
    by (intro alike_sorted) (simp_all add: newest_first_def blot_operation_def)
  then show ?thesis by (metis optional_map)
qed

lemma get_certificate_same:
  assumes "same_but_secrets M s s'"
  shows "managerGetCertificate M now ident s = managerGetCertificate M now ident s'"
proof -
  have show_op: "publicCertFromStore cert (map_option blot_operation latest) now = publicCertFromStore cert latest now" for cert latest
    by (cases latest) (simp_all add: publicCertFromStore_def view_of_operation_blot)
  have latest: "withLatestOperation M now cert ident s = withLatestOperation M now cert ident s'" for cert
    using shown_same [OF latest_same [OF assms], of "\<lambda>latest. publicCertFromStore cert latest now"]
    by (simp add: withLatestOperation_def show_op)
  have blotted: "withLatestOperation M now (blot_cert cert) ident t = withLatestOperation M now cert ident t" for cert t
    by (simp add: withLatestOperation_def view_of_cert_blot)
  have "map_sum id blot_cert (GetManagedCertificate M ident s) = map_sum id blot_cert (GetManagedCertificate M ident s')"
    using assms unfolding GetManagedCertificate_def same_but_secrets_def by (intro alike_find) simp_all
  then show ?thesis
    unfolding managerGetCertificate_def
    by (cases "GetManagedCertificate M ident s"; cases "GetManagedCertificate M ident s'")
      (simp_all, metis latest blotted)
qed

lemma list_certificates_same:
  assumes "same_but_secrets M s s'"
  shows "managerListCertificates M now limit token s = managerListCertificates M now limit token s'"
proof -
  have "map_sum id (map_prod (map blot_cert) id) (ListManagedCertificates M limit token s) =
      map_sum id (map_prod (map blot_cert) id) (ListManagedCertificates M limit token s')"
    using assms unfolding ListManagedCertificates_def same_but_secrets_def
    by (intro alike_page) (simp_all add: cert_newest_first_def)
  then show ?thesis unfolding managerListCertificates_def
    by (rule shown_same) (auto simp: view_of_cert_blot)
qed

lemma server_certificates_same:
  assumes "same_but_secrets M s s'"
  shows "ListServerCertificates M now serverID s = ListServerCertificates M now serverID s'"
proof -
  have entry: "serverCertificateEntry M (blot_cert cert) now t = serverCertificateEntry M cert now t" for cert t
    using view_of_cert_blot [of cert None now]
    by (cases "mc_ActiveVersion cert")
      (auto simp: serverCertificateEntry_def publicCertFromStore_def Let_def split: prod.splits)
  have entry': "serverCertificateEntry M cert now s = serverCertificateEntry M cert now s'" for cert
    using shown_same [OF latest_same [OF assms], where g = "\<lambda>latest.
            \<lparr>sc_ManagedCertificateID = mc_ID cert, sc_Name = mc_Name cert, sc_Domains = mc_Domains cert,
             sc_ActiveVersionID = [], sc_Available = False, sc_Validity = CertValidityMissing,
             sc_KeyType = [], sc_LeafFingerprint = [], sc_NotBefore = 0, sc_NotAfter = 0,
             sc_StagingUntrusted = False,
             sc_ErrorSummary =
               (case latest of
                  None \<Rightarrow> []
                | Some op \<Rightarrow> if op_Status op = CertOpStatusFailed \<and> op_ErrorSummary op \<noteq> []
                     then op_ErrorSummary op else [])\<rparr>"]
    by (cases "mc_ActiveVersion cert") (auto simp: serverCertificateEntry_def blot_operation_def split: option.splits)
  have entries: "serverCertificateEntries M now (map blot_cert certs) t = serverCertificateEntries M now certs t" for certs t
    by (induction certs) (auto simp: entry split: sum.split)
  have entries': "serverCertificateEntries M now certs s = serverCertificateEntries M now certs s'" for certs
    by (induction certs) (auto simp: entry' split: sum.split)
  have "map_sum id (map blot_cert) (ListManagedCertificatesByServer M serverID s) =
      map_sum id (map blot_cert) (ListManagedCertificatesByServer M serverID s')"
    using assms alike_docs unfolding ListManagedCertificatesByServer_def same_but_secrets_def
    by (auto intro!: alike_docs simp: cert_by_name_def)
  then show ?thesis
    unfolding ListServerCertificates_def
    by (cases "ListManagedCertificatesByServer M serverID s"; cases "ListManagedCertificatesByServer M serverID s'")
      (simp_all, metis entries entries')
qed

lemma case_map_sum:
  "(case r of Inl e \<Rightarrow> Inl e | Inr x \<Rightarrow> Inr (f x)) = map_sum id f r"
  "(case p of Inl e \<Rightarrow> Inl e | Inr (xs, nxt) \<Rightarrow> Inr (map g xs, nxt)) = map_sum id (map_prod (map g) id) p"
  by (simp_all split: sum.split prod.split)

lemma issuer_reads_same:
  assumes "same_but_secrets M s s'"
  shows "api_GetCertificateIssuer q M ident s = api_GetCertificateIssuer q M ident s'"
    and "api_ListCertificateIssuers q M pageSize token s = api_ListCertificateIssuers q M pageSize token s'"
proof -
  have "map_sum id blot_issuer (GetCertificateIssuer M ident s) = map_sum id blot_issuer (GetCertificateIssuer M ident s')"
    using assms unfolding GetCertificateIssuer_def same_but_secrets_def by (intro alike_find) (simp_all add: blot_issuer_def)
  from shown_same [OF this, of publicFromIssuer] show "api_GetCertificateIssuer q M ident s = api_GetCertificateIssuer q M ident s'"
    by (simp add: api_GetCertificateIssuer_def managerGetCertificateIssuer_def case_map_sum view_of_issuer_blot)
  have "map_sum id (map_prod (map blot_issuer) id) (ListCertificateIssuers M limit token s) =
      map_sum id (map_prod (map blot_issuer) id) (ListCertificateIssuers M limit token s')" for limit
    using assms unfolding ListCertificateIssuers_def same_but_secrets_def by (intro alike_page) (simp_all add: blot_issuer_def)
  from shown_same [OF this [of "pageLimit pageSize"], of "map_prod (map publicFromIssuer) id"]
  show "api_ListCertificateIssuers q M pageSize token s = api_ListCertificateIssuers q M pageSize token s'"
    by (simp add: api_ListCertificateIssuers_def managerListCertificateIssuers_def case_map_sum view_of_issuer_blot prod.map_comp comp_def map_prod_def case_prod_unfold)
qed

lemma account_reads_same:
  assumes "same_but_secrets M s s'"
  shows "api_GetDNSProviderAccount q M ident s = api_GetDNSProviderAccount q M ident s'"
    and "api_ListDNSProviderAccounts q M pageSize token s = api_ListDNSProviderAccounts q M pageSize token s'"
proof -
  have "map_sum id blot_account (GetDNSProviderAccount M ident s) = map_sum id blot_account (GetDNSProviderAccount M ident s')"
    using assms unfolding GetDNSProviderAccount_def same_but_secrets_def by (intro alike_find) (simp_all add: blot_account_def)
  from shown_same [OF this, of publicFromStore] show "api_GetDNSProviderAccount q M ident s = api_GetDNSProviderAccount q M ident s'"
    by (simp add: api_GetDNSProviderAccount_def managerGetDNSProviderAccount_def case_map_sum view_of_account_blot)
  have "map_sum id (map_prod (map blot_account) id) (ListDNSProviderAccounts M limit token s) =
      map_sum id (map_prod (map blot_account) id) (ListDNSProviderAccounts M limit token s')" for limit
    using assms unfolding ListDNSProviderAccounts_def same_but_secrets_def by (intro alike_page) (simp_all add: blot_account_def)
  from shown_same [OF this [of "pageLimit pageSize"], of "map_prod (map publicFromStore) id"]
  show "api_ListDNSProviderAccounts q M pageSize token s = api_ListDNSProviderAccounts q M pageSize token s'"
    by (simp add: api_ListDNSProviderAccounts_def managerListDNSProviderAccounts_def case_map_sum view_of_account_blot prod.map_comp comp_def map_prod_def case_prod_unfold)
qed

lemma token_reads_same:
  assumes "same_but_secrets M s s'"
  shows "api_ListCertificateAccessTokens q M at serverID s = api_ListCertificateAccessTokens q M at serverID s'"
    and "api_ListMcpTokens q M s = api_ListMcpTokens q M s'"
proof -
  have "map_sum id (map blot_access_token) (ListCertificateAccessTokensByServer M sid s) =
      map_sum id (map blot_access_token) (ListCertificateAccessTokensByServer M sid s')" for sid
    using assms unfolding ListCertificateAccessTokensByServer_def same_but_secrets_def
    by (auto intro!: alike_docs simp: blot_access_token_def)
  from shown_same [OF this, of "map (certificateAccessTokenToProto at)"]
  have "map_sum id (map (certificateAccessTokenToProto at)) (ListCertificateAccessTokensByServer M sid s) =
      map_sum id (map (certificateAccessTokenToProto at)) (ListCertificateAccessTokensByServer M sid s')" for sid
    by (simp add: view_of_token_blot)
  then show "api_ListCertificateAccessTokens q M at serverID s = api_ListCertificateAccessTokens q M at serverID s'"
    unfolding api_ListCertificateAccessTokens_def by (simp add: answer_map [where g = "map _"] Let_def)
  have "map_sum id (map blot_mcp_token) (ListMcpTokens M s) = map_sum id (map blot_mcp_token) (ListMcpTokens M s')"
    using assms unfolding ListMcpTokens_def same_but_secrets_def by (intro alike_docs) (simp_all add: blot_mcp_token_def)
  from shown_same [OF this, of "map mcpTokenToProto"]
  have "map_sum id (map mcpTokenToProto) (ListMcpTokens M s) = map_sum id (map mcpTokenToProto) (ListMcpTokens M s')"
    by (simp add: view_of_token_blot)
  then show "api_ListMcpTokens q M s = api_ListMcpTokens q M s'"
    unfolding api_ListMcpTokens_def by (simp add: answer_map [where g = "map _"])
qed

section \<open>Properties\<close>

text \<open>
  C36: no secret leaves the API outside a bundle: the answers of the reads of certificates, issuers, DNS
  accounts and tokens are the same for two databases that differ only in private keys, account keys,
  credentials, API tokens, hashes, lease owners and challenge records (a secret that is set stays set).
\<close>

theorem reads_disclose_no_secret:
  assumes "same_but_secrets M s s'"
  shows "api_GetManagedCertificate q M now ident s = api_GetManagedCertificate q M now ident s' \<and>
    api_ListManagedCertificates q M now pageSize token s = api_ListManagedCertificates q M now pageSize token s' \<and>
    ListServerCertificates M now serverID s = ListServerCertificates M now serverID s' \<and>
    api_GetCertificateIssuer q M ident s = api_GetCertificateIssuer q M ident s' \<and>
    api_ListCertificateIssuers q M pageSize token s = api_ListCertificateIssuers q M pageSize token s' \<and>
    api_GetDNSProviderAccount q M ident s = api_GetDNSProviderAccount q M ident s' \<and>
    api_ListDNSProviderAccounts q M pageSize token s = api_ListDNSProviderAccounts q M pageSize token s' \<and>
    api_ListCertificateAccessTokens q M now serverID s = api_ListCertificateAccessTokens q M now serverID s' \<and>
    api_ListMcpTokens q M s = api_ListMcpTokens q M s'"
  using get_certificate_same [OF assms] list_certificates_same [OF assms] server_certificates_same [OF assms]
    issuer_reads_same [OF assms] account_reads_same [OF assms] token_reads_same [OF assms]
  by (simp add: api_GetManagedCertificate_def api_ListManagedCertificates_def)

text \<open>Two databases that differ in the private key of a certificate.\<close>

definition other_key :: CertificateVersion where
  "other_key = (sample_version ''v1'')\<lparr>cv_PrivateKeyPEM := ''another key''\<rparr>"

lemma other_key_same:
  "same_but_secrets mem_mongo (sample_db [sample_cert (Some (sample_version ''v1'')) None] [])
    (sample_db [sample_cert (Some other_key) None] [])"
  unfolding same_but_secrets_def mem_mongo_sel
  by (intro conjI mem_alike)
    (simp_all add: sample_db_def empty_db_def view_def map_filter_simps un_doc other_key_def sample_cert_def
      sample_version_def blot_cert_def blot_version_def blot_def)

lemma other_key_differs:
  "sample_db [sample_cert (Some (sample_version ''v1'')) None] [] \<noteq> sample_db [sample_cert (Some other_key) None] []"
proof -
  have "st_managedCertificates (sample_db [sample_cert (Some (sample_version ''v1'')) None] []) \<noteq>
      st_managedCertificates (sample_db [sample_cert (Some other_key) None] [])"
    by (simp add: sample_db_def sample_cert_def sample_version_def other_key_def)
  then show ?thesis by metis
qed

theorem reads_disclose_no_secret_witness:
  "sample_db [sample_cert (Some (sample_version ''v1'')) None] [] \<noteq> sample_db [sample_cert (Some other_key) None] [] \<and>
   api_GetManagedCertificate (\<lambda>x. x) mem_mongo 0 ''mcert_1'' (sample_db [sample_cert (Some (sample_version ''v1'')) None] []) =
   api_GetManagedCertificate (\<lambda>x. x) mem_mongo 0 ''mcert_1'' (sample_db [sample_cert (Some other_key) None] [])"
  using reads_disclose_no_secret [where q = "\<lambda>x. x" and now = 0 and ident = "''mcert_1''", OF other_key_same]
  by (simp add: other_key_differs)

end
