(* ===== verification/McpTools.thy ===== *)
theory McpTools
  imports McpAccess StatusView Ssh ConfigApi
begin

text \<open>
  The tools of internal/mcpserver/server.go. A tool \<open>tool_x\<close> takes the fields of its input and gives its
  output or an error; an output of one field is that field, a page is the pair of its items and the next
  token. \<open>NewServer\<close> is the table of the registered tools, each wrapped by the audit of \<open>McpAccess\<close>.
\<close>

definition tool_error :: "(err + 'a) \<times> 's \<Rightarrow> (err + 'a) \<times> 's" where
  "tool_error p = map_prod (map_sum mapErr id) id p"

lemma snd_tool_error [simp]: "snd (tool_error p) = snd p"
  by (simp add: tool_error_def)

section \<open>Servers\<close>

definition tool_listServers ::
  "'c mongo \<Rightarrow> string \<Rightarrow> string list \<Rightarrow> int \<Rightarrow> string \<Rightarrow> 'c db \<Rightarrow>
    err + Server list \<times> string" where
  "tool_listServers M environment tags pageSize token s =
     ListServers M environment tags pageSize token s"

definition tool_getServer ::
  "'c mongo \<Rightarrow> string \<Rightarrow> 'c db \<Rightarrow>
    err + Server" where
  "tool_getServer M ident s =
     map_sum mapErr id (GetServer M ident s)"

definition tool_getServerHealth ::
  "'c mongo \<Rightarrow> gotime \<Rightarrow> string \<Rightarrow> string \<Rightarrow> 'c db \<Rightarrow>
    (err + ServerHealth) \<times> 'c db" where
  "tool_getServerHealth M now uuid ident s =
     tool_error (GetServerHealth M now uuid ident s)"

definition tool_listServerEvents ::
  "'c mongo \<Rightarrow> string \<Rightarrow> int \<Rightarrow> string \<Rightarrow> 'c db \<Rightarrow>
    err + ServerEvent list \<times> string" where
  "tool_listServerEvents M serverID pageSize token s =
     ListServerEvents M serverID pageSize token s"

section \<open>Monitors\<close>

definition tool_listMonitors ::
  "'c mongo \<Rightarrow> string \<Rightarrow> int \<Rightarrow> string \<Rightarrow> 'c db \<Rightarrow>
    err + Monitor list \<times> string" where
  "tool_listMonitors M serverID pageSize token s =
     ListMonitors M serverID pageSize token s"

definition tool_getMonitor ::
  "'c mongo \<Rightarrow> string \<Rightarrow> string \<Rightarrow> 'c db \<Rightarrow>
    err + Monitor" where
  "tool_getMonitor M serverID monitorID s =
     map_sum mapErr id (GetMonitor M serverID monitorID s)"

definition tool_getMonitorUptime ::
  "(int \<Rightarrow> int \<Rightarrow> 'f) \<Rightarrow> 'f \<Rightarrow> 'c mongo \<Rightarrow> gotime \<Rightarrow> string \<Rightarrow> string \<Rightarrow> 'c db \<Rightarrow>
    err + 'f MonitorUptime" where
  "tool_getMonitorUptime fdiv fzero M now serverID monitorID s =
     map_sum mapErr id (GetMonitorUptime fdiv fzero M now serverID monitorID s)"

definition tool_getStatusOverview ::
  "(err list \<Rightarrow> err) \<Rightarrow> (int \<Rightarrow> int \<Rightarrow> 'f) \<Rightarrow> 'f \<Rightarrow> 'c mongo \<Rightarrow> gotime \<Rightarrow> 'c db \<Rightarrow>
    err + 'f StatusGroup list" where
  "tool_getStatusOverview first_of fdiv fzero M now s =
     Build first_of fdiv fzero M now s"

section \<open>Monitor groups\<close>

definition tool_listMonitorGroups ::
  "'c mongo \<Rightarrow> int \<Rightarrow> string \<Rightarrow> 'c db \<Rightarrow>
    err + MonitorGroup list \<times> string" where
  "tool_listMonitorGroups M pageSize token s =
     ListMonitorGroups M pageSize token s"

definition tool_getMonitorGroup ::
  "'c mongo \<Rightarrow> string \<Rightarrow> 'c db \<Rightarrow>
    err + MonitorGroup" where
  "tool_getMonitorGroup M groupID s =
     map_sum mapErr id (GetMonitorGroup M groupID s)"

definition tool_listMonitorsByGroup ::
  "'c mongo \<Rightarrow> string \<Rightarrow> int \<Rightarrow> string \<Rightarrow> 'c db \<Rightarrow>
    err + Monitor list \<times> string" where
  "tool_listMonitorsByGroup M groupID pageSize token s =
     ListMonitorsByGroup M groupID pageSize token s"

text \<open>\<open>parse\<close> is \<open>time.Parse\<close> with the layout RFC 3339.\<close>

definition parseTime :: "(string \<Rightarrow> err + gotime) \<Rightarrow> string \<Rightarrow> err + gotime option" where
  "parseTime parse value = (if value = [] then Inr None else map_sum id Some (parse value))"

definition tool_listCheckResults ::
  "(string \<Rightarrow> err + gotime) \<Rightarrow> 'c mongo \<Rightarrow> string \<Rightarrow> string \<Rightarrow> string \<Rightarrow> string \<Rightarrow> int \<Rightarrow> string \<Rightarrow> 'c db \<Rightarrow>
    err + CheckResult list \<times> string" where
  "tool_listCheckResults parse M serverID monitorID startTime endTime pageSize token s =
     (case parseTime parse startTime of
        Inl e \<Rightarrow> Inl (Context ''invalid start_time'' e)
      | Inr start \<Rightarrow>
          (case parseTime parse endTime of
             Inl e \<Rightarrow> Inl (Context ''invalid end_time'' e)
           | Inr stop \<Rightarrow> ListCheckResults M serverID monitorID pageSize token start stop s))"

section \<open>Writes of servers and monitors\<close>

definition tool_createServer ::
  "'c mongo \<Rightarrow> gotime \<Rightarrow> string \<Rightarrow> Server \<Rightarrow> 'c db \<Rightarrow>
    (err + Server) \<times> 'c db" where
  "tool_createServer M now uuid server s =
     CreateServer M now uuid server s"

definition tool_updateServer ::
  "'c mongo \<Rightarrow> gotime \<Rightarrow> string \<Rightarrow> Server \<Rightarrow> 'c db \<Rightarrow>
    (err + Server) \<times> 'c db" where
  "tool_updateServer M now ident server s =
     tool_error (UpdateServer M now ident server s)"

definition tool_deleteServer ::
  "'c mongo \<Rightarrow> string \<Rightarrow> 'c db \<Rightarrow>
    (err + bool) \<times> 'c db" where
  "tool_deleteServer M ident s =
     and_then (tool_error (DeleteServer M ident s)) (\<lambda>_ s. (Inr True, s))"

definition tool_createMonitor ::
  "'c mongo \<Rightarrow> gotime \<Rightarrow> string \<Rightarrow> string \<Rightarrow> Monitor \<Rightarrow> 'c db \<Rightarrow>
    (err + Monitor) \<times> 'c db" where
  "tool_createMonitor M now uuid serverID monitor s =
     tool_error (CreateMonitor M now uuid serverID monitor s)"

definition tool_updateMonitor ::
  "'c mongo \<Rightarrow> gotime \<Rightarrow> string \<Rightarrow> string \<Rightarrow> Monitor \<Rightarrow> 'c db \<Rightarrow>
    (err + Monitor) \<times> 'c db" where
  "tool_updateMonitor M now serverID monitorID monitor s =
     tool_error (UpdateMonitor M now serverID monitorID monitor s)"

definition tool_deleteMonitor ::
  "'c mongo \<Rightarrow> string \<Rightarrow> string \<Rightarrow> 'c db \<Rightarrow>
    (err + bool) \<times> 'c db" where
  "tool_deleteMonitor M serverID monitorID s =
     and_then (tool_error (DeleteMonitor M serverID monitorID s)) (\<lambda>_ s. (Inr True, s))"

section \<open>Writes of monitor groups\<close>

definition tool_createMonitorGroup ::
  "'c mongo \<Rightarrow> gotime \<Rightarrow> string \<Rightarrow> MonitorGroup \<Rightarrow> 'c db \<Rightarrow>
    (err + MonitorGroup) \<times> 'c db" where
  "tool_createMonitorGroup M now uuid grp s =
     CreateMonitorGroup M now uuid grp s"

definition tool_updateMonitorGroup ::
  "'c mongo \<Rightarrow> gotime \<Rightarrow> string \<Rightarrow> MonitorGroup \<Rightarrow> 'c db \<Rightarrow>
    (err + MonitorGroup) \<times> 'c db" where
  "tool_updateMonitorGroup M now groupID grp s =
     tool_error (UpdateMonitorGroup M now groupID grp s)"

definition tool_deleteMonitorGroup ::
  "'c mongo \<Rightarrow> string \<Rightarrow> 'c db \<Rightarrow>
    (err + bool) \<times> 'c db" where
  "tool_deleteMonitorGroup M groupID s =
     and_then (tool_error (DeleteMonitorGroup M groupID s)) (\<lambda>_ s. (Inr True, s))"

section \<open>Notify groups\<close>

definition tool_listNotifyGroups ::
  "'c mongo \<Rightarrow> int \<Rightarrow> string \<Rightarrow> 'c db \<Rightarrow>
    err + NotifyGroup list \<times> string" where
  "tool_listNotifyGroups M pageSize token s =
     ListNotifyGroups M pageSize token s"

definition tool_getNotifyGroup ::
  "'c mongo \<Rightarrow> string \<Rightarrow> 'c db \<Rightarrow>
    err + NotifyGroup" where
  "tool_getNotifyGroup M groupID s =
     map_sum mapErr id (GetNotifyGroup M groupID s)"

definition tool_createNotifyGroup ::
  "'c mongo \<Rightarrow> gotime \<Rightarrow> string \<Rightarrow> NotifyGroup \<Rightarrow> 'c db \<Rightarrow>
    (err + NotifyGroup) \<times> 'c db" where
  "tool_createNotifyGroup M now uuid grp s =
     CreateNotifyGroup M now uuid grp s"

definition tool_updateNotifyGroup ::
  "'c mongo \<Rightarrow> gotime \<Rightarrow> string \<Rightarrow> NotifyGroup \<Rightarrow> 'c db \<Rightarrow>
    (err + NotifyGroup) \<times> 'c db" where
  "tool_updateNotifyGroup M now groupID grp s =
     tool_error (UpdateNotifyGroup M now groupID grp s)"

definition tool_deleteNotifyGroup ::
  "'c mongo \<Rightarrow> string \<Rightarrow> 'c db \<Rightarrow>
    (err + bool) \<times> 'c db" where
  "tool_deleteNotifyGroup M groupID s =
     and_then (tool_error (DeleteNotifyGroup M groupID s)) (\<lambda>_ s. (Inr True, s))"

section \<open>The registered tools\<close>

datatype tool_call =
    ToolListServers string "string list" int string
  | ToolGetServer string
  | ToolGetServerHealth string
  | ToolListServerEvents string int string
  | ToolListMonitors string int string
  | ToolGetMonitor string string
  | ToolGetMonitorUptime string string
  | ToolGetStatusOverview
  | ToolListMonitorGroups int string
  | ToolGetMonitorGroup string
  | ToolListMonitorsByGroup string int string
  | ToolListCheckResults string string string string int string
  | ToolCreateServer Server
  | ToolUpdateServer string Server
  | ToolDeleteServer string
  | ToolCreateMonitor string Monitor
  | ToolUpdateMonitor string string Monitor
  | ToolDeleteMonitor string string
  | ToolCreateMonitorGroup MonitorGroup
  | ToolUpdateMonitorGroup string MonitorGroup
  | ToolDeleteMonitorGroup string
  | ToolListNotifyGroups int string
  | ToolGetNotifyGroup string
  | ToolCreateNotifyGroup NotifyGroup
  | ToolUpdateNotifyGroup string NotifyGroup
  | ToolDeleteNotifyGroup string
  | ToolSshExec string string int
  | ToolSshTestConnection string

datatype 'f tool_output =
    OutServers "Server list \<times> string"
  | OutServer Server
  | OutHealth ServerHealth
  | OutEvents "ServerEvent list \<times> string"
  | OutMonitors "Monitor list \<times> string"
  | OutMonitor Monitor
  | OutUptime "'f MonitorUptime"
  | OutOverview "'f StatusGroup list"
  | OutResults "CheckResult list \<times> string"
  | OutGroups "MonitorGroup list \<times> string"
  | OutGroup MonitorGroup
  | OutNotifyGroups "NotifyGroup list \<times> string"
  | OutNotifyGroup NotifyGroup
  | OutDeleted bool
  | OutExec exec_response
  | OutTest test_response

fun tool_name :: "tool_call \<Rightarrow> string" where
  "tool_name (ToolListServers environment tags pageSize token) = ''list_servers''"
| "tool_name (ToolGetServer ident) = ''get_server''"
| "tool_name (ToolGetServerHealth ident) = ''get_server_health''"
| "tool_name (ToolListServerEvents serverID pageSize token) = ''list_server_events''"
| "tool_name (ToolListMonitors serverID pageSize token) = ''list_monitors''"
| "tool_name (ToolGetMonitor serverID monitorID) = ''get_monitor''"
| "tool_name (ToolGetMonitorUptime serverID monitorID) = ''get_monitor_uptime''"
| "tool_name ToolGetStatusOverview = ''get_status_overview''"
| "tool_name (ToolListMonitorGroups pageSize token) = ''list_monitor_groups''"
| "tool_name (ToolGetMonitorGroup groupID) = ''get_monitor_group''"
| "tool_name (ToolListMonitorsByGroup groupID pageSize token) = ''list_monitors_by_group''"
| "tool_name (ToolListCheckResults serverID monitorID startTime endTime pageSize token) = ''list_check_results''"
| "tool_name (ToolCreateServer server) = ''create_server''"
| "tool_name (ToolUpdateServer ident server) = ''update_server''"
| "tool_name (ToolDeleteServer ident) = ''delete_server''"
| "tool_name (ToolCreateMonitor serverID monitor) = ''create_monitor''"
| "tool_name (ToolUpdateMonitor serverID monitorID monitor) = ''update_monitor''"
| "tool_name (ToolDeleteMonitor serverID monitorID) = ''delete_monitor''"
| "tool_name (ToolCreateMonitorGroup grp) = ''create_monitor_group''"
| "tool_name (ToolUpdateMonitorGroup groupID grp) = ''update_monitor_group''"
| "tool_name (ToolDeleteMonitorGroup groupID) = ''delete_monitor_group''"
| "tool_name (ToolListNotifyGroups pageSize token) = ''list_notify_groups''"
| "tool_name (ToolGetNotifyGroup groupID) = ''get_notify_group''"
| "tool_name (ToolCreateNotifyGroup grp) = ''create_notify_group''"
| "tool_name (ToolUpdateNotifyGroup groupID grp) = ''update_notify_group''"
| "tool_name (ToolDeleteNotifyGroup groupID) = ''delete_notify_group''"
| "tool_name (ToolSshExec serverID command timeoutSeconds) = ''ssh_exec''"
| "tool_name (ToolSshTestConnection ident) = ''ssh_test_connection''"

text \<open>The fields of an input that are strings; those of a nested document are not found.\<close>

fun tool_input :: "tool_call \<Rightarrow> string \<rightharpoonup> string" where
  "tool_input (ToolListServers environment tags pageSize token) = [''Environment'' \<mapsto> environment, ''PageToken'' \<mapsto> token]"
| "tool_input (ToolGetServer ident) = [''ID'' \<mapsto> ident]"
| "tool_input (ToolGetServerHealth ident) = [''ID'' \<mapsto> ident]"
| "tool_input (ToolListServerEvents serverID pageSize token) = [''ServerID'' \<mapsto> serverID, ''PageToken'' \<mapsto> token]"
| "tool_input (ToolListMonitors serverID pageSize token) = [''ServerID'' \<mapsto> serverID, ''PageToken'' \<mapsto> token]"
| "tool_input (ToolGetMonitor serverID monitorID) = [''ServerID'' \<mapsto> serverID, ''MonitorID'' \<mapsto> monitorID]"
| "tool_input (ToolGetMonitorUptime serverID monitorID) = [''ServerID'' \<mapsto> serverID, ''MonitorID'' \<mapsto> monitorID]"
| "tool_input ToolGetStatusOverview = Map.empty"
| "tool_input (ToolListMonitorGroups pageSize token) = [''PageToken'' \<mapsto> token]"
| "tool_input (ToolGetMonitorGroup groupID) = [''GroupID'' \<mapsto> groupID]"
| "tool_input (ToolListMonitorsByGroup groupID pageSize token) = [''GroupID'' \<mapsto> groupID, ''PageToken'' \<mapsto> token]"
| "tool_input (ToolListCheckResults serverID monitorID startTime endTime pageSize token) = [''ServerID'' \<mapsto> serverID, ''MonitorID'' \<mapsto> monitorID, ''StartTime'' \<mapsto> startTime, ''EndTime'' \<mapsto> endTime, ''PageToken'' \<mapsto> token]"
| "tool_input (ToolCreateServer server) = Map.empty"
| "tool_input (ToolUpdateServer ident server) = [''ID'' \<mapsto> ident]"
| "tool_input (ToolDeleteServer ident) = [''ID'' \<mapsto> ident]"
| "tool_input (ToolCreateMonitor serverID monitor) = [''ServerID'' \<mapsto> serverID]"
| "tool_input (ToolUpdateMonitor serverID monitorID monitor) = [''ServerID'' \<mapsto> serverID, ''MonitorID'' \<mapsto> monitorID]"
| "tool_input (ToolDeleteMonitor serverID monitorID) = [''ServerID'' \<mapsto> serverID, ''MonitorID'' \<mapsto> monitorID]"
| "tool_input (ToolCreateMonitorGroup grp) = Map.empty"
| "tool_input (ToolUpdateMonitorGroup groupID grp) = [''GroupID'' \<mapsto> groupID]"
| "tool_input (ToolDeleteMonitorGroup groupID) = [''GroupID'' \<mapsto> groupID]"
| "tool_input (ToolListNotifyGroups pageSize token) = [''PageToken'' \<mapsto> token]"
| "tool_input (ToolGetNotifyGroup groupID) = [''NotifyGroupID'' \<mapsto> groupID]"
| "tool_input (ToolCreateNotifyGroup grp) = Map.empty"
| "tool_input (ToolUpdateNotifyGroup groupID grp) = [''NotifyGroupID'' \<mapsto> groupID]"
| "tool_input (ToolDeleteNotifyGroup groupID) = [''NotifyGroupID'' \<mapsto> groupID]"
| "tool_input (ToolSshExec serverID command timeoutSeconds) = [''ServerID'' \<mapsto> serverID, ''Command'' \<mapsto> command]"
| "tool_input (ToolSshTestConnection ident) = [''ID'' \<mapsto> ident]"

definition emits :: "('a \<Rightarrow> 'b) \<Rightarrow> (err + 'a) \<times> 's \<Rightarrow> (err + 'b) \<times> 's" where
  "emits f p = map_prod (map_sum id f) id p"

definition beside :: "'l \<Rightarrow> 'r \<times> 's \<Rightarrow> 'r \<times> 's \<times> 'l" where
  "beside log p = (fst p, (snd p, log))"

lemma snd_emits [simp]: "snd (emits f p) = snd p"
  by (simp add: emits_def)

lemma snd_beside [simp]: "snd (beside log p) = (snd p, log)"
  by (simp add: beside_def)

fun run_tool ::
  "(string \<Rightarrow> string) \<Rightarrow> (err list \<Rightarrow> err) \<Rightarrow> (int \<Rightarrow> int \<Rightarrow> 'f) \<Rightarrow> 'f \<Rightarrow> (string \<Rightarrow> err + gotime) \<Rightarrow> 'c mongo \<Rightarrow>
    (('k, 'h) connection \<Rightarrow> ssh_outcome) \<Rightarrow> ('k, 'h) Runner option \<Rightarrow> gotime \<Rightarrow> string \<Rightarrow> tool_call \<Rightarrow>
    'c db \<times> ('k, 'h) connection list \<Rightarrow> (err + 'f tool_output) \<times> 'c db \<times> ('k, 'h) connection list" where
  "run_tool q first_of fdiv fzero parse M ssh_net runner now uuid (ToolListServers environment tags pageSize token) (s, log) =
     beside log (emits OutServers (tool_listServers M environment tags pageSize token s, s))"
| "run_tool q first_of fdiv fzero parse M ssh_net runner now uuid (ToolGetServer ident) (s, log) =
     beside log (emits OutServer (tool_getServer M ident s, s))"
| "run_tool q first_of fdiv fzero parse M ssh_net runner now uuid (ToolGetServerHealth ident) (s, log) =
     beside log (emits OutHealth (tool_getServerHealth M now uuid ident s))"
| "run_tool q first_of fdiv fzero parse M ssh_net runner now uuid (ToolListServerEvents serverID pageSize token) (s, log) =
     beside log (emits OutEvents (tool_listServerEvents M serverID pageSize token s, s))"
| "run_tool q first_of fdiv fzero parse M ssh_net runner now uuid (ToolListMonitors serverID pageSize token) (s, log) =
     beside log (emits OutMonitors (tool_listMonitors M serverID pageSize token s, s))"
| "run_tool q first_of fdiv fzero parse M ssh_net runner now uuid (ToolGetMonitor serverID monitorID) (s, log) =
     beside log (emits OutMonitor (tool_getMonitor M serverID monitorID s, s))"
| "run_tool q first_of fdiv fzero parse M ssh_net runner now uuid (ToolGetMonitorUptime serverID monitorID) (s, log) =
     beside log (emits OutUptime (tool_getMonitorUptime fdiv fzero M now serverID monitorID s, s))"
| "run_tool q first_of fdiv fzero parse M ssh_net runner now uuid ToolGetStatusOverview (s, log) =
     beside log (emits OutOverview (tool_getStatusOverview first_of fdiv fzero M now s, s))"
| "run_tool q first_of fdiv fzero parse M ssh_net runner now uuid (ToolListMonitorGroups pageSize token) (s, log) =
     beside log (emits OutGroups (tool_listMonitorGroups M pageSize token s, s))"
| "run_tool q first_of fdiv fzero parse M ssh_net runner now uuid (ToolGetMonitorGroup groupID) (s, log) =
     beside log (emits OutGroup (tool_getMonitorGroup M groupID s, s))"
| "run_tool q first_of fdiv fzero parse M ssh_net runner now uuid (ToolListMonitorsByGroup groupID pageSize token) (s, log) =
     beside log (emits OutMonitors (tool_listMonitorsByGroup M groupID pageSize token s, s))"
| "run_tool q first_of fdiv fzero parse M ssh_net runner now uuid (ToolListCheckResults serverID monitorID startTime endTime pageSize token) (s, log) =
     beside log (emits OutResults (tool_listCheckResults parse M serverID monitorID startTime endTime pageSize token s, s))"
| "run_tool q first_of fdiv fzero parse M ssh_net runner now uuid (ToolCreateServer server) (s, log) =
     beside log (emits OutServer (tool_createServer M now uuid server s))"
| "run_tool q first_of fdiv fzero parse M ssh_net runner now uuid (ToolUpdateServer ident server) (s, log) =
     beside log (emits OutServer (tool_updateServer M now ident server s))"
| "run_tool q first_of fdiv fzero parse M ssh_net runner now uuid (ToolDeleteServer ident) (s, log) =
     beside log (emits OutDeleted (tool_deleteServer M ident s))"
| "run_tool q first_of fdiv fzero parse M ssh_net runner now uuid (ToolCreateMonitor serverID monitor) (s, log) =
     beside log (emits OutMonitor (tool_createMonitor M now uuid serverID monitor s))"
| "run_tool q first_of fdiv fzero parse M ssh_net runner now uuid (ToolUpdateMonitor serverID monitorID monitor) (s, log) =
     beside log (emits OutMonitor (tool_updateMonitor M now serverID monitorID monitor s))"
| "run_tool q first_of fdiv fzero parse M ssh_net runner now uuid (ToolDeleteMonitor serverID monitorID) (s, log) =
     beside log (emits OutDeleted (tool_deleteMonitor M serverID monitorID s))"
| "run_tool q first_of fdiv fzero parse M ssh_net runner now uuid (ToolCreateMonitorGroup grp) (s, log) =
     beside log (emits OutGroup (tool_createMonitorGroup M now uuid grp s))"
| "run_tool q first_of fdiv fzero parse M ssh_net runner now uuid (ToolUpdateMonitorGroup groupID grp) (s, log) =
     beside log (emits OutGroup (tool_updateMonitorGroup M now groupID grp s))"
| "run_tool q first_of fdiv fzero parse M ssh_net runner now uuid (ToolDeleteMonitorGroup groupID) (s, log) =
     beside log (emits OutDeleted (tool_deleteMonitorGroup M groupID s))"
| "run_tool q first_of fdiv fzero parse M ssh_net runner now uuid (ToolListNotifyGroups pageSize token) (s, log) =
     beside log (emits OutNotifyGroups (tool_listNotifyGroups M pageSize token s, s))"
| "run_tool q first_of fdiv fzero parse M ssh_net runner now uuid (ToolGetNotifyGroup groupID) (s, log) =
     beside log (emits OutNotifyGroup (tool_getNotifyGroup M groupID s, s))"
| "run_tool q first_of fdiv fzero parse M ssh_net runner now uuid (ToolCreateNotifyGroup grp) (s, log) =
     beside log (emits OutNotifyGroup (tool_createNotifyGroup M now uuid grp s))"
| "run_tool q first_of fdiv fzero parse M ssh_net runner now uuid (ToolUpdateNotifyGroup groupID grp) (s, log) =
     beside log (emits OutNotifyGroup (tool_updateNotifyGroup M now groupID grp s))"
| "run_tool q first_of fdiv fzero parse M ssh_net runner now uuid (ToolDeleteNotifyGroup groupID) (s, log) =
     beside log (emits OutDeleted (tool_deleteNotifyGroup M groupID s))"
| "run_tool q first_of fdiv fzero parse M ssh_net runner now uuid (ToolSshExec serverID command timeoutSeconds) w =
     emits OutExec (sshExec q M ssh_net runner serverID command timeoutSeconds w)"
| "run_tool q first_of fdiv fzero parse M ssh_net runner now uuid (ToolSshTestConnection ident) w =
     emits OutTest (sshTestConnection q M ssh_net runner ident w)"

text \<open>The tools over SSH are registered only with a runner.\<close>

definition registered :: "('k, 'h) Runner option \<Rightarrow> tool_call \<Rightarrow> bool" where
  "registered runner call =
     (case call of ToolSshExec _ _ _ \<Rightarrow> runner \<noteq> None | ToolSshTestConnection _ \<Rightarrow> runner \<noteq> None | _ \<Rightarrow> True)"

definition NewServer ::
  "(string \<Rightarrow> string) \<Rightarrow> (err list \<Rightarrow> err) \<Rightarrow> (int \<Rightarrow> int \<Rightarrow> 'f) \<Rightarrow> 'f \<Rightarrow> (string \<Rightarrow> err + gotime) \<Rightarrow> 'c mongo \<Rightarrow>
    (('k, 'h) connection \<Rightarrow> ssh_outcome) \<Rightarrow> ('k, 'h) Runner option \<Rightarrow> ('a, AuditLog) coll \<Rightarrow> string \<times> string \<Rightarrow> gotime \<Rightarrow>
    gotime \<Rightarrow> gotime \<Rightarrow> string \<Rightarrow> string \<Rightarrow> tool_call \<Rightarrow> ('c db \<times> ('k, 'h) connection list) \<times> 'a \<Rightarrow>
    ((err + 'f tool_output) \<times> ('c db \<times> ('k, 'h) connection list) \<times> 'a) option" where
  "NewServer q first_of fdiv fzero parse M ssh_net runner A context start now stop uuid auditId call state =
     (if registered runner call
      then Some (addAuditedTool q A (tool_name call)
        (run_tool q first_of fdiv fzero parse M ssh_net runner now uuid call) context (tool_input call) start stop auditId state)
      else None)"

section \<open>What a call is about\<close>

text \<open>The kind and the id of the resource that a call reads or changes.\<close>

fun tool_target :: "tool_call \<Rightarrow> (string \<times> string) option" where
  "tool_target (ToolGetServer ident) = Some (''server'', ident)"
| "tool_target (ToolGetServerHealth ident) = Some (''server'', ident)"
| "tool_target (ToolListServerEvents serverID pageSize token) = Some (''server'', serverID)"
| "tool_target (ToolGetMonitor serverID monitorID) = Some (''monitor'', monitorID)"
| "tool_target (ToolGetMonitorUptime serverID monitorID) = Some (''monitor'', monitorID)"
| "tool_target (ToolGetMonitorGroup groupID) = Some (''monitor_group'', groupID)"
| "tool_target (ToolUpdateServer ident server) = Some (''server'', ident)"
| "tool_target (ToolDeleteServer ident) = Some (''server'', ident)"
| "tool_target (ToolUpdateMonitor serverID monitorID monitor) = Some (''monitor'', monitorID)"
| "tool_target (ToolDeleteMonitor serverID monitorID) = Some (''monitor'', monitorID)"
| "tool_target (ToolUpdateMonitorGroup groupID grp) = Some (''monitor_group'', groupID)"
| "tool_target (ToolDeleteMonitorGroup groupID) = Some (''monitor_group'', groupID)"
| "tool_target (ToolGetNotifyGroup groupID) = Some (''notify_group'', groupID)"
| "tool_target (ToolUpdateNotifyGroup groupID grp) = Some (''notify_group'', groupID)"
| "tool_target (ToolDeleteNotifyGroup groupID) = Some (''notify_group'', groupID)"
| "tool_target (ToolSshExec serverID command timeoutSeconds) = Some (''ssh'', serverID)"
| "tool_target (ToolSshTestConnection ident) = Some (''ssh'', ident)"
| "tool_target _ = None"

section \<open>What a token of the endpoint is good for\<close>

lemma tool_ssh_state:
  "fst (snd (sshExec q M ssh_net runner serverID command timeoutSeconds (s, log))) = s"
  "fst (snd (sshTestConnection q M ssh_net runner serverID (s, log))) = s"
  by (simp_all add: sshExec_def sshTestConnection_def split: sum.split prod.split)

text \<open>
  What no call of a tool widens: a certificate stays as it is but for servers and groups that it may lose, and the
  access tokens of certificates only get fewer.
\<close>

definition cert_narrowed :: "ManagedCertificate \<Rightarrow> ManagedCertificate \<Rightarrow> bool" where
  "cert_narrowed x y \<longleftrightarrow> set (mc_ServerIDs y) \<subseteq> set (mc_ServerIDs x) \<and> set (mc_NotifyGroupIDs y) \<subseteq> set (mc_NotifyGroupIDs x) \<and>
     y = x\<lparr>mc_ServerIDs := mc_ServerIDs y, mc_NotifyGroupIDs := mc_NotifyGroupIDs y\<rparr>"

lemma cert_narrowed_same: "cert_narrowed x x"
  by (simp add: cert_narrowed_def)

lemma cert_narrowed_trans:
  assumes "cert_narrowed x y" and "cert_narrowed y z" shows "cert_narrowed x z"
proof -
  have "x\<lparr>mc_ServerIDs := mc_ServerIDs z, mc_NotifyGroupIDs := mc_NotifyGroupIDs z\<rparr> =
      y\<lparr>mc_ServerIDs := mc_ServerIDs z, mc_NotifyGroupIDs := mc_NotifyGroupIDs z\<rparr>"
    using assms(1) by (cases x; cases y) (simp add: cert_narrowed_def)
  with assms show ?thesis by (simp add: cert_narrowed_def) (meson subset_trans)
qed

interpretation cert_stems: stemming cert_narrowed "\<lambda>_. False"
  by unfold_locales (auto intro: cert_narrowed_same cert_narrowed_trans)

locale narrowing =
  certs: mongo_collection "managedCertificates M" cdocs managedCertificates_clash cok +
  toks: mongo_collection "certificateAccessTokens M" tdocs certificateAccessTokens_clash tok_ok
  for M :: "'c mongo" and cdocs :: "'c \<Rightarrow> ManagedCertificate multiset" and cok
    and tdocs :: "'c \<Rightarrow> CertificateAccessToken multiset" and tok_ok

context narrowing begin

definition narrowed :: "'c db \<Rightarrow> 'c db \<Rightarrow> bool" where
  "narrowed s t \<longleftrightarrow> cok (st_managedCertificates t) \<and> tok_ok (st_certificateAccessTokens t) \<and>
     st_mcpTokens t = st_mcpTokens s \<and> st_certificateIssuers t = st_certificateIssuers s \<and>
     st_dnsProviderAccounts t = st_dnsProviderAccounts s \<and> st_certificateOperations t = st_certificateOperations s \<and>
     tdocs (st_certificateAccessTokens t) \<subseteq># tdocs (st_certificateAccessTokens s) \<and>
     stems cert_narrowed (\<lambda>_. False) (cdocs (st_managedCertificates s)) (cdocs (st_managedCertificates t))"

lemma narrowed_refl: "cok (st_managedCertificates s) \<Longrightarrow> tok_ok (st_certificateAccessTokens s) \<Longrightarrow> narrowed s s"
  by (simp add: narrowed_def cert_stems.stems_refl)

lemma narrowed_then:
  assumes "narrowed s (snd p)" and "\<And>a. fst p = Inr a \<Longrightarrow> narrowed s (snd (k a (snd p)))"
  shows "narrowed s (snd (and_then p k))"
  using assms by (cases p; cases "fst p") auto

lemma narrowed_last: "narrowed s (snd p) \<Longrightarrow> narrowed s (snd (and_then p (\<lambda>a t. (f a, t))))"
  by (auto intro: narrowed_then)

lemma narrowed_wrappers:
  "narrowed s (snd p) \<Longrightarrow> narrowed s (snd (matched_or e p))" "narrowed s (snd p') \<Longrightarrow> narrowed s (snd (name_taken e p'))"
  by (auto simp: matched_or_def name_taken_def and_then_def split: sum.splits prod.splits)

lemma narrowed_elsewhere:
  assumes "narrowed s t"
  shows "narrowed s (snd (on_servers f t))" "narrowed s (snd (on_monitors f t))" "narrowed s (snd (on_results f t))"
    "narrowed s (snd (on_events f t))" "narrowed s (snd (on_groups f t))" "narrowed s (snd (on_notifyGroups f t))"
  using assms
  by (auto simp: narrowed_def on_servers_def on_monitors_def on_results_def on_events_def on_groups_def
      on_notifyGroups_def split: prod.splits)

lemma narrowed_delete_tokens:
  assumes "narrowed s t" shows "narrowed s (snd (on_certificateAccessTokens (DeleteMany (certificateAccessTokens M) P) t))"
proof -
  obtain r c where d: "DeleteMany (certificateAccessTokens M) P (st_certificateAccessTokens t) = (r, c)" by fastforce
  have ok: "tok_ok (st_certificateAccessTokens t)" using assms by (simp add: narrowed_def)
  have "tdocs c \<subseteq># tdocs (st_certificateAccessTokens t)"
    using ok d by (rule toks.delete_many_cases) simp
  then show ?thesis using assms toks.delete_many_ok [OF ok d] d
    by (auto simp: narrowed_def on_certificateAccessTokens_def intro: subset_mset.order_trans)
qed

lemma narrowed_pull:
  assumes "narrowed s t" and "\<And>c. cert_narrowed c (f c)"
  shows "narrowed s (snd (on_managedCertificates (UpdateMany (managedCertificates M) P f) t))"
proof -
  obtain r c where d: "UpdateMany (managedCertificates M) P f (st_managedCertificates t) = (r, c)" by fastforce
  have ok: "cok (st_managedCertificates t)"
    and st: "stems cert_narrowed (\<lambda>_. False) (cdocs (st_managedCertificates s)) (cdocs (st_managedCertificates t))"
    using assms by (simp_all add: narrowed_def)
  have "stems cert_narrowed (\<lambda>_. False) (cdocs (st_managedCertificates s)) (cdocs c)"
    using ok d
  proof (rule certs.many_cases)
    fix A assume A: "A \<subseteq># filter_mset P (cdocs (st_managedCertificates t))"
      "cdocs c = image_mset f A + (cdocs (st_managedCertificates t) - A)"
    have "A \<subseteq># cdocs (st_managedCertificates t)" by (rule subset_mset.order_trans [OF A(1) multiset_filter_subset])
    with st A(2) show ?thesis using cert_stems.stems_many assms(2) by simp
  qed
  then show ?thesis using assms certs.many_ok [OF ok d] d by (simp add: narrowed_def on_managedCertificates_def)
qed

lemmas narrowed_writes = narrowed_last narrowed_then narrowed_wrappers narrowed_elsewhere narrowed_delete_tokens
  narrowed_pull

lemma narrowed_servers:
  assumes "narrowed s t"
  shows "narrowed s (snd (CreateServer M now uuid x t))" "narrowed s (snd (UpdateServer M now i x t))"
    "narrowed s (snd (DeleteServer M i t))" "narrowed s (snd (GetServerHealth M now uuid i t))"
proof -
  show "narrowed s (snd (CreateServer M now uuid x t))" "narrowed s (snd (UpdateServer M now i x t))"
    using assms unfolding CreateServer_def UpdateServer_def Let_def by (intro narrowed_writes; simp)+
  show "narrowed s (snd (DeleteServer M i t))"
    using assms
    unfolding DeleteServer_def DeleteCertificateAccessTokensByServer_def RemoveServerFromManagedCertificates_def
    by (intro narrowed_writes) (auto simp: cert_narrowed_def pull_def)
  show "narrowed s (snd (GetServerHealth M now uuid i t))"
    using assms unfolding GetServerHealth_def Let_def
    by (intro narrowed_then) (simp_all add: case_prod_unfold narrowed_elsewhere)
qed

lemma narrowed_monitors:
  assumes "narrowed s t"
  shows "narrowed s (snd (CreateMonitor M now uuid sid m t))" "narrowed s (snd (UpdateMonitor M now sid mid m t))"
    "narrowed s (snd (DeleteMonitor M sid mid t))"
    "narrowed s (snd (CreateMonitorGroup M now uuid g t))" "narrowed s (snd (UpdateMonitorGroup M now i g t))"
    "narrowed s (snd (DeleteMonitorGroup M i t))"
    "narrowed s (snd (CreateNotifyGroup M now uuid n t))" "narrowed s (snd (UpdateNotifyGroup M now i n t))"
    "narrowed s (snd (DeleteNotifyGroup M i t))"
  using assms
  unfolding CreateMonitor_def UpdateMonitor_def DeleteMonitor_def CreateMonitorGroup_def UpdateMonitorGroup_def
    DeleteMonitorGroup_def CreateNotifyGroup_def UpdateNotifyGroup_def DeleteNotifyGroup_def Let_def
  by (intro narrowed_writes; auto simp: cert_narrowed_def pull_def)+

end

context narrowing begin

lemma narrowed_run:
  assumes "narrowed s (fst w)"
  shows "narrowed s (fst (snd (run_tool q first_of fdiv fzero parse M ssh_net runner now uuid call w)))"
  using assms
  by (cases w; cases call)
    (simp_all add: tool_getServerHealth_def tool_createServer_def tool_updateServer_def tool_deleteServer_def tool_createMonitor_def
      tool_updateMonitor_def tool_deleteMonitor_def tool_createMonitorGroup_def tool_updateMonitorGroup_def
      tool_deleteMonitorGroup_def tool_createNotifyGroup_def tool_updateNotifyGroup_def tool_deleteNotifyGroup_def
      narrowed_servers narrowed_monitors narrowed_last tool_ssh_state)

end

text \<open>The names of the tools and of the fields agree with what a call is about.\<close>

lemma named_kinds:
  "mcpResourceType ''get_server'' = ''server''"
  "mcpResourceType ''get_server_health'' = ''server''"
  "mcpResourceType ''update_server'' = ''server''"
  "mcpResourceType ''delete_server'' = ''server''"
  "mcpResourceType ''list_server_events'' = ''server''"
  "mcpResourceType ''get_monitor'' = ''monitor''"
  "mcpResourceType ''get_monitor_uptime'' = ''monitor''"
  "mcpResourceType ''update_monitor'' = ''monitor''"
  "mcpResourceType ''delete_monitor'' = ''monitor''"
  "mcpResourceType ''get_monitor_group'' = ''monitor_group''"
  "mcpResourceType ''update_monitor_group'' = ''monitor_group''"
  "mcpResourceType ''delete_monitor_group'' = ''monitor_group''"
  "mcpResourceType ''get_notify_group'' = ''notify_group''"
  "mcpResourceType ''update_notify_group'' = ''notify_group''"
  "mcpResourceType ''delete_notify_group'' = ''notify_group''"
  "mcpResourceType ''ssh_exec'' = ''ssh''"
  "mcpResourceType ''ssh_test_connection'' = ''ssh''"
  by code_simp+

lemma target_table:
  "case tool_target call of None \<Rightarrow> True
   | Some (kind, ident) \<Rightarrow> mcpResourceType (tool_name call) = kind \<and> (ident \<noteq> [] \<longrightarrow> resourceID (tool_input call) = ident)"
  by (cases call) (simp_all add: named_kinds resourceID_def)

lemma target_named:
  "tool_target call = Some (kind, ident) \<Longrightarrow> ident \<noteq> [] \<Longrightarrow>
    mcpResourceType (tool_name call) = kind \<and> resourceID (tool_input call) = ident"
  using target_table [of call] by auto

interpretation mem_narrowing: narrowing mem_mongo "mem_docs un_DCert" "mem_ok managedCertificates_clash un_DCert"
  "mem_docs un_DToken" "mem_ok certificateAccessTokens_clash un_DToken"
  by unfold_locales

text \<open>A request with the values that the clock and the random source give to it.\<close>

record tool_request =
  tr_context :: "string \<times> string"
  tr_start :: gotime
  tr_now :: gotime
  tr_stop :: gotime
  tr_uuid :: string
  tr_auditId :: string
  tr_call :: tool_call

definition serve_tool ::
  "(string \<Rightarrow> string) \<Rightarrow> (err list \<Rightarrow> err) \<Rightarrow> (int \<Rightarrow> int \<Rightarrow> 'f) \<Rightarrow> 'f \<Rightarrow> (string \<Rightarrow> err + gotime) \<Rightarrow> 'c mongo \<Rightarrow>
    (('k, 'h) connection \<Rightarrow> ssh_outcome) \<Rightarrow> ('k, 'h) Runner option \<Rightarrow> ('a, AuditLog) coll \<Rightarrow> tool_request \<Rightarrow>
    ('c db \<times> ('k, 'h) connection list) \<times> 'a \<Rightarrow> ('c db \<times> ('k, 'h) connection list) \<times> 'a" where
  "serve_tool q first_of fdiv fzero parse M ssh_net runner A rq state =
     (case NewServer q first_of fdiv fzero parse M ssh_net runner A (tr_context rq) (tr_start rq) (tr_now rq) (tr_stop rq)
        (tr_uuid rq) (tr_auditId rq) (tr_call rq) state of
        None \<Rightarrow> state
      | Some (res, state') \<Rightarrow> state')"

lemma new_server_result:
  assumes "NewServer q first_of fdiv fzero parse M ssh_net runner A context start now stop uuid auditId call (w, a) = Some (res, (w', a'))"
  shows "run_tool q first_of fdiv fzero parse M ssh_net runner now uuid call w = (res, w')"
    and "a' = snd (SaveAuditLog A stop auditId (mcp_entry q context (tool_name call) (tool_input call) start stop
      (case res of Inl e \<Rightarrow> Some e | Inr _ \<Rightarrow> None)) a)"
  using assms by (auto simp: NewServer_def addAuditedTool_def Let_def split: if_splits prod.splits)

context narrowing begin

lemma narrowed_serve:
  assumes "narrowed s (fst (fst state))"
  shows "narrowed s (fst (fst (serve_tool q first_of fdiv fzero parse M ssh_net runner A rq state)))"
proof (cases "NewServer q first_of fdiv fzero parse M ssh_net runner A (tr_context rq) (tr_start rq) (tr_now rq) (tr_stop rq)
    (tr_uuid rq) (tr_auditId rq) (tr_call rq) state")
  case (Some y)
  obtain w a res w' a' where "state = (w, a)" "y = (res, (w', a'))" by (metis surj_pair)
  with Some have "run_tool q first_of fdiv fzero parse M ssh_net runner (tr_now rq) (tr_uuid rq) (tr_call rq) w = (res, w')"
    using new_server_result(1) by metis
  moreover have "narrowed s (fst w)" using assms \<open>state = _\<close> by simp
  ultimately have "narrowed s (fst w')" using narrowed_run by (metis snd_conv)
  then show ?thesis using Some \<open>y = _\<close> by (simp add: serve_tool_def)
qed (use assms in \<open>simp add: serve_tool_def\<close>)

lemma narrowed_session:
  "narrowed s (fst (fst state)) \<Longrightarrow> narrowed s (fst (fst (fold (serve_tool q first_of fdiv fzero parse M ssh_net runner A) rqs state)))"
  by (induction rqs arbitrary: state) (simp_all add: narrowed_serve)

end

section \<open>Properties\<close>

text \<open>
  C38: a token of the MCP endpoint does not widen any access: whatever sequence of tools is called, the
  MCP tokens, issuers, DNS accounts and operations stay as they are, no access token for certificates
  appears, and every certificate keeps everything but servers and notify groups, of which it gains none.
\<close>

theorem mcp_tools_widen_no_access:
  assumes "narrowing M cdocs cok tdocs tok_ok" and "cok (st_managedCertificates s)" and "tok_ok (st_certificateAccessTokens s)"
    and "fold (serve_tool q first_of fdiv fzero parse M ssh_net runner A) rqs ((s, log), a) = ((s', log'), a')"
  shows "st_mcpTokens s' = st_mcpTokens s \<and> st_certificateIssuers s' = st_certificateIssuers s \<and>
    st_dnsProviderAccounts s' = st_dnsProviderAccounts s \<and> st_certificateOperations s' = st_certificateOperations s \<and>
    tdocs (st_certificateAccessTokens s') \<subseteq># tdocs (st_certificateAccessTokens s) \<and>
    (\<forall>x \<in># cdocs (st_managedCertificates s'). \<exists>y \<in># cdocs (st_managedCertificates s).
       set (mc_ServerIDs x) \<subseteq> set (mc_ServerIDs y) \<and> set (mc_NotifyGroupIDs x) \<subseteq> set (mc_NotifyGroupIDs y) \<and>
       x = y\<lparr>mc_ServerIDs := mc_ServerIDs x, mc_NotifyGroupIDs := mc_NotifyGroupIDs x\<rparr>)"
proof -
  have "narrowing.narrowed cdocs cok tdocs tok_ok s s'"
    using narrowing.narrowed_session [OF assms(1), where s = s and state = "((s, log), a)"]
      narrowing.narrowed_refl [OF assms(1-3)] assms(4) by (metis fst_conv)
  then show ?thesis
    unfolding narrowing.narrowed_def [OF assms(1)] stems_def cert_narrowed_def by blast
qed

text \<open>
  The audit log says what a tool was used on: the entry of a call that reads, changes or reaches one
  resource carries the tool's name, the kind and the id of that resource, whether the call succeeded
  and, for a command over SSH, the command.
\<close>

theorem mcp_audit_names_resource:
  assumes "audit_store A adocs aok" and "aok a" and "start \<noteq> zero_time"
    and "NewServer q first_of fdiv fzero parse M ssh_net runner A context start now stop uuid auditId call (w, a) =
      Some (res, (w', a'))"
    and "tool_target call = Some (kind, ident)" and "ident \<noteq> []"
  shows "\<exists>x. InsertOne A x a = (fst (InsertOne A x a), a') \<and>
    (fst (InsertOne A x a) = Inr () \<longrightarrow> adocs a' = add_mset x (adocs a)) \<and>
    aud_Action x = tool_name call \<and> aud_ResourceType x = kind \<and> aud_ResourceID x = ident \<and>
    (aud_Success x \<longleftrightarrow> (\<exists>v. res = Inr v)) \<and> aud_TokenPrefix x = snd context \<and>
    (\<forall>i c t. call = ToolSshExec i c t \<and> c \<noteq> [] \<and> length c \<le> 500 \<longrightarrow> aud_Metadata x ''command'' = Some c)"
proof -
  define e where "e = mcp_entry q context (tool_name call) (tool_input call) start stop (case res of Inl e \<Rightarrow> Some e | Inr _ \<Rightarrow> None)"
  define x where "x = e\<lparr>aud_ID := ''aud_'' @ auditId\<rparr>"
  obtain saved where save: "SaveAuditLog A stop auditId e a = (saved, a')"
    using new_server_result(2) [OF assms(4)] by (metis e_def prod.collapse)
  have e: "aud_ID e = []" "aud_OccurredAt e \<noteq> zero_time" using assms(3) by (simp_all add: e_def mcp_entry_def)
  then have ins: "InsertOne A x a = (saved, a')" using save by (simp add: SaveAuditLog_def x_def)
  have "mcpResourceType (tool_name call) = kind \<and> resourceID (tool_input call) = ident"
    using assms(5,6) by (rule target_named)
  moreover have "aud_Metadata x ''command'' = Some c" if "call = ToolSshExec i c t" "c \<noteq> []" "length c \<le> 500" for i c t
    using that by (simp add: x_def e_def mcp_entry_def commandField_def)
  moreover have "aud_Action x = tool_name call" "aud_Success x \<longleftrightarrow> (\<exists>v. res = Inr v)" "aud_TokenPrefix x = snd context"
    "aud_ResourceType x = mcpResourceType (tool_name call)" "aud_ResourceID x = resourceID (tool_input call)"
    by (cases res; simp add: x_def e_def mcp_entry_def)+
  ultimately show ?thesis
    using ins audit_store.save_audit_log [OF assms(1,2) save e, folded x_def]
    by (intro exI [of _ x]) auto
qed

definition sample_tool_db :: "doc list db" where
  "sample_tool_db = (sample_db [(sample_cert None None)\<lparr>mc_ServerIDs := [''srv_1'', ''srv_2'']\<rparr>] [])\<lparr>st_servers := [DServer sample_srv],
     st_mcpTokens := st_mcpTokens sample_mcp_db\<rparr>"

definition sample_tool_request :: tool_request where
  "sample_tool_request = \<lparr>tr_context = (''env'', ''se''), tr_start = 0, tr_now = 0, tr_stop = 0, tr_uuid = ''u'', tr_auditId = ''v'',
     tr_call = ToolDeleteServer ''srv_1''\<rparr>"

lemma sample_tool_ok:
  "mem_ok managedCertificates_clash un_DCert (st_managedCertificates sample_tool_db)"
  "mem_ok certificateAccessTokens_clash un_DToken (st_certificateAccessTokens sample_tool_db)"
  by (simp_all add: sample_tool_db_def sample_db_def empty_db_def)

abbreviation sample_serve :: "(doc list db \<times> (unit, unit) connection list) \<times> AuditLog list \<Rightarrow>
    (doc list db \<times> (unit, unit) connection list) \<times> AuditLog list" where
  "sample_serve \<equiv> fold (serve_tool (\<lambda>x. x) hd (\<lambda>x y. x div y) (0 :: int) (\<lambda>_. Inr 0) mem_mongo (\<lambda>_. Ran [] [] Clean) None mem_audit)
    [sample_tool_request]"

text \<open>Deleting a server takes it off the certificate, and leaves the token of the endpoint.\<close>

theorem mcp_tools_widen_no_access_witness:
  "\<exists>s' log' a'. sample_serve ((sample_tool_db, []), []) = ((s', log'), a') \<and> length (st_mcpTokens s') = 1 \<and>
     (\<exists>x. mem_docs un_DCert (st_managedCertificates s') = {#x#} \<and> mc_ServerIDs x = [''srv_2''] \<and> mc_Name x = ''web'')"
proof -
  obtain s' log' a' where run: "sample_serve ((sample_tool_db, []), []) = ((s', log'), a')" by (metis surj_pair)
  have "\<exists>x. mem_docs un_DCert (st_managedCertificates (fst (fst (sample_serve ((sample_tool_db, []), []))))) = {#x#} \<and>
      mc_ServerIDs x = [''srv_2''] \<and> mc_Name x = ''web''"
    by (simp add: serve_tool_def NewServer_def registered_def addAuditedTool_def sample_tool_request_def tool_deleteServer_def
        tool_error_def DeleteServer_def sample_tool_db_def sample_db_def empty_db_def sample_srv_def sample_cert_def
        DeleteCertificateAccessTokensByServer_def RemoveServerFromManagedCertificates_def pull_def mem_eval
        extract_Cons_code emits_def beside_def on_servers_def on_monitors_def on_results_def on_events_def
        on_certificateAccessTokens_def managedCertificates_clash_def Let_def)
  moreover have "st_mcpTokens s' = st_mcpTokens sample_tool_db"
    using mcp_tools_widen_no_access [OF mem_narrowing.narrowing_axioms sample_tool_ok run] by blast
  ultimately show ?thesis using run by (simp add: sample_tool_db_def sample_mcp_db_def)
qed

theorem mcp_audit_names_resource_witness:
  "\<exists>x w'. NewServer (\<lambda>x. x) hd (\<lambda>x y. x div y) (0 :: int) (\<lambda>_. Inr 0) mem_mongo (\<lambda>_ :: (unit, unit) connection. Ran [] [] Clean) None
      mem_audit (''env'', ''se'') 0 0 0 ''u'' ''v'' (ToolDeleteServer ''srv_1'') ((sample_tool_db, []), []) =
      Some (Inr (OutDeleted True), (w', [x])) \<and>
    aud_Action x = ''delete_server'' \<and> aud_ResourceType x = ''server'' \<and> aud_ResourceID x = ''srv_1''"
proof -
  let ?r = "NewServer (\<lambda>x. x) hd (\<lambda>x y. x div y) (0 :: int) (\<lambda>_. Inr 0) mem_mongo (\<lambda>_ :: (unit, unit) connection. Ran [] [] Clean) None
      mem_audit (''env'', ''se'') 0 0 0 ''u'' ''v'' (ToolDeleteServer ''srv_1'') ((sample_tool_db, []), [])"
  have "\<exists>w' x. ?r = Some (Inr (OutDeleted True), (w', [x]))"
    by (simp add: NewServer_def registered_def addAuditedTool_def tool_deleteServer_def SaveAuditLog_def mcp_entry_def zero_time_def
        tool_error_def DeleteServer_def sample_tool_db_def sample_db_def empty_db_def sample_srv_def sample_cert_def
        DeleteCertificateAccessTokensByServer_def RemoveServerFromManagedCertificates_def pull_def mem_eval
        extract_Cons_code emits_def beside_def on_servers_def on_monitors_def on_results_def on_events_def
        on_certificateAccessTokens_def managedCertificates_clash_def Let_def)
  then obtain w' x where run: "?r = Some (Inr (OutDeleted True), (w', [x]))" by blast
  have start: "(0 :: gotime) \<noteq> zero_time" by (simp add: zero_time_def)
  have ok: "mem_ok audit_clash Some []" by simp
  have target: "tool_target (ToolDeleteServer ''srv_1'') = Some (''server'', ''srv_1'')" by simp
  obtain y where y: "InsertOne mem_audit y [] = (fst (InsertOne mem_audit y []), [x])"
    "aud_Action y = ''delete_server''" "aud_ResourceType y = ''server''" "aud_ResourceID y = ''srv_1''"
    using mcp_audit_names_resource [OF mem_audit.audit_store_axioms ok start run target] by auto
  then have "y = x" by (simp add: mem_coll_def)
  with run y show ?thesis by blast
qed

text \<open>
  The tools take documents of the store, not messages: \<open>update_server\<close> sets the health that its input
  claims, and \<open>create_server\<close> also the time of the last check.
\<close>

lemma tool_error_Inr: "tool_error p = (Inr x, s) \<longleftrightarrow> p = (Inr x, s)"
  by (cases p; cases "fst p") (auto simp: tool_error_def)

lemma update_tool_forges_health:
  "tool_updateServer M now i server s = (Inr x, s') \<Longrightarrow> srv_HealthStatus server \<noteq> [] \<Longrightarrow>
    srv_HealthStatus x = srv_HealthStatus server"
  by (auto simp: tool_updateServer_def tool_error_Inr UpdateServer_def and_then_eq_iff Let_def)

text \<open>The entries of two tools on the monitors of a server name the server as a monitor.\<close>

lemma audit_names_server_as_monitor:
  "mcpResourceType (tool_name (ToolCreateMonitor serverID m)) = ''monitor''"
  "resourceID (tool_input (ToolCreateMonitor serverID m)) = serverID"
  "mcpResourceType (tool_name (ToolListMonitors serverID pageSize token)) = ''monitor''"
  "resourceID (tool_input (ToolListMonitors serverID pageSize token)) = serverID"
proof -
  show "mcpResourceType (tool_name (ToolCreateMonitor serverID m)) = ''monitor''"
    "mcpResourceType (tool_name (ToolListMonitors serverID pageSize token)) = ''monitor''"
    unfolding tool_name.simps by code_simp+
qed (cases serverID; simp add: resourceID_def)+

end
