(* ===== verification/Routes.thy ===== *)
theory Routes
  imports Access Notify
begin

text \<open>
  The services of pkg/proto/neoline/v1/neolinev1connect, as protoc-gen-connect-go has generated them: the
  methods of a service and their procedures, the client, which holds the URL of each method, and the
  handler, which is mounted on a path and selects the method by the path of the request. The wire
  formats are the library's.
\<close>

section \<open>AuthService\<close>

datatype AuthServiceHandler =
    Auth_Login
  | Auth_Logout
  | Auth_GetCurrentUser

definition AuthServiceName :: string where
  "AuthServiceName = ''neoline.v1.AuthService''"

fun AuthServiceProcedure :: "AuthServiceHandler \<Rightarrow> string" where
  "AuthServiceProcedure Auth_Login = ''/neoline.v1.AuthService/Login''"
| "AuthServiceProcedure Auth_Logout = ''/neoline.v1.AuthService/Logout''"
| "AuthServiceProcedure Auth_GetCurrentUser = ''/neoline.v1.AuthService/GetCurrentUser''"

record authServiceClient =
  authClient_login :: string
  authClient_logout :: string
  authClient_getCurrentUser :: string

definition NewAuthServiceClient :: "string \<Rightarrow> authServiceClient" where
  "NewAuthServiceClient baseURL =
     (let baseURL = trim_right_slashes baseURL in
      \<lparr>authClient_login = baseURL @ AuthServiceProcedure Auth_Login,
       authClient_logout = baseURL @ AuthServiceProcedure Auth_Logout,
       authClient_getCurrentUser = baseURL @ AuthServiceProcedure Auth_GetCurrentUser\<rparr>)"

fun authServiceClient_call :: "authServiceClient \<Rightarrow> AuthServiceHandler \<Rightarrow> string" where
  "authServiceClient_call c Auth_Login = authClient_login c"
| "authServiceClient_call c Auth_Logout = authClient_logout c"
| "authServiceClient_call c Auth_GetCurrentUser = authClient_getCurrentUser c"

definition NewAuthServiceHandler :: "string \<times> (string \<Rightarrow> AuthServiceHandler option)" where
  "NewAuthServiceHandler =
     (''/neoline.v1.AuthService/'', \<lambda>path.
        if path = AuthServiceProcedure Auth_Login then Some Auth_Login
        else if path = AuthServiceProcedure Auth_Logout then Some Auth_Logout
        else if path = AuthServiceProcedure Auth_GetCurrentUser then Some Auth_GetCurrentUser
        else None)"

fun UnimplementedAuthServiceHandler :: "AuthServiceHandler \<Rightarrow> connect_error" where
  "UnimplementedAuthServiceHandler Auth_Login = NewError CodeUnimplemented ''neoline.v1.AuthService.Login is not implemented''"
| "UnimplementedAuthServiceHandler Auth_Logout = NewError CodeUnimplemented ''neoline.v1.AuthService.Logout is not implemented''"
| "UnimplementedAuthServiceHandler Auth_GetCurrentUser = NewError CodeUnimplemented ''neoline.v1.AuthService.GetCurrentUser is not implemented''"

section \<open>AuditLogService\<close>

datatype AuditLogServiceHandler =
    AuditLog_ListAuditLogs

definition AuditLogServiceName :: string where
  "AuditLogServiceName = ''neoline.v1.AuditLogService''"

fun AuditLogServiceProcedure :: "AuditLogServiceHandler \<Rightarrow> string" where
  "AuditLogServiceProcedure AuditLog_ListAuditLogs = ''/neoline.v1.AuditLogService/ListAuditLogs''"

record auditLogServiceClient =
  auditLogClient_listAuditLogs :: string

definition NewAuditLogServiceClient :: "string \<Rightarrow> auditLogServiceClient" where
  "NewAuditLogServiceClient baseURL =
     (let baseURL = trim_right_slashes baseURL in
      \<lparr>auditLogClient_listAuditLogs = baseURL @ AuditLogServiceProcedure AuditLog_ListAuditLogs\<rparr>)"

fun auditLogServiceClient_call :: "auditLogServiceClient \<Rightarrow> AuditLogServiceHandler \<Rightarrow> string" where
  "auditLogServiceClient_call c AuditLog_ListAuditLogs = auditLogClient_listAuditLogs c"

definition NewAuditLogServiceHandler :: "string \<times> (string \<Rightarrow> AuditLogServiceHandler option)" where
  "NewAuditLogServiceHandler =
     (''/neoline.v1.AuditLogService/'', \<lambda>path.
        if path = AuditLogServiceProcedure AuditLog_ListAuditLogs then Some AuditLog_ListAuditLogs
        else None)"

fun UnimplementedAuditLogServiceHandler :: "AuditLogServiceHandler \<Rightarrow> connect_error" where
  "UnimplementedAuditLogServiceHandler AuditLog_ListAuditLogs = NewError CodeUnimplemented ''neoline.v1.AuditLogService.ListAuditLogs is not implemented''"

section \<open>SettingsService\<close>

datatype SettingsServiceHandler =
    Settings_GetSettings
  | Settings_UpdateSettings

definition SettingsServiceName :: string where
  "SettingsServiceName = ''neoline.v1.SettingsService''"

fun SettingsServiceProcedure :: "SettingsServiceHandler \<Rightarrow> string" where
  "SettingsServiceProcedure Settings_GetSettings = ''/neoline.v1.SettingsService/GetSettings''"
| "SettingsServiceProcedure Settings_UpdateSettings = ''/neoline.v1.SettingsService/UpdateSettings''"

record settingsServiceClient =
  settingsClient_getSettings :: string
  settingsClient_updateSettings :: string

definition NewSettingsServiceClient :: "string \<Rightarrow> settingsServiceClient" where
  "NewSettingsServiceClient baseURL =
     (let baseURL = trim_right_slashes baseURL in
      \<lparr>settingsClient_getSettings = baseURL @ SettingsServiceProcedure Settings_GetSettings,
       settingsClient_updateSettings = baseURL @ SettingsServiceProcedure Settings_UpdateSettings\<rparr>)"

fun settingsServiceClient_call :: "settingsServiceClient \<Rightarrow> SettingsServiceHandler \<Rightarrow> string" where
  "settingsServiceClient_call c Settings_GetSettings = settingsClient_getSettings c"
| "settingsServiceClient_call c Settings_UpdateSettings = settingsClient_updateSettings c"

definition NewSettingsServiceHandler :: "string \<times> (string \<Rightarrow> SettingsServiceHandler option)" where
  "NewSettingsServiceHandler =
     (''/neoline.v1.SettingsService/'', \<lambda>path.
        if path = SettingsServiceProcedure Settings_GetSettings then Some Settings_GetSettings
        else if path = SettingsServiceProcedure Settings_UpdateSettings then Some Settings_UpdateSettings
        else None)"

fun UnimplementedSettingsServiceHandler :: "SettingsServiceHandler \<Rightarrow> connect_error" where
  "UnimplementedSettingsServiceHandler Settings_GetSettings = NewError CodeUnimplemented ''neoline.v1.SettingsService.GetSettings is not implemented''"
| "UnimplementedSettingsServiceHandler Settings_UpdateSettings = NewError CodeUnimplemented ''neoline.v1.SettingsService.UpdateSettings is not implemented''"

section \<open>StatusService\<close>

datatype StatusServiceHandler =
    Status_GetStatusOverview

definition StatusServiceName :: string where
  "StatusServiceName = ''neoline.v1.StatusService''"

fun StatusServiceProcedure :: "StatusServiceHandler \<Rightarrow> string" where
  "StatusServiceProcedure Status_GetStatusOverview = ''/neoline.v1.StatusService/GetStatusOverview''"

record statusServiceClient =
  statusClient_getStatusOverview :: string

definition NewStatusServiceClient :: "string \<Rightarrow> statusServiceClient" where
  "NewStatusServiceClient baseURL =
     (let baseURL = trim_right_slashes baseURL in
      \<lparr>statusClient_getStatusOverview = baseURL @ StatusServiceProcedure Status_GetStatusOverview\<rparr>)"

fun statusServiceClient_call :: "statusServiceClient \<Rightarrow> StatusServiceHandler \<Rightarrow> string" where
  "statusServiceClient_call c Status_GetStatusOverview = statusClient_getStatusOverview c"

definition NewStatusServiceHandler :: "string \<times> (string \<Rightarrow> StatusServiceHandler option)" where
  "NewStatusServiceHandler =
     (''/neoline.v1.StatusService/'', \<lambda>path.
        if path = StatusServiceProcedure Status_GetStatusOverview then Some Status_GetStatusOverview
        else None)"

fun UnimplementedStatusServiceHandler :: "StatusServiceHandler \<Rightarrow> connect_error" where
  "UnimplementedStatusServiceHandler Status_GetStatusOverview = NewError CodeUnimplemented ''neoline.v1.StatusService.GetStatusOverview is not implemented''"

section \<open>ServerService\<close>

datatype ServerServiceHandler =
    Server_ListServers
  | Server_CreateServer
  | Server_GetServer
  | Server_UpdateServer
  | Server_DeleteServer
  | Server_GetServerHealth
  | Server_ListServerEvents

definition ServerServiceName :: string where
  "ServerServiceName = ''neoline.v1.ServerService''"

fun ServerServiceProcedure :: "ServerServiceHandler \<Rightarrow> string" where
  "ServerServiceProcedure Server_ListServers = ''/neoline.v1.ServerService/ListServers''"
| "ServerServiceProcedure Server_CreateServer = ''/neoline.v1.ServerService/CreateServer''"
| "ServerServiceProcedure Server_GetServer = ''/neoline.v1.ServerService/GetServer''"
| "ServerServiceProcedure Server_UpdateServer = ''/neoline.v1.ServerService/UpdateServer''"
| "ServerServiceProcedure Server_DeleteServer = ''/neoline.v1.ServerService/DeleteServer''"
| "ServerServiceProcedure Server_GetServerHealth = ''/neoline.v1.ServerService/GetServerHealth''"
| "ServerServiceProcedure Server_ListServerEvents = ''/neoline.v1.ServerService/ListServerEvents''"

record serverServiceClient =
  serverClient_listServers :: string
  serverClient_createServer :: string
  serverClient_getServer :: string
  serverClient_updateServer :: string
  serverClient_deleteServer :: string
  serverClient_getServerHealth :: string
  serverClient_listServerEvents :: string

definition NewServerServiceClient :: "string \<Rightarrow> serverServiceClient" where
  "NewServerServiceClient baseURL =
     (let baseURL = trim_right_slashes baseURL in
      \<lparr>serverClient_listServers = baseURL @ ServerServiceProcedure Server_ListServers,
       serverClient_createServer = baseURL @ ServerServiceProcedure Server_CreateServer,
       serverClient_getServer = baseURL @ ServerServiceProcedure Server_GetServer,
       serverClient_updateServer = baseURL @ ServerServiceProcedure Server_UpdateServer,
       serverClient_deleteServer = baseURL @ ServerServiceProcedure Server_DeleteServer,
       serverClient_getServerHealth = baseURL @ ServerServiceProcedure Server_GetServerHealth,
       serverClient_listServerEvents = baseURL @ ServerServiceProcedure Server_ListServerEvents\<rparr>)"

fun serverServiceClient_call :: "serverServiceClient \<Rightarrow> ServerServiceHandler \<Rightarrow> string" where
  "serverServiceClient_call c Server_ListServers = serverClient_listServers c"
| "serverServiceClient_call c Server_CreateServer = serverClient_createServer c"
| "serverServiceClient_call c Server_GetServer = serverClient_getServer c"
| "serverServiceClient_call c Server_UpdateServer = serverClient_updateServer c"
| "serverServiceClient_call c Server_DeleteServer = serverClient_deleteServer c"
| "serverServiceClient_call c Server_GetServerHealth = serverClient_getServerHealth c"
| "serverServiceClient_call c Server_ListServerEvents = serverClient_listServerEvents c"

definition NewServerServiceHandler :: "string \<times> (string \<Rightarrow> ServerServiceHandler option)" where
  "NewServerServiceHandler =
     (''/neoline.v1.ServerService/'', \<lambda>path.
        if path = ServerServiceProcedure Server_ListServers then Some Server_ListServers
        else if path = ServerServiceProcedure Server_CreateServer then Some Server_CreateServer
        else if path = ServerServiceProcedure Server_GetServer then Some Server_GetServer
        else if path = ServerServiceProcedure Server_UpdateServer then Some Server_UpdateServer
        else if path = ServerServiceProcedure Server_DeleteServer then Some Server_DeleteServer
        else if path = ServerServiceProcedure Server_GetServerHealth then Some Server_GetServerHealth
        else if path = ServerServiceProcedure Server_ListServerEvents then Some Server_ListServerEvents
        else None)"

fun UnimplementedServerServiceHandler :: "ServerServiceHandler \<Rightarrow> connect_error" where
  "UnimplementedServerServiceHandler Server_ListServers = NewError CodeUnimplemented ''neoline.v1.ServerService.ListServers is not implemented''"
| "UnimplementedServerServiceHandler Server_CreateServer = NewError CodeUnimplemented ''neoline.v1.ServerService.CreateServer is not implemented''"
| "UnimplementedServerServiceHandler Server_GetServer = NewError CodeUnimplemented ''neoline.v1.ServerService.GetServer is not implemented''"
| "UnimplementedServerServiceHandler Server_UpdateServer = NewError CodeUnimplemented ''neoline.v1.ServerService.UpdateServer is not implemented''"
| "UnimplementedServerServiceHandler Server_DeleteServer = NewError CodeUnimplemented ''neoline.v1.ServerService.DeleteServer is not implemented''"
| "UnimplementedServerServiceHandler Server_GetServerHealth = NewError CodeUnimplemented ''neoline.v1.ServerService.GetServerHealth is not implemented''"
| "UnimplementedServerServiceHandler Server_ListServerEvents = NewError CodeUnimplemented ''neoline.v1.ServerService.ListServerEvents is not implemented''"

section \<open>MonitorService\<close>

datatype MonitorServiceHandler =
    Monitor_ListMonitors
  | Monitor_CreateMonitor
  | Monitor_GetMonitor
  | Monitor_UpdateMonitor
  | Monitor_DeleteMonitor
  | Monitor_ListCheckResults
  | Monitor_GetMonitorUptime

definition MonitorServiceName :: string where
  "MonitorServiceName = ''neoline.v1.MonitorService''"

fun MonitorServiceProcedure :: "MonitorServiceHandler \<Rightarrow> string" where
  "MonitorServiceProcedure Monitor_ListMonitors = ''/neoline.v1.MonitorService/ListMonitors''"
| "MonitorServiceProcedure Monitor_CreateMonitor = ''/neoline.v1.MonitorService/CreateMonitor''"
| "MonitorServiceProcedure Monitor_GetMonitor = ''/neoline.v1.MonitorService/GetMonitor''"
| "MonitorServiceProcedure Monitor_UpdateMonitor = ''/neoline.v1.MonitorService/UpdateMonitor''"
| "MonitorServiceProcedure Monitor_DeleteMonitor = ''/neoline.v1.MonitorService/DeleteMonitor''"
| "MonitorServiceProcedure Monitor_ListCheckResults = ''/neoline.v1.MonitorService/ListCheckResults''"
| "MonitorServiceProcedure Monitor_GetMonitorUptime = ''/neoline.v1.MonitorService/GetMonitorUptime''"

record monitorServiceClient =
  monitorClient_listMonitors :: string
  monitorClient_createMonitor :: string
  monitorClient_getMonitor :: string
  monitorClient_updateMonitor :: string
  monitorClient_deleteMonitor :: string
  monitorClient_listCheckResults :: string
  monitorClient_getMonitorUptime :: string

definition NewMonitorServiceClient :: "string \<Rightarrow> monitorServiceClient" where
  "NewMonitorServiceClient baseURL =
     (let baseURL = trim_right_slashes baseURL in
      \<lparr>monitorClient_listMonitors = baseURL @ MonitorServiceProcedure Monitor_ListMonitors,
       monitorClient_createMonitor = baseURL @ MonitorServiceProcedure Monitor_CreateMonitor,
       monitorClient_getMonitor = baseURL @ MonitorServiceProcedure Monitor_GetMonitor,
       monitorClient_updateMonitor = baseURL @ MonitorServiceProcedure Monitor_UpdateMonitor,
       monitorClient_deleteMonitor = baseURL @ MonitorServiceProcedure Monitor_DeleteMonitor,
       monitorClient_listCheckResults = baseURL @ MonitorServiceProcedure Monitor_ListCheckResults,
       monitorClient_getMonitorUptime = baseURL @ MonitorServiceProcedure Monitor_GetMonitorUptime\<rparr>)"

fun monitorServiceClient_call :: "monitorServiceClient \<Rightarrow> MonitorServiceHandler \<Rightarrow> string" where
  "monitorServiceClient_call c Monitor_ListMonitors = monitorClient_listMonitors c"
| "monitorServiceClient_call c Monitor_CreateMonitor = monitorClient_createMonitor c"
| "monitorServiceClient_call c Monitor_GetMonitor = monitorClient_getMonitor c"
| "monitorServiceClient_call c Monitor_UpdateMonitor = monitorClient_updateMonitor c"
| "monitorServiceClient_call c Monitor_DeleteMonitor = monitorClient_deleteMonitor c"
| "monitorServiceClient_call c Monitor_ListCheckResults = monitorClient_listCheckResults c"
| "monitorServiceClient_call c Monitor_GetMonitorUptime = monitorClient_getMonitorUptime c"

definition NewMonitorServiceHandler :: "string \<times> (string \<Rightarrow> MonitorServiceHandler option)" where
  "NewMonitorServiceHandler =
     (''/neoline.v1.MonitorService/'', \<lambda>path.
        if path = MonitorServiceProcedure Monitor_ListMonitors then Some Monitor_ListMonitors
        else if path = MonitorServiceProcedure Monitor_CreateMonitor then Some Monitor_CreateMonitor
        else if path = MonitorServiceProcedure Monitor_GetMonitor then Some Monitor_GetMonitor
        else if path = MonitorServiceProcedure Monitor_UpdateMonitor then Some Monitor_UpdateMonitor
        else if path = MonitorServiceProcedure Monitor_DeleteMonitor then Some Monitor_DeleteMonitor
        else if path = MonitorServiceProcedure Monitor_ListCheckResults then Some Monitor_ListCheckResults
        else if path = MonitorServiceProcedure Monitor_GetMonitorUptime then Some Monitor_GetMonitorUptime
        else None)"

fun UnimplementedMonitorServiceHandler :: "MonitorServiceHandler \<Rightarrow> connect_error" where
  "UnimplementedMonitorServiceHandler Monitor_ListMonitors = NewError CodeUnimplemented ''neoline.v1.MonitorService.ListMonitors is not implemented''"
| "UnimplementedMonitorServiceHandler Monitor_CreateMonitor = NewError CodeUnimplemented ''neoline.v1.MonitorService.CreateMonitor is not implemented''"
| "UnimplementedMonitorServiceHandler Monitor_GetMonitor = NewError CodeUnimplemented ''neoline.v1.MonitorService.GetMonitor is not implemented''"
| "UnimplementedMonitorServiceHandler Monitor_UpdateMonitor = NewError CodeUnimplemented ''neoline.v1.MonitorService.UpdateMonitor is not implemented''"
| "UnimplementedMonitorServiceHandler Monitor_DeleteMonitor = NewError CodeUnimplemented ''neoline.v1.MonitorService.DeleteMonitor is not implemented''"
| "UnimplementedMonitorServiceHandler Monitor_ListCheckResults = NewError CodeUnimplemented ''neoline.v1.MonitorService.ListCheckResults is not implemented''"
| "UnimplementedMonitorServiceHandler Monitor_GetMonitorUptime = NewError CodeUnimplemented ''neoline.v1.MonitorService.GetMonitorUptime is not implemented''"

section \<open>MonitorGroupService\<close>

datatype MonitorGroupServiceHandler =
    MonitorGroup_ListMonitorGroups
  | MonitorGroup_CreateMonitorGroup
  | MonitorGroup_GetMonitorGroup
  | MonitorGroup_UpdateMonitorGroup
  | MonitorGroup_DeleteMonitorGroup
  | MonitorGroup_ListMonitorsByGroup

definition MonitorGroupServiceName :: string where
  "MonitorGroupServiceName = ''neoline.v1.MonitorGroupService''"

fun MonitorGroupServiceProcedure :: "MonitorGroupServiceHandler \<Rightarrow> string" where
  "MonitorGroupServiceProcedure MonitorGroup_ListMonitorGroups = ''/neoline.v1.MonitorGroupService/ListMonitorGroups''"
| "MonitorGroupServiceProcedure MonitorGroup_CreateMonitorGroup = ''/neoline.v1.MonitorGroupService/CreateMonitorGroup''"
| "MonitorGroupServiceProcedure MonitorGroup_GetMonitorGroup = ''/neoline.v1.MonitorGroupService/GetMonitorGroup''"
| "MonitorGroupServiceProcedure MonitorGroup_UpdateMonitorGroup = ''/neoline.v1.MonitorGroupService/UpdateMonitorGroup''"
| "MonitorGroupServiceProcedure MonitorGroup_DeleteMonitorGroup = ''/neoline.v1.MonitorGroupService/DeleteMonitorGroup''"
| "MonitorGroupServiceProcedure MonitorGroup_ListMonitorsByGroup = ''/neoline.v1.MonitorGroupService/ListMonitorsByGroup''"

record monitorGroupServiceClient =
  monitorGroupClient_listMonitorGroups :: string
  monitorGroupClient_createMonitorGroup :: string
  monitorGroupClient_getMonitorGroup :: string
  monitorGroupClient_updateMonitorGroup :: string
  monitorGroupClient_deleteMonitorGroup :: string
  monitorGroupClient_listMonitorsByGroup :: string

definition NewMonitorGroupServiceClient :: "string \<Rightarrow> monitorGroupServiceClient" where
  "NewMonitorGroupServiceClient baseURL =
     (let baseURL = trim_right_slashes baseURL in
      \<lparr>monitorGroupClient_listMonitorGroups = baseURL @ MonitorGroupServiceProcedure MonitorGroup_ListMonitorGroups,
       monitorGroupClient_createMonitorGroup = baseURL @ MonitorGroupServiceProcedure MonitorGroup_CreateMonitorGroup,
       monitorGroupClient_getMonitorGroup = baseURL @ MonitorGroupServiceProcedure MonitorGroup_GetMonitorGroup,
       monitorGroupClient_updateMonitorGroup = baseURL @ MonitorGroupServiceProcedure MonitorGroup_UpdateMonitorGroup,
       monitorGroupClient_deleteMonitorGroup = baseURL @ MonitorGroupServiceProcedure MonitorGroup_DeleteMonitorGroup,
       monitorGroupClient_listMonitorsByGroup = baseURL @ MonitorGroupServiceProcedure MonitorGroup_ListMonitorsByGroup\<rparr>)"

fun monitorGroupServiceClient_call :: "monitorGroupServiceClient \<Rightarrow> MonitorGroupServiceHandler \<Rightarrow> string" where
  "monitorGroupServiceClient_call c MonitorGroup_ListMonitorGroups = monitorGroupClient_listMonitorGroups c"
| "monitorGroupServiceClient_call c MonitorGroup_CreateMonitorGroup = monitorGroupClient_createMonitorGroup c"
| "monitorGroupServiceClient_call c MonitorGroup_GetMonitorGroup = monitorGroupClient_getMonitorGroup c"
| "monitorGroupServiceClient_call c MonitorGroup_UpdateMonitorGroup = monitorGroupClient_updateMonitorGroup c"
| "monitorGroupServiceClient_call c MonitorGroup_DeleteMonitorGroup = monitorGroupClient_deleteMonitorGroup c"
| "monitorGroupServiceClient_call c MonitorGroup_ListMonitorsByGroup = monitorGroupClient_listMonitorsByGroup c"

definition NewMonitorGroupServiceHandler :: "string \<times> (string \<Rightarrow> MonitorGroupServiceHandler option)" where
  "NewMonitorGroupServiceHandler =
     (''/neoline.v1.MonitorGroupService/'', \<lambda>path.
        if path = MonitorGroupServiceProcedure MonitorGroup_ListMonitorGroups then Some MonitorGroup_ListMonitorGroups
        else if path = MonitorGroupServiceProcedure MonitorGroup_CreateMonitorGroup then Some MonitorGroup_CreateMonitorGroup
        else if path = MonitorGroupServiceProcedure MonitorGroup_GetMonitorGroup then Some MonitorGroup_GetMonitorGroup
        else if path = MonitorGroupServiceProcedure MonitorGroup_UpdateMonitorGroup then Some MonitorGroup_UpdateMonitorGroup
        else if path = MonitorGroupServiceProcedure MonitorGroup_DeleteMonitorGroup then Some MonitorGroup_DeleteMonitorGroup
        else if path = MonitorGroupServiceProcedure MonitorGroup_ListMonitorsByGroup then Some MonitorGroup_ListMonitorsByGroup
        else None)"

fun UnimplementedMonitorGroupServiceHandler :: "MonitorGroupServiceHandler \<Rightarrow> connect_error" where
  "UnimplementedMonitorGroupServiceHandler MonitorGroup_ListMonitorGroups = NewError CodeUnimplemented ''neoline.v1.MonitorGroupService.ListMonitorGroups is not implemented''"
| "UnimplementedMonitorGroupServiceHandler MonitorGroup_CreateMonitorGroup = NewError CodeUnimplemented ''neoline.v1.MonitorGroupService.CreateMonitorGroup is not implemented''"
| "UnimplementedMonitorGroupServiceHandler MonitorGroup_GetMonitorGroup = NewError CodeUnimplemented ''neoline.v1.MonitorGroupService.GetMonitorGroup is not implemented''"
| "UnimplementedMonitorGroupServiceHandler MonitorGroup_UpdateMonitorGroup = NewError CodeUnimplemented ''neoline.v1.MonitorGroupService.UpdateMonitorGroup is not implemented''"
| "UnimplementedMonitorGroupServiceHandler MonitorGroup_DeleteMonitorGroup = NewError CodeUnimplemented ''neoline.v1.MonitorGroupService.DeleteMonitorGroup is not implemented''"
| "UnimplementedMonitorGroupServiceHandler MonitorGroup_ListMonitorsByGroup = NewError CodeUnimplemented ''neoline.v1.MonitorGroupService.ListMonitorsByGroup is not implemented''"

section \<open>NotifyGroupService\<close>

datatype NotifyGroupServiceHandler =
    NotifyGroup_ListNotifyGroups
  | NotifyGroup_CreateNotifyGroup
  | NotifyGroup_GetNotifyGroup
  | NotifyGroup_UpdateNotifyGroup
  | NotifyGroup_DeleteNotifyGroup

definition NotifyGroupServiceName :: string where
  "NotifyGroupServiceName = ''neoline.v1.NotifyGroupService''"

fun NotifyGroupServiceProcedure :: "NotifyGroupServiceHandler \<Rightarrow> string" where
  "NotifyGroupServiceProcedure NotifyGroup_ListNotifyGroups = ''/neoline.v1.NotifyGroupService/ListNotifyGroups''"
| "NotifyGroupServiceProcedure NotifyGroup_CreateNotifyGroup = ''/neoline.v1.NotifyGroupService/CreateNotifyGroup''"
| "NotifyGroupServiceProcedure NotifyGroup_GetNotifyGroup = ''/neoline.v1.NotifyGroupService/GetNotifyGroup''"
| "NotifyGroupServiceProcedure NotifyGroup_UpdateNotifyGroup = ''/neoline.v1.NotifyGroupService/UpdateNotifyGroup''"
| "NotifyGroupServiceProcedure NotifyGroup_DeleteNotifyGroup = ''/neoline.v1.NotifyGroupService/DeleteNotifyGroup''"

record notifyGroupServiceClient =
  notifyGroupClient_listNotifyGroups :: string
  notifyGroupClient_createNotifyGroup :: string
  notifyGroupClient_getNotifyGroup :: string
  notifyGroupClient_updateNotifyGroup :: string
  notifyGroupClient_deleteNotifyGroup :: string

definition NewNotifyGroupServiceClient :: "string \<Rightarrow> notifyGroupServiceClient" where
  "NewNotifyGroupServiceClient baseURL =
     (let baseURL = trim_right_slashes baseURL in
      \<lparr>notifyGroupClient_listNotifyGroups = baseURL @ NotifyGroupServiceProcedure NotifyGroup_ListNotifyGroups,
       notifyGroupClient_createNotifyGroup = baseURL @ NotifyGroupServiceProcedure NotifyGroup_CreateNotifyGroup,
       notifyGroupClient_getNotifyGroup = baseURL @ NotifyGroupServiceProcedure NotifyGroup_GetNotifyGroup,
       notifyGroupClient_updateNotifyGroup = baseURL @ NotifyGroupServiceProcedure NotifyGroup_UpdateNotifyGroup,
       notifyGroupClient_deleteNotifyGroup = baseURL @ NotifyGroupServiceProcedure NotifyGroup_DeleteNotifyGroup\<rparr>)"

fun notifyGroupServiceClient_call :: "notifyGroupServiceClient \<Rightarrow> NotifyGroupServiceHandler \<Rightarrow> string" where
  "notifyGroupServiceClient_call c NotifyGroup_ListNotifyGroups = notifyGroupClient_listNotifyGroups c"
| "notifyGroupServiceClient_call c NotifyGroup_CreateNotifyGroup = notifyGroupClient_createNotifyGroup c"
| "notifyGroupServiceClient_call c NotifyGroup_GetNotifyGroup = notifyGroupClient_getNotifyGroup c"
| "notifyGroupServiceClient_call c NotifyGroup_UpdateNotifyGroup = notifyGroupClient_updateNotifyGroup c"
| "notifyGroupServiceClient_call c NotifyGroup_DeleteNotifyGroup = notifyGroupClient_deleteNotifyGroup c"

definition NewNotifyGroupServiceHandler :: "string \<times> (string \<Rightarrow> NotifyGroupServiceHandler option)" where
  "NewNotifyGroupServiceHandler =
     (''/neoline.v1.NotifyGroupService/'', \<lambda>path.
        if path = NotifyGroupServiceProcedure NotifyGroup_ListNotifyGroups then Some NotifyGroup_ListNotifyGroups
        else if path = NotifyGroupServiceProcedure NotifyGroup_CreateNotifyGroup then Some NotifyGroup_CreateNotifyGroup
        else if path = NotifyGroupServiceProcedure NotifyGroup_GetNotifyGroup then Some NotifyGroup_GetNotifyGroup
        else if path = NotifyGroupServiceProcedure NotifyGroup_UpdateNotifyGroup then Some NotifyGroup_UpdateNotifyGroup
        else if path = NotifyGroupServiceProcedure NotifyGroup_DeleteNotifyGroup then Some NotifyGroup_DeleteNotifyGroup
        else None)"

fun UnimplementedNotifyGroupServiceHandler :: "NotifyGroupServiceHandler \<Rightarrow> connect_error" where
  "UnimplementedNotifyGroupServiceHandler NotifyGroup_ListNotifyGroups = NewError CodeUnimplemented ''neoline.v1.NotifyGroupService.ListNotifyGroups is not implemented''"
| "UnimplementedNotifyGroupServiceHandler NotifyGroup_CreateNotifyGroup = NewError CodeUnimplemented ''neoline.v1.NotifyGroupService.CreateNotifyGroup is not implemented''"
| "UnimplementedNotifyGroupServiceHandler NotifyGroup_GetNotifyGroup = NewError CodeUnimplemented ''neoline.v1.NotifyGroupService.GetNotifyGroup is not implemented''"
| "UnimplementedNotifyGroupServiceHandler NotifyGroup_UpdateNotifyGroup = NewError CodeUnimplemented ''neoline.v1.NotifyGroupService.UpdateNotifyGroup is not implemented''"
| "UnimplementedNotifyGroupServiceHandler NotifyGroup_DeleteNotifyGroup = NewError CodeUnimplemented ''neoline.v1.NotifyGroupService.DeleteNotifyGroup is not implemented''"

section \<open>DNSProviderAccountService\<close>

datatype DNSProviderAccountServiceHandler =
    DNSProviderAccount_ListDNSProviderAccounts
  | DNSProviderAccount_CreateDNSProviderAccount
  | DNSProviderAccount_GetDNSProviderAccount
  | DNSProviderAccount_UpdateDNSProviderAccount
  | DNSProviderAccount_DeleteDNSProviderAccount

definition DNSProviderAccountServiceName :: string where
  "DNSProviderAccountServiceName = ''neoline.v1.DNSProviderAccountService''"

fun DNSProviderAccountServiceProcedure :: "DNSProviderAccountServiceHandler \<Rightarrow> string" where
  "DNSProviderAccountServiceProcedure DNSProviderAccount_ListDNSProviderAccounts = ''/neoline.v1.DNSProviderAccountService/ListDNSProviderAccounts''"
| "DNSProviderAccountServiceProcedure DNSProviderAccount_CreateDNSProviderAccount = ''/neoline.v1.DNSProviderAccountService/CreateDNSProviderAccount''"
| "DNSProviderAccountServiceProcedure DNSProviderAccount_GetDNSProviderAccount = ''/neoline.v1.DNSProviderAccountService/GetDNSProviderAccount''"
| "DNSProviderAccountServiceProcedure DNSProviderAccount_UpdateDNSProviderAccount = ''/neoline.v1.DNSProviderAccountService/UpdateDNSProviderAccount''"
| "DNSProviderAccountServiceProcedure DNSProviderAccount_DeleteDNSProviderAccount = ''/neoline.v1.DNSProviderAccountService/DeleteDNSProviderAccount''"

record dNSProviderAccountServiceClient =
  dNSProviderAccountClient_listDNSProviderAccounts :: string
  dNSProviderAccountClient_createDNSProviderAccount :: string
  dNSProviderAccountClient_getDNSProviderAccount :: string
  dNSProviderAccountClient_updateDNSProviderAccount :: string
  dNSProviderAccountClient_deleteDNSProviderAccount :: string

definition NewDNSProviderAccountServiceClient :: "string \<Rightarrow> dNSProviderAccountServiceClient" where
  "NewDNSProviderAccountServiceClient baseURL =
     (let baseURL = trim_right_slashes baseURL in
      \<lparr>dNSProviderAccountClient_listDNSProviderAccounts = baseURL @ DNSProviderAccountServiceProcedure DNSProviderAccount_ListDNSProviderAccounts,
       dNSProviderAccountClient_createDNSProviderAccount = baseURL @ DNSProviderAccountServiceProcedure DNSProviderAccount_CreateDNSProviderAccount,
       dNSProviderAccountClient_getDNSProviderAccount = baseURL @ DNSProviderAccountServiceProcedure DNSProviderAccount_GetDNSProviderAccount,
       dNSProviderAccountClient_updateDNSProviderAccount = baseURL @ DNSProviderAccountServiceProcedure DNSProviderAccount_UpdateDNSProviderAccount,
       dNSProviderAccountClient_deleteDNSProviderAccount = baseURL @ DNSProviderAccountServiceProcedure DNSProviderAccount_DeleteDNSProviderAccount\<rparr>)"

fun dNSProviderAccountServiceClient_call :: "dNSProviderAccountServiceClient \<Rightarrow> DNSProviderAccountServiceHandler \<Rightarrow> string" where
  "dNSProviderAccountServiceClient_call c DNSProviderAccount_ListDNSProviderAccounts = dNSProviderAccountClient_listDNSProviderAccounts c"
| "dNSProviderAccountServiceClient_call c DNSProviderAccount_CreateDNSProviderAccount = dNSProviderAccountClient_createDNSProviderAccount c"
| "dNSProviderAccountServiceClient_call c DNSProviderAccount_GetDNSProviderAccount = dNSProviderAccountClient_getDNSProviderAccount c"
| "dNSProviderAccountServiceClient_call c DNSProviderAccount_UpdateDNSProviderAccount = dNSProviderAccountClient_updateDNSProviderAccount c"
| "dNSProviderAccountServiceClient_call c DNSProviderAccount_DeleteDNSProviderAccount = dNSProviderAccountClient_deleteDNSProviderAccount c"

definition NewDNSProviderAccountServiceHandler :: "string \<times> (string \<Rightarrow> DNSProviderAccountServiceHandler option)" where
  "NewDNSProviderAccountServiceHandler =
     (''/neoline.v1.DNSProviderAccountService/'', \<lambda>path.
        if path = DNSProviderAccountServiceProcedure DNSProviderAccount_ListDNSProviderAccounts then Some DNSProviderAccount_ListDNSProviderAccounts
        else if path = DNSProviderAccountServiceProcedure DNSProviderAccount_CreateDNSProviderAccount then Some DNSProviderAccount_CreateDNSProviderAccount
        else if path = DNSProviderAccountServiceProcedure DNSProviderAccount_GetDNSProviderAccount then Some DNSProviderAccount_GetDNSProviderAccount
        else if path = DNSProviderAccountServiceProcedure DNSProviderAccount_UpdateDNSProviderAccount then Some DNSProviderAccount_UpdateDNSProviderAccount
        else if path = DNSProviderAccountServiceProcedure DNSProviderAccount_DeleteDNSProviderAccount then Some DNSProviderAccount_DeleteDNSProviderAccount
        else None)"

fun UnimplementedDNSProviderAccountServiceHandler :: "DNSProviderAccountServiceHandler \<Rightarrow> connect_error" where
  "UnimplementedDNSProviderAccountServiceHandler DNSProviderAccount_ListDNSProviderAccounts = NewError CodeUnimplemented ''neoline.v1.DNSProviderAccountService.ListDNSProviderAccounts is not implemented''"
| "UnimplementedDNSProviderAccountServiceHandler DNSProviderAccount_CreateDNSProviderAccount = NewError CodeUnimplemented ''neoline.v1.DNSProviderAccountService.CreateDNSProviderAccount is not implemented''"
| "UnimplementedDNSProviderAccountServiceHandler DNSProviderAccount_GetDNSProviderAccount = NewError CodeUnimplemented ''neoline.v1.DNSProviderAccountService.GetDNSProviderAccount is not implemented''"
| "UnimplementedDNSProviderAccountServiceHandler DNSProviderAccount_UpdateDNSProviderAccount = NewError CodeUnimplemented ''neoline.v1.DNSProviderAccountService.UpdateDNSProviderAccount is not implemented''"
| "UnimplementedDNSProviderAccountServiceHandler DNSProviderAccount_DeleteDNSProviderAccount = NewError CodeUnimplemented ''neoline.v1.DNSProviderAccountService.DeleteDNSProviderAccount is not implemented''"

section \<open>CertificateIssuerService\<close>

datatype CertificateIssuerServiceHandler =
    CertificateIssuer_ListCertificateIssuers
  | CertificateIssuer_GetCertificateIssuerDirectoryPreview
  | CertificateIssuer_CreateCertificateIssuer
  | CertificateIssuer_GetCertificateIssuer
  | CertificateIssuer_UpdateCertificateIssuer
  | CertificateIssuer_DeleteCertificateIssuer
  | CertificateIssuer_RetryCertificateIssuerRegistration

definition CertificateIssuerServiceName :: string where
  "CertificateIssuerServiceName = ''neoline.v1.CertificateIssuerService''"

fun CertificateIssuerServiceProcedure :: "CertificateIssuerServiceHandler \<Rightarrow> string" where
  "CertificateIssuerServiceProcedure CertificateIssuer_ListCertificateIssuers = ''/neoline.v1.CertificateIssuerService/ListCertificateIssuers''"
| "CertificateIssuerServiceProcedure CertificateIssuer_GetCertificateIssuerDirectoryPreview = ''/neoline.v1.CertificateIssuerService/GetCertificateIssuerDirectoryPreview''"
| "CertificateIssuerServiceProcedure CertificateIssuer_CreateCertificateIssuer = ''/neoline.v1.CertificateIssuerService/CreateCertificateIssuer''"
| "CertificateIssuerServiceProcedure CertificateIssuer_GetCertificateIssuer = ''/neoline.v1.CertificateIssuerService/GetCertificateIssuer''"
| "CertificateIssuerServiceProcedure CertificateIssuer_UpdateCertificateIssuer = ''/neoline.v1.CertificateIssuerService/UpdateCertificateIssuer''"
| "CertificateIssuerServiceProcedure CertificateIssuer_DeleteCertificateIssuer = ''/neoline.v1.CertificateIssuerService/DeleteCertificateIssuer''"
| "CertificateIssuerServiceProcedure CertificateIssuer_RetryCertificateIssuerRegistration = ''/neoline.v1.CertificateIssuerService/RetryCertificateIssuerRegistration''"

record certificateIssuerServiceClient =
  certificateIssuerClient_listCertificateIssuers :: string
  certificateIssuerClient_getCertificateIssuerDirectoryPreview :: string
  certificateIssuerClient_createCertificateIssuer :: string
  certificateIssuerClient_getCertificateIssuer :: string
  certificateIssuerClient_updateCertificateIssuer :: string
  certificateIssuerClient_deleteCertificateIssuer :: string
  certificateIssuerClient_retryCertificateIssuerRegistration :: string

definition NewCertificateIssuerServiceClient :: "string \<Rightarrow> certificateIssuerServiceClient" where
  "NewCertificateIssuerServiceClient baseURL =
     (let baseURL = trim_right_slashes baseURL in
      \<lparr>certificateIssuerClient_listCertificateIssuers = baseURL @ CertificateIssuerServiceProcedure CertificateIssuer_ListCertificateIssuers,
       certificateIssuerClient_getCertificateIssuerDirectoryPreview = baseURL @ CertificateIssuerServiceProcedure CertificateIssuer_GetCertificateIssuerDirectoryPreview,
       certificateIssuerClient_createCertificateIssuer = baseURL @ CertificateIssuerServiceProcedure CertificateIssuer_CreateCertificateIssuer,
       certificateIssuerClient_getCertificateIssuer = baseURL @ CertificateIssuerServiceProcedure CertificateIssuer_GetCertificateIssuer,
       certificateIssuerClient_updateCertificateIssuer = baseURL @ CertificateIssuerServiceProcedure CertificateIssuer_UpdateCertificateIssuer,
       certificateIssuerClient_deleteCertificateIssuer = baseURL @ CertificateIssuerServiceProcedure CertificateIssuer_DeleteCertificateIssuer,
       certificateIssuerClient_retryCertificateIssuerRegistration = baseURL @ CertificateIssuerServiceProcedure CertificateIssuer_RetryCertificateIssuerRegistration\<rparr>)"

fun certificateIssuerServiceClient_call :: "certificateIssuerServiceClient \<Rightarrow> CertificateIssuerServiceHandler \<Rightarrow> string" where
  "certificateIssuerServiceClient_call c CertificateIssuer_ListCertificateIssuers = certificateIssuerClient_listCertificateIssuers c"
| "certificateIssuerServiceClient_call c CertificateIssuer_GetCertificateIssuerDirectoryPreview = certificateIssuerClient_getCertificateIssuerDirectoryPreview c"
| "certificateIssuerServiceClient_call c CertificateIssuer_CreateCertificateIssuer = certificateIssuerClient_createCertificateIssuer c"
| "certificateIssuerServiceClient_call c CertificateIssuer_GetCertificateIssuer = certificateIssuerClient_getCertificateIssuer c"
| "certificateIssuerServiceClient_call c CertificateIssuer_UpdateCertificateIssuer = certificateIssuerClient_updateCertificateIssuer c"
| "certificateIssuerServiceClient_call c CertificateIssuer_DeleteCertificateIssuer = certificateIssuerClient_deleteCertificateIssuer c"
| "certificateIssuerServiceClient_call c CertificateIssuer_RetryCertificateIssuerRegistration = certificateIssuerClient_retryCertificateIssuerRegistration c"

definition NewCertificateIssuerServiceHandler :: "string \<times> (string \<Rightarrow> CertificateIssuerServiceHandler option)" where
  "NewCertificateIssuerServiceHandler =
     (''/neoline.v1.CertificateIssuerService/'', \<lambda>path.
        if path = CertificateIssuerServiceProcedure CertificateIssuer_ListCertificateIssuers then Some CertificateIssuer_ListCertificateIssuers
        else if path = CertificateIssuerServiceProcedure CertificateIssuer_GetCertificateIssuerDirectoryPreview then Some CertificateIssuer_GetCertificateIssuerDirectoryPreview
        else if path = CertificateIssuerServiceProcedure CertificateIssuer_CreateCertificateIssuer then Some CertificateIssuer_CreateCertificateIssuer
        else if path = CertificateIssuerServiceProcedure CertificateIssuer_GetCertificateIssuer then Some CertificateIssuer_GetCertificateIssuer
        else if path = CertificateIssuerServiceProcedure CertificateIssuer_UpdateCertificateIssuer then Some CertificateIssuer_UpdateCertificateIssuer
        else if path = CertificateIssuerServiceProcedure CertificateIssuer_DeleteCertificateIssuer then Some CertificateIssuer_DeleteCertificateIssuer
        else if path = CertificateIssuerServiceProcedure CertificateIssuer_RetryCertificateIssuerRegistration then Some CertificateIssuer_RetryCertificateIssuerRegistration
        else None)"

fun UnimplementedCertificateIssuerServiceHandler :: "CertificateIssuerServiceHandler \<Rightarrow> connect_error" where
  "UnimplementedCertificateIssuerServiceHandler CertificateIssuer_ListCertificateIssuers = NewError CodeUnimplemented ''neoline.v1.CertificateIssuerService.ListCertificateIssuers is not implemented''"
| "UnimplementedCertificateIssuerServiceHandler CertificateIssuer_GetCertificateIssuerDirectoryPreview = NewError CodeUnimplemented ''neoline.v1.CertificateIssuerService.GetCertificateIssuerDirectoryPreview is not implemented''"
| "UnimplementedCertificateIssuerServiceHandler CertificateIssuer_CreateCertificateIssuer = NewError CodeUnimplemented ''neoline.v1.CertificateIssuerService.CreateCertificateIssuer is not implemented''"
| "UnimplementedCertificateIssuerServiceHandler CertificateIssuer_GetCertificateIssuer = NewError CodeUnimplemented ''neoline.v1.CertificateIssuerService.GetCertificateIssuer is not implemented''"
| "UnimplementedCertificateIssuerServiceHandler CertificateIssuer_UpdateCertificateIssuer = NewError CodeUnimplemented ''neoline.v1.CertificateIssuerService.UpdateCertificateIssuer is not implemented''"
| "UnimplementedCertificateIssuerServiceHandler CertificateIssuer_DeleteCertificateIssuer = NewError CodeUnimplemented ''neoline.v1.CertificateIssuerService.DeleteCertificateIssuer is not implemented''"
| "UnimplementedCertificateIssuerServiceHandler CertificateIssuer_RetryCertificateIssuerRegistration = NewError CodeUnimplemented ''neoline.v1.CertificateIssuerService.RetryCertificateIssuerRegistration is not implemented''"

section \<open>ManagedCertificateService\<close>

datatype ManagedCertificateServiceHandler =
    ManagedCertificate_ListManagedCertificates
  | ManagedCertificate_CreateManagedCertificate
  | ManagedCertificate_GetManagedCertificate
  | ManagedCertificate_UpdateManagedCertificate
  | ManagedCertificate_SubmitIssueOperation
  | ManagedCertificate_SubmitRenewOperation
  | ManagedCertificate_SubmitRevokeVersion
  | ManagedCertificate_GetCertificateBundle
  | ManagedCertificate_ActivatePreviousVersion
  | ManagedCertificate_DeleteManagedCertificate

definition ManagedCertificateServiceName :: string where
  "ManagedCertificateServiceName = ''neoline.v1.ManagedCertificateService''"

fun ManagedCertificateServiceProcedure :: "ManagedCertificateServiceHandler \<Rightarrow> string" where
  "ManagedCertificateServiceProcedure ManagedCertificate_ListManagedCertificates = ''/neoline.v1.ManagedCertificateService/ListManagedCertificates''"
| "ManagedCertificateServiceProcedure ManagedCertificate_CreateManagedCertificate = ''/neoline.v1.ManagedCertificateService/CreateManagedCertificate''"
| "ManagedCertificateServiceProcedure ManagedCertificate_GetManagedCertificate = ''/neoline.v1.ManagedCertificateService/GetManagedCertificate''"
| "ManagedCertificateServiceProcedure ManagedCertificate_UpdateManagedCertificate = ''/neoline.v1.ManagedCertificateService/UpdateManagedCertificate''"
| "ManagedCertificateServiceProcedure ManagedCertificate_SubmitIssueOperation = ''/neoline.v1.ManagedCertificateService/SubmitIssueOperation''"
| "ManagedCertificateServiceProcedure ManagedCertificate_SubmitRenewOperation = ''/neoline.v1.ManagedCertificateService/SubmitRenewOperation''"
| "ManagedCertificateServiceProcedure ManagedCertificate_SubmitRevokeVersion = ''/neoline.v1.ManagedCertificateService/SubmitRevokeVersion''"
| "ManagedCertificateServiceProcedure ManagedCertificate_GetCertificateBundle = ''/neoline.v1.ManagedCertificateService/GetCertificateBundle''"
| "ManagedCertificateServiceProcedure ManagedCertificate_ActivatePreviousVersion = ''/neoline.v1.ManagedCertificateService/ActivatePreviousVersion''"
| "ManagedCertificateServiceProcedure ManagedCertificate_DeleteManagedCertificate = ''/neoline.v1.ManagedCertificateService/DeleteManagedCertificate''"

record managedCertificateServiceClient =
  managedCertificateClient_listManagedCertificates :: string
  managedCertificateClient_createManagedCertificate :: string
  managedCertificateClient_getManagedCertificate :: string
  managedCertificateClient_updateManagedCertificate :: string
  managedCertificateClient_submitIssueOperation :: string
  managedCertificateClient_submitRenewOperation :: string
  managedCertificateClient_submitRevokeVersion :: string
  managedCertificateClient_getCertificateBundle :: string
  managedCertificateClient_activatePreviousVersion :: string
  managedCertificateClient_deleteManagedCertificate :: string

definition NewManagedCertificateServiceClient :: "string \<Rightarrow> managedCertificateServiceClient" where
  "NewManagedCertificateServiceClient baseURL =
     (let baseURL = trim_right_slashes baseURL in
      \<lparr>managedCertificateClient_listManagedCertificates = baseURL @ ManagedCertificateServiceProcedure ManagedCertificate_ListManagedCertificates,
       managedCertificateClient_createManagedCertificate = baseURL @ ManagedCertificateServiceProcedure ManagedCertificate_CreateManagedCertificate,
       managedCertificateClient_getManagedCertificate = baseURL @ ManagedCertificateServiceProcedure ManagedCertificate_GetManagedCertificate,
       managedCertificateClient_updateManagedCertificate = baseURL @ ManagedCertificateServiceProcedure ManagedCertificate_UpdateManagedCertificate,
       managedCertificateClient_submitIssueOperation = baseURL @ ManagedCertificateServiceProcedure ManagedCertificate_SubmitIssueOperation,
       managedCertificateClient_submitRenewOperation = baseURL @ ManagedCertificateServiceProcedure ManagedCertificate_SubmitRenewOperation,
       managedCertificateClient_submitRevokeVersion = baseURL @ ManagedCertificateServiceProcedure ManagedCertificate_SubmitRevokeVersion,
       managedCertificateClient_getCertificateBundle = baseURL @ ManagedCertificateServiceProcedure ManagedCertificate_GetCertificateBundle,
       managedCertificateClient_activatePreviousVersion = baseURL @ ManagedCertificateServiceProcedure ManagedCertificate_ActivatePreviousVersion,
       managedCertificateClient_deleteManagedCertificate = baseURL @ ManagedCertificateServiceProcedure ManagedCertificate_DeleteManagedCertificate\<rparr>)"

fun managedCertificateServiceClient_call :: "managedCertificateServiceClient \<Rightarrow> ManagedCertificateServiceHandler \<Rightarrow> string" where
  "managedCertificateServiceClient_call c ManagedCertificate_ListManagedCertificates = managedCertificateClient_listManagedCertificates c"
| "managedCertificateServiceClient_call c ManagedCertificate_CreateManagedCertificate = managedCertificateClient_createManagedCertificate c"
| "managedCertificateServiceClient_call c ManagedCertificate_GetManagedCertificate = managedCertificateClient_getManagedCertificate c"
| "managedCertificateServiceClient_call c ManagedCertificate_UpdateManagedCertificate = managedCertificateClient_updateManagedCertificate c"
| "managedCertificateServiceClient_call c ManagedCertificate_SubmitIssueOperation = managedCertificateClient_submitIssueOperation c"
| "managedCertificateServiceClient_call c ManagedCertificate_SubmitRenewOperation = managedCertificateClient_submitRenewOperation c"
| "managedCertificateServiceClient_call c ManagedCertificate_SubmitRevokeVersion = managedCertificateClient_submitRevokeVersion c"
| "managedCertificateServiceClient_call c ManagedCertificate_GetCertificateBundle = managedCertificateClient_getCertificateBundle c"
| "managedCertificateServiceClient_call c ManagedCertificate_ActivatePreviousVersion = managedCertificateClient_activatePreviousVersion c"
| "managedCertificateServiceClient_call c ManagedCertificate_DeleteManagedCertificate = managedCertificateClient_deleteManagedCertificate c"

definition NewManagedCertificateServiceHandler :: "string \<times> (string \<Rightarrow> ManagedCertificateServiceHandler option)" where
  "NewManagedCertificateServiceHandler =
     (''/neoline.v1.ManagedCertificateService/'', \<lambda>path.
        if path = ManagedCertificateServiceProcedure ManagedCertificate_ListManagedCertificates then Some ManagedCertificate_ListManagedCertificates
        else if path = ManagedCertificateServiceProcedure ManagedCertificate_CreateManagedCertificate then Some ManagedCertificate_CreateManagedCertificate
        else if path = ManagedCertificateServiceProcedure ManagedCertificate_GetManagedCertificate then Some ManagedCertificate_GetManagedCertificate
        else if path = ManagedCertificateServiceProcedure ManagedCertificate_UpdateManagedCertificate then Some ManagedCertificate_UpdateManagedCertificate
        else if path = ManagedCertificateServiceProcedure ManagedCertificate_SubmitIssueOperation then Some ManagedCertificate_SubmitIssueOperation
        else if path = ManagedCertificateServiceProcedure ManagedCertificate_SubmitRenewOperation then Some ManagedCertificate_SubmitRenewOperation
        else if path = ManagedCertificateServiceProcedure ManagedCertificate_SubmitRevokeVersion then Some ManagedCertificate_SubmitRevokeVersion
        else if path = ManagedCertificateServiceProcedure ManagedCertificate_GetCertificateBundle then Some ManagedCertificate_GetCertificateBundle
        else if path = ManagedCertificateServiceProcedure ManagedCertificate_ActivatePreviousVersion then Some ManagedCertificate_ActivatePreviousVersion
        else if path = ManagedCertificateServiceProcedure ManagedCertificate_DeleteManagedCertificate then Some ManagedCertificate_DeleteManagedCertificate
        else None)"

fun UnimplementedManagedCertificateServiceHandler :: "ManagedCertificateServiceHandler \<Rightarrow> connect_error" where
  "UnimplementedManagedCertificateServiceHandler ManagedCertificate_ListManagedCertificates = NewError CodeUnimplemented ''neoline.v1.ManagedCertificateService.ListManagedCertificates is not implemented''"
| "UnimplementedManagedCertificateServiceHandler ManagedCertificate_CreateManagedCertificate = NewError CodeUnimplemented ''neoline.v1.ManagedCertificateService.CreateManagedCertificate is not implemented''"
| "UnimplementedManagedCertificateServiceHandler ManagedCertificate_GetManagedCertificate = NewError CodeUnimplemented ''neoline.v1.ManagedCertificateService.GetManagedCertificate is not implemented''"
| "UnimplementedManagedCertificateServiceHandler ManagedCertificate_UpdateManagedCertificate = NewError CodeUnimplemented ''neoline.v1.ManagedCertificateService.UpdateManagedCertificate is not implemented''"
| "UnimplementedManagedCertificateServiceHandler ManagedCertificate_SubmitIssueOperation = NewError CodeUnimplemented ''neoline.v1.ManagedCertificateService.SubmitIssueOperation is not implemented''"
| "UnimplementedManagedCertificateServiceHandler ManagedCertificate_SubmitRenewOperation = NewError CodeUnimplemented ''neoline.v1.ManagedCertificateService.SubmitRenewOperation is not implemented''"
| "UnimplementedManagedCertificateServiceHandler ManagedCertificate_SubmitRevokeVersion = NewError CodeUnimplemented ''neoline.v1.ManagedCertificateService.SubmitRevokeVersion is not implemented''"
| "UnimplementedManagedCertificateServiceHandler ManagedCertificate_GetCertificateBundle = NewError CodeUnimplemented ''neoline.v1.ManagedCertificateService.GetCertificateBundle is not implemented''"
| "UnimplementedManagedCertificateServiceHandler ManagedCertificate_ActivatePreviousVersion = NewError CodeUnimplemented ''neoline.v1.ManagedCertificateService.ActivatePreviousVersion is not implemented''"
| "UnimplementedManagedCertificateServiceHandler ManagedCertificate_DeleteManagedCertificate = NewError CodeUnimplemented ''neoline.v1.ManagedCertificateService.DeleteManagedCertificate is not implemented''"

section \<open>CertificateAccessTokenService\<close>

datatype CertificateAccessTokenServiceHandler =
    CertificateAccessToken_ListCertificateAccessTokens
  | CertificateAccessToken_CreateCertificateAccessToken
  | CertificateAccessToken_DeleteCertificateAccessToken

definition CertificateAccessTokenServiceName :: string where
  "CertificateAccessTokenServiceName = ''neoline.v1.CertificateAccessTokenService''"

fun CertificateAccessTokenServiceProcedure :: "CertificateAccessTokenServiceHandler \<Rightarrow> string" where
  "CertificateAccessTokenServiceProcedure CertificateAccessToken_ListCertificateAccessTokens = ''/neoline.v1.CertificateAccessTokenService/ListCertificateAccessTokens''"
| "CertificateAccessTokenServiceProcedure CertificateAccessToken_CreateCertificateAccessToken = ''/neoline.v1.CertificateAccessTokenService/CreateCertificateAccessToken''"
| "CertificateAccessTokenServiceProcedure CertificateAccessToken_DeleteCertificateAccessToken = ''/neoline.v1.CertificateAccessTokenService/DeleteCertificateAccessToken''"

record certificateAccessTokenServiceClient =
  certificateAccessTokenClient_listCertificateAccessTokens :: string
  certificateAccessTokenClient_createCertificateAccessToken :: string
  certificateAccessTokenClient_deleteCertificateAccessToken :: string

definition NewCertificateAccessTokenServiceClient :: "string \<Rightarrow> certificateAccessTokenServiceClient" where
  "NewCertificateAccessTokenServiceClient baseURL =
     (let baseURL = trim_right_slashes baseURL in
      \<lparr>certificateAccessTokenClient_listCertificateAccessTokens = baseURL @ CertificateAccessTokenServiceProcedure CertificateAccessToken_ListCertificateAccessTokens,
       certificateAccessTokenClient_createCertificateAccessToken = baseURL @ CertificateAccessTokenServiceProcedure CertificateAccessToken_CreateCertificateAccessToken,
       certificateAccessTokenClient_deleteCertificateAccessToken = baseURL @ CertificateAccessTokenServiceProcedure CertificateAccessToken_DeleteCertificateAccessToken\<rparr>)"

fun certificateAccessTokenServiceClient_call :: "certificateAccessTokenServiceClient \<Rightarrow> CertificateAccessTokenServiceHandler \<Rightarrow> string" where
  "certificateAccessTokenServiceClient_call c CertificateAccessToken_ListCertificateAccessTokens = certificateAccessTokenClient_listCertificateAccessTokens c"
| "certificateAccessTokenServiceClient_call c CertificateAccessToken_CreateCertificateAccessToken = certificateAccessTokenClient_createCertificateAccessToken c"
| "certificateAccessTokenServiceClient_call c CertificateAccessToken_DeleteCertificateAccessToken = certificateAccessTokenClient_deleteCertificateAccessToken c"

definition NewCertificateAccessTokenServiceHandler :: "string \<times> (string \<Rightarrow> CertificateAccessTokenServiceHandler option)" where
  "NewCertificateAccessTokenServiceHandler =
     (''/neoline.v1.CertificateAccessTokenService/'', \<lambda>path.
        if path = CertificateAccessTokenServiceProcedure CertificateAccessToken_ListCertificateAccessTokens then Some CertificateAccessToken_ListCertificateAccessTokens
        else if path = CertificateAccessTokenServiceProcedure CertificateAccessToken_CreateCertificateAccessToken then Some CertificateAccessToken_CreateCertificateAccessToken
        else if path = CertificateAccessTokenServiceProcedure CertificateAccessToken_DeleteCertificateAccessToken then Some CertificateAccessToken_DeleteCertificateAccessToken
        else None)"

fun UnimplementedCertificateAccessTokenServiceHandler :: "CertificateAccessTokenServiceHandler \<Rightarrow> connect_error" where
  "UnimplementedCertificateAccessTokenServiceHandler CertificateAccessToken_ListCertificateAccessTokens = NewError CodeUnimplemented ''neoline.v1.CertificateAccessTokenService.ListCertificateAccessTokens is not implemented''"
| "UnimplementedCertificateAccessTokenServiceHandler CertificateAccessToken_CreateCertificateAccessToken = NewError CodeUnimplemented ''neoline.v1.CertificateAccessTokenService.CreateCertificateAccessToken is not implemented''"
| "UnimplementedCertificateAccessTokenServiceHandler CertificateAccessToken_DeleteCertificateAccessToken = NewError CodeUnimplemented ''neoline.v1.CertificateAccessTokenService.DeleteCertificateAccessToken is not implemented''"

section \<open>McpTokenService\<close>

datatype McpTokenServiceHandler =
    McpToken_ListMcpTokens
  | McpToken_CreateMcpToken
  | McpToken_DeleteMcpToken

definition McpTokenServiceName :: string where
  "McpTokenServiceName = ''neoline.v1.McpTokenService''"

fun McpTokenServiceProcedure :: "McpTokenServiceHandler \<Rightarrow> string" where
  "McpTokenServiceProcedure McpToken_ListMcpTokens = ''/neoline.v1.McpTokenService/ListMcpTokens''"
| "McpTokenServiceProcedure McpToken_CreateMcpToken = ''/neoline.v1.McpTokenService/CreateMcpToken''"
| "McpTokenServiceProcedure McpToken_DeleteMcpToken = ''/neoline.v1.McpTokenService/DeleteMcpToken''"

record mcpTokenServiceClient =
  mcpTokenClient_listMcpTokens :: string
  mcpTokenClient_createMcpToken :: string
  mcpTokenClient_deleteMcpToken :: string

definition NewMcpTokenServiceClient :: "string \<Rightarrow> mcpTokenServiceClient" where
  "NewMcpTokenServiceClient baseURL =
     (let baseURL = trim_right_slashes baseURL in
      \<lparr>mcpTokenClient_listMcpTokens = baseURL @ McpTokenServiceProcedure McpToken_ListMcpTokens,
       mcpTokenClient_createMcpToken = baseURL @ McpTokenServiceProcedure McpToken_CreateMcpToken,
       mcpTokenClient_deleteMcpToken = baseURL @ McpTokenServiceProcedure McpToken_DeleteMcpToken\<rparr>)"

fun mcpTokenServiceClient_call :: "mcpTokenServiceClient \<Rightarrow> McpTokenServiceHandler \<Rightarrow> string" where
  "mcpTokenServiceClient_call c McpToken_ListMcpTokens = mcpTokenClient_listMcpTokens c"
| "mcpTokenServiceClient_call c McpToken_CreateMcpToken = mcpTokenClient_createMcpToken c"
| "mcpTokenServiceClient_call c McpToken_DeleteMcpToken = mcpTokenClient_deleteMcpToken c"

definition NewMcpTokenServiceHandler :: "string \<times> (string \<Rightarrow> McpTokenServiceHandler option)" where
  "NewMcpTokenServiceHandler =
     (''/neoline.v1.McpTokenService/'', \<lambda>path.
        if path = McpTokenServiceProcedure McpToken_ListMcpTokens then Some McpToken_ListMcpTokens
        else if path = McpTokenServiceProcedure McpToken_CreateMcpToken then Some McpToken_CreateMcpToken
        else if path = McpTokenServiceProcedure McpToken_DeleteMcpToken then Some McpToken_DeleteMcpToken
        else None)"

fun UnimplementedMcpTokenServiceHandler :: "McpTokenServiceHandler \<Rightarrow> connect_error" where
  "UnimplementedMcpTokenServiceHandler McpToken_ListMcpTokens = NewError CodeUnimplemented ''neoline.v1.McpTokenService.ListMcpTokens is not implemented''"
| "UnimplementedMcpTokenServiceHandler McpToken_CreateMcpToken = NewError CodeUnimplemented ''neoline.v1.McpTokenService.CreateMcpToken is not implemented''"
| "UnimplementedMcpTokenServiceHandler McpToken_DeleteMcpToken = NewError CodeUnimplemented ''neoline.v1.McpTokenService.DeleteMcpToken is not implemented''"

section \<open>SshService\<close>

datatype SshServiceHandler =
    Ssh_Exec
  | Ssh_TestConnection

definition SshServiceName :: string where
  "SshServiceName = ''neoline.v1.SshService''"

fun SshServiceProcedure :: "SshServiceHandler \<Rightarrow> string" where
  "SshServiceProcedure Ssh_Exec = ''/neoline.v1.SshService/Exec''"
| "SshServiceProcedure Ssh_TestConnection = ''/neoline.v1.SshService/TestConnection''"

record sshServiceClient =
  sshClient_exec :: string
  sshClient_testConnection :: string

definition NewSshServiceClient :: "string \<Rightarrow> sshServiceClient" where
  "NewSshServiceClient baseURL =
     (let baseURL = trim_right_slashes baseURL in
      \<lparr>sshClient_exec = baseURL @ SshServiceProcedure Ssh_Exec,
       sshClient_testConnection = baseURL @ SshServiceProcedure Ssh_TestConnection\<rparr>)"

fun sshServiceClient_call :: "sshServiceClient \<Rightarrow> SshServiceHandler \<Rightarrow> string" where
  "sshServiceClient_call c Ssh_Exec = sshClient_exec c"
| "sshServiceClient_call c Ssh_TestConnection = sshClient_testConnection c"

definition NewSshServiceHandler :: "string \<times> (string \<Rightarrow> SshServiceHandler option)" where
  "NewSshServiceHandler =
     (''/neoline.v1.SshService/'', \<lambda>path.
        if path = SshServiceProcedure Ssh_Exec then Some Ssh_Exec
        else if path = SshServiceProcedure Ssh_TestConnection then Some Ssh_TestConnection
        else None)"

fun UnimplementedSshServiceHandler :: "SshServiceHandler \<Rightarrow> connect_error" where
  "UnimplementedSshServiceHandler Ssh_Exec = NewError CodeUnimplemented ''neoline.v1.SshService.Exec is not implemented''"
| "UnimplementedSshServiceHandler Ssh_TestConnection = NewError CodeUnimplemented ''neoline.v1.SshService.TestConnection is not implemented''"

section \<open>DataService\<close>

datatype DataServiceHandler =
    Data_ExportConfig
  | Data_ImportConfig

definition DataServiceName :: string where
  "DataServiceName = ''neoline.v1.DataService''"

fun DataServiceProcedure :: "DataServiceHandler \<Rightarrow> string" where
  "DataServiceProcedure Data_ExportConfig = ''/neoline.v1.DataService/ExportConfig''"
| "DataServiceProcedure Data_ImportConfig = ''/neoline.v1.DataService/ImportConfig''"

record dataServiceClient =
  dataClient_exportConfig :: string
  dataClient_importConfig :: string

definition NewDataServiceClient :: "string \<Rightarrow> dataServiceClient" where
  "NewDataServiceClient baseURL =
     (let baseURL = trim_right_slashes baseURL in
      \<lparr>dataClient_exportConfig = baseURL @ DataServiceProcedure Data_ExportConfig,
       dataClient_importConfig = baseURL @ DataServiceProcedure Data_ImportConfig\<rparr>)"

fun dataServiceClient_call :: "dataServiceClient \<Rightarrow> DataServiceHandler \<Rightarrow> string" where
  "dataServiceClient_call c Data_ExportConfig = dataClient_exportConfig c"
| "dataServiceClient_call c Data_ImportConfig = dataClient_importConfig c"

definition NewDataServiceHandler :: "string \<times> (string \<Rightarrow> DataServiceHandler option)" where
  "NewDataServiceHandler =
     (''/neoline.v1.DataService/'', \<lambda>path.
        if path = DataServiceProcedure Data_ExportConfig then Some Data_ExportConfig
        else if path = DataServiceProcedure Data_ImportConfig then Some Data_ImportConfig
        else None)"

fun UnimplementedDataServiceHandler :: "DataServiceHandler \<Rightarrow> connect_error" where
  "UnimplementedDataServiceHandler Data_ExportConfig = NewError CodeUnimplemented ''neoline.v1.DataService.ExportConfig is not implemented''"
| "UnimplementedDataServiceHandler Data_ImportConfig = NewError CodeUnimplemented ''neoline.v1.DataService.ImportConfig is not implemented''"

section \<open>ServerCertificateService\<close>

datatype ServerCertificateServiceHandler =
    ServerCertificate_ListCertificates
  | ServerCertificate_GetCertificateBundle

definition ServerCertificateServiceName :: string where
  "ServerCertificateServiceName = ''neoline.v1.ServerCertificateService''"

fun ServerCertificateServiceProcedure :: "ServerCertificateServiceHandler \<Rightarrow> string" where
  "ServerCertificateServiceProcedure ServerCertificate_ListCertificates = ''/neoline.v1.ServerCertificateService/ListCertificates''"
| "ServerCertificateServiceProcedure ServerCertificate_GetCertificateBundle = ''/neoline.v1.ServerCertificateService/GetCertificateBundle''"

record serverCertificateServiceClient =
  serverCertificateClient_listCertificates :: string
  serverCertificateClient_getCertificateBundle :: string

definition NewServerCertificateServiceClient :: "string \<Rightarrow> serverCertificateServiceClient" where
  "NewServerCertificateServiceClient baseURL =
     (let baseURL = trim_right_slashes baseURL in
      \<lparr>serverCertificateClient_listCertificates = baseURL @ ServerCertificateServiceProcedure ServerCertificate_ListCertificates,
       serverCertificateClient_getCertificateBundle = baseURL @ ServerCertificateServiceProcedure ServerCertificate_GetCertificateBundle\<rparr>)"

fun serverCertificateServiceClient_call :: "serverCertificateServiceClient \<Rightarrow> ServerCertificateServiceHandler \<Rightarrow> string" where
  "serverCertificateServiceClient_call c ServerCertificate_ListCertificates = serverCertificateClient_listCertificates c"
| "serverCertificateServiceClient_call c ServerCertificate_GetCertificateBundle = serverCertificateClient_getCertificateBundle c"

definition NewServerCertificateServiceHandler :: "string \<times> (string \<Rightarrow> ServerCertificateServiceHandler option)" where
  "NewServerCertificateServiceHandler =
     (''/neoline.v1.ServerCertificateService/'', \<lambda>path.
        if path = ServerCertificateServiceProcedure ServerCertificate_ListCertificates then Some ServerCertificate_ListCertificates
        else if path = ServerCertificateServiceProcedure ServerCertificate_GetCertificateBundle then Some ServerCertificate_GetCertificateBundle
        else None)"

fun UnimplementedServerCertificateServiceHandler :: "ServerCertificateServiceHandler \<Rightarrow> connect_error" where
  "UnimplementedServerCertificateServiceHandler ServerCertificate_ListCertificates = NewError CodeUnimplemented ''neoline.v1.ServerCertificateService.ListCertificates is not implemented''"
| "UnimplementedServerCertificateServiceHandler ServerCertificate_GetCertificateBundle = NewError CodeUnimplemented ''neoline.v1.ServerCertificateService.GetCertificateBundle is not implemented''"

end
