(* ===== verification/Surface.thy ===== *)
theory Surface
  imports Routes
begin

text \<open>
  What service.go mounts: the path of a request selects a service and a method, whose interceptors then
  decide. \<open>net/http\<close> serves a path that is clean from the handler with the longest pattern that is a
  prefix of it; other paths it redirects, which like a path without a handler is \<open>None\<close>. The path is the
  one that is decoded.
\<close>

datatype rpc =
    Rpc_Auth AuthServiceHandler
  | Rpc_AuditLog AuditLogServiceHandler
  | Rpc_Settings SettingsServiceHandler
  | Rpc_Status StatusServiceHandler
  | Rpc_Server ServerServiceHandler
  | Rpc_Monitor MonitorServiceHandler
  | Rpc_MonitorGroup MonitorGroupServiceHandler
  | Rpc_NotifyGroup NotifyGroupServiceHandler
  | Rpc_DNSProviderAccount DNSProviderAccountServiceHandler
  | Rpc_CertificateIssuer CertificateIssuerServiceHandler
  | Rpc_ManagedCertificate ManagedCertificateServiceHandler
  | Rpc_CertificateAccessToken CertificateAccessTokenServiceHandler
  | Rpc_McpToken McpTokenServiceHandler
  | Rpc_Ssh SshServiceHandler
  | Rpc_Data DataServiceHandler
  | Rpc_ServerCertificate ServerCertificateServiceHandler

fun rpc_procedure :: "rpc \<Rightarrow> string" where
  "rpc_procedure (Rpc_Auth m) = AuthServiceProcedure m"
| "rpc_procedure (Rpc_AuditLog m) = AuditLogServiceProcedure m"
| "rpc_procedure (Rpc_Settings m) = SettingsServiceProcedure m"
| "rpc_procedure (Rpc_Status m) = StatusServiceProcedure m"
| "rpc_procedure (Rpc_Server m) = ServerServiceProcedure m"
| "rpc_procedure (Rpc_Monitor m) = MonitorServiceProcedure m"
| "rpc_procedure (Rpc_MonitorGroup m) = MonitorGroupServiceProcedure m"
| "rpc_procedure (Rpc_NotifyGroup m) = NotifyGroupServiceProcedure m"
| "rpc_procedure (Rpc_DNSProviderAccount m) = DNSProviderAccountServiceProcedure m"
| "rpc_procedure (Rpc_CertificateIssuer m) = CertificateIssuerServiceProcedure m"
| "rpc_procedure (Rpc_ManagedCertificate m) = ManagedCertificateServiceProcedure m"
| "rpc_procedure (Rpc_CertificateAccessToken m) = CertificateAccessTokenServiceProcedure m"
| "rpc_procedure (Rpc_McpToken m) = McpTokenServiceProcedure m"
| "rpc_procedure (Rpc_Ssh m) = SshServiceProcedure m"
| "rpc_procedure (Rpc_Data m) = DataServiceProcedure m"
| "rpc_procedure (Rpc_ServerCertificate m) = ServerCertificateServiceProcedure m"

text \<open>The URL of a call of the generated client.\<close>

fun client_url :: "string \<Rightarrow> rpc \<Rightarrow> string" where
  "client_url base (Rpc_Auth m) = authServiceClient_call (NewAuthServiceClient base) m"
| "client_url base (Rpc_AuditLog m) = auditLogServiceClient_call (NewAuditLogServiceClient base) m"
| "client_url base (Rpc_Settings m) = settingsServiceClient_call (NewSettingsServiceClient base) m"
| "client_url base (Rpc_Status m) = statusServiceClient_call (NewStatusServiceClient base) m"
| "client_url base (Rpc_Server m) = serverServiceClient_call (NewServerServiceClient base) m"
| "client_url base (Rpc_Monitor m) = monitorServiceClient_call (NewMonitorServiceClient base) m"
| "client_url base (Rpc_MonitorGroup m) = monitorGroupServiceClient_call (NewMonitorGroupServiceClient base) m"
| "client_url base (Rpc_NotifyGroup m) = notifyGroupServiceClient_call (NewNotifyGroupServiceClient base) m"
| "client_url base (Rpc_DNSProviderAccount m) = dNSProviderAccountServiceClient_call (NewDNSProviderAccountServiceClient base) m"
| "client_url base (Rpc_CertificateIssuer m) = certificateIssuerServiceClient_call (NewCertificateIssuerServiceClient base) m"
| "client_url base (Rpc_ManagedCertificate m) = managedCertificateServiceClient_call (NewManagedCertificateServiceClient base) m"
| "client_url base (Rpc_CertificateAccessToken m) = certificateAccessTokenServiceClient_call (NewCertificateAccessTokenServiceClient base) m"
| "client_url base (Rpc_McpToken m) = mcpTokenServiceClient_call (NewMcpTokenServiceClient base) m"
| "client_url base (Rpc_Ssh m) = sshServiceClient_call (NewSshServiceClient base) m"
| "client_url base (Rpc_Data m) = dataServiceClient_call (NewDataServiceClient base) m"
| "client_url base (Rpc_ServerCertificate m) = serverCertificateServiceClient_call (NewServerCertificateServiceClient base) m"

section \<open>The routing of a request\<close>

definition BasePath :: string where
  "BasePath = ''/api/grpc''"

definition clean_path :: "string \<Rightarrow> bool" where
  "clean_path p \<longleftrightarrow>
     (case split_on (CHR ''/'') p of
        first # rest \<Rightarrow> first = [] \<and> rest \<noteq> [] \<and> list_all (\<lambda>x. x \<noteq> []) (butlast rest) \<and>
          list_all (\<lambda>x. x \<noteq> ''.'' \<and> x \<noteq> ''..'') rest
      | [] \<Rightarrow> False)"

fun mux_match :: "(string \<times> 'h) list \<Rightarrow> string \<Rightarrow> (string \<times> 'h) option" where
  "mux_match [] path = None"
| "mux_match ((pattern, h) # mux) path =
     (case mux_match mux path of
        Some (pattern', h') \<Rightarrow>
          if has_prefix path pattern \<and> length pattern' < length pattern then Some (pattern, h) else Some (pattern', h')
      | None \<Rightarrow> if has_prefix path pattern then Some (pattern, h) else None)"

definition mux_serve :: "(string \<times> (string \<Rightarrow> 'm option)) list \<Rightarrow> string \<Rightarrow> 'm option" where
  "mux_serve mux path =
     (if clean_path path then case mux_match mux path of None \<Rightarrow> None | Some (_, h) \<Rightarrow> h path else None)"

text \<open>\<open>wrap\<close> turns the methods of a service into methods of the API.\<close>

definition mounted :: "('m \<Rightarrow> rpc) \<Rightarrow> string \<times> (string \<Rightarrow> 'm option) \<Rightarrow> string \<times> (string \<Rightarrow> rpc option)" where
  "mounted wrap h = (fst h, \<lambda>path. map_option wrap (snd h path))"

definition mux :: "(string \<times> (string \<Rightarrow> rpc option)) list" where
  "mux =
     [mounted Rpc_Auth NewAuthServiceHandler,
      mounted Rpc_AuditLog NewAuditLogServiceHandler,
      mounted Rpc_Settings NewSettingsServiceHandler,
      mounted Rpc_Status NewStatusServiceHandler,
      mounted Rpc_Server NewServerServiceHandler,
      mounted Rpc_Monitor NewMonitorServiceHandler,
      mounted Rpc_MonitorGroup NewMonitorGroupServiceHandler,
      mounted Rpc_NotifyGroup NewNotifyGroupServiceHandler,
      mounted Rpc_DNSProviderAccount NewDNSProviderAccountServiceHandler,
      mounted Rpc_CertificateIssuer NewCertificateIssuerServiceHandler,
      mounted Rpc_ManagedCertificate NewManagedCertificateServiceHandler,
      mounted Rpc_CertificateAccessToken NewCertificateAccessTokenServiceHandler,
      mounted Rpc_McpToken NewMcpTokenServiceHandler,
      mounted Rpc_Ssh NewSshServiceHandler,
      mounted Rpc_Data NewDataServiceHandler,
      mounted Rpc_ServerCertificate NewServerCertificateServiceHandler]"

definition Register :: "string \<Rightarrow> rpc option" where
  "Register path =
     (if has_prefix path (BasePath @ ''/'') then mux_serve mux (drop (length BasePath) path) else None)"

section \<open>Every method has its route\<close>

lemmas handler_defs = NewAuthServiceHandler_def
  NewAuditLogServiceHandler_def
  NewSettingsServiceHandler_def
  NewStatusServiceHandler_def
  NewServerServiceHandler_def
  NewMonitorServiceHandler_def
  NewMonitorGroupServiceHandler_def
  NewNotifyGroupServiceHandler_def
  NewDNSProviderAccountServiceHandler_def
  NewCertificateIssuerServiceHandler_def
  NewManagedCertificateServiceHandler_def
  NewCertificateAccessTokenServiceHandler_def
  NewMcpTokenServiceHandler_def
  NewSshServiceHandler_def
  NewDataServiceHandler_def
  NewServerCertificateServiceHandler_def

lemma mux_match_found: "mux_match ms path = Some (p, h) \<Longrightarrow> (p, h) \<in> set ms \<and> has_prefix path p"
  by (induction ms path arbitrary: p h rule: mux_match.induct) (auto split: option.splits if_splits prod.splits)

lemma handler_procedure: "(p, h) \<in> set mux \<Longrightarrow> h path = Some m \<Longrightarrow> path = rpc_procedure m"
  unfolding mux_def mounted_def
  by (simp only: set_simps insert_iff empty_iff prod.inject, elim disjE; clarsimp simp: handler_defs split: if_splits)

definition all_rpcs :: "rpc list" where
  "all_rpcs =
     [Rpc_Auth Auth_Login, Rpc_Auth Auth_Logout, Rpc_Auth Auth_GetCurrentUser,
      Rpc_AuditLog AuditLog_ListAuditLogs, Rpc_Settings Settings_GetSettings,
      Rpc_Settings Settings_UpdateSettings, Rpc_Status Status_GetStatusOverview,
      Rpc_Server Server_ListServers, Rpc_Server Server_CreateServer, Rpc_Server Server_GetServer,
      Rpc_Server Server_UpdateServer, Rpc_Server Server_DeleteServer, Rpc_Server Server_GetServerHealth,
      Rpc_Server Server_ListServerEvents, Rpc_Monitor Monitor_ListMonitors, Rpc_Monitor Monitor_CreateMonitor,
      Rpc_Monitor Monitor_GetMonitor, Rpc_Monitor Monitor_UpdateMonitor, Rpc_Monitor Monitor_DeleteMonitor,
      Rpc_Monitor Monitor_ListCheckResults, Rpc_Monitor Monitor_GetMonitorUptime,
      Rpc_MonitorGroup MonitorGroup_ListMonitorGroups, Rpc_MonitorGroup MonitorGroup_CreateMonitorGroup,
      Rpc_MonitorGroup MonitorGroup_GetMonitorGroup, Rpc_MonitorGroup MonitorGroup_UpdateMonitorGroup,
      Rpc_MonitorGroup MonitorGroup_DeleteMonitorGroup, Rpc_MonitorGroup MonitorGroup_ListMonitorsByGroup,
      Rpc_NotifyGroup NotifyGroup_ListNotifyGroups, Rpc_NotifyGroup NotifyGroup_CreateNotifyGroup,
      Rpc_NotifyGroup NotifyGroup_GetNotifyGroup, Rpc_NotifyGroup NotifyGroup_UpdateNotifyGroup,
      Rpc_NotifyGroup NotifyGroup_DeleteNotifyGroup,
      Rpc_DNSProviderAccount DNSProviderAccount_ListDNSProviderAccounts,
      Rpc_DNSProviderAccount DNSProviderAccount_CreateDNSProviderAccount,
      Rpc_DNSProviderAccount DNSProviderAccount_GetDNSProviderAccount,
      Rpc_DNSProviderAccount DNSProviderAccount_UpdateDNSProviderAccount,
      Rpc_DNSProviderAccount DNSProviderAccount_DeleteDNSProviderAccount,
      Rpc_CertificateIssuer CertificateIssuer_ListCertificateIssuers,
      Rpc_CertificateIssuer CertificateIssuer_GetCertificateIssuerDirectoryPreview,
      Rpc_CertificateIssuer CertificateIssuer_CreateCertificateIssuer,
      Rpc_CertificateIssuer CertificateIssuer_GetCertificateIssuer,
      Rpc_CertificateIssuer CertificateIssuer_UpdateCertificateIssuer,
      Rpc_CertificateIssuer CertificateIssuer_DeleteCertificateIssuer,
      Rpc_CertificateIssuer CertificateIssuer_RetryCertificateIssuerRegistration,
      Rpc_ManagedCertificate ManagedCertificate_ListManagedCertificates,
      Rpc_ManagedCertificate ManagedCertificate_CreateManagedCertificate,
      Rpc_ManagedCertificate ManagedCertificate_GetManagedCertificate,
      Rpc_ManagedCertificate ManagedCertificate_UpdateManagedCertificate,
      Rpc_ManagedCertificate ManagedCertificate_SubmitIssueOperation,
      Rpc_ManagedCertificate ManagedCertificate_SubmitRenewOperation,
      Rpc_ManagedCertificate ManagedCertificate_SubmitRevokeVersion,
      Rpc_ManagedCertificate ManagedCertificate_GetCertificateBundle,
      Rpc_ManagedCertificate ManagedCertificate_ActivatePreviousVersion,
      Rpc_ManagedCertificate ManagedCertificate_DeleteManagedCertificate,
      Rpc_CertificateAccessToken CertificateAccessToken_ListCertificateAccessTokens,
      Rpc_CertificateAccessToken CertificateAccessToken_CreateCertificateAccessToken,
      Rpc_CertificateAccessToken CertificateAccessToken_DeleteCertificateAccessToken,
      Rpc_McpToken McpToken_ListMcpTokens, Rpc_McpToken McpToken_CreateMcpToken,
      Rpc_McpToken McpToken_DeleteMcpToken, Rpc_Ssh Ssh_Exec, Rpc_Ssh Ssh_TestConnection,
      Rpc_Data Data_ExportConfig, Rpc_Data Data_ImportConfig,
      Rpc_ServerCertificate ServerCertificate_ListCertificates,
      Rpc_ServerCertificate ServerCertificate_GetCertificateBundle]"

lemma all_rpcs_complete: "m \<in> set all_rpcs"
  by (cases m; rename_tac x; case_tac x; simp add: all_rpcs_def)

lemma routes_evaluated: "list_all (\<lambda>m. Register (BasePath @ rpc_procedure m) = Some m) all_rpcs"
  by code_simp

lemma list_all_rpcs: "list_all P all_rpcs \<Longrightarrow> P m"
  using all_rpcs_complete by (simp add: list_all_iff)

lemma register_procedure: "Register (BasePath @ rpc_procedure m) = Some m"
  using routes_evaluated by (rule list_all_rpcs)

lemma register_only: "Register path = Some m \<Longrightarrow> path = BasePath @ rpc_procedure m"
proof -
  assume reg: "Register path = Some m"
  then have "take (length (BasePath @ ''/'')) path = BasePath @ ''/''"
    by (simp add: Register_def has_prefix_def split: if_splits)
  then have "take (length BasePath) (take (length (BasePath @ ''/'')) path) = BasePath" by simp
  then have base: "take (length BasePath) path = BasePath" by (simp add: min_def)
  from reg obtain p h where "mux_match mux (drop (length BasePath) path) = Some (p, h)" "h (drop (length BasePath) path) = Some m"
    by (auto simp: Register_def mux_serve_def split: if_splits option.splits)
  then have "drop (length BasePath) path = rpc_procedure m"
    using mux_match_found handler_procedure by metis
  with base show ?thesis by (metis append_take_drop_id)
qed

lemma trim_slashes: "x \<noteq> [] \<Longrightarrow> last x \<noteq> CHR ''/'' \<Longrightarrow> trim_right_slashes (x @ replicate n (CHR ''/'')) = x"
  by (cases x rule: rev_cases) (simp_all add: trim_right_slashes_def dropWhile_append2 dropWhile_append1 dropWhile_append)

lemmas client_defs = NewAuthServiceClient_def
  NewAuditLogServiceClient_def
  NewSettingsServiceClient_def
  NewStatusServiceClient_def
  NewServerServiceClient_def
  NewMonitorServiceClient_def
  NewMonitorGroupServiceClient_def
  NewNotifyGroupServiceClient_def
  NewDNSProviderAccountServiceClient_def
  NewCertificateIssuerServiceClient_def
  NewManagedCertificateServiceClient_def
  NewCertificateAccessTokenServiceClient_def
  NewMcpTokenServiceClient_def
  NewSshServiceClient_def
  NewDataServiceClient_def
  NewServerCertificateServiceClient_def

lemma client_url_procedure: "client_url base m = trim_right_slashes base @ rpc_procedure m"
  by (cases m; rename_tac x; case_tac x; simp add: Let_def client_defs)

section \<open>Who may call what\<close>

text \<open>The service \<open>ServerCertificateService\<close> has interceptors of its own (\<open>CertDistribution\<close>).\<close>

definition serve_path ::
  "(connect_error \<Rightarrow> string) \<Rightarrow> ('a, AuditLog) coll \<Rightarrow> (string \<Rightarrow> err + Session) \<Rightarrow> 'r redis \<Rightarrow> gotime \<Rightarrow> gotime \<Rightarrow> gotime \<Rightarrow> gotime \<Rightarrow>
    string \<Rightarrow> (rpc \<Rightarrow> Session option \<Rightarrow> 'r \<times> 's \<Rightarrow> (connect_error + 'b) \<times> 'r \<times> 's) \<Rightarrow> string \<Rightarrow> Request \<Rightarrow> ('r \<times> 's) \<times> 'a \<Rightarrow>
    ((connect_error + 'b) \<times> ('r \<times> 's) \<times> 'a) option" where
  "serve_path ce_text A unmarshal R start now at stop uuid handler path rq state =
     (case Register path of
        None \<Rightarrow> None
      | Some (Rpc_ServerCertificate _) \<Rightarrow> None
      | Some m \<Rightarrow> Some (serve ce_text A unmarshal R start now at stop uuid (handler m) (rq\<lparr>rq_Procedure := rpc_procedure m\<rparr>) state))"

definition public_rpcs :: "rpc list" where
  "public_rpcs = [Rpc_Auth Auth_Login, Rpc_Status Status_GetStatusOverview, Rpc_Settings Settings_GetSettings]"

text \<open>What a user may call who is no administrator.\<close>

definition user_rpcs :: "rpc list" where
  "user_rpcs =
     [Rpc_Auth Auth_Logout, Rpc_Auth Auth_GetCurrentUser, Rpc_AuditLog AuditLog_ListAuditLogs,
      Rpc_Server Server_ListServers, Rpc_Server Server_GetServer, Rpc_Server Server_GetServerHealth,
      Rpc_Server Server_ListServerEvents, Rpc_Monitor Monitor_ListMonitors, Rpc_Monitor Monitor_GetMonitor,
      Rpc_Monitor Monitor_ListCheckResults, Rpc_Monitor Monitor_GetMonitorUptime,
      Rpc_MonitorGroup MonitorGroup_ListMonitorGroups, Rpc_MonitorGroup MonitorGroup_GetMonitorGroup,
      Rpc_MonitorGroup MonitorGroup_ListMonitorsByGroup, Rpc_NotifyGroup NotifyGroup_ListNotifyGroups,
      Rpc_NotifyGroup NotifyGroup_GetNotifyGroup]"

definition distributed :: "rpc \<Rightarrow> bool" where
  "distributed m = (case m of Rpc_ServerCertificate _ \<Rightarrow> True | _ \<Rightarrow> False)"

lemma access_evaluated:
  "list_all (\<lambda>m. (rpc_procedure m \<in> set publicProcedures \<longrightarrow> m \<in> set public_rpcs) \<and>
     (distributed m \<or> m \<in> set public_rpcs \<or> requiresAdmin (rpc_procedure m) = (m \<notin> set user_rpcs))) all_rpcs"
  by code_simp

lemma access_of:
  "rpc_procedure m \<in> set publicProcedures \<Longrightarrow> m \<in> set public_rpcs"
  "\<not> distributed m \<Longrightarrow> m \<notin> set public_rpcs \<Longrightarrow> requiresAdmin (rpc_procedure m) \<longleftrightarrow> m \<notin> set user_rpcs"
  using list_all_rpcs [OF access_evaluated, of m] by auto

lemma served_path:
  assumes "serve_path ce_text A unmarshal R start now at stop uuid handler path rq (w, a) = Some (res, (w', a'))"
  obtains m session where "path = BasePath @ rpc_procedure m" "\<not> distributed m"
    "authInterceptor unmarshal R now at (handler m) (rq\<lparr>rq_Procedure := rpc_procedure m\<rparr>) w = ((session, res), w')"
proof -
  obtain m where m: "Register path = Some m" "\<not> distributed m"
    "serve ce_text A unmarshal R start now at stop uuid (handler m) (rq\<lparr>rq_Procedure := rpc_procedure m\<rparr>) (w, a) = (res, (w', a'))"
    using assms by (auto simp: serve_path_def distributed_def split: option.splits rpc.splits)
  obtain session where "authInterceptor unmarshal R now at (handler m) (rq\<lparr>rq_Procedure := rpc_procedure m\<rparr>) w = ((session, res), w')"
    using m(3) by (auto simp: serve_def auditInterceptor_def split: prod.splits)
  with m register_only show thesis by (intro that)
qed

text \<open>Calls that change something or hand out a private key, and are audited as reads.\<close>

lemma audited_as_reads:
  "list_all (\<lambda>m. auditAction (rpc_procedure m) = ''read'' \<and> requiresAdmin (rpc_procedure m))
     [Rpc_ManagedCertificate ManagedCertificate_SubmitIssueOperation, Rpc_ManagedCertificate ManagedCertificate_SubmitRenewOperation,
      Rpc_ManagedCertificate ManagedCertificate_SubmitRevokeVersion, Rpc_ManagedCertificate ManagedCertificate_ActivatePreviousVersion,
      Rpc_ManagedCertificate ManagedCertificate_GetCertificateBundle,
      Rpc_CertificateIssuer CertificateIssuer_RetryCertificateIssuerRegistration, Rpc_Ssh Ssh_Exec]"
  by code_simp

section \<open>Properties\<close>

text \<open>
  C39: the routes of the API are exact: a path reaches a method precisely when it is the base path followed
  by the method's procedure, no method shadows another, and every call of the generated client, given
  the address of the server with any number of slashes at its end, reaches the method it is for.
\<close>

theorem api_routes_exact:
  "(Register path = Some m \<longleftrightarrow> path = BasePath @ rpc_procedure m) \<and>
   Register (drop (length origin) (client_url (origin @ BasePath @ replicate n (CHR ''/'')) m')) = Some m'"
proof -
  have "trim_right_slashes ((origin @ BasePath) @ replicate n (CHR ''/'')) = origin @ BasePath"
    by (rule trim_slashes) (simp_all add: BasePath_def)
  then show ?thesis using register_only register_procedure by (auto simp: client_url_procedure)
qed



end
