(* ===== verification/Diagnostics.thy ===== *)
theory Diagnostics
  imports Execution
begin

text \<open>
  What internal/certmanager writes to its log (diagnostics.go). An attribute is a key with a value; the
  error types of the libraries are recognised by \<open>library_errors\<close>, which stands for \<open>errors.As\<close> with
  lego's \<open>ProblemDetails\<close>, Cloudflare's \<open>Error\<close> and \<open>net.Error\<close>. \<open>ul\<close> is \<open>strings.ToLower\<close>.
\<close>

datatype attr = AString string | AInt int | ABool bool | AStrings "string list" | AInts "int list" | ATime gotime

record acme_problem =
  ap_HTTPStatus :: int
  ap_Type :: string

record cloudflare_error =
  cle_StatusCode :: int
  cle_Type :: string
  cle_ErrorCodes :: "int list"
  cle_RayID :: string

record library_errors =
  is_canceled :: "err \<Rightarrow> bool"
  is_deadline :: "err \<Rightarrow> bool"
  as_acme :: "err \<Rightarrow> acme_problem option"
  as_cloudflare :: "err \<Rightarrow> cloudflare_error option"
  as_network :: "err \<Rightarrow> bool option"

section \<open>Operations\<close>

definition operationLogAttrs :: "CertificateOperation \<Rightarrow> (string \<times> attr) list" where
  "operationLogAttrs op =
     [(''operation_id'', AString (op_ID op)), (''managed_certificate_id'', AString (op_ManagedCertificateID op)),
      (''operation_type'', AString (op_Type op)), (''operation_status'', AString (op_Status op)),
      (''attempt_count'', AInt (uint (op_AttemptCount op))), (''consecutive_failures'', AInt (uint (op_ConsecutiveFailures op))),
      (''issuer_id'', AString (is_CertificateIssuerID (op_ConfigSnapshot op))),
      (''dns_provider_account_id'', AString (is_DNSProviderAccountID (op_ConfigSnapshot op))),
      (''domain_count'', AInt (int (length (is_Domains (op_ConfigSnapshot op))))),
      (''domains'', AStrings (is_Domains (op_ConfigSnapshot op))),
      (''pending_txt_count'', AInt (int (length (op_PendingTXTRecords op)))), (''lease_owner'', AString (op_LeaseOwner op))] @
     (case op_LeaseExpiresAt op of None \<Rightarrow> [] | Some t \<Rightarrow> [(''lease_expires_at'', ATime t)]) @
     (case op_DeadlineAt op of None \<Rightarrow> [] | Some t \<Rightarrow> [(''deadline_at'', ATime t)])"

section \<open>Errors\<close>

text \<open>The classes by the text of an error.\<close>

definition text_class :: "string \<Rightarrow> string" where
  "text_class lower =
     (if contains lower ''tls'' \<or> contains lower ''x509'' then ''tls_error''
      else if contains lower ''cloudflare'' then ''cloudflare_error''
      else if contains lower ''dns'' \<or> contains lower ''zone'' then ''dns_error''
      else if contains lower ''acme'' \<or> contains lower ''order'' then ''acme_error''
      else if contains lower ''mongo'' \<or> contains lower ''store'' then ''storage_error''
      else ''unknown_error'')"

definition cloudflare_class :: "int \<Rightarrow> string" where
  "cloudflare_class status =
     (if status = 401 then ''cloudflare_authentication''
      else if status = 403 then ''cloudflare_authorization''
      else if status = 404 then ''cloudflare_not_found''
      else if status = 429 then ''cloudflare_rate_limit''
      else if status = 500 \<or> status = 502 \<or> status = 503 \<or> status = 504 then ''cloudflare_service''
      else ''cloudflare_api'')"

definition safeErrorClass :: "(string \<Rightarrow> string) \<Rightarrow> (string \<Rightarrow> string) \<Rightarrow> library_errors \<Rightarrow> err \<Rightarrow> string" where
  "safeErrorClass ul q D e =
     (if is_canceled D e then ''context_canceled''
      else if is_deadline D e then ''context_deadline_exceeded''
      else if errors_is e (CertE ErrIssuerNotReady) then ''issuer_not_ready''
      else if errors_is e (CertE ErrIssuerAccountURIRequired) then ''acme_account_unavailable''
      else if errors_is e (StoreE ErrCertificateOperationConflict) then ''operation_conflict''
      else case as_cloudflare D e of
        Some c \<Rightarrow> cloudflare_class (cle_StatusCode c)
      | None \<Rightarrow>
         (case as_acme D e of
            Some p \<Rightarrow> ''acme_problem''
          | None \<Rightarrow>
             (case as_network D e of
                Some timeout \<Rightarrow> if timeout then ''network_timeout'' else ''network_error''
              | None \<Rightarrow> text_class (ul (error_text q e)))))"

definition safeErrorAttrs ::
  "(string \<Rightarrow> string) \<Rightarrow> (string \<Rightarrow> string) \<Rightarrow> library_errors \<Rightarrow> err option \<Rightarrow> (string \<times> attr) list" where
  "safeErrorAttrs ul q D err =
     (case err of
        None \<Rightarrow> []
      | Some e \<Rightarrow>
         [(''error_class'', AString (safeErrorClass ul q D e))] @
         (case as_acme D e of
            None \<Rightarrow> []
          | Some p \<Rightarrow> (''acme_http_status'', AInt (ap_HTTPStatus p)) #
              (if ap_Type p \<noteq> [] then [(''acme_problem_type'', AString (ap_Type p))] else [])) @
         (case as_cloudflare D e of
            None \<Rightarrow> []
          | Some c \<Rightarrow>
              [(''cloudflare_http_status'', AInt (cle_StatusCode c)), (''cloudflare_error_type'', AString (cle_Type c)),
               (''cloudflare_error_codes'', AInts (cle_ErrorCodes c))] @
              (if cle_RayID c \<noteq> [] then [(''cloudflare_ray_id'', AString (cle_RayID c))] else [])) @
         (case as_network D e of None \<Rightarrow> [] | Some timeout \<Rightarrow> [(''network_timeout'', ABool timeout)]))"

text \<open>\<open>hostname\<close> is the host name of the URL that \<open>url.Parse\<close> gives.\<close>

definition safeURLHost :: "(string \<Rightarrow> string option) \<Rightarrow> string \<Rightarrow> string" where
  "safeURLHost hostname rawURL =
     (case hostname rawURL of None \<Rightarrow> ''invalid'' | Some h \<Rightarrow> if h = [] then ''invalid'' else h)"

definition dnsProviderStep :: "(string \<Rightarrow> string) \<Rightarrow> (string \<Rightarrow> string) \<Rightarrow> err option \<Rightarrow> string" where
  "dnsProviderStep ul q err =
     (case err of
        None \<Rightarrow> ''unknown''
      | Some e \<Rightarrow>
         let lower = ul (error_text q e) in
         if contains lower ''create txt record'' then ''create_txt_record''
         else if contains lower ''find zone'' \<or> contains lower ''zone for domain'' then ''find_zone''
         else if contains lower ''unknown record'' then ''find_record''
         else if contains lower ''delete'' then ''delete_record''
         else ''provider'')"

section \<open>Requests to the CA\<close>

text \<open>The path is the escaped path of the URL.\<close>

definition acmeRequestKind :: "(string \<Rightarrow> string) \<Rightarrow> string option \<Rightarrow> string" where
  "acmeRequestKind ul u =
     (case u of
        None \<Rightarrow> ''unknown''
      | Some escaped \<Rightarrow>
         let path = ul escaped in
         if has_suffix path ''/directory'' then ''directory''
         else if contains path ''/new-nonce'' then ''new_nonce''
         else if contains path ''/new-account'' then ''new_account''
         else if contains path ''/new-order'' then ''new_order''
         else if contains path ''/authz/'' then ''authorization''
         else if contains path ''/challenge/'' then ''challenge''
         else if contains path ''/finalize/'' then ''finalize''
         else if has_suffix path ''/certificate'' then ''certificate''
         else if has_suffix path ''/revoke-cert'' then ''revoke_certificate''
         else ''other'')"

record http_request =
  hr_Path :: string
  hr_Host :: string
  hr_Method :: string

datatype level = LevelInfo | LevelWarn | LevelError

text \<open>
  \<open>base\<close> is the transport, with its status and the rest of the response; the log is the list of what was
  written.
\<close>

definition RoundTrip ::
  "(string \<Rightarrow> string) \<Rightarrow> (string \<Rightarrow> string) \<Rightarrow> library_errors \<Rightarrow> (http_request \<Rightarrow> err + int \<times> 'x) \<Rightarrow> (string \<times> attr) list \<Rightarrow>
    gotime \<Rightarrow> gotime \<Rightarrow> http_request \<Rightarrow> (level \<times> string \<times> (string \<times> attr) list) list \<Rightarrow>
    (err + int \<times> 'x) \<times> (level \<times> string \<times> (string \<times> attr) list) list" where
  "RoundTrip ul q D base tattrs started ended req log =
     (let attrs = tattrs @
            [(''acme_request_kind'', AString (acmeRequestKind ul (Some (hr_Path req)))), (''acme_host'', AString (hr_Host req)),
             (''http_method'', AString (hr_Method req)), (''duration_ms'', AInt (milliseconds (time_sub ended started)))]
      in case base req of
           Inl e \<Rightarrow> (Inl e, log @ [(LevelError, ''acme HTTP request failed'', attrs @ safeErrorAttrs ul q D (Some e))])
         | Inr (status, resp) \<Rightarrow>
             let attrs = attrs @ [(''http_status'', AInt status)]
             in (Inr (status, resp), log @ [if 400 \<le> status then (LevelWarn, ''acme HTTP request returned error'', attrs)
                  else (LevelInfo, ''acme HTTP request completed'', attrs)]))"

text \<open>The attributes of the transport that \<open>newACMEDiagnosticClient\<close> puts around the client's.\<close>

definition newACMEDiagnosticClient ::
  "(string \<Rightarrow> string) \<Rightarrow> (string \<Rightarrow> string) \<Rightarrow> library_errors \<Rightarrow> (http_request \<Rightarrow> err + int \<times> 'x) \<Rightarrow> string \<Rightarrow> string \<Rightarrow> u32 \<Rightarrow>
    gotime \<Rightarrow> gotime \<Rightarrow> http_request \<Rightarrow> (level \<times> string \<times> (string \<times> attr) list) list \<Rightarrow>
    (err + int \<times> 'x) \<times> (level \<times> string \<times> (string \<times> attr) list) list" where
  "newACMEDiagnosticClient ul q D base operationID managedCertificateID attempts =
     RoundTrip ul q D base
       [(''operation_id'', AString operationID), (''managed_certificate_id'', AString managedCertificateID),
        (''attempt_count'', AInt (uint attempts))]"

section \<open>What the log can disclose\<close>

definition error_classes :: "string list" where
  "error_classes =
     [''context_canceled'', ''context_deadline_exceeded'', ''issuer_not_ready'', ''acme_account_unavailable'',
      ''operation_conflict'', ''cloudflare_authentication'', ''cloudflare_authorization'', ''cloudflare_not_found'',
      ''cloudflare_rate_limit'', ''cloudflare_service'', ''cloudflare_api'', ''acme_problem'', ''network_timeout'',
      ''network_error'', ''tls_error'', ''cloudflare_error'', ''dns_error'', ''acme_error'', ''storage_error'',
      ''unknown_error'']"

lemmas listed = error_classes_def list.set insert_iff refl simp_thms

lemma class_listed: "safeErrorClass ul q D e \<in> set error_classes"
proof -
  have txts: "text_class t \<in> set error_classes" for t
    by (simp only: text_class_def listed split: if_split)
  have cloudflare: "cloudflare_class n \<in> set error_classes" for n
    by (simp only: cloudflare_class_def listed split: if_split)
  have fixed: "''context_canceled'' \<in> set error_classes" "''context_deadline_exceeded'' \<in> set error_classes"
      "''issuer_not_ready'' \<in> set error_classes" "''acme_account_unavailable'' \<in> set error_classes"
      "''operation_conflict'' \<in> set error_classes" "''acme_problem'' \<in> set error_classes"
      "''network_timeout'' \<in> set error_classes" "''network_error'' \<in> set error_classes"
    by (simp_all only: listed)
  show ?thesis
    by (simp only: safeErrorClass_def txts cloudflare fixed simp_thms split: if_split option.split)
qed

text \<open>The strings that attributes carry.\<close>

fun strings_of :: "attr \<Rightarrow> string list" where
  "strings_of (AString x) = [x]"
| "strings_of (AStrings xs) = xs"
| "strings_of _ = []"

definition texts :: "(string \<times> attr) list \<Rightarrow> string set" where
  "texts attrs = (\<Union>(k, a) \<in> set attrs. set (strings_of a))"

lemma texts_append [simp]: "texts (xs @ ys) = texts xs \<union> texts ys"
  by (auto simp: texts_def)

lemma texts_simps [simp]: "texts [] = {}" "texts ((k, a) # xs) = set (strings_of a) \<union> texts xs"
  by (auto simp: texts_def)

text \<open>
  Every string of the attributes of an error is one of twenty fixed classes, or a field that the CA or
  Cloudflare gave beside its message: the error's text is not among them.
\<close>

lemma error_attrs_disclose:
  "texts (safeErrorAttrs ul q D (Some e)) \<subseteq> set error_classes \<union>
     (case as_acme D e of None \<Rightarrow> {} | Some p \<Rightarrow> {ap_Type p}) \<union>
     (case as_cloudflare D e of None \<Rightarrow> {} | Some c \<Rightarrow> {cle_Type c, cle_RayID c})"
  using class_listed [of ul q D e] by (auto simp: safeErrorAttrs_def split: option.splits if_splits)

text \<open>The challenge records of an operation are only counted.\<close>

lemma operation_attrs_hide_records:
  "length records = length (op_PendingTXTRecords op) \<Longrightarrow>
    operationLogAttrs (op\<lparr>op_PendingTXTRecords := records\<rparr>) = operationLogAttrs op"
  by (simp add: operationLogAttrs_def)

text \<open>The diagnostics do not change what the CA is asked or answers, and write one entry.\<close>

lemma diagnostics_transparent:
  "\<exists>entry. newACMEDiagnosticClient ul q D base oid cid n started ended req log = (base req, log @ [entry])"
  by (auto simp: newACMEDiagnosticClient_def RoundTrip_def Let_def split: sum.split)

end
