(* ===== verification/Lego.thy ===== *)
theory Lego
  imports Attempts IssuerLife
begin

text \<open>
  The client of the certificate authority, \<open>LegoACMEClient\<close> of acme.go, over the library lego: the record
  \<open>lego\<close> is what the library does with a client \<open>'h\<close> that it has made of a configuration. It gives the
  \<open>acme_client\<close> that the rest of the manager takes as an argument. A cancelled context is left out.
\<close>

section \<open>The library\<close>

datatype certcrypto_key = EC256 | RSA2048

record lego_user =
  lu_email :: string
  lu_registration :: "string option"
  lu_key :: privkey

record lego_config =
  lc_User :: lego_user
  lc_CADirURL :: string
  lc_KeyType :: certcrypto_key

text \<open>A run of \<open>Certificate.Obtain\<close> with the callbacks to the DNS provider; it ends in two PEM blocks.\<close>

datatype obtain_run =
    Obtained "err + string \<times> string"
  | ObtainPresent DNSChallengeRecord "err option \<Rightarrow> obtain_run"
  | ObtainCleanUp DNSChallengeRecord "err option \<Rightarrow> obtain_run"

record 'h lego =
  NewClient :: "lego_config \<Rightarrow> err + 'h"
  GetToSURL :: "'h \<Rightarrow> string"
  RegisterClient :: "'h \<Rightarrow> err + string option"
  RegisterWithEAB :: "'h \<Rightarrow> string \<Rightarrow> string \<Rightarrow> err + string option"
  SetDNS01Provider :: "'h \<Rightarrow> err option"
  Obtain :: "'h \<Rightarrow> string list \<Rightarrow> privkey \<Rightarrow> obtain_run"
  RevokeCert :: "'h \<Rightarrow> string \<Rightarrow> err option"
  RevokeWithReason :: "'h \<Rightarrow> string \<Rightarrow> u32 \<Rightarrow> err option"

text \<open>Keys: \<open>rsa.GenerateKey\<close> with 2048 bits, \<open>ecdsa.GenerateKey\<close> on P-256, \<open>x509.MarshalPKCS8PrivateKey\<close>.\<close>

record key_source =
  GenerateRSA2048 :: "err + privkey"
  GenerateP256 :: "err + privkey"
  PreviewKey :: privkey
  MarshalPKCS8 :: "privkey \<Rightarrow> err + string"

section \<open>The client\<close>

definition parseAccountKeyPEM :: "(string \<Rightarrow> string) \<Rightarrow> x509 \<Rightarrow> string \<Rightarrow> err + privkey" where
  "parseAccountKeyPEM q X pemData =
     (case pem_Decode X pemData of
        None \<Rightarrow> Inl (Opaque ''invalid account key PEM'')
      | Some (kind, bytes, rest) \<Rightarrow>
          if kind = ''EC PRIVATE KEY'' then ParseECPrivateKey X bytes
          else if kind = ''PRIVATE KEY'' then ParsePKCS8PrivateKey X bytes
          else if kind = ''RSA PRIVATE KEY'' then ParsePKCS1PrivateKey X bytes
          else Inl (Opaque (''unsupported account key type '' @ q kind)))"

definition newLegoUser :: "string \<Rightarrow> privkey \<Rightarrow> string \<Rightarrow> lego_user" where
  "newLegoUser email key accountURI =
     \<lparr>lu_email = email, lu_registration = (if trim_space accountURI \<noteq> [] then Some (trim_space accountURI) else None),
      lu_key = key\<rparr>"

definition newLegoClient :: "'h lego \<Rightarrow> string \<Rightarrow> string \<Rightarrow> privkey \<Rightarrow> string \<Rightarrow> err + 'h" where
  "newLegoClient L directoryURL email key accountURI =
     NewClient L \<lparr>lc_User = newLegoUser email key accountURI, lc_CADirURL = directoryURL, lc_KeyType = EC256\<rparr>"

definition FetchDirectory :: "'h lego \<Rightarrow> key_source \<Rightarrow> string \<Rightarrow> err + string" where
  "FetchDirectory L K directoryURL =
     map_sum id (GetToSURL L) (newLegoClient L directoryURL ''preview@invalid.local'' (PreviewKey K) [])"

definition RegisterAccount :: "(string \<Rightarrow> string) \<Rightarrow> x509 \<Rightarrow> 'h lego \<Rightarrow> CertificateIssuer \<Rightarrow> err + string" where
  "RegisterAccount q X L issuer =
     (case parseAccountKeyPEM q X (iss_AccountKeyPEM issuer) of
        Inl e \<Rightarrow> Inl e
      | Inr key \<Rightarrow>
         (case newLegoClient L (iss_DirectoryURL issuer) (iss_Email issuer) key [] of
            Inl e \<Rightarrow> Inl e
          | Inr client \<Rightarrow>
             (case (if iss_EABKid issuer \<noteq> [] \<and> iss_EABHMAC issuer \<noteq> []
                    then RegisterWithEAB L client (iss_EABKid issuer) (iss_EABHMAC issuer)
                    else RegisterClient L client) of
                Inl e \<Rightarrow> Inl e
              | Inr None \<Rightarrow> Inl (CertE ErrIssuerAccountURIRequired)
              | Inr (Some uri) \<Rightarrow>
                  let accountURI = trim_space uri in
                  if accountURI = [] then Inl (CertE ErrIssuerAccountURIRequired) else Inr accountURI)))"

definition legoCertKeyType :: "string \<Rightarrow> certcrypto_key" where
  "legoCertKeyType keyType = (if keyType = CertKeyTypeRSA2048 then RSA2048 else EC256)"

definition generateCertificateKey :: "key_source \<Rightarrow> string \<Rightarrow> err + privkey" where
  "generateCertificateKey K keyType = (if keyType = CertKeyTypeRSA2048 then GenerateRSA2048 K else GenerateP256 K)"

definition marshalPrivateKeyPKCS8 :: "x509 \<Rightarrow> key_source \<Rightarrow> privkey \<Rightarrow> err + string" where
  "marshalPrivateKeyPKCS8 X K key = map_sum id (pem_Encode X ''PRIVATE KEY'') (MarshalPKCS8 K key)"

text \<open>What becomes of the two PEM blocks.\<close>

definition issue_result :: "x509 \<Rightarrow> key_source \<Rightarrow> privkey \<Rightarrow> err + string \<times> string \<Rightarrow> err + IssueResult" where
  "issue_result X K certKey res =
     (case res of
        Inl e \<Rightarrow> Inl (withOperationStage ''acme_obtain'' e)
      | Inr (certPEM, issuerPEM) \<Rightarrow>
         (case assembleFullchain X certPEM issuerPEM of
            Inl e \<Rightarrow> Inl (withOperationStage ''assemble_fullchain'' e)
          | Inr fullchain \<Rightarrow>
             (case marshalPrivateKeyPKCS8 X K certKey of
                Inl e \<Rightarrow> Inl (withOperationStage ''marshal_certificate_key'' e)
              | Inr keyPEM \<Rightarrow> Inr \<lparr>ir_FullchainPEM = fullchain, ir_PrivateKeyPEM = keyPEM\<rparr>)))"

primrec then_result :: "(err + string \<times> string \<Rightarrow> err + IssueResult) \<Rightarrow> obtain_run \<Rightarrow> acme_run" where
  "then_result f (Obtained r) = Returned (f r)"
| "then_result f (ObtainPresent d k) = DoPresent d (\<lambda>x. then_result f (k x))"
| "then_result f (ObtainCleanUp d k) = DoCleanUp d (\<lambda>x. then_result f (k x))"

definition failed_at :: "string \<Rightarrow> err \<Rightarrow> acme_run" where
  "failed_at stage e = Returned (Inl (withOperationStage stage e))"

text \<open>\<open>dns\<close> tells whether the request has a DNS provider.\<close>

definition IssueCertificate ::
  "(string \<Rightarrow> string) \<Rightarrow> x509 \<Rightarrow> 'h lego \<Rightarrow> key_source \<Rightarrow> bool \<Rightarrow> CertificateIssuer \<Rightarrow> string list \<Rightarrow> string \<Rightarrow> acme_run" where
  "IssueCertificate q X L K dns issuer domains keyType =
     (if trim_space (iss_AccountURI issuer) = [] then failed_at ''resolve_acme_account'' (CertE ErrIssuerAccountURIRequired)
      else case parseAccountKeyPEM q X (iss_AccountKeyPEM issuer) of
        Inl e \<Rightarrow> failed_at ''parse_account_key'' e
      | Inr key \<Rightarrow>
         (case NewClient L \<lparr>lc_User = newLegoUser (iss_Email issuer) key (iss_AccountURI issuer),
                 lc_CADirURL = iss_DirectoryURL issuer, lc_KeyType = legoCertKeyType keyType\<rparr> of
            Inl e \<Rightarrow> failed_at ''create_acme_client'' e
          | Inr client \<Rightarrow>
             if \<not> dns then failed_at ''validate_dns_provider'' (Opaque ''dns provider is required'')
             else case SetDNS01Provider L client of
               Some e \<Rightarrow> failed_at ''configure_dns_challenge'' e
             | None \<Rightarrow>
                (case generateCertificateKey K keyType of
                   Inl e \<Rightarrow> failed_at ''generate_certificate_key'' e
                 | Inr certKey \<Rightarrow> then_result (issue_result X K certKey) (Obtain L client domains certKey))))"

definition RevokeCertificate ::
  "(string \<Rightarrow> string) \<Rightarrow> x509 \<Rightarrow> 'h lego \<Rightarrow> CertificateIssuer \<Rightarrow> string \<Rightarrow> u32 option \<Rightarrow> err option" where
  "RevokeCertificate q X L issuer leafCertPEM reason =
     (if trim_space (iss_AccountURI issuer) = []
      then Some (withOperationStage ''resolve_acme_account'' (CertE ErrIssuerAccountURIRequired))
      else case parseAccountKeyPEM q X (iss_AccountKeyPEM issuer) of
        Inl e \<Rightarrow> Some (withOperationStage ''parse_account_key'' e)
      | Inr key \<Rightarrow>
         (case newLegoClient L (iss_DirectoryURL issuer) (iss_Email issuer) key (iss_AccountURI issuer) of
            Inl e \<Rightarrow> Some (withOperationStage ''create_acme_client'' e)
          | Inr client \<Rightarrow>
             (case reason of
                Some r \<Rightarrow> RevokeWithReason L client leafCertPEM r
              | None \<Rightarrow> RevokeCert L client leafCertPEM)))"

definition LegoACMEClient :: "(string \<Rightarrow> string) \<Rightarrow> x509 \<Rightarrow> 'h lego \<Rightarrow> key_source \<Rightarrow> acme_client" where
  "LegoACMEClient q X L K =
     \<lparr>ac_FetchDirectory = FetchDirectory L K, ac_RegisterAccount = RegisterAccount q X L,
      ac_IssueCertificate = IssueCertificate q X L K True, ac_RevokeCertificate = RevokeCertificate q X L\<rparr>"

section \<open>What the client guarantees\<close>

lemma staged [simp]: "stage \<noteq> [] \<Longrightarrow> operationStageOf (withOperationStage stage e) \<noteq> []"
  by (simp add: withOperationStage_def operationStageOf.simps [of "Staged stage e"])

text \<open>A registered account has a URI, without surrounding space.\<close>

lemma registered_uri: "RegisterAccount q X L issuer = Inr uri \<Longrightarrow> uri \<noteq> [] \<and> trim_space uri = uri"
  by (auto simp: RegisterAccount_def Let_def split: sum.splits option.splits if_splits)

text \<open>Whatever fails in an issuance, the error says at which stage.\<close>

lemma run_result_staged:
  assumes "\<And>r e. f r = Inl e \<Longrightarrow> operationStageOf e \<noteq> []"
  shows "fst (run_acme present cleanup (then_result f run) st) = Inl e \<Longrightarrow> operationStageOf e \<noteq> []"
  by (induction run arbitrary: st) (auto split: prod.splits dest: assms)

lemma issue_result_staged: "issue_result X K key r = Inl e \<Longrightarrow> operationStageOf e \<noteq> []"
  by (auto simp: issue_result_def split: sum.splits)

lemma issue_run_staged:
  "fst (run_acme present cleanup (then_result (issue_result X K key) run) st) = Inl e \<Longrightarrow>
    operationStageOf e \<noteq> []"
  by (rule run_result_staged [where f = "issue_result X K key"]) (auto dest: issue_result_staged)

lemma issue_failure_staged:
  assumes "fst (run_acme present cleanup (IssueCertificate q X L K dns issuer domains keyType) st) = Inl e"
  shows "operationStageOf e \<noteq> []"
  using assms
  by (auto simp: IssueCertificate_def failed_at_def split: if_splits sum.splits option.splits
      dest: issue_run_staged)

text \<open>
  The CA is reached only as the stored account: a client is made with its directory and its URI, and
  without a URI the library is not used at all.
\<close>

lemma issue_as_account:
  assumes "\<And>c. lc_CADirURL c = iss_DirectoryURL issuer \<Longrightarrow> lu_registration (lc_User c) = Some (trim_space (iss_AccountURI issuer)) \<Longrightarrow>
    NewClient L c = NewClient L' c"
    and "SetDNS01Provider L = SetDNS01Provider L'" "Obtain L = Obtain L'"
  shows "IssueCertificate q X L K dns issuer domains keyType = IssueCertificate q X L' K dns issuer domains keyType"
proof (cases "trim_space (iss_AccountURI issuer) = []")
  case False
  then have "NewClient L \<lparr>lc_User = newLegoUser (iss_Email issuer) key (iss_AccountURI issuer),
      lc_CADirURL = iss_DirectoryURL issuer, lc_KeyType = legoCertKeyType keyType\<rparr> =
    NewClient L' \<lparr>lc_User = newLegoUser (iss_Email issuer) key (iss_AccountURI issuer),
      lc_CADirURL = iss_DirectoryURL issuer, lc_KeyType = legoCertKeyType keyType\<rparr>" for key
    by (intro assms(1)) (simp_all add: newLegoUser_def)
  with assms(2,3) show ?thesis by (simp add: IssueCertificate_def split: sum.split option.split)
qed (simp add: IssueCertificate_def)

end
