(* ===== verification/Heartbeat.thy ===== *)
theory Heartbeat
  imports OpRunner
begin

text \<open>
  The heartbeat of an attempt, \<open>heartbeatOperationLease\<close> of internal/certmanager/operation_lease.go: a
  goroutine that renews the lease at every tick until the attempt ends.
\<close>

definition operationHeartbeatInterval :: duration where
  "operationHeartbeatInterval = operationLeaseDuration div 3"

text \<open>One tick; its error is logged and the ticker goes on.\<close>

definition heartbeatOperationLease :: "env \<Rightarrow> 'c mongo \<Rightarrow> gotime \<Rightarrow> string \<Rightarrow> 'c db \<Rightarrow> 'c db" where
  "heartbeatOperationLease E M now opID s =
     snd (RenewCertificateOperationLease M opID (ev_replicaID E) (now + operationLeaseDuration) now s)"

definition heartbeat :: "string \<Rightarrow> gotime \<Rightarrow> op_event" where
  "heartbeat owner now = RenewLease owner (now + operationLeaseDuration) now"

lemma heartbeat_is_call:
  "heartbeatOperationLease E M now opID s =
     run_call M (CallRenewLease opID (ev_replicaID E) (now + operationLeaseDuration) now) s"
  "call_event (CallRenewLease opID (ev_replicaID E) (now + operationLeaseDuration) now) =
     Some (opID, heartbeat (ev_replicaID E) now)"
  by (simp_all add: heartbeatOperationLease_def heartbeat_def)

text \<open>
  A history of an operation while an attempt of \<open>owner\<close> runs: the owner only renews the lease and records
  challenges, and everything, whoever does it, happens less than a lease after the last heartbeat and
  before the deadline.
\<close>

fun attempting :: "string \<Rightarrow> gotime \<Rightarrow> gotime \<Rightarrow> op_event list \<Rightarrow> bool" where
  "attempting owner deadline beat [] = True"
| "attempting owner deadline beat (ev # evs) =
     (event_time ev < beat + operationLeaseDuration \<and> event_time ev < deadline \<and>
      (if event_owner ev = Some owner
       then (if ev = heartbeat owner (event_time ev) then attempting owner deadline (event_time ev) evs
             else (\<exists>rec. ev = RecordTXT owner rec (event_time ev)) \<and> attempting owner deadline beat evs)
       else attempting owner deadline beat evs))"

fun last_beat :: "string \<Rightarrow> gotime \<Rightarrow> op_event list \<Rightarrow> gotime" where
  "last_beat owner beat [] = beat"
| "last_beat owner beat (ev # evs) =
     last_beat owner (if ev = heartbeat owner (event_time ev) then event_time ev else beat) evs"

lemma heartbeat_owner [simp]: "event_owner (heartbeat owner t) = Some owner" "event_time (heartbeat owner t) = t"
  by (simp_all add: heartbeat_def)

lemma attempting_step:
  assumes "op_step ev op op'" and "leased owner (beat + operationLeaseDuration) deadline op"
    and "attempting owner deadline beat (ev # evs)"
  shows "leased owner (last_beat owner beat [ev] + operationLeaseDuration) deadline op' \<and>
    attempting owner deadline (last_beat owner beat [ev]) evs \<and>
    (event_owner ev = Some owner \<or> (\<exists>now. ev = ClearTXT now))"
proof (cases "event_owner ev = Some owner")
  case True
  consider (beat) "ev = heartbeat owner (event_time ev)" "attempting owner deadline (event_time ev) evs"
    | (challenge) rec where "ev = RecordTXT owner rec (event_time ev)" "attempting owner deadline beat evs"
    using assms(3) True by (auto split: if_splits)
  then show ?thesis
  proof cases
    case beat
    then have "op' = lease_renewed (event_time ev + operationLeaseDuration) (event_time ev) op"
      using assms(1) by (cases ev) (auto simp: heartbeat_def elim: op_stepE)
    with beat assms(2) True show ?thesis by (simp add: leased_def lease_renewed_def)
  next
    case challenge
    then have "op' = txt_recorded rec (event_time ev) op" "ev \<noteq> heartbeat owner (event_time ev)"
      using assms(1) by (cases ev; auto simp: heartbeat_def elim: op_stepE)+
    with challenge assms(2) True show ?thesis by (simp add: leased_def txt_recorded_def)
  qed
next
  case False
  then have "ev \<noteq> heartbeat owner (event_time ev)" by (metis heartbeat_owner(1))
  with leased_step [OF assms(1,2) _ _ False] assms(3) False show ?thesis by simp
qed

text \<open>
  An attempt that heartbeats in time is not disturbed: the operation stays running under its lease, which
  is renewed up to a lease after the last heartbeat, and all that others do to it is clear TXT records.
  Two heartbeats in a row may fail, since three intervals make a lease.
\<close>

lemma heartbeats_keep_operation:
  "op_trace op evs op' \<Longrightarrow> leased owner (beat + operationLeaseDuration) deadline op \<Longrightarrow> attempting owner deadline beat evs \<Longrightarrow>
    leased owner (last_beat owner beat evs + operationLeaseDuration) deadline op' \<and>
    (\<forall>ev \<in> set evs. event_owner ev = Some owner \<or> (\<exists>now. ev = ClearTXT now))"
proof (induction arbitrary: beat rule: op_trace.induct)
  case (Step ev op op' evs op'')
  note step = attempting_step [OF Step(1) Step.prems]
  with Step.IH [of "last_beat owner beat [ev]"] show ?case by simp
qed simp

lemma heartbeat_interval: "3 * operationHeartbeatInterval = operationLeaseDuration" "0 < operationHeartbeatInterval"
  by (simp_all add: operationHeartbeatInterval_def operationLeaseDuration_def DefaultOperationLeaseDuration_def
      Minute_def Second_def)

end
