(* ===== verification/Lifecycle.thy ===== *)
theory Lifecycle
  imports OpRunner Issuers
begin

text \<open>
  The background tasks of a replica and its shutdown: manager.go and operation_lease.go of
  internal/certmanager, internal/bootstrap, and the second init function and the teardown of
  cmd/server/main.go. A call that starts a task runs in sections, each one atomic access to the shared
  state (an \<open>atomic.Bool\<close>, a \<open>sync.Map\<close>, a critical section of a mutex); the sections of all calls and
  tasks interleave. What a task does to the database is in \<open>OpRunner\<close> and \<open>Issuers\<close>.
\<close>

section \<open>The state of a manager\<close>

text \<open>Where a call of \<open>triggerOperation\<close>, \<open>startRegistration\<close> or \<open>StartOperationRunner\<close> stands.\<close>

datatype trigger_call =
    CheckLeases string | CheckContext string | MarkOperation string | LaunchOperation string | UnmarkOperation string

datatype registration_call = MarkRegistration string | LaunchRegistration string | UnmarkRegistration string

datatype start_call = SetContext | StartClaiming | LaunchPoll | StopClaiming

datatype runner_call = Trigger trigger_call | Register registration_call | Start start_call

text \<open>A goroutine of \<open>launchBackgroundTask\<close>; \<open>TaskDone\<close> is one whose function has returned.\<close>

datatype background_task = PollLoop | Attempt string | Registration string | TaskDone

text \<open>
  \<open>rp_context\<close> is \<open>runnerCtx\<close> with whether it is cancelled, \<open>rp_tasks\<close> the goroutines that \<open>taskWG\<close>
  counts, \<open>rp_calls\<close> the calls that have not returned.
\<close>

record replica =
  rp_context :: "bool option"
  rp_claimingLeases :: bool
  rp_opInflight :: "string set"
  rp_registrationInflight :: "string set"
  rp_tasksClosed :: bool
  rp_tasks :: "background_task list"
  rp_calls :: "runner_call list"

definition NewManagerWithDeps :: replica where
  "NewManagerWithDeps = \<lparr>rp_context = None, rp_claimingLeases = False, rp_opInflight = {}, rp_registrationInflight = {},
     rp_tasksClosed = False, rp_tasks = [], rp_calls = []\<rparr>"

section \<open>Sections\<close>

definition runnerContext :: "replica \<Rightarrow> bool" where
  "runnerContext st = (case rp_context st of None \<Rightarrow> False | Some cancelled \<Rightarrow> \<not> cancelled)"

definition launchBackgroundTask :: "background_task \<Rightarrow> replica \<Rightarrow> bool \<times> replica" where
  "launchBackgroundTask t st =
     (if rp_tasksClosed st then (False, st) else (True, st\<lparr>rp_tasks := rp_tasks st @ [t]\<rparr>))"

definition SetClaimingLeases :: "bool \<Rightarrow> replica \<Rightarrow> replica" where
  "SetClaimingLeases v st = st\<lparr>rp_claimingLeases := v\<rparr>"

text \<open>Each section gives what is left of its call.\<close>

fun trigger_section :: "trigger_call \<Rightarrow> replica \<Rightarrow> trigger_call option \<times> replica" where
  "trigger_section (CheckLeases i) st = (if rp_claimingLeases st then Some (CheckContext i) else None, st)"
| "trigger_section (CheckContext i) st = (if runnerContext st then Some (MarkOperation i) else None, st)"
| "trigger_section (MarkOperation i) st =
     (if i \<in> rp_opInflight st then (None, st)
      else (Some (LaunchOperation i), st\<lparr>rp_opInflight := insert i (rp_opInflight st)\<rparr>))"
| "trigger_section (LaunchOperation i) st =
     (case launchBackgroundTask (Attempt i) st of
        (started, st) \<Rightarrow> (if started then None else Some (UnmarkOperation i), st))"
| "trigger_section (UnmarkOperation i) st = (None, st\<lparr>rp_opInflight := rp_opInflight st - {i}\<rparr>)"

fun registration_section :: "registration_call \<Rightarrow> replica \<Rightarrow> registration_call option \<times> replica" where
  "registration_section (MarkRegistration i) st =
     (if i \<in> rp_registrationInflight st then (None, st)
      else (Some (LaunchRegistration i), st\<lparr>rp_registrationInflight := insert i (rp_registrationInflight st)\<rparr>))"
| "registration_section (LaunchRegistration i) st =
     (case launchBackgroundTask (Registration i) st of
        (started, st) \<Rightarrow> (if started then None else Some (UnmarkRegistration i), st))"
| "registration_section (UnmarkRegistration i) st =
     (None, st\<lparr>rp_registrationInflight := rp_registrationInflight st - {i}\<rparr>)"

fun StartOperationRunner_section :: "start_call \<Rightarrow> replica \<Rightarrow> start_call option \<times> replica" where
  "StartOperationRunner_section SetContext st = (Some StartClaiming, st\<lparr>rp_context := Some False\<rparr>)"
| "StartOperationRunner_section StartClaiming st = (Some LaunchPoll, SetClaimingLeases True st)"
| "StartOperationRunner_section LaunchPoll st =
     (case launchBackgroundTask PollLoop st of (started, st) \<Rightarrow> (if started then None else Some StopClaiming, st))"
| "StartOperationRunner_section StopClaiming st = (None, SetClaimingLeases False st)"

definition call_section :: "runner_call \<Rightarrow> replica \<Rightarrow> runner_call option \<times> replica" where
  "call_section c st =
     (case c of
        Trigger c \<Rightarrow> apfst (map_option Trigger) (trigger_section c st)
      | Register c \<Rightarrow> apfst (map_option Register) (registration_section c st)
      | Start c \<Rightarrow> apfst (map_option Start) (StartOperationRunner_section c st))"

text \<open>
  The end of a task: the deferred deletion of its mark, then \<open>taskWG.Done\<close>. The poll loop ends once its
  context is cancelled, and only reads before.
\<close>

fun task_section :: "background_task \<Rightarrow> replica \<Rightarrow> background_task option \<times> replica" where
  "task_section PollLoop st =
     (if rp_context st = Some True then (Some TaskDone, SetClaimingLeases False st) else (Some PollLoop, st))"
| "task_section (Attempt i) st = (Some TaskDone, st\<lparr>rp_opInflight := rp_opInflight st - {i}\<rparr>)"
| "task_section (Registration i) st = (Some TaskDone, st\<lparr>rp_registrationInflight := rp_registrationInflight st - {i}\<rparr>)"
| "task_section TaskDone st = (None, st)"

text \<open>What is left of a call or a task, as a list.\<close>

primrec the_rest :: "'a option \<Rightarrow> 'a list" where
  "the_rest None = []"
| "the_rest (Some c) = [c]"

text \<open>The first section of a call.\<close>

fun entry :: "runner_call \<Rightarrow> bool" where
  "entry (Trigger (CheckLeases i)) = True"
| "entry (Register (MarkRegistration i)) = True"
| "entry _ = False"

inductive replica_step :: "replica \<Rightarrow> replica \<Rightarrow> bool" where
  called: "entry c \<Longrightarrow> replica_step st (st\<lparr>rp_calls := rp_calls st @ [c]\<rparr>)"
| call: "rp_calls st = xs @ c # ys \<Longrightarrow> call_section c st = (rest, st') \<Longrightarrow>
    replica_step st (st'\<lparr>rp_calls := xs @ the_rest rest @ ys\<rparr>)"
| task: "rp_tasks st = xs @ t # ys \<Longrightarrow> task_section t st = (rest, st') \<Longrightarrow>
    replica_step st (st'\<lparr>rp_tasks := xs @ the_rest rest @ ys\<rparr>)"

section \<open>The marks\<close>

text \<open>How many calls and tasks answer for the mark of an operation or an issuer.\<close>

fun op_of_call :: "string \<Rightarrow> runner_call \<Rightarrow> nat" where
  "op_of_call i (Trigger (LaunchOperation j)) = (if j = i then 1 else 0)"
| "op_of_call i (Trigger (UnmarkOperation j)) = (if j = i then 1 else 0)"
| "op_of_call i c = 0"

fun registration_of_call :: "string \<Rightarrow> runner_call \<Rightarrow> nat" where
  "registration_of_call i (Register (LaunchRegistration j)) = (if j = i then 1 else 0)"
| "registration_of_call i (Register (UnmarkRegistration j)) = (if j = i then 1 else 0)"
| "registration_of_call i c = 0"

definition op_holders :: "replica \<Rightarrow> string \<Rightarrow> nat" where
  "op_holders st i = (\<Sum>c \<leftarrow> rp_calls st. op_of_call i c) + count_list (rp_tasks st) (Attempt i)"

definition registration_holders :: "replica \<Rightarrow> string \<Rightarrow> nat" where
  "registration_holders st i =
     (\<Sum>c \<leftarrow> rp_calls st. registration_of_call i c) + count_list (rp_tasks st) (Registration i)"

definition op_marked :: "replica \<Rightarrow> string \<Rightarrow> bool" where
  "op_marked st i \<longleftrightarrow> op_holders st i = (if i \<in> rp_opInflight st then 1 else 0)"

definition registration_marked :: "replica \<Rightarrow> string \<Rightarrow> bool" where
  "registration_marked st i \<longleftrightarrow> registration_holders st i = (if i \<in> rp_registrationInflight st then 1 else 0)"

definition marked :: "replica \<Rightarrow> string \<Rightarrow> bool" where
  "marked st i \<longleftrightarrow> op_marked st i \<and> registration_marked st i"

lemmas op_marked_defs = op_marked_def op_holders_def
lemmas registration_marked_defs = registration_marked_def registration_holders_def
lemmas marked_defs = marked_def op_marked_defs registration_marked_defs

lemma marked_same [simp]:
  "marked (st\<lparr>rp_context := x\<rparr>) i = marked st i"
  "marked (st\<lparr>rp_claimingLeases := b\<rparr>) i = marked st i"
  "marked (st\<lparr>rp_tasksClosed := b\<rparr>) i = marked st i"
  by (simp_all add: marked_defs)

lemma entry_marks: "entry c \<Longrightarrow> op_of_call i c = 0 \<and> registration_of_call i c = 0"
  by (cases c rule: entry.cases) simp_all

lemma trigger_marks:
  assumes "op_marked st i" and "rp_calls st = xs @ Trigger c # ys" and "trigger_section c st = (rest, st')"
  shows "op_marked (st'\<lparr>rp_calls := xs @ the_rest (map_option Trigger rest) @ ys\<rparr>) i"
  using assms by (cases c) (auto simp: op_marked_defs launchBackgroundTask_def split: if_splits)

lemma trigger_keeps:
  assumes "trigger_section c st = (rest, st')" and "rp_calls st = xs @ Trigger c # ys"
  shows "registration_marked (st'\<lparr>rp_calls := xs @ the_rest (map_option Trigger rest) @ ys\<rparr>) i = registration_marked st i"
  using assms by (cases c) (auto simp: registration_marked_defs launchBackgroundTask_def split: if_split_asm)

lemma registration_marks:
  assumes "registration_marked st i" and "rp_calls st = xs @ Register c # ys" and "registration_section c st = (rest, st')"
  shows "registration_marked (st'\<lparr>rp_calls := xs @ the_rest (map_option Register rest) @ ys\<rparr>) i"
  using assms by (cases c) (auto simp: registration_marked_defs launchBackgroundTask_def split: if_splits)

lemma registration_keeps:
  assumes "registration_section c st = (rest, st')" and "rp_calls st = xs @ Register c # ys"
  shows "op_marked (st'\<lparr>rp_calls := xs @ the_rest (map_option Register rest) @ ys\<rparr>) i = op_marked st i"
  using assms by (cases c) (auto simp: op_marked_defs launchBackgroundTask_def split: if_split_asm)

lemma start_keeps:
  assumes "StartOperationRunner_section c st = (rest, st')" and "rp_calls st = xs @ Start c # ys"
  shows "op_marked (st'\<lparr>rp_calls := xs @ the_rest (map_option Start rest) @ ys\<rparr>) i = op_marked st i"
    and "registration_marked (st'\<lparr>rp_calls := xs @ the_rest (map_option Start rest) @ ys\<rparr>) i = registration_marked st i"
  using assms by (cases c; auto simp: op_marked_defs registration_marked_defs launchBackgroundTask_def
      SetClaimingLeases_def split: if_split_asm)+

lemma call_marks:
  assumes "marked st i" and "rp_calls st = xs @ c # ys" and "call_section c st = (rest, st')"
  shows "marked (st'\<lparr>rp_calls := xs @ the_rest rest @ ys\<rparr>) i"
proof (cases c)
  case (Trigger t)
  obtain r where "trigger_section t st = (r, st')" "rest = map_option Trigger r"
    using assms(3) Trigger by (cases "trigger_section t st") (simp add: call_section_def)
  with trigger_marks [of st i xs t ys r st'] trigger_keeps [of t st r st' xs ys i] assms(1,2) Trigger
  show ?thesis by (simp add: marked_def)
next
  case (Register t)
  obtain r where "registration_section t st = (r, st')" "rest = map_option Register r"
    using assms(3) Register by (cases "registration_section t st") (simp add: call_section_def)
  with registration_marks [of st i xs t ys r st'] registration_keeps [of t st r st' xs ys i] assms(1,2) Register
  show ?thesis by (simp add: marked_def)
next
  case (Start t)
  obtain r where "StartOperationRunner_section t st = (r, st')" "rest = map_option Start r"
    using assms(3) Start by (cases "StartOperationRunner_section t st") (simp add: call_section_def)
  with start_keeps [of t st r st' xs ys i] assms(1,2) Start show ?thesis by (simp add: marked_def)
qed

lemma task_marks:
  assumes "marked st i" and "rp_tasks st = xs @ t # ys" and "task_section t st = (rest, st')"
  shows "marked (st'\<lparr>rp_tasks := xs @ the_rest rest @ ys\<rparr>) i"
  unfolding marked_def
proof
  show "op_marked (st'\<lparr>rp_tasks := xs @ the_rest rest @ ys\<rparr>) i"
    using assms by (cases t) (auto simp: marked_def op_marked_defs SetClaimingLeases_def split: if_splits)
  show "registration_marked (st'\<lparr>rp_tasks := xs @ the_rest rest @ ys\<rparr>) i"
    using assms by (cases t) (auto simp: marked_def registration_marked_defs SetClaimingLeases_def split: if_splits)
qed

lemma step_marks: "replica_step st st' \<Longrightarrow> marked st i \<Longrightarrow> marked st' i"
proof (induction rule: replica_step.induct)
  case (called c st)
  then show ?case using entry_marks [of c] by (simp add: marked_defs)
qed (rule call_marks task_marks; assumption)+

text \<open>Once the tasks are closed they only become fewer.\<close>

lemma call_closed:
  assumes "call_section c st = (rest, st')"
  shows "rp_tasksClosed st' = rp_tasksClosed st \<and> (rp_tasksClosed st \<longrightarrow> rp_tasks st' = rp_tasks st)"
proof (cases c)
  case (Trigger t)
  with assms show ?thesis
    by (cases t) (auto simp: call_section_def launchBackgroundTask_def split: if_splits)
next
  case (Register t)
  with assms show ?thesis
    by (cases t) (auto simp: call_section_def launchBackgroundTask_def split: if_splits)
next
  case (Start t)
  with assms show ?thesis
    by (cases t) (auto simp: call_section_def launchBackgroundTask_def SetClaimingLeases_def split: if_splits)
qed

lemma step_closed:
  "replica_step st st' \<Longrightarrow> rp_tasksClosed st' = rp_tasksClosed st \<and>
    (rp_tasksClosed st \<longrightarrow> length (rp_tasks st') \<le> length (rp_tasks st))"
proof (induction rule: replica_step.induct)
  case (call st xs c ys rest st')
  then show ?case using call_closed [of c st rest st'] by simp
next
  case (task st xs t ys rest st')
  then show ?case by (cases t) (auto simp: SetClaimingLeases_def split: if_splits)
qed simp

text \<open>A call that is not interrupted does what \<open>triggerOperation\<close> and \<open>startRegistration\<close> say.\<close>

fun complete :: "nat \<Rightarrow> runner_call \<Rightarrow> replica \<Rightarrow> replica" where
  "complete 0 c st = st"
| "complete (Suc n) c st = (case call_section c st of (None, st) \<Rightarrow> st | (Some c, st) \<Rightarrow> complete n c st)"

definition runner_of :: "replica \<Rightarrow> runner" where
  "runner_of st = \<lparr>rn_claimingLeases = rp_claimingLeases st, rn_context = runnerContext st,
     rn_tasksClosed = rp_tasksClosed st, rn_opInflight = rp_opInflight st\<rparr>"

definition registrar_of :: "replica \<Rightarrow> registrar" where
  "registrar_of st = \<lparr>rg_inflight = rp_registrationInflight st, rg_tasksClosed = rp_tasksClosed st\<rparr>"

lemma trigger_uninterrupted:
  "triggerOperation i (runner_of st) =
     (case complete 5 (Trigger (CheckLeases i)) st of st' \<Rightarrow> (rp_tasks st' = rp_tasks st @ [Attempt i], runner_of st'))"
  by (auto simp: triggerOperation_def runner_of_def numeral_eq_Suc call_section_def launchBackgroundTask_def runnerContext_def)

lemma registration_uninterrupted:
  "startRegistration i (registrar_of st) =
     (case complete 3 (Register (MarkRegistration i)) st of
        st' \<Rightarrow> (rp_tasks st' = rp_tasks st @ [Registration i], registrar_of st'))"
  by (auto simp: startRegistration_def registrar_of_def numeral_eq_Suc call_section_def launchBackgroundTask_def)

section \<open>The process\<close>

text \<open>
  Where the teardown stands. Its waits end when what is waited for has ended, or after their time;
  \<open>ps_timedOut\<close> is a ghost.
\<close>

datatype teardown = Serving | Unclaiming | ClosingTasks | WaitingTasks | WaitingReconciler | WaitingScheduler
  | WaitingArchiver | ClosingStore | TornDown

record process =
  ps_manager :: replica
  ps_cancelled :: bool
  ps_reconciler :: bool
  ps_scheduler :: bool
  ps_archiver :: bool
  ps_storeOpen :: bool
  ps_teardown :: teardown
  ps_timedOut :: bool

text \<open>
  The second init function: \<open>StartBackground\<close> starts the runner and the reconciler, and the goroutines of
  the archiver and the scheduler follow. \<open>StartOperationRunner\<close> is complete before anything is served.
\<close>

definition StartBackground :: "replica \<Rightarrow> replica" where
  "StartBackground st = complete 4 (Start SetContext) st"

definition started_process :: process where
  "started_process = \<lparr>ps_manager = StartBackground NewManagerWithDeps, ps_cancelled = False, ps_reconciler = True,
     ps_scheduler = True, ps_archiver = True, ps_storeOpen = True, ps_teardown = Serving, ps_timedOut = False\<rparr>"

text \<open>\<open>cancelSched\<close>, and \<open>certRunnerCancel\<close> for the context derived from it, which the runner has.\<close>

definition cancelSched :: "process \<Rightarrow> process" where
  "cancelSched p = p\<lparr>ps_cancelled := True,
     ps_manager := (ps_manager p)\<lparr>rp_context := map_option (\<lambda>_. True) (rp_context (ps_manager p))\<rparr>\<rparr>"

text \<open>One section of the teardown; \<open>expired\<close> tells that the time of its wait is over.\<close>

definition ends_wait :: "bool \<Rightarrow> bool \<Rightarrow> teardown \<Rightarrow> process \<Rightarrow> process option" where
  "ends_wait alive expired t p =
     (if \<not> alive then Some (p\<lparr>ps_teardown := t\<rparr>)
      else if expired then Some (p\<lparr>ps_teardown := t, ps_timedOut := True\<rparr>)
      else None)"

definition teardown_section :: "bool \<Rightarrow> process \<Rightarrow> process option" where
  "teardown_section expired p =
     (case ps_teardown p of
        Serving \<Rightarrow> Some ((cancelSched p)\<lparr>ps_teardown := Unclaiming\<rparr>)
      | Unclaiming \<Rightarrow> Some (p\<lparr>ps_manager := SetClaimingLeases False (ps_manager p), ps_teardown := ClosingTasks\<rparr>)
      | ClosingTasks \<Rightarrow> Some (p\<lparr>ps_manager := (ps_manager p)\<lparr>rp_tasksClosed := True\<rparr>, ps_teardown := WaitingTasks\<rparr>)
      | WaitingTasks \<Rightarrow> ends_wait (rp_tasks (ps_manager p) \<noteq> []) expired WaitingReconciler p
      | WaitingReconciler \<Rightarrow> ends_wait (ps_reconciler p) expired WaitingScheduler p
      | WaitingScheduler \<Rightarrow> ends_wait (ps_scheduler p) expired WaitingArchiver p
      | WaitingArchiver \<Rightarrow> ends_wait (ps_archiver p) expired ClosingStore p
      | ClosingStore \<Rightarrow> Some (p\<lparr>ps_storeOpen := False, ps_teardown := TornDown\<rparr>)
      | TornDown \<Rightarrow> None)"

text \<open>The goroutines of the reconciler, the scheduler and the archiver return after the context is cancelled.\<close>

inductive process_step :: "process \<Rightarrow> process \<Rightarrow> bool" where
  manager: "replica_step (ps_manager p) st \<Longrightarrow> process_step p (p\<lparr>ps_manager := st\<rparr>)"
| reconciler: "ps_cancelled p \<Longrightarrow> process_step p (p\<lparr>ps_reconciler := False\<rparr>)"
| scheduler: "ps_cancelled p \<Longrightarrow> process_step p (p\<lparr>ps_scheduler := False\<rparr>)"
| archiver: "ps_cancelled p \<Longrightarrow> process_step p (p\<lparr>ps_archiver := False\<rparr>)"
| teardown: "teardown_section expired p = Some p' \<Longrightarrow> process_step p p'"

inductive process_reachable :: "process \<Rightarrow> bool" where
  init: "process_reachable started_process"
| step: "process_reachable p \<Longrightarrow> process_step p p' \<Longrightarrow> process_reachable p'"

section \<open>Invariant\<close>

text \<open>How far the teardown is.\<close>

fun stage_of :: "teardown \<Rightarrow> nat" where
  "stage_of Serving = 0"
| "stage_of Unclaiming = 1"
| "stage_of ClosingTasks = 2"
| "stage_of WaitingTasks = 3"
| "stage_of WaitingReconciler = 4"
| "stage_of WaitingScheduler = 5"
| "stage_of WaitingArchiver = 6"
| "stage_of ClosingStore = 7"
| "stage_of TornDown = 8"

definition quiet :: "process \<Rightarrow> bool" where
  "quiet p \<longleftrightarrow> (4 \<le> stage_of (ps_teardown p) \<longrightarrow> rp_tasks (ps_manager p) = []) \<and>
     (5 \<le> stage_of (ps_teardown p) \<longrightarrow> \<not> ps_reconciler p) \<and>
     (6 \<le> stage_of (ps_teardown p) \<longrightarrow> \<not> ps_scheduler p) \<and>
     (7 \<le> stage_of (ps_teardown p) \<longrightarrow> \<not> ps_archiver p)"

definition process_ok :: "process \<Rightarrow> bool" where
  "process_ok p \<longleftrightarrow> (\<forall>i. marked (ps_manager p) i) \<and> (ps_storeOpen p \<longleftrightarrow> ps_teardown p \<noteq> TornDown) \<and>
     (3 \<le> stage_of (ps_teardown p) \<longrightarrow> rp_tasksClosed (ps_manager p)) \<and> (\<not> ps_timedOut p \<longrightarrow> quiet p)"

lemma started_ok: "process_ok started_process"
  by (simp add: process_ok_def quiet_def started_process_def StartBackground_def NewManagerWithDeps_def numeral_eq_Suc
      call_section_def SetClaimingLeases_def launchBackgroundTask_def marked_defs)

lemma teardown_ok: "process_ok p \<Longrightarrow> teardown_section expired p = Some p' \<Longrightarrow> process_ok p'"
  by (cases "ps_teardown p")
    (auto simp: process_ok_def quiet_def teardown_section_def ends_wait_def cancelSched_def SetClaimingLeases_def
      split: if_splits)

lemma step_ok: "process_step p p' \<Longrightarrow> process_ok p \<Longrightarrow> process_ok p'"
proof (induction rule: process_step.induct)
  case (manager p st)
  then show ?case using step_marks [OF manager(1)] step_closed [OF manager(1)]
    by (auto simp: process_ok_def quiet_def)
next
  case (teardown expired p p')
  then show ?case by (rule teardown_ok [rotated])
qed (simp_all add: process_ok_def quiet_def)

lemma reachable_ok: "process_reachable p \<Longrightarrow> process_ok p"
  by (induction rule: process_reachable.induct) (auto intro: started_ok step_ok)

lemma one_holder: "marked st i \<Longrightarrow> count_list (rp_tasks st) (Attempt i) \<le> 1 \<and> count_list (rp_tasks st) (Registration i) \<le> 1"
  by (auto simp: marked_defs split: if_splits)

lemma teardown_advances:
  assumes "ps_teardown p \<noteq> TornDown"
  shows "\<exists>p'. teardown_section True p = Some p' \<and> stage_of (ps_teardown p') = Suc (stage_of (ps_teardown p))"
  using assms by (cases "ps_teardown p") (simp_all add: teardown_section_def ends_wait_def)

text \<open>A teardown that has begun ends: no wait is longer than its time.\<close>

lemma teardown_ends:
  "ps_teardown p \<noteq> Serving \<Longrightarrow> \<exists>p'. process_step\<^sup>*\<^sup>* p p' \<and> ps_teardown p' = TornDown"
proof (induction "8 - stage_of (ps_teardown p)" arbitrary: p rule: less_induct)
  case less
  show ?case
  proof (cases "ps_teardown p = TornDown")
    case False
    then obtain p1 where p1: "teardown_section True p = Some p1"
        "stage_of (ps_teardown p1) = Suc (stage_of (ps_teardown p))"
      using teardown_advances by blast
    moreover have "stage_of t \<le> 8" for t by (cases t) simp_all
    ultimately obtain p' where "process_step\<^sup>*\<^sup>* p1 p'" "ps_teardown p' = TornDown"
      using less.hyps [of p1] False by (cases "ps_teardown p") fastforce+
    with p1(1) show ?thesis by (meson converse_rtranclp_into_rtranclp process_step.teardown)
  qed auto
qed

section \<open>An attempt that is running at the shutdown\<close>

text \<open>
  The context of an attempt derives from the one that the teardown cancels first, and with a cancelled
  context every call of the driver fails. So what the CA has issued meanwhile is not stored and the
  attempt does not give its lease back: the operation waits until the lease has run out.
\<close>

definition cancelled_coll :: "err \<Rightarrow> ('c, 'd) coll" where
  "cancelled_coll e = \<lparr>FindOne = \<lambda>P c. Inl e, FindOneSorted = \<lambda>P le c. Inl e, FindDocs = \<lambda>P le k n c. Inl e,
     CountDocuments = \<lambda>P c. Inl e, InsertOne = \<lambda>d c. (Inl e, c), UpdateOne = \<lambda>P f c. (Inl e, c),
     UpdateMany = \<lambda>P f c. (Inl e, c), FindOneAndUpdate = \<lambda>P f c. (Inl e, c), DeleteOne = \<lambda>P c. (Inl e, c),
     DeleteMany = \<lambda>P c. (Inl e, c)\<rparr>"

definition cancelled_mongo :: "err \<Rightarrow> 'c mongo" where
  "cancelled_mongo e = \<lparr>servers = cancelled_coll e, monitors = cancelled_coll e, results = cancelled_coll e,
     events = cancelled_coll e, groups = cancelled_coll e, notifyGroups = cancelled_coll e,
     managedCertificates = cancelled_coll e, certificateOperations = cancelled_coll e,
     certificateIssuers = cancelled_coll e, dnsProviderAccounts = cancelled_coll e,
     certificateAccessTokens = cancelled_coll e, mcpTokens = cancelled_coll e\<rparr>"

lemma shutdown_abandons_attempt:
  "\<exists>e'. finishIssuance E (cancelled_mongo e) T op owner issuer result w s = (Inl e', s)"
  "handleOperationFailure E (cancelled_mongo e) N jitter T op runErr s = ([], s)"
  by (auto simp: finishIssuance_def activateVersion_def GetManagedCertificate_def handleOperationFailure_def Let_def
      MarkCertificateOperationFailed_def ScheduleCertificateOperationRetry_def notifyOperationFailure_def matched_or_def
      on_certificateOperations_def cancelled_mongo_def cancelled_coll_def split: sum.split option.split)

section \<open>The shutdown\<close>

text \<open>
  C33: whatever calls, tasks and the steps of a shutdown interleave, a replica never runs two attempts of
  an operation or two registrations of an issuer; when MongoDB is closed and no wait was given up, no
  task of the manager, reconciler, scheduler or archiver is left, and none is started any more; and a teardown that has
  begun can always be completed.
\<close>

theorem shutdown_leaves_nothing_running:
  assumes "process_reachable p"
  shows "count_list (rp_tasks (ps_manager p)) (Attempt i) \<le> 1 \<and>
    count_list (rp_tasks (ps_manager p)) (Registration i) \<le> 1 \<and>
    (ps_storeOpen p \<or> ps_timedOut p \<or>
      (rp_tasks (ps_manager p) = [] \<and> \<not> ps_reconciler p \<and> \<not> ps_scheduler p \<and> \<not> ps_archiver p)) \<and>
    (ps_teardown p = Serving \<or> (\<exists>p'. process_step\<^sup>*\<^sup>* p p' \<and> ps_teardown p' = TornDown))"
  using reachable_ok [OF assms] one_holder [of "ps_manager p" i] teardown_ends [of p]
  by (auto simp: process_ok_def quiet_def)

theorem shutdown_leaves_nothing_running_witness:
  "\<exists>p. process_step\<^sup>*\<^sup>* (the (teardown_section True started_process)) p \<and> ps_teardown p = TornDown"
proof -
  have s: "teardown_section True started_process = Some ((cancelSched started_process)\<lparr>ps_teardown := Unclaiming\<rparr>)"
    by (simp add: teardown_section_def started_process_def)
  have r: "process_reachable ((cancelSched started_process)\<lparr>ps_teardown := Unclaiming\<rparr>)"
    by (rule process_reachable.step [OF process_reachable.init process_step.teardown [OF s]])
  show ?thesis using shutdown_leaves_nothing_running [OF r, of "''op''"] by (simp add: s)
qed

end
