(* ===== verification/Metrics.thy ===== *)
theory Metrics
  imports Listing CertNotify Probe
begin

text \<open>
  The metrics of internal/metric/metric.go and where they are recorded: metrics.go, reconciler.go and the
  outcomes of operation_lease.go of internal/certmanager, and \<open>recordMetrics\<close> of the scheduler. A vector is
  its name with the names of its labels; \<open>WithLabelValues\<close> panics, \<open>None\<close> here, for another number of
  values. The values of gauges are integers; durations are
  observed in milliseconds, which the code divides by 1000.
\<close>

section \<open>The registry\<close>

type_synonym vector = "string \<times> string list"

definition ProbesTotal :: vector where
  "ProbesTotal = (''neoline_probe_total'', [''kind'', ''status''])"

definition ProbeDuration :: vector where
  "ProbeDuration = (''neoline_probe_duration_seconds'', [''kind''])"

definition ProbeErrorsTotal :: vector where
  "ProbeErrorsTotal = (''neoline_probe_errors_total'', [''kind'', ''stage''])"

definition StatusChangesTotal :: vector where
  "StatusChangesTotal = (''neoline_monitor_status_changes_total'', [''kind'', ''previous_status'', ''status''])"

definition MonitorStatus :: vector where
  "MonitorStatus = (''neoline_monitor_status'', [''monitor_id'', ''server_id'', ''kind''])"

definition CertificateDaysRemaining :: vector where
  "CertificateDaysRemaining = (''neoline_certificate_days_remaining'', [''monitor_id'', ''server_id''])"

definition EnabledMonitors :: vector where
  "EnabledMonitors = (''neoline_enabled_monitors'', [])"

definition ReconcileTotal :: vector where
  "ReconcileTotal = (''neoline_scheduler_reconcile_total'', [])"

definition ServerCertListTotal :: vector where
  "ServerCertListTotal = (''neoline_server_cert_list_total'', [])"

definition ServerCertBundleDownloadTotal :: vector where
  "ServerCertBundleDownloadTotal = (''neoline_server_cert_bundle_download_total'', [])"

definition ManagedCertValidity :: vector where
  "ManagedCertValidity = (''neoline_managed_cert_validity'', [''validity''])"

definition CertOperationTotal :: vector where
  "CertOperationTotal = (''neoline_cert_operation_total'', [''op_type'', ''result''])"

definition CertRenewFailuresTotal :: vector where
  "CertRenewFailuresTotal = (''neoline_cert_renew_failures_total'', [])"

definition registered_metrics :: "vector list" where
  "registered_metrics = [ProbesTotal, ProbeDuration, ProbeErrorsTotal, StatusChangesTotal, MonitorStatus,
     CertificateDaysRemaining, EnabledMonitors, ReconcileTotal, ServerCertListTotal, ServerCertBundleDownloadTotal,
     ManagedCertValidity, CertOperationTotal, CertRenewFailuresTotal]"

lemmas vector_defs = ProbesTotal_def ProbeDuration_def ProbeErrorsTotal_def StatusChangesTotal_def MonitorStatus_def
  CertificateDaysRemaining_def EnabledMonitors_def ReconcileTotal_def ServerCertListTotal_def
  ServerCertBundleDownloadTotal_def ManagedCertValidity_def CertOperationTotal_def CertRenewFailuresTotal_def

text \<open>\<open>MustRegister\<close> panics when a name is registered twice.\<close>

lemma metrics_registered: "distinct (map fst registered_metrics)"
  by (simp add: registered_metrics_def vector_defs)

section \<open>Recording\<close>

type_synonym series = "string \<times> string list"

record metrics =
  mt_counters :: "series \<Rightarrow> nat"
  mt_gauges :: "series \<Rightarrow> int"
  mt_observed :: "series \<Rightarrow> int list"

definition WithLabelValues :: "vector \<Rightarrow> string list \<Rightarrow> series option" where
  "WithLabelValues v vals = (if length vals = length (snd v) then Some (fst v, vals) else None)"

definition Inc :: "vector \<Rightarrow> string list \<Rightarrow> metrics \<Rightarrow> metrics option" where
  "Inc v vals m = map_option (\<lambda>k. m\<lparr>mt_counters := (mt_counters m)(k := mt_counters m k + 1)\<rparr>) (WithLabelValues v vals)"

definition SetGauge :: "vector \<Rightarrow> string list \<Rightarrow> int \<Rightarrow> metrics \<Rightarrow> metrics option" where
  "SetGauge v vals x m = map_option (\<lambda>k. m\<lparr>mt_gauges := (mt_gauges m)(k := x)\<rparr>) (WithLabelValues v vals)"

definition Observe :: "vector \<Rightarrow> string list \<Rightarrow> int \<Rightarrow> metrics \<Rightarrow> metrics option" where
  "Observe v vals x m =
     map_option (\<lambda>k. m\<lparr>mt_observed := (mt_observed m)(k := mt_observed m k @ [x])\<rparr>) (WithLabelValues v vals)"

lemmas metric_ops = Inc_def SetGauge_def Observe_def WithLabelValues_def vector_defs

definition StatusCode :: "string \<Rightarrow> int" where
  "StatusCode status =
     (if status = StatusHealthy then 1 else if status = StatusWarning then 2 else if status = StatusCritical then 3
      else if status = StatusDown then 4 else 0)"

definition certOpMetricType :: "string \<Rightarrow> string" where
  "certOpMetricType opType =
     (if opType = CertOpTypeIssue then ''issue'' else if opType = CertOpTypeRenew then ''renew''
      else if opType = CertOpTypeRevoke then ''revoke'' else ''unknown'')"

definition RecordCertOperation :: "string \<Rightarrow> string \<Rightarrow> metrics \<Rightarrow> metrics option" where
  "RecordCertOperation opType result = Inc CertOperationTotal [opType, result]"

definition RefreshManagedCertValidity :: "(string \<Rightarrow> nat) \<Rightarrow> metrics \<Rightarrow> metrics option" where
  "RefreshManagedCertValidity counts m =
     fold (\<lambda>v r. Option.bind r (SetGauge ManagedCertValidity [v] (of_nat (counts v))))
       [''Missing'', ''Valid'', ''RenewalDue'', ''Expired'', ''Revoked''] (Some m)"

text \<open>What the scheduler records of a completed probe, and of a change of status.\<close>

definition recordMetrics :: "Monitor \<Rightarrow> CheckResult \<Rightarrow> metrics \<Rightarrow> metrics option" where
  "recordMetrics m result mt =
     Option.bind (Inc ProbesTotal [mon_Kind m, res_Status result] mt) (\<lambda>mt.
     Option.bind (Observe ProbeDuration [mon_Kind m] (res_DurationMS result) mt) (\<lambda>mt.
     Option.bind (SetGauge MonitorStatus [mon_ID m, mon_ServerID m, mon_Kind m] (StatusCode (res_Status result)) mt) (\<lambda>mt.
     Option.bind (if res_ErrorStage result \<noteq> [] \<and> res_ErrorStage result \<noteq> ''none''
       then Inc ProbeErrorsTotal [mon_Kind m, res_ErrorStage result] mt else Some mt) (\<lambda>mt.
     case res_Certificate result of
       None \<Rightarrow> Some mt
     | Some cert \<Rightarrow>
         SetGauge CertificateDaysRemaining [mon_ID m, mon_ServerID m] (sint (ci_DaysRemaining cert)) mt))))"

definition record_change :: "Monitor \<Rightarrow> string \<Rightarrow> CheckResult \<Rightarrow> metrics \<Rightarrow> metrics option" where
  "record_change m prevStatus result mt =
     (if prevStatus \<noteq> [] \<and> prevStatus \<noteq> res_Status result
      then Inc StatusChangesTotal [mon_Kind m, prevStatus, res_Status result] mt else Some mt)"

text \<open>None of the calls panics.\<close>

lemma recorded:
  "RecordCertOperation opType result mt \<noteq> None" "RefreshManagedCertValidity counts mt \<noteq> None"
  "recordMetrics m res mt \<noteq> None" "record_change m prev res mt \<noteq> None"
  by (simp_all add: RecordCertOperation_def RefreshManagedCertValidity_def recordMetrics_def record_change_def metric_ops
      split: option.split)

section \<open>The validity of the certificates\<close>

definition count_certificate :: "gotime \<Rightarrow> ManagedCertificate \<Rightarrow> (string \<Rightarrow> nat) \<Rightarrow> string \<Rightarrow> nat" where
  "count_certificate now cert counts =
     (case ComputeValidity cert now of (validity, _) \<Rightarrow> counts(validity := counts validity + 1))"

partial_function (option) count_validity ::
  "(int \<Rightarrow> string \<Rightarrow> err + (ManagedCertificate list \<times> string)) \<Rightarrow> gotime \<Rightarrow> (string \<Rightarrow> nat) \<Rightarrow> string \<Rightarrow>
    (err + (string \<Rightarrow> nat)) option" where
  "count_validity fetch now counts token =
     (case fetch 500 token of
        Inl e \<Rightarrow> Some (Inl e)
      | Inr p \<Rightarrow> (case p of (certs, next_token) \<Rightarrow>
          if next_token = []
          then Some (Inr (fold (count_certificate now) certs counts))
          else count_validity fetch now
            (fold (count_certificate now) certs counts)
            next_token))"

text \<open>The pages of one refresh see one database.\<close>

definition refreshValidityMetrics :: "'c mongo \<Rightarrow> gotime \<Rightarrow> 'c db \<Rightarrow> metrics \<Rightarrow> metrics option option" where
  "refreshValidityMetrics M now s m =
     map_option (\<lambda>r. case r of Inl e \<Rightarrow> Some m | Inr counts \<Rightarrow> RefreshManagedCertValidity counts m)
       (count_validity (\<lambda>limit token. ListManagedCertificates M limit token s) now (\<lambda>_. 0) [])"

text \<open>\<open>Reconcile\<close>, each of whose parts reads the clock; it gives the operations it starts and the requests it sends.\<close>

definition Reconcile ::
  "'c mongo \<Rightarrow> notifier option \<Rightarrow> gotime \<Rightarrow> gotime \<Rightarrow> gotime \<Rightarrow> gotime \<Rightarrow> string list \<Rightarrow> 'c db \<Rightarrow> metrics \<Rightarrow>
    (string list \<times> Payload request list \<times> 'c db \<times> metrics option) option" where
  "Reconcile M N now now' now'' later uuids s m =
     (case reconcileAutoRenew M now uuids s of
        (started, s) \<Rightarrow>
          map_option (\<lambda>m.
            case (case N of None \<Rightarrow> ([], s) | Some N \<Rightarrow> ScanValidityNotifications M N now'' later s) of
              (sent, s) \<Rightarrow> (started, sent, s, m))
            (refreshValidityMetrics M now' s m))"

definition validity_count :: "gotime \<Rightarrow> ManagedCertificate list \<Rightarrow> string \<Rightarrow> nat" where
  "validity_count now certs v = length (filter (\<lambda>cert. fst (ComputeValidity cert now) = v) certs)"

lemma count_one: "count_certificate now cert (validity_count now out) = validity_count now (out @ [cert])"
  by (auto simp: count_certificate_def validity_count_def split: prod.split)

lemma count_page: "fold (count_certificate now) certs (validity_count now out) = validity_count now (out @ certs)"
  by (induction certs arbitrary: out) (simp_all add: count_one)

text \<open>The loop counts what \<open>listAll\<close> of the same pages collects.\<close>

lemma counts_drained:
  assumes "listAllFrom fetch out token = Some r" and "fetch' 500 = fetch 200"
  shows "count_validity fetch' now (validity_count now out) token = Some (map_sum id (validity_count now) r)"
proof -
  have "fetch' 500 = fetch 200 \<longrightarrow>
      count_validity fetch' now (validity_count now out) token = Some (map_sum id (validity_count now) r)"
  proof (rule listAllFrom.raw_induct [where P = "\<lambda>fetch out token r. fetch' 500 = fetch 200 \<longrightarrow>
        count_validity fetch' now (validity_count now out) token = Some (map_sum id (validity_count now) r)", OF _ assms(1)],
      intro impI)
    fix loop :: "(int \<Rightarrow> string \<Rightarrow> err + ManagedCertificate list \<times> string) \<Rightarrow> ManagedCertificate list \<Rightarrow> string \<Rightarrow>
        (err + ManagedCertificate list) option"
      and fetch out token r
    assume IH: "\<And>fetch out token r. loop fetch out token = Some r \<Longrightarrow> fetch' 500 = fetch 200 \<longrightarrow>
          count_validity fetch' now (validity_count now out) token = Some (map_sum id (validity_count now) r)"
      and run: "(case fetch 200 token of Inl e \<Rightarrow> Some (Inl e)
          | Inr p \<Rightarrow> (case p of (items, next_token) \<Rightarrow>
              if next_token = [] then Some (Inr (out @ items)) else loop fetch (out @ items) next_token)) = Some r"
      and same: "fetch' 500 = fetch 200"
    show "count_validity fetch' now (validity_count now out) token = Some (map_sum id (validity_count now) r)"
      using run same IH [of fetch]
      by (subst count_validity.simps) (auto simp: count_page split: sum.splits if_splits)
  qed
  with assms(2) show ?thesis by simp
qed

lemma validity_total:
  "(\<Sum>v \<leftarrow> [''Missing'', ''Valid'', ''RenewalDue'', ''Expired'', ''Revoked'']. validity_count now certs v) = length certs"
proof (induction certs)
  case (Cons cert certs)
  have "fst (ComputeValidity cert now) \<in> {''Missing'', ''Valid'', ''RenewalDue'', ''Expired'', ''Revoked''}"
    by (simp add: ComputeValidity_def ComputeVersionValidity_def split: option.split)
  with Cons.IH show ?case by (auto simp: validity_count_def)
qed (simp add: validity_count_def)

lemma validity_gauges:
  assumes "RefreshManagedCertValidity counts m = Some m'"
  shows "v \<in> {''Missing'', ''Valid'', ''RenewalDue'', ''Expired'', ''Revoked''} \<Longrightarrow>
    mt_gauges m' (fst ManagedCertValidity, [v]) = of_nat (counts v)"
  using assms by (auto simp: RefreshManagedCertValidity_def metric_ops)

text \<open>
  After a refresh the five gauges are the numbers of certificates in each state, and together count every
  certificate once.
\<close>

lemma validity_refreshed:
  assumes "enumerates (managedCertificates M) (\<lambda>_. True) cert_newest_first (st_managedCertificates s) certs"
    and "int (length certs) + 400 \<le> max_int64"
  shows "\<exists>m'. refreshValidityMetrics M now s m = Some (Some m') \<and>
    (\<forall>v \<in> {''Missing'', ''Valid'', ''RenewalDue'', ''Expired'', ''Revoked''}.
      mt_gauges m' (fst ManagedCertValidity, [v]) = of_nat (validity_count now certs v)) \<and>
    (\<Sum>v \<leftarrow> [''Missing'', ''Valid'', ''RenewalDue'', ''Expired'', ''Revoked''].
      mt_gauges m' (fst ManagedCertValidity, [v])) = of_nat (length certs)"
proof -
  let ?fetch = "\<lambda>limit token. findPage (managedCertificates M) (\<lambda>_. True) limit token cert_newest_first (st_managedCertificates s)"
  have "listAllFrom ?fetch [] [] = Some (Inr certs)"
    using listing_collects [OF assms, of "[]" 0 "[]"] by (simp add: parsePageToken_def)
  from counts_drained [OF this, of ?fetch now]
  have "count_validity ?fetch now (\<lambda>_. 0) [] = Some (Inr (validity_count now certs))"
    by (simp add: validity_count_def [abs_def] findPage_def normalizeLimit_def)
  then obtain m' where m': "RefreshManagedCertValidity (validity_count now certs) m = Some m'"
      "refreshValidityMetrics M now s m = Some (Some m')"
    using recorded(2) [of "validity_count now certs" m] by (auto simp: refreshValidityMetrics_def ListManagedCertificates_def)
  with validity_gauges [OF m'(1)] validity_total [of now certs] show ?thesis
    by (intro exI [of _ m']) (simp flip: of_nat_add)
qed

end
