(* ===== verification/Boot.thy ===== *)
theory Boot
  imports Sessions Archive Ssh
begin

text \<open>
  How a server starts: the first init function of cmd/server/main.go, with \<open>New\<close> of store.go and
  \<open>EnsureCertificateIndexes\<close> of internal/bootstrap. The clients are configured in the framework Butterfly;
  \<open>butterfly\<close> tells which of them are, and what their pings answer. The second init function is in
  \<open>Lifecycle\<close>.
\<close>

section \<open>Configuration\<close>

record mongoConfig =
  mg_ClientKey :: string
  mg_Database :: string

record redisConfig =
  rd_SessionClientKey :: string

record archiveConfig =
  av_ClientKey :: string
  av_Prefix :: string
  av_BatchSize :: int
  av_FlushIntervalSeconds :: int

record runtimeConfig =
  rc_Mongo :: mongoConfig
  rc_Redis :: redisConfig
  rc_Archive :: archiveConfig
  rc_SSH :: ssh_config

record butterfly =
  bf_mongo :: "string \<Rightarrow> bool"
  bf_mongo_Ping :: "string \<Rightarrow> err option"
  bf_redis :: "string \<Rightarrow> bool"
  bf_redis_Ping :: "string \<Rightarrow> err option"
  bf_s3 :: "string \<Rightarrow> bool"
  bf_s3_bucket :: "string \<Rightarrow> string"

section \<open>The store\<close>

record MongoStore =
  ms_client :: string
  ms_database :: string
  ms_sessionClient :: string

definition NewStore :: "(string \<Rightarrow> string) \<Rightarrow> butterfly \<Rightarrow> string \<Rightarrow> string \<Rightarrow> string \<Rightarrow> err + MongoStore" where
  "NewStore q B clientKey database sessionClientKey =
     (let clientKey = (if clientKey = [] then ''primary'' else clientKey);
          database = (if database = [] then ''neo_line'' else database);
          sessionClientKey = (if sessionClientKey = [] then ''session'' else sessionClientKey)
      in if \<not> bf_mongo B clientKey
         then Inl (Opaque (''mongodb client '' @ q clientKey @ '' is not configured; set store.mongo.'' @ clientKey @
                ''.uri in Butterfly configuration''))
         else if \<not> bf_redis B sessionClientKey
         then Inl (Opaque (''redis session client '' @ q sessionClientKey @ '' is not configured; set store.redis.'' @
                sessionClientKey @ '' in Butterfly configuration''))
         else case bf_mongo_Ping B clientKey of
           Some e \<Rightarrow> Inl e
         | None \<Rightarrow>
            (case bf_redis_Ping B sessionClientKey of
               Some e \<Rightarrow> Inl e
             | None \<Rightarrow> Inr \<lparr>ms_client = clientKey, ms_database = database, ms_sessionClient = sessionClientKey\<rparr>))"

section \<open>Indexes\<close>

datatype indexes =
    AuthIndexes | ServerIndexes | MonitorIndexes | AuditIndexes | GroupIndexes | NotifyGroupIndexes
  | DNSProviderAccountIndexes | CertificateIssuerIndexes | ManagedCertificateIndexes | CertificateOperationIndexes
  | CertificateAccessTokenIndexes | McpTokenIndexes | ResultIndexes

text \<open>The calls one after the other until one fails; \<open>made\<close> is the list of the indexes created so far.\<close>

fun ensure_each :: "(indexes \<Rightarrow> err option) \<Rightarrow> (indexes \<times> string) list \<Rightarrow> indexes list \<Rightarrow> err option \<times> indexes list" where
  "ensure_each ensure [] made = (None, made)"
| "ensure_each ensure ((x, what) # xs) made =
     (case ensure x of
        Some e \<Rightarrow> (Some (Context what e), made)
      | None \<Rightarrow> ensure_each ensure xs (made @ [x]))"

definition EnsureCertificateIndexes :: "(indexes \<Rightarrow> err option) \<Rightarrow> indexes list \<Rightarrow> err option \<times> indexes list" where
  "EnsureCertificateIndexes ensure made = ensure_each ensure
     [(NotifyGroupIndexes, ''ensure notify group indexes''),
      (DNSProviderAccountIndexes, ''ensure dns provider account indexes''),
      (CertificateIssuerIndexes, ''ensure certificate issuer indexes''),
      (ManagedCertificateIndexes, ''ensure managed certificate indexes''),
      (CertificateOperationIndexes, ''ensure certificate operation indexes''),
      (CertificateAccessTokenIndexes, ''ensure certificate access token indexes'')] made"

definition ensure_indexes :: "(indexes \<Rightarrow> err option) \<Rightarrow> err option \<times> indexes list" where
  "ensure_indexes ensure =
     (case ensure_each ensure
        [(AuthIndexes, ''ensure auth indexes''), (ServerIndexes, ''ensure server indexes''),
         (MonitorIndexes, ''ensure monitor indexes''), (AuditIndexes, ''ensure audit indexes''),
         (GroupIndexes, ''ensure group indexes'')] [] of
        (Some e, made) \<Rightarrow> (Some e, made)
      | (None, made) \<Rightarrow>
         (case EnsureCertificateIndexes ensure made of
            (Some e, made) \<Rightarrow> (Some e, made)
          | (None, made) \<Rightarrow>
              ensure_each ensure
                [(McpTokenIndexes, ''ensure mcp token indexes''), (ResultIndexes, ''ensure result indexes'')] made))"

section \<open>The administrator\<close>

definition default_admin_email :: string where
  "default_admin_email = ''admin@neo-line.local''"

text \<open>\<open>getenv\<close> is \<open>os.Getenv\<close>.\<close>

definition bootstrapAdmin ::
  "(string \<Rightarrow> string) \<Rightarrow> (string \<Rightarrow> err + string) \<Rightarrow> ('c, User) coll \<Rightarrow> (string \<Rightarrow> string) \<Rightarrow> gotime \<Rightarrow> string \<Rightarrow> 'c \<Rightarrow>
    (err + unit) \<times> 'c" where
  "bootstrapAdmin ul hash_password U getenv now uuid c =
     (if getenv ''ADMIN_PASSWORD'' = [] then (Inr (), c)
      else EnsureAdminUser ul hash_password U now uuid
        (if getenv ''ADMIN_EMAIL'' = [] then default_admin_email else getenv ''ADMIN_EMAIL'')
        (getenv ''ADMIN_PASSWORD'') c)"

section \<open>The archive\<close>

definition bootArchiver :: "(string \<Rightarrow> string) \<Rightarrow> butterfly \<Rightarrow> archiveConfig \<Rightarrow> err + (archive_config \<times> archive) option" where
  "bootArchiver q B cfg =
     (if av_ClientKey cfg = [] then Inr None
      else if \<not> bf_s3 B (av_ClientKey cfg) \<or> bf_s3_bucket B (av_ClientKey cfg) = []
      then Inl (Opaque (''archive.client_key '' @ q (av_ClientKey cfg) @ '' is not configured; set store.s3.'' @
             av_ClientKey cfg @ ''.bucket in Butterfly configuration''))
      else Inr (NewArchiver True \<lparr>ac_Bucket = bf_s3_bucket B (av_ClientKey cfg), ac_Prefix = av_Prefix cfg,
             ac_BatchSize = av_BatchSize cfg, ac_FlushInterval = wrap64 (av_FlushIntervalSeconds cfg * Second)\<rparr>))"

section \<open>The first init function\<close>

record ('k, 'h) booted =
  bt_store :: MongoStore
  bt_archiver :: "(archive_config \<times> archive) option"
  bt_sshRunner :: "('k, 'h) Runner option"

text \<open>\<open>ssh\<close> is what \<open>NewRunner\<close> needs of the file system and the SSH library.\<close>

definition init_store ::
  "(string \<Rightarrow> string) \<Rightarrow> (string \<Rightarrow> string) \<Rightarrow> (string \<Rightarrow> err + string) \<Rightarrow> ('c, User) coll \<Rightarrow> (string \<Rightarrow> string) \<Rightarrow>
    butterfly \<Rightarrow> (indexes \<Rightarrow> err option) \<Rightarrow> (ssh_config \<Rightarrow> err + ('k, 'h) Runner option) \<Rightarrow> gotime \<Rightarrow> string \<Rightarrow>
    runtimeConfig \<Rightarrow> 'c \<Rightarrow> (err + ('k, 'h) booted) \<times> 'c" where
  "init_store ul q hash_password U getenv B ensure ssh now uuid cfg c =
     (case NewStore q B (mg_ClientKey (rc_Mongo cfg)) (mg_Database (rc_Mongo cfg)) (rd_SessionClientKey (rc_Redis cfg)) of
        Inl e \<Rightarrow> (Inl (Context ''connect MongoDB'' e), c)
      | Inr st \<Rightarrow>
         (case ensure_indexes ensure of
            (Some e, _) \<Rightarrow> (Inl e, c)
          | (None, _) \<Rightarrow>
             (case bootstrapAdmin ul hash_password U getenv now uuid c of
                (Inl e, c) \<Rightarrow> (Inl (Context ''bootstrap admin user'' e), c)
              | (Inr _, c) \<Rightarrow>
                 (case bootArchiver q B (rc_Archive cfg) of
                    Inl e \<Rightarrow> (Inl (Context ''init archive'' e), c)
                  | Inr archiver \<Rightarrow>
                     (case ssh (rc_SSH cfg) of
                        Inl e \<Rightarrow> (Inl (Context ''init ssh'' e), c)
                      | Inr runner \<Rightarrow> (Inr \<lparr>bt_store = st, bt_archiver = archiver, bt_sshRunner = runner\<rparr>, c))))))"

section \<open>What a started server has\<close>

lemma ensured:
  "ensure_each ensure xs made = (None, made') \<Longrightarrow> made' = made @ map fst xs \<and> (\<forall>x \<in> fst ` set xs. ensure x = None)"
  by (induction ensure xs made rule: ensure_each.induct) (auto split: option.splits)

text \<open>When the init function goes on to the administrator, every index has been created.\<close>

lemma all_indexes:
  assumes "ensure_indexes ensure = (None, made)"
  shows "set made = UNIV" and "\<forall>x. ensure x = None"
proof -
  have "x \<in> set made \<and> ensure x = None" for x
    using assms by (cases x) (auto simp: ensure_indexes_def EnsureCertificateIndexes_def split: option.splits prod.splits dest!: ensured)
  then show "set made = UNIV" "\<forall>x. ensure x = None" by auto
qed

text \<open>Without a password in the environment no account is touched.\<close>

lemma no_password_no_change: "getenv ''ADMIN_PASSWORD'' = [] \<Longrightarrow> bootstrapAdmin ul hash_password U getenv now uuid c = (Inr (), c)"
  by (simp add: bootstrapAdmin_def)

lemma init_storeE:
  assumes "init_store ul q hash_password U getenv B ensure ssh now uuid cfg c = (Inr b, c')"
  obtains u made where "bootstrapAdmin ul hash_password U getenv now uuid c = (Inr u, c')" "ensure_indexes ensure = (None, made)"
    "bootArchiver q B (rc_Archive cfg) = Inr (bt_archiver b)" "ssh (rc_SSH cfg) = Inr (bt_sshRunner b)"
  using assms by (auto simp: init_store_def split: sum.splits prod.splits option.splits)

text \<open>The account that an upsert of a reliable database has written is found.\<close>

lemma admin_found:
  assumes "mongo_collection U docs users_clash ok" and "ok c"
    and "EnsureAdminUser ul hash_password U now uuid email password c = (Inr u, c')"
    and "\<And>P e. FindOne U P c' = Inl e \<Longrightarrow> IsNotFound e"
  shows "\<exists>user. FindOne U (\<lambda>x. usr_Email x = normalizeEmail ul email) c' = Inr user"
proof -
  let ?email = "normalizeEmail ul email"
  obtain f d where u: "upsert U (\<lambda>x. usr_Email x = ?email) f d c = (Inr u, c')" and
    "usr_Email d = ?email" "\<And>x. usr_Email x = ?email \<Longrightarrow> usr_Email (f x) = ?email"
    using assms(3) by (auto simp: EnsureAdminUser_def Let_def and_then_eq_iff)
  then show ?thesis
    using mongo_collection.upsert_find [OF assms(1,2) u, where res = "FindOne U (\<lambda>x. usr_Email x = ?email) c'"] assms(4)
    by (auto simp: users_clash_def)
qed

text \<open>
  Once a server has started with a password in the environment, the configured administrator can log in
  with it, and is an administrator.
\<close>

lemma configured_admin_logs_in:
  assumes "mongo_collection U docs users_clash ok" and "ok c"
    and "init_store ul q hash_password U getenv B ensure ssh now uuid cfg c = (Inr b, c')"
    and "getenv ''ADMIN_PASSWORD'' \<noteq> []"
    and "\<And>h. hash_password (getenv ''ADMIN_PASSWORD'') = Inr h \<Longrightarrow> matches h (getenv ''ADMIN_PASSWORD'')"
    and "\<And>P e. FindOne U P c' = Inl e \<Longrightarrow> IsNotFound e"
  shows "\<exists>user. Authenticate ul matches U (if getenv ''ADMIN_EMAIL'' = [] then default_admin_email else getenv ''ADMIN_EMAIL'')
      (getenv ''ADMIN_PASSWORD'') c' = Inr user \<and> usr_Role user = RoleAdmin"
proof -
  let ?email = "if getenv ''ADMIN_EMAIL'' = [] then default_admin_email else getenv ''ADMIN_EMAIL''"
  obtain u where run: "EnsureAdminUser ul hash_password U now uuid ?email (getenv ''ADMIN_PASSWORD'') c = (Inr u, c')"
    using assms(3,4) by (auto elim!: init_storeE simp: bootstrapAdmin_def)
  obtain user where found: "FindOne U (\<lambda>x. usr_Email x = normalizeEmail ul ?email) c' = Inr user"
    using admin_found [OF assms(1,2) run] assms(6) by metis
  with admin_stored [OF assms(1,2) run found] assms(5) show ?thesis by (simp add: Authenticate_def)
qed

end
