(* ===== verification/Spec2Isabelle.thy ===== *)
theory Spec2Isabelle
  imports Prelude Errors Documents Mongo Database Paging OpStore CertStore Validity Domains Sanitize
    ResourceStore CertManager Issuance Notify CertNotify CertValidate Execution OpRunner Attempts Issuers IssuerLife
    Alert ServerStore Health Redis RateLimit Sessions Uptime Listing ConfigIO ConfigImport ImportProps
    AuditTrail Access LoginLimit CertDistribution McpAccess Probe Scheduler Archive StatusView Ssh
    Wire Services ConfigApi StatusApi CertServices Secrecy McpTools Routes Surface
    Diagnostics Lego Heartbeat Lifecycle Metrics Boot
begin

text \<open>
  A verification of the Go server of neo-line: a monitor of servers and the certificates on them. Its
  state is in MongoDB (documents) and Redis (sessions, counters, cache); several replicas of the
  process share it, and the only synchronisation between replicas are guarded single-document writes.

  \<^bold>\<open>The parts of the program\<close> and the theories that model them:

  \<^item> \<open>Prelude\<close>: Go's machine integers, times and durations, the functions of \<open>strings\<close>, \<open>strconv\<close> and
    \<open>sort\<close> the program calls, early return (\<open>and_then\<close>) and the shared lemmas. \<open>Errors\<close>: error values,
    sentinels and \<open>errors.Is\<close>, and the operation stage of internal/certmanager/diagnostics.go.
  \<^item> \<open>Documents\<close>, \<open>Mongo\<close>, \<open>Database\<close>: one record per Go struct of internal/store; the driver's calls as
    the record \<open>coll\<close> with the locale \<open>mongo_collection\<close> of what they promise (any of them may fail; a
    guarded write replaces one matching document; unique indexes), interpreted on an in-memory
    collection; the database as the record of all collections with its unique indexes.
  \<^item> internal/store: \<open>Paging\<close> (findPage), \<open>OpStore\<close> (certificate_operations.go and
    certificate_operation_lease.go), \<open>CertStore\<close> (managed_certificates.go), \<open>ResourceStore\<close> (groups, notify
    groups, issuers, DNS accounts, tokens), \<open>ServerStore\<close> and \<open>Health\<close> (servers, monitors, results and the
    aggregated health of store.go and runtime.go), \<open>Redis\<close>, \<open>RateLimit\<close> and \<open>Sessions\<close> (user.go,
    ratelimit.go, cache.go, settings.go), \<open>Uptime\<close> (uptime.go).
  \<^item> internal/certstate: \<open>Validity\<close>.
  \<^item> internal/certmanager: \<open>Domains\<close>, \<open>Sanitize\<close>, \<open>CertValidate\<close> (domains.go, sanitize.go, certvalidate.go),
    \<open>CertManager\<close> and \<open>Issuance\<close> (managed_certificate.go, renew.go, revoke.go, version.go,
    server_distribution.go, destructive.go), \<open>Execution\<close> (issue.go, revoke.go, dns01.go: the run of an
    operation against the CA), \<open>OpRunner\<close> and \<open>Attempts\<close> (operation_lease.go: polling, claiming, retrying),
    \<open>Issuers\<close> and \<open>IssuerLife\<close> (presets.go, manager.go, cloudflare.go).
  \<^item> internal/certnotify, internal/notify and internal/alert: \<open>CertNotify\<close>, \<open>Notify\<close>, \<open>Alert\<close>.
  \<^item> internal/configio: \<open>Listing\<close> (listAll), \<open>ConfigIO\<close> (file.go, export.go), \<open>ConfigImport\<close> and
    \<open>ImportProps\<close> (import.go).
  \<^item> internal/probe, internal/scheduler, internal/archive: \<open>Probe\<close> (one check of a monitor, with its
    retries), \<open>Scheduler\<close> (the ticks and the goroutines of the checks as interleaved steps), \<open>Archive\<close> (the
    buffer and the batches of archived results).
  \<^item> internal/statusview: \<open>StatusView\<close> (the public status page).
  \<^item> internal/ssh, ssh_service.go and mcpserver/ssh.go: \<open>Ssh\<close> (remote commands; the SSH library is a
    parameter).
  \<^item> internal/connectapi and internal/mcpserver: \<open>AuditTrail\<close> (the audit log of store.go), \<open>Access\<close>
    (errors.go, context.go, interceptors.go), \<open>LoginLimit\<close> (ratelimit.go, auth_service.go),
    \<open>CertDistribution\<close> (cert_distribution_interceptors.go, server_certificate_service.go), \<open>McpAccess\<close>
    (http.go, audit.go), \<open>McpTools\<close> (server.go: the tools and their table), \<open>Wire\<close> (conv.go: the messages
    and the conversions), \<open>Services\<close> and \<open>CertServices\<close> (the handlers of the services of the monitoring
    configuration and of the certificates), \<open>StatusApi\<close> (status_service.go with its cache).
  \<^item> pkg/proto/neoline/v1/neolinev1connect: \<open>Routes\<close> (the generated clients and handlers), \<open>Surface\<close> (the routes
    of service.go and who may call them).
  \<^item> acme.go and diagnostics.go of internal/certmanager: \<open>Lego\<close> (the client of the CA over the lego library) and
    \<open>Diagnostics\<close> (the attributes and classes of errors that are logged), \<open>Heartbeat\<close> (the renewal of leases of
    operation_lease.go), \<open>Lifecycle\<close> (the background tasks of manager.go and the teardown of main.go as
    interleaved steps).
  \<^item> internal/metric with metrics.go and reconciler.go of internal/certmanager: \<open>Metrics\<close>. cmd/server/main.go and
    internal/bootstrap: \<open>Boot\<close> (the init functions).

  \<^bold>\<open>How they interact.\<close> The certificate manager submits an operation by inserting a document; a runner
  of some replica claims it with a lease (\<open>TryClaimCertificateOperation\<close>), runs it against the CA with
  the configuration it was submitted with, and ends by activating a version under the lease, by
  scheduling a retry or by failing the operation. Notifications follow the outcome. Probes write
  results, results update the monitor and its server's health, changes of status raise alerts. Both
  halves use the same documents, so deleting a server also detaches its certificates and tokens.

  \<^bold>\<open>The model.\<close> An operation of the code is a definition with the source's name, which takes the state
  it reads and returns its result beside the new state; a prefix \<open>manager\<close> tells a manager method from
  the store method of the same name. Errors are values (\<open>err + 'a\<close>), strings are byte lists, integers
  have their width where it can matter (\<open>u32\<close>, \<open>int64\<close> arithmetic with its wrap-around, durations).
  Times, UUIDs and random bytes are arguments. A document value is a record, \<open>omitempty\<close> pointers are
  options. Cursors without a sort order return the matching documents in any order.

  \<^bold>\<open>What is not the program\<close> is a parameter: the MongoDB driver (\<open>Mongo\<close>), the Redis commands (\<open>Redis\<close>),
  the ACME library (\<open>acme_client\<close>, whose runs are trees of the callbacks it makes), DNS providers, the
  HTTP client, PEM and X.509 parsing, bcrypt, JSON, IDNA and Unicode tables. What the proofs use of them
  is stated as locale assumptions, each interpreted on a concrete instance.

  \<^bold>\<open>What the lemmas show.\<close> \<open>OpStore\<close>: every store call is a step of the operation state machine, terminal
  states are final, a valid lease is exclusive, expired ones can be taken over. \<open>CertStore\<close>,
  \<open>Issuance\<close>: version rotation, what an update may not touch, what blocks deletion and distribution,
  which certificates renew. \<open>Attempts\<close>: every attempt gives its lease back, failures close or retry
  within the deadline, DNS records are accounted for. \<open>IssuerLife\<close>: the registration state machine.
  \<open>CertNotify\<close>, \<open>Alert\<close>, \<open>RateLimit\<close>: how often something is sent or let through. \<open>Health\<close>, \<open>Uptime\<close>:
  aggregates equal their specification over multisets of documents. \<open>Sessions\<close>: a login lives until it
  expires or is deleted. \<open>Listing\<close>, \<open>ImportProps\<close>: a drain of pages ends and is complete, an import
  obeys its mode and counts every entry. \<open>Validity\<close>, \<open>Domains\<close>, \<open>CertValidate\<close>, \<open>Sanitize\<close>: pure functions
  against their specifications. \<open>Access\<close>, \<open>LoginLimit\<close>, \<open>CertDistribution\<close>,
  \<open>McpAccess\<close>: what a request must present before it reaches a handler, and that it leaves one audit
  entry. \<open>Scheduler\<close>: an invariant of all interleavings (no monitor is checked twice at once, at most 32
  probes, dispatches are spaced), that the checks drain, what a tick dispatches. \<open>Probe\<close>: retries, status
  codes, certificate thresholds. \<open>Archive\<close>: every result is accounted for, in order. \<open>StatusView\<close>: the page
  shows exactly what is enabled. \<open>Ssh\<close>: commands run only for administrators on servers that opt in.
  \<open>ConfigApi\<close>: whatever a client sends, it cannot write observations, and writing back what was read
  changes nothing. \<open>Secrecy\<close>: the reads of the API do not depend on secrets. \<open>StatusApi\<close>: how old a cached
  page can be. \<open>McpTools\<close>: no tool widens an access, and the audit names the resource. \<open>Surface\<close>: the paths
  that are served, and what they need. \<open>Lego\<close>: what fails says at which stage, and the CA is reached only as the
  stored account. \<open>Diagnostics\<close>: the log names classes of errors and not their texts. \<open>Heartbeat\<close>: an attempt that renews in
  time is not disturbed. \<open>Lifecycle\<close>: an invariant of all interleavings of starting, ending and closing tasks.
  \<open>Metrics\<close>: the gauges count every certificate once. \<open>Boot\<close>: the configured administrator can log in.

  \<^bold>\<open>Bounds and fuel.\<close> Only \<open>complete\<close> counts its steps. Loops are structural recursions or folds over the lists
  they range over; the retry delay is a loop of \<open>retry_count - 1\<close> rounds; \<open>listAllFrom\<close>, which may run
  for ever for an arbitrary fetch function, is a \<open>partial_function (option)\<close>, and its termination on
  the store's listings is a theorem; \<open>count_validity\<close> drains the same pages and is proved equal to it. The number
  that \<open>complete\<close> of \<open>Lifecycle\<close> takes is the number of atomic sections of the call.

  \<^bold>\<open>Not modelled.\<close> The text of log lines (\<open>Diagnostics\<close> has their attributes), tracing and contexts (a
  cancelled context is an error of the call it reaches); goroutines outside \<open>Scheduler\<close>, \<open>Archive\<close> and
  \<open>Lifecycle\<close> (each tick and each heartbeat is one step); the truncation of times to milliseconds in BSON; the
  encoding of messages in the generated code under pkg/; interfaces without behaviour (interface.go, the
  forwarding store_mongo.go); the random jitter of retries; test doubles (fake_dns.go, recording.go); the
  framework that calls the functions of main.go; the TypeScript front end.
\<close>

end
